(* ===== verification/Prelude.thy ===== *)
theory Prelude
  imports Main "HOL-Library.AList" "HOL-Library.Multiset" "HOL-Library.Sublist"
begin

text \<open>
  Shared vocabulary of the development: the fallible results of the Rust code, association
  lists with the insertion order of \<^verbatim>\<open>indexmap::IndexMap\<close> (and one fixed, arbitrary
  iteration order of \<^verbatim>\<open>HashMap\<close>), the operations of \<^verbatim>\<open>Vec\<close> and
  \<^verbatim>\<open>str\<close> the sources use, and the generic lemmas the components rely on.

  A Rust \<^verbatim>\<open>String\<close> is a HOL \<open>string\<close> holding its UTF-8 bytes; a
  \<^verbatim>\<open>DateTime<Utc>\<close> is an \<open>int\<close>.
\<close>

named_theorems model_defs \<open>definitions of pure accessors, unfolded by component proofs\<close>

type_synonym timestamp = int
type_synonym html = string

section \<open>Vectors\<close>

text \<open>\<^verbatim>\<open>Vec::iter().position(p)\<close>: the index of the first element satisfying \<open>p\<close>.\<close>

fun position :: "('a \<Rightarrow> bool) \<Rightarrow> 'a list \<Rightarrow> nat option" where
  "position p [] = None"
| "position p (x # xs) = (if p x then Some 0 else map_option Suc (position p xs))"

text \<open>\<^verbatim>\<open>Vec::remove(i)\<close>; the sources call it with indices in range only.\<close>

fun vec_remove :: "nat \<Rightarrow> 'a list \<Rightarrow> 'a list" where
  "vec_remove i [] = []"
| "vec_remove 0 (x # xs) = xs"
| "vec_remove (Suc i) (x # xs) = x # vec_remove i xs"

text \<open>\<^verbatim>\<open>Vec::insert(i, y)\<close>.\<close>

definition vec_insert :: "nat \<Rightarrow> 'a \<Rightarrow> 'a list \<Rightarrow> 'a list" where
  "vec_insert i y xs = take i xs @ y # drop i xs"

lemma position_None: "position p xs = None \<longleftrightarrow> (\<forall>x \<in> set xs. \<not> p x)"
  by (induction xs) auto

lemma position_all:
  "\<forall>x \<in> set xs. p x \<Longrightarrow> (case position p xs of Some i \<Rightarrow> i | None \<Rightarrow> length xs) = 0"
  by (cases xs) auto

lemma position_Some_less: "position p xs = Some i \<Longrightarrow> i < length xs"
  by (induction xs arbitrary: i) (auto split: if_splits)

lemma position_Some_nth: "position p xs = Some i \<Longrightarrow> p (xs ! i)"
  by (induction xs arbitrary: i) (auto split: if_splits)

lemma position_Some_first: "position p xs = Some i \<Longrightarrow> j < i \<Longrightarrow> \<not> p (xs ! j)"
proof (induction xs arbitrary: i j)
  case (Cons x xs)
  then show ?case
    by (cases j) (auto split: if_splits)
qed simp

lemma set_vec_remove_subset: "set (vec_remove i xs) \<subseteq> set xs"
  by (induction i xs rule: vec_remove.induct) auto

lemma distinct_vec_remove: "distinct xs \<Longrightarrow> distinct (vec_remove i xs)"
  by (induction i xs rule: vec_remove.induct) (auto dest: set_vec_remove_subset [THEN subsetD])

lemma vec_remove_position:
  "position (\<lambda>x. x = a) xs = Some i \<Longrightarrow> vec_remove i xs = remove1 a xs"
  by (induction xs arbitrary: i) (auto split: if_splits)

lemma mset_vec_insert: "mset (vec_insert i y xs) = add_mset y (mset xs)"
proof -
  have "mset (take i xs) + mset (drop i xs) = mset xs" by (simp flip: mset_append)
  then show ?thesis by (simp add: vec_insert_def)
qed

lemma set_vec_insert [simp]: "set (vec_insert i y xs) = insert y (set xs)"
  using mset_vec_insert [of i y xs] by (metis set_mset_add_mset_insert set_mset_mset)

lemma map_vec_insert: "map f (vec_insert i y xs) = vec_insert i (f y) (map f xs)"
  by (simp add: vec_insert_def take_map drop_map)

lemma distinct_vec_insert: "distinct (vec_insert i y xs) \<longleftrightarrow> distinct (y # xs)"
  by (rule mset_eq_imp_distinct_iff) (simp add: mset_vec_insert)

text \<open>\<^verbatim>\<open>iter().rev()\<close> with a running index: the index of the last match.\<close>

definition rposition :: "('a \<Rightarrow> bool) \<Rightarrow> 'a list \<Rightarrow> nat option" where
  "rposition p xs = map_option (\<lambda>i. length xs - 1 - i) (position p (rev xs))"

lemma rposition_None: "rposition p xs = None \<longleftrightarrow> (\<forall>x \<in> set xs. \<not> p x)"
  by (simp add: rposition_def position_None)

lemma vec_remove_conv: "vec_remove i xs = take i xs @ drop (Suc i) xs"
  by (induction i xs rule: vec_remove.induct) auto

lemma vec_remove_rev:
  "i < length xs \<Longrightarrow> vec_remove (length xs - 1 - i) xs = rev (vec_remove i (rev xs))"
  by (simp add: vec_remove_conv rev_take rev_drop Suc_diff_Suc)

lemma vec_remove_rposition:
  assumes "rposition (\<lambda>x. x = a) xs = Some i" "distinct xs"
  shows "vec_remove i xs = remove1 a xs"
proof -
  obtain j where j: "position (\<lambda>x. x = a) (rev xs) = Some j" "i = length xs - 1 - j"
    using assms(1) by (auto simp: rposition_def)
  then have "vec_remove i xs = rev (remove1 a (rev xs))"
    using position_Some_less [OF j(1)] vec_remove_rev [of j xs] vec_remove_position [OF j(1)]
    by simp
  also have "\<dots> = remove1 a xs"
    using assms(2) by (simp add: distinct_remove1_removeAll rev_filter removeAll_filter_not_eq)
  finally show ?thesis .
qed

section \<open>Insertion-ordered maps\<close>

text \<open>
  \<^verbatim>\<open>IndexMap::insert\<close> replaces the value of an existing key in place and appends a new
  key at the end: this is \<open>AList.update\<close>.
\<close>

lemma keys_AList_update:
  "map fst (AList.update k v m) = (if k \<in> fst ` set m then map fst m else map fst m @ [k])"
  by (induction m) auto

lemma distinct_keys_update: "distinct (map fst m) \<Longrightarrow> distinct (map fst (AList.update k v m))"
  by (simp add: keys_AList_update)

lemma map_of_AList_update [simp]: "map_of (AList.update k v m) = (map_of m)(k \<mapsto> v)"
  by (simp add: update_conv')

lemma keys_update_existing:
  "map_of m k = Some u \<Longrightarrow> map fst (AList.update k v m) = map fst m"
  by (auto simp: keys_AList_update dest!: map_of_SomeD intro: rev_image_eqI)

lemma map_of_AList_delete [simp]: "map_of (AList.delete k m) = (map_of m)(k := None)"
  by (simp add: delete_conv')

lemma distinct_keys_delete: "distinct (map fst m) \<Longrightarrow> distinct (map fst (AList.delete k m))"
  by (simp add: distinct_delete)

text \<open>
  A loop of insertions: the value of a key is the last one inserted, the keys are in the order of
  their first insertion.
\<close>

definition first_occurrences :: "'a list \<Rightarrow> 'a list" where
  "first_occurrences xs = rev (remdups (rev xs))"

lemma first_occurrences_snoc:
  "first_occurrences (xs @ [x]) = (if x \<in> set xs then first_occurrences xs else first_occurrences xs @ [x])"
  by (simp add: first_occurrences_def)

lemma set_first_occurrences [simp]: "set (first_occurrences xs) = set xs"
  by (simp add: first_occurrences_def)

lemma distinct_first_occurrences [simp]: "distinct (first_occurrences xs)"
  by (simp add: first_occurrences_def)

lemma keys_fold_update:
  "map fst (fold (\<lambda>x. AList.update (k x) (v x)) xs []) = first_occurrences (map k xs)"
proof (induction xs rule: rev_induct)
  case Nil
  then show ?case by (simp add: first_occurrences_def)
next
  case (snoc x xs)
  let ?m = "fold (\<lambda>x. AList.update (k x) (v x)) xs []"
  have "fst ` set ?m = set (map k xs)"
    using snoc by (metis list.set_map set_first_occurrences)
  with snoc show ?case
    by (simp add: keys_AList_update first_occurrences_snoc)
qed

lemma find_append:
  "find P (xs @ ys) = (case find P xs of None \<Rightarrow> find P ys | Some x \<Rightarrow> Some x)"
  by (induction xs) auto

lemma find_SomeD: "find P xs = Some x \<Longrightarrow> x \<in> set xs \<and> P x"
  by (induction xs) (auto split: if_splits)

lemma map_of_fold_update:
  "map_of (fold (\<lambda>x. AList.update (k x) (v x)) xs m) i =
     (case find (\<lambda>x. k x = i) (rev xs) of Some x \<Rightarrow> Some (v x) | None \<Rightarrow> map_of m i)"
  by (induction xs arbitrary: m) (auto simp: find_append split: option.splits)

lemma map_filter_cong:
  "(\<And>x. x \<in> set xs \<Longrightarrow> f x = g x) \<Longrightarrow> List.map_filter f xs = List.map_filter g xs"
  by (induction xs) (auto split: option.splits)

lemma set_map_filter: "y \<in> set (List.map_filter f xs) \<longleftrightarrow> (\<exists>x \<in> set xs. f x = Some y)"
  by (induction xs) (auto split: option.splits)

lemma map_filter_append:
  "List.map_filter f (xs @ ys) = List.map_filter f xs @ List.map_filter f ys"
  by (induction xs) (auto split: option.splits)

lemma map_filter_values:
  "distinct (map fst m) \<Longrightarrow>
     List.map_filter snd m = List.map_filter (\<lambda>i. Option.bind (map_of m i) (\<lambda>v. v)) (map fst m)"
proof (induction m)
  case (Cons p m)
  have "List.map_filter (\<lambda>i. Option.bind (map_of (p # m) i) (\<lambda>v. v)) (map fst m) =
        List.map_filter (\<lambda>i. Option.bind (map_of m i) (\<lambda>v. v)) (map fst m)"
    using Cons.prems by (intro map_filter_cong) (auto simp: rev_image_eqI)
  with Cons show ?case
    by (cases p) (auto simp: List.map_filter_simps split: option.splits)
qed (simp add: List.map_filter_simps)

section \<open>Results\<close>

text \<open>A Rust \<^verbatim>\<open>Result<T, E>\<close> is \<open>'e + 'a\<close>; the \<^verbatim>\<open>?\<close> operator is \<open>bind_res\<close>.\<close>

definition bind_res :: "'e + 'a \<Rightarrow> ('a \<Rightarrow> 'e + 'b) \<Rightarrow> 'e + 'b" where
  "bind_res r f = (case r of Inl e \<Rightarrow> Inl e | Inr a \<Rightarrow> f a)"

lemma bind_res_simps [simp]:
  "bind_res (Inl e) f = Inl e"
  "bind_res (Inr a) f = f a"
  by (simp_all add: bind_res_def)

lemma bind_res_Inr_iff: "bind_res r f = Inr b \<longleftrightarrow> (\<exists>a. r = Inr a \<and> f a = Inr b)"
  by (cases r) auto

text \<open>A loop that leaves the function at the first error, and \<^verbatim>\<open>Option::transpose\<close>.\<close>

fun fold_res :: "('a \<Rightarrow> 'b \<Rightarrow> 'e + 'b) \<Rightarrow> 'a list \<Rightarrow> 'b \<Rightarrow> 'e + 'b" where
  "fold_res f [] b = Inr b"
| "fold_res f (x # xs) b = bind_res (f x b) (fold_res f xs)"

definition traverse_opt :: "('a \<Rightarrow> 'e + 'b) \<Rightarrow> 'a option \<Rightarrow> 'e + 'b option" where
  "traverse_opt f v = (case v of None \<Rightarrow> Inr None | Some a \<Rightarrow> bind_res (f a) (\<lambda>b. Inr (Some b)))"

lemma traverse_opt_simps [simp]:
  "traverse_opt f None = Inr None"
  "traverse_opt f (Some a) = bind_res (f a) (\<lambda>b. Inr (Some b))"
  by (simp_all add: traverse_opt_def)

lemma fold_res_append: "fold_res f (xs @ ys) b = bind_res (fold_res f xs b) (fold_res f ys)"
  by (induction xs arbitrary: b) (auto simp: bind_res_def split: sum.split)

section \<open>Strings\<close>

text \<open>
  \<^verbatim>\<open>str::make_ascii_lowercase\<close>: only the bytes \<open>A\<close> to \<open>Z\<close> change.
\<close>

definition ascii_lower_char :: "char \<Rightarrow> char" where
  "ascii_lower_char c =
     (let n = (of_char c :: nat) in if 65 \<le> n \<and> n \<le> 90 then char_of (n + 32) else c)"

definition make_ascii_lowercase :: "string \<Rightarrow> string" where
  "make_ascii_lowercase = map ascii_lower_char"

text \<open>\<^verbatim>\<open>[String]::join(sep)\<close>.\<close>

fun join_with :: "string \<Rightarrow> string list \<Rightarrow> string" where
  "join_with sep [] = []"
| "join_with sep [s] = s"
| "join_with sep (s # t # ss) = s @ sep @ join_with sep (t # ss)"

text \<open>
  \<^verbatim>\<open>str::strip_prefix\<close>: the rest of a string after a literal prefix.
\<close>

definition strip_prefix :: "string \<Rightarrow> string \<Rightarrow> string option" where
  "strip_prefix p s = (if take (length p) s = p then Some (drop (length p) s) else None)"

lemma strip_prefix_append [simp]: "strip_prefix p (p @ s) = Some s"
  by (simp add: strip_prefix_def)

lemma strip_prefix_Some: "strip_prefix p s = Some t \<longleftrightarrow> s = p @ t"
  by (auto simp: strip_prefix_def split: if_splits) (metis append_take_drop_id)

text \<open>Decimal digits, as \<^verbatim>\<open>format!\<close> prints an unsigned integer.\<close>

function show_nat :: "nat \<Rightarrow> string" where
  "show_nat n = (if n < 10 then [char_of (48 + n)] else show_nat (n div 10) @ [char_of (48 + n mod 10)])"
  by auto
termination by (relation "measure id") auto

declare show_nat.simps [simp del]

lemma show_nat_digit: "n < 10 \<Longrightarrow> show_nat n = [char_of (48 + n)]"
  by (simp add: show_nat.simps [of n])

lemma show_nat_digits: "\<not> n < 10 \<Longrightarrow> show_nat n = show_nat (n div 10) @ [char_of (48 + n mod 10)]"
  by (simp add: show_nat.simps [of n])

lemma show_nat_not_Nil [simp]: "show_nat n \<noteq> []"
  by (cases "n < 10") (simp_all add: show_nat_digit show_nat_digits)

lemma char_of_digit_inj: "a < 10 \<Longrightarrow> b < 10 \<Longrightarrow> (char_of (48 + a :: nat) = char_of (48 + b)) \<longleftrightarrow> a = b"
  by (simp add: char_of_eq_iff take_bit_eq_mod)

lemma show_nat_inj: "show_nat m = show_nat n \<longleftrightarrow> m = n"
proof (induction m arbitrary: n rule: less_induct)
  case (less m)
  consider "m < 10" "n < 10" | "m < 10" "\<not> n < 10" | "\<not> m < 10" "n < 10" | "\<not> m < 10" "\<not> n < 10"
    by blast
  then show ?case
  proof cases
    case 4
    then have "show_nat m = show_nat n \<longleftrightarrow> m div 10 = n div 10 \<and> m mod 10 = n mod 10"
      using less.IH [of "m div 10" "n div 10"] by (simp add: show_nat_digits char_of_digit_inj)
    then show ?thesis by (metis div_mult_mod_eq)
  qed (auto simp: show_nat_digit show_nat_digits char_of_digit_inj dest: sym [of "[]"])
qed

text \<open>
  \<^verbatim>\<open>str::parse\<close> for an unsigned integer of \<open>w\<close> bits: an optional plus sign and digits, read
  from the left until the first error.
\<close>

datatype int_error = EmptyInt | InvalidDigit | PosOverflow

definition is_digit :: "char \<Rightarrow> bool" where
  "is_digit c \<longleftrightarrow> 48 \<le> (of_char c :: nat) \<and> (of_char c :: nat) \<le> 57"

fun parse_digits :: "nat \<Rightarrow> string \<Rightarrow> nat \<Rightarrow> int_error + nat" where
  "parse_digits w [] acc = Inr acc"
| "parse_digits w (c # cs) acc =
     (if \<not> is_digit c then Inl InvalidDigit
      else if acc * 10 + (of_char c - 48) \<ge> 2 ^ w then Inl PosOverflow
      else parse_digits w cs (acc * 10 + (of_char c - 48)))"

definition parse_uint :: "nat \<Rightarrow> string \<Rightarrow> int_error + nat" where
  "parse_uint w s =
     (case s of
        [] \<Rightarrow> Inl EmptyInt
      | [c] \<Rightarrow> if c = CHR ''+'' then Inl InvalidDigit else parse_digits w s 0
      | c # cs \<Rightarrow> parse_digits w (if c = CHR ''+'' then cs else s) 0)"

lemma is_digit_char: "n < 10 \<Longrightarrow> is_digit (char_of (48 + n :: nat))"
  by (simp add: is_digit_def take_bit_eq_mod)

lemma parse_digits_append:
  "parse_digits w (xs @ ys) acc = bind_res (parse_digits w xs acc) (parse_digits w ys)"
  by (induction xs arbitrary: acc) auto

lemma parse_digits_show: "n < 2 ^ w \<Longrightarrow> parse_digits w (show_nat n) 0 = Inr n"
proof (induction n rule: less_induct)
  case (less n)
  show ?case
  proof (cases "n < 10")
    case True
    with less.prems show ?thesis by (simp add: show_nat_digit is_digit_char take_bit_eq_mod)
  next
    case False
    then have "n div 10 < n" by simp
    with less have "parse_digits w (show_nat (n div 10)) 0 = Inr (n div 10)" by simp
    moreover have "n div 10 * 10 + n mod 10 = n" by simp
    ultimately show ?thesis using False less.prems
      by (simp add: show_nat_digits parse_digits_append is_digit_char take_bit_eq_mod)
  qed
qed

lemma show_nat_no_plus: "CHR ''+'' \<notin> set (show_nat n)"
proof (induction n rule: less_induct)
  case (less n)
  have "char_of (48 + m :: nat) \<noteq> CHR ''+''" if "m < 10" for m
  proof
    assume "char_of (48 + m) = CHR ''+''"
    then have "of_char (char_of (48 + m :: nat)) = (of_char CHR ''+'' :: nat)" by simp
    with that show False by (simp add: take_bit_eq_mod)
  qed
  with less.IH [of "n div 10"] show ?case
    by (cases "n < 10") (auto simp: show_nat_digit show_nat_digits eq_commute [of "CHR ''+''"])
qed

lemma parse_uint_show: "n < 2 ^ w \<Longrightarrow> parse_uint w (show_nat n) = Inr n"
  using show_nat_no_plus [of n] parse_digits_show [of n w]
  by (auto simp: parse_uint_def split: list.split)

text \<open>
  \<^verbatim>\<open>str::trim\<close> removes the characters with the Unicode property \<^verbatim>\<open>White_Space\<close> from
  both ends; these are their UTF-8 encodings.
\<close>

definition utf8_white_space :: "string list" where
  "utf8_white_space =
     map (map char_of)
       ([[9], [10], [11], [12], [13], [32], [0xC2, 0x85], [0xC2, 0xA0], [0xE1, 0x9A, 0x80]] @
        map (\<lambda>n. [0xE2, 0x80, n]) [0x80..<0x8B] @
        [[0xE2, 0x80, 0xA8], [0xE2, 0x80, 0xA9], [0xE2, 0x80, 0xAF], [0xE2, 0x81, 0x9F],
         [0xE3, 0x80, 0x80 :: nat]])"

lemma utf8_white_space_not_Nil: "p \<in> set utf8_white_space \<Longrightarrow> p \<noteq> []"
  by (auto simp: utf8_white_space_def)

function trim_start :: "string \<Rightarrow> string" where
  "trim_start s =
     (case find (\<lambda>p. prefix p s) utf8_white_space of
        None \<Rightarrow> s
      | Some p \<Rightarrow> trim_start (drop (length p) s))"
  by auto
termination
  by (relation "measure length")
    (auto dest!: find_SomeD utf8_white_space_not_Nil simp: prefix_def)

function trim_end :: "string \<Rightarrow> string" where
  "trim_end s =
     (case find (\<lambda>p. suffix p s) utf8_white_space of
        None \<Rightarrow> s
      | Some p \<Rightarrow> trim_end (take (length s - length p) s))"
  by auto
termination
  by (relation "measure length")
    (auto dest!: find_SomeD utf8_white_space_not_Nil simp: suffix_def)

declare trim_start.simps [simp del] trim_end.simps [simp del]

definition trim :: "string \<Rightarrow> string" where
  "trim s = trim_end (trim_start s)"

end
