(* ===== verification/Ids.thy ===== *)
theory Ids
  imports Prelude "HOL-Library.Char_ord" "HOL-Library.List_Lexorder"
begin

text \<open>
  The identifiers of \<^verbatim>\<open>crates/prose-core-client/src/domain/shared/models\<close> and the
  display names derived from them (\<^verbatim>\<open>util/string_ext.rs\<close>,
  \<^verbatim>\<open>shared/utils/contact_name_builder.rs\<close>).

  The \<^verbatim>\<open>jid\<close> crate is not part of the repository. A bare JID is modelled by the parts its
  API documents (an optional node and a domain), a full JID adds a resource; displaying one joins
  the parts with \<^verbatim>\<open>@\<close> and \<^verbatim>\<open>/\<close>. Parsing validates and normalises, so every
  definition that parses takes the parser as an argument. The Unicode case tables of Rust's
  standard library are an argument too (\<open>uc\<close>, from the UTF-8 bytes of one scalar to the bytes of
  its uppercase mapping).
\<close>

section \<open>JIDs\<close>

datatype bare_jid = BareJid (node: "string option") (domain: string)
datatype full_jid = FullJid (to_bare: bare_jid) (resource: string)

text \<open>\<^verbatim>\<open>Jid\<close>: either of the two; \<^verbatim>\<open>into_bare\<close> drops the resource.\<close>

datatype jid = JBare bare_jid | JFull full_jid

fun jid_into_bare :: "jid \<Rightarrow> bare_jid" where
  "jid_into_bare (JBare j) = j"
| "jid_into_bare (JFull f) = to_bare f"

fun show_bare :: "bare_jid \<Rightarrow> string" where
  "show_bare (BareJid None d) = d"
| "show_bare (BareJid (Some n) d) = n @ ''@'' @ d"

definition show_full :: "full_jid \<Rightarrow> string" where
  "show_full j = show_bare (to_bare j) @ ''/'' @ resource j"

section \<open>Identifier types\<close>

datatype user_id = UserId (user_jid: bare_jid)
datatype muc_id = MucId (muc_jid: bare_jid)
datatype occupant_id = OccupantId (occupant_jid: full_jid)
datatype user_resource_id = UserResourceId (user_resource_jid: full_jid)
datatype anon_occupant_id = AnonOccupantId string
datatype account_id = AccountId user_id

datatype room_id = RUser user_id | RMuc muc_id
datatype participant_id = PUser user_id | POccupant occupant_id
datatype user_or_resource_id = UOUser user_id | UOResource user_resource_id
datatype user_endpoint_id = EUser user_id | EResource user_resource_id | EOccupant occupant_id

text \<open>The conditions of stanza errors (\<^verbatim>\<open>xmpp_parsers::stanza_error\<close>).\<close>

datatype defined_condition =
    BadRequest | Conflict | FeatureNotImplemented | Forbidden | Gone | InternalServerError | ItemNotFound
  | JidMalformed | NotAcceptable | NotAllowed | NotAuthorized | PolicyViolation | RecipientUnavailable | Redirect
  | RegistrationRequired | RemoteServerNotFound | RemoteServerTimeout | ResourceConstraint | ServiceUnavailable
  | SubscriptionRequired | UndefinedCondition | UnexpectedRequest

datatype capabilities_id = CapabilitiesId string

definition capabilities_id_new :: "string \<Rightarrow> string \<Rightarrow> capabilities_id" where
  "capabilities_id_new n v = CapabilitiesId (n @ ''#'' @ v)"

text \<open>
  \<^verbatim>\<open>UserId::from(BareJid)\<close> and \<^verbatim>\<open>UserResourceId::from(FullJid)\<close> assert that the JID has
  a node; \<^verbatim>\<open>username()\<close> expects it. A panic is \<open>None\<close>.
\<close>

definition user_id_from :: "bare_jid \<Rightarrow> user_id option" where
  "user_id_from j = (if node j \<noteq> None then Some (UserId j) else None)"

definition user_resource_id_from :: "full_jid \<Rightarrow> user_resource_id option" where
  "user_resource_id_from j = (if node (to_bare j) \<noteq> None then Some (UserResourceId j) else None)"

definition username :: "user_id \<Rightarrow> string option" where
  "username u = node (user_jid u)"

definition user_id_from_str :: "(string \<Rightarrow> bare_jid option) \<Rightarrow> string \<Rightarrow> user_id option" where
  "user_id_from_str parse s = map_option UserId (parse s)"

definition is_same_domain :: "user_id \<Rightarrow> user_id \<Rightarrow> bool" where
  "is_same_domain u v \<longleftrightarrow> domain (user_jid u) = domain (user_jid v)"

text \<open>
  \<^verbatim>\<open>Ord for UserId\<close>: by username, then by domain. \<^verbatim>\<open>username()\<close> panics on a JID
  without a node, which makes the comparison panic (\<open>None\<close>). \<^verbatim>\<open>str\<close> is ordered by bytes.
\<close>

datatype ordering = Less | Equal | Greater

definition str_cmp :: "string \<Rightarrow> string \<Rightarrow> ordering" where
  "str_cmp a b = (if a < b then Less else if a = b then Equal else Greater)"

definition user_id_cmp :: "user_id \<Rightarrow> user_id \<Rightarrow> ordering option" where
  "user_id_cmp u v =
     (case (username u, username v) of
        (Some a, Some b) \<Rightarrow>
          Some (if str_cmp a b \<noteq> Equal then str_cmp a b
                else str_cmp (domain (user_jid u)) (domain (user_jid v)))
      | _ \<Rightarrow> None)"

definition with_resource :: "(string \<Rightarrow> string option) \<Rightarrow> user_id \<Rightarrow> string \<Rightarrow> user_resource_id option" where
  "with_resource mk_resource u res =
     Option.bind (mk_resource res) (\<lambda>r. user_resource_id_from (FullJid (user_jid u) r))"

text \<open>\<^verbatim>\<open>UserResourceId\<close>.\<close>

definition res_to_user_id :: "user_resource_id \<Rightarrow> user_id" where
  "res_to_user_id r = UserId (to_bare (user_resource_jid r))"

definition res_resource :: "user_resource_id \<Rightarrow> string" where
  "res_resource r = resource (user_resource_jid r)"

text \<open>\<^verbatim>\<open>UserOrResourceId\<close>.\<close>

fun uo_to_user_id :: "user_or_resource_id \<Rightarrow> user_id" where
  "uo_to_user_id (UOUser u) = u"
| "uo_to_user_id (UOResource r) = res_to_user_id r"

fun resource_str :: "user_or_resource_id \<Rightarrow> string option" where
  "resource_str (UOUser u) = None"
| "resource_str (UOResource r) = Some (res_resource r)"

text \<open>\<^verbatim>\<open>AccountId\<close>.\<close>

fun account_user_id :: "account_id \<Rightarrow> user_id" where
  "account_user_id (AccountId u) = u"

definition account_id_from :: "bare_jid \<Rightarrow> account_id option" where
  "account_id_from j = map_option AccountId (user_id_from j)"

text \<open>\<^verbatim>\<open>OccupantId\<close> and \<^verbatim>\<open>MucId\<close>; \<open>mk_resource\<close> is the JID crate's resource validation.\<close>

definition nickname :: "occupant_id \<Rightarrow> string" where
  "nickname x = resource (occupant_jid x)"

definition occ_muc_id :: "occupant_id \<Rightarrow> muc_id" where
  "occ_muc_id x = MucId (to_bare (occupant_jid x))"

definition occ_room_id :: "occupant_id \<Rightarrow> room_id" where
  "occ_room_id x = RMuc (occ_muc_id x)"

definition occupant_id_with_nickname :: "(string \<Rightarrow> string option) \<Rightarrow> muc_id \<Rightarrow> string \<Rightarrow> occupant_id option" where
  "occupant_id_with_nickname mk_resource m n =
     map_option (\<lambda>r. OccupantId (FullJid (muc_jid m) r)) (mk_resource n)"

text \<open>\<^verbatim>\<open>RoomId\<close>.\<close>

fun room_muc_id :: "room_id \<Rightarrow> muc_id option" where
  "room_muc_id (RUser _) = None"
| "room_muc_id (RMuc m) = Some m"

fun room_user_id :: "room_id \<Rightarrow> user_id option" where
  "room_user_id (RUser u) = Some u"
| "room_user_id (RMuc _) = None"

fun is_muc_room :: "room_id \<Rightarrow> bool" where
  "is_muc_room (RUser _) = False"
| "is_muc_room (RMuc _) = True"

fun into_bare :: "room_id \<Rightarrow> bare_jid" where
  "into_bare (RUser u) = user_jid u"
| "into_bare (RMuc m) = muc_jid m"

definition show_room_id :: "room_id \<Rightarrow> string" where
  "show_room_id r = show_bare (into_bare r)"

fun room_raw_key_string :: "room_id \<Rightarrow> string" where
  "room_raw_key_string (RUser u) = ''user:'' @ show_bare (user_jid u)"
| "room_raw_key_string (RMuc m) = ''muc:'' @ show_bare (muc_jid m)"

definition room_id_from_str :: "(string \<Rightarrow> bare_jid option) \<Rightarrow> string \<Rightarrow> room_id option" where
  "room_id_from_str parse s =
     (case strip_prefix ''user:'' s of
        Some t \<Rightarrow> map_option (RUser \<circ> UserId) (parse t)
      | None \<Rightarrow>
          (case strip_prefix ''muc:'' s of
             Some t \<Rightarrow> map_option (RMuc \<circ> MucId) (parse t)
           | None \<Rightarrow> None))"

text \<open>\<^verbatim>\<open>ParticipantId\<close>.\<close>

fun p_to_user_id :: "participant_id \<Rightarrow> user_id option" where
  "p_to_user_id (PUser u) = Some u"
| "p_to_user_id (POccupant _) = None"

fun p_to_occupant_id :: "participant_id \<Rightarrow> occupant_id option" where
  "p_to_occupant_id (PUser _) = None"
| "p_to_occupant_id (POccupant x) = Some x"

fun p_to_room_id :: "participant_id \<Rightarrow> room_id" where
  "p_to_room_id (PUser u) = RUser u"
| "p_to_room_id (POccupant x) = RMuc (occ_muc_id x)"

fun show_participant_id :: "participant_id \<Rightarrow> string" where
  "show_participant_id (PUser u) = show_bare (user_jid u)"
| "show_participant_id (POccupant x) = show_full (occupant_jid x)"

fun participant_raw_key_string :: "participant_id \<Rightarrow> string" where
  "participant_raw_key_string (PUser u) = ''user:'' @ show_bare (user_jid u)"
| "participant_raw_key_string (POccupant x) = ''occ:'' @ show_full (occupant_jid x)"

definition participant_id_from_str ::
    "(string \<Rightarrow> bare_jid option) \<Rightarrow> (string \<Rightarrow> full_jid option) \<Rightarrow> string \<Rightarrow> participant_id option" where
  "participant_id_from_str parse parse_full s =
     (case strip_prefix ''user:'' s of
        Some t \<Rightarrow> map_option (PUser \<circ> UserId) (parse t)
      | None \<Rightarrow>
          (case strip_prefix ''occ:'' s of
             Some t \<Rightarrow> map_option (POccupant \<circ> OccupantId) (parse_full t)
           | None \<Rightarrow> None))"

text \<open>\<^verbatim>\<open>UserEndpointId\<close>.\<close>

fun e_to_room_id :: "user_endpoint_id \<Rightarrow> room_id" where
  "e_to_room_id (EUser u) = RUser u"
| "e_to_room_id (EResource r) = RUser (res_to_user_id r)"
| "e_to_room_id (EOccupant x) = RMuc (occ_muc_id x)"

fun e_to_participant_id :: "user_endpoint_id \<Rightarrow> participant_id" where
  "e_to_participant_id (EUser u) = PUser u"
| "e_to_participant_id (EResource r) = PUser (res_to_user_id r)"
| "e_to_participant_id (EOccupant x) = POccupant x"

fun e_to_user_or_resource_id :: "user_endpoint_id \<Rightarrow> user_or_resource_id option" where
  "e_to_user_or_resource_id (EUser u) = Some (UOUser u)"
| "e_to_user_or_resource_id (EResource r) = Some (UOResource r)"
| "e_to_user_or_resource_id (EOccupant _) = None"

fun e_to_user_id :: "user_endpoint_id \<Rightarrow> user_id option" where
  "e_to_user_id (EUser u) = Some u"
| "e_to_user_id (EResource r) = Some (res_to_user_id r)"
| "e_to_user_id (EOccupant _) = None"

fun is_occupant_id :: "user_endpoint_id \<Rightarrow> bool" where
  "is_occupant_id (EOccupant _) = True"
| "is_occupant_id _ = False"

section \<open>IRIs\<close>

text \<open>\<^verbatim>\<open>str::rfind(pat)\<close>: the start of the last occurrence of a pattern.\<close>

fun rfind :: "string \<Rightarrow> string \<Rightarrow> nat option" where
  "rfind pat [] = (if pat = [] then Some 0 else None)"
| "rfind pat (c # cs) =
     (case rfind pat cs of
        Some i \<Rightarrow> Some (Suc i)
      | None \<Rightarrow> if take (length pat) (c # cs) = pat then Some 0 else None)"

datatype jid_parse_error = InvalidIRI | JID_error

text \<open>\<^verbatim>\<open>Jid::from_iri\<close> (\<^verbatim>\<open>infra/xmpp/util/jid_ext.rs\<close>).\<close>

definition jid_from_iri :: "(string \<Rightarrow> jid option) \<Rightarrow> string \<Rightarrow> jid_parse_error + jid" where
  "jid_from_iri parse iri =
     (case strip_prefix ''xmpp:'' iri of
        None \<Rightarrow> Inl InvalidIRI
      | Some rest \<Rightarrow>
          (let rest' = (case rfind ''?join'' rest of Some i \<Rightarrow> take i rest | None \<Rightarrow> rest)
           in case parse rest' of None \<Rightarrow> Inl JID_error | Some j \<Rightarrow> Inr j))"

definition muc_id_from_iri :: "(string \<Rightarrow> jid option) \<Rightarrow> string \<Rightarrow> jid_parse_error + muc_id" where
  "muc_id_from_iri parse iri = bind_res (jid_from_iri parse iri) (\<lambda>j. Inr (MucId (jid_into_bare j)))"

definition user_id_from_iri :: "(string \<Rightarrow> jid option) \<Rightarrow> string \<Rightarrow> jid_parse_error + user_id" where
  "user_id_from_iri parse iri = bind_res (jid_from_iri parse iri) (\<lambda>j. Inr (UserId (jid_into_bare j)))"

section \<open>Display names\<close>

text \<open>
  \<^verbatim>\<open>chars().next()\<close> on UTF-8 bytes: the length of the first scalar is read off its first byte.
\<close>

definition utf8_len_of_lead :: "char \<Rightarrow> nat" where
  "utf8_len_of_lead c =
     (let n = (of_char c :: nat)
      in if n < 128 then 1 else if n < 224 then 2 else if n < 240 then 3 else 4)"

definition to_uppercase_first_letter :: "(string \<Rightarrow> string) \<Rightarrow> string \<Rightarrow> string" where
  "to_uppercase_first_letter uc s =
     (case s of
        [] \<Rightarrow> []
      | c # _ \<Rightarrow> uc (take (utf8_len_of_lead c) s) @ drop (utf8_len_of_lead c) s)"

text \<open>\<^verbatim>\<open>str::split\<close> on a set of ASCII characters, and \<^verbatim>\<open>split_terminator\<close>, which drops
  one trailing empty piece.\<close>

fun split_on :: "(char \<Rightarrow> bool) \<Rightarrow> string \<Rightarrow> string list" where
  "split_on p [] = [[]]"
| "split_on p (c # cs) =
     (if p c then [] # split_on p cs
      else (case split_on p cs of [] \<Rightarrow> [[c]] | s # ss \<Rightarrow> (c # s) # ss))"

definition split_terminator :: "(char \<Rightarrow> bool) \<Rightarrow> string \<Rightarrow> string list" where
  "split_terminator p s =
     (let ss = split_on p s in if last ss = [] then butlast ss else ss)"

definition is_name_separator :: "char \<Rightarrow> bool" where
  "is_name_separator c \<longleftrightarrow> c = CHR ''.'' \<or> c = CHR ''_'' \<or> c = CHR ''-''"

definition capitalized_display_name :: "(string \<Rightarrow> string) \<Rightarrow> string \<Rightarrow> string" where
  "capitalized_display_name uc s =
     join_with '' '' (map (to_uppercase_first_letter uc) (split_terminator is_name_separator s))"

definition formatted_username :: "(string \<Rightarrow> string) \<Rightarrow> user_id \<Rightarrow> string" where
  "formatted_username uc u =
     (case node (user_jid u) of
        None \<Rightarrow> to_uppercase_first_letter uc (show_bare (user_jid u))
      | Some n \<Rightarrow> capitalized_display_name uc n)"

definition formatted_nickname :: "(string \<Rightarrow> string) \<Rightarrow> occupant_id \<Rightarrow> string" where
  "formatted_nickname uc x = capitalized_display_name uc (resource (occupant_jid x))"

text \<open>\<^verbatim>\<open>ContactNameBuilder\<close>: the first name that is available wins.\<close>

record contact_name_builder =
  cnb_value :: "string option"

definition cnb_new :: contact_name_builder where
  "cnb_new = \<lparr>cnb_value = None\<rparr>"

definition concatenate_names :: "string option \<Rightarrow> string option \<Rightarrow> string option" where
  "concatenate_names first_name last_name =
     (let parts = (case first_name of None \<Rightarrow> [] | Some s \<Rightarrow> [s]) @
                  (case last_name of None \<Rightarrow> [] | Some s \<Rightarrow> [s])
      in if parts = [] then None else Some (join_with '' '' parts))"

definition or_else :: "contact_name_builder \<Rightarrow> string option \<Rightarrow> contact_name_builder" where
  "or_else b v = \<lparr>cnb_value = (case cnb_value b of Some x \<Rightarrow> Some x | None \<Rightarrow> v)\<rparr>"

definition or_firstname_lastname ::
    "contact_name_builder \<Rightarrow> string option \<Rightarrow> string option \<Rightarrow> contact_name_builder" where
  "or_firstname_lastname b f l = or_else b (concatenate_names f l)"

definition or_nickname :: "contact_name_builder \<Rightarrow> string option \<Rightarrow> contact_name_builder" where
  "or_nickname b n = or_else b n"

definition or_username ::
    "(string \<Rightarrow> string) \<Rightarrow> contact_name_builder \<Rightarrow> user_id option \<Rightarrow> contact_name_builder" where
  "or_username uc b u = or_else b (map_option (formatted_username uc) u)"

definition cnb_build :: "contact_name_builder \<Rightarrow> string option" where
  "cnb_build b = cnb_value b"

definition unwrap_or_username ::
    "(string \<Rightarrow> string) \<Rightarrow> contact_name_builder \<Rightarrow> user_id \<Rightarrow> string" where
  "unwrap_or_username uc b u = (case cnb_build b of Some s \<Rightarrow> s | None \<Rightarrow> formatted_username uc u)"

definition unwrap_or_occupant_nickname ::
    "(string \<Rightarrow> string) \<Rightarrow> contact_name_builder \<Rightarrow> occupant_id \<Rightarrow> string" where
  "unwrap_or_occupant_nickname uc b x =
     (case cnb_build b of Some s \<Rightarrow> s | None \<Rightarrow> formatted_nickname uc x)"

definition unwrap_or_participant_id ::
    "(string \<Rightarrow> string) \<Rightarrow> contact_name_builder \<Rightarrow> participant_id \<Rightarrow> string" where
  "unwrap_or_participant_id uc b p =
     (case p of
        PUser u \<Rightarrow> unwrap_or_username uc b u
      | POccupant x \<Rightarrow> unwrap_or_occupant_nickname uc b x)"

section \<open>Laws\<close>

text \<open>
  The two directions of the panics: a user id obtained from a resource id, or built by the checked
  constructor, has a node, so \<^verbatim>\<open>username()\<close> and the ordering are defined on it.
\<close>

lemma user_resource_id_from_user_id:
  "user_resource_id_from j = Some r \<Longrightarrow> user_id_from (to_bare j) = Some (res_to_user_id r)"
  by (auto simp: user_resource_id_from_def user_id_from_def res_to_user_id_def split: if_splits)

lemma user_id_from_username: "user_id_from j = Some u \<Longrightarrow> \<exists>n. username u = Some n"
  by (auto simp: user_id_from_def username_def split: if_splits)

text \<open>A raw key determines its scheme.\<close>

lemma strip_user_of_muc: "strip_prefix ''user:'' (''muc:'' @ s) = None"
  by (auto simp: strip_prefix_def)

lemma strip_user_of_occ: "strip_prefix ''user:'' (''occ:'' @ s) = None"
  by (auto simp: strip_prefix_def)

text \<open>
  JIDs as the XMPP grammar has them: no \<^verbatim>\<open>@\<close> or \<^verbatim>\<open>/\<close> in the node or the domain.
  On them displaying is injective, also where a resource follows.
\<close>

definition valid_part :: "string \<Rightarrow> bool" where
  "valid_part s \<longleftrightarrow> CHR ''@'' \<notin> set s \<and> CHR ''/'' \<notin> set s"

fun valid_bare :: "bare_jid \<Rightarrow> bool" where
  "valid_bare (BareJid None d) = valid_part d"
| "valid_bare (BareJid (Some n) d) = (valid_part n \<and> valid_part d)"

lemma append_sep_inj:
  "x \<notin> set a \<Longrightarrow> x \<notin> set b \<Longrightarrow> a @ x # c = b @ x # d \<longleftrightarrow> a = b \<and> c = d"
proof (induction a arbitrary: b)
  case Nil
  then show ?case by (cases b) auto
next
  case (Cons y a)
  then show ?case by (cases b) auto
qed

lemma no_sep_neq: "x \<notin> set a \<Longrightarrow> a \<noteq> b @ x # c"
  by auto

lemma slash_not_in_show_bare: "valid_bare j \<Longrightarrow> CHR ''/'' \<notin> set (show_bare j)"
  by (cases j rule: show_bare.cases) (auto simp: valid_part_def)

lemma show_bare_inj:
  assumes "valid_bare i" "valid_bare j" "show_bare i = show_bare j"
  shows "i = j"
  using assms
  by (cases i rule: show_bare.cases; cases j rule: show_bare.cases)
    (auto simp: valid_part_def append_sep_inj)

lemma show_full_inj:
  assumes "valid_bare (to_bare i)" "valid_bare (to_bare j)" "show_full i = show_full j"
  shows "i = j"
proof -
  have "show_bare (to_bare i) = show_bare (to_bare j) \<and> resource i = resource j"
    using assms(3) slash_not_in_show_bare [OF assms(1)] slash_not_in_show_bare [OF assms(2)]
    by (simp add: show_full_def append_sep_inj)
  then show ?thesis
    using show_bare_inj [OF assms(1,2)] by (simp add: full_jid.expand)
qed

text \<open>
  The pieces of a split never contain a separator.
\<close>

lemma split_on_not_Nil [simp]: "split_on p s \<noteq> []"
  by (induction s) (auto split: list.splits)

lemma split_on_pieces: "\<forall>t \<in> set (split_on p s). \<forall>c \<in> set t. \<not> p c"
  by (induction s) (auto split: list.splits)

lemma str_cmp_Equal [simp]: "str_cmp a b = Equal \<longleftrightarrow> a = b"
  by (auto simp: str_cmp_def)

lemma str_cmp_flip: "str_cmp a b = Less \<longleftrightarrow> str_cmp b a = Greater"
  by (auto simp: str_cmp_def)

lemma or_else_simps [simp]:
  "cnb_value (or_else b v) = (case cnb_value b of Some x \<Rightarrow> Some x | None \<Rightarrow> v)"
  by (simp add: or_else_def)

section \<open>Properties\<close>

text \<open>
  Store keys and the serialised form of room ids round-trip: when the JID parser reads back
  the displayed JID, parsing the raw key string of a room id yields that room id, and the
  \<^verbatim>\<open>user:\<close> and \<^verbatim>\<open>muc:\<close> schemes are never confused.
\<close>

theorem room_id_key_roundtrip:
  assumes "parse (show_bare (into_bare r)) = Some (into_bare r)"
  shows "room_id_from_str parse (room_raw_key_string r) = Some r"
  using assms strip_prefix_append [of "''user:''"] strip_prefix_append [of "''muc:''"]
    strip_user_of_muc
  by (cases r) (auto simp: room_id_from_str_def)

theorem room_id_key_roundtrip_witness:
  "room_id_from_str (\<lambda>s. if s = ''room@conf.org'' then Some (BareJid (Some ''room'') ''conf.org'') else None)
     ''muc:room@conf.org'' = Some (RMuc (MucId (BareJid (Some ''room'') ''conf.org'')))"
  using room_id_key_roundtrip
    [of "\<lambda>s. if s = ''room@conf.org'' then Some (BareJid (Some ''room'') ''conf.org'') else None"
        "RMuc (MucId (BareJid (Some ''room'') ''conf.org''))"]
  by simp

end
