(* ===== verification/Messages.thy ===== *)
theory Messages
  imports Ids
begin

text \<open>
  The message history of \<^verbatim>\<open>domain/messaging/models\<close>: the permanent messages
  (\<^verbatim>\<open>message_like.rs\<close>) and \<^verbatim>\<open>Message::reducing_messages\<close>
  (\<^verbatim>\<open>message.rs\<close>), which replays a list of them into the messages a conversation shows.
  The map from message ids to messages is an \<^verbatim>\<open>IndexMap\<close> (insertion order matters: it is
  the order of the result); the map from target ids is a \<^verbatim>\<open>HashMap\<close> that is only looked up.

  The loop over the emojis of a reaction counts down in an \<^verbatim>\<open>i32\<close>, which is exact for
  fewer than \<open>2 ^ 31\<close> emojis; the model uses the index of the last match.
\<close>

section \<open>Data\<close>

type_synonym message_id = string
type_synonym emoji = string
type_synonym thread_id = string
type_synonym device_id = nat

datatype message_target_id = RemoteId string | ServerId string

record mention =
  mention_user :: user_id
  mention_range :: "(nat \<times> nat) option"

record thumbnail =
  thumb_url :: string
  thumb_media_type :: string
  thumb_width :: "nat option"
  thumb_height :: "nat option"

datatype attachment_type =
  Audio "nat option" | Image "thumbnail option" | Video "nat option" "thumbnail option" | File

record attachment =
  att_type :: attachment_type
  att_url :: string
  att_media_type :: string
  att_file_name :: string
  att_file_size :: "nat option"

record reply_to =
  reply_id :: message_target_id
  reply_to_participant :: "participant_id option"
  reply_quote :: "string option"

record encryption_info =
  enc_sender :: device_id

record like_body =
  lb_raw :: string
  lb_html :: html
  lb_mentions :: "mention list"

datatype payload =
    PError string
  | Correction message_target_id like_body "attachment list" "encryption_info option"
  | DeliveryReceipt message_target_id
  | ReadReceipt message_target_id
  | PMessage like_body "attachment list" "encryption_info option" bool "reply_to option" "thread_id option"
  | PReaction message_target_id "emoji list"
  | Retraction message_target_id

record message_like =
  ml_id :: message_id
  ml_remote_id :: "string option"
  ml_server_id :: "string option"
  ml_to :: "bare_jid option"
  ml_from :: participant_id
  ml_timestamp :: timestamp
  ml_payload :: payload

fun is_message :: "payload \<Rightarrow> bool" where
  "is_message (PMessage _ _ _ _ _ _) = True"
| "is_message _ = False"

fun is_error :: "payload \<Rightarrow> bool" where
  "is_error (PError _) = True"
| "is_error _ = False"

fun target_id :: "payload \<Rightarrow> message_target_id option" where
  "target_id (PError _) = None"
| "target_id (Correction t _ _ _) = Some t"
| "target_id (DeliveryReceipt t) = Some t"
| "target_id (ReadReceipt t) = Some t"
| "target_id (PMessage _ _ _ _ _ _) = None"
| "target_id (PReaction t _) = Some t"
| "target_id (Retraction t) = Some t"

record reaction =
  re_emoji :: emoji
  re_from :: "participant_id list"

record body =
  body_raw :: string
  body_html :: html

record message_flags =
  is_read :: bool
  is_edited :: bool
  is_delivered :: bool
  is_transient :: bool
  is_encrypted :: bool

definition default_flags :: message_flags where
  "default_flags = \<lparr>is_read = False, is_edited = False, is_delivered = False,
                    is_transient = False, is_encrypted = False\<rparr>"

record message =
  msg_id :: message_id
  msg_remote_id :: "string option"
  msg_server_id :: "string option"
  msg_from :: participant_id
  msg_body :: body
  msg_timestamp :: timestamp
  msg_flags :: message_flags
  msg_reactions :: "reaction list"
  msg_attachments :: "attachment list"
  msg_mentions :: "mention list"
  msg_reply_to :: "reply_to option"

section \<open>Reactions of one user\<close>

text \<open>
  \<^verbatim>\<open>toggle_reaction\<close>: the first reaction with the emoji is changed in place; a missing one is
  appended.
\<close>

fun toggle_in :: "participant_id \<Rightarrow> emoji \<Rightarrow> reaction list \<Rightarrow> reaction list" where
  "toggle_in u e [] = [\<lparr>re_emoji = e, re_from = [u]\<rparr>]"
| "toggle_in u e (r # rs) =
     (if re_emoji r = e then
        (case position (\<lambda>j. j = u) (re_from r) of
           Some i \<Rightarrow> r\<lparr>re_from := vec_remove i (re_from r)\<rparr> # rs
         | None \<Rightarrow> r\<lparr>re_from := re_from r @ [u]\<rparr> # rs)
      else r # toggle_in u e rs)"

definition toggle_reaction :: "message \<Rightarrow> participant_id \<Rightarrow> emoji \<Rightarrow> message" where
  "toggle_reaction m u e = m\<lparr>msg_reactions := toggle_in u e (msg_reactions m)\<rparr>"

definition reactions_from :: "message \<Rightarrow> participant_id \<Rightarrow> emoji list" where
  "reactions_from m u = map re_emoji (filter (\<lambda>r. u \<in> set (re_from r)) (msg_reactions m))"

section \<open>Replaying the history\<close>

text \<open>The first \<^verbatim>\<open>match\<close>: a message or an error becomes a \<open>message\<close>, everything else is a modifier.\<close>

definition to_message :: "message_like \<Rightarrow> message option" where
  "to_message ml =
     (case ml_payload ml of
        PMessage b atts enc is_private reply _ \<Rightarrow>
          Some \<lparr>msg_id = ml_id ml, msg_remote_id = ml_remote_id ml, msg_server_id = ml_server_id ml,
                msg_from = ml_from ml,
                msg_body = \<lparr>body_raw = lb_raw b, body_html = lb_html b\<rparr>,
                msg_timestamp = ml_timestamp ml,
                msg_flags = \<lparr>is_read = False, is_edited = False, is_delivered = False,
                             is_transient = is_private, is_encrypted = enc \<noteq> None\<rparr>,
                msg_reactions = [], msg_attachments = atts, msg_mentions = lb_mentions b,
                msg_reply_to = reply\<rparr>
      | PError err \<Rightarrow>
          Some \<lparr>msg_id = ml_id ml, msg_remote_id = ml_remote_id ml, msg_server_id = ml_server_id ml,
                msg_from = ml_from ml,
                msg_body = \<lparr>body_raw = err, body_html = err\<rparr>,
                msg_timestamp = ml_timestamp ml,
                msg_flags = default_flags,
                msg_reactions = [], msg_attachments = [], msg_mentions = [],
                msg_reply_to = None\<rparr>
      | _ \<Rightarrow> None)"

type_synonym messages_map = "(message_id \<times> message option) list"
type_synonym target_map = "message_target_id \<rightharpoonup> message_id"

text \<open>The two insertions into \<^verbatim>\<open>target_id_to_message_id_map\<close>.\<close>

definition index_targets :: "message \<Rightarrow> target_map \<Rightarrow> target_map" where
  "index_targets m tm =
     (let tm1 = (case msg_remote_id m of Some r \<Rightarrow> tm(RemoteId r \<mapsto> msg_id m) | None \<Rightarrow> tm)
      in case msg_server_id m of Some s \<Rightarrow> tm1(ServerId s \<mapsto> msg_id m) | None \<Rightarrow> tm1)"

text \<open>The first loop: messages, target index, modifiers in order.\<close>

fun collect :: "message_like list \<Rightarrow> messages_map \<Rightarrow> target_map \<Rightarrow> message_like list \<Rightarrow>
    messages_map \<times> target_map \<times> message_like list" where
  "collect [] mm tm mods = (mm, tm, mods)"
| "collect (ml # mls) mm tm mods =
     (case to_message ml of
        Some m \<Rightarrow> collect mls (AList.update (msg_id m) (Some m) mm) (index_targets m tm) mods
      | None \<Rightarrow> collect mls mm tm (mods @ [ml]))"

text \<open>The loop \<^verbatim>\<open>'outer\<close> over the existing reactions, with the emojis still to be applied.\<close>

fun apply_reactions :: "participant_id \<Rightarrow> emoji list \<Rightarrow> reaction list \<Rightarrow> reaction list \<times> emoji list" where
  "apply_reactions u es [] = ([], es)"
| "apply_reactions u es (r # rs) =
     (case rposition (\<lambda>e. e = re_emoji r) es of
        Some i \<Rightarrow>
          (let r' = (if u \<in> set (re_from r) then r else r\<lparr>re_from := re_from r @ [u]\<rparr>);
               (rs', es') = apply_reactions u (vec_remove i es) rs
           in (r' # rs', es'))
      | None \<Rightarrow>
          (let r' = r\<lparr>re_from := filter (\<lambda>f. f \<noteq> u) (re_from r)\<rparr>;
               (rs', es') = apply_reactions u es rs
           in (r' # rs', es')))"

definition set_reactions :: "participant_id \<Rightarrow> emoji list \<Rightarrow> reaction list \<Rightarrow> reaction list" where
  "set_reactions u es rs =
     (case apply_reactions u es rs of
        (rs', es') \<Rightarrow> filter (\<lambda>r. re_from r \<noteq> []) rs' @ map (\<lambda>e. \<lparr>re_emoji = e, re_from = [u]\<rparr>) es')"

text \<open>
  The second \<^verbatim>\<open>match\<close>, on the payload of a modifier: the new value stored for the message
  (\<open>None\<close> once retracted). The two \<^verbatim>\<open>unreachable!\<close> panics are \<open>Inl ()\<close>.
\<close>

fun apply_payload :: "participant_id \<Rightarrow> payload \<Rightarrow> message \<Rightarrow> unit + message option" where
  "apply_payload u (Correction _ b atts enc) m =
     Inr (Some (m\<lparr>msg_body := \<lparr>body_raw = lb_raw b, body_html = lb_html b\<rparr>,
                 msg_mentions := lb_mentions b,
                 msg_attachments := atts,
                 msg_flags := (msg_flags m)\<lparr>is_edited := True, is_encrypted := (enc \<noteq> None)\<rparr>\<rparr>))"
| "apply_payload u (DeliveryReceipt _) m =
     Inr (Some (m\<lparr>msg_flags := (msg_flags m)\<lparr>is_delivered := True\<rparr>\<rparr>))"
| "apply_payload u (ReadReceipt _) m =
     Inr (Some (m\<lparr>msg_flags := (msg_flags m)\<lparr>is_read := True\<rparr>\<rparr>))"
| "apply_payload u (PReaction _ es) m =
     Inr (Some (m\<lparr>msg_reactions := set_reactions u es (msg_reactions m)\<rparr>))"
| "apply_payload u (Retraction _) m = Inr None"
| "apply_payload u (PMessage _ _ _ _ _ _) m = Inl ()"
| "apply_payload u (PError _) m = Inl ()"

definition apply_modifier :: "target_map \<Rightarrow> message_like \<Rightarrow> messages_map \<Rightarrow> unit + messages_map" where
  "apply_modifier tm ml mm =
     (case target_id (ml_payload ml) of
        None \<Rightarrow> Inl ()
      | Some t \<Rightarrow>
          (case tm t of
             None \<Rightarrow> Inr mm
           | Some i \<Rightarrow>
               (case map_of mm i of
                  Some (Some m) \<Rightarrow>
                    bind_res (apply_payload (ml_from ml) (ml_payload ml) m)
                      (\<lambda>v. Inr (AList.update i v mm))
                | _ \<Rightarrow> Inr mm)))"

fun apply_modifiers :: "target_map \<Rightarrow> message_like list \<Rightarrow> messages_map \<Rightarrow> unit + messages_map" where
  "apply_modifiers tm [] mm = Inr mm"
| "apply_modifiers tm (ml # mls) mm =
     bind_res (apply_modifier tm ml mm) (apply_modifiers tm mls)"

definition reducing_messages :: "message_like list \<Rightarrow> unit + message list" where
  "reducing_messages mls =
     (case collect mls [] Map.empty [] of
        (mm, tm, mods) \<Rightarrow>
          bind_res (apply_modifiers tm mods mm) (\<lambda>mm'. Inr (List.map_filter snd mm')))"

section \<open>What a history means\<close>

text \<open>
  A specification that does not mention the maps: a target id denotes the last message of the
  history that carries it, and what is shown for an id is its last message with every modifier
  that denotes it applied in order, if none of them retracts it.
\<close>

fun has_target :: "message_target_id \<Rightarrow> message \<Rightarrow> bool" where
  "has_target (RemoteId r) m \<longleftrightarrow> msg_remote_id m = Some r"
| "has_target (ServerId s) m \<longleftrightarrow> msg_server_id m = Some s"

definition history_messages :: "message_like list \<Rightarrow> message list" where
  "history_messages mls = List.map_filter to_message mls"

definition resolve_target :: "message_like list \<Rightarrow> message_target_id \<Rightarrow> message_id option" where
  "resolve_target mls t = map_option msg_id (find (has_target t) (rev (history_messages mls)))"

definition latest_message :: "message_like list \<Rightarrow> message_id \<Rightarrow> message option" where
  "latest_message mls i = find (\<lambda>m. msg_id m = i) (rev (history_messages mls))"

definition modifies :: "message_like list \<Rightarrow> message_id \<Rightarrow> message_like \<Rightarrow> bool" where
  "modifies mls i ml \<longleftrightarrow> Option.bind (target_id (ml_payload ml)) (resolve_target mls) = Some i"

definition modify :: "message_like \<Rightarrow> message option \<Rightarrow> message option" where
  "modify ml v =
     (case v of
        None \<Rightarrow> None
      | Some m \<Rightarrow> (case apply_payload (ml_from ml) (ml_payload ml) m of Inl _ \<Rightarrow> None | Inr v' \<Rightarrow> v'))"

definition visible_message :: "message_like list \<Rightarrow> message_id \<Rightarrow> message option" where
  "visible_message mls i = fold modify (filter (modifies mls i) mls) (latest_message mls i)"

lemma has_target_index:
  "index_targets m tm t = (if has_target t m then Some (msg_id m) else tm t)"
  by (cases t) (auto simp: index_targets_def Let_def split: option.splits)

lemma fold_index_targets:
  "fold index_targets ms tm t =
     (case find (has_target t) (rev ms) of Some m \<Rightarrow> Some (msg_id m) | None \<Rightarrow> tm t)"
  by (induction ms arbitrary: tm) (auto simp: find_append has_target_index split: option.splits)

lemma collect_eq:
  "collect mls mm tm mods =
     (fold (\<lambda>m. AList.update (msg_id m) (Some m)) (history_messages mls) mm,
      fold index_targets (history_messages mls) tm,
      mods @ filter (\<lambda>ml. to_message ml = None) mls)"
  by (induction mls mm tm mods rule: collect.induct)
    (auto simp: history_messages_def split: option.splits)

lemma collect_tm: "fold index_targets (history_messages mls) Map.empty = resolve_target mls"
  by (auto simp: fold_index_targets resolve_target_def fun_eq_iff split: option.splits)

text \<open>Everything collected as a modifier has a target and a defined effect: no panic.\<close>

lemma modifier_payload:
  assumes "to_message ml = None"
  shows "\<exists>t. target_id (ml_payload ml) = Some t"
    and "\<exists>v. apply_payload u (ml_payload ml) m = Inr v"
  using assms by (cases "ml_payload ml"; simp add: to_message_def)+

lemma target_modifier: "target_id (ml_payload ml) = Some t \<Longrightarrow> to_message ml = None"
  by (cases "ml_payload ml") (auto simp: to_message_def)

lemma modify_None [simp]: "modify ml None = None"
  by (simp add: modify_def)

lemma fold_modify_None [simp]: "fold modify mls None = None"
  by (induction mls) auto

text \<open>One modifier, seen from one message id.\<close>

lemma apply_modifier_lookup:
  assumes "to_message ml = None"
  obtains mm' where "apply_modifier (resolve_target H) ml mm = Inr mm'"
    "map fst mm' = map fst mm"
    "\<And>i. map_of mm' i = map_option (if modifies H i ml then modify ml else id) (map_of mm i)"
proof -
  obtain t where t: "target_id (ml_payload ml) = Some t"
    using modifier_payload(1) [OF assms] by blast
  show thesis
  proof (cases "resolve_target H t")
    case None
    with t that [of mm] show thesis
      by (auto simp: apply_modifier_def modifies_def option.map_id)
  next
    case (Some j)
    have j: "modifies H i ml \<longleftrightarrow> i = j" for i
      using t Some by (auto simp: modifies_def)
    show thesis
    proof (cases "\<exists>m. map_of mm j = Some (Some m)")
      case True
      then obtain m where m: "map_of mm j = Some (Some m)" by blast
      obtain v where v: "apply_payload (ml_from ml) (ml_payload ml) m = Inr v"
        using modifier_payload(2) [OF assms] by blast
      show thesis
        by (rule that [of "AList.update j v mm"])
          (use t Some m v in \<open>auto simp: apply_modifier_def j modify_def keys_update_existing option.map_id\<close>)
    next
      case False
      have "apply_modifier (resolve_target H) ml mm = Inr mm"
        using t Some False by (auto simp: apply_modifier_def split: option.splits)
      moreover have "map_option (modify ml) (map_of mm j) = map_of mm j"
        using False by (cases "map_of mm j"; cases "the (map_of mm j)") auto
      ultimately show thesis
        by (intro that [of mm]) (auto simp: j option.map_id)
    qed
  qed
qed

lemma apply_modifiers_lookup:
  assumes "\<forall>ml \<in> set mls. to_message ml = None"
  shows "\<exists>mm'. apply_modifiers (resolve_target H) mls mm = Inr mm' \<and> map fst mm' = map fst mm \<and>
     (\<forall>i. map_of mm' i = map_option (fold modify (filter (modifies H i) mls)) (map_of mm i))"
  using assms
proof (induction mls arbitrary: mm)
  case Nil
  then show ?case by (simp add: option.map_ident)
next
  case (Cons ml mls)
  obtain m1 where m1: "apply_modifier (resolve_target H) ml mm = Inr m1" "map fst m1 = map fst mm"
    "\<And>i. map_of m1 i = map_option (if modifies H i ml then modify ml else id) (map_of mm i)"
    using apply_modifier_lookup [of ml H mm] Cons.prems by auto
  obtain m2 where "apply_modifiers (resolve_target H) mls m1 = Inr m2" "map fst m2 = map fst m1"
    "\<And>i. map_of m2 i = map_option (fold modify (filter (modifies H i) mls)) (map_of m1 i)"
    using Cons by (metis list.set_intros(2))
  with m1 show ?case
    by (auto simp: option.map_comp comp_def)
qed

section \<open>Reactions as a relation\<close>

text \<open>
  Who reacted with what. A list of reactions is in normal form when no emoji and no author is
  repeated; \<open>wf_reactions\<close> asks in addition that nobody's reaction is empty, which replaying
  guarantees and \<^verbatim>\<open>toggle_reaction\<close> does not.
\<close>

definition reacted :: "reaction list \<Rightarrow> (emoji \<times> participant_id) set" where
  "reacted rs = {(re_emoji r, v) | r v. r \<in> set rs \<and> v \<in> set (re_from r)}"

definition norm_reactions :: "reaction list \<Rightarrow> bool" where
  "norm_reactions rs \<longleftrightarrow> distinct (map re_emoji rs) \<and> (\<forall>r \<in> set rs. distinct (re_from r))"

definition wf_reactions :: "reaction list \<Rightarrow> bool" where
  "wf_reactions rs \<longleftrightarrow> norm_reactions rs \<and> (\<forall>r \<in> set rs. re_from r \<noteq> [])"

lemma reacted_simps [simp]:
  "reacted [] = {}"
  "reacted (r # rs) = {re_emoji r} \<times> set (re_from r) \<union> reacted rs"
  "reacted (rs @ ss) = reacted rs \<union> reacted ss"
  by (auto simp: reacted_def)

lemma reacted_emoji: "(e, v) \<in> reacted rs \<Longrightarrow> e \<in> re_emoji ` set rs"
  by (auto simp: reacted_def)

lemma set_reactions_from: "set (reactions_from m u) = {e. (e, u) \<in> reacted (msg_reactions m)}"
  by (auto simp: reactions_from_def reacted_def)

text \<open>What the reaction loop does to one reaction.\<close>

definition react :: "participant_id \<Rightarrow> emoji set \<Rightarrow> reaction \<Rightarrow> reaction" where
  "react u E r =
     (if re_emoji r \<in> E then (if u \<in> set (re_from r) then r else r\<lparr>re_from := re_from r @ [u]\<rparr>)
      else r\<lparr>re_from := filter (\<lambda>f. f \<noteq> u) (re_from r)\<rparr>)"

lemma re_emoji_react [simp]: "re_emoji (react u E r) = re_emoji r"
  by (simp add: react_def)

lemma set_re_from_react:
  "set (re_from (react u E r)) =
     (if re_emoji r \<in> E then insert u (set (re_from r)) else set (re_from r) - {u})"
  by (auto simp: react_def)

lemma distinct_re_from_react: "distinct (re_from r) \<Longrightarrow> distinct (re_from (react u E r))"
  by (auto simp: react_def)

lemma remove_applied:
  "distinct es \<Longrightarrow> rposition (\<lambda>x. x = e) es = Some i \<Longrightarrow> vec_remove i es = filter (\<lambda>x. x \<noteq> e) es"
  by (auto simp: vec_remove_rposition distinct_remove1_removeAll removeAll_filter_not_eq intro: filter_cong)

lemma apply_reactions_eq:
  "distinct es \<Longrightarrow> distinct (map re_emoji rs) \<Longrightarrow>
     apply_reactions u es rs =
       (map (react u (set es)) rs, filter (\<lambda>e. e \<notin> re_emoji ` set rs) es)"
proof (induction rs arbitrary: es)
  case (Cons r rs)
  show ?case
  proof (cases "rposition (\<lambda>e. e = re_emoji r) es")
    case None
    then have "re_emoji r \<notin> set es" by (auto simp: rposition_None)
    with None Cons show ?thesis
      by (auto simp: react_def intro: filter_cong)
  next
    case (Some i)
    then have e: "re_emoji r \<in> set es"
      using rposition_None [of "\<lambda>e. e = re_emoji r" es] by auto
    have "map (react u (set es - {re_emoji r})) rs = map (react u (set es)) rs"
      using Cons.prems(2) by (intro map_cong refl) (auto simp: react_def image_iff)
    with Some e Cons show ?thesis
      by (auto simp: remove_applied react_def set_diff_eq intro!: filter_cong)
  qed
qed simp

lemma set_reactions_eq:
  assumes "distinct es" "distinct (map re_emoji rs)"
  shows "set_reactions u es rs =
    filter (\<lambda>r. re_from r \<noteq> []) (map (react u (set es)) rs) @
    map (\<lambda>e. \<lparr>re_emoji = e, re_from = [u]\<rparr>) (filter (\<lambda>e. e \<notin> re_emoji ` set rs) es)"
  using assms by (simp add: set_reactions_def apply_reactions_eq)

lemma wf_set_reactions:
  assumes "distinct es" "norm_reactions rs"
  shows "wf_reactions (set_reactions u es rs)"
proof -
  have d: "distinct (map re_emoji rs)" using assms(2) by (simp add: norm_reactions_def)
  have "distinct (map re_emoji (filter (\<lambda>r. re_from r \<noteq> []) (map (react u (set es)) rs)))"
    using d by (simp add: distinct_map_filter map_map comp_def)
  with assms d show ?thesis
    by (auto simp: wf_reactions_def norm_reactions_def set_reactions_eq distinct_re_from_react comp_def)
qed

lemma reacted_set_reactions:
  assumes "distinct es" "norm_reactions rs"
  shows "reacted (set_reactions u es rs) = {p \<in> reacted rs. snd p \<noteq> u} \<union> set es \<times> {u}"
proof -
  have d: "distinct (map re_emoji rs)" using assms(2) by (simp add: norm_reactions_def)
  have a: "reacted (filter (\<lambda>r. re_from r \<noteq> []) rs') = reacted rs'" for rs'
    by (induction rs') auto
  have b: "reacted (map (react u E) rs) =
      {p \<in> reacted rs. snd p \<noteq> u} \<union> {(e, u) | e. e \<in> re_emoji ` set rs \<and> e \<in> E}" for E
    by (induction rs) (auto simp: set_re_from_react)
  have c: "reacted (map (\<lambda>e. \<lparr>re_emoji = e, re_from = [u]\<rparr>) xs) = set xs \<times> {u}" for xs
    by (induction xs) auto
  show ?thesis
    using assms(1) d by (auto simp: set_reactions_eq a b c)
qed

text \<open>Toggling.\<close>

lemma reacted_toggle_in:
  "norm_reactions rs \<Longrightarrow>
     reacted (toggle_in u e rs) =
       (if (e, u) \<in> reacted rs then reacted rs - {(e, u)} else insert (e, u) (reacted rs))"
proof (induction rs)
  case (Cons r rs)
  have rs: "norm_reactions rs" and r: "distinct (re_from r)" "re_emoji r \<notin> re_emoji ` set rs"
    using Cons.prems by (auto simp: norm_reactions_def)
  show ?case
  proof (cases "re_emoji r = e")
    case True
    have n: "(e, v) \<notin> reacted rs" for v using r(2) True reacted_emoji by metis
    show ?thesis
    proof (cases "position (\<lambda>j. j = u) (re_from r)")
      case None
      then have "u \<notin> set (re_from r)" by (auto simp: position_None)
      with None True n show ?thesis by auto
    next
      case (Some i)
      then have "u \<in> set (re_from r)"
        using position_None [of "\<lambda>j. j = u" "re_from r"] by auto
      with True n r(1) Some show ?thesis
        by (auto simp: vec_remove_position)
    qed
  next
    case False
    with Cons.IH [OF rs] show ?thesis by auto
  qed
qed simp

lemma emojis_toggle_in:
  "map re_emoji (toggle_in u e rs) =
     (if e \<in> re_emoji ` set rs then map re_emoji rs else map re_emoji rs @ [e])"
  by (induction rs) (auto split: option.splits)

lemma froms_toggle_in:
  "\<forall>r \<in> set rs. distinct (re_from r) \<Longrightarrow> \<forall>r \<in> set (toggle_in u e rs). distinct (re_from r)"
  by (induction rs) (auto split: option.splits simp: distinct_vec_remove position_None)

lemma norm_toggle_in: "norm_reactions rs \<Longrightarrow> norm_reactions (toggle_in u e rs)"
  using froms_toggle_in [of rs u e] by (auto simp: norm_reactions_def emojis_toggle_in)

section \<open>Replaying, step by step\<close>

lemma modify_Some:
  assumes "modify ml v = Some m"
  obtains m0 where "v = Some m0" "apply_payload (ml_from ml) (ml_payload ml) m0 = Inr (Some m)"
  using assms by (auto simp: modify_def split: option.splits sum.splits)

lemma apply_payload_Some:
  assumes "apply_payload u p m0 = Inr (Some m)"
  shows "msg_id m = msg_id m0"
    and "is_delivered (msg_flags m) \<longleftrightarrow> is_delivered (msg_flags m0) \<or> (\<exists>t. p = DeliveryReceipt t)"
    and "is_read (msg_flags m) \<longleftrightarrow> is_read (msg_flags m0) \<or> (\<exists>t. p = ReadReceipt t)"
    and "is_edited (msg_flags m) \<longleftrightarrow> is_edited (msg_flags m0) \<or> (\<exists>t b as x. p = Correction t b as x)"
    and "msg_reactions m =
      (case p of PReaction _ es \<Rightarrow> set_reactions u es (msg_reactions m0) | _ \<Rightarrow> msg_reactions m0)"
  using assms by (cases p; auto)+

lemma fold_modify_keeps:
  "fold modify mls v = Some m \<Longrightarrow>
     \<exists>m0. v = Some m0 \<and> msg_id m = msg_id m0 \<and>
       (is_delivered (msg_flags m) \<longleftrightarrow> is_delivered (msg_flags m0) \<or> (\<exists>ml \<in> set mls. \<exists>t. ml_payload ml = DeliveryReceipt t)) \<and>
       (is_read (msg_flags m) \<longleftrightarrow> is_read (msg_flags m0) \<or> (\<exists>ml \<in> set mls. \<exists>t. ml_payload ml = ReadReceipt t)) \<and>
       (is_edited (msg_flags m) \<longleftrightarrow> is_edited (msg_flags m0) \<or>
          (\<exists>ml \<in> set mls. \<exists>t b as x. ml_payload ml = Correction t b as x))"
proof (induction mls arbitrary: m rule: rev_induct)
  case (snoc ml mls)
  from snoc.prems have "modify ml (fold modify mls v) = Some m" by simp
  then obtain m1 where m1: "fold modify mls v = Some m1"
      "apply_payload (ml_from ml) (ml_payload ml) m1 = Inr (Some m)"
    by (rule modify_Some)
  from snoc.IH [OF m1(1)] obtain m0 where "v = Some m0" "msg_id m1 = msg_id m0"
      "is_delivered (msg_flags m1) \<longleftrightarrow> is_delivered (msg_flags m0) \<or> (\<exists>ml \<in> set mls. \<exists>t. ml_payload ml = DeliveryReceipt t)"
      "is_read (msg_flags m1) \<longleftrightarrow> is_read (msg_flags m0) \<or> (\<exists>ml \<in> set mls. \<exists>t. ml_payload ml = ReadReceipt t)"
      "is_edited (msg_flags m1) \<longleftrightarrow> is_edited (msg_flags m0) \<or> (\<exists>ml \<in> set mls. \<exists>t b as x. ml_payload ml = Correction t b as x)"
    by blast
  then show ?case
    using apply_payload_Some(1-4) [OF m1(2)] by auto
qed simp

text \<open>The emojis of the last reaction a participant sent.\<close>

fun reaction_of :: "participant_id \<Rightarrow> message_like \<Rightarrow> emoji list option" where
  "reaction_of u ml =
     (case ml_payload ml of PReaction _ es \<Rightarrow> if ml_from ml = u then Some es else None | _ \<Rightarrow> None)"

definition last_reaction :: "message_like list \<Rightarrow> participant_id \<Rightarrow> emoji list" where
  "last_reaction mls u = last ([] # List.map_filter (reaction_of u) mls)"

definition distinct_emojis :: "message_like \<Rightarrow> bool" where
  "distinct_emojis ml \<longleftrightarrow> (case ml_payload ml of PReaction _ es \<Rightarrow> distinct es | _ \<Rightarrow> True)"

lemma last_reaction_snoc:
  "last_reaction (mls @ [ml]) u =
     (case reaction_of u ml of Some es \<Rightarrow> es | None \<Rightarrow> last_reaction mls u)"
  by (simp add: last_reaction_def map_filter_append split: option.splits del: reaction_of.simps)

lemma fold_modify_reactions:
  assumes "fold modify mls (Some m0) = Some m" "msg_reactions m0 = []"
    and "\<forall>ml \<in> set mls. distinct_emojis ml"
  shows "wf_reactions (msg_reactions m) \<and>
    (\<forall>u. {e. (e, u) \<in> reacted (msg_reactions m)} = set (last_reaction mls u))"
  using assms
proof (induction mls arbitrary: m rule: rev_induct)
  case Nil
  then show ?case
    by (auto simp: wf_reactions_def norm_reactions_def last_reaction_def)
next
  case (snoc ml mls)
  from snoc.prems have "modify ml (fold modify mls (Some m0)) = Some m" by simp
  then obtain m1 where m1: "fold modify mls (Some m0) = Some m1"
      "apply_payload (ml_from ml) (ml_payload ml) m1 = Inr (Some m)"
    by (rule modify_Some)
  have IH: "wf_reactions (msg_reactions m1)"
      "\<And>u. {e. (e, u) \<in> reacted (msg_reactions m1)} = set (last_reaction mls u)"
    using snoc.IH [OF m1(1)] snoc.prems by auto
  show ?case
  proof (cases "\<exists>t es. ml_payload ml = PReaction t es")
    case True
    then obtain t es where p: "ml_payload ml = PReaction t es" by blast
    then have es: "distinct es" using snoc.prems(3) by (simp add: distinct_emojis_def)
    have r: "msg_reactions m = set_reactions (ml_from ml) es (msg_reactions m1)"
      using apply_payload_Some(5) [OF m1(2)] p by simp
    have n: "norm_reactions (msg_reactions m1)" using IH(1) by (simp add: wf_reactions_def)
    have "{e. (e, u) \<in> reacted (msg_reactions m)} = set (last_reaction (mls @ [ml]) u)" for u
      using IH(2) [of u] unfolding r reacted_set_reactions [OF es n]
      by (cases "u = ml_from ml") (auto simp: last_reaction_snoc p)
    then show ?thesis
      using wf_set_reactions [OF es n] r by simp
  next
    case False
    then have "msg_reactions m = msg_reactions m1"
      using apply_payload_Some(5) [OF m1(2)] by (auto split: payload.splits)
    moreover have "reaction_of u ml = None" for u
      using False by (auto split: payload.splits)
    ultimately show ?thesis
      using IH by (simp add: last_reaction_snoc)
  qed
qed

lemma to_message_new:
  "to_message ml = Some m0 \<Longrightarrow>
     msg_reactions m0 = [] \<and> \<not> is_delivered (msg_flags m0) \<and> \<not> is_read (msg_flags m0) \<and>
     \<not> is_edited (msg_flags m0)"
  by (cases "ml_payload ml") (auto simp: to_message_def default_flags_def)

lemma latest_message_new:
  assumes "latest_message mls i = Some m0"
  shows "msg_id m0 = i \<and> msg_reactions m0 = [] \<and> \<not> is_delivered (msg_flags m0) \<and>
    \<not> is_read (msg_flags m0) \<and> \<not> is_edited (msg_flags m0)"
proof -
  have "m0 \<in> set (history_messages mls)" "msg_id m0 = i"
    using find_SomeD assms by (fastforce simp: latest_message_def)+
  then show ?thesis
    using to_message_new by (auto simp: history_messages_def set_map_filter)
qed

lemma visible_message_id: "visible_message mls i = Some m \<Longrightarrow> msg_id m = i"
  unfolding visible_message_def
  by (drule fold_modify_keeps) (auto dest: latest_message_new)

lemma fold_modify_retraction:
  "ml \<in> set mls \<Longrightarrow> ml_payload ml = Retraction t \<Longrightarrow> fold modify mls v = None"
  by (induction mls arbitrary: v) (auto simp: modify_def split: option.splits)

section \<open>Properties\<close>

lemma reducing_messages_eq:
  "reducing_messages mls =
     Inr (List.map_filter (visible_message mls) (first_occurrences (map msg_id (history_messages mls))))"
proof -
  let ?mm = "fold (\<lambda>m. AList.update (msg_id m) (Some m)) (history_messages mls) []"
  let ?mods = "filter (\<lambda>ml. to_message ml = None) mls"
  obtain mm' where mm': "apply_modifiers (resolve_target mls) ?mods ?mm = Inr mm'"
      "map fst mm' = map fst ?mm"
      "\<And>i. map_of mm' i = map_option (fold modify (filter (modifies mls i) ?mods)) (map_of ?mm i)"
    using apply_modifiers_lookup [of ?mods mls ?mm] by auto
  have "filter (modifies mls i) ?mods = filter (modifies mls i) mls" for i
    by (auto simp: modifies_def bind_eq_Some_conv intro!: filter_cong dest: target_modifier)
  then have "Option.bind (map_of mm' i) (\<lambda>v. v) = visible_message mls i" for i
    by (auto simp: mm'(3) map_of_fold_update visible_message_def latest_message_def split: option.splits)
  moreover have "map fst mm' = first_occurrences (map msg_id (history_messages mls))"
    using mm'(2) by (simp add: keys_fold_update)
  ultimately have "List.map_filter snd mm' =
      List.map_filter (visible_message mls) (first_occurrences (map msg_id (history_messages mls)))"
    by (subst map_filter_values) simp_all
  then show ?thesis
    using mm'(1) by (simp add: reducing_messages_def collect_eq collect_tm)
qed

text \<open>Every message of a result is what its id shows.\<close>

lemma reduced_message:
  assumes "reducing_messages mls = Inr out" "m \<in> set out"
  obtains m0 where "latest_message mls (msg_id m) = Some m0"
    "fold modify (filter (modifies mls (msg_id m)) mls) (Some m0) = Some m"
proof -
  obtain i where i: "visible_message mls i = Some m"
    using assms by (auto simp: reducing_messages_eq set_map_filter)
  then have "msg_id m = i" by (rule visible_message_id)
  with i that show thesis
    by (cases "latest_message mls i") (auto simp: visible_message_def)
qed

text \<open>
  C1. Replaying a history never panics and yields, for the message ids in the order in which they
  first occur, exactly what the history means for each: its last version with every modifier that
  denotes it applied in order, and nothing if one of them retracted it.
\<close>

theorem reducing_messages_refines:
  "reducing_messages mls =
     Inr (List.map_filter (visible_message mls)
            (first_occurrences (map msg_id (List.map_filter to_message mls))))"
  using reducing_messages_eq by (simp add: history_messages_def)

text \<open>
  C2. A retraction is final: when some retraction of a history targets a message by a remote or
  server id that resolves to its id, the result does not contain the message, wherever the
  retraction stands and whatever edits, receipts or reactions follow it.
\<close>

theorem retracted_message_hidden:
  assumes "ml \<in> set mls" "ml_payload ml = Retraction t" "resolve_target mls t = Some i"
  shows "\<exists>out. reducing_messages mls = Inr out \<and> i \<notin> msg_id ` set out"
proof -
  have "ml \<in> set (filter (modifies mls i) mls)"
    using assms by (simp add: modifies_def)
  then have hidden: "visible_message mls i = None"
    using assms(2) by (simp add: visible_message_def fold_modify_retraction)
  have "msg_id m \<noteq> i" if "visible_message mls j = Some m" for j m
    using that hidden visible_message_id [OF that] by auto
  then show ?thesis
    by (auto simp: reducing_messages_eq set_map_filter) blast
qed

text \<open>
  C7. The flags of a shown message say exactly which receipts and corrections the history holds
  for it: it is delivered, read or edited if and only if a delivery receipt, a read receipt or a
  correction denotes it.
\<close>

theorem reduced_flags_exact:
  assumes "reducing_messages mls = Inr out" "m \<in> set out"
  shows "(is_delivered (msg_flags m) \<longleftrightarrow>
      (\<exists>ml \<in> set mls. \<exists>t. ml_payload ml = DeliveryReceipt t \<and> resolve_target mls t = Some (msg_id m))) \<and>
    (is_read (msg_flags m) \<longleftrightarrow>
      (\<exists>ml \<in> set mls. \<exists>t. ml_payload ml = ReadReceipt t \<and> resolve_target mls t = Some (msg_id m))) \<and>
    (is_edited (msg_flags m) \<longleftrightarrow>
      (\<exists>ml \<in> set mls. \<exists>t b as x. ml_payload ml = Correction t b as x \<and> resolve_target mls t = Some (msg_id m)))"
proof -
  obtain m0 where m0: "latest_message mls (msg_id m) = Some m0"
      "fold modify (filter (modifies mls (msg_id m)) mls) (Some m0) = Some m"
    by (rule reduced_message [OF assms])
  let ?ms = "set (filter (modifies mls (msg_id m)) mls)"
  have "(\<exists>ml \<in> ?ms. \<exists>t. ml_payload ml = DeliveryReceipt t) \<longleftrightarrow>
      (\<exists>ml \<in> set mls. \<exists>t. ml_payload ml = DeliveryReceipt t \<and> resolve_target mls t = Some (msg_id m))"
    by (force simp: modifies_def)
  moreover have "(\<exists>ml \<in> ?ms. \<exists>t. ml_payload ml = ReadReceipt t) \<longleftrightarrow>
      (\<exists>ml \<in> set mls. \<exists>t. ml_payload ml = ReadReceipt t \<and> resolve_target mls t = Some (msg_id m))"
    by (force simp: modifies_def)
  moreover have "(\<exists>ml \<in> ?ms. \<exists>t b as x. ml_payload ml = Correction t b as x) \<longleftrightarrow>
      (\<exists>ml \<in> set mls. \<exists>t b as x. ml_payload ml = Correction t b as x \<and> resolve_target mls t = Some (msg_id m))"
    by (force simp: modifies_def)
  ultimately show ?thesis
    using fold_modify_keeps [OF m0(2)] latest_message_new [OF m0(1)] by simp
qed

text \<open>
  C8. When no reaction stanza repeats an emoji, a shown message lists every emoji once, each with
  at least one author and none twice, and the emojis a participant is shown with are exactly those
  of the last reaction stanza that participant sent for the message.
\<close>

theorem reduced_reactions_exact:
  assumes "reducing_messages mls = Inr out" "m \<in> set out" "\<forall>ml \<in> set mls. distinct_emojis ml"
  shows "wf_reactions (msg_reactions m) \<and>
    set (reactions_from m u) = set (last_reaction (filter (modifies mls (msg_id m)) mls) u)"
proof -
  obtain m0 where m0: "latest_message mls (msg_id m) = Some m0"
      "fold modify (filter (modifies mls (msg_id m)) mls) (Some m0) = Some m"
    by (rule reduced_message [OF assms(1,2)])
  have "msg_reactions m0 = []" using latest_message_new [OF m0(1)] by simp
  from fold_modify_reactions [OF m0(2) this] assms(3) show ?thesis
    by (simp add: set_reactions_from)
qed

text \<open>
  Toggling a reaction flips exactly one pair of emoji and participant and keeps the list in
  normal form; toggling it twice gives back the same reactions of everybody.
\<close>

theorem toggle_reaction_flips:
  assumes "norm_reactions (msg_reactions m)"
  shows "norm_reactions (msg_reactions (toggle_reaction m u e)) \<and>
    reacted (msg_reactions (toggle_reaction m u e)) =
      (reacted (msg_reactions m) - {(e, u)}) \<union> ({(e, u)} - reacted (msg_reactions m)) \<and>
    reacted (msg_reactions (toggle_reaction (toggle_reaction m u e) u e)) = reacted (msg_reactions m)"
  using assms norm_toggle_in [OF assms, of u e]
  by (auto simp: toggle_reaction_def reacted_toggle_in)

section \<open>A history\<close>

text \<open>
  Two messages of one room; the first is retracted and acknowledged afterwards, the second gets
  two reactions by the same participant, a receipt and a correction.
\<close>

definition example_user :: participant_id where
  "example_user = PUser (UserId (BareJid (Some ''a'') ''prose.org''))"

definition example_like :: "string \<Rightarrow> string option \<Rightarrow> payload \<Rightarrow> message_like" where
  "example_like i s p =
     \<lparr>ml_id = i, ml_remote_id = None, ml_server_id = s, ml_to = None, ml_from = example_user,
      ml_timestamp = 0, ml_payload = p\<rparr>"

definition example_body :: "string \<Rightarrow> like_body" where
  "example_body t = \<lparr>lb_raw = t, lb_html = t, lb_mentions = []\<rparr>"

definition example_history :: "message_like list" where
  "example_history =
     [example_like ''m1'' (Some ''s1'') (PMessage (example_body ''one'') [] None False None None),
      example_like ''m2'' (Some ''s2'') (PMessage (example_body ''two'') [] None False None None),
      example_like ''x1'' None (Retraction (ServerId ''s1'')),
      example_like ''x2'' None (DeliveryReceipt (ServerId ''s1'')),
      example_like ''x3'' None (PReaction (ServerId ''s2'') [''+1'', ''heart'']),
      example_like ''x4'' None (PReaction (ServerId ''s2'') [''heart'']),
      example_like ''x5'' None (ReadReceipt (ServerId ''s2'')),
      example_like ''x6'' None (Correction (ServerId ''s2'') (example_body ''2'') [] None)]"

definition example_result :: message where
  "example_result =
     \<lparr>msg_id = ''m2'', msg_remote_id = None, msg_server_id = Some ''s2'', msg_from = example_user,
      msg_body = \<lparr>body_raw = ''2'', body_html = ''2''\<rparr>, msg_timestamp = 0,
      msg_flags = \<lparr>is_read = True, is_edited = True, is_delivered = False, is_transient = False,
                   is_encrypted = False\<rparr>,
      msg_reactions = [\<lparr>re_emoji = ''heart'', re_from = [example_user]\<rparr>],
      msg_attachments = [], msg_mentions = [], msg_reply_to = None\<rparr>"

lemmas example_defs =
  example_history_def example_like_def example_body_def example_result_def example_user_def

lemma example_reduced: "reducing_messages example_history = Inr [example_result]"
  by (simp add: reducing_messages_def example_defs to_message_def index_targets_def
      apply_modifier_def set_reactions_def rposition_def)

lemma example_resolve:
  "resolve_target example_history (ServerId ''s1'') = Some ''m1''"
  "resolve_target example_history (ServerId ''s2'') = Some ''m2''"
  by (simp_all add: resolve_target_def history_messages_def example_defs to_message_def)

theorem retracted_message_hidden_witness:
  "\<exists>out. reducing_messages example_history = Inr out \<and> ''m1'' \<notin> msg_id ` set out"
  by (rule retracted_message_hidden
      [of "example_like ''x1'' None (Retraction (ServerId ''s1''))" _ "ServerId ''s1''"])
    (simp_all add: example_resolve, simp_all add: example_history_def example_like_def)

theorem reduced_flags_exact_witness:
  "is_read (msg_flags example_result) \<and> \<not> is_delivered (msg_flags example_result) \<and>
   (\<exists>ml \<in> set example_history. \<exists>t. ml_payload ml = ReadReceipt t \<and>
      resolve_target example_history t = Some ''m2'')"
  using reduced_flags_exact [OF example_reduced, of example_result]
  by (simp add: example_result_def)

theorem reduced_reactions_exact_witness:
  "wf_reactions (msg_reactions example_result) \<and>
   set (reactions_from example_result example_user) = {''heart''}"
proof -
  have "\<forall>ml \<in> set example_history. distinct_emojis ml"
    by (simp add: example_defs distinct_emojis_def)
  from reduced_reactions_exact [OF example_reduced _ this, of example_result example_user]
  show ?thesis by (simp add: example_result_def reactions_from_def)
qed

theorem toggle_reaction_flips_witness:
  "norm_reactions (msg_reactions (toggle_reaction example_result example_user ''heart'')) \<and>
   reacted (msg_reactions (toggle_reaction example_result example_user ''heart'')) = {}"
  using toggle_reaction_flips [of example_result example_user "''heart''"]
  by (simp add: example_result_def norm_reactions_def)

end
