(* ===== verification/StringIndex.thy ===== *)
theory StringIndex
  imports Prelude
begin

text \<open>
  \<^verbatim>\<open>domain/shared/models/string_index.rs\<close>: conversions between indices into the UTF-8
  bytes, the UTF-16 code units and the Unicode scalars of a string. Mentions are stored with scalar
  ranges, clients use UTF-16 and Rust uses UTF-8.

  Here a string is the list of its scalar values, which is what \<^verbatim>\<open>str::chars\<close> iterates
  over. The two encodings differ only in how many units a scalar takes, so their laws are proved
  once in the locale \<open>unit_encoding\<close>.
\<close>

section \<open>Definitions\<close>

type_synonym scalar = nat

datatype index_error = NotAtCharBoundary | IndexOutOfBounds

text \<open>\<^verbatim>\<open>char::len_utf8\<close> and \<^verbatim>\<open>char::len_utf16\<close>.\<close>

definition len_utf8 :: "scalar \<Rightarrow> nat" where
  "len_utf8 c = (if c < 128 then 1 else if c < 2048 then 2 else if c < 65536 then 3 else 4)"

definition len_utf16 :: "scalar \<Rightarrow> nat" where
  "len_utf16 c = (if c < 65536 then 1 else 2)"

text \<open>
  The loop of \<^verbatim>\<open>to_scalar_index\<close>: \<^verbatim>\<open>checked_sub\<close> fails when the index points into the
  middle of a scalar; the loop breaks when the index is used up. The result is what is left of the
  index and the number of scalars passed.
\<close>

fun scalar_loop :: "(scalar \<Rightarrow> nat) \<Rightarrow> nat \<Rightarrow> nat \<Rightarrow> scalar list \<Rightarrow> index_error + (nat \<times> nat)" where
  "scalar_loop len idx scalar_idx [] = Inr (idx, scalar_idx)"
| "scalar_loop len idx scalar_idx (c # cs) =
     (if idx = 0 then Inr (idx, scalar_idx)
      else if len c \<le> idx then scalar_loop len (idx - len c) (scalar_idx + 1) cs
      else Inl NotAtCharBoundary)"

definition utf8_to_scalar_index :: "nat \<Rightarrow> scalar list \<Rightarrow> index_error + nat" where
  "utf8_to_scalar_index i s =
     bind_res (scalar_loop len_utf8 i 0 s)
       (\<lambda>(utf8_idx, scalar_idx). if utf8_idx = 0 then Inr scalar_idx else Inl IndexOutOfBounds)"

definition utf16_to_scalar_index :: "nat \<Rightarrow> scalar list \<Rightarrow> index_error + nat" where
  "utf16_to_scalar_index i s =
     bind_res (scalar_loop len_utf16 i 0 s)
       (\<lambda>(utf16_idx, scalar_idx). if utf16_idx = 0 then Inr scalar_idx else Inl IndexOutOfBounds)"

definition scalar_to_utf16_index :: "nat \<Rightarrow> scalar list \<Rightarrow> index_error + nat" where
  "scalar_to_utf16_index i s =
     (if length (take i s) < i then Inl IndexOutOfBounds
      else Inr (sum_list (map len_utf16 (take i s))))"

definition scalar_to_utf8_index :: "nat \<Rightarrow> scalar list \<Rightarrow> index_error + nat" where
  "scalar_to_utf8_index i s =
     (if length (take i s) < i then Inl IndexOutOfBounds
      else Inr (sum_list (map len_utf8 (take i s))))"

text \<open>The range conversions; a range is its start and its end.\<close>

definition utf8_to_scalar_range :: "nat \<times> nat \<Rightarrow> scalar list \<Rightarrow> index_error + (nat \<times> nat)" where
  "utf8_to_scalar_range r s =
     bind_res (utf8_to_scalar_index (fst r) s)
       (\<lambda>a. bind_res (utf8_to_scalar_index (snd r) s) (\<lambda>b. Inr (a, b)))"

definition utf16_to_scalar_range :: "nat \<times> nat \<Rightarrow> scalar list \<Rightarrow> index_error + (nat \<times> nat)" where
  "utf16_to_scalar_range r s =
     bind_res (utf16_to_scalar_index (fst r) s)
       (\<lambda>a. bind_res (utf16_to_scalar_index (snd r) s) (\<lambda>b. Inr (a, b)))"

definition scalar_to_utf16_range :: "nat \<times> nat \<Rightarrow> scalar list \<Rightarrow> index_error + (nat \<times> nat)" where
  "scalar_to_utf16_range r s =
     bind_res (scalar_to_utf16_index (fst r) s)
       (\<lambda>a. bind_res (scalar_to_utf16_index (snd r) s) (\<lambda>b. Inr (a, b)))"

definition scalar_to_utf8_range :: "nat \<times> nat \<Rightarrow> scalar list \<Rightarrow> index_error + (nat \<times> nat)" where
  "scalar_to_utf8_range r s =
     bind_res (scalar_to_utf8_index (fst r) s)
       (\<lambda>a. bind_res (scalar_to_utf8_index (snd r) s) (\<lambda>b. Inr (a, b)))"

section \<open>Variable-length encodings\<close>

text \<open>
  \<open>unit_offset len i s\<close> is the number of units before scalar \<open>i\<close>. An encoding gives every
  scalar at least one unit, so offsets are strictly increasing and a boundary determines its scalar.
\<close>

definition unit_offset :: "(scalar \<Rightarrow> nat) \<Rightarrow> nat \<Rightarrow> scalar list \<Rightarrow> nat" where
  "unit_offset len i s = sum_list (map len (take i s))"

lemma unit_offset_length: "unit_offset len (length s) s = sum_list (map len s)"
  by (simp add: unit_offset_def)

locale unit_encoding =
  fixes len :: "scalar \<Rightarrow> nat"
    and to_scalar :: "nat \<Rightarrow> scalar list \<Rightarrow> index_error + nat"
    and from_scalar :: "nat \<Rightarrow> scalar list \<Rightarrow> index_error + nat"
  assumes len_pos: "0 < len c"
    and to_scalar_loop: "to_scalar i s =
      bind_res (scalar_loop len i 0 s) (\<lambda>(j, k). if j = 0 then Inr k else Inl IndexOutOfBounds)"
    and from_scalar_sum: "from_scalar i s =
      (if length s < i then Inl IndexOutOfBounds else Inr (unit_offset len i s))"
begin

lemma unit_offset_simps [simp]:
  "unit_offset len 0 s = 0"
  "unit_offset len (Suc i) (c # s) = len c + unit_offset len i s"
  by (simp_all add: unit_offset_def)

lemma unit_offset_strict: "i < j \<Longrightarrow> j \<le> length s \<Longrightarrow> unit_offset len i s < unit_offset len j s"
proof (induction s arbitrary: i j)
  case (Cons c s)
  obtain j' where j: "j = Suc j'" using Cons.prems by (cases j) auto
  with Cons len_pos [of c] show ?case by (cases i) auto
qed simp

lemma unit_offset_less_iff:
  "i \<le> length s \<Longrightarrow> j \<le> length s \<Longrightarrow> unit_offset len i s < unit_offset len j s \<longleftrightarrow> i < j"
  using unit_offset_strict [of i j s] unit_offset_strict [of j i s]
  by (cases i j rule: linorder_cases) auto

text \<open>The loop, for every index: a boundary, an index past the end, or the middle of a scalar.\<close>

lemma scalar_loop_boundary:
  "i \<le> length s \<Longrightarrow> scalar_loop len (unit_offset len i s) k s = Inr (0, k + i)"
proof (induction i arbitrary: k s)
  case 0
  then show ?case by (cases s) auto
next
  case (Suc i)
  then obtain c t where "s = c # t" "i \<le> length t" by (cases s) auto
  with Suc.IH [of t "Suc k"] len_pos [of c] show ?case by simp
qed

lemma scalar_loop_past_end:
  "unit_offset len (length s) s < idx \<Longrightarrow>
     scalar_loop len idx k s = Inr (idx - unit_offset len (length s) s, k + length s)"
  by (induction s arbitrary: idx k) auto

lemma scalar_loop_inside:
  "idx < unit_offset len (length s) s \<Longrightarrow> \<forall>i \<le> length s. idx \<noteq> unit_offset len i s \<Longrightarrow>
     scalar_loop len idx k s = Inl NotAtCharBoundary"
proof (induction s arbitrary: idx k)
  case (Cons c s)
  have "idx \<noteq> 0" using Cons.prems(2) by (metis unit_offset_simps(1) zero_le)
  moreover have "scalar_loop len (idx - len c) (Suc k) s = Inl NotAtCharBoundary" if "len c \<le> idx"
  proof (rule Cons.IH)
    show "idx - len c < unit_offset len (length s) s" using Cons.prems(1) that by simp
    show "\<forall>i \<le> length s. idx - len c \<noteq> unit_offset len i s"
    proof (intro allI impI notI)
      fix i assume "i \<le> length s" "idx - len c = unit_offset len i s"
      then have "Suc i \<le> length (c # s)" "idx = unit_offset len (Suc i) (c # s)" using that by auto
      with Cons.prems(2) show False by blast
    qed
  qed
  ultimately show ?case by simp
qed simp

text \<open>The conversions to scalars, on every index.\<close>

lemma to_scalar_boundary: "i \<le> length s \<Longrightarrow> to_scalar (unit_offset len i s) s = Inr i"
  by (simp add: to_scalar_loop scalar_loop_boundary)

lemma index_cases:
  obtains (boundary) n where "n \<le> length s" "j = unit_offset len n s"
  | (past) "unit_offset len (length s) s < j"
  | (inside) "j < unit_offset len (length s) s" "\<forall>n \<le> length s. j \<noteq> unit_offset len n s"
  by (metis le_refl linorder_less_linear)

lemma to_scalar_Inr_iff:
  "to_scalar j s = Inr i \<longleftrightarrow> i \<le> length s \<and> j = unit_offset len i s"
proof (cases j s rule: index_cases)
  case (boundary n)
  then show ?thesis
    using unit_offset_less_iff [of n s i] unit_offset_less_iff [of i s n]
    by (cases n i rule: linorder_cases) (auto simp: to_scalar_boundary)
next
  case past
  then show ?thesis
    using unit_offset_less_iff [of "length s" s i]
    by (auto simp: to_scalar_loop scalar_loop_past_end)
next
  case inside
  then show ?thesis by (auto simp: to_scalar_loop scalar_loop_inside)
qed

lemma to_scalar_out_of_bounds_iff:
  "to_scalar j s = Inl IndexOutOfBounds \<longleftrightarrow> unit_offset len (length s) s < j"
proof (cases j s rule: index_cases)
  case (boundary n)
  then show ?thesis
    using unit_offset_less_iff [of "length s" s n] by (auto simp: to_scalar_boundary)
qed (auto simp: to_scalar_loop scalar_loop_past_end scalar_loop_inside)

lemma to_scalar_not_at_boundary_iff:
  "to_scalar j s = Inl NotAtCharBoundary \<longleftrightarrow>
     j \<le> unit_offset len (length s) s \<and> (\<nexists>i. i \<le> length s \<and> j = unit_offset len i s)"
proof (cases j s rule: index_cases)
  case (boundary n)
  then show ?thesis by (auto simp: to_scalar_boundary)
qed (auto simp: to_scalar_loop scalar_loop_past_end scalar_loop_inside)

lemma from_scalar_Inr_iff:
  "from_scalar i s = Inr j \<longleftrightarrow> i \<le> length s \<and> j = unit_offset len i s"
  by (auto simp: from_scalar_sum)

lemma conversions_inverse: "to_scalar j s = Inr i \<longleftrightarrow> from_scalar i s = Inr j"
  by (simp add: to_scalar_Inr_iff from_scalar_Inr_iff)

lemma to_scalar_mono:
  "to_scalar a s = Inr i \<Longrightarrow> to_scalar b s = Inr j \<Longrightarrow> a < b \<longleftrightarrow> i < j"
  by (simp add: to_scalar_Inr_iff unit_offset_less_iff)

end

interpretation utf8: unit_encoding len_utf8 utf8_to_scalar_index scalar_to_utf8_index
  by unfold_locales
    (auto simp: len_utf8_def utf8_to_scalar_index_def scalar_to_utf8_index_def unit_offset_def)

interpretation utf16: unit_encoding len_utf16 utf16_to_scalar_index scalar_to_utf16_index
  by unfold_locales
    (auto simp: len_utf16_def utf16_to_scalar_index_def scalar_to_utf16_index_def unit_offset_def)

section \<open>Properties\<close>

text \<open>
  C40. Indices round-trip: a UTF-8 or UTF-16 index converts to a scalar index exactly when that
  scalar index converts back to it, so no conversion loses or shifts a position.
\<close>

theorem string_index_roundtrip:
  "(utf8_to_scalar_index j s = Inr i \<longleftrightarrow> scalar_to_utf8_index i s = Inr j) \<and>
   (utf16_to_scalar_index j s = Inr i \<longleftrightarrow> scalar_to_utf16_index i s = Inr j)"
  by (simp add: utf8.conversions_inverse utf16.conversions_inverse)

text \<open>
  The two errors of the conversion to scalars are exact: an index is out of bounds if and only
  if it lies past the units of the whole string, and it is reported to be inside a character if and
  only if it lies within the string but is not the offset of any scalar.
\<close>

theorem string_index_errors_exact:
  "(utf8_to_scalar_index j s = Inl IndexOutOfBounds \<longleftrightarrow> sum_list (map len_utf8 s) < j) \<and>
   (utf8_to_scalar_index j s = Inl NotAtCharBoundary \<longleftrightarrow>
      j \<le> sum_list (map len_utf8 s) \<and> (\<nexists>i. i \<le> length s \<and> j = sum_list (map len_utf8 (take i s)))) \<and>
   (utf16_to_scalar_index j s = Inl IndexOutOfBounds \<longleftrightarrow> sum_list (map len_utf16 s) < j) \<and>
   (utf16_to_scalar_index j s = Inl NotAtCharBoundary \<longleftrightarrow>
      j \<le> sum_list (map len_utf16 s) \<and> (\<nexists>i. i \<le> length s \<and> j = sum_list (map len_utf16 (take i s))))"
  using utf8.to_scalar_out_of_bounds_iff [of j s] utf16.to_scalar_out_of_bounds_iff [of j s]
    utf8.to_scalar_not_at_boundary_iff [of j s] utf16.to_scalar_not_at_boundary_iff [of j s]
  by (simp add: unit_offset_def)

text \<open>
  A non-empty range of UTF-16 units, as clients send it, that converts to scalars gives a
  non-empty range inside the string, and converting that range to UTF-8 and back to scalars, as
  slicing the Rust string does, gives the same range.
\<close>

theorem utf16_range_via_scalars:
  assumes "utf16_to_scalar_range (a, b) s = Inr (i, j)" "a < b"
  shows "i < j \<and> j \<le> length s \<and> scalar_to_utf16_range (i, j) s = Inr (a, b) \<and>
    (\<exists>c d. scalar_to_utf8_range (i, j) s = Inr (c, d) \<and> c < d \<and> d \<le> sum_list (map len_utf8 s) \<and>
       utf8_to_scalar_range (c, d) s = Inr (i, j))"
proof -
  have ij: "utf16_to_scalar_index a s = Inr i" "utf16_to_scalar_index b s = Inr j"
    using assms(1) by (auto simp: utf16_to_scalar_range_def bind_res_Inr_iff)
  then have "i < j" "i \<le> length s" "j \<le> length s"
    using assms(2) utf16.to_scalar_mono [OF ij] by (auto simp: utf16.to_scalar_Inr_iff)
  moreover from this have "unit_offset len_utf8 i s < unit_offset len_utf8 j s"
      "unit_offset len_utf8 j s \<le> unit_offset len_utf8 (length s) s"
    using utf8.unit_offset_less_iff [of "length s" s j]
    by (simp_all add: utf8.unit_offset_less_iff flip: linorder_not_less)
  ultimately show ?thesis
    using ij
    by (auto simp: scalar_to_utf16_range_def scalar_to_utf8_range_def utf8_to_scalar_range_def
        utf16.conversions_inverse utf8.from_scalar_sum utf8.to_scalar_boundary bind_res_Inr_iff
        unit_offset_length)
qed

theorem utf16_range_via_scalars_witness:
  "(1::nat) < 2 \<and> (2::nat) \<le> length [128512, 120, 233::nat] \<and>
   scalar_to_utf16_range (1, 2) [128512, 120, 233] = Inr (2, 3)"
  using utf16_range_via_scalars [of 2 3 "[128512, 120, 233]" 1 2]
  by (simp add: utf16_to_scalar_range_def utf16_to_scalar_index_def len_utf16_def)

end
