(* ===== verification/SortBy.thy ===== *)
theory SortBy
  imports Ids
begin

text \<open>
  The standard library's \<^verbatim>\<open>slice::sort_by\<close> and \<^verbatim>\<open>Vec::dedup_by\<close>.

  \<^verbatim>\<open>sort_by\<close> is a stable sort. Its result is determined by the comparator alone when
  the comparator is a total preorder, so insertion sort stands for the library's algorithm; the
  locale \<open>comparator\<close> states that contract on a carrier set and derives what clients use.
\<close>

section \<open>Definitions\<close>

fun insert_by :: "('a \<Rightarrow> 'a \<Rightarrow> ordering) \<Rightarrow> 'a \<Rightarrow> 'a list \<Rightarrow> 'a list" where
  "insert_by cmp x [] = [x]"
| "insert_by cmp x (y # ys) = (if cmp x y = Greater then y # insert_by cmp x ys else x # y # ys)"

fun sort_by :: "('a \<Rightarrow> 'a \<Rightarrow> ordering) \<Rightarrow> 'a list \<Rightarrow> 'a list" where
  "sort_by cmp [] = []"
| "sort_by cmp (x # xs) = insert_by cmp x (sort_by cmp xs)"

text \<open>
  \<^verbatim>\<open>dedup_by(same)\<close> calls \<^verbatim>\<open>same(current, last_kept)\<close>. The call may change the
  element kept: \<open>merge current kept\<close> is the changed element when the current one is dropped,
  and \<open>None\<close> when it is kept.
\<close>

fun dedup_from :: "('a \<Rightarrow> 'a \<Rightarrow> 'a option) \<Rightarrow> 'a \<Rightarrow> 'a list \<Rightarrow> 'a list" where
  "dedup_from merge kept [] = [kept]"
| "dedup_from merge kept (x # xs) =
     (case merge x kept of
        Some kept' \<Rightarrow> dedup_from merge kept' xs
      | None \<Rightarrow> kept # dedup_from merge x xs)"

fun dedup_by :: "('a \<Rightarrow> 'a \<Rightarrow> 'a option) \<Rightarrow> 'a list \<Rightarrow> 'a list" where
  "dedup_by merge [] = []"
| "dedup_by merge (x # xs) = dedup_from merge x xs"

text \<open>The derived \<^verbatim>\<open>Ord\<close> of a primitive type.\<close>

definition cmp_of :: "'a::linorder \<Rightarrow> 'a \<Rightarrow> ordering" where
  "cmp_of a b = (if a < b then Less else if a = b then Equal else Greater)"

section \<open>Comparators\<close>

locale comparator =
  fixes A :: "'a set" and cmp :: "'a \<Rightarrow> 'a \<Rightarrow> ordering"
  assumes cmp_refl: "x \<in> A \<Longrightarrow> cmp x x = Equal"
    and cmp_flip: "x \<in> A \<Longrightarrow> y \<in> A \<Longrightarrow> cmp x y = Less \<longleftrightarrow> cmp y x = Greater"
    and cmp_trans: "x \<in> A \<Longrightarrow> y \<in> A \<Longrightarrow> z \<in> A \<Longrightarrow> cmp x y \<noteq> Greater \<Longrightarrow> cmp y z \<noteq> Greater \<Longrightarrow>
           cmp x z \<noteq> Greater"
begin

lemma cmp_equal_sym: "x \<in> A \<Longrightarrow> y \<in> A \<Longrightarrow> cmp x y = Equal \<Longrightarrow> cmp y x = Equal"
  by (metis cmp_flip ordering.exhaust ordering.distinct)

lemma cmp_total: "x \<in> A \<Longrightarrow> y \<in> A \<Longrightarrow> cmp x y = Greater \<Longrightarrow> cmp y x \<noteq> Greater"
  using cmp_flip by fastforce

lemma cmp_equal_trans:
  assumes "x \<in> A" "y \<in> A" "z \<in> A" "cmp x y = Equal" "cmp y z = Equal"
  shows "cmp x z = Equal"
proof -
  have "cmp x z \<noteq> Greater" using assms cmp_trans [of x y z] by simp
  moreover have "cmp z x \<noteq> Greater"
    using assms by (intro cmp_trans [of z y x]) (simp_all add: cmp_equal_sym [of x y] cmp_equal_sym [of y z])
  ultimately show ?thesis using cmp_flip [OF assms(1,3)] by (cases "cmp x z") simp_all
qed

lemma mset_insert_by: "mset (insert_by cmp x ys) = add_mset x (mset ys)"
  by (induction ys) auto

lemma set_insert_by: "set (insert_by cmp x ys) = insert x (set ys)"
  by (induction ys) auto

lemma mset_sort_by: "mset (sort_by cmp xs) = mset xs"
  by (induction xs) (simp_all add: mset_insert_by)

lemma set_sort_by: "set (sort_by cmp xs) = set xs"
  by (induction xs) (simp_all add: set_insert_by)

lemma sorted_insert_by:
  assumes "x \<in> A" "set ys \<subseteq> A" "sorted_wrt (\<lambda>a b. cmp a b \<noteq> Greater) ys"
  shows "sorted_wrt (\<lambda>a b. cmp a b \<noteq> Greater) (insert_by cmp x ys)"
  using assms
proof (induction ys)
  case (Cons y ys)
  show ?case
  proof (cases "cmp x y = Greater")
    case True
    with Cons.prems have "cmp y x \<noteq> Greater" by (intro cmp_total) auto
    with True Cons show ?thesis by (simp add: set_insert_by)
  next
    case False
    have "cmp x z \<noteq> Greater" if "z \<in> set ys" for z
      using False that Cons.prems by (intro cmp_trans [of x y z]) auto
    with False Cons.prems show ?thesis by simp
  qed
qed simp

lemma sorted_sort_by:
  "set xs \<subseteq> A \<Longrightarrow> sorted_wrt (\<lambda>a b. cmp a b \<noteq> Greater) (sort_by cmp xs)"
  by (induction xs) (simp_all add: sorted_insert_by set_sort_by)

lemma filter_insert_by:
  assumes "x \<in> A" "set ys \<subseteq> A" "k \<in> A"
  shows "filter (\<lambda>y. cmp y k = Equal) (insert_by cmp x ys) =
    filter (\<lambda>y. cmp y k = Equal) (x # ys)"
  using assms
proof (induction ys)
  case (Cons y ys)
  have "\<not> (cmp x k = Equal \<and> cmp y k = Equal)" if "cmp x y = Greater"
  proof
    assume "cmp x k = Equal \<and> cmp y k = Equal"
    then have "cmp x y = Equal"
      using Cons.prems by (auto intro: cmp_equal_trans [of x k y] dest: cmp_equal_sym)
    with that show False by simp
  qed
  with Cons show ?case by auto
qed simp

lemma sort_by_stable:
  assumes "set xs \<subseteq> A" "k \<in> A"
  shows "filter (\<lambda>y. cmp y k = Equal) (sort_by cmp xs) = filter (\<lambda>y. cmp y k = Equal) xs"
  using assms by (induction xs) (simp_all add: filter_insert_by set_sort_by)

text \<open>In a sorted list equal elements are adjacent: after a greater element none of them follows.\<close>

lemma sorted_separates:
  assumes "sorted_wrt (\<lambda>a b. cmp a b \<noteq> Greater) (x # y # ys)" "set (x # y # ys) \<subseteq> A"
    "cmp y x \<noteq> Equal" "z \<in> set (y # ys)"
  shows "cmp z x \<noteq> Equal" "cmp x z = Less"
proof -
  have xy: "cmp x y = Less"
    using assms cmp_equal_sym [of x y] by (cases "cmp x y") auto
  have yz: "cmp y z \<noteq> Greater"
    using assms cmp_refl [of y] by auto
  have zx: "cmp x z = Equal \<Longrightarrow> False"
  proof -
    assume "cmp x z = Equal"
    then have "cmp z x \<noteq> Greater" using assms cmp_equal_sym [of x z] by auto
    then have "cmp y x \<noteq> Greater" using yz assms cmp_trans [of y z x] by auto
    with xy assms cmp_flip [of x y] show False by auto
  qed
  show "cmp z x \<noteq> Equal" using zx assms cmp_equal_sym [of z x] by auto
  have "cmp x z \<noteq> Greater" using assms by auto
  with zx show "cmp x z = Less" by (cases "cmp x z") auto
qed

end

lemma comparator_cmp_of: "comparator UNIV (cmp_of :: 'a::linorder \<Rightarrow> 'a \<Rightarrow> ordering)"
  by unfold_locales (auto simp: cmp_of_def split: if_splits)

interpretation str: comparator UNIV str_cmp
  by unfold_locales (auto simp: str_cmp_def split: if_splits)

section \<open>Sorting and merging by key\<close>

text \<open>
  \<^verbatim>\<open>dedup_by\<close> on a sorted list, where \<open>merge\<close> drops an element exactly when it compares
  equal to the last one kept: per class of equal elements, one element stays, the first with the
  others merged into it in order.
\<close>

definition merge_all :: "('a \<Rightarrow> 'a \<Rightarrow> 'a option) \<Rightarrow> 'a \<Rightarrow> 'a list \<Rightarrow> 'a" where
  "merge_all merge e es = fold (\<lambda>x kept. the (merge x kept)) es e"

locale merging = comparator A cmp for A :: "'a set" and cmp :: "'a \<Rightarrow> 'a \<Rightarrow> ordering" +
  fixes merge :: "'a \<Rightarrow> 'a \<Rightarrow> 'a option"
  assumes merge_None: "x \<in> A \<Longrightarrow> y \<in> A \<Longrightarrow> merge x y = None \<longleftrightarrow> cmp x y \<noteq> Equal"
    and merge_same: "x \<in> A \<Longrightarrow> y \<in> A \<Longrightarrow> merge x y = Some z \<Longrightarrow> z \<in> A \<and> cmp z y = Equal"
begin

text \<open>Replacing an element by one that compares equal keeps a list sorted.\<close>

lemma sorted_replace:
  assumes "sorted_wrt (\<lambda>a b. cmp a b \<noteq> Greater) (x # xs)" "set (x # xs) \<subseteq> A" "z \<in> A" "cmp z x = Equal"
  shows "sorted_wrt (\<lambda>a b. cmp a b \<noteq> Greater) (z # xs)"
  using assms cmp_trans [of z x] by auto

lemma dedup_from_filter:
  assumes "sorted_wrt (\<lambda>a b. cmp a b \<noteq> Greater) (x # xs)" "set (x # xs) \<subseteq> A" "k \<in> A"
  shows "filter (\<lambda>y. cmp y k = Equal) (dedup_from merge x xs) =
    (case filter (\<lambda>y. cmp y k = Equal) (x # xs) of
       [] \<Rightarrow> [] | e # es \<Rightarrow> [merge_all merge e es])"
  using assms
proof (induction xs arbitrary: x)
  case Nil
  then show ?case by (simp add: merge_all_def)
next
  case (Cons y ys)
  show ?case
  proof (cases "merge y x")
    case None
    then have ne: "cmp y x \<noteq> Equal" using Cons.prems merge_None by auto
    have sep: "cmp z x \<noteq> Equal" if "z \<in> set (y # ys)" for z
      using sorted_separates(1) [OF Cons.prems(1,2) ne that] .
    have "filter (\<lambda>z. cmp z k = Equal) (y # ys) = []" if "cmp x k = Equal"
    proof -
      have "cmp z k \<noteq> Equal" if "z \<in> set (y # ys)" for z
        using sep [OF that] \<open>cmp x k = Equal\<close> Cons.prems that
        by (metis cmp_equal_sym cmp_equal_trans in_mono list.set_intros(1,2))
      then show ?thesis by (simp only: filter_empty_conv) blast
    qed
    moreover have "filter (\<lambda>z. cmp z k = Equal) (dedup_from merge y ys) =
        (case filter (\<lambda>z. cmp z k = Equal) (y # ys) of
           [] \<Rightarrow> [] | e # es \<Rightarrow> [merge_all merge e es])"
      using Cons by auto
    ultimately show ?thesis using None by (auto simp: merge_all_def)
  next
    case (Some z)
    have zx: "z \<in> A" "cmp z x = Equal" "cmp y x = Equal"
      using Some Cons.prems merge_same [of y x z] merge_None [of y x] by auto
    then have "sorted_wrt (\<lambda>a b. cmp a b \<noteq> Greater) (z # ys)"
      using sorted_replace [of x ys z] Cons.prems by auto
    then have IH: "filter (\<lambda>w. cmp w k = Equal) (dedup_from merge z ys) =
        (case filter (\<lambda>w. cmp w k = Equal) (z # ys) of
           [] \<Rightarrow> [] | e # es \<Rightarrow> [merge_all merge e es])"
      using Cons zx by auto
    have eq: "cmp w k = Equal \<longleftrightarrow> cmp x k = Equal" if "w \<in> A" "cmp w x = Equal" for w
      by (rule iffI)
        (use that Cons.prems in
          \<open>auto intro: cmp_equal_trans [of w x k] cmp_equal_trans [of x w k] cmp_equal_sym\<close>)
    then have "cmp z k = Equal \<longleftrightarrow> cmp x k = Equal" "cmp y k = Equal \<longleftrightarrow> cmp x k = Equal"
      using zx Cons.prems by auto
    with IH Some show ?thesis by (auto simp: merge_all_def)
  qed
qed

lemma dedup_by_filter:
  assumes "sorted_wrt (\<lambda>a b. cmp a b \<noteq> Greater) xs" "set xs \<subseteq> A" "k \<in> A"
  shows "filter (\<lambda>y. cmp y k = Equal) (dedup_by merge xs) =
    (case filter (\<lambda>y. cmp y k = Equal) xs of [] \<Rightarrow> [] | e # es \<Rightarrow> [merge_all merge e es])"
  using assms dedup_from_filter [of _ _ k] by (cases xs) auto

text \<open>The elements left are strictly increasing.\<close>

lemma dedup_from_subset:
  "set (x # xs) \<subseteq> A \<Longrightarrow> set (dedup_from merge x xs) \<subseteq> A"
proof (induction xs arbitrary: x)
  case (Cons y ys)
  show ?case
  proof (cases "merge y x")
    case (Some z)
    with Cons.prems merge_same [of y x z] have "set (z # ys) \<subseteq> A" by simp
    from Cons.IH [OF this] Some show ?thesis by simp
  qed (use Cons in simp)
qed simp

lemma less_equal_trans:
  assumes "w \<in> A" "x \<in> A" "z \<in> A" "cmp w x = Less" "cmp z x = Equal"
  shows "cmp w z = Less"
proof -
  have "cmp w z \<noteq> Greater"
    using assms cmp_equal_sym [of z x] by (intro cmp_trans [of w x z]) simp_all
  moreover have "cmp w z \<noteq> Equal" using assms cmp_equal_trans [of w z x] by fastforce
  ultimately show ?thesis by (cases "cmp w z") simp_all
qed

lemma dedup_from_lower:
  assumes "set (x # xs) \<subseteq> A" "w \<in> A" "\<And>v. v \<in> set (x # xs) \<Longrightarrow> cmp w v = Less" "u \<in> set (dedup_from merge x xs)"
  shows "cmp w u = Less"
  using assms
proof (induction xs arbitrary: x)
  case (Cons y ys)
  show ?case
  proof (cases "merge y x")
    case None
    with Cons.prems(4) consider "u = x" | "u \<in> set (dedup_from merge y ys)" by auto
    then show ?thesis
    proof cases
      case 2
      with Cons.prems(1-3) show ?thesis by (intro Cons.IH [of y]) auto
    qed (use Cons.prems(3) in simp)
  next
    case (Some z)
    have z: "z \<in> A" "cmp z x = Equal" using Some Cons.prems(1) merge_same [of y x z] by auto
    then have "cmp w z = Less"
      using Cons.prems(1-3) by (intro less_equal_trans [of w x z]) auto
    with z Some Cons.prems show ?thesis by (intro Cons.IH [of z]) auto
  qed
qed simp

lemma dedup_from_strict:
  assumes "sorted_wrt (\<lambda>a b. cmp a b \<noteq> Greater) (x # xs)" "set (x # xs) \<subseteq> A"
  shows "sorted_wrt (\<lambda>a b. cmp a b = Less) (dedup_from merge x xs)"
  using assms
proof (induction xs arbitrary: x)
  case (Cons y ys)
  show ?case
  proof (cases "merge y x")
    case None
    then have ne: "cmp y x \<noteq> Equal" using Cons.prems merge_None by auto
    have "cmp x v = Less" if "v \<in> set (y # ys)" for v
      using sorted_separates(2) [OF Cons.prems(1,2) ne that] .
    then have "\<forall>u \<in> set (dedup_from merge y ys). cmp x u = Less"
      using Cons.prems(2) dedup_from_lower [of y ys x] by auto
    with None Cons.prems Cons.IH [of y] show ?thesis by simp
  next
    case (Some z)
    have "z \<in> A" "cmp z x = Equal" using Some Cons.prems merge_same [of y x z] by auto
    with Some Cons.prems sorted_replace [of x ys z] Cons.IH [of z] show ?thesis by simp
  qed
qed simp

lemma dedup_by_strict:
  assumes "sorted_wrt (\<lambda>a b. cmp a b \<noteq> Greater) xs" "set xs \<subseteq> A"
  shows "sorted_wrt (\<lambda>a b. cmp a b = Less) (dedup_by merge xs)" "set (dedup_by merge xs) \<subseteq> A"
  using assms dedup_from_strict [of "hd xs" "tl xs"] dedup_from_subset [of "hd xs" "tl xs"]
  by (cases xs; simp)+

theorem sort_dedup_filter:
  assumes "set xs \<subseteq> A" "k \<in> A"
  shows "filter (\<lambda>y. cmp y k = Equal) (dedup_by merge (sort_by cmp xs)) =
    (case filter (\<lambda>y. cmp y k = Equal) xs of [] \<Rightarrow> [] | e # es \<Rightarrow> [merge_all merge e es])"
  using dedup_by_filter [of "sort_by cmp xs" k] sorted_sort_by [OF assms(1)] sort_by_stable [OF assms]
    assms by (simp add: set_sort_by)

theorem sort_dedup_strict:
  assumes "set xs \<subseteq> A"
  shows "sorted_wrt (\<lambda>a b. cmp a b = Less) (dedup_by merge (sort_by cmp xs))"
    "set (dedup_by merge (sort_by cmp xs)) \<subseteq> A"
  using dedup_by_strict [of "sort_by cmp xs"] sorted_sort_by [OF assms] assms
  by (simp_all add: set_sort_by)

end

end
