(* ===== verification/RoomTypes.thy ===== *)
theory RoomTypes
  imports Ids
begin

text \<open>
  The kinds of rooms, bookmarks and room specifications
  (\<^verbatim>\<open>domain/shared/models/room_type.rs\<close>, \<^verbatim>\<open>domain/sidebar/models/bookmark_type.rs\<close>,
  \<^verbatim>\<open>domain/rooms/models/room_spec.rs\<close>).
\<close>

datatype room_type = UnknownRoom | DirectMessage | Group | PrivateChannel | PublicChannel | Generic

datatype bookmark_type = BDirectMessage | BGroup | BPrivateChannel | BPublicChannel | BGeneric

datatype room_spec = SGroup | SPrivateChannel | SPublicChannel

fun show_room_type :: "room_type \<Rightarrow> string" where
  "show_room_type UnknownRoom = ''Unknown''"
| "show_room_type DirectMessage = ''Direct Message''"
| "show_room_type Group = ''Group''"
| "show_room_type PrivateChannel = ''Private Channel''"
| "show_room_type PublicChannel = ''Public Channel''"
| "show_room_type Generic = ''Generic''"

fun room_type_from :: "bookmark_type \<Rightarrow> room_type" where
  "room_type_from BDirectMessage = DirectMessage"
| "room_type_from BGroup = Group"
| "room_type_from BPrivateChannel = PrivateChannel"
| "room_type_from BPublicChannel = PublicChannel"
| "room_type_from BGeneric = Generic"

text \<open>The conversion panics for a room that is still being connected: \<open>None\<close>.\<close>

fun bookmark_type_from :: "room_type \<Rightarrow> bookmark_type option" where
  "bookmark_type_from UnknownRoom = None"
| "bookmark_type_from DirectMessage = Some BDirectMessage"
| "bookmark_type_from Group = Some BGroup"
| "bookmark_type_from PrivateChannel = Some BPrivateChannel"
| "bookmark_type_from PublicChannel = Some BPublicChannel"
| "bookmark_type_from Generic = Some BGeneric"

fun spec_room_type :: "room_spec \<Rightarrow> room_type" where
  "spec_room_type SGroup = Group"
| "spec_room_type SPrivateChannel = PrivateChannel"
| "spec_room_type SPublicChannel = PublicChannel"

fun spec_bookmark_type :: "room_spec \<Rightarrow> bookmark_type" where
  "spec_bookmark_type SGroup = BGroup"
| "spec_bookmark_type SPrivateChannel = BPrivateChannel"
| "spec_bookmark_type SPublicChannel = BPublicChannel"

text \<open>The two conversions are inverse to each other, but for the unknown type.\<close>

lemma bookmark_type_from_iff: "bookmark_type_from t = Some b \<longleftrightarrow> t = room_type_from b"
  by (cases t; cases b) simp_all

lemma bookmark_type_from_None [simp]: "bookmark_type_from t = None \<longleftrightarrow> t = UnknownRoom"
  by (cases t) simp_all

lemma spec_types_agree: "bookmark_type_from (spec_room_type sp) = Some (spec_bookmark_type sp)"
  by (cases sp) simp_all

end
