(* ===== verification/Events.thy ===== *)
theory Events
  imports Messages SortBy RoomTypes
begin

text \<open>
  The events sent to the user interface (\<^verbatim>\<open>client_event.rs\<close>), their coalescing
  (\<^verbatim>\<open>util/coalesce_client_events.rs\<close>) and their dispatch
  (\<^verbatim>\<open>infra/events/coalescing_client_event_dispatcher.rs\<close> with the throttled stream of
  \<^verbatim>\<open>prose-wasm-utils/src/stream_ext.rs\<close>).

  A room event carries the room it is about. Coalescing reads nothing but the id of that room.
\<close>

section \<open>Events\<close>

datatype connection_error = TimedOut | InvalidCredentials | GenericError string

datatype connection_event = Connect | Disconnect "connection_error option"

datatype room_event_type =
    MessagesAppended "message_id list"
  | MessagesUpdated "message_id list"
  | MessagesDeleted "message_id list"
  | MessagesNeedReload
  | AttributesChanged
  | ParticipantsChanged
  | ComposingUsersChanged

datatype client_event =
    ConnectionStatusChanged connection_event
  | SidebarChanged
  | ContactChanged "user_id list"
  | ContactListChanged
  | PresenceSubRequestsChanged
  | BlockListChanged
  | AvatarChanged "user_id list"
  | AccountInfoChanged
  | RoomChanged room_id room_event_type

section \<open>Coalescing\<close>

fun order_key_for_client_event :: "client_event \<Rightarrow> int" where
  "order_key_for_client_event (ConnectionStatusChanged _) = 0"
| "order_key_for_client_event SidebarChanged = 1"
| "order_key_for_client_event (ContactChanged _) = 2"
| "order_key_for_client_event ContactListChanged = 3"
| "order_key_for_client_event PresenceSubRequestsChanged = 4"
| "order_key_for_client_event BlockListChanged = 5"
| "order_key_for_client_event (AvatarChanged _) = 6"
| "order_key_for_client_event AccountInfoChanged = 7"
| "order_key_for_client_event (RoomChanged _ _) = 8"

fun order_key_for_room_event :: "room_event_type \<Rightarrow> int" where
  "order_key_for_room_event (MessagesAppended _) = 0"
| "order_key_for_room_event (MessagesUpdated _) = 1"
| "order_key_for_room_event (MessagesDeleted _) = 2"
| "order_key_for_room_event MessagesNeedReload = 3"
| "order_key_for_room_event AttributesChanged = 4"
| "order_key_for_room_event ParticipantsChanged = 5"
| "order_key_for_room_event ComposingUsersChanged = 6"

text \<open>The order of bare JIDs is the \<^verbatim>\<open>jid\<close> crate's: the parameter \<open>jid_cmp\<close>.\<close>

definition compare_client_events :: "(bare_jid \<Rightarrow> bare_jid \<Rightarrow> ordering) \<Rightarrow> client_event \<Rightarrow> client_event \<Rightarrow> ordering" where
  "compare_client_events jid_cmp event_a event_b =
     (case (event_a, event_b) of
        (RoomChanged room_a type_a, RoomChanged room_b type_b) \<Rightarrow>
          (if room_a = room_b
           then cmp_of (order_key_for_room_event type_a) (order_key_for_room_event type_b)
           else jid_cmp (into_bare room_a) (into_bare room_b))
      | _ \<Rightarrow> cmp_of (order_key_for_client_event event_a) (order_key_for_client_event event_b))"

text \<open>
  The closure given to \<^verbatim>\<open>dedup_by\<close>, with the current event first and the last one kept
  second. \<open>Some e\<close> drops the current event, the kept one becoming \<open>e\<close>.
\<close>

fun should_dedup_room_events :: "room_event_type \<Rightarrow> room_event_type \<Rightarrow> room_event_type option" where
  "should_dedup_room_events (MessagesAppended ids_a) event_b =
     (case event_b of MessagesAppended ids_b \<Rightarrow> Some (MessagesAppended (ids_b @ ids_a)) | _ \<Rightarrow> None)"
| "should_dedup_room_events (MessagesUpdated ids_a) event_b =
     (case event_b of MessagesUpdated ids_b \<Rightarrow> Some (MessagesUpdated (ids_b @ ids_a)) | _ \<Rightarrow> None)"
| "should_dedup_room_events (MessagesDeleted ids_a) event_b =
     (case event_b of MessagesDeleted ids_b \<Rightarrow> Some (MessagesDeleted (ids_b @ ids_a)) | _ \<Rightarrow> None)"
| "should_dedup_room_events event_a event_b = (if event_a = event_b then Some event_b else None)"

fun dedup_events :: "client_event \<Rightarrow> client_event \<Rightarrow> client_event option" where
  "dedup_events (ConnectionStatusChanged _) rhs =
     (case rhs of ConnectionStatusChanged _ \<Rightarrow> Some rhs | _ \<Rightarrow> None)"
| "dedup_events (ContactChanged ids_a) rhs =
     (case rhs of ContactChanged ids_b \<Rightarrow> Some (ContactChanged (ids_b @ ids_a)) | _ \<Rightarrow> None)"
| "dedup_events (AvatarChanged ids_a) rhs =
     (case rhs of AvatarChanged ids_b \<Rightarrow> Some (AvatarChanged (ids_b @ ids_a)) | _ \<Rightarrow> None)"
| "dedup_events (RoomChanged room_a type_a) rhs =
     (case rhs of
        RoomChanged room_b type_b \<Rightarrow>
          (if room_a \<noteq> room_b then None
           else map_option (RoomChanged room_b) (should_dedup_room_events type_a type_b))
      | _ \<Rightarrow> None)"
| "dedup_events lhs rhs = (if lhs = rhs then Some rhs else None)"

definition coalesce_client_events :: "(bare_jid \<Rightarrow> bare_jid \<Rightarrow> ordering) \<Rightarrow> client_event list \<Rightarrow> client_event list" where
  "coalesce_client_events jid_cmp es = dedup_by dedup_events (sort_by (compare_client_events jid_cmp) es)"

section \<open>Dispatch\<close>

text \<open>
  Events wait in a channel of capacity 50. A task moves them to a buffer and, on every tick of
  the throttle, sends the buffer as one batch through a channel of capacity 1, waiting while that
  is full. Another task coalesces each batch and hands the events to the delegate, as long as the
  client exists. \<open>d_delivered\<close> lists what the delegate was called with.
\<close>

record dispatcher =
  d_delegate :: bool
  d_client_alive :: bool
  d_channel :: "client_event list"
  d_buf :: "client_event list"
  d_sending :: bool
  d_batches :: "client_event list list"
  d_consuming :: bool
  d_delivered :: "client_event list"

definition dispatcher_new :: "bool \<Rightarrow> dispatcher" where
  "dispatcher_new delegate =
     \<lparr>d_delegate = delegate, d_client_alive = True, d_channel = [], d_buf = [], d_sending = False,
      d_batches = [], d_consuming = delegate, d_delivered = []\<rparr>"

definition try_send :: "client_event \<Rightarrow> dispatcher \<Rightarrow> dispatcher" where
  "try_send e d = (if length (d_channel d) < 50 then d\<lparr>d_channel := d_channel d @ [e]\<rparr> else d)"

fun is_disconnect :: "client_event \<Rightarrow> bool" where
  "is_disconnect (ConnectionStatusChanged (Disconnect _)) = True"
| "is_disconnect _ = False"

definition dispatch_event :: "client_event \<Rightarrow> dispatcher \<Rightarrow> dispatcher" where
  "dispatch_event e d =
     (if is_disconnect e then
        (if \<not> d_delegate d then d
         else if \<not> d_client_alive d then d
         else d\<lparr>d_delivered := d_delivered d @ [e]\<rparr>)
      else try_send e d)"

definition dispatch_room_event :: "room_type \<Rightarrow> room_id \<Rightarrow> room_event_type \<Rightarrow> dispatcher \<Rightarrow> dispatcher" where
  "dispatch_room_event t room e d =
     (if t = UnknownRoom then d else try_send (RoomChanged room e) d)"

text \<open>The loop of \<^verbatim>\<open>throttled\<close>: an event arrives, the interval elapses, a send completes.\<close>

definition throttle_receive :: "dispatcher \<Rightarrow> dispatcher" where
  "throttle_receive d =
     (case d_channel d of
        e # rest \<Rightarrow> if d_sending d then d else d\<lparr>d_channel := rest, d_buf := d_buf d @ [e]\<rparr>
      | [] \<Rightarrow> d)"

definition throttle_tick :: "dispatcher \<Rightarrow> dispatcher" where
  "throttle_tick d = (if d_buf d \<noteq> [] then d\<lparr>d_sending := True\<rparr> else d)"

definition throttle_send :: "dispatcher \<Rightarrow> dispatcher" where
  "throttle_send d =
     (if \<not> d_sending d then d
      else if \<not> d_consuming d then d\<lparr>d_buf := [], d_sending := False\<rparr>
      else if length (d_batches d) < 1 then
        d\<lparr>d_batches := d_batches d @ [d_buf d], d_buf := [], d_sending := False\<rparr>
      else d)"

text \<open>The task that hands batches to the delegate.\<close>

definition consume_batch :: "(bare_jid \<Rightarrow> bare_jid \<Rightarrow> ordering) \<Rightarrow> dispatcher \<Rightarrow> dispatcher" where
  "consume_batch jid_cmp d =
     (case d_batches d of
        b # rest \<Rightarrow>
          (if \<not> d_consuming d then d
           else if \<not> d_client_alive d then d\<lparr>d_consuming := False\<rparr>
           else d\<lparr>d_batches := rest, d_delivered := d_delivered d @ coalesce_client_events jid_cmp b\<rparr>)
      | [] \<Rightarrow> d)"

section \<open>What coalescing promises\<close>

text \<open>Events of the same kind, about the same room where they are about a room, share a bucket.\<close>

fun bucket :: "client_event \<Rightarrow> int \<times> (room_id \<times> int) option" where
  "bucket (RoomChanged r t) = (8, Some (r, order_key_for_room_event t))"
| "bucket e = (order_key_for_client_event e, None)"

fun contact_ids :: "client_event \<Rightarrow> user_id list" where
  "contact_ids (ContactChanged ids) = ids"
| "contact_ids (AvatarChanged ids) = ids"
| "contact_ids _ = []"

fun room_event_ids :: "client_event \<Rightarrow> message_id list" where
  "room_event_ids (RoomChanged _ (MessagesAppended ids)) = ids"
| "room_event_ids (RoomChanged _ (MessagesUpdated ids)) = ids"
| "room_event_ids (RoomChanged _ (MessagesDeleted ids)) = ids"
| "room_event_ids _ = []"

text \<open>The first event of a bucket, with the ids of the whole bucket in the order they came.\<close>

fun combined :: "client_event \<Rightarrow> client_event list \<Rightarrow> client_event" where
  "combined (ContactChanged ids) es = ContactChanged (ids @ concat (map contact_ids es))"
| "combined (AvatarChanged ids) es = AvatarChanged (ids @ concat (map contact_ids es))"
| "combined (RoomChanged r (MessagesAppended ids)) es =
     RoomChanged r (MessagesAppended (ids @ concat (map room_event_ids es)))"
| "combined (RoomChanged r (MessagesUpdated ids)) es =
     RoomChanged r (MessagesUpdated (ids @ concat (map room_event_ids es)))"
| "combined (RoomChanged r (MessagesDeleted ids)) es =
     RoomChanged r (MessagesDeleted (ids @ concat (map room_event_ids es)))"
| "combined e es = e"

fun event_room :: "client_event \<Rightarrow> room_id option" where
  "event_room (RoomChanged r _) = Some r"
| "event_room _ = None"

definition about_rooms :: "room_id set \<Rightarrow> client_event set" where
  "about_rooms rs = {e. \<forall>r. event_room e = Some r \<longrightarrow> r \<in> rs}"

lemma about_rooms_RoomChanged [simp]: "RoomChanged r t \<in> about_rooms rs \<longleftrightarrow> r \<in> rs"
  by (simp add: about_rooms_def)

lemma cmp_of_Equal [simp]: "cmp_of a b = Equal \<longleftrightarrow> a = b"
  by (auto simp: cmp_of_def)

lemma compare_via_buckets:
  "compare_client_events jc a b =
     (case (bucket a, bucket b) of
        ((_, Some (ra, ka)), (_, Some (rb, kb))) \<Rightarrow>
          (if ra = rb then cmp_of ka kb else jc (into_bare ra) (into_bare rb))
      | ((ka, _), (kb, _)) \<Rightarrow> cmp_of ka kb)"
  by (cases a; cases b) (simp_all add: compare_client_events_def)

lemma event_room_Some: "event_room e = Some r \<longleftrightarrow> (\<exists>t. e = RoomChanged r t)"
  by (cases e) simp_all

lemma compare_no_room:
  "event_room a = None \<or> event_room b = None \<Longrightarrow>
     compare_client_events jc a b = cmp_of (order_key_for_client_event a) (order_key_for_client_event b)"
  by (cases a; cases b) (simp_all add: compare_client_events_def)

lemma order_key_room:
  "order_key_for_client_event e \<le> 8" "order_key_for_client_event e = 8 \<longleftrightarrow> event_room e \<noteq> None"
  by (cases e; simp)+

lemma compare_le_key:
  "compare_client_events jc a b \<noteq> Greater \<Longrightarrow> order_key_for_client_event a \<le> order_key_for_client_event b"
  by (cases a; cases b) (simp_all add: compare_client_events_def cmp_of_def split: if_splits)

lemma should_dedup_None:
  "should_dedup_room_events a b = None \<longleftrightarrow> order_key_for_room_event a \<noteq> order_key_for_room_event b"
  by (cases a; cases b) simp_all

lemma dedup_events_None: "dedup_events a b = None \<longleftrightarrow> bucket a \<noteq> bucket b"
  by (cases a; cases b) (auto simp: should_dedup_None)

lemma should_dedup_key:
  "should_dedup_room_events a b = Some c \<Longrightarrow> order_key_for_room_event c = order_key_for_room_event b"
  by (cases a; cases b) auto

lemma dedup_events_bucket: "dedup_events a b = Some c \<Longrightarrow> bucket c = bucket b"
  by (cases a; cases b) (auto dest: should_dedup_key split: if_splits)

text \<open>
  What coalescing needs of the order of JIDs: a total order, consistent with equality. No bare JID
  may name both a user and a multi-user room, or the comparison of events is not transitive.
\<close>

locale event_order = comparator UNIV jid_cmp for jid_cmp :: "bare_jid \<Rightarrow> bare_jid \<Rightarrow> ordering" +
  fixes rs :: "room_id set"
  assumes jid_cmp_Equal: "jid_cmp a b = Equal \<longleftrightarrow> a = b"
    and rooms_inj: "inj_on into_bare rs"
begin

lemma jid_cmp_antisym: "jid_cmp a b \<noteq> Greater \<Longrightarrow> jid_cmp b a \<noteq> Greater \<Longrightarrow> a = b"
  using cmp_flip [of a b] by (cases "jid_cmp a b") (auto simp: jid_cmp_Equal)

lemma compare_Equal:
  assumes "a \<in> about_rooms rs" "b \<in> about_rooms rs"
  shows "compare_client_events jid_cmp a b = Equal \<longleftrightarrow> bucket a = bucket b"
  using assms rooms_inj
  by (cases a; cases b)
    (auto simp: compare_client_events_def jid_cmp_Equal dest: inj_onD)

lemma compare_flip:
  "compare_client_events jid_cmp a b = Less \<longleftrightarrow> compare_client_events jid_cmp b a = Greater"
  using cmp_flip
  by (auto simp: compare_via_buckets cmp_of_def split: prod.splits option.splits if_splits)

lemma compare_trans_rooms:
  assumes "ra \<in> rs" "rb \<in> rs" "rc \<in> rs"
    and "(if ra = rb then cmp_of ka kb else jid_cmp (into_bare ra) (into_bare rb)) \<noteq> Greater"
    and "(if rb = rc then cmp_of kb kc else jid_cmp (into_bare rb) (into_bare rc)) \<noteq> Greater"
  shows "(if ra = rc then cmp_of ka (kc::int) else jid_cmp (into_bare ra) (into_bare rc)) \<noteq> Greater"
proof -
  have inj: "into_bare x = into_bare y \<longleftrightarrow> x = y" if "x \<in> rs" "y \<in> rs" for x y
    using rooms_inj that by (auto dest: inj_onD)
  consider "ra = rb" | "rb = rc" "ra \<noteq> rb" | "ra \<noteq> rb" "rb \<noteq> rc" by blast
  then show ?thesis
  proof cases
    case 3
    with assms(4,5) have ab: "jid_cmp (into_bare ra) (into_bare rb) \<noteq> Greater"
      and bc: "jid_cmp (into_bare rb) (into_bare rc) \<noteq> Greater" by simp_all
    then have "ra \<noteq> rc" using 3 assms(1-3) jid_cmp_antisym inj by blast
    with cmp_trans [OF _ _ _ ab bc] show ?thesis by simp
  qed (use assms(4,5) in \<open>auto simp: cmp_of_def split: if_splits\<close>)
qed

lemma compare_trans:
  assumes "a \<in> about_rooms rs" "b \<in> about_rooms rs" "c \<in> about_rooms rs"
    and "compare_client_events jid_cmp a b \<noteq> Greater" "compare_client_events jid_cmp b c \<noteq> Greater"
  shows "compare_client_events jid_cmp a c \<noteq> Greater"
proof -
  note le = compare_le_key [OF assms(4)] compare_le_key [OF assms(5)]
  show ?thesis
  proof (cases "event_room a = None \<or> event_room c = None")
    case True
    with le show ?thesis by (simp add: compare_no_room cmp_of_def)
  next
    case False
    then have "event_room b \<noteq> None"
      using le order_key_room by (metis order_antisym)
    with False obtain ra ta rb tb rc tc
      where "a = RoomChanged ra ta" "b = RoomChanged rb tb" "c = RoomChanged rc tc"
      by (auto simp: event_room_Some)
    with assms compare_trans_rooms [of ra rb rc] show ?thesis
      by (simp add: compare_client_events_def)
  qed
qed

end

sublocale event_order \<subseteq> events: merging "about_rooms rs" "compare_client_events jid_cmp" dedup_events
proof unfold_locales
  fix x y z
  assume x: "x \<in> about_rooms rs"
  then show "compare_client_events jid_cmp x x = Equal" by (simp add: compare_Equal)
  assume y: "y \<in> about_rooms rs"
  show "compare_client_events jid_cmp x y = Less \<longleftrightarrow> compare_client_events jid_cmp y x = Greater"
    by (rule compare_flip)
  show "dedup_events x y = None \<longleftrightarrow> compare_client_events jid_cmp x y \<noteq> Equal"
    using x y by (simp add: compare_Equal dedup_events_None)
  {
    assume "dedup_events x y = Some z"
    then have "bucket z = bucket y" by (rule dedup_events_bucket)
    moreover have "z \<in> about_rooms rs"
      using y \<open>bucket z = bucket y\<close> by (cases z; cases y) (auto simp: about_rooms_def)
    ultimately show "z \<in> about_rooms rs \<and> compare_client_events jid_cmp z y = Equal"
      using y by (simp add: compare_Equal)
  }
  assume "z \<in> about_rooms rs" "compare_client_events jid_cmp x y \<noteq> Greater"
    "compare_client_events jid_cmp y z \<noteq> Greater"
  with x y show "compare_client_events jid_cmp x z \<noteq> Greater" by (rule compare_trans)
qed

lemma dedup_combined:
  assumes "bucket x = bucket e"
  shows "combined (the (dedup_events x e)) es = combined e (x # es)"
proof (cases "\<exists>r s t. x = RoomChanged r s \<and> e = RoomChanged r t")
  case True
  then obtain r s t where "x = RoomChanged r s" "e = RoomChanged r t" by blast
  with assms show ?thesis by (cases s; cases t) simp_all
next
  case False
  with assms show ?thesis by (cases x; cases e) auto
qed

lemma combined_Nil [simp]: "combined e [] = e"
proof (cases e)
  case (RoomChanged r t)
  then show ?thesis by (cases t) simp_all
qed simp_all

lemma merge_all_combined:
  "\<forall>x \<in> set es. bucket x = bucket e \<Longrightarrow> merge_all dedup_events e es = combined e es"
proof (induction es arbitrary: e)
  case Nil
  show ?case by (simp add: merge_all_def)
next
  case (Cons x es)
  then obtain e' where e': "dedup_events x e = Some e'"
    using dedup_events_None [of x e] by auto
  have "merge_all dedup_events e (x # es) = merge_all dedup_events e' es"
    by (simp add: merge_all_def e')
  also have "\<dots> = combined e' es"
    using Cons dedup_events_bucket [OF e'] by simp
  also have "\<dots> = combined e (x # es)"
    using dedup_combined [of x e es] Cons.prems e' by simp
  finally show ?case .
qed

context event_order
begin

lemma coalesce_strict:
  assumes "set es \<subseteq> about_rooms rs"
  shows "sorted_wrt (\<lambda>a b. compare_client_events jid_cmp a b = Less) (coalesce_client_events jid_cmp es)"
    "set (coalesce_client_events jid_cmp es) \<subseteq> about_rooms rs"
  using events.sort_dedup_strict [OF assms] by (simp_all add: coalesce_client_events_def)

lemma filter_bucket:
  assumes "set es \<subseteq> about_rooms rs" "k \<in> about_rooms rs"
  shows "filter (\<lambda>e. compare_client_events jid_cmp e k = Equal) es = filter (\<lambda>e. bucket e = bucket k) es"
  using assms by (intro filter_cong) (auto simp: compare_Equal)

lemma coalesce_per_bucket:
  assumes "set es \<subseteq> about_rooms rs"
  shows "filter (\<lambda>e. bucket e = b) (coalesce_client_events jid_cmp es) =
    (case filter (\<lambda>e. bucket e = b) es of [] \<Rightarrow> [] | e # rest \<Rightarrow> [combined e rest])"
proof (cases "\<exists>k \<in> about_rooms rs. bucket k = b")
  case True
  then obtain k where k: "k \<in> about_rooms rs" "bucket k = b" by blast
  have "filter (\<lambda>e. bucket e = b) (coalesce_client_events jid_cmp es) =
      (case filter (\<lambda>e. bucket e = b) es of [] \<Rightarrow> [] | e # rest \<Rightarrow> [merge_all dedup_events e rest])"
    using events.sort_dedup_filter [OF assms k(1)] coalesce_strict(2) [OF assms]
    by (simp add: filter_bucket assms k flip: coalesce_client_events_def)
  moreover have "merge_all dedup_events e rest = combined e rest"
    if eq: "filter (\<lambda>e. bucket e = b) es = e # rest" for e rest
  proof (rule merge_all_combined)
    have "set (e # rest) \<subseteq> {x. bucket x = b}"
      unfolding eq [symmetric] by auto
    then show "\<forall>x \<in> set rest. bucket x = bucket e" by auto
  qed
  ultimately show ?thesis by (auto split: list.split)
next
  case False
  then have none: "filter (\<lambda>e. bucket e = b) xs = []" if "set xs \<subseteq> about_rooms rs" for xs
    using that by (auto simp: filter_empty_conv)
  show ?thesis using none [OF assms] none [OF coalesce_strict(2) [OF assms]] by simp
qed

end

definition event_rooms :: "client_event list \<Rightarrow> room_id set" where
  "event_rooms es = {r. \<exists>e \<in> set es. event_room e = Some r}"

lemma events_about_rooms: "set es \<subseteq> about_rooms (event_rooms es)"
  by (auto simp: about_rooms_def event_rooms_def)

text \<open>A total order of JIDs, by domain and then by node, on which the contract can be evaluated.\<close>

definition jid_parts :: "bare_jid \<Rightarrow> string list" where
  "jid_parts j = (case node j of None \<Rightarrow> [domain j] | Some n \<Rightarrow> [domain j, n])"

definition parts_cmp :: "bare_jid \<Rightarrow> bare_jid \<Rightarrow> ordering" where
  "parts_cmp a b = cmp_of (jid_parts a) (jid_parts b)"

lemma jid_parts_inj: "jid_parts a = jid_parts b \<longleftrightarrow> a = b"
  by (cases a; cases b) (auto simp: jid_parts_def split: option.splits)

interpretation parts: event_order parts_cmp "{RUser u |u. True}"
proof unfold_locales
  show "inj_on into_bare {RUser u |u. True}" by (auto simp: inj_on_def user_id.expand)
qed (auto simp: parts_cmp_def jid_parts_inj cmp_of_def split: if_splits)

text \<open>
  C11. Coalescing loses nothing and repeats nothing: for every kind of event, and every room for
  room events, a batch with such events yields exactly one, namely the first, carrying the contact
  or message ids of all of them in the order they came; a batch without yields none. The result is
  strictly ordered by kind and room.
\<close>

theorem coalesce_refines:
  assumes "comparator UNIV jid_cmp" "\<And>a b. jid_cmp a b = Equal \<longleftrightarrow> a = b"
    and "inj_on into_bare (event_rooms es)"
  shows "(\<forall>b. filter (\<lambda>e. bucket e = b) (coalesce_client_events jid_cmp es) =
            (case filter (\<lambda>e. bucket e = b) es of
               [] \<Rightarrow> [] | e # rest \<Rightarrow> [combined e rest])) \<and>
    sorted_wrt (\<lambda>a b. compare_client_events jid_cmp a b = Less) (coalesce_client_events jid_cmp es)"
proof -
  have "event_order jid_cmp (event_rooms es)"
    using assms by (simp add: event_order_def event_order_axioms_def)
  from event_order.coalesce_per_bucket [OF this events_about_rooms]
    event_order.coalesce_strict(1) [OF this events_about_rooms]
  show ?thesis by blast
qed

section \<open>The dispatcher\<close>

text \<open>
  The states of a dispatcher, with all the events dispatched so far, each with the number of events that
  waited in the channel at that time, and the batches consumed so far. Dispatching and the steps of
  the two tasks interleave freely. Events of rooms that are still pending are not dispatched.
\<close>

type_synonym sent_events = "(client_event \<times> nat) list"

definition sent_event :: "client_event \<Rightarrow> dispatcher \<Rightarrow> sent_events" where
  "sent_event e d = [(e, length (d_channel d))]"

text \<open>A channel takes an event unless 50 events wait in it. Disconnects do not go through the channel.\<close>

definition accepted :: "sent_events \<Rightarrow> client_event list" where
  "accepted sent = map fst (filter (\<lambda>(e, waiting). \<not> is_disconnect e \<and> waiting < 50) sent)"

definition consumed :: "dispatcher \<Rightarrow> client_event list list" where
  "consumed d = (if d_consuming d \<and> d_client_alive d then take 1 (d_batches d) else [])"

inductive pipeline :: "(bare_jid \<Rightarrow> bare_jid \<Rightarrow> ordering) \<Rightarrow> sent_events \<Rightarrow> client_event list list \<Rightarrow>
    dispatcher \<Rightarrow> bool" for jid_cmp where
  p_new: "pipeline jid_cmp [] [] (dispatcher_new True)"
| p_dispatch: "pipeline jid_cmp sent bs d \<Longrightarrow> pipeline jid_cmp (sent @ sent_event e d) bs (dispatch_event e d)"
| p_room: "pipeline jid_cmp sent bs d \<Longrightarrow>
    pipeline jid_cmp (if t = UnknownRoom then sent else sent @ sent_event (RoomChanged r e) d) bs (dispatch_room_event t r e d)"
| p_receive: "pipeline jid_cmp sent bs d \<Longrightarrow> pipeline jid_cmp sent bs (throttle_receive d)"
| p_tick: "pipeline jid_cmp sent bs d \<Longrightarrow> pipeline jid_cmp sent bs (throttle_tick d)"
| p_send: "pipeline jid_cmp sent bs d \<Longrightarrow> pipeline jid_cmp sent bs (throttle_send d)"
| p_consume: "pipeline jid_cmp sent bs d \<Longrightarrow>
    pipeline jid_cmp sent (bs @ consumed d) (consume_batch jid_cmp d)"
| p_client_dropped: "pipeline jid_cmp sent bs d \<Longrightarrow> pipeline jid_cmp sent bs (d\<lparr>d_client_alive := False\<rparr>)"

lemma dedup_from_connection:
  "ConnectionStatusChanged c \<in> set (dedup_from dedup_events x xs) \<Longrightarrow>
     ConnectionStatusChanged c \<in> set (x # xs)"
proof (induction xs arbitrary: x)
  case (Cons y ys)
  show ?case
  proof (cases "dedup_events y x")
    case (Some z)
    then have "z = ConnectionStatusChanged c \<Longrightarrow> x = z" by (cases y; cases x) (auto split: if_splits)
    with Cons Some show ?thesis by auto
  qed (use Cons in auto)
qed simp

lemma sorted_events_set: "set (sort_by cmp xs) = set xs"
proof -
  have "set (insert_by cmp x ys) = insert x (set ys)" for x and ys :: "'a list"
    by (induction ys) auto
  then show ?thesis by (induction xs) auto
qed

lemma coalesce_no_disconnect:
  assumes "\<forall>e \<in> set es. \<not> is_disconnect e" "e \<in> set (coalesce_client_events jc es)"
  shows "\<not> is_disconnect e"
proof
  assume "is_disconnect e"
  then obtain err where "e = ConnectionStatusChanged (Disconnect err)" by (cases e rule: is_disconnect.cases) auto
  with assms(2) have "e \<in> set es"
    using dedup_from_connection sorted_events_set [of "compare_client_events jc" es]
    by (cases "sort_by (compare_client_events jc) es") (auto simp: coalesce_client_events_def)
  with assms(1) \<open>is_disconnect e\<close> show False by blast
qed

definition pipeline_ok :: "(bare_jid \<Rightarrow> bare_jid \<Rightarrow> ordering) \<Rightarrow> sent_events \<Rightarrow> client_event list list \<Rightarrow>
    dispatcher \<Rightarrow> bool" where
  "pipeline_ok jc sent bs d \<longleftrightarrow>
     length (d_channel d) \<le> 50 \<and> length (d_batches d) \<le> 1 \<and> d_delegate d \<and>
     (\<forall>b \<in> set (bs @ d_batches d). set b \<subseteq> set (accepted sent)) \<and>
     set (d_buf d) \<subseteq> set (accepted sent) \<and> set (d_channel d) \<subseteq> set (accepted sent) \<and>
     filter (\<lambda>e. \<not> is_disconnect e) (d_delivered d) = concat (map (coalesce_client_events jc) bs) \<and>
     (d_client_alive d \<longrightarrow> filter is_disconnect (d_delivered d) = filter is_disconnect (map fst sent)) \<and>
     (d_consuming d \<longrightarrow> accepted sent = concat bs @ concat (d_batches d) @ d_buf d @ d_channel d)"

lemma accepted_simps:
  "accepted [] = []" "accepted (sent @ sent') = accepted sent @ accepted sent'"
  "accepted (sent_event e d) = (if is_disconnect e \<or> 50 \<le> length (d_channel d) then [] else [e])"
  by (simp_all add: accepted_def sent_event_def)

lemma accepted_no_disconnect: "e \<in> set (accepted sent) \<Longrightarrow> \<not> is_disconnect e"
  by (auto simp: accepted_def)

lemma pipeline_ok_enqueue:
  assumes "pipeline_ok jc sent bs d" "\<not> is_disconnect e"
  shows "pipeline_ok jc (sent @ sent_event e d) bs (try_send e d)"
  using assms by (auto simp: pipeline_ok_def accepted_simps try_send_def) (simp_all add: sent_event_def)

lemma pipeline_ok_consume:
  assumes "pipeline_ok jc sent bs d"
  shows "pipeline_ok jc sent (bs @ consumed d) (consume_batch jc d)"
proof (cases "d_batches d")
  case Nil
  with assms show ?thesis by (simp add: consume_batch_def consumed_def)
next
  case (Cons b rest)
  then have "\<forall>e \<in> set b. \<not> is_disconnect e" using assms by (auto simp: pipeline_ok_def dest: accepted_no_disconnect)
  then have "\<forall>e \<in> set (coalesce_client_events jc b). \<not> is_disconnect e"
    using coalesce_no_disconnect by blast
  then have "filter (\<lambda>e. \<not> is_disconnect e) (coalesce_client_events jc b) = coalesce_client_events jc b"
    "filter is_disconnect (coalesce_client_events jc b) = []"
    by simp_all
  with Cons assms show ?thesis by (auto simp: pipeline_ok_def consume_batch_def consumed_def)
qed

lemma pipeline_invariant: "pipeline jc sent bs d \<Longrightarrow> pipeline_ok jc sent bs d"
proof (induction rule: pipeline.induct)
  case (p_dispatch sent bs d e)
  show ?case
  proof (cases "is_disconnect e")
    case True
    with p_dispatch.IH show ?thesis
      by (simp add: pipeline_ok_def dispatch_event_def accepted_simps) (simp add: sent_event_def)
  next
    case False
    with pipeline_ok_enqueue [OF p_dispatch.IH] show ?thesis by (simp add: dispatch_event_def)
  qed
next
  case (p_room sent bs d t r e)
  then show ?case using pipeline_ok_enqueue by (simp add: dispatch_room_event_def)
next
  case (p_receive sent bs d)
  then show ?case by (auto simp: pipeline_ok_def throttle_receive_def split: list.split)
next
  case (p_send sent bs d)
  then show ?case by (auto simp: pipeline_ok_def throttle_send_def)
next
  case (p_consume sent bs d)
  then show ?case by (intro pipeline_ok_consume)
qed (simp_all add: pipeline_ok_def throttle_tick_def dispatcher_new_def accepted_simps)

text \<open>
  C12. Of the events dispatched, the dispatcher loses exactly those for which the channel is full, that is
  if 50 events wait already; it repeats and reorders none, for every interleaving of
  dispatches with the throttle and the delivering task: the channels stay within their
  capacities, the delegate has seen, apart from disconnects, exactly the coalesced batches in
  order, and while batches are consumed, the events that were not lost are those of the consumed batches,
  of the waiting batch, of the buffer and of the channel, in this order. As long as the client exists
  the delegate has been told of every disconnect.
\<close>

theorem dispatcher_keeps_events:
  assumes "pipeline jid_cmp sent bs d"
  shows "length (d_channel d) \<le> 50 \<and> length (d_batches d) \<le> 1 \<and>
    filter (\<lambda>e. \<not> is_disconnect e) (d_delivered d) = concat (map (coalesce_client_events jid_cmp) bs) \<and>
    (d_consuming d \<longrightarrow>
       map fst (filter (\<lambda>(e, waiting). \<not> is_disconnect e \<and> waiting < 50) sent) =
         concat bs @ concat (d_batches d) @ d_buf d @ d_channel d) \<and>
    (d_client_alive d \<longrightarrow> filter is_disconnect (d_delivered d) = filter is_disconnect (map fst sent))"
  using pipeline_invariant [OF assms] by (simp add: pipeline_ok_def accepted_def)

text \<open>
  A disconnect overtakes the events waiting in the dispatcher: when the connection is
  established and lost before the throttle elapses, the delegate is told about the loss first and
  about the connection last, whatever the order of JIDs.
\<close>

theorem disconnect_overtakes_connect:
  "\<exists>sent d. pipeline jid_cmp sent [[ConnectionStatusChanged Connect]] d \<and>
     map fst sent = [ConnectionStatusChanged Connect, ConnectionStatusChanged (Disconnect err)] \<and>
     d = consume_batch jid_cmp (throttle_send (throttle_tick (throttle_receive
           (dispatch_event (ConnectionStatusChanged (Disconnect err))
             (dispatch_event (ConnectionStatusChanged Connect) (dispatcher_new True)))))) \<and>
     d_delivered d = [ConnectionStatusChanged (Disconnect err), ConnectionStatusChanged Connect]"
proof -
  let ?c = "ConnectionStatusChanged Connect" and ?x = "ConnectionStatusChanged (Disconnect err)"
  let ?d0 = "dispatcher_new True"
  let ?d1 = "dispatch_event ?c ?d0"
  let ?d2 = "dispatch_event ?x ?d1"
  let ?d3 = "throttle_send (throttle_tick (throttle_receive ?d2))"
  note defs = dispatcher_new_def dispatch_event_def try_send_def throttle_receive_def
    throttle_tick_def throttle_send_def sent_event_def
  let ?sent = "([] @ sent_event ?c ?d0) @ sent_event ?x ?d1"
  have "pipeline jid_cmp ?sent [] ?d2" by (intro p_dispatch p_new)
  then have "pipeline jid_cmp ?sent ([] @ consumed ?d3) (consume_batch jid_cmp ?d3)"
    by (intro p_consume p_send p_tick p_receive)
  moreover have "consumed ?d3 = [[?c]]" by (simp add: defs consumed_def)
  moreover have "d_delivered (consume_batch jid_cmp ?d3) = [?x, ?c]"
    by (simp add: defs consume_batch_def coalesce_client_events_def)
  moreover have "map fst ?sent = [?c, ?x]" by (simp add: sent_event_def)
  ultimately show ?thesis by (intro exI [of _ ?sent] exI [of _ "consume_batch jid_cmp ?d3"]) simp
qed

section \<open>Instances\<close>

definition ev_alice :: user_id where "ev_alice = UserId (BareJid (Some ''alice'') ''prose.org'')"
definition ev_room :: room_id where "ev_room = RMuc (MucId (BareJid (Some ''room'') ''conf.org''))"

definition ev_batch :: "client_event list" where
  "ev_batch = [RoomChanged ev_room (MessagesAppended [''m1'']), SidebarChanged, ContactChanged [ev_alice],
     RoomChanged ev_room (MessagesAppended [''m2'']), SidebarChanged]"

lemma parts_cmp_comparator: "comparator UNIV parts_cmp"
  using parts.comparator_axioms .

theorem coalesce_refines_witness:
  "inj_on into_bare (event_rooms ev_batch) \<and>
   filter (\<lambda>e. bucket e = (8, Some (ev_room, 0))) (coalesce_client_events parts_cmp ev_batch) =
     [RoomChanged ev_room (MessagesAppended [''m1'', ''m2''])]"
proof -
  have inj: "inj_on into_bare (event_rooms ev_batch)"
    by (auto simp: event_rooms_def ev_batch_def inj_on_def)
  have "parts_cmp a b = Equal \<longleftrightarrow> a = b" for a b by (simp add: parts_cmp_def jid_parts_inj)
  from coalesce_refines [OF parts_cmp_comparator this inj] inj show ?thesis
    by (simp add: ev_batch_def)
qed

theorem dispatcher_keeps_events_witness:
  "length (d_channel (dispatch_event SidebarChanged (dispatcher_new True))) \<le> 50 \<and>
   [SidebarChanged] = d_channel (dispatch_event SidebarChanged (dispatcher_new True))"
proof -
  have p: "pipeline parts_cmp ([] @ sent_event SidebarChanged (dispatcher_new True)) []
      (dispatch_event SidebarChanged (dispatcher_new True))"
    by (rule p_dispatch [OF p_new])
  from dispatcher_keeps_events [OF p] show ?thesis
    by (simp add: sent_event_def dispatcher_new_def dispatch_event_def try_send_def)
qed

end
