(* ===== verification/Presences.thy ===== *)
theory Presences
  imports Ids
begin

text \<open>
  Availability and presence (\<^verbatim>\<open>shared/models/availability.rs\<close>,
  \<^verbatim>\<open>user_info/models/presence.rs\<close>, \<^verbatim>\<open>user_info/models/avatar.rs\<close>) and the presence map
  of \<^verbatim>\<open>infra/user_info/presence_map.rs\<close>, which keeps the presences of every resource of a
  user ordered by priority.

  A priority is an \<^verbatim>\<open>i8\<close>; it is only compared, so an \<open>int\<close> is used.
\<close>

section \<open>Data\<close>

datatype availability = Available | Unavailable | DoNotDisturb | Away | Invisible

definition default_availability :: availability where
  "default_availability = Unavailable"

fun show_availability :: "availability \<Rightarrow> string" where
  "show_availability Available = ''available''"
| "show_availability Unavailable = ''unavailable''"
| "show_availability DoNotDisturb = ''do not disturb''"
| "show_availability Away = ''away''"
| "show_availability Invisible = ''invisible''"

datatype avatar_source =
    Pep user_id string
  | Vcard participant_id "user_id option"

record avatar =
  avatar_id :: string
  avatar_src :: avatar_source

text \<open>\<^verbatim>\<open>JabberClient\<close> is carried along unread; it is kept as its display string.\<close>

type_synonym jabber_client = string

record presence =
  pr_availability :: availability
  pr_avatar :: "avatar option"
  pr_caps :: "capabilities_id option"
  pr_client :: "jabber_client option"
  pr_nickname :: "string option"
  pr_priority :: int
  pr_status :: "string option"

definition default_presence :: presence where
  "default_presence =
     \<lparr>pr_availability = default_availability, pr_avatar = None, pr_caps = None, pr_client = None,
      pr_nickname = None, pr_priority = 0, pr_status = None\<rparr>"

section \<open>The presence map\<close>

record presence_entry =
  pe_resource :: "string option"
  pe_presence :: presence

type_synonym presence_map = "user_id \<rightharpoonup> presence_entry list"

definition presence_map_new :: presence_map where
  "presence_map_new = Map.empty"

text \<open>
  \<^verbatim>\<open>remove_presence\<close>: a bare JID drops the user, a resource only its own entries. An emptied
  list stays in the map.
\<close>

fun remove_presence :: "user_or_resource_id \<Rightarrow> presence_map \<Rightarrow> presence_map" where
  "remove_presence (UOUser u) pm = pm(u := None)"
| "remove_presence (UOResource r) pm =
     (case pm (res_to_user_id r) of
        None \<Rightarrow> pm
      | Some es \<Rightarrow>
          pm(res_to_user_id r \<mapsto> filter (\<lambda>p. pe_resource p \<noteq> Some (res_resource r)) es))"

definition insert_presence :: "user_or_resource_id \<Rightarrow> presence \<Rightarrow> presence_map \<Rightarrow> presence_map" where
  "insert_presence x pr pm =
     (let u = uo_to_user_id x;
          es = (case pm u of None \<Rightarrow> [] | Some es \<Rightarrow> es);
          res = resource_str x;
          es1 = filter (\<lambda>e. pe_resource e \<noteq> res \<and> pe_resource e \<noteq> None) es;
          idx = (case position (\<lambda>e. pr_priority (pe_presence e) \<le> pr_priority pr) es1 of
                   Some i \<Rightarrow> i | None \<Rightarrow> length es1)
      in pm(u \<mapsto> vec_insert idx \<lparr>pe_resource = res, pe_presence = pr\<rparr> es1))"

definition update_presence :: "user_or_resource_id \<Rightarrow> presence \<Rightarrow> presence_map \<Rightarrow> presence_map" where
  "update_presence x pr pm =
     (if pr_availability pr = Unavailable then remove_presence x pm else insert_presence x pr pm)"

definition get_highest_presence :: "presence_map \<Rightarrow> user_id \<Rightarrow> presence_entry option" where
  "get_highest_presence pm u =
     Option.bind (pm u) (\<lambda>es. case es of [] \<Rightarrow> None | e # _ \<Rightarrow> Some e)"

definition presence_map_clear :: "presence_map \<Rightarrow> presence_map" where
  "presence_map_clear pm = Map.empty"

section \<open>Invariant\<close>

text \<open>
  The entries of a user are in descending order of priority, every resource (and the bare JID)
  occurs once, and no entry is unavailable.
\<close>

abbreviation entry_priority :: "presence_entry \<Rightarrow> int" where
  "entry_priority e \<equiv> pr_priority (pe_presence e)"

definition entries_ok :: "presence_entry list \<Rightarrow> bool" where
  "entries_ok es \<longleftrightarrow>
     sorted_wrt (\<lambda>a b. entry_priority b \<le> entry_priority a) es \<and>
     distinct (map pe_resource es) \<and>
     (\<forall>e \<in> set es. pr_availability (pe_presence e) \<noteq> Unavailable)"

definition presence_map_ok :: "presence_map \<Rightarrow> bool" where
  "presence_map_ok pm \<longleftrightarrow> (\<forall>u es. pm u = Some es \<longrightarrow> entries_ok es)"

definition all_entries :: "presence_map \<Rightarrow> user_id \<Rightarrow> presence_entry set" where
  "all_entries pm u = (case pm u of None \<Rightarrow> {} | Some es \<Rightarrow> set es)"

lemma sorted_wrt_filter': "sorted_wrt P xs \<Longrightarrow> sorted_wrt P (filter Q xs)"
  by (induction xs) auto

lemma entries_ok_filter: "entries_ok es \<Longrightarrow> entries_ok (filter P es)"
  by (auto simp: entries_ok_def sorted_wrt_filter' distinct_map_filter)

text \<open>Inserting before the first entry that is not higher keeps the order.\<close>

lemma sorted_insert_before:
  assumes "sorted_wrt (\<lambda>a b. entry_priority b \<le> entry_priority a) es"
  shows "sorted_wrt (\<lambda>a b. entry_priority b \<le> entry_priority a)
    (vec_insert (case position (\<lambda>a. entry_priority a \<le> entry_priority e) es of
                   Some i \<Rightarrow> i | None \<Rightarrow> length es) e es)"
  using assms
proof (induction es)
  case Nil
  then show ?case by (simp add: vec_insert_def)
next
  case (Cons a es)
  show ?case
  proof (cases "entry_priority a \<le> entry_priority e")
    case True
    with Cons.prems show ?thesis by (auto simp: vec_insert_def)
  next
    case False
    with Cons show ?thesis
      by (auto simp: vec_insert_def split: option.splits dest!: in_set_takeD in_set_dropD)
  qed
qed

lemma entries_ok_insert:
  assumes "entries_ok es" "pr_availability (pe_presence e) \<noteq> Unavailable"
    and "pe_resource e \<notin> pe_resource ` set es"
  shows "entries_ok (vec_insert (case position (\<lambda>a. entry_priority a \<le> entry_priority e) es of
                   Some i \<Rightarrow> i | None \<Rightarrow> length es) e es)" (is "entries_ok (vec_insert ?i e es)")
  using assms sorted_insert_before [of es e]
  by (auto simp: entries_ok_def map_vec_insert distinct_vec_insert)

lemma presence_map_ok_upd:
  "presence_map_ok pm \<Longrightarrow> entries_ok es \<Longrightarrow> presence_map_ok (pm(u \<mapsto> es))"
  by (auto simp: presence_map_ok_def)

lemma entries_ok_lookup:
  "presence_map_ok pm \<Longrightarrow> entries_ok (case pm u of None \<Rightarrow> [] | Some es \<Rightarrow> es)"
  by (auto simp: presence_map_ok_def entries_ok_def split: option.splits)

lemma insert_presence_ok:
  assumes "presence_map_ok pm" "pr_availability pr \<noteq> Unavailable"
  shows "presence_map_ok (insert_presence x pr pm)"
  unfolding insert_presence_def Let_def
  by (intro presence_map_ok_upd entries_ok_insert
        [where e = "\<lparr>pe_resource = resource_str x, pe_presence = pr\<rparr>", simplified]
      entries_ok_filter entries_ok_lookup)
    (use assms in auto)

lemma remove_presence_ok: "presence_map_ok pm \<Longrightarrow> presence_map_ok (remove_presence x pm)"
  by (cases x) (auto simp: presence_map_ok_def entries_ok_filter split: option.splits if_splits)

lemma update_presence_ok: "presence_map_ok pm \<Longrightarrow> presence_map_ok (update_presence x pr pm)"
  by (simp add: update_presence_def insert_presence_ok remove_presence_ok)

lemma presence_map_new_ok: "presence_map_ok presence_map_new"
  by (simp add: presence_map_ok_def presence_map_new_def)

text \<open>The map after any sequence of received presences.\<close>

definition receive_presences :: "(user_or_resource_id \<times> presence) list \<Rightarrow> presence_map" where
  "receive_presences ps = fold (\<lambda>(x, pr). update_presence x pr) ps presence_map_new"

lemma receive_presences_ok: "presence_map_ok (receive_presences ps)"
proof (induction ps rule: rev_induct)
  case Nil
  then show ?case by (simp add: receive_presences_def presence_map_new_ok)
next
  case (snoc p ps)
  then show ?case by (cases p) (simp add: receive_presences_def update_presence_ok)
qed

lemma get_highest_Some: "get_highest_presence pm u = Some e \<longleftrightarrow> (\<exists>es. pm u = Some (e # es))"
  by (cases "pm u") (auto simp: get_highest_presence_def split: list.splits)

lemma highest_is_maximal:
  "presence_map_ok pm \<Longrightarrow> get_highest_presence pm u = Some e \<Longrightarrow> e' \<in> all_entries pm u \<Longrightarrow>
     entry_priority e' \<le> entry_priority e"
  unfolding get_highest_Some presence_map_ok_def entries_ok_def all_entries_def
  by (elim exE) (fastforce dest: spec2)

lemma all_entries_insert:
  "all_entries (insert_presence x pr pm) u =
     (if u = uo_to_user_id x
      then insert \<lparr>pe_resource = resource_str x, pe_presence = pr\<rparr>
             {e \<in> all_entries pm u. pe_resource e \<noteq> resource_str x \<and> pe_resource e \<noteq> None}
      else all_entries pm u)"
  by (auto simp: all_entries_def insert_presence_def Let_def split: option.splits)

lemma highest_of_update:
  assumes "pr_availability pr \<noteq> Unavailable"
    and "\<forall>e \<in> all_entries pm (uo_to_user_id x). entry_priority e \<le> pr_priority pr"
  shows "get_highest_presence (update_presence x pr pm) (uo_to_user_id x) =
           Some \<lparr>pe_resource = resource_str x, pe_presence = pr\<rparr>"
proof -
  let ?es = "case pm (uo_to_user_id x) of None \<Rightarrow> [] | Some es \<Rightarrow> es"
  let ?es1 = "filter (\<lambda>e. pe_resource e \<noteq> resource_str x \<and> pe_resource e \<noteq> None) ?es"
  have le: "entry_priority e \<le> pr_priority pr" if "e \<in> set ?es1" for e
    using that assms(2) by (auto simp: all_entries_def split: option.splits)
  have "(case position (\<lambda>e. entry_priority e \<le> pr_priority pr) ?es1 of Some i \<Rightarrow> i | None \<Rightarrow> length ?es1) = 0"
    using le by (intro position_all) blast
  then have "insert_presence x pr pm (uo_to_user_id x) =
      Some (\<lparr>pe_resource = resource_str x, pe_presence = pr\<rparr> # ?es1)"
    unfolding insert_presence_def Let_def
    by (simp only: vec_insert_def take_0 drop_0 append_Nil fun_upd_same)
  then show ?thesis using assms(1) by (simp add: update_presence_def get_highest_Some)
qed

lemma highest_after_update:
  assumes "presence_map_ok pm" "get_highest_presence pm u = Some e" "uo_to_user_id x = u"
    "entry_priority e \<le> pr_priority pr" "pr_availability pr \<noteq> Unavailable"
  shows "get_highest_presence (update_presence x pr pm) u = Some \<lparr>pe_resource = resource_str x, pe_presence = pr\<rparr>"
  using highest_of_update [OF assms(5), of pm x] highest_is_maximal [OF assms(1,2)] assms(3,4)
  by force

section \<open>Properties\<close>

text \<open>
  The presences in force: an available presence of the user is in force until the server sends another one of the same
  resource, an unavailable one of the bare JID, or, if it is one of the bare JID itself, any available one.
\<close>

definition supersedes :: "user_or_resource_id \<times> presence \<Rightarrow> user_or_resource_id \<Rightarrow> bool" where
  "supersedes later x \<longleftrightarrow>
     uo_to_user_id (fst later) = uo_to_user_id x \<and>
     (resource_str (fst later) = resource_str x \<or>
      (if pr_availability (snd later) = Unavailable then resource_str (fst later) = None else resource_str x = None))"

definition in_force :: "(user_or_resource_id \<times> presence) list \<Rightarrow> user_id \<Rightarrow> nat \<Rightarrow> bool" where
  "in_force ps u i \<longleftrightarrow>
     i < length ps \<and> uo_to_user_id (fst (ps ! i)) = u \<and> pr_availability (snd (ps ! i)) \<noteq> Unavailable \<and>
     (\<forall>later \<in> set (drop (Suc i) ps). \<not> supersedes later (fst (ps ! i)))"

definition entry_at :: "(user_or_resource_id \<times> presence) list \<Rightarrow> nat \<Rightarrow> presence_entry" where
  "entry_at ps i = \<lparr>pe_resource = resource_str (fst (ps ! i)), pe_presence = snd (ps ! i)\<rparr>"

abbreviation received_priority :: "(user_or_resource_id \<times> presence) list \<Rightarrow> nat \<Rightarrow> int" where
  "received_priority ps i \<equiv> pr_priority (snd (ps ! i))"

definition force_indices :: "(user_or_resource_id \<times> presence) list \<Rightarrow> user_id \<Rightarrow> nat list" where
  "force_indices ps u = filter (in_force ps u) [0..<length ps]"

definition entries_of :: "presence_map \<Rightarrow> user_id \<Rightarrow> presence_entry list" where
  "entries_of pm u = (case pm u of None \<Rightarrow> [] | Some es \<Rightarrow> es)"

lemma in_force_snoc:
  "in_force (ps @ [p]) u i \<longleftrightarrow>
     (if i = length ps then uo_to_user_id (fst p) = u \<and> pr_availability (snd p) \<noteq> Unavailable
      else in_force ps u i \<and> \<not> supersedes p (fst (ps ! i)))"
  by (auto simp: in_force_def nth_append less_Suc_eq)

lemma force_indices_snoc:
  "force_indices (ps @ [p]) u =
     filter (\<lambda>i. \<not> supersedes p (fst (ps ! i))) (force_indices ps u) @
     (if uo_to_user_id (fst p) = u \<and> pr_availability (snd p) \<noteq> Unavailable then [length ps] else [])"
  by (auto simp: force_indices_def in_force_snoc filter_filter intro!: filter_cong)

lemma entry_at_snoc: "i < length ps \<Longrightarrow> entry_at (ps @ [p]) i = entry_at ps i" "entry_at (ps @ [p]) (length ps) =
    \<lparr>pe_resource = resource_str (fst p), pe_presence = snd p\<rparr>"
  by (simp_all add: entry_at_def nth_append)

text \<open>The code inserts as into a list that is sorted by descending priority.\<close>

lemma insert_before_insort:
  "vec_insert (case position (\<lambda>a. entry_priority a \<le> entry_priority e) es of Some i \<Rightarrow> i | None \<Rightarrow> length es) e es =
     insort_key (\<lambda>a. - entry_priority a) e es"
proof (induction es)
  case (Cons a es)
  then show ?case by (auto simp: vec_insert_def split: option.splits)
qed (simp add: vec_insert_def)

lemma entries_of_insert:
  "entries_of (insert_presence x pr pm) u =
     (if u = uo_to_user_id x
      then insort_key (\<lambda>a. - entry_priority a) \<lparr>pe_resource = resource_str x, pe_presence = pr\<rparr>
        (filter (\<lambda>e. pe_resource e \<noteq> resource_str x \<and> pe_resource e \<noteq> None) (entries_of pm u))
      else entries_of pm u)"
  using insert_before_insort [where e = "\<lparr>pe_resource = resource_str x, pe_presence = pr\<rparr>"]
  by (simp add: entries_of_def insert_presence_def Let_def)

lemma entries_of_remove:
  "entries_of (remove_presence x pm) u =
     (if u = uo_to_user_id x
      then filter (\<lambda>e. resource_str x \<noteq> None \<and> pe_resource e \<noteq> resource_str x) (entries_of pm u)
      else entries_of pm u)"
  by (cases x) (auto simp: entries_of_def split: option.splits)

lemma entries_in_force:
  "entries_of (receive_presences ps) u = sort_key (\<lambda>e. - entry_priority e) (map (entry_at ps) (rev (force_indices ps u)))"
proof (induction ps rule: rev_induct)
  case Nil
  then show ?case by (simp add: receive_presences_def entries_of_def presence_map_new_def force_indices_def)
next
  case (snoc p ps)
  obtain x pr where p: "p = (x, pr)" by (cases p)
  have received: "receive_presences (ps @ [p]) = update_presence x pr (receive_presences ps)"
    by (simp add: receive_presences_def p)
  define keep where "keep e \<longleftrightarrow>
    (if pr_availability pr = Unavailable then resource_str x \<noteq> None \<and> pe_resource e \<noteq> resource_str x
     else pe_resource e \<noteq> resource_str x \<and> pe_resource e \<noteq> None)" for e :: presence_entry
  have user: "uo_to_user_id (fst (ps ! i)) = u" "i < length ps" if "i \<in> set (force_indices ps u)" for i
    using that by (auto simp: force_indices_def in_force_def)
  have kept: "filter keep (map (entry_at ps) (rev (force_indices ps u))) =
      map (entry_at (ps @ [p])) (rev (filter (\<lambda>i. \<not> supersedes p (fst (ps ! i))) (force_indices ps u)))"
    if "u = uo_to_user_id x"
  proof -
    have "keep (entry_at ps i) \<longleftrightarrow> \<not> supersedes p (fst (ps ! i))" if "i \<in> set (force_indices ps u)" for i
      using \<open>u = uo_to_user_id x\<close> user [OF that] by (auto simp: supersedes_def p keep_def entry_at_def)
    then have "filter (keep \<circ> entry_at ps) (force_indices ps u) =
        filter (\<lambda>i. \<not> supersedes p (fst (ps ! i))) (force_indices ps u)"
      by (intro filter_cong) simp_all
    then show ?thesis using user(2) by (auto simp: filter_map rev_map entry_at_snoc simp flip: rev_filter)
  qed
  have others: "map (entry_at ps) (rev (force_indices ps u)) =
      map (entry_at (ps @ [p])) (rev (filter (\<lambda>i. \<not> supersedes p (fst (ps ! i))) (force_indices ps u)))"
    if "u \<noteq> uo_to_user_id x"
  proof -
    have "filter (\<lambda>i. \<not> supersedes p (fst (ps ! i))) (force_indices ps u) = force_indices ps u"
      using that user by (intro filter_True) (auto simp: supersedes_def p)
    then show ?thesis using user(2) by (simp add: entry_at_snoc)
  qed
  show ?case
  proof (cases "u = uo_to_user_id x")
    case False
    then have "entries_of (receive_presences (ps @ [p])) u = entries_of (receive_presences ps) u"
      by (simp add: received update_presence_def entries_of_insert entries_of_remove)
    with others [OF False] False show ?thesis by (simp add: snoc force_indices_snoc p)
  next
    case True
    have "entries_of (receive_presences (ps @ [p])) u =
       (if pr_availability pr = Unavailable then id
        else insort_key (\<lambda>a. - entry_priority a) \<lparr>pe_resource = resource_str x, pe_presence = pr\<rparr>)
         (filter keep (entries_of (receive_presences ps) u))"
      using True by (simp add: received update_presence_def entries_of_insert entries_of_remove keep_def [abs_def])
    also have "filter keep (entries_of (receive_presences ps) u) =
        sort_key (\<lambda>e. - entry_priority e) (filter keep (map (entry_at ps) (rev (force_indices ps u))))"
      by (simp add: snoc filter_sort)
    finally show ?thesis
      unfolding kept [OF True] force_indices_snoc using True entry_at_snoc(2) [of ps p] by (simp add: p)
  qed
qed

text \<open>Of equal priorities the later one comes first.\<close>

definition ranks_above :: "(nat \<Rightarrow> int) \<Rightarrow> nat \<Rightarrow> nat \<Rightarrow> bool" where
  "ranks_above p i j \<longleftrightarrow> p j < p i \<or> p j = p i \<and> j < i"

lemma insort_ranked:
  "sorted_wrt (ranks_above p) js \<Longrightarrow> \<forall>j \<in> set js. j < i \<Longrightarrow> sorted_wrt (ranks_above p) (insort_key (\<lambda>i. - p i) i js)"
  by (induction js) (auto simp: ranks_above_def set_insort_key)

lemma sort_ranked: "sorted_wrt (<) is \<Longrightarrow> sorted_wrt (ranks_above p) (sort_key (\<lambda>i. - p i) (rev is))"
  by (induction "is" rule: rev_induct) (auto simp: sorted_wrt_append intro: insort_ranked)

lemma first_ranked:
  assumes "sorted_wrt (ranks_above p) is"
  shows "(case is of [] \<Rightarrow> None | i # _ \<Rightarrow> Some i) = Some k \<longleftrightarrow> k \<in> set is \<and> (\<nexists>j. j \<in> set is \<and> ranks_above p j k)"
  using assms by (cases "is") (auto simp: ranks_above_def)

lemma sort_key_map: "sort_key f (map g xs) = map g (sort_key (f \<circ> g) xs)"
proof -
  have "insort_key f (g x) (map g ys) = map g (insort_key (f \<circ> g) x ys)" for x ys
    by (induction ys) simp_all
  then show ?thesis by (induction xs) simp_all
qed

text \<open>
  C10. Whatever presences were received, the map keeps exactly the presences in force, and the presence it returns for a
  user is the one of them with the highest priority, of equal ones the one received last; there is none exactly if no
  presence of the user is in force.
\<close>

theorem presence_map_highest:
  "all_entries (receive_presences ps) u = {entry_at ps i |i. in_force ps u i} \<and>
   (get_highest_presence (receive_presences ps) u = Some e \<longleftrightarrow>
     (\<exists>i. in_force ps u i \<and> e = entry_at ps i \<and>
       (\<nexists>j. in_force ps u j \<and> (received_priority ps i < received_priority ps j \<or>
          received_priority ps i = received_priority ps j \<and> i < j)))) \<and>
   (get_highest_presence (receive_presences ps) u = None \<longleftrightarrow> (\<nexists>i. in_force ps u i))"
proof -
  let ?ranked = "sort_key (\<lambda>i. - received_priority ps i) (rev (force_indices ps u))"
  have entries: "entries_of (receive_presences ps) u = map (entry_at ps) ?ranked"
    by (simp add: entries_in_force sort_key_map comp_def entry_at_def)
  have "sorted_wrt (<) (force_indices ps u)" by (simp add: force_indices_def sorted_wrt_filter)
  then have ranked: "sorted_wrt (ranks_above (received_priority ps)) ?ranked" by (rule sort_ranked)
  have set: "set ?ranked = {i. in_force ps u i}" by (auto simp: force_indices_def in_force_def)
  have highest: "get_highest_presence (receive_presences ps) u =
      map_option (entry_at ps) (case ?ranked of [] \<Rightarrow> None | i # _ \<Rightarrow> Some i)"
    using entries by (auto simp: get_highest_presence_def entries_of_def split: option.splits list.splits)
  have "all_entries (receive_presences ps) u = entry_at ps ` set ?ranked"
    using arg_cong [OF entries, of set] by (cases "receive_presences ps u") (simp_all add: all_entries_def entries_of_def)
  moreover have "get_highest_presence (receive_presences ps) u = Some e \<longleftrightarrow>
      (\<exists>i. (case ?ranked of [] \<Rightarrow> None | i # _ \<Rightarrow> Some i) = Some i \<and> e = entry_at ps i)"
    unfolding highest by (auto split: list.splits)
  moreover have "get_highest_presence (receive_presences ps) u = None \<longleftrightarrow> set ?ranked = {}"
    unfolding highest by (cases ?ranked) (auto simp del: set_sort)
  ultimately show ?thesis
    unfolding first_ranked [OF ranked] set by (auto simp: ranks_above_def)
qed

text \<open>
  An available presence of a resource replaces exactly that resource's entry (and a presence
  of the bare JID), and becomes the highest presence when no other entry of the user has a higher
  priority: of equal priorities the one received last wins.
\<close>

theorem newest_presence_wins_ties:
  assumes "presence_map_ok pm" "pr_availability pr \<noteq> Unavailable"
    and "\<forall>e \<in> all_entries pm (uo_to_user_id x). entry_priority e \<le> pr_priority pr"
  shows "get_highest_presence (update_presence x pr pm) (uo_to_user_id x) =
           Some \<lparr>pe_resource = resource_str x, pe_presence = pr\<rparr> \<and>
    all_entries (update_presence x pr pm) (uo_to_user_id x) =
      insert \<lparr>pe_resource = resource_str x, pe_presence = pr\<rparr>
        {e \<in> all_entries pm (uo_to_user_id x). pe_resource e \<noteq> resource_str x \<and> pe_resource e \<noteq> None}"
  using highest_of_update [OF assms(2,3)] assms(2) by (simp add: update_presence_def all_entries_insert)

text \<open>
  An unavailable presence of a resource removes exactly that resource's entry, one of the bare
  JID removes every entry of the user, and no other user is affected.
\<close>

theorem unavailable_presence_removes:
  assumes "pr_availability pr = Unavailable"
  shows "all_entries (update_presence x pr pm) u =
    (if u \<noteq> uo_to_user_id x then all_entries pm u
     else case resource_str x of
            None \<Rightarrow> {}
          | Some r \<Rightarrow> {e \<in> all_entries pm u. pe_resource e \<noteq> Some r})"
  using assms
  by (cases x) (auto simp: update_presence_def all_entries_def split: option.splits)

section \<open>An example\<close>

definition example_resource :: "string \<Rightarrow> user_or_resource_id" where
  "example_resource r = UOResource (UserResourceId (FullJid (BareJid (Some ''a'') ''prose.org'') r))"

definition example_presence :: "int \<Rightarrow> presence" where
  "example_presence p = default_presence\<lparr>pr_availability := Available, pr_priority := p\<rparr>"

definition example_map :: presence_map where
  "example_map = update_presence (example_resource ''r1'') (example_presence 1) presence_map_new"

lemma example_map_ok: "presence_map_ok example_map"
  by (simp add: example_map_def update_presence_ok presence_map_new_ok)

theorem newest_presence_wins_ties_witness:
  "get_highest_presence (update_presence (example_resource ''r2'') (example_presence 1) example_map)
     (UserId (BareJid (Some ''a'') ''prose.org'')) =
   Some \<lparr>pe_resource = Some ''r2'', pe_presence = example_presence 1\<rparr>"
  using newest_presence_wins_ties [OF example_map_ok, of "example_presence 1" "example_resource ''r2''"]
  by (simp add: example_resource_def example_presence_def example_map_def default_presence_def
      res_to_user_id_def res_resource_def update_presence_def all_entries_insert presence_map_new_def
      all_entries_def insert_presence_def Let_def vec_insert_def)

theorem unavailable_presence_removes_witness:
  "all_entries (update_presence (example_resource ''r1'') default_presence example_map)
     (UserId (BareJid (Some ''a'') ''prose.org'')) = {}"
  using unavailable_presence_removes [of default_presence "example_resource ''r1''" example_map
      "UserId (BareJid (Some ''a'') ''prose.org'')"]
  by (simp add: example_resource_def example_presence_def example_map_def default_presence_def
      default_availability_def res_to_user_id_def res_resource_def update_presence_def
      presence_map_new_def all_entries_def insert_presence_def Let_def vec_insert_def)

end
