(* ===== verification/Participants.thy ===== *)
theory Participants
  imports Presences
begin

text \<open>
  The participants of a room (\<^verbatim>\<open>domain/rooms/models/participant_list.rs\<close>), with room
  affiliations (\<^verbatim>\<open>room_affiliation.rs\<close>) and compose states.

  The map of participants is a \<^verbatim>\<open>HashMap\<close> that the code also iterates over. It is an
  association list here, standing for one arbitrary iteration order; no property depends on which.
  The map of anonymous ids is only looked up and filtered, so it is a partial function.
\<close>

section \<open>Data\<close>

datatype room_affiliation = Outcast | NoAffiliation | Member | Admin | Owner

text \<open>The derived order: the constructors in the order of their declaration.\<close>

primrec affiliation_rank :: "room_affiliation \<Rightarrow> nat" where
  "affiliation_rank Outcast = 0"
| "affiliation_rank NoAffiliation = 1"
| "affiliation_rank Member = 2"
| "affiliation_rank Admin = 3"
| "affiliation_rank Owner = 4"

lemma affiliation_rank_inj: "affiliation_rank a = affiliation_rank b \<longleftrightarrow> a = b"
  by (cases a; cases b) simp_all

instantiation room_affiliation :: linorder
begin

definition less_eq_room_affiliation :: "room_affiliation \<Rightarrow> room_affiliation \<Rightarrow> bool" where
  "a \<le> b \<longleftrightarrow> affiliation_rank a \<le> affiliation_rank b"

definition less_room_affiliation :: "room_affiliation \<Rightarrow> room_affiliation \<Rightarrow> bool" where
  "a < b \<longleftrightarrow> affiliation_rank a < affiliation_rank b"

instance
  by standard (auto simp: less_eq_room_affiliation_def less_room_affiliation_def affiliation_rank_inj)

end

definition default_affiliation :: room_affiliation where
  "default_affiliation = NoAffiliation"

fun show_affiliation :: "room_affiliation \<Rightarrow> string" where
  "show_affiliation Owner = ''owner''"
| "show_affiliation Admin = ''admin''"
| "show_affiliation Member = ''member''"
| "show_affiliation Outcast = ''outcast''"
| "show_affiliation NoAffiliation = ''none''"

datatype compose_state = Idle | Composing

record participant_name =
  pn_vcard :: "string option"
  pn_presence :: "string option"

record participant =
  p_real_id :: "user_id option"
  p_anon_id :: "anon_occupant_id option"
  p_name :: participant_name
  p_is_self :: bool
  p_affiliation :: room_affiliation
  p_availability :: availability
  p_avatar :: "avatar option"
  p_client :: "jabber_client option"
  p_caps :: "capabilities_id option"
  p_status :: "string option"
  p_compose_state :: compose_state
  p_compose_state_updated :: timestamp

text \<open>\<^verbatim>\<open>DateTime::default()\<close> is the Unix epoch.\<close>

definition default_participant :: participant where
  "default_participant =
     \<lparr>p_real_id = None, p_anon_id = None, p_name = \<lparr>pn_vcard = None, pn_presence = None\<rparr>,
      p_is_self = False, p_affiliation = default_affiliation,
      p_availability = default_availability, p_avatar = None, p_client = None, p_caps = None,
      p_status = None, p_compose_state = Idle, p_compose_state_updated = 0\<rparr>"

definition participant_display_name :: "participant \<Rightarrow> contact_name_builder" where
  "participant_display_name p =
     or_nickname (or_nickname cnb_new (pn_presence (p_name p))) (pn_vcard (p_name p))"

record registered_member =
  rm_user_id :: user_id
  rm_affiliation :: room_affiliation
  rm_name :: "string option"
  rm_is_self :: bool

record room_session_participant =
  sp_id :: occupant_id
  sp_is_self :: bool
  sp_anon_id :: "anon_occupant_id option"
  sp_real_id :: "user_id option"
  sp_affiliation :: room_affiliation
  sp_presence :: presence

record participant_list =
  anon_map :: "anon_occupant_id \<rightharpoonup> participant_id"
  participants_map :: "(participant_id \<times> participant) list"

definition empty_participant_list :: participant_list where
  "empty_participant_list = \<lparr>anon_map = Map.empty, participants_map = []\<rparr>"

section \<open>Construction\<close>

definition pl_for_direct_message :: "user_id \<Rightarrow> string \<Rightarrow> presence \<Rightarrow> participant_list" where
  "pl_for_direct_message contact contact_name pr =
     \<lparr>anon_map = Map.empty,
      participants_map =
        [(PUser contact,
          \<lparr>p_real_id = Some contact, p_anon_id = None,
           p_name = \<lparr>pn_vcard = Some contact_name, pn_presence = pr_nickname pr\<rparr>,
           p_is_self = False, p_affiliation = Owner, p_availability = pr_availability pr,
           p_avatar = pr_avatar pr, p_client = pr_client pr, p_caps = pr_caps pr,
           p_status = pr_status pr, p_compose_state = Idle, p_compose_state_updated = 0\<rparr>)]\<rparr>"

text \<open>The first loop of \<^verbatim>\<open>ParticipantList::new\<close>, over the occupants present in the room.\<close>

definition occupant_participant :: "room_session_participant \<Rightarrow> participant" where
  "occupant_participant sp =
     \<lparr>p_real_id = sp_real_id sp, p_anon_id = sp_anon_id sp,
      p_name = \<lparr>pn_vcard = None, pn_presence = pr_nickname (sp_presence sp)\<rparr>,
      p_is_self = sp_is_self sp, p_affiliation = sp_affiliation sp,
      p_availability = pr_availability (sp_presence sp), p_avatar = pr_avatar (sp_presence sp),
      p_client = pr_client (sp_presence sp), p_caps = pr_caps (sp_presence sp),
      p_status = pr_status (sp_presence sp), p_compose_state = Idle, p_compose_state_updated = 0\<rparr>"

fun add_occupants :: "room_session_participant list \<Rightarrow> participant_list \<Rightarrow> (user_id \<rightharpoonup> occupant_id) \<Rightarrow>
    participant_list \<times> (user_id \<rightharpoonup> occupant_id)" where
  "add_occupants [] pl real = (pl, real)"
| "add_occupants (sp # sps) pl real =
     (let real' = (case sp_real_id sp of Some r \<Rightarrow> real(r \<mapsto> sp_id sp) | None \<Rightarrow> real);
          anon' = (case sp_anon_id sp of
                     Some a \<Rightarrow> (anon_map pl)(a \<mapsto> POccupant (sp_id sp)) | None \<Rightarrow> anon_map pl)
      in add_occupants sps
           \<lparr>anon_map = anon',
            participants_map =
              AList.update (POccupant (sp_id sp)) (occupant_participant sp) (participants_map pl)\<rparr>
           real')"

text \<open>The second loop, over the registered members, who may or may not be present.\<close>

definition add_member :: "(user_id \<rightharpoonup> occupant_id) \<Rightarrow> registered_member \<Rightarrow> participant_list \<Rightarrow> participant_list" where
  "add_member real m pl =
     (let i = (case real (rm_user_id m) of Some x \<Rightarrow> POccupant x | None \<Rightarrow> PUser (rm_user_id m));
          p = (case map_of (participants_map pl) i of
                 Some p \<Rightarrow> p
               | None \<Rightarrow> default_participant\<lparr>p_real_id := Some (rm_user_id m),
                                             p_is_self := rm_is_self m,
                                             p_affiliation := rm_affiliation m\<rparr>)
      in pl\<lparr>participants_map :=
             AList.update i (p\<lparr>p_name := (p_name p)\<lparr>pn_vcard := rm_name m\<rparr>\<rparr>) (participants_map pl)\<rparr>)"

definition pl_new :: "registered_member list \<Rightarrow> room_session_participant list \<Rightarrow> participant_list" where
  "pl_new members sps =
     (case add_occupants sps empty_participant_list Map.empty of
        (pl, real) \<Rightarrow> fold (add_member real) members pl)"

section \<open>Updates\<close>

text \<open>\<^verbatim>\<open>entry(id).or_default()\<close> followed by an update of the entry.\<close>

definition modify_or_insert :: "participant_id \<Rightarrow> (participant \<Rightarrow> participant) \<Rightarrow> participant_list \<Rightarrow> participant_list" where
  "modify_or_insert i f pl =
     pl\<lparr>participants_map :=
          AList.update i
            (f (case map_of (participants_map pl) i of Some p \<Rightarrow> p | None \<Rightarrow> default_participant))
            (participants_map pl)\<rparr>"

text \<open>\<^verbatim>\<open>entry(id).and_modify(f)\<close>.\<close>

definition modify_existing :: "participant_id \<Rightarrow> (participant \<Rightarrow> participant) \<Rightarrow> participant_list \<Rightarrow> participant_list" where
  "modify_existing i f pl =
     (case map_of (participants_map pl) i of
        Some p \<Rightarrow> pl\<lparr>participants_map := AList.update i (f p) (participants_map pl)\<rparr>
      | None \<Rightarrow> pl)"

definition set_availability :: "participant_id \<Rightarrow> bool \<Rightarrow> availability \<Rightarrow> participant_list \<Rightarrow> participant_list" where
  "set_availability i self av =
     modify_or_insert i
       (\<lambda>p. let p1 = p\<lparr>p_is_self := self, p_availability := av\<rparr>
            in if av = Unavailable then p1\<lparr>p_compose_state := Idle\<rparr> else p1)"

definition set_presence :: "participant_id \<Rightarrow> bool \<Rightarrow> presence \<Rightarrow> participant_list \<Rightarrow> participant_list" where
  "set_presence i self pr pl =
     modify_or_insert i
       (\<lambda>p. p\<lparr>p_name := (p_name p)\<lparr>pn_presence := pr_nickname pr\<rparr>, p_avatar := pr_avatar pr,
             p_client := pr_client pr, p_caps := pr_caps pr, p_status := pr_status pr\<rparr>)
       (set_availability i self (pr_availability pr) pl)"

definition set_affiliation :: "participant_id \<Rightarrow> bool \<Rightarrow> room_affiliation \<Rightarrow> participant_list \<Rightarrow> participant_list" where
  "set_affiliation i self aff =
     modify_or_insert i (\<lambda>p. p\<lparr>p_affiliation := aff, p_is_self := self\<rparr>)"

definition set_compose_state :: "participant_id \<Rightarrow> timestamp \<Rightarrow> compose_state \<Rightarrow> participant_list \<Rightarrow> participant_list" where
  "set_compose_state i t cs =
     modify_existing i (\<lambda>p. p\<lparr>p_compose_state := cs, p_compose_state_updated := t\<rparr>)"

definition set_avatar :: "participant_id \<Rightarrow> avatar option \<Rightarrow> participant_list \<Rightarrow> participant_list" where
  "set_avatar i av = modify_existing i (\<lambda>p. p\<lparr>p_avatar := av\<rparr>)"

definition add_user :: "user_id \<Rightarrow> bool \<Rightarrow> room_affiliation \<Rightarrow> string option \<Rightarrow> participant_list \<Rightarrow> participant_list" where
  "add_user r self aff name pl =
     (if \<exists>p \<in> snd ` set (participants_map pl). p_real_id p = Some r then pl
      else modify_or_insert (PUser r)
             (\<lambda>p. p\<lparr>p_real_id := Some r, p_affiliation := aff, p_is_self := self,
                   p_name := (p_name p)\<lparr>pn_vcard := name\<rparr>\<rparr>) pl)"

definition set_ids_and_name :: "participant_id \<Rightarrow> user_id option \<Rightarrow> anon_occupant_id option \<Rightarrow> string option \<Rightarrow>
    participant_list \<Rightarrow> participant_list" where
  "set_ids_and_name i real anon name pl =
     (case map_of (participants_map pl) i of
        None \<Rightarrow> pl
      | Some p \<Rightarrow>
          (let pm1 = AList.update i
                 (p\<lparr>p_real_id := real, p_anon_id := anon, p_name := (p_name p)\<lparr>pn_vcard := name\<rparr>\<rparr>)
                 (participants_map pl);
               pm2 = (case real of Some r \<Rightarrow> AList.delete (PUser r) pm1 | None \<Rightarrow> pm1);
               am1 = (\<lambda>a. if anon_map pl a = Some i then None else anon_map pl a);
               am2 = (case anon of Some a \<Rightarrow> am1(a \<mapsto> i) | None \<Rightarrow> am1)
           in \<lparr>anon_map = am2, participants_map = pm2\<rparr>))"

definition pl_remove :: "participant_id \<Rightarrow> participant_list \<Rightarrow> participant_list" where
  "pl_remove i pl = pl\<lparr>participants_map := AList.delete i (participants_map pl)\<rparr>"

section \<open>Queries\<close>

definition pl_get :: "participant_list \<Rightarrow> participant_id \<Rightarrow> participant option" where
  "pl_get pl i = map_of (participants_map pl) i"

definition pl_len :: "participant_list \<Rightarrow> nat" where
  "pl_len pl = length (participants_map pl)"

definition pl_get_user_id :: "participant_list \<Rightarrow> anon_occupant_id \<Rightarrow> user_id option" where
  "pl_get_user_id pl a =
     (case anon_map pl a of
        None \<Rightarrow> None
      | Some i \<Rightarrow> Option.bind (map_of (participants_map pl) i) p_real_id)"

record participant_basic_info =
  bi_id :: participant_id
  bi_name :: string
  bi_avatar :: "avatar option"

definition composing_users :: "(string \<Rightarrow> string) \<Rightarrow> timestamp \<Rightarrow> participant_list \<Rightarrow> participant_basic_info list" where
  "composing_users uc started_after pl =
     map (\<lambda>(i, p). \<lparr>bi_id = i, bi_name = unwrap_or_participant_id uc (participant_display_name p) i,
                    bi_avatar = p_avatar p\<rparr>)
       (sort_key (\<lambda>(i, p). p_compose_state_updated p)
          (filter (\<lambda>(i, p). \<not> (p_compose_state p \<noteq> Composing \<or> p_compose_state_updated p \<le> started_after))
             (participants_map pl)))"

record participant_info =
  pi_id :: participant_id
  pi_user_id :: "user_id option"
  pi_name :: string
  pi_is_self :: bool
  pi_availability :: availability
  pi_affiliation :: room_affiliation
  pi_avatar :: "avatar option"
  pi_client :: "jabber_client option"
  pi_status :: "string option"

definition participant_info_from :: "(string \<Rightarrow> string) \<Rightarrow> participant_id \<Rightarrow> participant \<Rightarrow> participant_info" where
  "participant_info_from uc i p =
     \<lparr>pi_id = i, pi_user_id = p_real_id p,
      pi_name = unwrap_or_participant_id uc (participant_display_name p) i,
      pi_is_self = p_is_self p, pi_availability = p_availability p,
      pi_affiliation = p_affiliation p, pi_avatar = p_avatar p, pi_client = p_client p,
      pi_status = p_status p\<rparr>"

section \<open>Invariants of a multi-user room\<close>

text \<open>A registered member listed without being present, that is under a user id and with a real id, carries
  their own id and is not listed a second time as an occupant.\<close>

definition shadow_free :: "participant_list \<Rightarrow> bool" where
  "shadow_free pl \<longleftrightarrow>
     (\<forall>u q v. pl_get pl (PUser u) = Some q \<and> p_real_id q = Some v \<longrightarrow> v = u \<and>
        (\<forall>oc p. pl_get pl (POccupant oc) = Some p \<longrightarrow> p_real_id p \<noteq> Some u))"

text \<open>Every entry of the anonymous id map leads to an occupant that carries this id, or whose real
  id is unknown, or that has left.\<close>

definition anon_sound :: "participant_list \<Rightarrow> bool" where
  "anon_sound pl \<longleftrightarrow>
     (\<forall>a i. anon_map pl a = Some i \<longrightarrow> (\<exists>oc. i = POccupant oc) \<and>
        (\<forall>p. pl_get pl i = Some p \<longrightarrow> p_anon_id p = Some a \<or> p_real_id p = None))"

definition pl_ok :: "participant_list \<Rightarrow> bool" where
  "pl_ok pl \<longleftrightarrow> distinct (map fst (participants_map pl)) \<and> shadow_free pl \<and> anon_sound pl"

lemma pl_get_modify_or_insert [simp]:
  "pl_get (modify_or_insert i f pl) =
     (pl_get pl)(i \<mapsto> f (case pl_get pl i of Some p \<Rightarrow> p | None \<Rightarrow> default_participant))"
  by (simp add: modify_or_insert_def pl_get_def fun_eq_iff)

lemma pl_get_modify_existing [simp]:
  "pl_get (modify_existing i f pl) = (pl_get pl)(i := map_option f (pl_get pl i))"
  by (auto simp: modify_existing_def pl_get_def fun_eq_iff split: option.splits)

lemma pl_get_remove [simp]: "pl_get (pl_remove i pl) = (pl_get pl)(i := None)"
  by (simp add: pl_remove_def pl_get_def fun_eq_iff)

lemma anon_map_modify [simp]:
  "anon_map (modify_or_insert i f pl) = anon_map pl"
  "anon_map (modify_existing i f pl) = anon_map pl"
  "anon_map (pl_remove i pl) = anon_map pl"
  by (simp_all add: modify_or_insert_def modify_existing_def pl_remove_def split: option.splits)

lemma distinct_modify:
  assumes "distinct (map fst (participants_map pl))"
  shows "distinct (map fst (participants_map (modify_or_insert i f pl)))"
    "distinct (map fst (participants_map (modify_existing i f pl)))"
    "distinct (map fst (participants_map (pl_remove i pl)))"
  using assms
  by (simp_all add: modify_or_insert_def modify_existing_def pl_remove_def distinct_keys_update
      distinct_keys_delete split: option.splits)

lemma default_participant_ids [simp]:
  "p_real_id default_participant = None" "p_anon_id default_participant = None"
  by (simp_all add: default_participant_def)

lemma shadow_freeI:
  assumes "\<And>u q v. pl_get pl (PUser u) = Some q \<Longrightarrow> p_real_id q = Some v \<Longrightarrow> v = u"
    "\<And>u q oc p. pl_get pl (PUser u) = Some q \<Longrightarrow> p_real_id q = Some u \<Longrightarrow> pl_get pl (POccupant oc) = Some p \<Longrightarrow>
       p_real_id p \<noteq> Some u"
  shows "shadow_free pl"
  using assms by (auto simp: shadow_free_def)

lemma shadow_freeD:
  assumes "shadow_free pl" "pl_get pl (PUser u) = Some q" "p_real_id q = Some v"
  shows "v = u"
    "pl_get pl (POccupant oc) = Some p \<Longrightarrow> p_real_id p \<noteq> Some u"
  using assms by (auto simp: shadow_free_def)

lemma anon_soundI:
  assumes "\<And>a i. anon_map pl a = Some i \<Longrightarrow> \<exists>oc. i = POccupant oc"
    "\<And>a i p. anon_map pl a = Some i \<Longrightarrow> pl_get pl i = Some p \<Longrightarrow>
       p_anon_id p = Some a \<or> p_real_id p = None"
  shows "anon_sound pl"
  using assms by (auto simp: anon_sound_def)

lemma anon_soundD:
  assumes "anon_sound pl" "anon_map pl a = Some i"
  shows "\<exists>oc. i = POccupant oc"
    "pl_get pl i = Some p \<Longrightarrow> p_anon_id p = Some a \<or> p_real_id p = None"
  using assms by (auto simp: anon_sound_def)

text \<open>
  The invariant depends only on the anonymous id map and on the two ids of each participant: it is
  kept by every change after which each participant was there before with the same ids, or has no real id.
\<close>

lemma pl_ok_mono:
  assumes ok: "pl_ok pl" and "distinct (map fst (participants_map pl'))" "anon_map pl' = anon_map pl"
    and *: "\<And>i p. pl_get pl' i = Some p \<Longrightarrow>
           (\<exists>q. pl_get pl i = Some q \<and> p_real_id p = p_real_id q \<and> p_anon_id p = p_anon_id q) \<or>
           p_real_id p = None"
  shows "pl_ok pl'"
proof -
  have "shadow_free pl'"
  proof (rule shadow_freeI)
    fix u q v
    assume "pl_get pl' (PUser u) = Some q" "p_real_id q = Some v"
    then obtain q' where q': "pl_get pl (PUser u) = Some q'" "p_real_id q' = Some v"
      using * by fastforce
    with ok show "v = u" by (auto simp: pl_ok_def dest: shadow_freeD(1))
  next
    fix u q oc p
    assume "pl_get pl' (PUser u) = Some q" "p_real_id q = Some u" and p: "pl_get pl' (POccupant oc) = Some p"
    then obtain q' where q': "pl_get pl (PUser u) = Some q'" "p_real_id q' = Some u"
      using * by fastforce
    with ok p show "p_real_id p \<noteq> Some u"
      using * [of "POccupant oc" p] by (auto simp: pl_ok_def dest: shadow_freeD(2))
  qed
  moreover have "anon_sound pl'"
  proof (rule anon_soundI)
    fix a i p
    assume a: "anon_map pl' a = Some i"
    with ok assms(3) show "\<exists>oc. i = POccupant oc" by (auto simp: pl_ok_def dest: anon_soundD(1))
    assume "pl_get pl' i = Some p"
    with a ok assms(3) show "p_anon_id p = Some a \<or> p_real_id p = None"
      using * [of i p] by (auto simp: pl_ok_def dest: anon_soundD(2))
  qed
  ultimately show ?thesis using assms(2) by (simp add: pl_ok_def)
qed

lemma pl_ok_modify_or_insert:
  assumes "pl_ok pl" "\<And>p. p_real_id (f p) = p_real_id p" "\<And>p. p_anon_id (f p) = p_anon_id p"
  shows "pl_ok (modify_or_insert i f pl)"
  using assms(1)
  by (rule pl_ok_mono)
    (use assms in \<open>auto simp: pl_ok_def distinct_modify split: if_splits option.splits\<close>)

lemma pl_ok_modify_existing:
  assumes "pl_ok pl" "\<And>p. p_real_id (f p) = p_real_id p" "\<And>p. p_anon_id (f p) = p_anon_id p"
  shows "pl_ok (modify_existing i f pl)"
  using assms(1)
  by (rule pl_ok_mono) (use assms in \<open>auto simp: pl_ok_def distinct_modify split: if_splits\<close>)

lemma pl_ok_remove: "pl_ok pl \<Longrightarrow> pl_ok (pl_remove i pl)"
  by (rule pl_ok_mono) (auto simp: pl_ok_def distinct_modify split: if_splits)

lemma values_pl_get:
  "distinct (map fst (participants_map pl)) \<Longrightarrow>
     p \<in> snd ` set (participants_map pl) \<longleftrightarrow> (\<exists>i. pl_get pl i = Some p)"
  by (force simp: pl_get_def)

lemma pl_ok_add_user:
  assumes "pl_ok pl"
  shows "pl_ok (add_user r self aff name pl)"
proof (cases "\<exists>p \<in> snd ` set (participants_map pl). p_real_id p = Some r")
  case False
  then have "pl_get pl i = Some p \<Longrightarrow> p_real_id p \<noteq> Some r" for i p
    using assms values_pl_get [of pl] by (metis pl_ok_def)
  with assms have "shadow_free (modify_or_insert (PUser r) f pl)"
    if "\<And>p. p_real_id (f p) = Some r" for f
    using that
    by (intro shadow_freeI) (auto simp: pl_ok_def dest: shadow_freeD split: if_splits)
  moreover have "anon_sound (modify_or_insert (PUser r) f pl)" for f
    using assms
    by (intro anon_soundI) (auto simp: pl_ok_def dest: anon_soundD split: if_splits)
  ultimately show ?thesis
    using False assms by (simp add: pl_ok_def add_user_def distinct_modify)
qed (use assms in \<open>simp add: add_user_def\<close>)

lemma pl_get_set_ids_and_name:
  "pl_get (set_ids_and_name i real anon name pl) =
     (case pl_get pl i of
        None \<Rightarrow> pl_get pl
      | Some p \<Rightarrow> \<lambda>j. if (\<exists>r. real = Some r \<and> j = PUser r) then None
                     else if j = i then Some (p\<lparr>p_real_id := real, p_anon_id := anon,
                                                p_name := (p_name p)\<lparr>pn_vcard := name\<rparr>\<rparr>)
                     else pl_get pl j)"
  by (auto simp: set_ids_and_name_def pl_get_def fun_eq_iff Let_def split: option.splits)

lemma anon_map_set_ids_and_name:
  "anon_map (set_ids_and_name i real anon name pl) a =
     (if pl_get pl i = None then anon_map pl a
      else if anon = Some a then Some i
      else if anon_map pl a = Some i then None else anon_map pl a)"
  by (auto simp: set_ids_and_name_def pl_get_def Let_def split: option.splits)

lemma pl_ok_set_ids_and_name:
  assumes "pl_ok pl"
  shows "pl_ok (set_ids_and_name (POccupant oc) real anon name pl)"
proof (cases "pl_get pl (POccupant oc)")
  case None
  with assms show ?thesis by (simp add: set_ids_and_name_def pl_get_def)
next
  case (Some p)
  let ?pl = "set_ids_and_name (POccupant oc) real anon name pl"
  have "distinct (map fst (participants_map ?pl))"
    using assms Some
    by (simp add: pl_ok_def set_ids_and_name_def pl_get_def Let_def distinct_keys_update
        distinct_keys_delete split: option.splits)
  moreover have "shadow_free ?pl"
    using assms Some
    by (intro shadow_freeI)
      (auto simp: pl_ok_def pl_get_set_ids_and_name dest: shadow_freeD split: if_splits)
  moreover have "anon_sound ?pl"
    using assms Some
    by (intro anon_soundI)
      (auto simp: pl_ok_def pl_get_set_ids_and_name anon_map_set_ids_and_name dest: anon_soundD
        split: if_splits)
  ultimately show ?thesis by (simp add: pl_ok_def)
qed

section \<open>The list built when a room is entered\<close>

lemma add_occupants_keys:
  assumes "add_occupants sps pl real = (pl', real')" "distinct (map fst (participants_map pl))"
  shows "distinct (map fst (participants_map pl'))"
  using assms
  by (induction sps pl real rule: add_occupants.induct)
    (auto simp: Let_def distinct_keys_update split: option.splits)

text \<open>What the first loop adds for occupants with pairwise different ids.\<close>

lemma add_occupants_get:
  assumes "add_occupants sps pl real = (pl', real')" "distinct (map sp_id sps)"
  shows "pl_get pl' i =
    (case find (\<lambda>sp. i = POccupant (sp_id sp)) sps of
       Some sp \<Rightarrow> Some (occupant_participant sp) | None \<Rightarrow> pl_get pl i)"
  using assms
proof (induction sps pl real rule: add_occupants.induct)
  case (2 sp sps pl real)
  have "find (\<lambda>x. POccupant (sp_id sp) = POccupant (sp_id x)) sps = None"
    using 2(3) by (auto simp: find_None_iff image_iff)
  with 2 show ?case
    by (auto simp: Let_def pl_get_def split: option.splits if_splits)
qed (simp add: pl_get_def)

lemma add_occupants_anon:
  assumes "add_occupants sps pl real = (pl', real')" "anon_map pl' a = Some i"
  shows "(\<exists>sp \<in> set sps. sp_anon_id sp = Some a \<and> i = POccupant (sp_id sp)) \<or> anon_map pl a = Some i"
  using assms
  by (induction sps pl real rule: add_occupants.induct)
    (fastforce simp: Let_def split: option.splits if_splits)+

lemma add_occupants_real:
  assumes "add_occupants sps pl real = (pl', real')"
  shows "real' u = Some oc \<Longrightarrow>
      (\<exists>sp \<in> set sps. sp_real_id sp = Some u \<and> sp_id sp = oc) \<or> real u = Some oc"
    and "(\<exists>sp \<in> set sps. sp_real_id sp = Some u) \<or> real u \<noteq> None \<Longrightarrow> real' u \<noteq> None"
  using assms
  by (induction sps pl real rule: add_occupants.induct)
    (fastforce simp: Let_def split: option.splits if_splits)+

lemma find_occupant:
  assumes "distinct (map sp_id sps)" "sp \<in> set sps"
  shows "find (\<lambda>x. sp_id sp = sp_id x) sps = Some sp"
  using assms by (induction sps) (auto simp: image_iff)

lemma find_occupant_user [simp]: "find (\<lambda>x. PUser u = POccupant (sp_id x)) sps = None"
  by (simp add: find_None_iff)

text \<open>What the second loop relies on: the map from real ids leads to the occupant with this id,
  and misses none.\<close>

definition real_ids_ok :: "(user_id \<rightharpoonup> occupant_id) \<Rightarrow> participant_list \<Rightarrow> bool" where
  "real_ids_ok real pl \<longleftrightarrow>
     (\<forall>u oc. real u = Some oc \<longrightarrow> (\<exists>p. pl_get pl (POccupant oc) = Some p \<and> p_real_id p = Some u)) \<and>
     (\<forall>u oc p. pl_get pl (POccupant oc) = Some p \<longrightarrow> p_real_id p = Some u \<longrightarrow> real u \<noteq> None) \<and>
     (\<forall>u p. pl_get pl (PUser u) = Some p \<longrightarrow> p_real_id p = Some u)"

definition member_participant :: "(user_id \<rightharpoonup> occupant_id) \<Rightarrow> registered_member \<Rightarrow> participant_id" where
  "member_participant real m =
     (case real (rm_user_id m) of Some oc \<Rightarrow> POccupant oc | None \<Rightarrow> PUser (rm_user_id m))"

lemma pl_get_add_member:
  "pl_get (add_member real m pl) = (pl_get pl)(member_participant real m \<mapsto>
     (let p = (case pl_get pl (member_participant real m) of
                 Some p \<Rightarrow> p
               | None \<Rightarrow> default_participant\<lparr>p_real_id := Some (rm_user_id m),
                                             p_is_self := rm_is_self m,
                                             p_affiliation := rm_affiliation m\<rparr>)
      in p\<lparr>p_name := (p_name p)\<lparr>pn_vcard := rm_name m\<rparr>\<rparr>))"
  by (simp add: add_member_def member_participant_def pl_get_def fun_eq_iff Let_def)

lemma anon_map_add_member [simp]: "anon_map (add_member real m pl) = anon_map pl"
  by (simp add: add_member_def Let_def)

lemma add_member_keys:
  "distinct (map fst (participants_map pl)) \<Longrightarrow>
     distinct (map fst (participants_map (add_member real m pl)))"
  by (simp add: add_member_def Let_def distinct_keys_update)

lemma real_ids_ok_add_member:
  "real_ids_ok real pl \<Longrightarrow> real_ids_ok real (add_member real m pl)"
  by (cases "real (rm_user_id m)"; cases "pl_get pl (member_participant real m)")
    (auto simp: real_ids_ok_def pl_get_add_member member_participant_def Let_def split: if_splits, (metis option.simps(3) option.inject)+)

lemma pl_ok_add_member:
  assumes ok: "pl_ok pl" and real: "real_ids_ok real pl"
  shows "pl_ok (add_member real m pl)"
proof (cases "pl_get pl (member_participant real m)")
  case (Some p)
  show ?thesis
    using ok
    by (rule pl_ok_mono)
      (use ok Some in \<open>auto simp: pl_ok_def add_member_keys pl_get_add_member Let_def
        split: if_splits\<close>)
next
  case None
  then have mp: "member_participant real m = PUser (rm_user_id m)" "real (rm_user_id m) = None"
    using real by (fastforce simp: member_participant_def real_ids_ok_def split: option.splits)+
  with real have *: "pl_get pl (POccupant oc) = Some p \<Longrightarrow> p_real_id p \<noteq> Some (rm_user_id m)" for oc p
    unfolding real_ids_ok_def by blast
  have "shadow_free (add_member real m pl)"
    using ok None mp *
    by (intro shadow_freeI)
      (auto simp: pl_ok_def pl_get_add_member Let_def dest: shadow_freeD split: if_splits)
  moreover have "anon_sound (add_member real m pl)"
    using ok mp
    by (intro anon_soundI)
      (auto simp: pl_ok_def pl_get_add_member dest: anon_soundD split: if_splits)
  ultimately show ?thesis using ok by (simp add: pl_ok_def add_member_keys)
qed

lemma pl_ok_fold_members:
  "pl_ok pl \<Longrightarrow> real_ids_ok real pl \<Longrightarrow>
     pl_ok (fold (add_member real) ms pl) \<and> real_ids_ok real (fold (add_member real) ms pl)"
  by (induction ms arbitrary: pl) (simp_all add: pl_ok_add_member real_ids_ok_add_member)

lemma pl_get_empty [simp]: "pl_get empty_participant_list i = None"
  by (simp add: pl_get_def empty_participant_list_def)

lemma occupant_participant_ids [simp]:
  "p_real_id (occupant_participant sp) = sp_real_id sp"
  "p_anon_id (occupant_participant sp) = sp_anon_id sp"
  by (simp_all add: occupant_participant_def)

lemma add_occupants_ok:
  assumes add: "add_occupants sps empty_participant_list Map.empty = (pl, real)"
    and dist: "distinct (map sp_id sps)"
  shows "pl_ok pl" "real_ids_ok real pl"
proof -
  note get = add_occupants_get [OF add dist]
  have listed: "pl_get pl (POccupant (sp_id sp)) = Some (occupant_participant sp)" if "sp \<in> set sps" for sp
    using that by (simp add: get find_occupant dist)
  have origin: "\<exists>sp \<in> set sps. i = POccupant (sp_id sp) \<and> p = occupant_participant sp"
    if "pl_get pl i = Some p" for i p
    using that by (auto simp: get dest!: find_SomeD split: option.splits)
  have "shadow_free pl"
    by (rule shadow_freeI) (auto dest: origin)
  moreover have "anon_sound pl"
    using add_occupants_anon [OF add]
    by (intro anon_soundI) (fastforce simp: empty_participant_list_def listed)+
  moreover have "distinct (map fst (participants_map pl))"
    using add_occupants_keys [OF add] by (simp add: empty_participant_list_def)
  ultimately show "pl_ok pl" by (simp add: pl_ok_def)
  show "real_ids_ok real pl"
    using add_occupants_real [OF add] unfolding real_ids_ok_def
    by (fastforce simp: listed dest: origin)
qed

lemma pl_ok_new: "distinct (map sp_id sps) \<Longrightarrow> pl_ok (pl_new ms sps)"
  using add_occupants_ok pl_ok_fold_members by (auto simp: pl_new_def split: prod.split)

lemma fold_members_keep:
  "pl_get pl i = Some p \<Longrightarrow> \<exists>nm. pl_get (fold (add_member real) ms pl) i = Some (p\<lparr>p_name := nm\<rparr>)"
proof (induction ms arbitrary: pl p)
  case Nil
  then show ?case by (auto intro: exI [of _ "p_name p"])
next
  case (Cons m ms)
  have "\<exists>nm. pl_get (add_member real m pl) i = Some (p\<lparr>p_name := nm\<rparr>)"
  proof (cases "i = member_participant real m")
    case False
    then have "pl_get (add_member real m pl) i = Some (p\<lparr>p_name := p_name p\<rparr>)"
      using Cons.prems by (simp add: pl_get_add_member)
    then show ?thesis by blast
  qed (use Cons.prems in \<open>auto simp: pl_get_add_member Let_def\<close>)
  with Cons.IH [of "add_member real m pl"] show ?case by fastforce
qed

lemma fold_members_listed:
  assumes "pl_ok pl" "real_ids_ok real pl" "m \<in> set ms"
  shows "\<exists>i p. pl_get (fold (add_member real) ms pl) i = Some p \<and> p_real_id p = Some (rm_user_id m)"
  using assms
proof (induction ms arbitrary: pl)
  case (Cons m' ms)
  show ?case
  proof (cases "m = m'")
    case True
    let ?i = "member_participant real m"
    obtain p where p: "pl_get (add_member real m pl) ?i = Some p" "p_real_id p = Some (rm_user_id m)"
      using Cons.prems(1,2)
      by (cases "real (rm_user_id m)")
        (fastforce simp: pl_get_add_member Let_def real_ids_ok_def member_participant_def split: option.splits)+
    with fold_members_keep [OF p(1), of real ms] True show ?thesis by fastforce
  qed (use Cons in \<open>simp add: pl_ok_add_member real_ids_ok_add_member\<close>)
qed simp

lemma fold_members_origin:
  "pl_get (fold (add_member real) ms pl) i \<noteq> None \<Longrightarrow>
     pl_get pl i \<noteq> None \<or> (\<exists>m \<in> set ms. i = member_participant real m)"
  by (induction ms arbitrary: pl) (fastforce simp: pl_get_add_member split: if_splits)+

section \<open>The lists of a multi-user room\<close>

text \<open>
  The lists a multi-user room can have: built on entering the room, then changed by the handlers of
  events. Those change presences, affiliations, compose states and avatars under any id, the ids of occupants, and
  add and remove participants.
\<close>

inductive muc_list :: "participant_list \<Rightarrow> bool" where
  muc_empty: "muc_list empty_participant_list"
| muc_new: "distinct (map sp_id sps) \<Longrightarrow> muc_list (pl_new ms sps)"
| muc_availability: "muc_list pl \<Longrightarrow> muc_list (set_availability i self av pl)"
| muc_presence: "muc_list pl \<Longrightarrow> muc_list (set_presence i self pr pl)"
| muc_affiliation: "muc_list pl \<Longrightarrow> muc_list (set_affiliation i self aff pl)"
| muc_compose: "muc_list pl \<Longrightarrow> muc_list (set_compose_state i t cs pl)"
| muc_avatar: "muc_list pl \<Longrightarrow> muc_list (set_avatar i av pl)"
| muc_add_user: "muc_list pl \<Longrightarrow> muc_list (add_user r self aff name pl)"
| muc_ids: "muc_list pl \<Longrightarrow> muc_list (set_ids_and_name (POccupant oc) real anon name pl)"
| muc_remove: "muc_list pl \<Longrightarrow> muc_list (pl_remove i pl)"

lemma pl_ok_empty: "pl_ok empty_participant_list"
  by (simp add: pl_ok_def shadow_free_def anon_sound_def) (simp add: empty_participant_list_def)

lemma muc_list_ok: "muc_list pl \<Longrightarrow> pl_ok pl"
  by (induction rule: muc_list.induct)
    (simp_all add: pl_ok_empty pl_ok_new set_availability_def set_presence_def set_affiliation_def
      set_compose_state_def set_avatar_def pl_ok_modify_or_insert pl_ok_modify_existing
      pl_ok_add_user pl_ok_set_ids_and_name pl_ok_remove Let_def)

text \<open>
  C9. In a multi-user room, whatever the sequence of changes: no id is listed twice, and a registered
  member who is listed without being present (under a user id, with a real id) is listed under their
  own id and never a second time as an occupant with that real id. (A presence from a bare JID lists
  that JID as well, but without a real id.)
\<close>

theorem member_listed_once:
  assumes "muc_list pl"
  shows "distinct (map fst (participants_map pl)) \<and>
    (pl_get pl (PUser u) = Some q \<and> p_real_id q = Some v \<longrightarrow> v = u \<and>
       (\<forall>oc p. pl_get pl (POccupant oc) = Some p \<longrightarrow> p_real_id p \<noteq> Some u))"
  using muc_list_ok [OF assms] by (auto simp: pl_ok_def dest: shadow_freeD)

text \<open>
  Resolving an anonymous occupant id never blames somebody else: the user returned is the real
  id of an occupant in the list that carries this anonymous id, also after occupants changed their
  ids, left or were replaced.
\<close>

theorem anon_id_resolves_to_carrier:
  assumes "muc_list pl" "pl_get_user_id pl a = Some u"
  shows "\<exists>oc p. pl_get pl (POccupant oc) = Some p \<and> p_anon_id p = Some a \<and> p_real_id p = Some u"
proof -
  obtain i p where i: "anon_map pl a = Some i" "pl_get pl i = Some p" "p_real_id p = Some u"
    using assms(2) by (auto simp: pl_get_user_id_def pl_get_def split: option.splits bind_splits)
  with muc_list_ok [OF assms(1)] have "p_anon_id p = Some a" "\<exists>oc. i = POccupant oc"
    by (auto simp: pl_ok_def dest: anon_soundD)
  with i show ?thesis by blast
qed

text \<open>
  The list built on entering a room is complete and holds nothing else: every occupant is
  listed with the ids, affiliation and availability the server sent, every registered member is
  listed under exactly the occupant that has their real id, or under their user id when there is
  none, and every entry comes from an occupant or from a member who is not present.
\<close>

theorem participants_on_entry_complete:
  assumes "distinct (map sp_id sps)"
  shows "(\<forall>sp \<in> set sps. \<exists>p. pl_get (pl_new ms sps) (POccupant (sp_id sp)) = Some p \<and>
            p_real_id p = sp_real_id sp \<and> p_anon_id p = sp_anon_id sp \<and>
            p_affiliation p = sp_affiliation sp \<and>
            p_availability p = pr_availability (sp_presence sp)) \<and>
         (\<forall>m \<in> set ms. \<exists>i p. pl_get (pl_new ms sps) i = Some p \<and> p_real_id p = Some (rm_user_id m)) \<and>
         (\<forall>i. pl_get (pl_new ms sps) i \<noteq> None \<longrightarrow>
            (\<exists>sp \<in> set sps. i = POccupant (sp_id sp)) \<or>
            (\<exists>m \<in> set ms. i = PUser (rm_user_id m) \<and>
               (\<forall>sp \<in> set sps. sp_real_id sp \<noteq> Some (rm_user_id m))))"
proof (intro conjI allI ballI impI)
  obtain pl real where add: "add_occupants sps empty_participant_list Map.empty = (pl, real)"
    by fastforce
  have new: "pl_new ms sps = fold (add_member real) ms pl" by (simp add: pl_new_def add)
  note ok = add_occupants_ok [OF add assms] and get = add_occupants_get [OF add assms]
  {
    fix sp
    assume "sp \<in> set sps"
    then have "pl_get pl (POccupant (sp_id sp)) = Some (occupant_participant sp)"
      by (simp add: get find_occupant assms)
    from fold_members_keep [OF this, of real ms]
    show "\<exists>p. pl_get (pl_new ms sps) (POccupant (sp_id sp)) = Some p \<and>
        p_real_id p = sp_real_id sp \<and> p_anon_id p = sp_anon_id sp \<and>
        p_affiliation p = sp_affiliation sp \<and> p_availability p = pr_availability (sp_presence sp)"
      by (auto simp: new occupant_participant_def)
  }
  show "\<exists>i p. pl_get (pl_new ms sps) i = Some p \<and> p_real_id p = Some (rm_user_id m)" if "m \<in> set ms" for m
    unfolding new by (rule fold_members_listed [OF ok that])
  fix i
  assume "pl_get (pl_new ms sps) i \<noteq> None"
  then consider "pl_get pl i \<noteq> None" | m where "m \<in> set ms" "i = member_participant real m"
    using fold_members_origin [of real ms pl i] unfolding new by blast
  then show "(\<exists>sp \<in> set sps. i = POccupant (sp_id sp)) \<or>
      (\<exists>m \<in> set ms. i = PUser (rm_user_id m) \<and>
         (\<forall>sp \<in> set sps. sp_real_id sp \<noteq> Some (rm_user_id m)))"
  proof cases
    case 1
    then show ?thesis by (auto simp: get dest!: find_SomeD split: option.splits)
  next
    case 2
    then show ?thesis
      using add_occupants_real [OF add, of "rm_user_id m"]
      by (cases "real (rm_user_id m)") (auto simp: member_participant_def)
  qed
qed

definition is_composing :: "timestamp \<Rightarrow> participant \<Rightarrow> bool" where
  "is_composing t p \<longleftrightarrow> p_compose_state p = Composing \<and> t < p_compose_state_updated p"

lemma composing_users_ids:
  assumes "distinct (map fst (participants_map pl))"
  shows "bi_id ` set (composing_users uc t pl) = {i. \<exists>p. pl_get pl i = Some p \<and> is_composing t p}"
  using assms
  by (force simp: composing_users_def is_composing_def pl_get_def image_iff not_le)

lemma composing_users_sorted:
  assumes "distinct (map fst (participants_map pl))"
  shows "sorted (map (\<lambda>b. p_compose_state_updated (the (pl_get pl (bi_id b)))) (composing_users uc t pl))"
proof -
  let ?sel = "filter (\<lambda>(i, p). \<not> (p_compose_state p \<noteq> Composing \<or> p_compose_state_updated p \<le> t))
      (participants_map pl)"
  have "map (\<lambda>b. p_compose_state_updated (the (pl_get pl (bi_id b)))) (composing_users uc t pl) =
      map (\<lambda>(i, p). p_compose_state_updated p) (sort_key (\<lambda>(i, p). p_compose_state_updated p) ?sel)"
    using assms by (auto simp: composing_users_def pl_get_def)
  then show ?thesis by (simp only: sorted_sort_key)
qed

text \<open>
  A user who goes offline stops composing: after a participant becomes unavailable they are
  not among the composing users, and the list of composing users holds exactly the participants
  whose last compose state is composing and started after the given time, ordered by that time.
\<close>

theorem composing_users_exact:
  assumes "distinct (map fst (participants_map pl))"
  shows "bi_id ` set (composing_users uc t pl) =
      {i. \<exists>p. pl_get pl i = Some p \<and> p_compose_state p = Composing \<and> t < p_compose_state_updated p} \<and>
    sorted (map (\<lambda>b. p_compose_state_updated (the (pl_get pl (bi_id b)))) (composing_users uc t pl)) \<and>
    i \<notin> bi_id ` set (composing_users uc t (set_availability i self Unavailable pl))"
proof (intro conjI)
  show "i \<notin> bi_id ` set (composing_users uc t (set_availability i self Unavailable pl))"
    using assms
    by (simp add: composing_users_ids set_availability_def distinct_modify is_composing_def Let_def)
qed (use assms in \<open>simp_all add: composing_users_ids composing_users_sorted is_composing_def\<close>)

section \<open>Instances\<close>

definition ex_occupant :: occupant_id where
  "ex_occupant = OccupantId (FullJid (BareJid (Some ''room'') ''conf.org'') ''alice'')"
definition ex_alice :: user_id where "ex_alice = UserId (BareJid (Some ''alice'') ''prose.org'')"
definition ex_bob :: user_id where "ex_bob = UserId (BareJid (Some ''bob'') ''prose.org'')"

definition ex_session :: room_session_participant where
  "ex_session = \<lparr>sp_id = ex_occupant, sp_is_self = False, sp_anon_id = Some (AnonOccupantId ''x1''),
     sp_real_id = Some ex_alice, sp_affiliation = Owner, sp_presence = default_presence\<rparr>"

definition ex_members :: "registered_member list" where
  "ex_members =
     [\<lparr>rm_user_id = ex_alice, rm_affiliation = Owner, rm_name = Some ''Alice'', rm_is_self = False\<rparr>,
      \<lparr>rm_user_id = ex_bob, rm_affiliation = Member, rm_name = None, rm_is_self = True\<rparr>]"

lemmas ex_list_defs = ex_members_def ex_session_def ex_alice_def ex_bob_def ex_occupant_def

lemma muc_list_example: "muc_list (pl_new ex_members [ex_session])"
  by (rule muc_new) simp

theorem member_listed_once_witness:
  "pl_get (pl_new ex_members [ex_session]) (PUser ex_bob) \<noteq> None \<and>
   (\<nexists>oc p. pl_get (pl_new ex_members [ex_session]) (POccupant oc) = Some p \<and> p_real_id p = Some ex_bob)"
proof -
  have bob: "\<exists>q. pl_get (pl_new ex_members [ex_session]) (PUser ex_bob) = Some q \<and> p_real_id q = Some ex_bob"
    by (simp add: pl_new_def pl_get_def ex_list_defs add_member_def empty_participant_list_def Let_def)
  then obtain q where "pl_get (pl_new ex_members [ex_session]) (PUser ex_bob) = Some q" "p_real_id q = Some ex_bob" by blast
  with member_listed_once [OF muc_list_example, of ex_bob q] show ?thesis by auto
qed

theorem anon_id_resolves_to_carrier_witness:
  "\<exists>oc p. pl_get (pl_new ex_members [ex_session]) (POccupant oc) = Some p \<and>
     p_anon_id p = Some (AnonOccupantId ''x1'') \<and> p_real_id p = Some ex_alice"
proof (rule anon_id_resolves_to_carrier [OF muc_list_example])
  show "pl_get_user_id (pl_new ex_members [ex_session]) (AnonOccupantId ''x1'') = Some ex_alice"
    by (simp add: pl_get_user_id_def pl_new_def ex_list_defs add_member_def empty_participant_list_def
        occupant_participant_def Let_def)
qed

theorem participants_on_entry_complete_witness:
  "\<exists>i p. pl_get (pl_new ex_members [ex_session]) i = Some p \<and> p_real_id p = Some ex_bob"
  using participants_on_entry_complete [of "[ex_session]" ex_members]
  by (simp add: ex_members_def)

theorem composing_users_exact_witness:
  "bi_id ` set (composing_users id 5
      (set_compose_state (POccupant ex_occupant) 9 Composing (pl_new ex_members [ex_session]))) =
   {POccupant ex_occupant}"
proof -
  let ?pl = "set_compose_state (POccupant ex_occupant) 9 Composing (pl_new ex_members [ex_session])"
  have pl: "participants_map ?pl = [(POccupant ex_occupant, (occupant_participant ex_session)
        \<lparr>p_name := \<lparr>pn_vcard = Some ''Alice'', pn_presence = None\<rparr>, p_compose_state := Composing,
         p_compose_state_updated := 9\<rparr>),
      (PUser ex_bob, default_participant\<lparr>p_real_id := Some ex_bob, p_is_self := True,
         p_affiliation := Member\<rparr>)]"
    by (simp add: set_compose_state_def modify_existing_def pl_new_def ex_list_defs add_member_def
        empty_participant_list_def occupant_participant_def default_presence_def
        default_participant_def Let_def)
  then have "distinct (map fst (participants_map ?pl))" by simp
  from composing_users_exact [OF this, of id 5] show ?thesis
    by (auto simp: pl_get_def pl default_participant_def split: if_splits)
qed

end
