(* ===== verification/Rooms.thy ===== *)
theory Rooms
  imports Participants Events "HOL-Library.Word"
begin

text \<open>
  Rooms (\<^verbatim>\<open>domain/rooms/models/room.rs\<close> and the models it uses) and the repository of
  connected rooms (\<^verbatim>\<open>infra/rooms/in_memory_connected_rooms_repository.rs\<close>).

  A \<^verbatim>\<open>Room\<close> is a shared pointer to its immutable \<^verbatim>\<open>RoomInfo\<close> and its locked
  \<^verbatim>\<open>RoomDetails\<close>. Several tasks hold pointers to one room while the repository replaces it
  by another, so rooms live in an explicit heap here and a \<open>room_ref\<close> is an address in it.
\<close>

section \<open>Data\<close>

datatype room_sidebar_state = NotInSidebar | InSidebar | Favorite

fun is_in_sidebar :: "room_sidebar_state \<Rightarrow> bool" where
  "is_in_sidebar NotInSidebar = False"
| "is_in_sidebar InSidebar = True"
| "is_in_sidebar Favorite = True"

datatype room_state = Pending | Connecting | Connected | Disconnected "string option" bool

fun is_disconnected :: "room_state \<Rightarrow> bool" where
  "is_disconnected (Disconnected _ _) = True"
| "is_disconnected _ = False"

datatype mam_version = Mam0 | Mam1 | Mam2 | Mam2Extended

record room_features =
  rf_mam_version :: "mam_version option"
  rf_server_time_offset :: int
  rf_self_ping_optimization :: bool

definition default_features :: room_features where
  "default_features = \<lparr>rf_mam_version = None, rf_server_time_offset = 0, rf_self_ping_optimization = False\<rparr>"

definition is_mam_supported :: "room_features \<Rightarrow> bool" where
  "is_mam_supported f \<longleftrightarrow> rf_mam_version f \<noteq> None"

definition local_time_to_server_time :: "room_features \<Rightarrow> timestamp \<Rightarrow> timestamp" where
  "local_time_to_server_time f t = t + rf_server_time_offset f"

record room_info =
  ri_room_id :: room_id
  ri_user_nickname :: string
  ri_type :: room_type
  ri_features :: room_features

record room_statistics =
  rs_needs_update :: bool
  rs_unread_count :: "32 word"
  rs_mentions_count :: "32 word"

definition default_statistics :: room_statistics where
  "default_statistics = \<lparr>rs_needs_update = True, rs_unread_count = 0, rs_mentions_count = 0\<rparr>"

record archived_message_ref =
  am_stanza_id :: string
  am_timestamp :: timestamp

record synced_room_settings =
  ss_room_id :: room_id
  ss_encryption_enabled :: bool
  ss_last_read_message :: "archived_message_ref option"

definition synced_settings_new :: "room_id \<Rightarrow> synced_room_settings" where
  "synced_settings_new r = \<lparr>ss_room_id = r, ss_encryption_enabled = False, ss_last_read_message = None\<rparr>"

record room_details =
  rd_name :: "string option"
  rd_description :: "string option"
  rd_topic :: "string option"
  rd_participants :: participant_list
  rd_sidebar_state :: room_sidebar_state
  rd_state :: room_state
  rd_statistics :: room_statistics
  rd_settings :: synced_room_settings

record room =
  r_info :: room_info
  r_details :: room_details

record bookmark =
  bm_name :: string
  bm_jid :: room_id
  bm_type :: bookmark_type
  bm_sidebar_state :: room_sidebar_state

record room_config =
  rc_room_name :: "string option"
  rc_room_description :: "string option"
  rc_room_type :: room_type
  rc_mam_version :: "mam_version option"
  rc_supports_self_ping_optimization :: bool

record room_session_member =
  sm_id :: user_id
  sm_affiliation :: room_affiliation

record room_session_info =
  si_room_id :: muc_id
  si_config :: room_config
  si_topic :: "string option"
  si_user_nickname :: string
  si_members :: "room_session_member list"
  si_participants :: "room_session_participant list"
  si_room_has_been_created :: bool

section \<open>Errors\<close>

record stanza_error =
  se_condition :: defined_condition
  se_alternate_address :: "string option"

datatype request_error =
    RTimedOut | RDisconnected | RUnexpectedResponse | RXmpp stanza_error | RGeneric string
  | RParseError string | RFromElementError string

definition defined_condition_of :: "request_error \<Rightarrow> defined_condition option" where
  "defined_condition_of e = (case e of RXmpp err \<Rightarrow> Some (se_condition err) | _ \<Rightarrow> None)"

datatype room_error =
    RoomIsAlreadyConnected room_id | RoomNotFound | RoomWasModified | PublicChannelNameConflict
  | InvalidNumberOfParticipants | RequestErr request_error | RoomValidationError string
  | Anyhow string | JidErr string | ParseErr string

text \<open>The outer option tells whether the error is a \<^verbatim>\<open>gone\<close> error, the inner one is its
  new location.\<close>

definition gone_err :: "(string \<Rightarrow> jid option) \<Rightarrow> room_error \<Rightarrow> muc_id option option" where
  "gone_err parse e =
     (case e of
        RequestErr (RXmpp err) \<Rightarrow>
          (if se_condition err \<noteq> Gone then None
           else Some (Option.bind (se_alternate_address err)
                        (\<lambda>l. case muc_id_from_iri parse l of Inr m \<Rightarrow> Some m | Inl _ \<Rightarrow> None)))
      | _ \<Rightarrow> None)"

definition is_gone_err :: "(string \<Rightarrow> jid option) \<Rightarrow> room_error \<Rightarrow> bool" where
  "is_gone_err parse e \<longleftrightarrow> gone_err parse e \<noteq> None"

definition is_registration_required_err :: "room_error \<Rightarrow> bool" where
  "is_registration_required_err e \<longleftrightarrow>
     (case e of RequestErr (RXmpp err) \<Rightarrow> se_condition err = RegistrationRequired | _ \<Rightarrow> False)"

section \<open>Constructors of rooms\<close>

text \<open>A direct message with a user whose JID has no node panics: \<open>None\<close>.\<close>

definition room_pending :: "bookmark \<Rightarrow> string \<Rightarrow> room option" where
  "room_pending b nick =
     map_option
       (\<lambda>ps. \<lparr>r_info = \<lparr>ri_room_id = bm_jid b, ri_user_nickname = nick,
                        ri_type = room_type_from (bm_type b), ri_features = default_features\<rparr>,
              r_details = \<lparr>rd_name = Some (bm_name b), rd_description = None, rd_topic = None,
                           rd_participants = ps, rd_sidebar_state = bm_sidebar_state b,
                           rd_state = Pending, rd_statistics = default_statistics,
                           rd_settings = synced_settings_new (bm_jid b)\<rparr>\<rparr>)
       (case bm_jid b of
          RUser u \<Rightarrow> map_option (\<lambda>n. pl_for_direct_message u n default_presence) (username u)
        | RMuc _ \<Rightarrow> Some empty_participant_list)"

definition room_connecting :: "room_id \<Rightarrow> string \<Rightarrow> room_sidebar_state \<Rightarrow> room" where
  "room_connecting r nick sb =
     \<lparr>r_info = \<lparr>ri_room_id = r, ri_user_nickname = nick, ri_type = UnknownRoom,
                ri_features = default_features\<rparr>,
      r_details = \<lparr>rd_name = None, rd_description = None, rd_topic = None,
                   rd_participants = empty_participant_list, rd_sidebar_state = sb,
                   rd_state = Connecting, rd_statistics = default_statistics,
                   rd_settings = synced_settings_new r\<rparr>\<rparr>"

definition is_connecting :: "room \<Rightarrow> bool" where
  "is_connecting r \<longleftrightarrow> rd_state (r_details r) = Connecting"

definition is_pending :: "room \<Rightarrow> bool" where
  "is_pending r \<longleftrightarrow> rd_state (r_details r) = Pending"

definition by_resolving_with_info :: "string option \<Rightarrow> string option \<Rightarrow> string option \<Rightarrow> room_info \<Rightarrow>
    registered_member list \<Rightarrow> room_session_participant list \<Rightarrow> synced_room_settings \<Rightarrow> room \<Rightarrow> room" where
  "by_resolving_with_info name desc topic info members participants settings r =
     \<lparr>r_info = info,
      r_details = (r_details r)\<lparr>rd_name := name, rd_description := desc, rd_topic := topic,
                                rd_participants := pl_new members participants,
                                rd_state := Connected, rd_settings := settings\<rparr>\<rparr>"

definition by_changing_type :: "room_type \<Rightarrow> room \<Rightarrow> room" where
  "by_changing_type t r = \<lparr>r_info = (r_info r)\<lparr>ri_type := t\<rparr>, r_details = r_details r\<rparr>"

definition room_for_direct_message :: "user_id \<Rightarrow> string \<Rightarrow> presence \<Rightarrow> room_sidebar_state \<Rightarrow> room_features \<Rightarrow>
    synced_room_settings \<Rightarrow> room" where
  "room_for_direct_message u contact_name pr sb features settings =
     \<lparr>r_info = \<lparr>ri_room_id = RUser u, ri_user_nickname = ''no_nickname'', ri_type = DirectMessage,
                ri_features = features\<rparr>,
      r_details = \<lparr>rd_name = Some contact_name, rd_description = None, rd_topic = None,
                   rd_participants = pl_for_direct_message u contact_name pr,
                   rd_sidebar_state = sb, rd_state = Connected,
                   rd_statistics = default_statistics, rd_settings = settings\<rparr>\<rparr>"

text \<open>
  \<^verbatim>\<open>RoomInfo::occupant_id\<close>, where \<open>mk_resource\<close> is the parser of resource parts. The outer
  option is \<open>None\<close> when a nickname that is no resource makes the code panic.
\<close>

definition info_occupant_id :: "(string \<Rightarrow> string option) \<Rightarrow> room_info \<Rightarrow> occupant_id option option" where
  "info_occupant_id mk_resource i =
     (case ri_room_id i of
        RUser _ \<Rightarrow> Some None
      | RMuc m \<Rightarrow> map_option Some (occupant_id_with_nickname mk_resource m (ri_user_nickname i)))"

definition is_current_user :: "(string \<Rightarrow> string option) \<Rightarrow> account_id \<Rightarrow> room \<Rightarrow> participant_id \<Rightarrow> bool option" where
  "is_current_user mk_resource account r p =
     (if is_muc_room (ri_room_id (r_info r)) then
        map_option
          (\<lambda>oc. Some p = map_option POccupant oc \<or> p = PUser (account_user_id account))
          (info_occupant_id mk_resource (r_info r))
      else Some (p = PUser (account_user_id account)))"

section \<open>Statistics\<close>

text \<open>One round of the loop that counts unread messages and mentions of our user.\<close>

definition count_message :: "participant_id option \<Rightarrow> user_id \<Rightarrow> bool \<Rightarrow> message_like \<Rightarrow> room_statistics \<Rightarrow> room_statistics" where
  "count_message our_participant our_user is_muc m st =
     (case ml_payload m of
        PMessage body _ _ _ _ _ \<Rightarrow>
          (if (if is_muc then Some (ml_from m) = our_participant \<or> ml_from m = PUser our_user
               else ml_from m = PUser our_user)
           then st
           else
             let st1 = (if \<exists>x \<in> set (lb_mentions body). mention_user x = our_user
                        then st\<lparr>rs_mentions_count := rs_mentions_count st + 1\<rparr> else st)
             in st1\<lparr>rs_unread_count := rs_unread_count st1 + 1\<rparr>)
      | _ \<Rightarrow> st)"

section \<open>The heap of rooms and the repository\<close>

type_synonym room_ref = nat

type_synonym room_heap = "room list"

definition heap_ok :: "room_heap \<Rightarrow> room_ref \<Rightarrow> bool" where
  "heap_ok h r \<longleftrightarrow> r < length h"

text \<open>\<^verbatim>\<open>Room::new\<close> allocates, \<^verbatim>\<open>details.write()\<close> updates in place.\<close>

definition room_alloc :: "room \<Rightarrow> room_heap \<Rightarrow> room_ref \<times> room_heap" where
  "room_alloc x h = (length h, h @ [x])"

definition write_details :: "room_ref \<Rightarrow> (room_details \<Rightarrow> room_details) \<Rightarrow> room_heap \<Rightarrow> room_heap" where
  "write_details r f h = h[r := (h ! r)\<lparr>r_details := f (r_details (h ! r))\<rparr>]"

lemma length_write_details [simp]: "length (write_details r f h) = length h"
  by (simp add: write_details_def)

lemma nth_write_details:
  "r < length h \<Longrightarrow> write_details r f h ! x =
     (if x = r then (h ! r)\<lparr>r_details := f (r_details (h ! r))\<rparr> else h ! x)"
  by (simp add: write_details_def nth_list_update)

lemma r_info_write_details [simp]: "r_info (write_details r f h ! x) = r_info (h ! x)"
proof (cases "r < length h")
  case False
  then show ?thesis by (simp add: write_details_def list_update_beyond)
qed (simp add: nth_write_details)

text \<open>
  The repository maps bare JIDs to rooms; the account is ignored. It is a \<^verbatim>\<open>HashMap\<close> that
  \<^verbatim>\<open>get_all\<close> iterates over, so an association list in one arbitrary order.
\<close>

type_synonym rooms_map = "(bare_jid \<times> room_ref) list"

definition repo_get :: "rooms_map \<Rightarrow> bare_jid \<Rightarrow> room_ref option" where
  "repo_get m j = map_of m j"

definition repo_get_all :: "rooms_map \<Rightarrow> room_ref list" where
  "repo_get_all m = map snd m"

definition room_key :: "room_heap \<Rightarrow> room_ref \<Rightarrow> bare_jid" where
  "room_key h r = into_bare (ri_room_id (r_info (h ! r)))"

text \<open>\<^verbatim>\<open>set\<close>: \<open>None\<close> is \<^verbatim>\<open>RoomAlreadyExistsError\<close>.\<close>

definition repo_set :: "room_heap \<Rightarrow> room_ref \<Rightarrow> rooms_map \<Rightarrow> rooms_map option" where
  "repo_set h r m =
     (if map_of m (room_key h r) \<noteq> None then None else Some (AList.update (room_key h r) r m))"

definition repo_set_or_replace :: "room_heap \<Rightarrow> room_ref \<Rightarrow> rooms_map \<Rightarrow> room_ref option \<times> rooms_map" where
  "repo_set_or_replace h r m = (map_of m (room_key h r), AList.update (room_key h r) r m)"

text \<open>\<^verbatim>\<open>update\<close>: \<open>f\<close> is the block, which may allocate a room.\<close>

definition repo_update :: "bare_jid \<Rightarrow> (room_ref \<Rightarrow> room_heap \<Rightarrow> room_ref \<times> room_heap) \<Rightarrow> rooms_map \<Rightarrow> room_heap \<Rightarrow>
    room_ref option \<times> rooms_map \<times> room_heap" where
  "repo_update j f m h =
     (case map_of m j of
        None \<Rightarrow> (None, m, h)
      | Some r \<Rightarrow>
          (case f r h of (r', h') \<Rightarrow> (Some r', AList.update j r' (AList.delete j m), h')))"

definition repo_delete :: "bare_jid \<Rightarrow> rooms_map \<Rightarrow> room_ref option \<times> rooms_map" where
  "repo_delete j m = (map_of m j, AList.delete j m)"

definition repo_delete_all :: "rooms_map \<Rightarrow> room_ref list \<times> rooms_map" where
  "repo_delete_all m = (map snd m, [])"

text \<open>
  The invariant: one room per JID, every room is on the heap, and it is stored under its own JID.
\<close>

definition repo_ok :: "room_heap \<Rightarrow> rooms_map \<Rightarrow> bool" where
  "repo_ok h m \<longleftrightarrow> distinct (map fst m) \<and> (\<forall>(j, r) \<in> set m. r < length h \<and> room_key h r = j)"

subsection \<open>The contract of the repository\<close>

text \<open>
  What the services rely on, as \<^verbatim>\<open>ConnectedRoomsRepository\<close> promises it: the rooms of the
  repository are addressed by JID, \<open>set\<close> never replaces a room, every operation touches one JID.
\<close>

locale rooms_repository =
  fixes get :: "'m \<Rightarrow> bare_jid \<Rightarrow> room_ref option"
    and get_all :: "'m \<Rightarrow> room_ref list"
    and set_room :: "room_heap \<Rightarrow> room_ref \<Rightarrow> 'm \<Rightarrow> 'm option"
    and set_or_replace :: "room_heap \<Rightarrow> room_ref \<Rightarrow> 'm \<Rightarrow> room_ref option \<times> 'm"
    and update :: "bare_jid \<Rightarrow> (room_ref \<Rightarrow> room_heap \<Rightarrow> room_ref \<times> room_heap) \<Rightarrow> 'm \<Rightarrow> room_heap \<Rightarrow>
      room_ref option \<times> 'm \<times> room_heap"
    and delete :: "bare_jid \<Rightarrow> 'm \<Rightarrow> room_ref option \<times> 'm"
    and ok :: "room_heap \<Rightarrow> 'm \<Rightarrow> bool"
  assumes get_stored: "ok h m \<Longrightarrow> get m j = Some r \<Longrightarrow> r < length h \<and> room_key h r = j"
    and get_all_stored: "ok h m \<Longrightarrow> r \<in> set (get_all m) \<longleftrightarrow> (\<exists>j. get m j = Some r)"
    and set_None: "set_room h r m = None \<longleftrightarrow> get m (room_key h r) \<noteq> None"
    and set_Some: "set_room h r m = Some m' \<Longrightarrow> get m' = (get m)(room_key h r \<mapsto> r)"
    and set_ok: "ok h m \<Longrightarrow> r < length h \<Longrightarrow> set_room h r m = Some m' \<Longrightarrow> ok h m'"
    and replace_old: "fst (set_or_replace h r m) = get m (room_key h r)"
    and replace_get: "get (snd (set_or_replace h r m)) = (get m)(room_key h r \<mapsto> r)"
    and replace_ok: "ok h m \<Longrightarrow> r < length h \<Longrightarrow> ok h (snd (set_or_replace h r m))"
    and update_None: "get m j = None \<Longrightarrow> update j f m h = (None, m, h)"
    and update_get: "get m j = Some r \<Longrightarrow> f r h = (r', h') \<Longrightarrow>
      \<exists>m'. update j f m h = (Some r', m', h') \<and> get m' = (get m)(j \<mapsto> r') \<and>
        (ok h' m \<longrightarrow> r' < length h' \<longrightarrow> room_key h' r' = j \<longrightarrow> ok h' m')"
    and delete_old: "fst (delete j m) = get m j"
    and delete_get: "get (snd (delete j m)) = (get m)(j := None)"
    and delete_ok: "ok h m \<Longrightarrow> ok h (snd (delete j m))"
    and ok_mono: "ok h m \<Longrightarrow> length h \<le> length h' \<Longrightarrow>
      (\<And>r. r < length h \<Longrightarrow> r_info (h' ! r) = r_info (h ! r)) \<Longrightarrow> ok h' m"
begin

text \<open>A room is stored under one JID only, so rooms of different JIDs are different objects.\<close>

lemma stored_once: "ok h m \<Longrightarrow> get m j = Some r \<Longrightarrow> get m k = Some r \<Longrightarrow> j = k"
  using get_stored by metis

lemma set_then_get: "set_room h r m = Some m' \<Longrightarrow> get m' (room_key h r) = Some r"
  by (simp add: set_Some)

lemma set_other: "set_room h r m = Some m' \<Longrightarrow> j \<noteq> room_key h r \<Longrightarrow> get m' j = get m j"
  by (simp add: set_Some)

lemma delete_then_get: "get (snd (delete j m)) k = (if k = j then None else get m k)"
  by (simp add: delete_get)

text \<open>Putting a room back after deleting it restores every entry.\<close>

lemma delete_set_restores:
  assumes "ok h m" "get m j = Some r" "set_room h r (snd (delete j m)) = Some m'"
  shows "get m' = get m"
  using assms get_stored [OF assms(1,2)] by (auto simp: set_Some delete_get)

text \<open>Writing to a room's details never disturbs the repository.\<close>

lemma ok_write_details: "ok h m \<Longrightarrow> ok (write_details r f h) m"
  by (rule ok_mono, assumption) simp_all

lemma ok_alloc: "ok h m \<Longrightarrow> ok (h @ [x]) m"
  by (rule ok_mono, assumption) (auto simp: nth_append)

end

lemma room_key_mono:
  "r < length h \<Longrightarrow> (\<And>x. x < length h \<Longrightarrow> r_info (h' ! x) = r_info (h ! x)) \<Longrightarrow>
     room_key h' r = room_key h r"
  by (simp add: room_key_def)

lemma repo_ok_D: "repo_ok h m \<Longrightarrow> (j, r) \<in> set m \<Longrightarrow> r < length h \<and> room_key h r = j"
  by (auto simp: repo_ok_def)

lemma set_AList_update: "distinct (map fst m) \<Longrightarrow> set (AList.update k v m) = {x \<in> set m. fst x \<noteq> k} \<union> {(k, v)}"
  by (induction m) (auto simp: rev_image_eqI)

lemma set_AList_delete: "set (AList.delete k m) = {x \<in> set m. fst x \<noteq> k}"
  by (induction m) auto

lemma repo_ok_update_entry:
  assumes "repo_ok h m" "r < length h"
  shows "repo_ok h (AList.update (room_key h r) r m)"
  using assms by (auto simp: repo_ok_def distinct_keys_update set_AList_update)

lemma repo_ok_delete_entry: "repo_ok h m \<Longrightarrow> repo_ok h (AList.delete j m)"
  by (auto simp: repo_ok_def distinct_keys_delete set_AList_delete)

interpretation repo: rooms_repository repo_get repo_get_all repo_set repo_set_or_replace repo_update
  repo_delete repo_ok
proof unfold_locales
  fix h h' :: room_heap and m m' :: rooms_map and j r r' f
  show "repo_ok h m \<Longrightarrow> repo_get m j = Some r \<Longrightarrow> r < length h \<and> room_key h r = j"
    by (auto simp: repo_get_def dest!: map_of_SomeD repo_ok_D)
  show "repo_ok h m \<Longrightarrow> r \<in> set (repo_get_all m) \<longleftrightarrow> (\<exists>j. repo_get m j = Some r)"
    by (force simp: repo_get_def repo_get_all_def repo_ok_def)
  show "repo_set h r m = None \<longleftrightarrow> repo_get m (room_key h r) \<noteq> None"
    by (simp add: repo_set_def repo_get_def)
  show "repo_set h r m = Some m' \<Longrightarrow> repo_get m' = (repo_get m)(room_key h r \<mapsto> r)"
    by (auto simp: repo_set_def repo_get_def fun_eq_iff split: if_splits)
  show "repo_ok h m \<Longrightarrow> r < length h \<Longrightarrow> repo_set h r m = Some m' \<Longrightarrow> repo_ok h m'"
    by (auto simp: repo_set_def repo_ok_update_entry split: if_splits)
  show "fst (repo_set_or_replace h r m) = repo_get m (room_key h r)"
    by (simp add: repo_set_or_replace_def repo_get_def)
  show "repo_get (snd (repo_set_or_replace h r m)) = (repo_get m)(room_key h r \<mapsto> r)"
    by (simp add: repo_set_or_replace_def repo_get_def fun_eq_iff)
  show "repo_ok h m \<Longrightarrow> r < length h \<Longrightarrow> repo_ok h (snd (repo_set_or_replace h r m))"
    by (simp add: repo_set_or_replace_def repo_ok_update_entry)
  show "repo_get m j = None \<Longrightarrow> repo_update j f m h = (None, m, h)"
    by (simp add: repo_update_def repo_get_def)
  show "repo_get m j = Some r \<Longrightarrow> f r h = (r', h') \<Longrightarrow>
      \<exists>m'. repo_update j f m h = (Some r', m', h') \<and> repo_get m' = (repo_get m)(j \<mapsto> r') \<and>
        (repo_ok h' m \<longrightarrow> r' < length h' \<longrightarrow> room_key h' r' = j \<longrightarrow> repo_ok h' m')"
    using repo_ok_update_entry [of h' "AList.delete j m" r'] repo_ok_delete_entry [of h' m j]
    by (auto simp: repo_update_def repo_get_def fun_eq_iff)
  show "fst (repo_delete j m) = repo_get m j"
    by (simp add: repo_delete_def repo_get_def)
  show "repo_get (snd (repo_delete j m)) = (repo_get m)(j := None)"
    by (simp add: repo_delete_def repo_get_def fun_eq_iff)
  show "repo_ok h m \<Longrightarrow> repo_ok h (snd (repo_delete j m))"
    by (simp add: repo_delete_def repo_ok_delete_entry)
  show "repo_ok h m \<Longrightarrow> length h \<le> length h' \<Longrightarrow>
      (\<And>r. r < length h \<Longrightarrow> r_info (h' ! r) = r_info (h ! r)) \<Longrightarrow> repo_ok h' m"
    using room_key_mono [of _ h h'] by (fastforce simp: repo_ok_def)
qed

section \<open>Properties\<close>

text \<open>The states of the heap and the repository under any sequence of operations of the services.\<close>

inductive repo_reachable :: "room_heap \<Rightarrow> rooms_map \<Rightarrow> bool" where
  rr_empty: "repo_reachable [] []"
| rr_alloc: "repo_reachable h m \<Longrightarrow> repo_reachable (snd (room_alloc x h)) m"
| rr_write: "repo_reachable h m \<Longrightarrow> repo_reachable (write_details r f h) m"
| rr_set: "repo_reachable h m \<Longrightarrow> r < length h \<Longrightarrow> repo_set h r m = Some m' \<Longrightarrow> repo_reachable h m'"
| rr_replace: "repo_reachable h m \<Longrightarrow> r < length h \<Longrightarrow> repo_reachable h (snd (repo_set_or_replace h r m))"
| rr_change_type: "repo_reachable h m \<Longrightarrow>
    repo_update j (\<lambda>r h. room_alloc (by_changing_type t (h ! r)) h) m h = (res, m', h') \<Longrightarrow>
    repo_reachable h' m'"
| rr_resolve: "repo_reachable h m \<Longrightarrow> into_bare (ri_room_id info) = j \<Longrightarrow>
    repo_update j (\<lambda>r h. if \<not> is_connecting (h ! r) then (r, h)
      else room_alloc (by_resolving_with_info n d tp info ms ps st (h ! r)) h) m h = (res, m', h') \<Longrightarrow>
    repo_reachable h' m'"
| rr_delete: "repo_reachable h m \<Longrightarrow> repo_reachable h (snd (repo_delete j m))"
| rr_delete_all: "repo_reachable h m \<Longrightarrow> repo_reachable h (snd (repo_delete_all m))"

text \<open>Updating an entry by a block that keeps the old rooms and yields a room of the same JID.\<close>

lemma repo_update_ok:
  assumes "repo_ok h m" "repo_update j f m h = (res, m', h')"
    and "\<And>r. repo_get m j = Some r \<Longrightarrow> r < length h \<Longrightarrow> room_key h r = j \<Longrightarrow>
      (case f r h of (r', h') \<Rightarrow> length h \<le> length h' \<and> r' < length h' \<and> room_key h' r' = j \<and>
         (\<forall>x < length h. r_info (h' ! x) = r_info (h ! x)))"
  shows "repo_ok h' m'"
proof (cases "repo_get m j")
  case None
  then show ?thesis using assms(1,2) repo.update_None by simp
next
  case (Some r)
  obtain r' h'' where f: "f r h = (r', h'')" by fastforce
  from repo.get_stored [OF assms(1) Some] have "r < length h" "room_key h r = j" by auto
  from assms(3) [OF Some this] f have *: "length h \<le> length h''" "r' < length h''" "room_key h'' r' = j"
    "\<forall>x < length h. r_info (h'' ! x) = r_info (h ! x)" by auto
  then have "repo_ok h'' m" using repo.ok_mono [OF assms(1)] by blast
  with repo.update_get [of m j r f h r' h'', OF Some f] * assms(2) show ?thesis by auto
qed

lemma repo_reachable_ok: "repo_reachable h m \<Longrightarrow> repo_ok h m"
proof (induction rule: repo_reachable.induct)
  case rr_empty
  show ?case by (simp add: repo_ok_def)
next
  case (rr_change_type h m j t res m' h')
  show ?case
    using rr_change_type.IH rr_change_type.hyps(2)
    by (rule repo_update_ok)
      (auto simp: room_alloc_def by_changing_type_def room_key_def nth_append)
next
  case (rr_resolve h m info j n d tp ms ps st res m' h')
  show ?case
    using rr_resolve.IH rr_resolve.hyps(3)
    by (rule repo_update_ok)
      (use rr_resolve.hyps(2) in
        \<open>auto simp: room_alloc_def by_resolving_with_info_def room_key_def nth_append\<close>)
qed (auto simp: room_alloc_def repo.ok_alloc repo.ok_write_details repo.set_ok repo.replace_ok
      repo.delete_ok, simp add: repo_delete_all_def repo_ok_def)

text \<open>
  C13. Whatever rooms are created, changed, resolved, replaced and deleted, in any order, the
  repository holds at most one room per JID, holds every room under the JID of that room, and so
  never holds one room object under two JIDs.
\<close>

theorem rooms_stored_under_own_jid:
  assumes "repo_reachable h m"
  shows "distinct (map fst m) \<and>
    (repo_get m j = Some r \<longrightarrow> r < length h \<and> into_bare (ri_room_id (r_info (h ! r))) = j) \<and>
    (repo_get m j = Some r \<and> repo_get m k = Some r \<longrightarrow> j = k)"
proof (intro conjI impI)
  note ok = repo_reachable_ok [OF assms]
  then show "distinct (map fst m)" by (simp add: repo_ok_def)
  show "j = k" if "repo_get m j = Some r \<and> repo_get m k = Some r"
    using that repo.stored_once [OF ok] by blast
  show "r < length h" "into_bare (ri_room_id (r_info (h ! r))) = j" if "repo_get m j = Some r"
    using repo.get_stored [OF ok that] by (simp_all add: room_key_def)
qed

text \<open>The messages of others among those loaded, and those of them that mention our user.\<close>

definition foreign :: "participant_id option \<Rightarrow> user_id \<Rightarrow> bool \<Rightarrow> message_like \<Rightarrow> bool" where
  "foreign our_participant our_user is_muc m \<longleftrightarrow> is_message (ml_payload m) \<and>
     ml_from m \<noteq> PUser our_user \<and> (is_muc \<longrightarrow> Some (ml_from m) \<noteq> our_participant)"

fun mentions :: "user_id \<Rightarrow> payload \<Rightarrow> bool" where
  "mentions u (PMessage body _ _ _ _ _) \<longleftrightarrow> (\<exists>x \<in> set (lb_mentions body). mention_user x = u)"
| "mentions u _ \<longleftrightarrow> False"

lemma count_message_counts:
  "rs_unread_count (count_message op u mc m st) =
     rs_unread_count st + (if foreign op u mc m then 1 else 0)"
  "rs_mentions_count (count_message op u mc m st) =
     rs_mentions_count st + (if foreign op u mc m \<and> mentions u (ml_payload m) then 1 else 0)"
  "rs_needs_update (count_message op u mc m st) = rs_needs_update st"
  by (cases "ml_payload m"; auto simp: count_message_def foreign_def Let_def)+

lemma count_messages:
  "rs_unread_count (fold (count_message op u mc) ms st) =
     rs_unread_count st + of_nat (length (filter (foreign op u mc) ms))"
  "rs_mentions_count (fold (count_message op u mc) ms st) =
     rs_mentions_count st + of_nat (length (filter (\<lambda>m. foreign op u mc m \<and> mentions u (ml_payload m)) ms))"
  "rs_needs_update (fold (count_message op u mc) ms st) = rs_needs_update st"
  by (induction ms arbitrary: st) (simp_all add: count_message_counts)

section \<open>Instances\<close>

definition rooms_bob :: user_id where "rooms_bob = UserId (BareJid (Some ''bob'') ''prose.org'')"

definition rooms_dm :: room where
  "rooms_dm = room_for_direct_message rooms_bob ''Bob'' default_presence InSidebar default_features
     (synced_settings_new (RUser rooms_bob))"

theorem rooms_stored_under_own_jid_witness:
  "repo_get [(BareJid (Some ''bob'') ''prose.org'', 0)] (BareJid (Some ''bob'') ''prose.org'') = Some 0 \<and>
   into_bare (ri_room_id (r_info ([rooms_dm] ! 0))) = BareJid (Some ''bob'') ''prose.org''"
proof -
  have "repo_reachable [rooms_dm] []"
    using rr_alloc [OF rr_empty, of rooms_dm] by (simp add: room_alloc_def)
  then have "repo_reachable [rooms_dm] [(BareJid (Some ''bob'') ''prose.org'', 0)]"
    by (rule rr_set [of _ _ 0]) (simp_all add: repo_set_def room_key_def rooms_dm_def
        room_for_direct_message_def rooms_bob_def)
  from rooms_stored_under_own_jid [OF this, of "BareJid (Some ''bob'') ''prose.org''" 0]
  show ?thesis by (simp add: repo_get_def)
qed

end
