(* ===== verification/World.thy ===== *)
theory World
  imports Rooms
begin

text \<open>
  The state the domain services share and the shape of their operations: the connection
  (\<^verbatim>\<open>app/deps/app_context.rs\<close>), the rooms on the heap and in the repository, and a log of
  the events dispatched and the requests sent.

  An operation is a function from the state to an outcome and a new state. What the code calls
  through a trait object (\<^verbatim>\<open>DynRoomManagementService\<close> and the like) is a field of the record
  \<open>services\<close>. Such a call is awaited, and other tasks may run until it returns: a field is
  given the state and returns any state, so it stands for the reply and for everything that
  happened meanwhile.
\<close>

section \<open>Connection\<close>

text \<open>A shared handle to the pre-keys collected while messages are decrypted, by its identity.\<close>

type_synonym decryption_context = nat

record http_upload_service =
  hu_host :: bare_jid
  hu_max_file_size :: "64 word"

record server_features =
  sf_muc_service :: "bare_jid option"
  sf_http_upload_service :: "http_upload_service option"
  sf_mam_version :: "mam_version option"
  sf_vcard4 :: bool
  sf_avatar_pep_vcard_conversion :: bool
  sf_server_time_offset :: int

record connection_properties =
  cp_connection_timestamp :: timestamp
  cp_connected_jid :: user_resource_id
  cp_server_features :: server_features
  cp_rooms_caught_up :: bool
  cp_decryption_context :: "decryption_context option"

datatype connection_state = CDisconnected | CConnecting | CConnected

record app_config =
  cf_message_page_size :: nat
  cf_max_message_pages_to_load :: nat
  cf_max_catchup_duration_secs :: int

definition default_config :: app_config where
  "default_config =
     \<lparr>cf_message_page_size = 100, cf_max_message_pages_to_load = 5,
      cf_max_catchup_duration_secs = 60 * 60 * 24 * 5\<rparr>"

text \<open>The capabilities and the software version are constants that only go into requests.\<close>

record app_context =
  cx_properties :: "connection_properties option"
  cx_state :: connection_state
  cx_config :: app_config

definition app_context_new :: "app_config \<Rightarrow> app_context" where
  "app_context_new config = \<lparr>cx_properties = None, cx_state = CDisconnected, cx_config = config\<rparr>"

definition connected_id :: "app_context \<Rightarrow> string + user_resource_id" where
  "connected_id cx =
     (case cx_properties cx of
        Some p \<Rightarrow> Inr (cp_connected_jid p)
      | None \<Rightarrow> Inl ''Failed to read the user's JID since the client is not connected.'')"

definition connection_timestamp :: "app_context \<Rightarrow> string + timestamp" where
  "connection_timestamp cx =
     (case cx_properties cx of
        Some p \<Rightarrow> Inr (cp_connection_timestamp p)
      | None \<Rightarrow> Inl ''Failed to read the connection timestamp since the client is not connected.'')"

definition server_features_of :: "app_context \<Rightarrow> string + server_features" where
  "server_features_of cx =
     (case cx_properties cx of
        Some p \<Rightarrow> Inr (cp_server_features p)
      | None \<Rightarrow> Inl ''Failed to read the server features since the client is not connected.'')"

definition muc_service :: "app_context \<Rightarrow> string + bare_jid" where
  "muc_service cx =
     bind_res (server_features_of cx)
       (\<lambda>f. case sf_muc_service f of
              Some j \<Rightarrow> Inr j | None \<Rightarrow> Inl ''Server does not support MUC (XEP-0045)'')"

definition http_upload_service_of :: "app_context \<Rightarrow> string + http_upload_service" where
  "http_upload_service_of cx =
     bind_res (server_features_of cx)
       (\<lambda>f. case sf_http_upload_service f of
              Some s \<Rightarrow> Inr s | None \<Rightarrow> Inl ''Server does not support HTTP uploads (XEP-0363)'')"

definition decryption_context_of :: "app_context \<Rightarrow> decryption_context option" where
  "decryption_context_of cx = Option.bind (cx_properties cx) cp_decryption_context"

definition rooms_caught_up :: "app_context \<Rightarrow> bool" where
  "rooms_caught_up cx = (case cx_properties cx of Some p \<Rightarrow> cp_rooms_caught_up p | None \<Rightarrow> False)"

definition is_muc_room_on_connected_server :: "app_context \<Rightarrow> muc_id \<Rightarrow> bool" where
  "is_muc_room_on_connected_server cx m \<longleftrightarrow>
     Some (BareJid None (domain (muc_jid m))) =
       Option.bind (cx_properties cx) (\<lambda>p. sf_muc_service (cp_server_features p))"

definition set_connection_properties :: "connection_properties \<Rightarrow> app_context \<Rightarrow> app_context" where
  "set_connection_properties p cx = cx\<lparr>cx_properties := Some p\<rparr>"

definition reset_connection_properties :: "app_context \<Rightarrow> app_context" where
  "reset_connection_properties cx = cx\<lparr>cx_properties := None\<rparr>"

definition set_connection_state :: "connection_state \<Rightarrow> app_context \<Rightarrow> app_context" where
  "set_connection_state st cx = cx\<lparr>cx_state := st\<rparr>"

definition set_rooms_caught_up :: "app_context \<Rightarrow> app_context" where
  "set_rooms_caught_up cx =
     cx\<lparr>cx_properties := map_option (\<lambda>p. p\<lparr>cp_rooms_caught_up := True\<rparr>) (cx_properties cx)\<rparr>"

definition take_decryption_context :: "app_context \<Rightarrow> decryption_context option \<times> app_context" where
  "take_decryption_context cx =
     (decryption_context_of cx,
      cx\<lparr>cx_properties := map_option (\<lambda>p. p\<lparr>cp_decryption_context := None\<rparr>) (cx_properties cx)\<rparr>)"

section \<open>State\<close>

datatype effect =
    Dispatched client_event
  | DispatchedRoom room_ref room_event_type
  | JoinRoom occupant_id "string option"
  | CreateOrJoinRoom occupant_id string room_spec
  | ReconfigureRoom muc_id room_spec string
  | LoadRoomConfig muc_id
  | ExitRoom occupant_id
  | SetRoomOwners muc_id "user_id list"
  | SelfPing occupant_id
  | DestroyRoom muc_id "muc_id option"
  | InviteUsers muc_id "user_id list"
  | GrantMembership muc_id user_id
  | SetRoomName muc_id string
  | CopyMessages room_id room_id
  | CatchupRoom room_ref
  | FinalizeDecryption
  | SaveBookmark bookmark
  | DeleteBookmark bare_jid

record world =
  w_ctx :: app_context
  w_heap :: room_heap
  w_rooms :: rooms_map
  w_log :: "effect list"

section \<open>Operations\<close>

text \<open>
  The result of an operation, a panic, or \<open>NoFuel\<close> when a loop that need not end was given too
  little fuel.
\<close>

datatype 'a outcome = Ok 'a | Err room_error | Panic string | NoFuel

type_synonym ('s, 'a) program = "'s \<Rightarrow> 'a outcome \<times> 's"

type_synonym 'a prog = "(world, 'a) program"

definition return :: "'a \<Rightarrow> ('s, 'a) program" where
  "return a w = (Ok a, w)"

definition throw :: "room_error \<Rightarrow> ('s, 'a) program" where
  "throw e w = (Err e, w)"

definition panic :: "string \<Rightarrow> ('s, 'a) program" where
  "panic msg w = (Panic msg, w)"

text \<open>Sequencing, with the \<^verbatim>\<open>?\<close> operator.\<close>

definition bindM :: "('s, 'a) program \<Rightarrow> ('a \<Rightarrow> ('s, 'b) program) \<Rightarrow> ('s, 'b) program" where
  "bindM m f w =
     (case m w of
        (Ok a, w') \<Rightarrow> f a w'
      | (Err e, w') \<Rightarrow> (Err e, w')
      | (Panic msg, w') \<Rightarrow> (Panic msg, w')
      | (NoFuel, w') \<Rightarrow> (NoFuel, w'))"

definition thenM :: "('s, 'a) program \<Rightarrow> ('s, 'b) program \<Rightarrow> ('s, 'b) program" where
  "thenM m n = bindM m (\<lambda>_. n)"

text \<open>Matching on the result instead of propagating the error.\<close>

definition attempt :: "('s, 'a) program \<Rightarrow> ('s, room_error + 'a) program" where
  "attempt m w =
     (case m w of
        (Ok a, w') \<Rightarrow> (Ok (Inr a), w')
      | (Err e, w') \<Rightarrow> (Ok (Inl e), w')
      | (Panic msg, w') \<Rightarrow> (Panic msg, w')
      | (NoFuel, w') \<Rightarrow> (NoFuel, w'))"

definition lift_res :: "room_error + 'a \<Rightarrow> ('s, 'a) program" where
  "lift_res r = (case r of Inl e \<Rightarrow> throw e | Inr a \<Rightarrow> return a)"

text \<open>An \<^verbatim>\<open>anyhow\<close> error propagated as a \<^verbatim>\<open>RoomError\<close>.\<close>

definition lift_any :: "string + 'a \<Rightarrow> ('s, 'a) program" where
  "lift_any r = (case r of Inl msg \<Rightarrow> throw (Anyhow msg) | Inr a \<Rightarrow> return a)"

definition lift_panic :: "string \<Rightarrow> 'a option \<Rightarrow> ('s, 'a) program" where
  "lift_panic msg r = (case r of None \<Rightarrow> panic msg | Some a \<Rightarrow> return a)"

definition gets :: "('s \<Rightarrow> 'a) \<Rightarrow> ('s, 'a) program" where
  "gets f w = (Ok (f w), w)"

definition modify_world :: "('s \<Rightarrow> 's) \<Rightarrow> ('s, unit) program" where
  "modify_world f w = (Ok (), f w)"

definition tell :: "effect \<Rightarrow> unit prog" where
  "tell e = modify_world (\<lambda>w. w\<lparr>w_log := w_log w @ [e]\<rparr>)"

text \<open>Calling and awaiting a service that may fail; \<open>call\<close> hands its result on as a value.\<close>

definition call :: "('s \<Rightarrow> 'r \<times> 's) \<Rightarrow> ('s, 'r) program" where
  "call f w = (case f w of (r, w') \<Rightarrow> (Ok r, w'))"

definition for_each :: "('a \<Rightarrow> ('s, unit) program) \<Rightarrow> 'a list \<Rightarrow> ('s, unit) program" where
  "for_each f xs = foldr (\<lambda>x rest. thenM (f x) rest) xs (return ())"

fun mapM :: "('a \<Rightarrow> ('s, 'b) program) \<Rightarrow> 'a list \<Rightarrow> ('s, 'b list) program" where
  "mapM f [] = return []"
| "mapM f (x # xs) = bindM (f x) (\<lambda>y. bindM (mapM f xs) (\<lambda>ys. return (y # ys)))"

lemmas prog_defs = return_def throw_def panic_def bindM_def thenM_def attempt_def lift_res_def
  lift_any_def lift_panic_def gets_def modify_world_def tell_def call_def

section \<open>Invariants of programs\<close>

text \<open>\<open>preserves I m\<close>: the program keeps \<open>I\<close>, whichever way it ends.\<close>

definition preserves :: "('s \<Rightarrow> bool) \<Rightarrow> ('s, 'a) program \<Rightarrow> bool" where
  "preserves I m \<longleftrightarrow> (\<forall>w. I w \<longrightarrow> I (snd (m w)))"

lemma preservesD: "preserves I m \<Longrightarrow> I w \<Longrightarrow> I (snd (m w))"
  by (simp add: preserves_def)

lemma preserves_bind:
  assumes "preserves I m" "\<And>a. preserves I (f a)"
  shows "preserves I (bindM m f)"
  unfolding preserves_def
proof (intro allI impI)
  fix w
  assume "I w"
  obtain res w' where m: "m w = (res, w')" by fastforce
  with preservesD [OF assms(1) \<open>I w\<close>] have "I w'" by simp
  with m preservesD [OF assms(2)] show "I (snd (bindM m f w))" by (cases res) (simp_all add: bindM_def)
qed

lemma preserves_then: "preserves I m \<Longrightarrow> preserves I n \<Longrightarrow> preserves I (thenM m n)"
  by (simp add: thenM_def preserves_bind)

lemma preserves_attempt: "preserves I m \<Longrightarrow> preserves I (attempt m)"
  by (auto simp: preserves_def attempt_def split: prod.split outcome.split)

lemma preserves_modify: "(\<And>w. I w \<Longrightarrow> I (f w)) \<Longrightarrow> preserves I (modify_world f)"
  by (simp add: preserves_def modify_world_def)

lemma preserves_call: "(\<And>w. I w \<Longrightarrow> I (snd (f w))) \<Longrightarrow> preserves I (call f)"
  by (simp add: preserves_def call_def case_prod_unfold)

lemma preserves_pure:
  "preserves I (return a)" "preserves I (throw e)" "preserves I (panic msg)" "preserves I (gets g)"
  "preserves I (lift_res r)" "preserves I (lift_any x)" "preserves I (lift_panic msg y)"
  by (auto simp: preserves_def prog_defs split: sum.split option.split)

lemma preserves_for_each:
  "(\<And>x. x \<in> set xs \<Longrightarrow> preserves I (f x)) \<Longrightarrow> preserves I (for_each f xs)"
  by (induction xs) (simp_all add: for_each_def preserves_pure preserves_then)

text \<open>\<open>ends m\<close>: the program never runs out of fuel.\<close>

definition ends :: "('s, 'a) program \<Rightarrow> bool" where
  "ends m \<longleftrightarrow> (\<forall>w. fst (m w) \<noteq> NoFuel)"

lemma ends_bind: "ends m \<Longrightarrow> (\<And>a. ends (f a)) \<Longrightarrow> ends (bindM m f)"
  unfolding ends_def bindM_def by (auto split: prod.split outcome.split) (metis fst_conv)+

lemma ends_then: "ends m \<Longrightarrow> ends n \<Longrightarrow> ends (thenM m n)"
  by (simp add: thenM_def ends_bind)

lemma ends_attempt: "ends m \<Longrightarrow> ends (attempt m)"
  unfolding ends_def attempt_def by (auto split: prod.split outcome.split) (metis fst_conv)+

lemma ends_pure:
  "ends (return a)" "ends (throw e)" "ends (panic msg)" "ends (gets g)" "ends (lift_res r)" "ends (lift_any x)"
  "ends (lift_panic msg y)" "ends (modify_world h)" "ends (call f)"
  by (auto simp: ends_def prog_defs split: sum.split option.split prod.split)

section \<open>Access to rooms\<close>

definition get_room :: "bare_jid \<Rightarrow> room_ref option prog" where
  "get_room j = gets (\<lambda>w. repo_get (w_rooms w) j)"

definition read_room :: "room_ref \<Rightarrow> room prog" where
  "read_room r = gets (\<lambda>w. w_heap w ! r)"

definition write_room :: "room_ref \<Rightarrow> (room_details \<Rightarrow> room_details) \<Rightarrow> unit prog" where
  "write_room r f = modify_world (\<lambda>w. w\<lparr>w_heap := write_details r f (w_heap w)\<rparr>)"

definition set_state :: "room_ref \<Rightarrow> room_state \<Rightarrow> unit prog" where
  "set_state r st = write_room r (\<lambda>d. d\<lparr>rd_state := st\<rparr>)"

definition set_name :: "room_ref \<Rightarrow> string option \<Rightarrow> unit prog" where
  "set_name r n = write_room r (\<lambda>d. d\<lparr>rd_name := n\<rparr>)"

definition set_description :: "room_ref \<Rightarrow> string option \<Rightarrow> unit prog" where
  "set_description r n = write_room r (\<lambda>d. d\<lparr>rd_description := n\<rparr>)"

definition set_topic :: "room_ref \<Rightarrow> string option \<Rightarrow> unit prog" where
  "set_topic r n = write_room r (\<lambda>d. d\<lparr>rd_topic := n\<rparr>)"

definition set_sidebar_state :: "room_ref \<Rightarrow> room_sidebar_state \<Rightarrow> unit prog" where
  "set_sidebar_state r st = write_room r (\<lambda>d. d\<lparr>rd_sidebar_state := st\<rparr>)"

definition set_needs_update_statistics :: "room_ref \<Rightarrow> unit prog" where
  "set_needs_update_statistics r =
     write_room r (\<lambda>d. d\<lparr>rd_statistics := (rd_statistics d)\<lparr>rs_needs_update := True\<rparr>\<rparr>)"

definition new_room :: "room \<Rightarrow> room_ref prog" where
  "new_room x w =
     (case room_alloc x (w_heap w) of (r, h) \<Rightarrow> (Ok r, w\<lparr>w_heap := h\<rparr>))"

text \<open>\<^verbatim>\<open>connected_rooms_repo.set\<close>: whether the room was inserted.\<close>

definition insert_room :: "room_ref \<Rightarrow> bool prog" where
  "insert_room r w =
     (case repo_set (w_heap w) r (w_rooms w) of
        None \<Rightarrow> (Ok False, w)
      | Some m \<Rightarrow> (Ok True, w\<lparr>w_rooms := m\<rparr>))"

definition replace_room :: "room_ref \<Rightarrow> room_ref option prog" where
  "replace_room r w =
     (case repo_set_or_replace (w_heap w) r (w_rooms w) of (old, m) \<Rightarrow> (Ok old, w\<lparr>w_rooms := m\<rparr>))"

definition update_room :: "bare_jid \<Rightarrow> (room_ref \<Rightarrow> room_heap \<Rightarrow> room_ref \<times> room_heap) \<Rightarrow> room_ref option prog" where
  "update_room j f w =
     (case repo_update j f (w_rooms w) (w_heap w) of
        (res, m, h) \<Rightarrow> (Ok res, w\<lparr>w_rooms := m, w_heap := h\<rparr>))"

definition delete_room :: "bare_jid \<Rightarrow> room_ref option prog" where
  "delete_room j w = (case repo_delete j (w_rooms w) of (old, m) \<Rightarrow> (Ok old, w\<lparr>w_rooms := m\<rparr>))"

definition delete_all_rooms :: "room_ref list prog" where
  "delete_all_rooms w = (case repo_delete_all (w_rooms w) of (olds, m) \<Rightarrow> (Ok olds, w\<lparr>w_rooms := m\<rparr>))"

definition connected_account :: "account_id prog" where
  "connected_account =
     bindM (gets (\<lambda>w. connected_id (w_ctx w))) (\<lambda>r.
     bindM (lift_any r) (\<lambda>u.
     lift_panic ''UserId without node'' (account_id_from (user_jid (res_to_user_id u)))))"

definition connected_user :: "user_id prog" where
  "connected_user =
     bindM (gets (\<lambda>w. connected_id (w_ctx w))) (\<lambda>r.
     bindM (lift_any r) (\<lambda>u. return (res_to_user_id u)))"

definition dispatch :: "client_event \<Rightarrow> unit prog" where
  "dispatch e = tell (Dispatched e)"

definition dispatch_room :: "room_ref \<Rightarrow> room_event_type \<Rightarrow> unit prog" where
  "dispatch_room r e = tell (DispatchedRoom r e)"

section \<open>Reasoning about operations\<close>

definition world_ok :: "world \<Rightarrow> bool" where
  "world_ok w \<longleftrightarrow> repo_ok (w_heap w) (w_rooms w)"

text \<open>Rooms are never freed while a task may hold them, and their info never changes.\<close>

definition extends :: "world \<Rightarrow> world \<Rightarrow> bool" where
  "extends w w' \<longleftrightarrow> length (w_heap w) \<le> length (w_heap w') \<and>
     (\<forall>r < length (w_heap w). r_info (w_heap w' ! r) = r_info (w_heap w ! r))"

lemma extends_refl [simp]: "extends w w"
  by (simp add: extends_def)

lemma extends_trans [trans]: "extends w w' \<Longrightarrow> extends w' w'' \<Longrightarrow> extends w w''"
  by (auto simp: extends_def)

definition valid :: "room_ref \<Rightarrow> world \<Rightarrow> bool" where
  "valid r w \<longleftrightarrow> r < length (w_heap w)"

lemma valid_extends: "valid r w \<Longrightarrow> extends w w' \<Longrightarrow> valid r w'"
  by (auto simp: valid_def extends_def)

text \<open>
  \<open>keeps R m Q\<close>: started in a good world where the rooms in \<open>R\<close> exist, the operation ends in a
  good world that extends it, and a result satisfies \<open>Q\<close>.
\<close>

definition keeps :: "room_ref set \<Rightarrow> 'a prog \<Rightarrow> ('a \<Rightarrow> room_ref set) \<Rightarrow> bool" where
  "keeps R m Q \<longleftrightarrow>
     (\<forall>w. world_ok w \<and> (\<forall>r \<in> R. valid r w) \<longrightarrow>
        world_ok (snd (m w)) \<and> extends w (snd (m w)) \<and>
        (\<forall>a. fst (m w) = Ok a \<longrightarrow> (\<forall>r \<in> Q a. valid r (snd (m w)))))"

lemma keepsI:
  assumes "\<And>w. world_ok w \<Longrightarrow> \<forall>r \<in> R. valid r w \<Longrightarrow>
    world_ok (snd (m w)) \<and> extends w (snd (m w)) \<and> (\<forall>a. fst (m w) = Ok a \<longrightarrow> (\<forall>r \<in> Q a. valid r (snd (m w))))"
  shows "keeps R m Q"
  using assms by (simp add: keeps_def)

lemma keepsD:
  assumes "keeps R m Q" "world_ok w" "\<forall>r \<in> R. valid r w"
  shows "world_ok (snd (m w))" "extends w (snd (m w))" "fst (m w) = Ok a \<Longrightarrow> r \<in> Q a \<Longrightarrow> valid r (snd (m w))"
  using assms by (auto simp: keeps_def)

lemma keeps_bind [intro]:
  assumes m: "keeps R m Q" and f: "\<And>a. keeps (R \<union> Q a) (f a) Q'"
  shows "keeps R (bindM m f) Q'"
proof (rule keepsI)
  fix w
  assume w: "world_ok w" "\<forall>r \<in> R. valid r w"
  note post = keepsD [OF m w]
  obtain res w' where m': "m w = (res, w')" by fastforce
  show "world_ok (snd (bindM m f w)) \<and> extends w (snd (bindM m f w)) \<and>
    (\<forall>a. fst (bindM m f w) = Ok a \<longrightarrow> (\<forall>r \<in> Q' a. valid r (snd (bindM m f w))))"
  proof (cases res)
    case (Ok a)
    have "\<forall>r \<in> R \<union> Q a. valid r w'"
      using w(2) post(2,3) m' Ok by (auto intro: valid_extends)
    moreover have "world_ok w'" using post(1) m' by simp
    ultimately have "world_ok (snd (f a w'))" "extends w' (snd (f a w'))"
      "\<forall>b. fst (f a w') = outcome.Ok b \<longrightarrow> (\<forall>r \<in> Q' b. valid r (snd (f a w')))"
      using f [of a] by (auto simp: keeps_def)
    with Ok m' post(2) show ?thesis
      by (auto simp: bindM_def intro: extends_trans)
  qed (use post m' in \<open>simp_all add: bindM_def\<close>)
qed

lemma keeps_weaken: "keeps R m Q \<Longrightarrow> R \<subseteq> R' \<Longrightarrow> (\<And>a. Q' a \<subseteq> Q a) \<Longrightarrow> keeps R' m Q'"
  unfolding keeps_def by blast

lemma keeps_no_result: "keeps R m Q \<Longrightarrow> keeps R m (\<lambda>_. {})"
  by (erule keeps_weaken) auto

lemma keeps_return [intro]: "Q a \<subseteq> R \<Longrightarrow> keeps R (return a) Q"
  by (auto simp: keeps_def return_def)

lemma keeps_throw [intro]: "keeps R (throw e) Q"
  by (auto simp: keeps_def throw_def)

lemma keeps_panic [intro]: "keeps R (panic msg) Q"
  by (auto simp: keeps_def panic_def)

lemma keeps_then [intro]: "keeps R m (\<lambda>_. {}) \<Longrightarrow> keeps R n Q \<Longrightarrow> keeps R (thenM m n) Q"
  unfolding thenM_def by (rule keeps_bind) auto

lemma keeps_attempt:
  assumes "keeps R m Q"
  shows "keeps R (attempt m) (case_sum (\<lambda>_. {}) Q)"
proof (rule keepsI)
  fix w
  assume w: "world_ok w" "\<forall>r \<in> R. valid r w"
  note post = keepsD [OF assms w]
  obtain res w' where "m w = (res, w')" by fastforce
  with post show "world_ok (snd (attempt m w)) \<and> extends w (snd (attempt m w)) \<and>
    (\<forall>a. fst (attempt m w) = Ok a \<longrightarrow> (\<forall>r \<in> case_sum (\<lambda>_. {}) Q a. valid r (snd (attempt m w))))"
    by (cases res) (auto simp: attempt_def)
qed

lemma keeps_gets [intro]: "(\<And>w. Q (f w) = {}) \<Longrightarrow> keeps R (gets f) Q"
  by (simp add: keeps_def gets_def)

lemma keeps_lift_res [intro]: "(\<And>a. Q a = {}) \<Longrightarrow> keeps R (lift_res x) Q"
  by (cases x) (auto simp: lift_res_def)

lemma keeps_lift_any [intro]: "(\<And>a. Q a = {}) \<Longrightarrow> keeps R (lift_any x) Q"
  by (cases x) (auto simp: lift_any_def)

lemma keeps_lift_panic [intro]: "(\<And>a. Q a = {}) \<Longrightarrow> keeps R (lift_panic msg x) Q"
  by (cases x) (auto simp: lift_panic_def)

lemma keeps_tell [intro]: "keeps R (tell e) (\<lambda>_. {})"
  by (auto simp: keeps_def tell_def modify_world_def world_ok_def extends_def)

lemma keeps_dispatch [intro]: "keeps R (dispatch e) (\<lambda>_. {})"
  by (simp add: dispatch_def keeps_tell)

lemma keeps_dispatch_room [intro]: "keeps R (dispatch_room r e) (\<lambda>_. {})"
  by (simp add: dispatch_room_def keeps_tell)

lemma keeps_get_room [intro]: "keeps R (get_room j) set_option"
  by (auto simp: keeps_def get_room_def gets_def world_ok_def valid_def dest: repo.get_stored)

lemma keeps_read_room [intro]: "keeps R (read_room r) (\<lambda>_. {})"
  by (auto simp: keeps_def read_room_def gets_def)

lemma keeps_write_room [intro]: "keeps R (write_room r f) (\<lambda>_. {})"
  by (auto simp: keeps_def write_room_def modify_world_def world_ok_def extends_def
      intro: repo.ok_write_details)

lemma keeps_setters [intro]:
  "keeps R (set_state r st) (\<lambda>_. {})" "keeps R (set_name r n) (\<lambda>_. {})"
  "keeps R (set_description r n) (\<lambda>_. {})" "keeps R (set_sidebar_state r sb) (\<lambda>_. {})"
  "keeps R (set_needs_update_statistics r) (\<lambda>_. {})"
  by (auto simp: set_state_def set_name_def set_description_def set_sidebar_state_def
      set_needs_update_statistics_def)

lemma keeps_new_room [intro]: "keeps R (new_room x) (\<lambda>r. {r})"
  by (auto simp: keeps_def new_room_def room_alloc_def world_ok_def extends_def valid_def nth_append
      intro: repo.ok_alloc)

lemma keeps_insert_room [intro]: "r \<in> R \<Longrightarrow> keeps R (insert_room r) (\<lambda>_. {})"
  by (auto simp: keeps_def insert_room_def world_ok_def extends_def valid_def repo.set_ok
      split: option.split)

lemma keeps_replace_room [intro]: "r \<in> R \<Longrightarrow> keeps R (replace_room r) (\<lambda>_. {})"
  using repo.replace_ok
  by (fastforce simp: keeps_def replace_room_def world_ok_def extends_def valid_def split: prod.split)

lemma keeps_delete_room [intro]: "keeps R (delete_room j) set_option"
proof (rule keepsI)
  fix w
  assume "world_ok w"
  then show "world_ok (snd (delete_room j w)) \<and> extends w (snd (delete_room j w)) \<and>
    (\<forall>a. fst (delete_room j w) = Ok a \<longrightarrow> (\<forall>r \<in> set_option a. valid r (snd (delete_room j w))))"
    using repo.delete_ok [of "w_heap w" "w_rooms w" j] repo.delete_old [of j "w_rooms w"]
      repo.get_stored [of "w_heap w" "w_rooms w" j]
    by (auto simp: delete_room_def world_ok_def extends_def valid_def split: prod.split)
qed

lemma keeps_delete_all_rooms [intro]: "keeps R delete_all_rooms set"
proof (rule keepsI)
  fix w
  assume "world_ok w"
  then show "world_ok (snd (delete_all_rooms w)) \<and> extends w (snd (delete_all_rooms w)) \<and>
    (\<forall>a. fst (delete_all_rooms w) = Ok a \<longrightarrow> (\<forall>r \<in> set a. valid r (snd (delete_all_rooms w))))"
    by (auto simp: delete_all_rooms_def repo_delete_all_def world_ok_def extends_def valid_def repo_ok_def)
qed

text \<open>Replacing a room by one made from it, with the same JID.\<close>

lemma keeps_update_room:
  assumes "\<And>r h. room_key h r = j \<Longrightarrow> r < length h \<Longrightarrow>
      f r h = (r, h) \<or> (\<exists>x. f r h = (length h, h @ [x]) \<and> into_bare (ri_room_id (r_info x)) = j)"
  shows "keeps R (update_room j f) set_option"
proof (rule keepsI)
  fix w
  assume w: "world_ok w"
  let ?h = "w_heap w" and ?m = "w_rooms w"
  obtain res m' h' where u: "repo_update j f ?m ?h = (res, m', h')" using prod_cases3 by blast
  have blk: "case f r ?h of (r', h') \<Rightarrow> length ?h \<le> length h' \<and> r' < length h' \<and> room_key h' r' = j \<and>
      (\<forall>x < length ?h. r_info (h' ! x) = r_info (?h ! x))"
    if "repo_get ?m j = Some r" "r < length ?h" "room_key ?h r = j" for r
    using assms [OF that(3,2)] that by (auto simp: room_key_def nth_append)
  have "repo_ok h' m'"
    using w u blk by (intro repo_update_ok [of ?h ?m j f res m' h']) (auto simp: world_ok_def)
  moreover have "length ?h \<le> length h' \<and> (\<forall>x < length ?h. r_info (h' ! x) = r_info (?h ! x)) \<and>
      (\<forall>r \<in> set_option res. r < length h')"
  proof (cases "repo_get ?m j")
    case None
    with u repo.update_None [of ?m j f ?h] show ?thesis by simp
  next
    case (Some r)
    obtain r' h'' where f: "f r ?h = (r', h'')" by fastforce
    have "r < length ?h" "room_key ?h r = j" using repo.get_stored [OF _ Some] w by (auto simp: world_ok_def)
    from blk [OF Some this] f repo.update_get [of ?m j r f ?h r' h'', OF Some f] u
    show ?thesis by auto
  qed
  ultimately show "world_ok (snd (update_room j f w)) \<and> extends w (snd (update_room j f w)) \<and>
    (\<forall>a. fst (update_room j f w) = Ok a \<longrightarrow> (\<forall>r \<in> set_option a. valid r (snd (update_room j f w))))"
    by (simp add: update_room_def u world_ok_def extends_def valid_def)
qed

lemma keeps_connected_account [intro]: "keeps R connected_account (\<lambda>_. {})"
  unfolding connected_account_def by (intro keeps_bind keeps_gets keeps_lift_any keeps_lift_panic) auto

lemma keeps_connected_user [intro]: "keeps R connected_user (\<lambda>_. {})"
  unfolding connected_user_def by (intro keeps_bind keeps_gets keeps_lift_any keeps_return) auto

lemma keeps_for_each [intro]:
  "(\<And>x. x \<in> set xs \<Longrightarrow> keeps R (f x) (\<lambda>_. {})) \<Longrightarrow> keeps R (for_each f xs) (\<lambda>_. {})"
proof (induction xs)
  case (Cons x xs)
  then show ?case by (simp add: for_each_def keeps_then)
qed (simp add: for_each_def keeps_return)

lemma keeps_mapM [intro]:
  "(\<And>x. x \<in> set xs \<Longrightarrow> keeps R (f x) (\<lambda>_. {})) \<Longrightarrow> keeps R (mapM f xs) (\<lambda>_. {})"
proof (induction xs)
  case (Cons x xs)
  show ?case
    unfolding mapM.simps
    by (intro keeps_bind [where Q = "\<lambda>_. {}"] keeps_return) (use Cons in auto)
qed (simp add: keeps_return)

text \<open>A service keeps the world if whatever happens during the call does.\<close>

definition call_keeps :: "(world \<Rightarrow> 'r \<times> world) \<Rightarrow> bool" where
  "call_keeps f \<longleftrightarrow> (\<forall>w. world_ok w \<longrightarrow> world_ok (snd (f w)) \<and> extends w (snd (f w)))"

lemma keeps_call [intro]: "call_keeps f \<Longrightarrow> keeps R (call f) (\<lambda>_. {})"
  by (auto simp: keeps_def call_keeps_def call_def split: prod.split)

section \<open>A connection\<close>

definition ex_user :: user_resource_id where
  "ex_user = UserResourceId (FullJid (BareJid (Some ''alice'') ''prose.org'') ''res'')"

definition ex_context :: app_context where
  "ex_context = \<lparr>cx_properties = Some \<lparr>cp_connection_timestamp = 0, cp_connected_jid = ex_user,
     cp_server_features = \<lparr>sf_muc_service = Some (BareJid None ''conf.org''),
       sf_http_upload_service = None, sf_mam_version = None, sf_vcard4 = False,
       sf_avatar_pep_vcard_conversion = False, sf_server_time_offset = 0\<rparr>,
     cp_rooms_caught_up = False, cp_decryption_context = None\<rparr>, cx_state = CConnected, cx_config = default_config\<rparr>"

end
