(* ===== verification/UserInfo.thy ===== *)
theory UserInfo
  imports Presences
begin

text \<open>
  What is known about a user (\<^verbatim>\<open>domain/user_info/models/user_info.rs\<close>) and the name shown
  for them: the nickname they publish, the one of their presence, the one of their vCard, their
  full name, and the name on the roster, in this order.
\<close>

record user_status =
  us_emoji :: string
  us_status :: "string option"

record profile_name =
  pf_first_name :: "string option"
  pf_last_name :: "string option"
  pf_nickname :: "string option"

record user_name =
  un_roster :: "string option"
  un_nickname :: "string option"
  un_presence :: "string option"
  un_vcard :: "profile_name option"

record user_info =
  ui_status :: "user_status option"
  ui_availability :: availability
  ui_avatar :: "avatar option"
  ui_caps :: "capabilities_id option"
  ui_client :: "jabber_client option"
  ui_name :: user_name

definition default_user_info :: user_info where
  "default_user_info =
     \<lparr>ui_status = None, ui_availability = default_availability, ui_avatar = None, ui_caps = None,
      ui_client = None,
      ui_name = \<lparr>un_roster = None, un_nickname = None, un_presence = None, un_vcard = None\<rparr>\<rparr>"

definition user_name_display_name :: "user_name \<Rightarrow> contact_name_builder" where
  "user_name_display_name n =
     or_nickname
       (or_firstname_lastname
         (or_nickname
           (or_nickname (or_nickname cnb_new (un_nickname n)) (un_presence n))
           (Option.bind (un_vcard n) pf_nickname))
         (Option.bind (un_vcard n) pf_first_name) (Option.bind (un_vcard n) pf_last_name))
       (un_roster n)"

definition user_name_full_name :: "user_name \<Rightarrow> string option" where
  "user_name_full_name n =
     (if (case un_vcard n of
            Some v \<Rightarrow> pf_first_name v \<noteq> None \<and> pf_last_name v \<noteq> None | None \<Rightarrow> False)
      then cnb_build (or_firstname_lastname cnb_new (Option.bind (un_vcard n) pf_first_name)
             (Option.bind (un_vcard n) pf_last_name))
      else None)"

definition user_display_name :: "user_info \<Rightarrow> contact_name_builder" where
  "user_display_name i = user_name_display_name (ui_name i)"

definition user_full_name :: "user_info \<Rightarrow> string option" where
  "user_full_name i = user_name_full_name (ui_name i)"

definition user_opt_display_name :: "user_info option \<Rightarrow> contact_name_builder" where
  "user_opt_display_name i = (case i of Some x \<Rightarrow> user_display_name x | None \<Rightarrow> cnb_new)"

record user_basic_info =
  ub_id :: user_id
  ub_name :: string
  ub_avatar :: "avatar option"

record user_presence_info =
  up_id :: user_id
  up_name :: string
  up_full_name :: "string option"
  up_availability :: availability
  up_avatar :: "avatar option"
  up_status :: "user_status option"

definition into_user_basic_info :: "(string \<Rightarrow> string) \<Rightarrow> user_id \<Rightarrow> user_info \<Rightarrow> user_basic_info" where
  "into_user_basic_info uc u i =
     \<lparr>ub_id = u, ub_name = unwrap_or_username uc (user_display_name i) u, ub_avatar = ui_avatar i\<rparr>"

definition into_user_presence_info :: "(string \<Rightarrow> string) \<Rightarrow> user_id \<Rightarrow> user_info \<Rightarrow> user_presence_info" where
  "into_user_presence_info uc u i =
     \<lparr>up_id = u, up_name = unwrap_or_username uc (user_display_name i) u,
      up_full_name = user_full_name i, up_availability = ui_availability i,
      up_avatar = ui_avatar i, up_status = ui_status i\<rparr>"

definition into_user_basic_info_or_fallback :: "(string \<Rightarrow> string) \<Rightarrow> user_id \<Rightarrow> user_info option \<Rightarrow> user_basic_info" where
  "into_user_basic_info_or_fallback uc u i =
     (case i of
        None \<Rightarrow> \<lparr>ub_id = u, ub_name = unwrap_or_username uc (user_opt_display_name None) u, ub_avatar = None\<rparr>
      | Some x \<Rightarrow> into_user_basic_info uc u x)"

definition into_user_presence_info_or_fallback :: "(string \<Rightarrow> string) \<Rightarrow> user_id \<Rightarrow> user_info option \<Rightarrow> user_presence_info" where
  "into_user_presence_info_or_fallback uc u i =
     (case i of
        None \<Rightarrow>
          \<lparr>up_id = u, up_name = unwrap_or_username uc (user_opt_display_name None) u, up_full_name = None,
           up_availability = Unavailable, up_avatar = None, up_status = None\<rparr>
      | Some x \<Rightarrow> into_user_presence_info uc u x)"

text \<open>The names in the order of preference.\<close>

definition name_candidates :: "user_name \<Rightarrow> string option list" where
  "name_candidates n =
     [un_nickname n, un_presence n, Option.bind (un_vcard n) pf_nickname,
      concatenate_names (Option.bind (un_vcard n) pf_first_name) (Option.bind (un_vcard n) pf_last_name),
      un_roster n]"

lemma display_name_first:
  "cnb_build (user_name_display_name n) =
     (case find (\<lambda>x. x \<noteq> None) (name_candidates n) of Some x \<Rightarrow> x | None \<Rightarrow> None)"
  by (simp add: user_name_display_name_def name_candidates_def or_nickname_def
      or_firstname_lastname_def cnb_build_def cnb_new_def split: option.split)

lemma cnb_build_new: "cnb_build cnb_new = None"
  by (simp add: cnb_build_def cnb_new_def)

text \<open>
  The name shown for a user is the first one available of the published nickname, the
  presence's nickname, the vCard's nickname, the full name of the vCard and the roster name, and
  the formatted user name of the JID only when none is; it is the same in the basic and in the
  presence info of the user.
\<close>

theorem shown_name_preference:
  "ub_name (into_user_basic_info uc u i) =
     (case find (\<lambda>x. x \<noteq> None) (name_candidates (ui_name i)) of
        Some (Some s) \<Rightarrow> s | _ \<Rightarrow> formatted_username uc u) \<and>
   up_name (into_user_presence_info uc u i) = ub_name (into_user_basic_info uc u i) \<and>
   ub_name (into_user_basic_info_or_fallback uc u None) = formatted_username uc u"
proof -
  have "find (\<lambda>x. x \<noteq> None) (name_candidates n) = Some y \<Longrightarrow> y \<noteq> None" for n y
    using find_SomeD by fast
  then show ?thesis
    by (auto simp: into_user_basic_info_def into_user_presence_info_def unwrap_or_username_def
        user_display_name_def display_name_first into_user_basic_info_or_fallback_def
        user_opt_display_name_def cnb_build_new split: option.split)
qed

end
