(* ===== verification/UserInfoService.thy ===== *)
theory UserInfoService
  imports World UserInfo
begin

text \<open>
  The service that keeps what is known about users
  (\<^verbatim>\<open>domain/user_info/services/impls/user_info_domain_service.rs\<close>) over the repository of
  \<^verbatim>\<open>infra/user_info/in_memory_user_info_repository.rs\<close>.

  The other repositories and the requests to the server are fields of \<open>info_services\<close>. As for
  rooms, a call is given the state and returns any state.
\<close>

section \<open>Data\<close>

fun avatar_owner :: "avatar \<Rightarrow> participant_id" where
  "avatar_owner a = (case avatar_src a of Pep owner _ \<Rightarrow> PUser owner | Vcard owner _ \<Rightarrow> owner)"

fun avatar_real_id :: "avatar \<Rightarrow> user_id option" where
  "avatar_real_id a = (case avatar_src a of Pep _ _ \<Rightarrow> None | Vcard _ real_id \<Rightarrow> real_id)"

fun is_pep :: "avatar \<Rightarrow> bool" where
  "is_pep a = (case avatar_src a of Pep _ _ \<Rightarrow> True | Vcard _ _ \<Rightarrow> False)"

record avatar_metadata =
  am_bytes :: nat
  am_mime_type :: string
  am_checksum :: string
  am_width :: "nat option"
  am_height :: "nat option"
  am_url :: "string option"

definition avatar_from_metadata :: "user_id \<Rightarrow> avatar_metadata \<Rightarrow> avatar" where
  "avatar_from_metadata u md = \<lparr>avatar_id = am_checksum md, avatar_src = Pep u (am_mime_type md)\<rparr>"

record address =
  ad_locality :: "string option"
  ad_country :: "string option"

type_synonym binary = "8 word list"

datatype image = Binary string binary | External string

record user_profile =
  up_first_name :: "string option"
  up_last_name :: "string option"
  up_nickname :: "string option"
  up_org :: "string option"
  up_role :: "string option"
  up_title :: "string option"
  up_email :: "string option"
  up_tel :: "string option"
  up_url :: "string option"
  up_address :: "address option"
  up_photo :: "image option"

datatype cache_policy = ReturnCacheDataElseLoad | ReturnCacheDataDontLoad

datatype presence_subscription = Requested | Mutual | TheyFollow | WeFollow | NoSubscription

record contact =
  ct_id :: user_id
  ct_name :: "string option"
  ct_presence_subscription :: presence_subscription

fun participant_jid :: "participant_id \<Rightarrow> jid" where
  "participant_jid (PUser u) = JBare (user_jid u)"
| "participant_jid (POccupant oc) = JFull (occupant_jid oc)"

section \<open>State\<close>

datatype info_effect =
    InfoDispatched client_event
  | LoadVcardTemp participant_id
  | LoadAvatarImage user_id string
  | LoadUserMetadata user_resource_id

record info_state =
  iw_ctx :: app_context
  iw_infos :: "user_id \<rightharpoonup> user_info"
  iw_presences :: presence_map
  iw_requested_vcards :: "jid set"
  iw_requested_avatars :: "jid set"
  iw_log :: "info_effect list"

type_synonym 'a info_prog = "(info_state, 'a) program"

text \<open>An image of the platform and the metadata of a user are carried along unread, as strings.\<close>

record info_services =
  is_resource :: "string \<Rightarrow> string option"
  is_profile_get :: "account_id \<Rightarrow> participant_id \<Rightarrow> info_state \<Rightarrow> (string + user_profile option) \<times> info_state"
  is_profile_set :: "account_id \<Rightarrow> participant_id \<Rightarrow> user_profile option \<Rightarrow> info_state \<Rightarrow> (string + unit) \<times> info_state"
  is_profile_reset :: "account_id \<Rightarrow> info_state \<Rightarrow> (string + unit) \<times> info_state"
  is_profile_clear :: "account_id \<Rightarrow> info_state \<Rightarrow> (string + unit) \<times> info_state"
  is_avatar_get :: "account_id \<Rightarrow> participant_id \<Rightarrow> string \<Rightarrow> info_state \<Rightarrow> (string + string option) \<times> info_state"
  is_avatar_set :: "account_id \<Rightarrow> participant_id \<Rightarrow> string \<Rightarrow> string \<Rightarrow> binary \<Rightarrow> info_state \<Rightarrow> (string + unit) \<times> info_state"
  is_blocked :: "account_id \<Rightarrow> user_id \<Rightarrow> info_state \<Rightarrow> (string + bool) \<times> info_state"
  is_load_avatar_image :: "user_id \<Rightarrow> string \<Rightarrow> info_state \<Rightarrow> (request_error + binary option) \<times> info_state"
  is_load_vcard_temp :: "participant_id \<Rightarrow> info_state \<Rightarrow> (request_error + user_profile option) \<times> info_state"
  is_load_user_metadata :: "user_resource_id \<Rightarrow> info_state \<Rightarrow> (request_error + string option) \<times> info_state"

definition info_account :: "account_id info_prog" where
  "info_account =
     bindM (gets (\<lambda>w. connected_id (iw_ctx w))) (\<lambda>r.
     bindM (lift_any r) (\<lambda>u.
     lift_panic ''UserId without node'' (account_id_from (user_jid (res_to_user_id u)))))"

definition info_tell :: "info_effect \<Rightarrow> unit info_prog" where
  "info_tell e = modify_world (\<lambda>w. w\<lparr>iw_log := iw_log w @ [e]\<rparr>)"

text \<open>A call of a repository, whose error is propagated.\<close>

definition await :: "(info_state \<Rightarrow> (string + 'a) \<times> info_state) \<Rightarrow> 'a info_prog" where
  "await f = bindM (call f) lift_any"

section \<open>The repository of user infos\<close>

definition resolve_user_id :: "info_services \<Rightarrow> user_id \<Rightarrow> user_resource_id option info_prog" where
  "resolve_user_id sv u =
     bindM (gets (\<lambda>w. Option.bind (get_highest_presence (iw_presences w) u) pe_resource)) (\<lambda>r.
     case r of
       None \<Rightarrow> return None
     | Some res \<Rightarrow>
         bindM (lift_panic ''Invalid resource'' (with_resource (is_resource sv) u res)) (\<lambda>x. return (Some x)))"

definition set_user_presence :: "user_or_resource_id \<Rightarrow> presence \<Rightarrow> unit info_prog" where
  "set_user_presence x pr = modify_world (\<lambda>w. w\<lparr>iw_presences := update_presence x pr (iw_presences w)\<rparr>)"

definition stored_info :: "info_state \<Rightarrow> user_id \<Rightarrow> user_info" where
  "stored_info w u = (case iw_infos w u of Some i \<Rightarrow> i | None \<Rightarrow> default_user_info)"

text \<open>\<^verbatim>\<open>get\<close>: it never fails and always finds something.\<close>

definition user_info_get :: "user_id \<Rightarrow> user_info option info_prog" where
  "user_info_get u =
     gets (\<lambda>w. Some ((stored_info w u)
       \<lparr>ui_availability := (case get_highest_presence (iw_presences w) u of
            Some e \<Rightarrow> pr_availability (pe_presence e)
          | None \<Rightarrow> pr_availability default_presence)\<rparr>))"

definition user_info_update :: "user_id \<Rightarrow> (user_info \<Rightarrow> user_info) \<Rightarrow> bool info_prog" where
  "user_info_update u handler w =
     (let i = stored_info w u
      in (Ok (handler i \<noteq> i), w\<lparr>iw_infos := (iw_infos w)(u \<mapsto> handler i)\<rparr>))"

definition user_info_clear_cache :: "unit info_prog" where
  "user_info_clear_cache = modify_world (\<lambda>w. w\<lparr>iw_infos := Map.empty\<rparr>)"

section \<open>Changes\<close>

definition update_user_info :: "user_id \<Rightarrow> (user_info \<Rightarrow> user_info) \<Rightarrow> unit info_prog" where
  "update_user_info u handler =
     bindM info_account (\<lambda>account.
     bindM (user_info_update u handler) (\<lambda>changed.
     bindM (gets (\<lambda>w. cx_state (iw_ctx w))) (\<lambda>state.
     if \<not> changed \<or> state \<noteq> CConnected then return ()
     else
       thenM (info_tell (InfoDispatched (ContactChanged [u])))
         (if account_user_id account = u then info_tell (InfoDispatched AccountInfoChanged) else return ()))))"

definition apply_presence :: "presence \<Rightarrow> user_info \<Rightarrow> user_info" where
  "apply_presence pr i =
     i\<lparr>ui_availability := pr_availability pr, ui_caps := pr_caps pr, ui_client := pr_client pr,
       ui_name := (ui_name i)\<lparr>un_presence := pr_nickname pr\<rparr>,
       ui_avatar := (if (case ui_avatar i of Some a \<Rightarrow> is_pep a | None \<Rightarrow> False)
                     then ui_avatar i else pr_avatar pr)\<rparr>"

definition handle_user_presence_changed :: "user_or_resource_id \<Rightarrow> presence \<Rightarrow> unit info_prog" where
  "handle_user_presence_changed x pr =
     bindM info_account (\<lambda>_.
     thenM (set_user_presence x pr)
     (update_user_info (uo_to_user_id x) (apply_presence pr)))"

definition handle_user_status_changed :: "user_id \<Rightarrow> user_status option \<Rightarrow> unit info_prog" where
  "handle_user_status_changed u status = update_user_info u (\<lambda>i. i\<lparr>ui_status := status\<rparr>)"

definition handle_avatar_changed :: "user_id \<Rightarrow> avatar option \<Rightarrow> unit info_prog" where
  "handle_avatar_changed u avatar = update_user_info u (\<lambda>i. i\<lparr>ui_avatar := avatar\<rparr>)"

definition profile_name_of :: "user_profile \<Rightarrow> profile_name" where
  "profile_name_of p =
     \<lparr>pf_first_name = up_first_name p, pf_last_name = up_last_name p, pf_nickname = up_nickname p\<rparr>"

definition handle_user_profile_changed :: "info_services \<Rightarrow> user_id \<Rightarrow> user_profile option \<Rightarrow> unit info_prog" where
  "handle_user_profile_changed sv u profile =
     bindM info_account (\<lambda>account.
     bindM (await (is_profile_set sv account (PUser u) profile)) (\<lambda>_.
     update_user_info u (\<lambda>i. i\<lparr>ui_name := (ui_name i)\<lparr>un_vcard := map_option profile_name_of profile\<rparr>\<rparr>)))"

definition handle_nickname_changed :: "user_id \<Rightarrow> string option \<Rightarrow> unit info_prog" where
  "handle_nickname_changed u nick =
     update_user_info u (\<lambda>i. i\<lparr>ui_name := (ui_name i)\<lparr>un_nickname := nick\<rparr>\<rparr>)"

definition handle_contacts_changed :: "contact list \<Rightarrow> unit info_prog" where
  "handle_contacts_changed contacts =
     for_each (\<lambda>c. update_user_info (ct_id c)
       (\<lambda>i. i\<lparr>ui_name := (ui_name i)\<lparr>un_roster := ct_name c\<rparr>\<rparr>)) contacts"

definition reset_before_reconnect :: "info_services \<Rightarrow> unit info_prog" where
  "reset_before_reconnect sv =
     thenM (modify_world (\<lambda>w. w\<lparr>iw_requested_vcards := {}, iw_requested_avatars := {}\<rparr>))
     (bindM info_account (\<lambda>account. await (is_profile_reset sv account)))"

definition info_clear_cache :: "info_services \<Rightarrow> unit info_prog" where
  "info_clear_cache sv =
     bindM info_account (\<lambda>account.
     thenM user_info_clear_cache (await (is_profile_clear sv account)))"

section \<open>Loading\<close>

definition mark_vcard_requested :: "participant_id \<Rightarrow> unit info_prog" where
  "mark_vcard_requested p =
     modify_world (\<lambda>w. w\<lparr>iw_requested_vcards := insert (participant_jid p) (iw_requested_vcards w)\<rparr>)"

text \<open>The checks before the profile of a participant is requested, and the request.\<close>

definition is_contact_blocked :: "info_services \<Rightarrow> account_id \<Rightarrow> participant_id \<Rightarrow> bool info_prog" where
  "is_contact_blocked sv account p =
     (case p_to_user_id p of Some u \<Rightarrow> await (is_blocked sv account u) | None \<Rightarrow> return False)"

definition is_pushed_as_vcard4 :: "participant_id \<Rightarrow> bool info_prog" where
  "is_pushed_as_vcard4 p =
     (case p of
        PUser _ \<Rightarrow>
          bindM (gets (\<lambda>w. server_features_of (iw_ctx w))) (\<lambda>f.
          bindM (lift_any f) (\<lambda>features. return (sf_vcard4 features)))
      | POccupant _ \<Rightarrow> return False)"

definition request_user_profile :: "info_services \<Rightarrow> account_id \<Rightarrow> participant_id \<Rightarrow> user_profile option info_prog" where
  "request_user_profile sv account p =
     thenM (info_tell (LoadVcardTemp p))
     (bindM (call (is_load_vcard_temp sv p)) (\<lambda>result.
     thenM (mark_vcard_requested p)
     (case result of
        Inl err \<Rightarrow> throw (RequestErr err)
      | Inr profile \<Rightarrow>
          thenM
            (case p_to_user_id p of
               Some u \<Rightarrow> handle_user_profile_changed sv u profile
             | None \<Rightarrow> await (is_profile_set sv account p profile))
            (return profile))))"

definition load_user_profile_and_update_user_info :: "info_services \<Rightarrow> participant_id \<Rightarrow> cache_policy \<Rightarrow>
    user_profile option info_prog" where
  "load_user_profile_and_update_user_info sv p policy =
     bindM info_account (\<lambda>account.
     bindM (await (is_profile_get sv account p)) (\<lambda>cached.
     bindM (gets (\<lambda>w. participant_jid p \<in> iw_requested_vcards w)) (\<lambda>requested.
     if requested \<or> policy = ReturnCacheDataDontLoad \<or> cached \<noteq> None then return cached
     else
       bindM (is_contact_blocked sv account p) (\<lambda>blocked.
       if blocked then return cached
       else
         bindM (is_pushed_as_vcard4 p) (\<lambda>pushed.
         if pushed then return cached else request_user_profile sv account p)))))"

definition should_load_vcard :: "user_info option \<Rightarrow> bool" where
  "should_load_vcard info =
     (case info of
        None \<Rightarrow> True
      | Some i \<Rightarrow> un_vcard (ui_name i) = None \<and> un_nickname (ui_name i) = None \<and> un_presence (ui_name i) = None)"

definition get_user_info :: "info_services \<Rightarrow> user_id \<Rightarrow> cache_policy \<Rightarrow> user_info option info_prog" where
  "get_user_info sv u policy =
     bindM info_account (\<lambda>_.
     bindM (user_info_get u) (\<lambda>info.
     if policy = ReturnCacheDataDontLoad \<or> \<not> should_load_vcard info then return info
     else
       bindM (load_user_profile_and_update_user_info sv (PUser u) ReturnCacheDataElseLoad) (\<lambda>_.
       user_info_get u)))"

definition get_user_profile :: "info_services \<Rightarrow> user_id \<Rightarrow> cache_policy \<Rightarrow> user_profile option info_prog" where
  "get_user_profile sv u policy = load_user_profile_and_update_user_info sv (PUser u) policy"

definition get_user_metadata :: "info_services \<Rightarrow> user_id \<Rightarrow> string option info_prog" where
  "get_user_metadata sv u =
     bindM info_account (\<lambda>account.
     bindM (await (is_blocked sv account u)) (\<lambda>blocked.
     if blocked then return None
     else
       bindM (resolve_user_id sv u) (\<lambda>resource.
       case resource of
         None \<Rightarrow> return None
       | Some r \<Rightarrow>
           thenM (info_tell (LoadUserMetadata r))
           (bindM (call (is_load_user_metadata sv r)) (\<lambda>result.
           case result of
             Inr metadata \<Rightarrow> return metadata
           | Inl err \<Rightarrow> if defined_condition_of err = Some Forbidden then return None
                        else throw (RequestErr err))))))"

text \<open>What to show for an avatar: a vCard avatar of a user gives way to their PEP avatar.\<close>

definition preferred_avatar :: "avatar \<Rightarrow> avatar info_prog" where
  "preferred_avatar avatar =
     (case avatar_src avatar of
        Vcard (PUser u) _ \<Rightarrow>
          bindM (user_info_get u) (\<lambda>info.
          return (case Option.bind info ui_avatar of
                    Some a \<Rightarrow> (if is_pep a then a else avatar) | None \<Rightarrow> avatar))
      | _ \<Rightarrow> return avatar)"

definition load_avatar_data :: "info_services \<Rightarrow> avatar \<Rightarrow> (binary \<times> string) option info_prog" where
  "load_avatar_data sv avatar =
     (case avatar_src avatar of
        Pep owner mime_type \<Rightarrow>
          thenM (info_tell (LoadAvatarImage owner (avatar_id avatar)))
          (bindM (call (is_load_avatar_image sv owner (avatar_id avatar))) (\<lambda>result.
          case result of
            Inl err \<Rightarrow> throw (RequestErr err)
          | Inr data \<Rightarrow> return (map_option (\<lambda>d. (d, mime_type)) data)))
      | Vcard owner _ \<Rightarrow>
          bindM (load_user_profile_and_update_user_info sv owner ReturnCacheDataElseLoad) (\<lambda>vcard.
          return (case Option.bind vcard up_photo of
                    Some (Binary media_type data) \<Rightarrow> Some (data, media_type)
                  | _ \<Rightarrow> None)))"

text \<open>The image of the avatar itself, from the cache or the server.\<close>

definition load_own_avatar_image :: "info_services \<Rightarrow> account_id \<Rightarrow> avatar \<Rightarrow> string option info_prog" where
  "load_own_avatar_image sv account avatar =
     bindM (await (is_avatar_get sv account (avatar_owner avatar) (avatar_id avatar))) (\<lambda>cached.
     if cached \<noteq> None then return cached
     else
       bindM (gets (\<lambda>w. participant_jid (avatar_owner avatar) \<in> iw_requested_avatars w)) (\<lambda>requested.
       if requested then return None
       else
         bindM (preferred_avatar avatar) (\<lambda>avatar.
         bindM (attempt (load_avatar_data sv avatar)) (\<lambda>result.
         thenM (modify_world (\<lambda>w. w\<lparr>iw_requested_avatars :=
                  insert (participant_jid (avatar_owner avatar)) (iw_requested_avatars w)\<rparr>))
         (case result of
            Inl err \<Rightarrow> throw err
          | Inr None \<Rightarrow> return None
          | Inr (Some (data, mime_type)) \<Rightarrow>
              bindM (await (is_avatar_set sv account (avatar_owner avatar) (avatar_id avatar) mime_type data)) (\<lambda>_.
              await (is_avatar_get sv account (avatar_owner avatar) (avatar_id avatar))))))))"

text \<open>The image of the avatar stored for the real id, if there is one, loaded by \<open>load\<close>.\<close>

definition image_of_real_id :: "info_services \<Rightarrow> (avatar \<Rightarrow> string option info_prog) \<Rightarrow> avatar \<Rightarrow> string option info_prog" where
  "image_of_real_id sv load avatar =
     (case avatar_real_id avatar of
        None \<Rightarrow> return None
      | Some real_id \<Rightarrow>
          bindM (attempt (get_user_info sv real_id ReturnCacheDataDontLoad)) (\<lambda>info.
          case Option.bind (case info of Inr i \<Rightarrow> i | Inl _ \<Rightarrow> None) ui_avatar of
            None \<Rightarrow> return None
          | Some a \<Rightarrow>
              bindM (attempt (load a)) (\<lambda>image.
              return (case image of Inr x \<Rightarrow> x | Inl _ \<Rightarrow> None))))"

text \<open>
  Loading an avatar starts over with the avatar of the real id. \<open>fuel\<close> bounds how often.
\<close>

fun load_avatar_image :: "nat \<Rightarrow> info_services \<Rightarrow> avatar \<Rightarrow> string option info_prog" where
  "load_avatar_image 0 sv avatar = (\<lambda>w. (NoFuel, w))"
| "load_avatar_image (Suc fuel) sv avatar =
     bindM info_account (\<lambda>account.
     bindM (image_of_real_id sv (load_avatar_image fuel sv) avatar) (\<lambda>real_image.
     if real_image \<noteq> None then return real_image else load_own_avatar_image sv account avatar))"

section \<open>Announced changes\<close>

lemma info_account_state: "info_account w = (Ok a, w') \<Longrightarrow> w' = w"
  by (auto simp: info_account_def prog_defs split: outcome.splits sum.splits option.splits)

lemma info_account_cong:
  "info_account w = (Ok a, w) \<Longrightarrow> iw_ctx w' = iw_ctx w \<Longrightarrow> info_account w' = (Ok a, w')"
  by (auto simp: info_account_def prog_defs split: outcome.splits sum.splits option.splits)

text \<open>What is announced when the stored info of a user changes from \<open>i\<close> to \<open>i'\<close>.\<close>

definition announced :: "account_id \<Rightarrow> user_id \<Rightarrow> user_info \<Rightarrow> user_info \<Rightarrow> info_effect list" where
  "announced account u i i' =
     (if i' = i then []
      else InfoDispatched (ContactChanged [u]) #
        (if account_user_id account = u then [InfoDispatched AccountInfoChanged] else []))"

lemma update_user_info_run:
  assumes "info_account w = (Ok account, w)" "cx_state (iw_ctx w) = CConnected"
  shows "update_user_info u f w =
    (Ok (), w\<lparr>iw_infos := (iw_infos w)(u \<mapsto> f (stored_info w u)),
       iw_log := iw_log w @ announced account u (stored_info w u) (f (stored_info w u))\<rparr>)"
  using assms
  by (simp add: update_user_info_def user_info_update_def info_tell_def prog_defs announced_def Let_def)

definition reported_availability :: "info_state \<Rightarrow> user_id \<Rightarrow> availability" where
  "reported_availability w u =
     (case get_highest_presence (iw_presences w) u of
        Some e \<Rightarrow> pr_availability (pe_presence e) | None \<Rightarrow> Unavailable)"

lemma presence_run:
  assumes "info_account w = (Ok account, w)" "cx_state (iw_ctx w) = CConnected"
  shows "handle_user_presence_changed x pr w =
    (let u = uo_to_user_id x
     in (Ok (), w\<lparr>iw_presences := update_presence x pr (iw_presences w),
           iw_infos := (iw_infos w)(u \<mapsto> apply_presence pr (stored_info w u)),
           iw_log := iw_log w @ announced account u (stored_info w u) (apply_presence pr (stored_info w u))\<rparr>))"
proof -
  let ?w = "w\<lparr>iw_presences := update_presence x pr (iw_presences w)\<rparr>"
  have "info_account ?w = (Ok account, ?w)" "cx_state (iw_ctx ?w) = CConnected"
    using info_account_cong [OF assms(1)] assms(2) by simp_all
  from update_user_info_run [OF this, of "uo_to_user_id x" "apply_presence pr"] assms(1) show ?thesis
    by (simp add: handle_user_presence_changed_def set_user_presence_def prog_defs Let_def stored_info_def)
qed

text \<open>
  When the presence of a user changes, the info stored for them takes over the presence but
  keeps an avatar the user published, the change is announced exactly if the stored info changed,
  and the account's own change is announced a second time as such. What is returned for the user
  afterwards is the stored info with the availability of the highest of their presences.
\<close>

theorem presence_change_exact:
  assumes "info_account w = (Ok account, w)" "cx_state (iw_ctx w) = CConnected"
  shows "\<exists>w'. handle_user_presence_changed x pr w = (Ok (), w') \<and>
    (let u = uo_to_user_id x; i = stored_info w u; i' = stored_info w' u
     in ui_availability i' = pr_availability pr \<and> ui_caps i' = pr_caps pr \<and> ui_client i' = pr_client pr \<and>
        un_presence (ui_name i') = pr_nickname pr \<and> ui_status i' = ui_status i \<and>
        ui_avatar i' = (if \<exists>a. ui_avatar i = Some a \<and> is_pep a then ui_avatar i else pr_avatar pr) \<and>
        (\<forall>v. v \<noteq> u \<longrightarrow> stored_info w' v = stored_info w v) \<and>
        iw_log w' = iw_log w @ announced account u i i' \<and>
        user_info_get u w' = (Ok (Some (i'\<lparr>ui_availability := reported_availability w' u\<rparr>)), w'))"
  using presence_run [OF assms, of x pr]
  by (auto simp: Let_def stored_info_def user_info_get_def gets_def reported_availability_def apply_presence_def
      default_presence_def default_availability_def split: option.split)

text \<open>
  The availability returned for a user is that of their highest presence, but a change is
  announced only if it changes the info stored from the last presence. So when the last presence,
  from another client, had the same content, a presence of the client with the highest priority
  changes the availability returned without any announcement.
\<close>

theorem availability_change_unannounced:
  assumes "info_account w = (Ok account, w)" "cx_state (iw_ctx w) = CConnected"
    and "presence_map_ok (iw_presences w)" "get_highest_presence (iw_presences w) u = Some e"
    and "uo_to_user_id x = u" "pr_priority (pe_presence e) \<le> pr_priority pr" "pr_availability pr \<noteq> Unavailable"
    and "apply_presence pr (stored_info w u) = stored_info w u"
  shows "\<exists>w'. handle_user_presence_changed x pr w = (Ok (), w') \<and> iw_log w' = iw_log w \<and>
    reported_availability w u = pr_availability (pe_presence e) \<and>
    reported_availability w' u = pr_availability pr"
proof -
  have "get_highest_presence (update_presence x pr (iw_presences w)) u =
      Some \<lparr>pe_resource = resource_str x, pe_presence = pr\<rparr>"
    using assms(3-7) by (rule highest_after_update)
  then show ?thesis
    using presence_run [OF assms(1,2), of x pr] assms(4,5,8)
    by (simp add: Let_def announced_def reported_availability_def)
qed

section \<open>Requests for vCards\<close>

text \<open>
  The vCard of the participant \<open>v\<close> has been requested, and \<open>n\<close> requests for it are in the log. Other
  tasks that run while a service is awaited are steady if they keep it that way.
\<close>

definition answered :: "participant_id \<Rightarrow> nat \<Rightarrow> info_state \<Rightarrow> bool" where
  "answered v n w \<longleftrightarrow> participant_jid v \<in> iw_requested_vcards w \<and> count_list (iw_log w) (LoadVcardTemp v) = n"

definition steady :: "participant_id \<Rightarrow> (info_state \<Rightarrow> 'r \<times> info_state) \<Rightarrow> bool" where
  "steady v f \<longleftrightarrow> (\<forall>n w. answered v n w \<longrightarrow> answered v n (snd (f w)))"

definition info_steady :: "participant_id \<Rightarrow> info_services \<Rightarrow> bool" where
  "info_steady v sv \<longleftrightarrow>
     (\<forall>a p. steady v (is_profile_get sv a p)) \<and> (\<forall>a p x. steady v (is_profile_set sv a p x)) \<and>
     (\<forall>a. steady v (is_profile_reset sv a)) \<and> (\<forall>a. steady v (is_profile_clear sv a)) \<and>
     (\<forall>a p i. steady v (is_avatar_get sv a p i)) \<and> (\<forall>a p i m d. steady v (is_avatar_set sv a p i m d)) \<and>
     (\<forall>a u. steady v (is_blocked sv a u)) \<and> (\<forall>u i. steady v (is_load_avatar_image sv u i)) \<and>
     (\<forall>p. steady v (is_load_vcard_temp sv p)) \<and> (\<forall>r. steady v (is_load_user_metadata sv r))"

lemma info_steadyD:
  assumes "info_steady v sv"
  shows "steady v (is_profile_get sv a p)" "steady v (is_profile_set sv a p x)" "steady v (is_profile_reset sv a)"
    "steady v (is_profile_clear sv a)" "steady v (is_avatar_get sv a p i)" "steady v (is_avatar_set sv a p i m d)"
    "steady v (is_blocked sv a u)" "steady v (is_load_avatar_image sv u i)" "steady v (is_load_vcard_temp sv p)"
    "steady v (is_load_user_metadata sv r)"
  using assms unfolding info_steady_def by simp_all

lemma answeredI:
  assumes "answered v n w" "iw_requested_vcards w \<subseteq> iw_requested_vcards w'"
    "count_list (iw_log w') (LoadVcardTemp v) = count_list (iw_log w) (LoadVcardTemp v)"
  shows "answered v n w'"
  using assms by (auto simp: answered_def)

lemma participant_jid_inj: "participant_jid p = participant_jid q \<longleftrightarrow> p = q"
  by (cases p; cases q) (auto intro: user_id.expand occupant_id.expand)

lemma once_tell: "e \<noteq> LoadVcardTemp v \<Longrightarrow> preserves (answered v n) (info_tell e)"
  unfolding info_tell_def by (rule preserves_modify) (auto intro: answeredI)

lemma once_call: "steady v f \<Longrightarrow> preserves (answered v n) (call f)"
  by (rule preserves_call) (simp add: steady_def)

lemma once_await: "steady v f \<Longrightarrow> preserves (answered v n) (await f)"
  unfolding await_def by (rule preserves_bind [OF once_call]) (simp_all add: preserves_pure)

lemma once_account: "preserves (answered v n) info_account"
  unfolding info_account_def by (intro preserves_bind preserves_pure)

lemma once_info_update: "preserves (answered v n) (user_info_update u f)"
  by (auto simp: preserves_def user_info_update_def Let_def intro: answeredI)

lemma once_mark: "preserves (answered v n) (mark_vcard_requested p)"
  unfolding mark_vcard_requested_def by (rule preserves_modify) (auto intro: answeredI)

lemmas once_simple = preserves_bind preserves_then preserves_attempt preserves_pure once_tell once_await
  once_call once_account once_info_update once_mark info_steadyD

lemma once_update: "preserves (answered v n) (update_user_info u f)"
  unfolding update_user_info_def by (auto intro!: once_simple)

lemma once_profile_changed: "info_steady v sv \<Longrightarrow> preserves (answered v n) (handle_user_profile_changed sv u x)"
  unfolding handle_user_profile_changed_def by (auto intro!: once_simple once_update)

text \<open>A request for the vCard of another participant, and what follows the answer to a request.\<close>

lemma once_request_profile:
  "info_steady v sv \<Longrightarrow> p \<noteq> v \<Longrightarrow> preserves (answered v n) (request_user_profile sv account p)"
  unfolding request_user_profile_def
  by (auto intro!: once_simple once_profile_changed split: sum.split option.split)

lemma request_noted:
  assumes "info_steady v sv"
  shows "participant_jid v \<in> iw_requested_vcards (snd (request_user_profile sv account v w))"
proof -
  obtain result w1 where call: "is_load_vcard_temp sv v (w\<lparr>iw_log := iw_log w @ [LoadVcardTemp v]\<rparr>) = (result, w1)" by fastforce
  let ?w = "w1\<lparr>iw_requested_vcards := insert (participant_jid v) (iw_requested_vcards w1)\<rparr>"
  let ?n = "count_list (iw_log w1) (LoadVcardTemp v)"
  let ?rest = "case result of
        Inl err \<Rightarrow> throw (RequestErr err)
      | Inr profile \<Rightarrow>
          thenM (case p_to_user_id v of
               Some u \<Rightarrow> handle_user_profile_changed sv u profile
             | None \<Rightarrow> await (is_profile_set sv account v profile)) (return profile)"
  have "preserves (answered v ?n) ?rest"
    using assms by (auto intro!: once_simple once_profile_changed split: sum.split option.split)
  moreover have "answered v ?n ?w" by (simp add: answered_def)
  ultimately have "answered v ?n (snd (?rest ?w))" by (rule preservesD)
  moreover have "request_user_profile sv account v w = ?rest ?w"
    by (simp add: request_user_profile_def thenM_def info_tell_def mark_vcard_requested_def modify_world_def bindM_def call_def call)
  ultimately show ?thesis by (simp add: answered_def)
qed

lemma once_checks:
  "info_steady v sv \<Longrightarrow> preserves (answered v n) (is_contact_blocked sv account p)"
  "preserves (answered v n) (is_pushed_as_vcard4 p)"
  unfolding is_contact_blocked_def is_pushed_as_vcard4_def
  by (auto intro!: once_simple split: option.split participant_id.split)

lemma once_load:
  assumes "info_steady v sv"
  shows "preserves (answered v n) (load_user_profile_and_update_user_info sv p policy)"
proof -
  have "preserves (answered v n) (bindM (gets (\<lambda>w. participant_jid p \<in> iw_requested_vcards w)) (\<lambda>requested.
     if requested \<or> policy = ReturnCacheDataDontLoad \<or> cached \<noteq> None then return cached
     else
       bindM (is_contact_blocked sv account p) (\<lambda>blocked.
       if blocked then return cached
       else bindM (is_pushed_as_vcard4 p) (\<lambda>pushed.
         if pushed then return cached else request_user_profile sv account p))))" for account cached
  proof (cases "p = v")
    case True
    then show ?thesis by (auto simp: preserves_def bindM_def gets_def return_def answered_def)
  next
    case False
    then show ?thesis by (auto intro!: once_simple once_checks once_request_profile assms)
  qed
  then show ?thesis
    unfolding load_user_profile_and_update_user_info_def
    by (simp add: preserves_bind [OF once_account] preserves_bind [OF once_await] info_steadyD assms)
qed

lemma once_get_info: "info_steady v sv \<Longrightarrow> preserves (answered v n) (get_user_info sv u policy)"
  unfolding get_user_info_def user_info_get_def by (auto intro!: once_simple once_load)

lemma once_get_metadata: "info_steady v sv \<Longrightarrow> preserves (answered v n) (get_user_metadata sv u)"
  unfolding get_user_metadata_def resolve_user_id_def
  by (auto intro!: once_simple split: option.split sum.split)

lemma once_avatar_data: "info_steady v sv \<Longrightarrow> preserves (answered v n) (load_avatar_data sv a)"
  unfolding load_avatar_data_def
  by (auto intro!: once_simple once_load split: avatar_source.split sum.split)

lemma once_preferred: "preserves (answered v n) (preferred_avatar a)"
  unfolding preferred_avatar_def user_info_get_def
  by (auto intro!: once_simple split: avatar_source.split participant_id.split)

lemma once_own_avatar: "info_steady v sv \<Longrightarrow> preserves (answered v n) (load_own_avatar_image sv account a)"
proof -
  assume "info_steady v sv"
  moreover have "preserves (answered v n) (modify_world (\<lambda>w. w\<lparr>iw_requested_avatars := insert j (iw_requested_avatars w)\<rparr>))" for j
    by (rule preserves_modify) (auto intro: answeredI)
  ultimately show ?thesis
    unfolding load_own_avatar_image_def
    by (auto intro!: once_simple once_avatar_data once_preferred split: option.split sum.split)
qed

lemma once_load_avatar: "info_steady v sv \<Longrightarrow> preserves (answered v n) (load_avatar_image fuel sv a)"
proof (induction fuel arbitrary: a)
  case (Suc fuel)
  show ?case
    unfolding load_avatar_image.simps image_of_real_id_def
    by (auto intro!: once_simple once_get_info once_own_avatar Suc split: option.split)
qed (simp add: preserves_def)

section \<open>Sessions\<close>

datatype info_op =
    PresenceOp user_or_resource_id presence
  | StatusOp user_id "user_status option"
  | AvatarOp user_id "avatar option"
  | ProfileOp user_id "user_profile option"
  | NicknameOp user_id "string option"
  | ContactsOp "contact list"
  | GetInfoOp user_id cache_policy
  | GetProfileOp user_id cache_policy
  | GetMetadataOp user_id
  | LoadAvatarOp avatar
  | ClearCacheOp

fun run_info_op :: "nat \<Rightarrow> info_services \<Rightarrow> info_op \<Rightarrow> unit info_prog" where
  "run_info_op fuel sv (PresenceOp x pr) = handle_user_presence_changed x pr"
| "run_info_op fuel sv (StatusOp u st) = handle_user_status_changed u st"
| "run_info_op fuel sv (AvatarOp u a) = handle_avatar_changed u a"
| "run_info_op fuel sv (ProfileOp u p) = handle_user_profile_changed sv u p"
| "run_info_op fuel sv (NicknameOp u n) = handle_nickname_changed u n"
| "run_info_op fuel sv (ContactsOp cs) = handle_contacts_changed cs"
| "run_info_op fuel sv (GetInfoOp u policy) = thenM (get_user_info sv u policy) (return ())"
| "run_info_op fuel sv (GetProfileOp u policy) = thenM (get_user_profile sv u policy) (return ())"
| "run_info_op fuel sv (GetMetadataOp u) = thenM (get_user_metadata sv u) (return ())"
| "run_info_op fuel sv (LoadAvatarOp a) = thenM (load_avatar_image fuel sv a) (return ())"
| "run_info_op fuel sv ClearCacheOp = info_clear_cache sv"

inductive info_session :: "info_services \<Rightarrow> info_state \<Rightarrow> info_state \<Rightarrow> bool" for sv where
  info_start: "info_session sv w w"
| info_op: "info_session sv w w' \<Longrightarrow> info_session sv w (snd (run_info_op fuel sv operation w'))"
| info_connection: "info_session sv w w' \<Longrightarrow> info_session sv w (w'\<lparr>iw_ctx := cx\<rparr>)"

lemma once_op: "info_steady v sv \<Longrightarrow> preserves (answered v n) (run_info_op fuel sv operation)"
proof (cases operation)
  case (PresenceOp x pr)
  have "preserves (answered v n) (set_user_presence x pr)"
    unfolding set_user_presence_def by (rule preserves_modify) (auto intro: answeredI)
  with PresenceOp show ?thesis
    by (auto simp: handle_user_presence_changed_def intro!: once_simple once_update)
next
  case (ContactsOp cs)
  then show ?thesis by (auto simp: handle_contacts_changed_def intro!: preserves_for_each once_update)
next
  case ClearCacheOp
  assume "info_steady v sv"
  have "preserves (answered v n) user_info_clear_cache"
    unfolding user_info_clear_cache_def by (rule preserves_modify) (auto intro: answeredI)
  with ClearCacheOp \<open>info_steady v sv\<close> show ?thesis
    by (auto simp: info_clear_cache_def intro!: once_simple)
qed (auto simp: handle_user_status_changed_def handle_avatar_changed_def handle_nickname_changed_def
    get_user_profile_def intro!: once_simple once_update once_profile_changed once_load once_get_info
    once_get_metadata once_load_avatar)

text \<open>
  C20. When a request for the vCard of a participant has been answered, also with an error, this is noted, and no
  operation of the service requests it again before the client reconnects, whatever other tasks do while a service is
  awaited, as long as they keep to the same. (Requests that overlap with the first one may still be sent: the
  request is noted only after the answer.)
\<close>

theorem vcard_not_requested_again:
  assumes "info_steady v sv"
  shows "participant_jid v \<in> iw_requested_vcards (snd (request_user_profile sv account v w0)) \<and>
    (info_session sv w w' \<and> participant_jid v \<in> iw_requested_vcards w \<longrightarrow>
      participant_jid v \<in> iw_requested_vcards w' \<and>
      count_list (iw_log w') (LoadVcardTemp v) = count_list (iw_log w) (LoadVcardTemp v))"
proof (intro conjI impI)
  show "participant_jid v \<in> iw_requested_vcards (snd (request_user_profile sv account v w0))"
    using assms by (rule request_noted)
  let ?n = "count_list (iw_log w) (LoadVcardTemp v)"
  have "answered v ?n w'" if session: "info_session sv w w'" and "answered v ?n w"
    using session \<open>answered v ?n w\<close>
  proof induction
    case (info_op w w' fuel operation)
    then show ?case using preservesD [OF once_op [OF assms]] by blast
  next
    case (info_connection w w' cx)
    then show ?case by (auto intro: answeredI)
  qed
  then show "participant_jid v \<in> iw_requested_vcards w'"
      "count_list (iw_log w') (LoadVcardTemp v) = count_list (iw_log w) (LoadVcardTemp v)"
    if "info_session sv w w' \<and> participant_jid v \<in> iw_requested_vcards w"
    using that by (auto simp: answered_def)
qed

section \<open>Loading avatars\<close>

lemma ends_basic:
  "ends info_account" "ends (info_tell e)" "ends (await f)" "ends (user_info_get u)" "ends (user_info_update u h)"
  "ends (update_user_info u h)" "ends (mark_vcard_requested p)"
proof -
  show account: "ends info_account" unfolding info_account_def by (intro ends_bind ends_pure)
  show tell: "ends (info_tell e)" for e by (simp add: info_tell_def ends_pure)
  show "ends (await f)" by (simp add: await_def ends_bind ends_pure)
  show "ends (user_info_get u)" by (simp add: user_info_get_def ends_pure)
  show update: "ends (user_info_update u h)" by (simp add: ends_def user_info_update_def Let_def)
  show "ends (update_user_info u h)"
    by (auto simp: update_user_info_def intro!: ends_bind ends_then ends_pure account tell update)
  show "ends (mark_vcard_requested p)" by (simp add: mark_vcard_requested_def ends_pure)
qed

lemmas ends_simple = ends_bind ends_then ends_attempt ends_pure ends_basic

lemma ends_load_profile: "ends (load_user_profile_and_update_user_info sv p policy)"
  unfolding load_user_profile_and_update_user_info_def is_contact_blocked_def is_pushed_as_vcard4_def
    request_user_profile_def handle_user_profile_changed_def
  by (auto intro!: ends_simple split: option.split participant_id.split sum.split)

lemma ends_get_info: "ends (get_user_info sv u policy)"
  unfolding get_user_info_def by (auto intro!: ends_simple ends_load_profile)

lemma ends_avatar_data: "ends (load_avatar_data sv a)"
  unfolding load_avatar_data_def
  by (auto intro!: ends_simple ends_load_profile split: avatar_source.split sum.split)

lemma ends_preferred: "ends (preferred_avatar a)"
  unfolding preferred_avatar_def
  by (auto intro!: ends_simple split: avatar_source.split participant_id.split)

lemma ends_own_avatar: "ends (load_own_avatar_image sv account avatar)"
  unfolding load_own_avatar_image_def
  by (auto intro!: ends_simple ends_preferred ends_avatar_data split: sum.split option.split)

lemma ends_load_plain: "avatar_real_id a = None \<Longrightarrow> ends (load_avatar_image (Suc fuel) sv a)"
  unfolding load_avatar_image.simps image_of_real_id_def
  by (auto intro!: ends_simple ends_own_avatar simp del: avatar_real_id.simps)

lemma fst_bind_NoFuel:
  assumes "fst (m w) \<noteq> NoFuel" "\<And>a. ends (f a)"
  shows "fst (bindM m f w) \<noteq> NoFuel"
  using assms by (cases "m w"; cases "fst (m w)") (auto simp: bindM_def ends_def)

lemma get_info_cached:
  "info_account w = (Ok account, w) \<Longrightarrow>
     \<exists>i. get_user_info sv u ReturnCacheDataDontLoad w = (Ok (Some i), w) \<and> ui_avatar i = ui_avatar (stored_info w u)"
  by (simp add: get_user_info_def user_info_get_def prog_defs)

lemma real_id_image_ends:
  assumes "info_account w = (Ok account, w)"
    and "\<And>u a. ui_avatar (stored_info w u) = Some a \<Longrightarrow> ends (load a)"
  shows "fst (image_of_real_id sv load avatar w) \<noteq> NoFuel"
proof (cases "avatar_real_id avatar")
  case (Some u)
  obtain i where i: "get_user_info sv u ReturnCacheDataDontLoad w = (Ok (Some i), w)"
    "ui_avatar i = ui_avatar (stored_info w u)"
    using get_info_cached [OF assms(1)] by blast
  have "ends (bindM (attempt (load a)) (\<lambda>image. return (case image of Inr x \<Rightarrow> x | Inl _ \<Rightarrow> None)))"
    if "ui_avatar i = Some a" for a
    using assms(2) that i(2) by (intro ends_bind ends_attempt ends_pure) auto
  with Some i(1) show ?thesis
    by (cases "ui_avatar i")
      (simp_all add: image_of_real_id_def bindM_def [of "attempt (get_user_info _ _ _)"]
        attempt_def [of "get_user_info _ _ _"] ends_def return_def del: avatar_real_id.simps)
qed (simp add: image_of_real_id_def return_def del: avatar_real_id.simps)

text \<open>
  Loading an avatar ends: as long as no avatar stored for a user refers to another real id, it
  starts over at most once, whatever the answers of the server and the repositories.
\<close>

theorem load_avatar_ends:
  assumes "\<And>u a. ui_avatar (stored_info w u) = Some a \<Longrightarrow> avatar_real_id a = None"
  shows "fst (load_avatar_image (Suc (Suc fuel)) sv avatar w) \<noteq> NoFuel"
proof (cases "info_account w")
  case (Pair res w')
  show ?thesis
  proof (cases res)
    case (Ok account)
    then have account: "info_account w = (outcome.Ok account, w)" using Pair info_account_state by blast
    have "fst (bindM (image_of_real_id sv (load_avatar_image (Suc fuel) sv) avatar) (\<lambda>real_image.
        if real_image \<noteq> None then return real_image else load_own_avatar_image sv account avatar) w) \<noteq> NoFuel"
    proof (rule fst_bind_NoFuel)
      show "fst (image_of_real_id sv (load_avatar_image (Suc fuel) sv) avatar w) \<noteq> NoFuel"
        using assms by (intro real_id_image_ends [OF account] ends_load_plain)
      show "ends (if a \<noteq> None then return a else load_own_avatar_image sv account avatar)" for a
        by (simp add: ends_pure ends_own_avatar)
    qed
    then show ?thesis
      unfolding load_avatar_image.simps(2) [of "Suc fuel"] bindM_def [of info_account] account by simp
  qed (use Pair in \<open>simp_all add: bindM_def, metis ends_basic(1) ends_def fst_conv\<close>)
qed

section \<open>Instances\<close>

definition quiet_info_services :: info_services where
  "quiet_info_services =
     \<lparr>is_resource = Some, is_profile_get = (\<lambda>_ _ w. (Inr None, w)), is_profile_set = (\<lambda>_ _ _ w. (Inr (), w)),
      is_profile_reset = (\<lambda>_ w. (Inr (), w)), is_profile_clear = (\<lambda>_ w. (Inr (), w)),
      is_avatar_get = (\<lambda>_ _ _ w. (Inr None, w)), is_avatar_set = (\<lambda>_ _ _ _ _ w. (Inr (), w)),
      is_blocked = (\<lambda>_ _ w. (Inr False, w)), is_load_avatar_image = (\<lambda>_ _ w. (Inr None, w)),
      is_load_vcard_temp = (\<lambda>_ w. (Inl RTimedOut, w)), is_load_user_metadata = (\<lambda>_ w. (Inr None, w))\<rparr>"

lemma info_steady_quiet: "info_steady v quiet_info_services"
  by (simp add: info_steady_def quiet_info_services_def steady_def)

definition ex_bob :: user_id where "ex_bob = UserId (BareJid (Some ''bob'') ''prose.org'')"

definition ex_presence :: "availability \<Rightarrow> int \<Rightarrow> presence" where
  "ex_presence av n = default_presence\<lparr>pr_availability := av, pr_priority := n\<rparr>"

definition bob_at :: "string \<Rightarrow> user_or_resource_id" where
  "bob_at res = UOResource (UserResourceId (FullJid (user_jid ex_bob) res))"

text \<open>The phone, with a higher priority, is away; then the laptop comes online.\<close>

definition sample_info_account :: account_id where
  "sample_info_account = AccountId (UserId (BareJid (Some ''alice'') ''prose.org''))"

definition info_world :: info_state where
  "info_world =
     \<lparr>iw_ctx = ex_context,
      iw_infos = [ex_bob \<mapsto> apply_presence (ex_presence Available 1) default_user_info],
      iw_presences = [ex_bob \<mapsto> [\<lparr>pe_resource = Some ''phone'', pe_presence = ex_presence Away 5\<rparr>,
        \<lparr>pe_resource = Some ''laptop'', pe_presence = ex_presence Available 1\<rparr>]],
      iw_requested_vcards = {}, iw_requested_avatars = {}, iw_log = []\<rparr>"

lemma info_world_account:
  "info_account info_world = (Ok (AccountId (UserId (BareJid (Some ''alice'') ''prose.org''))), info_world)"
  by (simp add: info_account_def prog_defs connected_id_def info_world_def ex_context_def ex_user_def
      res_to_user_id_def account_id_from_def user_id_from_def)

lemma info_world_connected: "cx_state (iw_ctx info_world) = CConnected"
  by (simp add: info_world_def ex_context_def)

lemma bob_at_user: "uo_to_user_id (bob_at res) = ex_bob"
  by (simp add: bob_at_def res_to_user_id_def ex_bob_def)

lemma stored_bob: "stored_info info_world ex_bob = apply_presence (ex_presence Available 1) default_user_info"
  by (simp add: stored_info_def info_world_def)

theorem presence_change_exact_witness:
  "\<exists>w'. handle_user_presence_changed (bob_at ''phone'') (ex_presence DoNotDisturb 5) info_world = (Ok (), w') \<and>
     ui_availability (stored_info w' ex_bob) = DoNotDisturb"
  using presence_change_exact [OF info_world_account info_world_connected, of "bob_at ''phone''" "ex_presence DoNotDisturb 5"]
  by (auto simp: Let_def bob_at_user ex_presence_def)

theorem availability_change_unannounced_witness:
  "\<exists>w'. handle_user_presence_changed (bob_at ''phone'') (ex_presence Available 5) info_world = (Ok (), w') \<and>
     iw_log w' = [] \<and> reported_availability info_world ex_bob = Away \<and> reported_availability w' ex_bob = Available"
proof -
  have "presence_map_ok (iw_presences info_world)"
    by (auto simp: presence_map_ok_def info_world_def entries_ok_def ex_presence_def split: if_splits)
  moreover have "get_highest_presence (iw_presences info_world) ex_bob =
      Some \<lparr>pe_resource = Some ''phone'', pe_presence = ex_presence Away 5\<rparr>"
    by (simp add: get_highest_presence_def info_world_def)
  moreover have "apply_presence (ex_presence Available 5) (stored_info info_world ex_bob) = stored_info info_world ex_bob"
    by (simp add: stored_bob apply_presence_def ex_presence_def default_user_info_def)
  ultimately show ?thesis
    using availability_change_unannounced [OF info_world_account info_world_connected, of ex_bob _
        "bob_at ''phone''" "ex_presence Available 5"]
    by (simp add: bob_at_user ex_presence_def info_world_def)
qed

theorem vcard_not_requested_again_witness:
  "count_list (iw_log (snd (run_info_op 0 quiet_info_services (GetProfileOp ex_bob ReturnCacheDataElseLoad)
     (snd (request_user_profile quiet_info_services sample_info_account (PUser ex_bob) info_world)))))
     (LoadVcardTemp (PUser ex_bob)) = 1"
proof -
  let ?w = "snd (request_user_profile quiet_info_services sample_info_account (PUser ex_bob) info_world)"
  have session: "info_session quiet_info_services ?w
     (snd (run_info_op 0 quiet_info_services (GetProfileOp ex_bob ReturnCacheDataElseLoad) ?w))"
    by (intro info_op info_start)
  have "count_list (iw_log ?w) (LoadVcardTemp (PUser ex_bob)) = 1"
    by (simp add: request_user_profile_def quiet_info_services_def thenM_def info_tell_def mark_vcard_requested_def
        modify_world_def bindM_def call_def throw_def info_world_def)
  with vcard_not_requested_again [OF info_steady_quiet, of "PUser ex_bob" sample_info_account info_world ?w] session
  show ?thesis by simp
qed

theorem load_avatar_ends_witness:
  "fst (load_avatar_image 2 quiet_info_services
     \<lparr>avatar_id = ''1'', avatar_src = Vcard (PUser ex_bob) (Some ex_bob)\<rparr> info_world) \<noteq> NoFuel"
proof -
  have "avatar_real_id a = None" if "ui_avatar (stored_info info_world u) = Some a" for u a
    using that
    by (auto simp: stored_info_def info_world_def apply_presence_def ex_presence_def default_presence_def
        default_user_info_def split: if_splits)
  from load_avatar_ends [where fuel = 0, OF this] show ?thesis by (simp add: numeral_2_eq_2 del: load_avatar_image.simps)
qed

end
