(* ===== verification/Stanzas.thy ===== *)
theory Stanzas
  imports Ids
begin

text \<open>
  The payloads of stanzas (\<^verbatim>\<open>crates/prose-xmpp/src/stanza\<close>): reading them from XML elements and
  writing them, and the accessors of messages.

  The crates \<^verbatim>\<open>minidom\<close> and \<^verbatim>\<open>xmpp_parsers\<close> are not part of the repository. Elements are of
  an arbitrary type \<open>'e\<close> and their operations are the fields of the record \<open>xml\<close>, an argument
  of every definition that uses them; \<open>xml_ok\<close> says what the documentation of the element
  builder promises. \<^verbatim>\<open>usize\<close> has 64 bits.
\<close>

section \<open>Elements\<close>

datatype parse_error =
    GenericParseError string
  | XmppParseError string
  | ParseIntError int_error
  | JidError string
  | RequestGeneric string
  | AnyhowError string

datatype affiliation = AffOwner | AffAdmin | AffMember | AffOutcast | AffNone

datatype role = Moderator | Participant | Visitor | RoleNone

datatype muc_status =
    NonAnonymousRoom | AffiliationChange | ConfigShowsUnavailableMembers | ConfigHidesUnavailableMembers
  | ConfigNonPrivacyRelated | SelfPresence | ConfigRoomLoggingEnabled | ConfigRoomLoggingDisabled
  | ConfigRoomNonAnonymous | ConfigRoomSemiAnonymous | RoomHasBeenCreated | AssignedNick | Banned | NewNick
  | Kicked | RemovalFromRoom | ConfigMembersOnly | ServiceShutdown | ServiceErrorKick

record muc_item =
  mi_affiliation :: affiliation
  mi_jid :: "full_jid option"
  mi_role :: role

datatype chat_state = CSActive | CSComposing | CSGone | CSInactive | CSPaused

record omemo_key =
  ok_rid :: nat
  ok_prekey :: bool
  ok_data :: "nat list"

record omemo_encrypted =
  oe_sid :: nat
  oe_keys :: "omemo_key list"
  oe_iv :: "nat list"
  oe_payload :: "nat list option"

record stanza_failure =
  sf_texts :: "(string \<times> string) list"
  sf_condition :: defined_condition

record caps =
  caps_node :: string
  caps_hash_base64 :: string

datatype 'e xml_node = Child 'e | Text string

record 'e xml =
  el_name :: "'e \<Rightarrow> string"
  el_ns :: "'e \<Rightarrow> string"
  el_attr :: "'e \<Rightarrow> string \<Rightarrow> string option"
  el_children :: "'e \<Rightarrow> 'e list"
  el_text :: "'e \<Rightarrow> string"
  el_show :: "'e \<Rightarrow> string"
  el_build :: "string \<Rightarrow> string \<Rightarrow> (string \<times> string option) list \<Rightarrow> 'e xml_node list \<Rightarrow> 'e"
  x_jid :: "string \<Rightarrow> string + jid"
  x_bare_jid :: "string \<Rightarrow> string + bare_jid"
  x_lowercase :: "string \<Rightarrow> string"
  x_affiliation :: "string \<Rightarrow> string + affiliation"
  x_role :: "string \<Rightarrow> string + role"
  x_item :: "'e \<Rightarrow> string + muc_item"
  x_build_item :: "muc_item \<Rightarrow> 'e"
  x_status :: "'e \<Rightarrow> string + muc_status"
  x_build_status :: "muc_status \<Rightarrow> 'e"
  x_reactions :: "'e \<Rightarrow> string + (string \<times> string list)"
  x_build_reactions :: "string \<times> string list \<Rightarrow> 'e"
  x_delay :: "'e \<Rightarrow> string + timestamp"
  x_stanza_error :: "'e \<Rightarrow> string + stanza_failure"
  x_replace :: "'e \<Rightarrow> string + string"
  x_occupant_id :: "'e \<Rightarrow> string + string"
  x_omemo :: "'e \<Rightarrow> string + omemo_encrypted"
  x_chat_state :: "'e \<Rightarrow> string + chat_state"
  x_nick :: "'e \<Rightarrow> string + string"
  x_caps :: "'e \<Rightarrow> string + caps"
  x_vcard_photo :: "'e \<Rightarrow> string + nat list option"
  x_hash :: "'e \<Rightarrow> string + string"
  x_build_hash :: "string \<Rightarrow> 'e"
  x_best_text :: "(string \<times> string) list \<Rightarrow> string option"

definition el_is :: "'e xml \<Rightarrow> 'e \<Rightarrow> string \<Rightarrow> string \<Rightarrow> bool" where
  "el_is x e n ns \<longleftrightarrow> el_name x e = n \<and> el_ns x e = ns"

definition get_child :: "'e xml \<Rightarrow> 'e \<Rightarrow> string \<Rightarrow> string \<Rightarrow> 'e option" where
  "get_child x e n ns = find (\<lambda>c. el_is x c n ns) (el_children x e)"

definition child_elements :: "'e xml_node list \<Rightarrow> 'e list" where
  "child_elements cs = List.map_filter (\<lambda>c. case c of Child e \<Rightarrow> Some e | Text _ \<Rightarrow> None) cs"

definition text_content :: "'e xml_node list \<Rightarrow> string" where
  "text_content cs = concat (map (\<lambda>c. case c of Child _ \<Rightarrow> [] | Text t \<Rightarrow> t) cs)"

text \<open>What is built can be read back.\<close>

definition xml_ok :: "'e xml \<Rightarrow> bool" where
  "xml_ok x \<longleftrightarrow>
     (\<forall>n ns attrs cs. distinct (map fst attrs) \<longrightarrow>
        el_name x (el_build x n ns attrs cs) = n \<and>
        el_ns x (el_build x n ns attrs cs) = ns \<and>
        (\<forall>a. el_attr x (el_build x n ns attrs cs) a = Option.bind (map_of attrs a) (\<lambda>v. v)) \<and>
        el_children x (el_build x n ns attrs cs) = child_elements cs \<and>
        el_text x (el_build x n ns attrs cs) = text_content cs)"

text \<open>The namespaces of \<^verbatim>\<open>stanza/ns.rs\<close> and of \<^verbatim>\<open>xmpp_parsers::ns\<close>.\<close>

definition ns_muc_user :: string where "ns_muc_user = ''http://jabber.org/protocol/muc#user''"
definition ns_sid :: string where "ns_sid = ''urn:xmpp:sid:0''"
definition ns_chat_markers :: string where "ns_chat_markers = ''urn:xmpp:chat-markers:0''"
definition ns_retract :: string where "ns_retract = ''urn:xmpp:message-retract:0''"
definition ns_fasten :: string where "ns_fasten = ''urn:xmpp:fasten:0''"
definition ns_fallback :: string where "ns_fallback = ''urn:xmpp:fallback:0''"
definition ns_reply :: string where "ns_reply = ''urn:xmpp:reply:0''"
definition ns_content :: string where "ns_content = ''urn:xmpp:content''"
definition ns_reactions :: string where "ns_reactions = ''urn:xmpp:reactions:0''"
definition ns_occupant_id :: string where "ns_occupant_id = ''urn:xmpp:occupant-id:0''"
definition ns_delay :: string where "ns_delay = ''urn:xmpp:delay''"
definition ns_direct_muc_invitations :: string where "ns_direct_muc_invitations = ''jabber:x:conference''"
definition ns_out_of_band_data :: string where "ns_out_of_band_data = ''jabber:x:oob''"
definition ns_reference :: string where "ns_reference = ''urn:xmpp:reference:0''"
definition ns_sims :: string where "ns_sims = ''urn:xmpp:sims:1''"
definition ns_jingle_thumbs :: string where "ns_jingle_thumbs = ''urn:xmpp:thumbs:1''"
definition ns_jingle_ft_4 :: string where "ns_jingle_ft_4 = ''urn:xmpp:jingle:apps:file-transfer:4''"
definition ns_jingle_ft :: string where "ns_jingle_ft = ''urn:xmpp:jingle:apps:file-transfer:5''"
definition ns_prose_audio_duration :: string where "ns_prose_audio_duration = ''https://prose.org/protocol/audio-duration''"
definition ns_chatstates :: string where "ns_chatstates = ''http://jabber.org/protocol/chatstates''"
definition ns_message_correct :: string where "ns_message_correct = ''urn:xmpp:message-correct:0''"
definition ns_default :: string where "ns_default = ''jabber:client''"
definition ns_legacy_omemo :: string where "ns_legacy_omemo = ''eu.siacs.conversations.axolotl''"
definition ns_caps :: string where "ns_caps = ''http://jabber.org/protocol/caps''"
definition ns_nick :: string where "ns_nick = ''http://jabber.org/protocol/nick''"
definition ns_vcard_update :: string where "ns_vcard_update = ''vcard-temp:x:update''"

lemmas ns_defs = ns_muc_user_def ns_sid_def ns_chat_markers_def ns_retract_def ns_fasten_def ns_fallback_def
  ns_reply_def ns_content_def ns_reference_def ns_out_of_band_data_def ns_sims_def ns_jingle_thumbs_def
  ns_jingle_ft_def ns_jingle_ft_4_def ns_prose_audio_duration_def ns_direct_muc_invitations_def

text \<open>\<^verbatim>\<open>util/element_ext.rs\<close>.\<close>

definition expect_is :: "'e xml \<Rightarrow> 'e \<Rightarrow> string \<Rightarrow> string \<Rightarrow> parse_error + unit" where
  "expect_is x e n ns =
     (if el_is x e n ns then Inr ()
      else Inl (GenericParseError (''Expected element with name '' @ n @ '' and namespace '' @ ns @ ''. Got '' @
                              el_name x e @ '' and '' @ el_ns x e @ '' instead.'')))"

definition attr_req :: "'e xml \<Rightarrow> 'e \<Rightarrow> string \<Rightarrow> parse_error + string" where
  "attr_req x e n =
     (case el_attr x e n of
        Some v \<Rightarrow> Inr v
      | None \<Rightarrow> Inl (GenericParseError (''Missing required attribute '' @ n @ '' in element '' @ el_name x e @ ''.'')))"

definition parse_bool :: "string \<Rightarrow> parse_error + bool" where
  "parse_bool v =
     (if v = ''true'' \<or> v = ''1'' then Inr True
      else if v = ''false'' \<or> v = ''0'' then Inr False
      else Inl (GenericParseError (''Unknown value '' @ [CHR 0x27] @ v @ [CHR 0x27] @ '' '' @ [CHR 0x27] @ ''continue'' @
                              [CHR 0x27] @ '' attribute'')))"

definition attr_bool :: "'e xml \<Rightarrow> 'e \<Rightarrow> string \<Rightarrow> parse_error + bool option" where
  "attr_bool x e n = traverse_opt parse_bool (el_attr x e n)"

definition attr_bool_opt :: "string \<Rightarrow> bool option \<Rightarrow> (string \<times> string option) list" where
  "attr_bool_opt n v = (if v = Some True then [(n, Some ''true'')] else [])"

definition map_err :: "('f \<Rightarrow> 'e) \<Rightarrow> 'f + 'a \<Rightarrow> 'e + 'a" where
  "map_err f r = (case r of Inl e \<Rightarrow> Inl (f e) | Inr a \<Rightarrow> Inr a)"

lemma map_err_simps [simp]: "map_err f (Inl e) = Inl (f e)" "map_err f (Inr a) = Inr a"
  by (simp_all add: map_err_def)

definition parse_jid_attr :: "'e xml \<Rightarrow> string \<Rightarrow> parse_error + jid" where
  "parse_jid_attr x s = map_err JidError (x_jid x s)"

definition parse_bare_attr :: "'e xml \<Rightarrow> string \<Rightarrow> parse_error + bare_jid" where
  "parse_bare_attr x s = map_err JidError (x_bare_jid x s)"

definition parse_nat_attr :: "nat \<Rightarrow> string \<Rightarrow> parse_error + nat" where
  "parse_nat_attr w s = map_err ParseIntError (parse_uint w s)"

fun show_jid :: "jid \<Rightarrow> string" where
  "show_jid (JBare j) = show_bare j"
| "show_jid (JFull j) = show_full j"


definition is_any_of :: "'e xml \<Rightarrow> 'e \<Rightarrow> string \<Rightarrow> string list \<Rightarrow> bool" where
  "is_any_of x e n nss \<longleftrightarrow> el_name x e = n \<and> el_ns x e \<in> set nss"

definition expect_is_any_of :: "'e xml \<Rightarrow> 'e \<Rightarrow> string \<Rightarrow> string list \<Rightarrow> parse_error + unit" where
  "expect_is_any_of x e n nss =
     (if is_any_of x e n nss then Inr ()
      else Inl (GenericParseError (''Expected element with name '' @ n @ '' and namespace '' @ join_with '' or '' nss @
                              ''. Got '' @ el_name x e @ '' and '' @ el_ns x e @ '' instead.'')))"

section \<open>Ids and markers\<close>

text \<open>\<^verbatim>\<open>message/stanza_id.rs\<close>.\<close>

record stanza_id =
  si_id :: string
  si_by :: jid

definition origin_id_try_from :: "'e xml \<Rightarrow> 'e \<Rightarrow> parse_error + string" where
  "origin_id_try_from x e = bind_res (expect_is x e ''origin-id'' ns_sid) (\<lambda>_. attr_req x e ''id'')"

definition origin_id_element :: "'e xml \<Rightarrow> string \<Rightarrow> 'e" where
  "origin_id_element x i = el_build x ''origin-id'' ns_sid [(''id'', Some i)] []"

definition stanza_id_named :: "string \<Rightarrow> 'e xml \<Rightarrow> 'e \<Rightarrow> parse_error + stanza_id" where
  "stanza_id_named n x e =
     bind_res (expect_is x e n ns_sid) (\<lambda>_.
     bind_res (attr_req x e ''id'') (\<lambda>i.
     bind_res (attr_req x e ''by'') (\<lambda>by_str.
     bind_res (parse_jid_attr x by_str) (\<lambda>j.
     Inr \<lparr>si_id = i, si_by = j\<rparr>))))"

definition stanza_id_try_from :: "'e xml \<Rightarrow> 'e \<Rightarrow> parse_error + stanza_id" where
  "stanza_id_try_from = stanza_id_named ''stanza-id''"

definition stanza_id_element :: "'e xml \<Rightarrow> stanza_id \<Rightarrow> 'e" where
  "stanza_id_element x s =
     el_build x ''stanza-id'' ns_sid [(''id'', Some (si_id s)), (''by'', Some (show_jid (si_by s)))] []"

definition referenced_stanza_try_from :: "'e xml \<Rightarrow> 'e \<Rightarrow> parse_error + stanza_id" where
  "referenced_stanza_try_from = stanza_id_named ''referenced-stanza''"

definition referenced_stanza_element :: "'e xml \<Rightarrow> stanza_id \<Rightarrow> 'e" where
  "referenced_stanza_element x s =
     el_build x ''referenced-stanza'' ns_sid [(''id'', Some (si_id s)), (''by'', Some (show_jid (si_by s)))] []"

text \<open>\<^verbatim>\<open>message/chat_marker.rs\<close>.\<close>

datatype chat_marker = Markable | Received string | Displayed string | Acknowledged string

definition markable_try_from :: "'e xml \<Rightarrow> 'e \<Rightarrow> parse_error + chat_marker" where
  "markable_try_from x e = bind_res (expect_is x e ''markable'' ns_chat_markers) (\<lambda>_. Inr Markable)"

definition marker_id :: "string \<Rightarrow> 'e xml \<Rightarrow> 'e \<Rightarrow> parse_error + string" where
  "marker_id n x e = bind_res (expect_is x e n ns_chat_markers) (\<lambda>_. attr_req x e ''id'')"

definition received_try_from :: "'e xml \<Rightarrow> 'e \<Rightarrow> parse_error + chat_marker" where
  "received_try_from x e = bind_res (marker_id ''received'' x e) (\<lambda>i. Inr (Received i))"

definition displayed_try_from :: "'e xml \<Rightarrow> 'e \<Rightarrow> parse_error + chat_marker" where
  "displayed_try_from x e = bind_res (marker_id ''displayed'' x e) (\<lambda>i. Inr (Displayed i))"

definition acknowledged_try_from :: "'e xml \<Rightarrow> 'e \<Rightarrow> parse_error + chat_marker" where
  "acknowledged_try_from x e = bind_res (marker_id ''acknowledged'' x e) (\<lambda>i. Inr (Acknowledged i))"

fun chat_marker_element :: "'e xml \<Rightarrow> chat_marker \<Rightarrow> 'e" where
  "chat_marker_element x Markable = el_build x ''markable'' ns_chat_markers [] []"
| "chat_marker_element x (Received i) = el_build x ''received'' ns_chat_markers [(''id'', Some i)] []"
| "chat_marker_element x (Displayed i) = el_build x ''displayed'' ns_chat_markers [(''id'', Some i)] []"
| "chat_marker_element x (Acknowledged i) = el_build x ''acknowledged'' ns_chat_markers [(''id'', Some i)] []"

section \<open>Changes of messages\<close>

text \<open>\<^verbatim>\<open>message/fasten.rs\<close> and \<^verbatim>\<open>message/retract.rs\<close>.\<close>

record 'e apply_to =
  at_id :: string
  at_clear :: bool
  at_payloads :: "'e list"

definition apply_to_new :: "string \<Rightarrow> 'e apply_to" where
  "apply_to_new i = \<lparr>at_id = i, at_clear = False, at_payloads = []\<rparr>"

definition apply_to_element :: "'e xml \<Rightarrow> 'e apply_to \<Rightarrow> 'e" where
  "apply_to_element x a =
     el_build x ''apply-to'' ns_fasten
       [(''id'', Some (at_id a)), (''clear'', if at_clear a then Some ''true'' else None)]
       (map Child (at_payloads a))"

definition apply_to_try_from :: "'e xml \<Rightarrow> 'e \<Rightarrow> parse_error + 'e apply_to" where
  "apply_to_try_from x e =
     bind_res (expect_is x e ''apply-to'' ns_fasten) (\<lambda>_.
     bind_res (attr_req x e ''id'') (\<lambda>i.
     Inr \<lparr>at_id = i,
          at_clear = (case el_attr x e ''clear'' of Some v \<Rightarrow> x_lowercase x v = ''true'' | None \<Rightarrow> False),
          at_payloads = el_children x e\<rparr>))"

definition retract_element :: "'e xml \<Rightarrow> 'e" where
  "retract_element x = el_build x ''retract'' ns_retract [] []"

definition is_retraction :: "'e xml \<Rightarrow> 'e apply_to \<Rightarrow> bool" where
  "is_retraction x a \<longleftrightarrow> find (\<lambda>p. el_is x p ''retract'' ns_retract) (at_payloads a) \<noteq> None"

text \<open>\<^verbatim>\<open>message/reactions.rs\<close>.\<close>

definition reactions_try_from :: "'e xml \<Rightarrow> 'e \<Rightarrow> parse_error + (string \<times> string list)" where
  "reactions_try_from x e = map_err XmppParseError (x_reactions x e)"

definition reactions_element :: "'e xml \<Rightarrow> string \<times> string list \<Rightarrow> 'e" where
  "reactions_element x r = x_build_reactions x r"

section \<open>Replies and contents\<close>

text \<open>\<^verbatim>\<open>message/reply.rs\<close>, \<^verbatim>\<open>message/fallback.rs\<close> and \<^verbatim>\<open>message/content.rs\<close>.\<close>

record reply =
  rp_id :: string
  rp_to :: "jid option"

definition reply_try_from :: "'e xml \<Rightarrow> 'e \<Rightarrow> parse_error + reply" where
  "reply_try_from x e =
     bind_res (expect_is x e ''reply'' ns_reply) (\<lambda>_.
     bind_res (attr_req x e ''id'') (\<lambda>i.
     bind_res (traverse_opt (parse_jid_attr x) (el_attr x e ''to'')) (\<lambda>t.
     Inr \<lparr>rp_id = i, rp_to = t\<rparr>)))"

definition reply_element :: "'e xml \<Rightarrow> reply \<Rightarrow> 'e" where
  "reply_element x r =
     el_build x ''reply'' ns_reply [(''id'', Some (rp_id r)), (''to'', map_option show_jid (rp_to r))] []"

record fallback_range =
  fr_start :: "nat option"
  fr_end :: "nat option"

record fallback =
  fb_for :: "string option"
  fb_subjects :: "fallback_range list"
  fb_bodies :: "fallback_range list"

definition fallback_new :: fallback where
  "fallback_new = \<lparr>fb_for = None, fb_subjects = [], fb_bodies = []\<rparr>"

definition range_try_from :: "'e xml \<Rightarrow> 'e \<Rightarrow> parse_error + fallback_range" where
  "range_try_from x e =
     bind_res (traverse_opt (parse_nat_attr 64) (el_attr x e ''start'')) (\<lambda>s.
     bind_res (traverse_opt (parse_nat_attr 64) (el_attr x e ''end'')) (\<lambda>t.
     Inr \<lparr>fr_start = s, fr_end = t\<rparr>))"

definition add_fallback_child :: "'e xml \<Rightarrow> 'e \<Rightarrow> fallback \<Rightarrow> parse_error + fallback" where
  "add_fallback_child x c fb =
     (if el_name x c = ''subject'' then
        bind_res (range_try_from x c) (\<lambda>r. Inr (fb\<lparr>fb_subjects := fb_subjects fb @ [r]\<rparr>))
      else if el_name x c = ''body'' then
        bind_res (range_try_from x c) (\<lambda>r. Inr (fb\<lparr>fb_bodies := fb_bodies fb @ [r]\<rparr>))
      else Inr fb)"

definition fallback_try_from :: "'e xml \<Rightarrow> 'e \<Rightarrow> parse_error + fallback" where
  "fallback_try_from x e =
     bind_res (expect_is x e ''fallback'' ns_fallback) (\<lambda>_.
     fold_res (add_fallback_child x) (el_children x e)
       \<lparr>fb_for = el_attr x e ''for'', fb_subjects = [], fb_bodies = []\<rparr>)"

definition range_element :: "'e xml \<Rightarrow> string \<Rightarrow> fallback_range \<Rightarrow> 'e" where
  "range_element x n r =
     el_build x n ns_fallback
       [(''start'', map_option show_nat (fr_start r)), (''end'', map_option show_nat (fr_end r))] []"

definition fallback_element :: "'e xml \<Rightarrow> fallback \<Rightarrow> 'e" where
  "fallback_element x fb =
     el_build x ''fallback'' ns_fallback [(''for'', fb_for fb)]
       (map (\<lambda>r. Child (range_element x ''subject'' r)) (fb_subjects fb) @
        map (\<lambda>r. Child (range_element x ''body'' r)) (fb_bodies fb))"

record content =
  cn_type :: string
  cn_content :: string

definition content_element :: "'e xml \<Rightarrow> content \<Rightarrow> 'e" where
  "content_element x c = el_build x ''content'' ns_content [(''type'', Some (cn_type c))] [Text (cn_content c)]"

definition content_try_from :: "'e xml \<Rightarrow> 'e \<Rightarrow> parse_error + content" where
  "content_try_from x e =
     bind_res (expect_is x e ''content'' ns_content) (\<lambda>_.
     bind_res (attr_req x e ''type'') (\<lambda>t.
     Inr \<lparr>cn_type = t, cn_content = el_text x e\<rparr>))"

section \<open>Rooms\<close>

text \<open>\<^verbatim>\<open>message/muc_user.rs\<close> and \<^verbatim>\<open>message/muc_invite.rs\<close>.\<close>

record message_muc_user =
  mmu_jid :: "jid option"
  mmu_affiliation :: affiliation
  mmu_role :: role

fun show_xmpp_affiliation :: "affiliation \<Rightarrow> string" where
  "show_xmpp_affiliation AffOwner = ''owner''"
| "show_xmpp_affiliation AffAdmin = ''admin''"
| "show_xmpp_affiliation AffMember = ''member''"
| "show_xmpp_affiliation AffOutcast = ''outcast''"
| "show_xmpp_affiliation AffNone = ''none''"

fun show_role :: "role \<Rightarrow> string" where
  "show_role Moderator = ''moderator''"
| "show_role Participant = ''participant''"
| "show_role Visitor = ''visitor''"
| "show_role RoleNone = ''none''"

definition parse_affiliation :: "'e xml \<Rightarrow> string \<Rightarrow> parse_error + affiliation" where
  "parse_affiliation x s = map_err XmppParseError (x_affiliation x s)"

definition parse_role :: "'e xml \<Rightarrow> string \<Rightarrow> parse_error + role" where
  "parse_role x s = map_err XmppParseError (x_role x s)"

definition item_child :: "'e xml \<Rightarrow> 'e \<Rightarrow> parse_error + 'e" where
  "item_child x e =
     (case get_child x e ''item'' ns_muc_user of
        Some i \<Rightarrow> Inr i
      | None \<Rightarrow> Inl (GenericParseError ''Missing item in MucUser''))"

definition message_muc_user_try_from :: "'e xml \<Rightarrow> 'e \<Rightarrow> parse_error + message_muc_user" where
  "message_muc_user_try_from x e =
     bind_res (expect_is x e ''x'' ns_muc_user) (\<lambda>_.
     bind_res (item_child x e) (\<lambda>item.
     bind_res (traverse_opt (parse_jid_attr x) (el_attr x item ''jid'')) (\<lambda>j.
     bind_res (bind_res (attr_req x item ''affiliation'') (parse_affiliation x)) (\<lambda>a.
     bind_res (bind_res (attr_req x item ''role'') (parse_role x)) (\<lambda>r.
     Inr \<lparr>mmu_jid = j, mmu_affiliation = a, mmu_role = r\<rparr>)))))"

definition message_muc_user_element :: "'e xml \<Rightarrow> message_muc_user \<Rightarrow> 'e" where
  "message_muc_user_element x u =
     el_build x ''x'' ns_muc_user []
       [Child (el_build x ''item'' ns_muc_user
          [(''jid'', map_option show_jid (mmu_jid u)), (''affiliation'', Some (show_xmpp_affiliation (mmu_affiliation u))),
           (''role'', Some (show_role (mmu_role u)))] [])]"

record muc_invite =
  inv_jid :: bare_jid
  inv_affiliation :: affiliation
  inv_reason :: "string option"

definition first_reason :: "'e xml \<Rightarrow> 'e list \<Rightarrow> string option" where
  "first_reason x cs =
     (case List.map_filter (\<lambda>c. if el_is x c ''reason'' ns_muc_user \<and> el_text x c \<noteq> [] then Some (el_text x c) else None) cs of
        [] \<Rightarrow> None | t # _ \<Rightarrow> Some t)"

definition muc_invite_try_from :: "'e xml \<Rightarrow> 'e \<Rightarrow> parse_error + muc_invite" where
  "muc_invite_try_from x e =
     bind_res (expect_is x e ''x'' ns_muc_user) (\<lambda>_.
     bind_res (item_child x e) (\<lambda>item.
     bind_res (bind_res (attr_req x item ''jid'') (parse_bare_attr x)) (\<lambda>j.
     bind_res (bind_res (attr_req x item ''affiliation'') (parse_affiliation x)) (\<lambda>a.
     Inr \<lparr>inv_jid = j, inv_affiliation = a, inv_reason = first_reason x (el_children x item)\<rparr>))))"

definition reason_nodes :: "'e xml \<Rightarrow> string option \<Rightarrow> 'e xml_node list" where
  "reason_nodes x reason =
     (case reason of None \<Rightarrow> [] | Some r \<Rightarrow> [Child (el_build x ''reason'' ns_muc_user [] [Text r])])"

definition muc_invite_element :: "'e xml \<Rightarrow> muc_invite \<Rightarrow> 'e" where
  "muc_invite_element x i =
     el_build x ''x'' ns_muc_user []
       [Child (el_build x ''item'' ns_muc_user
          [(''jid'', Some (show_bare (inv_jid i))), (''affiliation'', Some (show_xmpp_affiliation (inv_affiliation i)))]
          (reason_nodes x (inv_reason i)))]"

text \<open>\<^verbatim>\<open>muc/direct_invite.rs\<close> and \<^verbatim>\<open>muc/mediated_invite.rs\<close>.\<close>

record direct_invite =
  di_jid :: bare_jid
  di_password :: "string option"
  di_reason :: "string option"
  di_continue :: "bool option"
  di_thread :: "string option"

definition direct_invite_try_from :: "'e xml \<Rightarrow> 'e \<Rightarrow> parse_error + direct_invite" where
  "direct_invite_try_from x e =
     bind_res (expect_is x e ''x'' ns_direct_muc_invitations) (\<lambda>_.
     bind_res (bind_res (attr_req x e ''jid'') (parse_bare_attr x)) (\<lambda>j.
     bind_res (attr_bool x e ''continue'') (\<lambda>c.
     Inr \<lparr>di_jid = j, di_password = el_attr x e ''password'', di_reason = el_attr x e ''reason'',
          di_continue = c, di_thread = el_attr x e ''thread''\<rparr>)))"

definition direct_invite_element :: "'e xml \<Rightarrow> direct_invite \<Rightarrow> 'e" where
  "direct_invite_element x i =
     el_build x ''x'' ns_direct_muc_invitations
       ([(''jid'', Some (show_bare (di_jid i))), (''password'', di_password i), (''reason'', di_reason i)] @
        attr_bool_opt ''continue'' (di_continue i) @ [(''thread'', di_thread i)]) []"

record invite =
  iv_from :: "jid option"
  iv_to :: "jid option"
  iv_reason :: "string option"

record mediated_invite =
  md_invites :: "invite list"
  md_password :: "string option"

definition invite_try_from :: "'e xml \<Rightarrow> 'e \<Rightarrow> parse_error + invite" where
  "invite_try_from x e =
     bind_res (expect_is x e ''invite'' ns_muc_user) (\<lambda>_.
     bind_res (traverse_opt (parse_jid_attr x) (el_attr x e ''from'')) (\<lambda>f.
     bind_res (traverse_opt (parse_jid_attr x) (el_attr x e ''to'')) (\<lambda>t.
     Inr \<lparr>iv_from = f, iv_to = t, iv_reason = map_option (el_text x) (get_child x e ''reason'' ns_muc_user)\<rparr>)))"

definition invite_element :: "'e xml \<Rightarrow> invite \<Rightarrow> 'e" where
  "invite_element x i =
     el_build x ''invite'' ns_muc_user
       [(''from'', map_option show_jid (iv_from i)), (''to'', map_option show_jid (iv_to i))]
       (reason_nodes x (iv_reason i))"

definition add_invite_child :: "'e xml \<Rightarrow> 'e \<Rightarrow> mediated_invite \<Rightarrow> parse_error + mediated_invite" where
  "add_invite_child x c m =
     (if el_is x c ''invite'' ns_muc_user then
        bind_res (invite_try_from x c) (\<lambda>i. Inr (m\<lparr>md_invites := md_invites m @ [i]\<rparr>))
      else if el_is x c ''password'' ns_muc_user then Inr (m\<lparr>md_password := Some (el_text x c)\<rparr>)
      else Inr m)"

definition mediated_invite_try_from :: "'e xml \<Rightarrow> 'e \<Rightarrow> parse_error + mediated_invite" where
  "mediated_invite_try_from x e =
     bind_res (expect_is x e ''x'' ns_muc_user) (\<lambda>_.
     bind_res (fold_res (add_invite_child x) (el_children x e) \<lparr>md_invites = [], md_password = None\<rparr>) (\<lambda>m.
     if md_invites m = [] then Inl (AnyhowError ''Missing invite element in mediated invite'') else Inr m))"

definition mediated_invite_element :: "'e xml \<Rightarrow> mediated_invite \<Rightarrow> 'e" where
  "mediated_invite_element x m =
     el_build x ''x'' ns_muc_user []
       (map (\<lambda>i. Child (invite_element x i)) (md_invites m) @
        (case md_password m of
           None \<Rightarrow> [] | Some p \<Rightarrow> [Child (el_build x ''password'' ns_muc_user [] [Text p])]))"

text \<open>\<^verbatim>\<open>muc/muc_user.rs\<close>.\<close>

record destroy =
  ds_jid :: "bare_jid option"
  ds_reason :: "string option"

record muc_user =
  mu_status :: "muc_status list"
  mu_items :: "muc_item list"
  mu_destroy :: "destroy option"

definition muc_user_new :: muc_user where
  "muc_user_new = \<lparr>mu_status = [], mu_items = [], mu_destroy = None\<rparr>"

definition destroy_try_from :: "'e xml \<Rightarrow> 'e \<Rightarrow> parse_error + destroy" where
  "destroy_try_from x e =
     bind_res (expect_is x e ''destroy'' ns_muc_user) (\<lambda>_.
     bind_res (traverse_opt (parse_bare_attr x) (el_attr x e ''jid'')) (\<lambda>j.
     Inr \<lparr>ds_jid = j, ds_reason = map_option (el_text x) (get_child x e ''reason'' ns_muc_user)\<rparr>))"

definition destroy_element :: "'e xml \<Rightarrow> destroy \<Rightarrow> 'e" where
  "destroy_element x d =
     el_build x ''destroy'' ns_muc_user [(''jid'', map_option show_bare (ds_jid d))] (reason_nodes x (ds_reason d))"

definition add_muc_child :: "'e xml \<Rightarrow> 'e \<Rightarrow> muc_user \<Rightarrow> parse_error + muc_user" where
  "add_muc_child x c u =
     (if el_is x c ''item'' ns_muc_user then
        bind_res (map_err XmppParseError (x_item x c)) (\<lambda>i. Inr (u\<lparr>mu_items := mu_items u @ [i]\<rparr>))
      else if el_is x c ''status'' ns_muc_user then
        bind_res (map_err XmppParseError (x_status x c)) (\<lambda>s. Inr (u\<lparr>mu_status := mu_status u @ [s]\<rparr>))
      else if el_is x c ''destroy'' ns_muc_user then
        bind_res (destroy_try_from x c) (\<lambda>d. Inr (u\<lparr>mu_destroy := Some d\<rparr>))
      else Inl (RequestGeneric (''Encountered unexpected payload '' @ el_name x c @ '' in muc query.'')))"

definition muc_user_try_from :: "'e xml \<Rightarrow> 'e \<Rightarrow> parse_error + muc_user" where
  "muc_user_try_from x e =
     bind_res (expect_is x e ''x'' ns_muc_user) (\<lambda>_.
     fold_res (add_muc_child x) (el_children x e) muc_user_new)"

definition muc_user_element :: "'e xml \<Rightarrow> muc_user \<Rightarrow> 'e" where
  "muc_user_element x u =
     el_build x ''x'' ns_muc_user []
       (map (\<lambda>s. Child (x_build_status x s)) (mu_status u) @ map (\<lambda>i. Child (x_build_item x i)) (mu_items u) @
        (case mu_destroy u of None \<Rightarrow> [] | Some d \<Rightarrow> [Child (destroy_element x d)]))"


section \<open>References and media\<close>

text \<open>\<^verbatim>\<open>references/reference.rs\<close>.\<close>

datatype reference_type = DataReference | MentionReference

record reference =
  rf_type :: reference_type
  rf_uri :: string
  rf_anchor :: "string option"
  rf_begin :: "nat option"
  rf_end :: "nat option"

definition data_reference :: "string \<Rightarrow> reference" where
  "data_reference uri = \<lparr>rf_type = DataReference, rf_uri = uri, rf_anchor = None, rf_begin = None, rf_end = None\<rparr>"

definition mention_reference :: "bare_jid \<Rightarrow> reference" where
  "mention_reference j =
     \<lparr>rf_type = MentionReference, rf_uri = ''xmpp:'' @ show_bare j, rf_anchor = None, rf_begin = None, rf_end = None\<rparr>"

fun show_reference_type :: "reference_type \<Rightarrow> string" where
  "show_reference_type DataReference = ''data''"
| "show_reference_type MentionReference = ''mention''"

definition reference_type_from_str :: "string \<Rightarrow> parse_error + reference_type" where
  "reference_type_from_str s =
     (if s = ''data'' then Inr DataReference
      else if s = ''mention'' then Inr MentionReference
      else Inl (AnyhowError (''Encountered unknown ReferenceType '' @ [CHR 0x27] @ s @ [CHR 0x27])))"

definition reference_try_from :: "'e xml \<Rightarrow> 'e \<Rightarrow> parse_error + reference" where
  "reference_try_from x e =
     bind_res (expect_is x e ''reference'' ns_reference) (\<lambda>_.
     bind_res (bind_res (attr_req x e ''type'') reference_type_from_str) (\<lambda>t.
     bind_res (attr_req x e ''uri'') (\<lambda>u.
     bind_res (traverse_opt (parse_nat_attr 64) (el_attr x e ''begin'')) (\<lambda>b.
     bind_res (traverse_opt (parse_nat_attr 64) (el_attr x e ''end'')) (\<lambda>f.
     Inr \<lparr>rf_type = t, rf_uri = u, rf_anchor = el_attr x e ''anchor'', rf_begin = b, rf_end = f\<rparr>)))))"

definition reference_element :: "'e xml \<Rightarrow> reference \<Rightarrow> 'e" where
  "reference_element x r =
     el_build x ''reference'' ns_reference
       [(''type'', Some (show_reference_type (rf_type r))), (''uri'', Some (rf_uri r)), (''anchor'', rf_anchor r),
        (''begin'', map_option show_nat (rf_begin r)), (''end'', map_option show_nat (rf_end r))] []"

text \<open>\<^verbatim>\<open>media_sharing/thumbnail.rs\<close>, \<^verbatim>\<open>file.rs\<close>, \<^verbatim>\<open>media_share.rs\<close> and \<^verbatim>\<open>oob.rs\<close>.\<close>

record xmpp_thumbnail =
  xt_uri :: string
  xt_media_type :: "string option"
  xt_width :: "nat option"
  xt_height :: "nat option"

definition thumbnail_try_from :: "'e xml \<Rightarrow> 'e \<Rightarrow> parse_error + xmpp_thumbnail" where
  "thumbnail_try_from x e =
     bind_res (expect_is x e ''thumbnail'' ns_jingle_thumbs) (\<lambda>_.
     bind_res (attr_req x e ''uri'') (\<lambda>u.
     bind_res (traverse_opt (parse_nat_attr 32) (el_attr x e ''width'')) (\<lambda>w.
     bind_res (traverse_opt (parse_nat_attr 32) (el_attr x e ''height'')) (\<lambda>h.
     Inr \<lparr>xt_uri = u, xt_media_type = el_attr x e ''media-type'', xt_width = w, xt_height = h\<rparr>))))"

definition thumbnail_element :: "'e xml \<Rightarrow> xmpp_thumbnail \<Rightarrow> 'e" where
  "thumbnail_element x t =
     el_build x ''thumbnail'' ns_jingle_thumbs
       [(''uri'', Some (xt_uri t)), (''media-type'', xt_media_type t), (''width'', map_option show_nat (xt_width t)),
        (''height'', map_option show_nat (xt_height t))] []"

record media_file =
  mf_media_type :: string
  mf_name :: "string option"
  mf_size :: nat
  mf_desc :: "string option"
  mf_duration :: "nat option"
  mf_hashes :: "string list"
  mf_thumbnails :: "xmpp_thumbnail list"

definition ns_jingle_ft_any :: "string list" where
  "ns_jingle_ft_any = [ns_jingle_ft, ns_jingle_ft_4]"

text \<open>The file under construction: its media type and size may still be missing.\<close>

record partial_file =
  pf_media_type :: "string option"
  pf_name :: "string option"
  pf_size :: "nat option"
  pf_desc :: "string option"
  pf_duration :: "nat option"
  pf_hashes :: "string list"
  pf_thumbnails :: "xmpp_thumbnail list"

definition add_file_child :: "'e xml \<Rightarrow> 'e \<Rightarrow> partial_file \<Rightarrow> parse_error + partial_file" where
  "add_file_child x c f =
     (if is_any_of x c ''media-type'' ns_jingle_ft_any then Inr (f\<lparr>pf_media_type := Some (el_text x c)\<rparr>)
      else if is_any_of x c ''name'' ns_jingle_ft_any then Inr (f\<lparr>pf_name := Some (el_text x c)\<rparr>)
      else if is_any_of x c ''size'' ns_jingle_ft_any then
        bind_res (parse_nat_attr 64 (el_text x c)) (\<lambda>n. Inr (f\<lparr>pf_size := Some n\<rparr>))
      else if el_is x c ''hash'' ''urn:xmpp:hashes:2'' then
        bind_res (map_err XmppParseError (x_hash x c)) (\<lambda>h. Inr (f\<lparr>pf_hashes := pf_hashes f @ [h]\<rparr>))
      else if is_any_of x c ''desc'' ns_jingle_ft_any then
        Inr (f\<lparr>pf_desc := if el_text x c \<noteq> [] then Some (el_text x c) else None\<rparr>)
      else if el_is x c ''duration'' ns_prose_audio_duration then
        bind_res (parse_nat_attr 64 (el_text x c)) (\<lambda>n. Inr (f\<lparr>pf_duration := Some n\<rparr>))
      else if el_is x c ''thumbnail'' ns_jingle_thumbs then
        bind_res (thumbnail_try_from x c) (\<lambda>t. Inr (f\<lparr>pf_thumbnails := pf_thumbnails f @ [t]\<rparr>))
      else Inr f)"

definition finish_file :: "partial_file \<Rightarrow> parse_error + media_file" where
  "finish_file f =
     (case pf_media_type f of
        None \<Rightarrow> Inl (AnyhowError ([CHR 0x27] @ ''media-type'' @ [CHR 0x27] @ '' element missing in '' @ [CHR 0x27] @
                                 ''file'' @ [CHR 0x27] @ ''.''))
      | Some mt \<Rightarrow>
          (case pf_size f of
             None \<Rightarrow> Inl (AnyhowError ([CHR 0x27] @ ''size'' @ [CHR 0x27] @ '' element missing in '' @ [CHR 0x27] @
                                      ''file'' @ [CHR 0x27] @ ''.''))
           | Some n \<Rightarrow>
               Inr \<lparr>mf_media_type = mt, mf_name = pf_name f, mf_size = n, mf_desc = pf_desc f,
                    mf_duration = pf_duration f, mf_hashes = pf_hashes f, mf_thumbnails = pf_thumbnails f\<rparr>))"

definition file_try_from :: "'e xml \<Rightarrow> 'e \<Rightarrow> parse_error + media_file" where
  "file_try_from x e =
     bind_res (expect_is_any_of x e ''file'' ns_jingle_ft_any) (\<lambda>_.
     bind_res
       (fold_res (add_file_child x) (el_children x e)
          \<lparr>pf_media_type = None, pf_name = None, pf_size = None, pf_desc = None, pf_duration = None,
           pf_hashes = [], pf_thumbnails = []\<rparr>)
       finish_file)"

definition text_child :: "'e xml \<Rightarrow> string \<Rightarrow> string \<Rightarrow> string \<Rightarrow> 'e xml_node" where
  "text_child x n ns t = Child (el_build x n ns [] [Text t])"

definition opt_nodes :: "('a \<Rightarrow> 'e xml_node) \<Rightarrow> 'a option \<Rightarrow> 'e xml_node list" where
  "opt_nodes f v = (case v of None \<Rightarrow> [] | Some a \<Rightarrow> [f a])"

definition file_element :: "'e xml \<Rightarrow> media_file \<Rightarrow> 'e" where
  "file_element x f =
     el_build x ''file'' ns_jingle_ft []
       ([text_child x ''media-type'' ns_jingle_ft (mf_media_type f)] @
        opt_nodes (text_child x ''name'' ns_jingle_ft) (mf_name f) @
        [text_child x ''size'' ns_jingle_ft (show_nat (mf_size f))] @
        opt_nodes (text_child x ''desc'' ns_jingle_ft) (mf_desc f) @
        opt_nodes (\<lambda>d. text_child x ''duration'' ns_prose_audio_duration (show_nat d)) (mf_duration f) @
        map (\<lambda>h. Child (x_build_hash x h)) (mf_hashes f) @
        map (\<lambda>t. Child (thumbnail_element x t)) (mf_thumbnails f))"

record media_share =
  sh_file :: media_file
  sh_sources :: "reference list"

definition add_source :: "'e xml \<Rightarrow> 'e \<Rightarrow> reference list \<Rightarrow> parse_error + reference list" where
  "add_source x c rs =
     (if el_is x c ''reference'' ns_reference
      then bind_res (reference_try_from x c) (\<lambda>r. Inr (rs @ [r])) else Inr rs)"

definition add_share_child :: "'e xml \<Rightarrow> 'e \<Rightarrow> media_file option \<times> reference list \<Rightarrow>
    parse_error + media_file option \<times> reference list" where
  "add_share_child x c s =
     (if is_any_of x c ''file'' ns_jingle_ft_any then
        (if fst s \<noteq> None then
           Inl (AnyhowError ([CHR 0x27] @ ''media-sharing'' @ [CHR 0x27] @ '' element contained more than one '' @
                             [CHR 0x27] @ ''file'' @ [CHR 0x27] @ '' element.''))
         else bind_res (file_try_from x c) (\<lambda>f. Inr (Some f, snd s)))
      else if el_is x c ''sources'' ns_sims then
        bind_res (fold_res (add_source x) (el_children x c) (snd s)) (\<lambda>rs. Inr (fst s, rs))
      else Inr s)"

definition media_share_try_from :: "'e xml \<Rightarrow> 'e \<Rightarrow> parse_error + media_share" where
  "media_share_try_from x e =
     bind_res (expect_is x e ''media-sharing'' ns_sims) (\<lambda>_.
     bind_res (fold_res (add_share_child x) (el_children x e) (None, [])) (\<lambda>s.
     case fst s of
       None \<Rightarrow> Inl (AnyhowError (''Missing '' @ [CHR 0x27] @ ''file'' @ [CHR 0x27] @ '' element in '' @ [CHR 0x27] @
                                ''media-sharing'' @ [CHR 0x27] @ '' element.''))
     | Some f \<Rightarrow>
         (if snd s = [] then
            Inl (AnyhowError (''Missing '' @ [CHR 0x27] @ ''reference'' @ [CHR 0x27] @ '' element in '' @ [CHR 0x27] @
                              ''media-sharing/sources'' @ [CHR 0x27] @ '' element.''))
          else Inr \<lparr>sh_file = f, sh_sources = snd s\<rparr>)))"

definition media_share_element :: "'e xml \<Rightarrow> media_share \<Rightarrow> 'e" where
  "media_share_element x s =
     el_build x ''media-sharing'' ns_sims []
       [Child (file_element x (sh_file s)),
        Child (el_build x ''sources'' ns_sims [] (map (\<lambda>r. Child (reference_element x r)) (sh_sources s)))]"

record oob =
  oob_url :: string
  oob_desc :: "string option"

definition oob_try_from :: "'e xml \<Rightarrow> 'e \<Rightarrow> parse_error + oob" where
  "oob_try_from x e =
     bind_res (expect_is x e ''x'' ns_out_of_band_data) (\<lambda>_.
     case get_child x e ''url'' ns_out_of_band_data of
       None \<Rightarrow> Inl (AnyhowError (''Missing element '' @ [CHR 0x27] @ ''url'' @ [CHR 0x27] @
                                '' in Out-of-band data element.''))
     | Some u \<Rightarrow>
         Inr \<lparr>oob_url = el_text x u, oob_desc = map_option (el_text x) (get_child x e ''desc'' ns_out_of_band_data)\<rparr>)"

definition oob_element :: "'e xml \<Rightarrow> oob \<Rightarrow> 'e" where
  "oob_element x v =
     el_build x ''x'' ns_out_of_band_data []
       ([text_child x ''url'' ns_out_of_band_data (oob_url v)] @
        opt_nodes (text_child x ''desc'' ns_out_of_band_data) (oob_desc v))"


section \<open>Messages\<close>

text \<open>
  \<^verbatim>\<open>message/message.rs\<close> and \<^verbatim>\<open>message/builder.rs\<close>. The bodies and subjects are maps from
  languages to texts.
\<close>

datatype message_type = Chat | ErrorType | Groupchat | Headline | Normal

record 'e message_stanza =
  ms_from :: "jid option"
  ms_to :: "jid option"
  ms_id :: "string option"
  ms_type :: message_type
  ms_bodies :: "(string \<times> string) list"
  ms_subjects :: "(string \<times> string) list"
  ms_thread :: "string option"
  ms_payloads :: "'e list"

definition message_new :: "'e message_stanza" where
  "message_new = \<lparr>ms_from = None, ms_to = None, ms_id = None, ms_type = Normal, ms_bodies = [], ms_subjects = [],
     ms_thread = None, ms_payloads = []\<rparr>"

definition ok_of :: "'f + 'a \<Rightarrow> 'a option" where
  "ok_of r = (case r of Inl _ \<Rightarrow> None | Inr a \<Rightarrow> Some a)"

lemma ok_of_simps [simp]: "ok_of (Inl e) = None" "ok_of (Inr a) = Some a"
  by (simp_all add: ok_of_def)

definition typed_payload_with_predicate :: "('e \<Rightarrow> 'f + 'a) \<Rightarrow> ('e \<Rightarrow> bool) \<Rightarrow> 'e message_stanza \<Rightarrow> 'a option" where
  "typed_payload_with_predicate try_from p m =
     (case find p (ms_payloads m) of None \<Rightarrow> None | Some e \<Rightarrow> ok_of (try_from e))"

definition typed_payload :: "'e xml \<Rightarrow> ('e \<Rightarrow> 'f + 'a) \<Rightarrow> string \<Rightarrow> string \<Rightarrow> 'e message_stanza \<Rightarrow> 'a option" where
  "typed_payload x try_from n ns = typed_payload_with_predicate try_from (\<lambda>e. el_is x e n ns)"

definition typed_payload_vec :: "'e xml \<Rightarrow> ('e \<Rightarrow> 'f + 'a) \<Rightarrow> string \<Rightarrow> string \<Rightarrow> 'e message_stanza \<Rightarrow> 'a list" where
  "typed_payload_vec x try_from n ns m =
     List.map_filter (\<lambda>e. if el_is x e n ns then ok_of (try_from e) else None) (ms_payloads m)"

definition body_of :: "'e xml \<Rightarrow> 'e message_stanza \<Rightarrow> string option" where
  "body_of x m = x_best_text x (ms_bodies m)"

definition subject_of :: "'e xml \<Rightarrow> 'e message_stanza \<Rightarrow> string option" where
  "subject_of x m = x_best_text x (ms_subjects m)"

definition content_with_type :: "'e xml \<Rightarrow> string \<Rightarrow> 'e message_stanza \<Rightarrow> content option" where
  "content_with_type x t =
     typed_payload_with_predicate (content_try_from x)
       (\<lambda>e. el_is x e ''content'' ns_content \<and> el_attr x e ''type'' = Some t)"

definition direct_invite_of :: "'e xml \<Rightarrow> 'e message_stanza \<Rightarrow> direct_invite option" where
  "direct_invite_of x = typed_payload x (direct_invite_try_from x) ''x'' ns_direct_muc_invitations"

definition mediated_invite_of :: "'e xml \<Rightarrow> 'e message_stanza \<Rightarrow> mediated_invite option" where
  "mediated_invite_of x = typed_payload x (mediated_invite_try_from x) ''x'' ns_muc_user"

definition chat_state_of :: "'e xml \<Rightarrow> 'e message_stanza \<Rightarrow> chat_state option" where
  "chat_state_of x = typed_payload_with_predicate (x_chat_state x) (\<lambda>e. el_ns x e = ns_chatstates)"

definition stanza_id_of :: "'e xml \<Rightarrow> 'e message_stanza \<Rightarrow> stanza_id option" where
  "stanza_id_of x = typed_payload x (stanza_id_try_from x) ''stanza-id'' ns_sid"

definition delay_of :: "'e xml \<Rightarrow> 'e message_stanza \<Rightarrow> timestamp option" where
  "delay_of x = typed_payload x (x_delay x) ''delay'' ns_delay"

definition error_of :: "'e xml \<Rightarrow> 'e message_stanza \<Rightarrow> stanza_failure option" where
  "error_of x = typed_payload x (x_stanza_error x) ''error'' ns_default"

definition reactions_of :: "'e xml \<Rightarrow> 'e message_stanza \<Rightarrow> (string \<times> string list) option" where
  "reactions_of x = typed_payload x (reactions_try_from x) ''reactions'' ns_reactions"

definition fastening_of :: "'e xml \<Rightarrow> 'e message_stanza \<Rightarrow> 'e apply_to option" where
  "fastening_of x = typed_payload x (apply_to_try_from x) ''apply-to'' ns_fasten"

definition replace_of :: "'e xml \<Rightarrow> 'e message_stanza \<Rightarrow> string option" where
  "replace_of x = typed_payload x (x_replace x) ''replace'' ns_message_correct"

definition received_marker_of :: "'e xml \<Rightarrow> 'e message_stanza \<Rightarrow> string option" where
  "received_marker_of x = typed_payload x (marker_id ''received'' x) ''received'' ns_chat_markers"

definition displayed_marker_of :: "'e xml \<Rightarrow> 'e message_stanza \<Rightarrow> string option" where
  "displayed_marker_of x = typed_payload x (marker_id ''displayed'' x) ''displayed'' ns_chat_markers"

definition message_muc_user_of :: "'e xml \<Rightarrow> 'e message_stanza \<Rightarrow> message_muc_user option" where
  "message_muc_user_of x = typed_payload x (message_muc_user_try_from x) ''x'' ns_muc_user"

definition anon_occupant_id_of :: "'e xml \<Rightarrow> 'e message_stanza \<Rightarrow> string option" where
  "anon_occupant_id_of x = typed_payload x (x_occupant_id x) ''occupant-id'' ns_occupant_id"

definition muc_invite_of :: "'e xml \<Rightarrow> 'e message_stanza \<Rightarrow> muc_invite option" where
  "muc_invite_of x = typed_payload x (muc_invite_try_from x) ''x'' ns_muc_user"

definition oob_attachments_of :: "'e xml \<Rightarrow> 'e message_stanza \<Rightarrow> oob list" where
  "oob_attachments_of x = typed_payload_vec x (oob_try_from x) ''x'' ns_out_of_band_data"

definition media_share_of :: "'e xml \<Rightarrow> 'e \<Rightarrow> media_share option" where
  "media_share_of x e =
     (if \<not> el_is x e ''reference'' ns_reference \<or> el_attr x e ''type'' \<noteq> Some ''data'' then None
      else
        (case el_children x e of
           [] \<Rightarrow> None
         | c # _ \<Rightarrow>
             if el_is x c ''media-sharing'' ns_sims then ok_of (media_share_try_from x c) else None))"

definition media_shares_of :: "'e xml \<Rightarrow> 'e message_stanza \<Rightarrow> media_share list" where
  "media_shares_of x m = List.map_filter (media_share_of x) (ms_payloads m)"

definition mentions_of :: "'e xml \<Rightarrow> 'e message_stanza \<Rightarrow> reference list" where
  "mentions_of x m =
     List.map_filter (\<lambda>e. if el_is x e ''reference'' ns_reference \<and> el_attr x e ''type'' = Some ''mention''
       then ok_of (reference_try_from x e) else None) (ms_payloads m)"

definition omemo_element_of :: "'e xml \<Rightarrow> 'e message_stanza \<Rightarrow> omemo_encrypted option" where
  "omemo_element_of x = typed_payload x (x_omemo x) ''encrypted'' ns_legacy_omemo"

definition reply_of :: "'e xml \<Rightarrow> 'e message_stanza \<Rightarrow> reply option" where
  "reply_of x = typed_payload x (reply_try_from x) ''reply'' ns_reply"

definition fallback_for :: "'e xml \<Rightarrow> string option \<Rightarrow> 'e message_stanza \<Rightarrow> fallback option" where
  "fallback_for x ns =
     typed_payload_with_predicate (fallback_try_from x)
       (\<lambda>e. el_is x e ''fallback'' ns_fallback \<and> (case ns of None \<Rightarrow> True | Some n \<Rightarrow> el_attr x e ''for'' = Some n))"

definition push_payload :: "'e \<Rightarrow> 'e message_stanza \<Rightarrow> 'e message_stanza" where
  "push_payload e m = m\<lparr>ms_payloads := ms_payloads m @ [e]\<rparr>"

definition set_body :: "string \<Rightarrow> 'e message_stanza \<Rightarrow> 'e message_stanza" where
  "set_body b m = m\<lparr>ms_bodies := AList.update [] b (ms_bodies m)\<rparr>"

definition add_content :: "'e xml \<Rightarrow> string \<Rightarrow> string \<Rightarrow> 'e message_stanza \<Rightarrow> 'e message_stanza" where
  "add_content x t c = push_payload (content_element x \<lparr>cn_type = t, cn_content = c\<rparr>)"

definition add_references :: "'e xml \<Rightarrow> reference list \<Rightarrow> 'e message_stanza \<Rightarrow> 'e message_stanza" where
  "add_references x rs m = m\<lparr>ms_payloads := ms_payloads m @ map (reference_element x) rs\<rparr>"

text \<open>\<^verbatim>\<open>message/forwarding.rs\<close>, \<^verbatim>\<open>mam.rs\<close> and \<^verbatim>\<open>mods/chat.rs\<close>.\<close>

record 'e forwarded =
  fw_delay :: "timestamp option"
  fw_stanza :: "'e message_stanza option"

record 'e archived_message =
  am_id :: string
  am_forwarded :: "'e forwarded"

datatype 'e carbon = CarbonReceived "'e forwarded" | CarbonSent "'e forwarded"

end
