(* ===== verification/EventParser.thy ===== *)
theory EventParser
  imports Stanzas UserInfoService Events
begin

text \<open>
  Server events and how they are made from what the XMPP layer reports
  (\<^verbatim>\<open>app/event_handlers/server_event.rs\<close>, \<^verbatim>\<open>infra/xmpp/event_parser\<close>,
  \<^verbatim>\<open>infra/xmpp/util/presence_ext.rs\<close> and the conversions of
  \<^verbatim>\<open>infra/xmpp/type_conversions\<close> they use).

  A parser appends events to its context; the state of these programs is the list of events. Reading
  a vCard and a user activity is not modelled: the XMPP events carry the result of the conversion.
\<close>

section \<open>Events\<close>

datatype server_connection_event = SConnected | SDisconnected "connection_error option" | SPingTimer

datatype user_status_event_type = PresenceChanged presence | ComposeStateChanged compose_state

record user_status_event =
  use_user_id :: user_endpoint_id
  use_type :: user_status_event_type

datatype user_info_event_type =
    UserAvatarChanged avatar_metadata
  | ProfileChanged user_profile
  | StatusChanged "user_status option"
  | NicknameChanged "string option"

record user_info_event =
  uie_user_id :: user_id
  uie_type :: user_info_event_type

datatype request_event_type = PingRequest | LocalTimeRequest | LastActivityRequest | CapabilitiesRequest capabilities_id | SoftwareVersionRequest

record request_event =
  rq_sender_id :: jid
  rq_request_id :: string
  rq_type :: request_event_type

datatype server_room_event_type =
    Destroyed "muc_id option"
  | RoomConfigChanged
  | RoomTopicChanged "string option"
  | ReceivedInvitation user_resource_id "string option"
  | UserAdded user_id room_affiliation "string option"

record room_event =
  rme_room_id :: muc_id
  rme_type :: server_room_event_type

datatype occupant_event_type = AffiliationChanged room_affiliation | DisconnectedByServer | PermanentlyRemoved

record occupant_event =
  oe_occupant_id :: occupant_id
  oe_anon_occupant_id :: "anon_occupant_id option"
  oe_real_id :: "user_id option"
  oe_is_self :: bool
  oe_type :: occupant_event_type

datatype 'e message_event = MessageReceived "'e message_stanza" | MessageSync "'e carbon" | MessageSent "'e message_stanza"

datatype ('i, 'a) pub_sub_event_type = AddedOrUpdated "'a list" | Deleted "'i list" | Purged

record ('i, 'a) pub_sub_event =
  pse_user_id :: user_id
  pse_type :: "('i, 'a) pub_sub_event_type"

datatype contact_list_event_type =
    ContactAddedOrPresenceSubscriptionUpdated presence_subscription
  | ContactRemoved
  | PresenceSubscriptionRequested "string option"

record contact_list_event =
  cle_contact_id :: user_id
  cle_type :: contact_list_event_type

datatype block_list_event = UserBlocked user_id | UserUnblocked user_id | BlockListCleared

record device =
  dv_id :: device_id
  dv_label :: "string option"

datatype 'e server_event =
    BlockListEv block_list_event
  | ConnectionEv server_connection_event
  | ContactListEv contact_list_event
  | UserStatusEv user_status_event
  | UserInfoEv user_info_event
  | RoomEv room_event
  | OccupantEv occupant_event
  | RequestEv request_event
  | MessageEv "'e message_event"
  | SidebarBookmarkEv "(bare_jid, bookmark) pub_sub_event"
  | SyncedRoomSettingsEv "(room_id, synced_room_settings) pub_sub_event"
  | UserDeviceEv "(string, device list) pub_sub_event"

section \<open>Presences\<close>

datatype presence_type =
  PNone | PErrorType | PProbe | PSubscribe | PSubscribed | PUnavailable | PUnsubscribe | PUnsubscribed

datatype presence_show = ShowAway | ShowChat | ShowDnd | ShowXa

record 'e presence_stanza =
  ps_from :: "jid option"
  ps_type :: presence_type
  ps_show :: "presence_show option"
  ps_priority :: int
  ps_statuses :: "(string \<times> string) list"
  ps_payloads :: "'e list"

text \<open>\<^verbatim>\<open>type_conversions/availability.rs\<close>, \<^verbatim>\<open>room_affiliation.rs\<close> and
  \<^verbatim>\<open>compose_state.rs\<close>.\<close>

fun availability_from :: "presence_type option \<Rightarrow> presence_show option \<Rightarrow> availability" where
  "availability_from None None = Available"
| "availability_from None (Some ShowAway) = Away"
| "availability_from None (Some ShowChat) = Available"
| "availability_from None (Some ShowDnd) = DoNotDisturb"
| "availability_from None (Some ShowXa) = Invisible"
| "availability_from (Some _) _ = Unavailable"

fun presence_show_from :: "availability \<Rightarrow> string + presence_show" where
  "presence_show_from Available = Inr ShowChat"
| "presence_show_from Unavailable =
     Inl (''You cannot set yourself to Unavailable. Choose '' @ [CHR 0x27] @ ''Away'' @ [CHR 0x27] @ '' instead.'')"
| "presence_show_from DoNotDisturb = Inr ShowDnd"
| "presence_show_from Away = Inr ShowAway"
| "presence_show_from Invisible = Inr ShowXa"

fun room_affiliation_from :: "affiliation \<Rightarrow> room_affiliation" where
  "room_affiliation_from AffOwner = Owner"
| "room_affiliation_from AffAdmin = Admin"
| "room_affiliation_from AffMember = Member"
| "room_affiliation_from AffOutcast = Outcast"
| "room_affiliation_from AffNone = NoAffiliation"

fun compose_state_from :: "chat_state \<Rightarrow> compose_state" where
  "compose_state_from CSComposing = Composing"
| "compose_state_from CSActive = Idle"
| "compose_state_from CSGone = Idle"
| "compose_state_from CSInactive = Idle"
| "compose_state_from CSPaused = Idle"

text \<open>
  \<^verbatim>\<open>PresenceExt\<close>: the first payload of a kind counts, also when it cannot be parsed.
  \<open>client\<close> parses the URL of a client.
\<close>

definition presence_payload :: "'e xml \<Rightarrow> string \<Rightarrow> string \<Rightarrow> 'e presence_stanza \<Rightarrow> 'e option" where
  "presence_payload x n ns p = find (\<lambda>e. el_is x e n ns) (ps_payloads p)"

definition presence_anon_occupant_id :: "'e xml \<Rightarrow> 'e presence_stanza \<Rightarrow> anon_occupant_id option" where
  "presence_anon_occupant_id x p =
     map_option AnonOccupantId
       (Option.bind (presence_payload x ''occupant-id'' ns_occupant_id p) (\<lambda>e. el_attr x e ''id''))"

definition presence_availability :: "'e presence_stanza \<Rightarrow> availability" where
  "presence_availability p =
     availability_from (if ps_type p \<noteq> PNone then Some (ps_type p) else None) (ps_show p)"

definition hex_digit :: "nat \<Rightarrow> char" where
  "hex_digit n = (if n < 10 then char_of (48 + n) else char_of (87 + n))"

definition hex_byte :: "nat \<Rightarrow> string" where
  "hex_byte b = [hex_digit (b div 16), hex_digit (b mod 16)]"

definition presence_avatar_id :: "'e xml \<Rightarrow> 'e presence_stanza \<Rightarrow> string option" where
  "presence_avatar_id x p =
     map_option (\<lambda>bytes. concat (map hex_byte bytes))
       (Option.bind (Option.bind (presence_payload x ''x'' ns_vcard_update p) (\<lambda>e. ok_of (x_vcard_photo x e))) (\<lambda>d. d))"

definition presence_nickname :: "'e xml \<Rightarrow> 'e presence_stanza \<Rightarrow> string option" where
  "presence_nickname x p =
     Option.bind (presence_payload x ''nick'' ns_nick p) (\<lambda>e. ok_of (x_nick x e))"

definition presence_caps :: "'e xml \<Rightarrow> 'e presence_stanza \<Rightarrow> caps option" where
  "presence_caps x p = Option.bind (presence_payload x ''c'' ns_caps p) (\<lambda>e. ok_of (x_caps x e))"

definition presence_muc_user :: "'e xml \<Rightarrow> 'e presence_stanza \<Rightarrow> muc_user option" where
  "presence_muc_user x p =
     Option.bind (presence_payload x ''x'' ns_muc_user p) (\<lambda>e. ok_of (muc_user_try_from x e))"

definition caps_id :: "caps \<Rightarrow> capabilities_id" where
  "caps_id c = capabilities_id_new (caps_node c) (caps_hash_base64 c)"

definition to_domain_presence :: "'e xml \<Rightarrow> (string \<Rightarrow> jabber_client option) \<Rightarrow> 'e presence_stanza \<Rightarrow> participant_id \<Rightarrow>
    user_id option \<Rightarrow> presence" where
  "to_domain_presence x client p participant real_id =
     \<lparr>pr_availability = presence_availability p,
      pr_avatar = map_option (\<lambda>i. \<lparr>avatar_id = i, avatar_src = Vcard participant real_id\<rparr>) (presence_avatar_id x p),
      pr_caps = map_option caps_id (presence_caps x p),
      pr_client = Option.bind (presence_caps x p) (\<lambda>c. client (caps_node c)),
      pr_nickname = presence_nickname x p,
      pr_priority = ps_priority p,
      pr_status = (case ps_statuses p of [] \<Rightarrow> None | s # _ \<Rightarrow> Some (snd s))\<rparr>"


section \<open>Parsers\<close>

type_synonym 'e parser = "('e server_event list, unit) program"

definition push_event :: "'e server_event \<Rightarrow> 'e parser" where
  "push_event ev = modify_world (\<lambda>evs. evs @ [ev])"

definition fail :: "string \<Rightarrow> ('s, 'a) program" where
  "fail msg = throw (Anyhow msg)"

definition require_user :: "bare_jid \<Rightarrow> ('s, user_id) program" where
  "require_user j = lift_panic ''UserId without node'' (user_id_from j)"

definition require_resource :: "full_jid \<Rightarrow> ('s, user_resource_id) program" where
  "require_resource j = lift_panic ''UserResourceId without node'' (user_resource_id_from j)"

definition require_full :: "string \<Rightarrow> jid \<Rightarrow> ('s, full_jid) program" where
  "require_full msg j = (case j of JFull f \<Rightarrow> return f | JBare _ \<Rightarrow> fail msg)"

text \<open>The display of errors; those of other crates are carried as strings.\<close>

fun show_int_error :: "int_error \<Rightarrow> string" where
  "show_int_error EmptyInt = ''cannot parse integer from empty string''"
| "show_int_error InvalidDigit = ''invalid digit found in string''"
| "show_int_error PosOverflow = ''number too large to fit in target type''"

fun show_parse_error :: "parse_error \<Rightarrow> string" where
  "show_parse_error (GenericParseError msg) = ''Parse error: '' @ msg"
| "show_parse_error (XmppParseError msg) = msg"
| "show_parse_error (ParseIntError e) = show_int_error e"
| "show_parse_error (JidError msg) = msg"
| "show_parse_error (RequestGeneric msg) = ''Request error: '' @ msg"
| "show_parse_error (AnyhowError msg) = msg"

definition lift_parse :: "parse_error + 'a \<Rightarrow> ('s, 'a) program" where
  "lift_parse r = (case r of Inl err \<Rightarrow> fail (show_parse_error err) | Inr a \<Rightarrow> return a)"

text \<open>\<open>shown\<close> is the stanza as XML text.\<close>

definition missing_attribute :: "string \<Rightarrow> string \<Rightarrow> string \<Rightarrow> ('s, 'a) program" where
  "missing_attribute attr element shown =
     fail (''Missing attribute `'' @ attr @ ''` in '' @ element @ ''. '' @ shown)"

definition missing_element :: "string \<Rightarrow> string \<Rightarrow> string \<Rightarrow> ('s, 'a) program" where
  "missing_element missing element shown =
     fail (''Missing element `'' @ missing @ ''` in '' @ element @ ''. '' @ shown)"

section \<open>Parsing presences\<close>

definition is_permanent_removal :: "muc_status \<Rightarrow> bool" where
  "is_permanent_removal s \<longleftrightarrow> s = Banned \<or> s = Kicked \<or> s = RemovalFromRoom \<or> s = ConfigMembersOnly"

definition is_server_disconnect :: "muc_status \<Rightarrow> bool" where
  "is_server_disconnect s \<longleftrightarrow> s = ServiceShutdown \<or> s = ServiceErrorKick"

text \<open>The event about the occupant that follows the one about their presence, if there is one.\<close>

definition occupant_event_for :: "availability \<Rightarrow> muc_user \<Rightarrow> muc_item \<Rightarrow> occupant_event_type option" where
  "occupant_event_for av u item =
     (if av = Unavailable \<and> find is_permanent_removal (mu_status u) \<noteq> None then Some PermanentlyRemoved
      else if av = Unavailable \<and> find is_server_disconnect (mu_status u) \<noteq> None then Some DisconnectedByServer
      else if av = Unavailable then None
      else Some (AffiliationChanged (room_affiliation_from (mi_affiliation item))))"

definition parse_muc_presence :: "'e xml \<Rightarrow> (string \<Rightarrow> jabber_client option) \<Rightarrow> (muc_user \<Rightarrow> string) \<Rightarrow> jid \<Rightarrow>
    'e presence_stanza \<Rightarrow> muc_user \<Rightarrow> 'e parser" where
  "parse_muc_presence x client shown from p u =
     bindM (require_full ''Expected FullJid in MUC presence.'' from) (\<lambda>full.
     let oc = OccupantId full in
     case mu_items u of
       [] \<Rightarrow> missing_element ''item'' ''x'' (shown u)
     | item # _ \<Rightarrow>
         (case mu_destroy u of
            Some d \<Rightarrow> push_event (RoomEv \<lparr>rme_room_id = MucId (to_bare full), rme_type = Destroyed (map_option MucId (ds_jid d))\<rparr>)
          | None \<Rightarrow>
              bindM (case mi_jid item of
                       None \<Rightarrow> return None
                     | Some j \<Rightarrow> bindM (require_user (to_bare j)) (\<lambda>u. return (Some u))) (\<lambda>real_id.
              thenM (push_event (UserStatusEv \<lparr>use_user_id = EOccupant oc,
                       use_type = PresenceChanged (to_domain_presence x client p (POccupant oc) real_id)\<rparr>))
              (case occupant_event_for (presence_availability p) u item of
                 None \<Rightarrow> return ()
               | Some t \<Rightarrow>
                   push_event (OccupantEv \<lparr>oe_occupant_id = oc, oe_anon_occupant_id = presence_anon_occupant_id x p,
                     oe_real_id = real_id, oe_is_self = SelfPresence \<in> set (mu_status u), oe_type = t\<rparr>)))))"

definition parse_presence :: "'e xml \<Rightarrow> (string \<Rightarrow> jabber_client option) \<Rightarrow> (muc_user \<Rightarrow> string) \<Rightarrow> ('e presence_stanza \<Rightarrow> string) \<Rightarrow>
    'e presence_stanza \<Rightarrow> 'e parser" where
  "parse_presence x client shown_user shown p =
     (case ps_from p of
        None \<Rightarrow> missing_attribute ''from'' ''presence'' (shown p)
      | Some from \<Rightarrow>
          (case presence_muc_user x p of
             Some u \<Rightarrow> parse_muc_presence x client shown_user from p u
           | None \<Rightarrow>
               bindM (require_user (jid_into_bare from)) (\<lambda>user.
               bindM (case from of
                        JFull f \<Rightarrow> bindM (require_resource f) (\<lambda>r. return (EResource r))
                      | JBare b \<Rightarrow> bindM (require_user b) (\<lambda>v. return (EUser v))) (\<lambda>endpoint.
               push_event (UserStatusEv \<lparr>use_user_id = endpoint,
                 use_type = PresenceChanged (to_domain_presence x client p (PUser user) None)\<rparr>)))))"

section \<open>Parsing messages\<close>

definition is_config_change :: "muc_status \<Rightarrow> bool" where
  "is_config_change s \<longleftrightarrow>
     s \<in> {ConfigNonPrivacyRelated, ConfigShowsUnavailableMembers, ConfigHidesUnavailableMembers, ConfigMembersOnly,
          ConfigRoomLoggingDisabled, ConfigRoomLoggingEnabled, ConfigRoomNonAnonymous, ConfigRoomSemiAnonymous}"

definition parse_group_chat_message :: "'e xml \<Rightarrow> jid \<Rightarrow> 'e message_stanza \<Rightarrow> 'e parser" where
  "parse_group_chat_message x from m =
     (let room_id = MucId (jid_into_bare from) in
      bindM (case find (\<lambda>e. el_is x e ''x'' ns_muc_user) (ms_payloads m) of
               None \<Rightarrow> return False
             | Some e \<Rightarrow> bindM (lift_parse (muc_user_try_from x e)) (\<lambda>u. return (find is_config_change (mu_status u) \<noteq> None)))
      (\<lambda>config_changed.
      if config_changed then push_event (RoomEv \<lparr>rme_room_id = room_id, rme_type = RoomConfigChanged\<rparr>)
      else
        (case subject_of x m of
           Some subject \<Rightarrow>
             push_event (RoomEv \<lparr>rme_room_id = room_id, rme_type = RoomTopicChanged (if subject \<noteq> [] then Some subject else None)\<rparr>)
         | None \<Rightarrow> push_event (MessageEv (MessageReceived m)))))"

definition parse_chat_message :: "'e message_stanza \<Rightarrow> 'e parser" where
  "parse_chat_message m = push_event (MessageEv (MessageReceived m))"

definition parse_normal_message :: "'e xml \<Rightarrow> jid \<Rightarrow> 'e message_stanza \<Rightarrow> 'e parser" where
  "parse_normal_message x from m =
     (if direct_invite_of x m \<noteq> None \<or> mediated_invite_of x m \<noteq> None then return ()
      else
        (case muc_invite_of x m of
           None \<Rightarrow> return ()
         | Some i \<Rightarrow>
             bindM (require_user (inv_jid i)) (\<lambda>u.
             push_event (RoomEv \<lparr>rme_room_id = MucId (jid_into_bare from),
               rme_type = UserAdded u (room_affiliation_from (inv_affiliation i)) (inv_reason i)\<rparr>))))"

definition parse_message :: "'e xml \<Rightarrow> ('e message_stanza \<Rightarrow> string) \<Rightarrow> 'e message_stanza \<Rightarrow> 'e parser" where
  "parse_message x shown m =
     (case ms_from m of
        None \<Rightarrow> missing_attribute ''from'' ''message'' (shown m)
      | Some from \<Rightarrow>
          (if chat_state_of x m \<noteq> None \<and> body_of x m = None then return ()
           else
             (case ms_type m of
                Groupchat \<Rightarrow> parse_group_chat_message x from m
              | Chat \<Rightarrow> parse_chat_message m
              | Normal \<Rightarrow> parse_normal_message x from m
              | Headline \<Rightarrow> return ()
              | ErrorType \<Rightarrow> return ())))"


section \<open>Parsing publications\<close>

text \<open>
  \<^verbatim>\<open>type_conversions/bookmark.rs\<close>, \<^verbatim>\<open>synced_room_settings.rs\<close>, \<^verbatim>\<open>message_ref.rs\<close>,
  \<^verbatim>\<open>user_device.rs\<close> and \<^verbatim>\<open>stanza/omemo\<close>. A bookmark of a direct message whose JID has no
  node makes the parser panic.
\<close>

definition ns_prose_bookmark :: string where "ns_prose_bookmark = ''https://prose.org/protocol/bookmark''"
definition ns_prose_room_settings :: string where "ns_prose_room_settings = ''https://prose.org/protocol/room_settings''"
definition ns_prose_archived_message_ref :: string where
  "ns_prose_archived_message_ref = ''https://prose.org/protocol/archived_message_ref''"
definition ns_legacy_omemo_devicelist :: string where
  "ns_legacy_omemo_devicelist = ''eu.siacs.conversations.axolotl.devicelist''"

fun show_bookmark_type :: "bookmark_type \<Rightarrow> string" where
  "show_bookmark_type BDirectMessage = ''dm''"
| "show_bookmark_type BGroup = ''group''"
| "show_bookmark_type BPrivateChannel = ''private-channel''"
| "show_bookmark_type BPublicChannel = ''public-channel''"
| "show_bookmark_type BGeneric = ''generic''"

definition bookmark_type_from_str :: "string \<Rightarrow> parse_error + bookmark_type" where
  "bookmark_type_from_str s =
     (if s = ''dm'' then Inr BDirectMessage
      else if s = ''group'' then Inr BGroup
      else if s = ''private-channel'' then Inr BPrivateChannel
      else if s = ''public-channel'' then Inr BPublicChannel
      else if s = ''generic'' then Inr BGeneric
      else Inl (GenericParseError (''Unknown RoomType '' @ s)))"

definition sidebar_state_from_attrs :: "bool \<Rightarrow> bool \<Rightarrow> room_sidebar_state" where
  "sidebar_state_from_attrs in_sidebar favorite =
     (if in_sidebar \<and> favorite then Favorite else if in_sidebar then InSidebar else NotInSidebar)"

definition bookmark_from_element :: "'e xml \<Rightarrow> 'e \<Rightarrow> ('s, bookmark) program" where
  "bookmark_from_element x e =
     thenM (lift_parse (expect_is x e ''bookmark'' ns_prose_bookmark))
     (bindM (lift_parse (bind_res (attr_req x e ''type'') bookmark_type_from_str)) (\<lambda>t.
     bindM (lift_parse (bind_res (attr_req x e ''jid'') (parse_bare_attr x))) (\<lambda>j.
     bindM (if t = BDirectMessage then bindM (require_user j) (\<lambda>u. return (RUser u)) else return (RMuc (MucId j))) (\<lambda>room_id.
     bindM (lift_parse (attr_req x e ''name'')) (\<lambda>n.
     return \<lparr>bm_name = n, bm_jid = room_id, bm_type = t,
             bm_sidebar_state = sidebar_state_from_attrs (el_attr x e ''sidebar'' \<noteq> None) (el_attr x e ''favorite'' \<noteq> None)\<rparr>)))))"

definition bookmark_element :: "'e xml \<Rightarrow> bookmark \<Rightarrow> 'e" where
  "bookmark_element x b =
     el_build x ''bookmark'' ns_prose_bookmark
       [(''name'', Some (bm_name b)), (''jid'', Some (show_bare (into_bare (bm_jid b)))),
        (''type'', Some (show_bookmark_type (bm_type b))),
        (''favorite'', if bm_sidebar_state b = Favorite then Some ''1'' else None),
        (''sidebar'', if is_in_sidebar (bm_sidebar_state b) then Some ''1'' else None)] []"

text \<open>\<open>time\<close> parses a timestamp, \<open>show_time\<close> writes one.\<close>

definition archived_ref_from_element :: "'e xml \<Rightarrow> (string \<Rightarrow> string + timestamp) \<Rightarrow> 'e \<Rightarrow> parse_error + archived_message_ref" where
  "archived_ref_from_element x time e =
     bind_res (attr_req x e ''stanza-id'') (\<lambda>i.
     bind_res (attr_req x e ''ts'') (\<lambda>ts.
     bind_res (map_err GenericParseError (time ts)) (\<lambda>t.
     Inr \<lparr>am_stanza_id = i, am_timestamp = t\<rparr>)))"

definition archived_ref_element :: "'e xml \<Rightarrow> (timestamp \<Rightarrow> string) \<Rightarrow> archived_message_ref \<Rightarrow> 'e" where
  "archived_ref_element x show_time a =
     el_build x ''archived-message-ref'' ns_prose_archived_message_ref
       [(''stanza-id'', Some (am_stanza_id a)), (''ts'', Some (show_time (am_timestamp a)))] []"

text \<open>\<^verbatim>\<open>RoomId::from_str\<close> with its errors.\<close>

definition parse_room_key :: "'e xml \<Rightarrow> string \<Rightarrow> string + room_id" where
  "parse_room_key x s =
     (case strip_prefix ''user:'' s of
        Some t \<Rightarrow> bind_res (x_bare_jid x t) (\<lambda>j. Inr (RUser (UserId j)))
      | None \<Rightarrow>
          (case strip_prefix ''muc:'' s of
             Some t \<Rightarrow> bind_res (x_bare_jid x t) (\<lambda>j. Inr (RMuc (MucId j)))
           | None \<Rightarrow> Inl (''Scheme should be '' @ [CHR 0x27] @ ''user'' @ [CHR 0x27] @ '' or '' @ [CHR 0x27] @ ''muc'' @ [CHR 0x27])))"

definition room_settings_from_element :: "'e xml \<Rightarrow> (string \<Rightarrow> string + timestamp) \<Rightarrow> 'e \<Rightarrow> parse_error + synced_room_settings" where
  "room_settings_from_element x time e =
     bind_res (attr_req x e ''room-id'') (\<lambda>key.
     bind_res (map_err GenericParseError (parse_room_key x key)) (\<lambda>room_id.
     bind_res (traverse_opt (archived_ref_from_element x time)
                 (get_child x e ''archived-message-ref'' ns_prose_archived_message_ref)) (\<lambda>ref.
     bind_res (traverse_opt (\<lambda>c. attr_req x c ''type'') (get_child x e ''encryption'' ns_prose_room_settings)) (\<lambda>enc.
     Inr \<lparr>ss_room_id = room_id, ss_encryption_enabled = (enc = Some ''omemo''), ss_last_read_message = ref\<rparr>))))"

definition room_settings_element :: "'e xml \<Rightarrow> (timestamp \<Rightarrow> string) \<Rightarrow> synced_room_settings \<Rightarrow> 'e" where
  "room_settings_element x show_time s =
     el_build x ''room-settings'' ns_prose_room_settings [(''room-id'', Some (room_raw_key_string (ss_room_id s)))]
       ((case ss_last_read_message s of None \<Rightarrow> [] | Some a \<Rightarrow> [Child (archived_ref_element x show_time a)]) @
        [Child (el_build x ''encryption'' ns_prose_room_settings
           [(''type'', Some (if ss_encryption_enabled s then ''omemo'' else ''none''))] [])])"

definition device_from_element :: "'e xml \<Rightarrow> 'e \<Rightarrow> parse_error + device" where
  "device_from_element x e =
     bind_res (expect_is x e ''device'' ns_legacy_omemo) (\<lambda>_.
     bind_res (bind_res (attr_req x e ''id'') (parse_nat_attr 32)) (\<lambda>i.
     Inr \<lparr>dv_id = i, dv_label = el_attr x e ''label''\<rparr>))"

definition device_element :: "'e xml \<Rightarrow> device \<Rightarrow> 'e" where
  "device_element x d =
     el_build x ''device'' ns_legacy_omemo [(''id'', Some (show_nat (dv_id d))), (''label'', dv_label d)] []"

definition device_list_from_element :: "'e xml \<Rightarrow> 'e \<Rightarrow> parse_error + device list" where
  "device_list_from_element x e =
     bind_res (expect_is x e ''list'' ns_legacy_omemo) (\<lambda>_.
     fold_res (\<lambda>c ds. bind_res (device_from_element x c) (\<lambda>d. Inr (ds @ [d]))) (el_children x e) [])"

definition device_list_element :: "'e xml \<Rightarrow> device list \<Rightarrow> 'e" where
  "device_list_element x ds = el_build x ''list'' ns_legacy_omemo [] (map (\<lambda>d. Child (device_element x d)) ds)"

text \<open>
  \<^verbatim>\<open>event_parser/pubsub\<close>. The parser of a node reads its items (those it cannot read are left
  out) and their ids (one it cannot read is an error) and makes a server event.
\<close>

record 'e pub_sub_item =
  it_id :: string
  it_payload :: "'e option"

datatype 'e xmpp_pub_sub =
    Configuration string
  | DeleteNode string
  | PublishedItems string "'e pub_sub_item list"
  | RetractedItems string "string list"
  | PurgeNode string
  | SubscriptionChange string

fun pub_sub_node :: "'e xmpp_pub_sub \<Rightarrow> string" where
  "pub_sub_node (Configuration n) = n"
| "pub_sub_node (DeleteNode n) = n"
| "pub_sub_node (PublishedItems n _) = n"
| "pub_sub_node (RetractedItems n _) = n"
| "pub_sub_node (PurgeNode n) = n"
| "pub_sub_node (SubscriptionChange n) = n"

definition filter_mapM :: "('a \<Rightarrow> ('s, 'b) program) \<Rightarrow> 'a list \<Rightarrow> ('s, 'b list) program" where
  "filter_mapM f xs =
     bindM (mapM (\<lambda>v. attempt (f v)) xs) (\<lambda>rs. return (List.map_filter ok_of rs))"

definition handle_added_or_updated_items :: "('e \<Rightarrow> ('e server_event list, 'a) program) \<Rightarrow>
    (('i, 'a) pub_sub_event \<Rightarrow> 'e server_event) \<Rightarrow> user_id \<Rightarrow> 'e pub_sub_item list \<Rightarrow> 'e parser" where
  "handle_added_or_updated_items read to_server_event from items =
     bindM (filter_mapM (\<lambda>it. case it_payload it of None \<Rightarrow> fail ''Encountered missing payload'' | Some e \<Rightarrow> read e) items) (\<lambda>vs.
     push_event (to_server_event \<lparr>pse_user_id = from, pse_type = AddedOrUpdated vs\<rparr>))"

definition handle_retracted_items :: "(string \<Rightarrow> string + 'i) \<Rightarrow>
    (('i, 'a) pub_sub_event \<Rightarrow> 'e server_event) \<Rightarrow> user_id \<Rightarrow> string list \<Rightarrow> 'e parser" where
  "handle_retracted_items parse_id to_server_event from ids =
     bindM (mapM (\<lambda>i. case parse_id i of
              Inr v \<Rightarrow> return v
            | Inl err \<Rightarrow> fail (''Failed to parse pubsub id '' @ [CHR 0x27] @ i @ [CHR 0x27] @ '': '' @ err)) ids) (\<lambda>vs.
     push_event (to_server_event \<lparr>pse_user_id = from, pse_type = Deleted vs\<rparr>))"

definition handle_purge :: "(('i, 'a) pub_sub_event \<Rightarrow> 'e server_event) \<Rightarrow> user_id \<Rightarrow> 'e parser" where
  "handle_purge to_server_event from = push_event (to_server_event \<lparr>pse_user_id = from, pse_type = Purged\<rparr>)"

definition parse_pubsub_with :: "('e \<Rightarrow> ('e server_event list, 'a) program) \<Rightarrow> (string \<Rightarrow> string + 'i) \<Rightarrow>
    (('i, 'a) pub_sub_event \<Rightarrow> 'e server_event) \<Rightarrow> user_id \<Rightarrow> 'e xmpp_pub_sub \<Rightarrow> 'e parser" where
  "parse_pubsub_with read parse_id to_server_event from ev =
     (case ev of
        PublishedItems _ items \<Rightarrow> handle_added_or_updated_items read to_server_event from items
      | RetractedItems _ ids \<Rightarrow> handle_retracted_items parse_id to_server_event from ids
      | PurgeNode _ \<Rightarrow> handle_purge to_server_event from
      | DeleteNode _ \<Rightarrow> handle_purge to_server_event from
      | Configuration _ \<Rightarrow> return ()
      | SubscriptionChange _ \<Rightarrow> return ())"

definition nickname_event :: "(string, string) pub_sub_event \<Rightarrow> 'e server_event" where
  "nickname_event ev =
     UserInfoEv \<lparr>uie_user_id = pse_user_id ev,
       uie_type = NicknameChanged
         (case pse_type ev of AddedOrUpdated nicks \<Rightarrow> (if nicks = [] then None else Some (last nicks)) | Deleted _ \<Rightarrow> None | Purged \<Rightarrow> None)\<rparr>"

text \<open>\<^verbatim>\<open>get_parser\<close>: the parser of a node, for one event.\<close>

definition node_parser :: "'e xml \<Rightarrow> (string \<Rightarrow> string + timestamp) \<Rightarrow> string \<Rightarrow> (user_id \<Rightarrow> 'e xmpp_pub_sub \<Rightarrow> 'e parser) option" where
  "node_parser x time ns =
     (if ns = ns_prose_bookmark then
        Some (parse_pubsub_with (bookmark_from_element x) (x_bare_jid x) SidebarBookmarkEv)
      else if ns = ns_legacy_omemo_devicelist then
        Some (parse_pubsub_with (\<lambda>e. lift_parse (device_list_from_element x e)) Inr UserDeviceEv)
      else if ns = ns_prose_room_settings then
        Some (parse_pubsub_with (\<lambda>e. lift_parse (room_settings_from_element x time e))
          (parse_room_key x) SyncedRoomSettingsEv)
      else if ns = ns_nick then
        Some (parse_pubsub_with (\<lambda>e. lift_any (x_nick x e)) Inr nickname_event)
      else None)"

definition parse_pubsub_events :: "'e xml \<Rightarrow> (string \<Rightarrow> string + timestamp) \<Rightarrow> string \<Rightarrow> user_id \<Rightarrow> 'e xmpp_pub_sub list \<Rightarrow> 'e parser" where
  "parse_pubsub_events x time ns from evs =
     (case node_parser x time ns of None \<Rightarrow> return () | Some parser \<Rightarrow> for_each (parser from) evs)"

text \<open>The events are grouped by node in a hash map; its order is taken to be that of first appearance.\<close>

definition parse_pubsub_event :: "'e xml \<Rightarrow> (string \<Rightarrow> string + timestamp) \<Rightarrow> jid \<Rightarrow> 'e xmpp_pub_sub list \<Rightarrow> 'e parser" where
  "parse_pubsub_event x time from evs =
     bindM (require_user (jid_into_bare from)) (\<lambda>user.
     for_each (\<lambda>ns. bindM (attempt (parse_pubsub_events x time ns user (filter (\<lambda>ev. pub_sub_node ev = ns) evs))) (\<lambda>_. return ()))
       (first_occurrences (map pub_sub_node evs)))"


section \<open>Parsing XMPP events\<close>

datatype roster_subscription = SubNone | SubBoth | SubFrom | SubTo | SubRemove

datatype roster_ask = AskNone | AskSubscribe

record roster_item =
  rit_jid :: bare_jid
  rit_name :: "string option"
  rit_subscription :: roster_subscription
  rit_ask :: roster_ask

fun presence_subscription_of :: "roster_subscription \<Rightarrow> roster_ask \<Rightarrow> presence_subscription" where
  "presence_subscription_of SubNone AskSubscribe = Requested"
| "presence_subscription_of SubNone AskNone = NoSubscription"
| "presence_subscription_of SubBoth _ = Mutual"
| "presence_subscription_of SubFrom _ = TheyFollow"
| "presence_subscription_of SubTo _ = WeFollow"
| "presence_subscription_of SubRemove _ = NoSubscription"

definition contact_from_item :: "roster_item \<Rightarrow> ('s, contact) program" where
  "contact_from_item item =
     bindM (require_user (rit_jid item)) (\<lambda>u.
     return \<lparr>ct_id = u, ct_name = rit_name item,
             ct_presence_subscription = presence_subscription_of (rit_subscription item) (rit_ask item)\<rparr>)"

datatype 'e xmpp_event =
    XBlocked jid
  | XUnblocked jid
  | XBlockListCleared
  | XBookmarks
  | XDiscoInfoQuery jid string "string option"
  | XMessage "'e message_stanza"
  | XCarbon "'e carbon"
  | XSent "'e message_stanza"
  | XChatStateChanged jid chat_state message_type
  | XConnected
  | XDisconnected "connection_error option"
  | XPingTimer
  | XDirectInvite jid direct_invite
  | XMediatedInvite jid mediated_invite
  | XPing jid string
  | XVcard jid "string + user_profile"
  | XAvatarMetadata jid "avatar_metadata list"
  | XEntityTimeQuery jid string
  | XSoftwareVersionQuery jid string
  | XLastActivityQuery jid string
  | XPubSub jid "'e xmpp_pub_sub list"
  | XSubscriptionRequest bare_jid "string option"
  | XRosterItemChanged roster_item
  | XPresence "'e presence_stanza"
  | XUserActivity jid "(string + user_status) option"

record 'e parser_config =
  pc_client :: "string \<Rightarrow> jabber_client option"
  pc_time :: "string \<Rightarrow> string + timestamp"
  pc_show_muc_user :: "muc_user \<Rightarrow> string"
  pc_show_presence :: "'e presence_stanza \<Rightarrow> string"
  pc_show_message :: "'e message_stanza \<Rightarrow> string"

definition parse_chat_state :: "jid \<Rightarrow> chat_state \<Rightarrow> message_type \<Rightarrow> 'e parser" where
  "parse_chat_state from cs t =
     bindM (require_full ''Expected FullJid in ChatState'' from) (\<lambda>f.
     bindM (if t = Groupchat then return (EOccupant (OccupantId f))
            else bindM (require_resource f) (\<lambda>r. return (EResource r))) (\<lambda>user.
     push_event (UserStatusEv \<lparr>use_user_id = user, use_type = ComposeStateChanged (compose_state_from cs)\<rparr>)))"

definition parse_block_list_change :: "(user_id \<Rightarrow> block_list_event) \<Rightarrow> jid \<Rightarrow> 'e parser" where
  "parse_block_list_change ev j = bindM (require_user (jid_into_bare j)) (\<lambda>u. push_event (BlockListEv (ev u)))"

definition parse_direct_invite :: "jid \<Rightarrow> direct_invite \<Rightarrow> 'e parser" where
  "parse_direct_invite from i =
     bindM (require_full ''Expected FullJid in direct invite'' from) (\<lambda>f.
     bindM (require_resource f) (\<lambda>sender.
     push_event (RoomEv \<lparr>rme_room_id = MucId (di_jid i), rme_type = ReceivedInvitation sender (di_password i)\<rparr>)))"

definition parse_mediated_invite :: "jid \<Rightarrow> mediated_invite \<Rightarrow> 'e parser" where
  "parse_mediated_invite from i =
     (case md_invites i of
        [] \<Rightarrow> fail ''Expected MediatedInvite to contain at least one embedded invite.''
      | embedded # _ \<Rightarrow>
          (case iv_from embedded of
             Some (JFull f) \<Rightarrow>
               bindM (require_resource f) (\<lambda>sender.
               push_event (RoomEv \<lparr>rme_room_id = MucId (jid_into_bare from), rme_type = ReceivedInvitation sender (md_password i)\<rparr>))
           | _ \<Rightarrow> fail ''Expected FullJid in embedded invite of MediatedInvite.''))"

definition push_request :: "jid \<Rightarrow> string \<Rightarrow> request_event_type \<Rightarrow> 'e parser" where
  "push_request from i t = push_event (RequestEv \<lparr>rq_sender_id = from, rq_request_id = i, rq_type = t\<rparr>)"

definition push_user_info :: "jid \<Rightarrow> user_info_event_type \<Rightarrow> 'e parser" where
  "push_user_info from t =
     bindM (require_user (jid_into_bare from)) (\<lambda>u. push_event (UserInfoEv \<lparr>uie_user_id = u, uie_type = t\<rparr>))"

definition parse_roster_item :: "roster_item \<Rightarrow> 'e parser" where
  "parse_roster_item item =
     bindM (require_user (rit_jid item)) (\<lambda>u.
     push_event (ContactListEv \<lparr>cle_contact_id = u,
       cle_type = (if rit_subscription item = SubRemove then ContactRemoved
                   else ContactAddedOrPresenceSubscriptionUpdated (presence_subscription_of (rit_subscription item) (rit_ask item)))\<rparr>))"

fun dispatch_xmpp_event :: "'e xml \<Rightarrow> 'e parser_config \<Rightarrow> 'e xmpp_event \<Rightarrow> 'e parser" where
  "dispatch_xmpp_event x pc (XBlocked j) = parse_block_list_change UserBlocked j"
| "dispatch_xmpp_event x pc (XUnblocked j) = parse_block_list_change UserUnblocked j"
| "dispatch_xmpp_event x pc XBlockListCleared = push_event (BlockListEv BlockListCleared)"
| "dispatch_xmpp_event x pc XBookmarks = return ()"
| "dispatch_xmpp_event x pc (XDiscoInfoQuery from i n) =
     (case n of None \<Rightarrow> fail ''Missing node in disco info query'' | Some n \<Rightarrow> push_request from i (CapabilitiesRequest (CapabilitiesId n)))"
| "dispatch_xmpp_event x pc (XMessage m) = parse_message x (pc_show_message pc) m"
| "dispatch_xmpp_event x pc (XCarbon c) = push_event (MessageEv (MessageSync c))"
| "dispatch_xmpp_event x pc (XSent m) = push_event (MessageEv (MessageSent m))"
| "dispatch_xmpp_event x pc (XChatStateChanged from cs t) = parse_chat_state from cs t"
| "dispatch_xmpp_event x pc XConnected = push_event (ConnectionEv SConnected)"
| "dispatch_xmpp_event x pc (XDisconnected err) = push_event (ConnectionEv (SDisconnected err))"
| "dispatch_xmpp_event x pc XPingTimer = push_event (ConnectionEv SPingTimer)"
| "dispatch_xmpp_event x pc (XDirectInvite from i) = parse_direct_invite from i"
| "dispatch_xmpp_event x pc (XMediatedInvite from i) = parse_mediated_invite from i"
| "dispatch_xmpp_event x pc (XPing from i) = push_request from i PingRequest"
| "dispatch_xmpp_event x pc (XVcard from profile) =
     bindM (require_user (jid_into_bare from)) (\<lambda>u.
     bindM (lift_any profile) (\<lambda>p. push_event (UserInfoEv \<lparr>uie_user_id = u, uie_type = ProfileChanged p\<rparr>)))"
| "dispatch_xmpp_event x pc (XAvatarMetadata from infos) =
     (case infos of [] \<Rightarrow> missing_element ''info'' ''metadata'' [] | i # _ \<Rightarrow> push_user_info from (UserAvatarChanged i))"
| "dispatch_xmpp_event x pc (XEntityTimeQuery from i) = push_request from i LocalTimeRequest"
| "dispatch_xmpp_event x pc (XSoftwareVersionQuery from i) = push_request from i SoftwareVersionRequest"
| "dispatch_xmpp_event x pc (XLastActivityQuery from i) = push_request from i LastActivityRequest"
| "dispatch_xmpp_event x pc (XPubSub from evs) = parse_pubsub_event x (pc_time pc) from evs"
| "dispatch_xmpp_event x pc (XSubscriptionRequest from nick) =
     bindM (require_user from) (\<lambda>u.
     push_event (ContactListEv \<lparr>cle_contact_id = u, cle_type = PresenceSubscriptionRequested nick\<rparr>))"
| "dispatch_xmpp_event x pc (XRosterItemChanged item) = parse_roster_item item"
| "dispatch_xmpp_event x pc (XPresence p) = parse_presence x (pc_client pc) (pc_show_muc_user pc) (pc_show_presence pc) p"
| "dispatch_xmpp_event x pc (XUserActivity from activity) =
     bindM (require_user (jid_into_bare from)) (\<lambda>u.
     bindM (case activity of None \<Rightarrow> return None | Some a \<Rightarrow> bindM (lift_any a) (\<lambda>s. return (Some s))) (\<lambda>s.
     push_event (UserInfoEv \<lparr>uie_user_id = u, uie_type = StatusChanged s\<rparr>)))"

text \<open>An error drops the events parsed before it.\<close>

definition parse_xmpp_event :: "'e xml \<Rightarrow> 'e parser_config \<Rightarrow> 'e xmpp_event \<Rightarrow> 'e server_event list outcome" where
  "parse_xmpp_event x pc ev =
     (case dispatch_xmpp_event x pc ev [] of
        (Ok _, evs) \<Rightarrow> Ok evs
      | (Err e, _) \<Rightarrow> Err e
      | (Panic msg, _) \<Rightarrow> Panic msg
      | (NoFuel, _) \<Rightarrow> NoFuel)"

end
