(* ===== verification/Texts.thy ===== *)
theory Texts
  imports StringIndex
begin

text \<open>
  Texts of messages as their UTF-8 bytes: the scalars of a text, slices at byte offsets
  (\<^verbatim>\<open>util/string_ext.rs\<close>), quotes and styled messages
  (\<^verbatim>\<open>domain/shared/models/message.rs\<close>).
\<close>

section \<open>UTF-8\<close>

definition utf8_char :: "scalar \<Rightarrow> string" where
  "utf8_char c =
     (if c < 128 then [char_of c]
      else if c < 2048 then [char_of (192 + c div 64), char_of (128 + c mod 64)]
      else if c < 65536 then [char_of (224 + c div 4096), char_of (128 + c div 64 mod 64), char_of (128 + c mod 64)]
      else [char_of (240 + c div 262144), char_of (128 + c div 4096 mod 64), char_of (128 + c div 64 mod 64),
            char_of (128 + c mod 64)])"

definition utf8 :: "scalar list \<Rightarrow> string" where
  "utf8 cs = concat (map utf8_char cs)"

definition is_scalar :: "scalar \<Rightarrow> bool" where
  "is_scalar c \<longleftrightarrow> c < 55296 \<or> 57343 < c \<and> c < 1114112"

definition payload_bits :: "char \<Rightarrow> nat" where
  "payload_bits b = of_char b mod 64"

text \<open>\<^verbatim>\<open>str::chars\<close>; a text is valid UTF-8, so a lead byte is followed by its continuation bytes.\<close>

fun scalars :: "string \<Rightarrow> scalar list" where
  "scalars [] = []"
| "scalars (a # s) =
     (let n = of_char a :: nat in
      if n < 128 then n # scalars s
      else if n < 224 then
        (case s of b # s' \<Rightarrow> (n mod 32 * 64 + payload_bits b) # scalars s' | _ \<Rightarrow> [])
      else if n < 240 then
        (case s of b # c # s' \<Rightarrow> (n mod 16 * 4096 + payload_bits b * 64 + payload_bits c) # scalars s' | _ \<Rightarrow> [])
      else
        (case s of
           b # c # d # s' \<Rightarrow>
             (n mod 8 * 262144 + payload_bits b * 4096 + payload_bits c * 64 + payload_bits d) # scalars s'
         | _ \<Rightarrow> []))"

definition is_continuation :: "char \<Rightarrow> bool" where
  "is_continuation b \<longleftrightarrow> 128 \<le> (of_char b :: nat) \<and> (of_char b :: nat) < 192"

definition is_char_boundary :: "string \<Rightarrow> nat \<Rightarrow> bool" where
  "is_char_boundary s i \<longleftrightarrow> i = 0 \<or> i = length s \<or> i < length s \<and> \<not> is_continuation (s ! i)"

section \<open>Slices\<close>

text \<open>A bound of a range: included, excluded or none.\<close>

datatype slice_bound = SliceIncluded nat | SliceExcluded nat | SliceUnbounded

fun slice_start :: "slice_bound \<Rightarrow> nat" where
  "slice_start (SliceIncluded i) = i"
| "slice_start (SliceExcluded i) = i + 1"
| "slice_start SliceUnbounded = 0"

fun slice_end :: "string \<Rightarrow> slice_bound \<Rightarrow> nat" where
  "slice_end s (SliceIncluded i) = i + 1"
| "slice_end s (SliceExcluded i) = i"
| "slice_end s SliceUnbounded = length s"

definition safe_slice :: "slice_bound \<Rightarrow> slice_bound \<Rightarrow> string \<Rightarrow> string option" where
  "safe_slice lo hi s =
     (let a = slice_start lo; b = slice_end s hi in
      if a \<le> b \<and> is_char_boundary s a \<and> is_char_boundary s b then Some (take (b - a) (drop a s)) else None)"

section \<open>Lines\<close>

text \<open>
  \<^verbatim>\<open>str::lines\<close>: lines end with a line feed or a carriage return and a line feed; the last one
  need not end, and is no line if it is empty.
\<close>

definition strip_cr :: "string \<Rightarrow> string" where
  "strip_cr l = (if l \<noteq> [] \<and> last l = CHR 0x0D then butlast l else l)"

function lines :: "string \<Rightarrow> string list" where
  "lines s =
     (if s = [] then []
      else
        (case dropWhile (\<lambda>c. c \<noteq> CHR 0x0A) s of
           [] \<Rightarrow> [s]
         | _ # rest \<Rightarrow> strip_cr (takeWhile (\<lambda>c. c \<noteq> CHR 0x0A) s) # lines rest))"
  by pat_completeness auto

termination
proof (relation "measure length")
  fix s rest :: string and c
  assume "s \<noteq> []" and "dropWhile (\<lambda>c. c \<noteq> CHR 0x0A) s = c # rest"
  then have "length (c # rest) \<le> length s" by (metis length_dropWhile_le)
  then show "(rest, s) \<in> measure length" by simp
qed simp

declare lines.simps [simp del]

definition trimmed_quote :: "string \<Rightarrow> string" where
  "trimmed_quote s =
     join_with [CHR 0x0A] (map (\<lambda>l. case strip_prefix ''> '' l of Some r \<Rightarrow> r | None \<Rightarrow> l) (lines (trim_end s)))"

text \<open>\<^verbatim>\<open>StyledMessage::into_html\<close>.\<close>

definition styled_into_html :: "string \<Rightarrow> html" where
  "styled_into_html s = ''<p>'' @ join_with ''<br/>'' (lines s) @ ''</p>''"

section \<open>Facts about UTF-8\<close>

lemma of_char_byte: "n < 256 \<Longrightarrow> (of_char (char_of n) :: nat) = n"
  by (simp add: take_bit_eq_mod)

lemma payload_continuation: "payload_bits (char_of (128 + n mod 64)) = n mod 64"
proof -
  have "128 + n mod 64 < 256" using mod_less_divisor [of 64 n] by linarith
  then show ?thesis
    using mod_mult_self4 [of 64 2 "n mod 64"] by (simp add: payload_bits_def of_char_byte del: mod_less_divisor)
qed

lemma length_utf8_char: "length (utf8_char c) = len_utf8 c"
  by (simp add: utf8_char_def len_utf8_def)

lemma scalars_utf8_char:
  assumes "c < 2097152"
  shows "scalars (utf8_char c @ s) = c # scalars s"
proof -
  have step: "n div 64 * 64 + n mod 64 = n" for n :: nat by (rule div_mult_mod_eq)
  have split2: "c div 64 * 64 + c mod 64 = c" by (rule step)
  have "c div 4096 = c div 64 div 64" "c div 262144 = c div 4096 div 64"
    by (simp_all add: div_mult2_eq [symmetric])
  with step [of c] step [of "c div 64"] step [of "c div 4096"]
  have split3: "c div 4096 * 4096 + c div 64 mod 64 * 64 + c mod 64 = c"
    and split4: "c div 262144 * 262144 + c div 4096 mod 64 * 4096 + c div 64 mod 64 * 64 + c mod 64 = c"
    by linarith+
  consider "c < 128" | "128 \<le> c" "c < 2048" | "2048 \<le> c" "c < 65536" | "65536 \<le> c" by linarith
  then show ?thesis
  proof cases
    case 1
    then show ?thesis by (simp add: utf8_char_def of_char_byte)
  next
    case 2
    then have lead: "c div 64 < 32" by auto
    then have "(192 + c div 64) mod 32 = c div 64" using mod_mult_self4 [of 32 6 "c div 64"] by simp
    with 2 split2 show ?thesis
      by (simp add: utf8_char_def of_char_byte payload_continuation Let_def) (use lead in blast)
  next
    case 3
    then have "c div 4096 < 16" by auto
    then have "(224 + c div 4096) mod 16 = c div 4096" using mod_mult_self4 [of 16 14 "c div 4096"] by simp
    with 3 split3 show ?thesis
      by (simp add: utf8_char_def of_char_byte payload_continuation)
  next
    case 4
    then have "c div 262144 < 8" using assms by auto
    then have "(240 + c div 262144) mod 8 = c div 262144" using mod_mult_self4 [of 8 30 "c div 262144"] by simp
    with 4 assms split4 show ?thesis
      by (simp add: utf8_char_def of_char_byte payload_continuation)
  qed
qed

lemma utf8_simps [simp]: "utf8 [] = []" "utf8 (c # cs) = utf8_char c @ utf8 cs" "utf8 (cs @ ds) = utf8 cs @ utf8 ds"
  by (simp_all add: utf8_def)

lemma scalar_bound: "is_scalar c \<Longrightarrow> c < 2097152"
  by (auto simp: is_scalar_def)

text \<open>Encoding and iterating are inverse to each other.\<close>

lemma scalars_utf8: "list_all is_scalar cs \<Longrightarrow> scalars (utf8 cs) = cs"
  by (induction cs) (simp_all add: scalars_utf8_char scalar_bound del: scalars.simps(2))

lemma length_utf8: "length (utf8 cs) = sum_list (map len_utf8 cs)"
  by (induction cs) (simp_all add: length_utf8_char)

lemma utf8_char_lead: "c < 2097152 \<Longrightarrow> \<exists>b bs. utf8_char c = b # bs \<and> \<not> is_continuation b"
proof -
  assume c: "c < 2097152"
  have "c < 2048 \<Longrightarrow> c div 64 < 32" "c < 65536 \<Longrightarrow> c div 4096 < 16" "c div 262144 < 8" using c by auto
  then show ?thesis by (auto simp: utf8_char_def is_continuation_def of_char_byte)
qed

lemma offset_boundary:
  assumes "list_all is_scalar cs" "i \<le> length cs"
  shows "is_char_boundary (utf8 cs) (length (utf8 (take i cs)))"
proof (cases "i = length cs")
  case True
  then show ?thesis by (simp add: is_char_boundary_def)
next
  case False
  then obtain c ds where ds: "drop i cs = c # ds" using assms(2) by (metis drop_eq_Nil le_antisym list.exhaust)
  then have cs: "utf8 cs = utf8 (take i cs) @ utf8_char c @ utf8 ds" by (metis append_take_drop_id utf8_simps(2,3))
  have "c \<in> set cs" using ds by (metis in_set_dropD list.set_intros(1))
  then have "is_scalar c" using assms(1) by (auto simp: list_all_iff)
  then obtain b bs where "utf8_char c = b # bs" "\<not> is_continuation b" using utf8_char_lead scalar_bound by blast
  with cs show ?thesis by (auto simp: is_char_boundary_def nth_append)
qed

text \<open>Slices between the offsets of scalars are the texts of these scalars.\<close>

lemma slice_scalars:
  assumes "list_all is_scalar cs" "i \<le> j" "j \<le> length cs"
  shows "safe_slice (SliceIncluded (length (utf8 (take i cs)))) (SliceExcluded (length (utf8 (take j cs)))) (utf8 cs) =
    Some (utf8 (take (j - i) (drop i cs)))"
proof -
  have "take j cs = take i cs @ take (j - i) (drop i cs)" using assms(2) by (metis le_add_diff_inverse take_add)
  then have j: "utf8 (take j cs) = utf8 (take i cs) @ utf8 (take (j - i) (drop i cs))" by (metis utf8_simps(3))
  have "utf8 cs = utf8 (take j cs) @ utf8 (drop j cs)" by (metis append_take_drop_id utf8_simps(3))
  with j have "utf8 cs = utf8 (take i cs) @ utf8 (take (j - i) (drop i cs)) @ utf8 (drop j cs)" by simp
  with j show ?thesis
    using offset_boundary [OF assms(1), of i] offset_boundary [OF assms(1), of j] assms(2,3)
    by (simp add: safe_slice_def Let_def)
qed

lemma slice_from_scalar:
  assumes "list_all is_scalar cs" "j \<le> length cs"
  shows "safe_slice (SliceIncluded (length (utf8 (take j cs)))) SliceUnbounded (utf8 cs) = Some (utf8 (drop j cs))"
proof -
  have "utf8 cs = utf8 (take j cs) @ utf8 (drop j cs)" by (metis append_take_drop_id utf8_simps(3))
  then have "drop (length (utf8 (take j cs))) (utf8 cs) = utf8 (drop j cs)"
    "length (utf8 cs) = length (utf8 (take j cs)) + length (utf8 (drop j cs))"
    by (metis append_eq_conv_conj, metis length_append)
  then show ?thesis
    using offset_boundary [OF assms] by (simp add: safe_slice_def Let_def is_char_boundary_def)
qed

lemma slice_reversed: "b < a \<Longrightarrow> safe_slice (SliceIncluded a) (SliceExcluded b) s = None"
  by (simp add: safe_slice_def)

lemma utf8_offset: "scalar_to_utf8_index i cs = (if i \<le> length cs then Inr (length (utf8 (take i cs))) else Inl IndexOutOfBounds)"
  by (auto simp: scalar_to_utf8_index_def length_utf8)

section \<open>Lines of texts\<close>

lemma lines_single: "s \<noteq> [] \<Longrightarrow> CHR 0x0A \<notin> set s \<Longrightarrow> lines s = [s]"
proof -
  assume "s \<noteq> []" "CHR 0x0A \<notin> set s"
  moreover from this(2) have "dropWhile (\<lambda>c. c \<noteq> CHR 0x0A) s = []" by (auto simp: dropWhile_eq_Nil_conv)
  ultimately show ?thesis by (subst lines.simps) (simp del: dropWhile_eq_Nil_conv)
qed

end
