(* ===== verification/StanzaRoundtrips.thy ===== *)
theory StanzaRoundtrips
  imports Stanzas
begin

text \<open>
  The payloads of stanzas are read back as they were written, up to the losses the theorems name. The
  hypotheses on elements, on JIDs and on the parsers of \<^verbatim>\<open>xmpp_parsers\<close> are met by the
  implementation of elements at the end of the theory.
\<close>

section \<open>Reading back what was written\<close>

lemma xml_build:
  assumes "xml_ok x" "distinct (map fst attrs)"
  shows "el_name x (el_build x n ns attrs cs) = n" "el_ns x (el_build x n ns attrs cs) = ns"
    "el_attr x (el_build x n ns attrs cs) a = Option.bind (map_of attrs a) (\<lambda>v. v)"
    "el_children x (el_build x n ns attrs cs) = child_elements cs"
    "el_text x (el_build x n ns attrs cs) = text_content cs"
  using assms by (simp_all add: xml_ok_def)

lemma child_elements_simps [simp]:
  "child_elements [] = []" "child_elements (Child e # cs) = e # child_elements cs"
  "child_elements (Text t # cs) = child_elements cs" "child_elements (cs @ ds) = child_elements cs @ child_elements ds"
  "child_elements (map (\<lambda>v. Child (f v)) vs) = map f vs"
  by (simp_all add: child_elements_def map_filter_append) (induction vs; simp)

lemma child_elements_map_Child [simp]: "child_elements (map Child es) = es"
  using child_elements_simps(5) [of "\<lambda>e. e" es] by simp

lemma text_content_simps [simp]:
  "text_content [] = []" "text_content (Text t # cs) = t @ text_content cs"
  "text_content (Child e # cs) = text_content cs"
  by (simp_all add: text_content_def)

lemmas read_defs = el_is_def expect_is_def attr_req_def get_child_def

text \<open>The hypotheses on the parsers of JIDs and of enumerations: they read what is displayed.\<close>

definition jid_reads :: "'e xml \<Rightarrow> jid \<Rightarrow> bool" where
  "jid_reads x j \<longleftrightarrow> x_jid x (show_jid j) = Inr j"

definition bare_reads :: "'e xml \<Rightarrow> bare_jid \<Rightarrow> bool" where
  "bare_reads x j \<longleftrightarrow> x_bare_jid x (show_bare j) = Inr j"

definition enums_read :: "'e xml \<Rightarrow> bool" where
  "enums_read x \<longleftrightarrow> (\<forall>a. x_affiliation x (show_xmpp_affiliation a) = Inr a) \<and> (\<forall>r. x_role x (show_role r) = Inr r)"

lemma traverse_jid:
  "pred_option (jid_reads x) v \<Longrightarrow> traverse_opt (parse_jid_attr x) (map_option show_jid v) = Inr v"
  by (cases v) (simp_all add: parse_jid_attr_def jid_reads_def)

lemma traverse_bare:
  "pred_option (bare_reads x) v \<Longrightarrow> traverse_opt (parse_bare_attr x) (map_option show_bare v) = Inr v"
  by (cases v) (simp_all add: parse_bare_attr_def bare_reads_def)

lemma traverse_nat:
  "pred_option (\<lambda>n. n < 2 ^ w) v \<Longrightarrow> traverse_opt (parse_nat_attr w) (map_option show_nat v) = Inr v"
  by (cases v) (simp_all add: parse_nat_attr_def parse_uint_show)

lemma bind_id [simp]: "Option.bind (Some v) (\<lambda>v. v) = v"
  by simp

lemma origin_id_back: "xml_ok x \<Longrightarrow> origin_id_try_from x (origin_id_element x i) = Inr i"
  by (simp add: origin_id_try_from_def origin_id_element_def read_defs xml_build)

lemma stanza_id_back:
  "xml_ok x \<Longrightarrow> jid_reads x (si_by s) \<Longrightarrow> stanza_id_try_from x (stanza_id_element x s) = Inr s"
  "xml_ok x \<Longrightarrow> jid_reads x (si_by s) \<Longrightarrow> referenced_stanza_try_from x (referenced_stanza_element x s) = Inr s"
  by (simp_all add: stanza_id_try_from_def stanza_id_element_def referenced_stanza_try_from_def
      referenced_stanza_element_def stanza_id_named_def read_defs xml_build jid_reads_def parse_jid_attr_def)

lemma chat_marker_back:
  assumes "xml_ok x"
  shows "markable_try_from x (chat_marker_element x Markable) = Inr Markable"
    "received_try_from x (chat_marker_element x (Received i)) = Inr (Received i)"
    "displayed_try_from x (chat_marker_element x (Displayed i)) = Inr (Displayed i)"
    "acknowledged_try_from x (chat_marker_element x (Acknowledged i)) = Inr (Acknowledged i)"
  using assms by (simp_all add: markable_try_from_def received_try_from_def displayed_try_from_def
      acknowledged_try_from_def marker_id_def read_defs xml_build)

lemma apply_to_back:
  "xml_ok x \<Longrightarrow> x_lowercase x ''true'' = ''true'' \<Longrightarrow> apply_to_try_from x (apply_to_element x a) = Inr a"
  by (simp add: apply_to_try_from_def apply_to_element_def read_defs xml_build)

lemma reply_back:
  "xml_ok x \<Longrightarrow> pred_option (jid_reads x) (rp_to r) \<Longrightarrow> reply_try_from x (reply_element x r) = Inr r"
  by (simp add: reply_try_from_def reply_element_def read_defs xml_build traverse_jid)

lemma content_back: "xml_ok x \<Longrightarrow> content_try_from x (content_element x c) = Inr c"
  by (simp add: content_try_from_def content_element_def read_defs xml_build)

definition range_bounded :: "fallback_range \<Rightarrow> bool" where
  "range_bounded r \<longleftrightarrow> pred_option (\<lambda>n. n < 2 ^ 64) (fr_start r) \<and> pred_option (\<lambda>n. n < 2 ^ 64) (fr_end r)"

lemma range_back: "xml_ok x \<Longrightarrow> range_bounded r \<Longrightarrow> range_try_from x (range_element x n r) = Inr r"
  by (simp add: range_try_from_def range_element_def xml_build traverse_nat range_bounded_def)

lemma fold_subjects:
  "xml_ok x \<Longrightarrow> \<forall>r \<in> set rs. range_bounded r \<Longrightarrow>
     fold_res (add_fallback_child x) (map (range_element x ''subject'') rs) fb =
       Inr (fb\<lparr>fb_subjects := fb_subjects fb @ rs\<rparr>)"
  by (induction rs arbitrary: fb)
    (simp_all add: add_fallback_child_def range_back, simp add: range_element_def xml_build)

lemma fold_bodies:
  "xml_ok x \<Longrightarrow> \<forall>r \<in> set rs. range_bounded r \<Longrightarrow>
     fold_res (add_fallback_child x) (map (range_element x ''body'') rs) fb =
       Inr (fb\<lparr>fb_bodies := fb_bodies fb @ rs\<rparr>)"
  by (induction rs arbitrary: fb)
    (simp_all add: add_fallback_child_def range_back, simp add: range_element_def xml_build)

lemma fallback_back:
  "xml_ok x \<Longrightarrow> \<forall>r \<in> set (fb_subjects fb) \<union> set (fb_bodies fb). range_bounded r \<Longrightarrow>
     fallback_try_from x (fallback_element x fb) = Inr fb"
  by (simp add: fallback_try_from_def fallback_element_def read_defs xml_build fold_res_append
      fold_subjects fold_bodies)


lemma message_muc_user_back:
  "xml_ok x \<Longrightarrow> enums_read x \<Longrightarrow> pred_option (jid_reads x) (mmu_jid u) \<Longrightarrow>
     message_muc_user_try_from x (message_muc_user_element x u) = Inr u"
  by (simp add: message_muc_user_try_from_def message_muc_user_element_def item_child_def read_defs xml_build
      traverse_jid parse_affiliation_def parse_role_def enums_read_def)

lemma first_reason_nodes:
  "xml_ok x \<Longrightarrow> first_reason x (child_elements (reason_nodes x reason)) = (if reason = Some [] then None else reason)"
  by (cases reason) (simp_all add: first_reason_def reason_nodes_def el_is_def xml_build)

lemma reason_child:
  "xml_ok x \<Longrightarrow> map_option (el_text x) (find (\<lambda>c. el_name x c = ''reason'' \<and> el_ns x c = ns_muc_user)
     (child_elements (reason_nodes x reason))) = reason"
  by (cases reason) (simp_all add: reason_nodes_def xml_build)

lemma muc_invite_back:
  assumes "xml_ok x" "enums_read x" "bare_reads x (inv_jid i)"
  shows "muc_invite_try_from x (muc_invite_element x i) =
     Inr (i\<lparr>inv_reason := if inv_reason i = Some [] then None else inv_reason i\<rparr>)"
  using assms
  by (simp add: muc_invite_try_from_def muc_invite_element_def item_child_def read_defs xml_build
      parse_affiliation_def parse_bare_attr_def enums_read_def bare_reads_def first_reason_nodes)

lemma direct_invite_back:
  assumes "xml_ok x" "bare_reads x (di_jid i)"
  shows "direct_invite_try_from x (direct_invite_element x i) =
     Inr (i\<lparr>di_continue := if di_continue i = Some False then None else di_continue i\<rparr>)"
  using assms
  by (cases "di_continue i = Some True"; cases "di_continue i")
    (simp_all add: direct_invite_try_from_def direct_invite_element_def read_defs xml_build parse_bare_attr_def
      bare_reads_def attr_bool_def attr_bool_opt_def parse_bool_def)

definition invite_reads :: "'e xml \<Rightarrow> invite \<Rightarrow> bool" where
  "invite_reads x i \<longleftrightarrow> pred_option (jid_reads x) (iv_from i) \<and> pred_option (jid_reads x) (iv_to i)"

lemma invite_back:
  "xml_ok x \<Longrightarrow> invite_reads x i \<Longrightarrow> invite_try_from x (invite_element x i) = Inr i"
  by (simp add: invite_try_from_def invite_element_def read_defs xml_build traverse_jid invite_reads_def reason_child)

lemma fold_invites:
  "xml_ok x \<Longrightarrow> \<forall>i \<in> set is. invite_reads x i \<Longrightarrow>
     fold_res (add_invite_child x) (map (invite_element x) is) m = Inr (m\<lparr>md_invites := md_invites m @ is\<rparr>)"
proof (induction "is" arbitrary: m)
  case (Cons i "is")
  then have "el_is x (invite_element x i) ''invite'' ns_muc_user"
    by (simp add: el_is_def invite_element_def xml_build)
  with Cons show ?case by (simp add: add_invite_child_def invite_back)
qed simp

lemma mediated_invite_back:
  assumes "xml_ok x" "\<forall>i \<in> set (md_invites m). invite_reads x i" "md_invites m \<noteq> []"
  shows "mediated_invite_try_from x (mediated_invite_element x m) = Inr m"
  using assms
  by (cases "md_password m")
    (simp_all add: mediated_invite_try_from_def mediated_invite_element_def expect_is_def el_is_def xml_build
      fold_res_append fold_invites add_invite_child_def)

lemma destroy_back:
  "xml_ok x \<Longrightarrow> pred_option (bare_reads x) (ds_jid d) \<Longrightarrow> destroy_try_from x (destroy_element x d) = Inr d"
  by (simp add: destroy_try_from_def destroy_element_def read_defs xml_build traverse_bare reason_child)

definition muc_children_read :: "'e xml \<Rightarrow> bool" where
  "muc_children_read x \<longleftrightarrow>
     (\<forall>i. el_is x (x_build_item x i) ''item'' ns_muc_user \<and> x_item x (x_build_item x i) = Inr i) \<and>
     (\<forall>s. el_is x (x_build_status x s) ''status'' ns_muc_user \<and> x_status x (x_build_status x s) = Inr s)"

lemma fold_statuses:
  "muc_children_read x \<Longrightarrow> fold_res (add_muc_child x) (map (x_build_status x) ss) u = Inr (u\<lparr>mu_status := mu_status u @ ss\<rparr>)"
  by (induction ss arbitrary: u) (auto simp: add_muc_child_def muc_children_read_def el_is_def)

lemma fold_items:
  "muc_children_read x \<Longrightarrow> fold_res (add_muc_child x) (map (x_build_item x) is) u = Inr (u\<lparr>mu_items := mu_items u @ is\<rparr>)"
  by (induction "is" arbitrary: u) (auto simp: add_muc_child_def muc_children_read_def el_is_def)

lemma add_destroy:
  "xml_ok x \<Longrightarrow> pred_option (bare_reads x) (ds_jid d) \<Longrightarrow>
     add_muc_child x (destroy_element x d) u = Inr (u\<lparr>mu_destroy := Some d\<rparr>)"
  using destroy_back [of x d]
  by (simp add: add_muc_child_def) (simp add: destroy_element_def el_is_def xml_build)

lemma muc_user_back:
  assumes "xml_ok x" "muc_children_read x" "\<And>d. mu_destroy u = Some d \<Longrightarrow> pred_option (bare_reads x) (ds_jid d)"
  shows "muc_user_try_from x (muc_user_element x u) = Inr u"
  using assms
  by (cases "mu_destroy u")
    (simp_all add: muc_user_try_from_def muc_user_element_def expect_is_def el_is_def xml_build fold_res_append
      fold_statuses fold_items add_destroy muc_user_new_def)

definition reference_bounded :: "reference \<Rightarrow> bool" where
  "reference_bounded r \<longleftrightarrow> pred_option (\<lambda>n. n < 2 ^ 64) (rf_begin r) \<and> pred_option (\<lambda>n. n < 2 ^ 64) (rf_end r)"

lemma reference_type_back: "reference_type_from_str (show_reference_type t) = Inr t"
  by (cases t) (simp_all add: reference_type_from_str_def)

lemma reference_back: "xml_ok x \<Longrightarrow> reference_bounded r \<Longrightarrow> reference_try_from x (reference_element x r) = Inr r"
  by (simp add: reference_try_from_def reference_element_def read_defs xml_build traverse_nat
      reference_bounded_def reference_type_back)

definition thumbnail_bounded :: "xmpp_thumbnail \<Rightarrow> bool" where
  "thumbnail_bounded t \<longleftrightarrow> pred_option (\<lambda>n. n < 2 ^ 32) (xt_width t) \<and> pred_option (\<lambda>n. n < 2 ^ 32) (xt_height t)"

lemma thumbnail_back: "xml_ok x \<Longrightarrow> thumbnail_bounded t \<Longrightarrow> thumbnail_try_from x (thumbnail_element x t) = Inr t"
  by (simp add: thumbnail_try_from_def thumbnail_element_def read_defs xml_build traverse_nat thumbnail_bounded_def)

lemma oob_back: "xml_ok x \<Longrightarrow> oob_try_from x (oob_element x v) = Inr v"
  by (cases "oob_desc v")
    (simp_all add: oob_try_from_def oob_element_def read_defs xml_build text_child_def opt_nodes_def)


definition hashes_read :: "'e xml \<Rightarrow> bool" where
  "hashes_read x \<longleftrightarrow>
     (\<forall>h. el_is x (x_build_hash x h) ''hash'' ''urn:xmpp:hashes:2'' \<and> x_hash x (x_build_hash x h) = Inr h)"

definition file_bounded :: "media_file \<Rightarrow> bool" where
  "file_bounded f \<longleftrightarrow> mf_size f < 2 ^ 64 \<and> pred_option (\<lambda>n. n < 2 ^ 64) (mf_duration f) \<and>
     (\<forall>t \<in> set (mf_thumbnails f). thumbnail_bounded t)"

lemma fold_hashes:
  "hashes_read x \<Longrightarrow> fold_res (add_file_child x) (map (x_build_hash x) hs) f = Inr (f\<lparr>pf_hashes := pf_hashes f @ hs\<rparr>)"
  by (induction hs arbitrary: f) (auto simp: add_file_child_def hashes_read_def el_is_def is_any_of_def)

lemma add_thumbnail:
  "xml_ok x \<Longrightarrow> thumbnail_bounded t \<Longrightarrow>
     add_file_child x (thumbnail_element x t) f = Inr (f\<lparr>pf_thumbnails := pf_thumbnails f @ [t]\<rparr>)"
  using thumbnail_back [of x t]
  by (simp add: add_file_child_def) (simp add: thumbnail_element_def el_is_def is_any_of_def xml_build)

lemma fold_thumbnails:
  "xml_ok x \<Longrightarrow> \<forall>t \<in> set ts. thumbnail_bounded t \<Longrightarrow>
     fold_res (add_file_child x) (map (thumbnail_element x) ts) f = Inr (f\<lparr>pf_thumbnails := pf_thumbnails f @ ts\<rparr>)"
  by (induction ts arbitrary: f) (simp_all add: add_thumbnail)

lemma add_text_children:
  assumes "xml_ok x"
  shows "add_file_child x (el_build x ''media-type'' ns_jingle_ft [] [Text t]) f = Inr (f\<lparr>pf_media_type := Some t\<rparr>)"
    "add_file_child x (el_build x ''name'' ns_jingle_ft [] [Text t]) f = Inr (f\<lparr>pf_name := Some t\<rparr>)"
    "n < 2 ^ 64 \<Longrightarrow>
       add_file_child x (el_build x ''size'' ns_jingle_ft [] [Text (show_nat n)]) f = Inr (f\<lparr>pf_size := Some n\<rparr>)"
    "add_file_child x (el_build x ''desc'' ns_jingle_ft [] [Text t]) f =
       Inr (f\<lparr>pf_desc := if t \<noteq> [] then Some t else None\<rparr>)"
    "n < 2 ^ 64 \<Longrightarrow>
       add_file_child x (el_build x ''duration'' ns_prose_audio_duration [] [Text (show_nat n)]) f =
       Inr (f\<lparr>pf_duration := Some n\<rparr>)"
  using assms
  by (simp_all add: add_file_child_def is_any_of_def el_is_def xml_build ns_jingle_ft_any_def parse_nat_attr_def
      parse_uint_show)

lemma fold_opt_nodes:
  assumes "\<And>a f. v = Some a \<Longrightarrow> add_file_child x (el_build x n ns [] [Text (g a)]) f = Inr (h a f)"
  shows "fold_res (add_file_child x) (child_elements (opt_nodes (\<lambda>a. text_child x n ns (g a)) v)) f =
    Inr (case v of None \<Rightarrow> f | Some a \<Rightarrow> h a f)"
  using assms by (cases v) (simp_all add: opt_nodes_def text_child_def)

lemma file_back:
  assumes "xml_ok x" "hashes_read x" "file_bounded f"
  shows "file_try_from x (file_element x f) = Inr (f\<lparr>mf_desc := if mf_desc f = Some [] then None else mf_desc f\<rparr>)"
proof -
  have children: "el_children x (file_element x f) =
      el_build x ''media-type'' ns_jingle_ft [] [Text (mf_media_type f)] #
      child_elements (opt_nodes (text_child x ''name'' ns_jingle_ft) (mf_name f)) @
      el_build x ''size'' ns_jingle_ft [] [Text (show_nat (mf_size f))] #
      child_elements (opt_nodes (text_child x ''desc'' ns_jingle_ft) (mf_desc f)) @
      child_elements (opt_nodes (\<lambda>d. text_child x ''duration'' ns_prose_audio_duration (show_nat d)) (mf_duration f)) @
      map (x_build_hash x) (mf_hashes f) @ map (thumbnail_element x) (mf_thumbnails f)"
    using assms(1) by (simp add: file_element_def xml_build text_child_def)
  have "expect_is_any_of x (file_element x f) ''file'' ns_jingle_ft_any = Inr ()"
    using assms(1) by (simp add: file_element_def expect_is_any_of_def is_any_of_def xml_build ns_jingle_ft_any_def)
  moreover note add_text_children [OF assms(1)] fold_opt_nodes [OF add_text_children(2), OF assms(1), where g = "\<lambda>t. t"]
    fold_opt_nodes [OF add_text_children(4), OF assms(1), where g = "\<lambda>t. t"]
  moreover have "fold_res (add_file_child x) (child_elements
      (opt_nodes (\<lambda>d. text_child x ''duration'' ns_prose_audio_duration (show_nat d)) (mf_duration f))) p =
      Inr (case mf_duration f of None \<Rightarrow> p | Some n \<Rightarrow> p\<lparr>pf_duration := Some n\<rparr>)" for p
    using assms add_text_children(5) [of x] by (intro fold_opt_nodes) (simp add: file_bounded_def)
  ultimately show ?thesis
    using assms
    by (cases "mf_name f"; cases "mf_desc f"; cases "mf_duration f")
      (simp_all add: file_try_from_def children fold_res_append fold_hashes fold_thumbnails file_bounded_def finish_file_def)
qed

lemma fold_sources:
  "xml_ok x \<Longrightarrow> \<forall>r \<in> set rs. reference_bounded r \<Longrightarrow>
     fold_res (add_source x) (map (reference_element x) rs) acc = Inr (acc @ rs)"
proof (induction rs arbitrary: acc)
  case (Cons r rs)
  then have "el_is x (reference_element x r) ''reference'' ns_reference"
    by (simp add: el_is_def reference_element_def xml_build)
  with Cons show ?case by (simp add: add_source_def reference_back)
qed simp

lemma media_share_back:
  assumes "xml_ok x" "hashes_read x" "file_bounded (sh_file s)" "sh_sources s \<noteq> []"
    "\<forall>r \<in> set (sh_sources s). reference_bounded r"
  shows "media_share_try_from x (media_share_element x s) =
    Inr (s\<lparr>sh_file := (sh_file s)\<lparr>mf_desc := if mf_desc (sh_file s) = Some [] then None else mf_desc (sh_file s)\<rparr>\<rparr>)"
proof -
  let ?sources = "el_build x ''sources'' ns_sims [] (map (\<lambda>r. Child (reference_element x r)) (sh_sources s))"
  have "is_any_of x (file_element x (sh_file s)) ''file'' ns_jingle_ft_any"
    using assms(1) by (simp add: file_element_def is_any_of_def xml_build ns_jingle_ft_any_def)
  moreover have "\<not> is_any_of x ?sources ''file'' ns_jingle_ft_any" "el_is x ?sources ''sources'' ns_sims"
    using assms(1) by (simp_all add: is_any_of_def el_is_def xml_build)
  ultimately show ?thesis
    using assms
    by (simp add: media_share_try_from_def media_share_element_def expect_is_def el_is_def [of _ _ "''media-sharing''"]
        xml_build add_share_child_def file_back fold_sources)
qed

text \<open>
  A shared file written as an element is read back as it was: media type, name, size, duration,
  hashes, thumbnails and sources, as long as the numbers fit their types and there is a source. Only
  an empty description is read as none.
\<close>

theorem media_share_roundtrip:
  assumes "xml_ok x" "hashes_read x" "file_bounded (sh_file s)" "sh_sources s \<noteq> []"
    "\<forall>r \<in> set (sh_sources s). reference_bounded r"
  shows "media_share_try_from x (media_share_element x s) =
    Inr (s\<lparr>sh_file := (sh_file s)\<lparr>mf_desc := if mf_desc (sh_file s) = Some [] then None else mf_desc (sh_file s)\<rparr>\<rparr>)"
  using assms by (rule media_share_back)


text \<open>
  The payloads that point to other messages are read back as they were written: ids of stanzas,
  chat markers, fastenings, replies, fallbacks, typed contents and the real user of a message in a
  room.
\<close>

theorem message_payloads_roundtrip:
  assumes "xml_ok x" "enums_read x" "x_lowercase x ''true'' = ''true''"
    "jid_reads x (si_by i)" "pred_option (jid_reads x) (rp_to r)" "pred_option (jid_reads x) (mmu_jid u)"
    "\<forall>v \<in> set (fb_subjects fb) \<union> set (fb_bodies fb). range_bounded v"
  shows "stanza_id_try_from x (stanza_id_element x i) = Inr i \<and>
    received_try_from x (chat_marker_element x (Received s)) = Inr (Received s) \<and>
    displayed_try_from x (chat_marker_element x (Displayed s)) = Inr (Displayed s) \<and>
    apply_to_try_from x (apply_to_element x a) = Inr a \<and>
    reply_try_from x (reply_element x r) = Inr r \<and>
    fallback_try_from x (fallback_element x fb) = Inr fb \<and>
    content_try_from x (content_element x c) = Inr c \<and>
    message_muc_user_try_from x (message_muc_user_element x u) = Inr u"
  using assms
  by (simp add: stanza_id_back chat_marker_back apply_to_back reply_back fallback_back content_back
      message_muc_user_back del: chat_marker_element.simps)

text \<open>
  Elements about rooms are read back as they were written, with two exceptions: an invitation
  whose reason is empty is read without a reason, and a direct invitation that says not to continue
  a conversation is read as one that does not say.
\<close>

theorem muc_elements_roundtrip:
  assumes "xml_ok x" "enums_read x" "muc_children_read x" "bare_reads x (inv_jid i)" "bare_reads x (di_jid d)"
    "\<forall>v \<in> set (md_invites m). invite_reads x v" "md_invites m \<noteq> []"
    "\<And>v. mu_destroy u = Some v \<Longrightarrow> pred_option (bare_reads x) (ds_jid v)"
  shows "muc_user_try_from x (muc_user_element x u) = Inr u \<and>
    mediated_invite_try_from x (mediated_invite_element x m) = Inr m \<and>
    muc_invite_try_from x (muc_invite_element x i) =
      Inr (i\<lparr>inv_reason := if inv_reason i = Some [] then None else inv_reason i\<rparr>) \<and>
    direct_invite_try_from x (direct_invite_element x d) =
      Inr (d\<lparr>di_continue := if di_continue d = Some False then None else di_continue d\<rparr>)"
  using assms by (simp add: muc_user_back mediated_invite_back muc_invite_back direct_invite_back)

section \<open>An implementation of elements\<close>

datatype element =
    Element string string "(string \<times> string) list" "element xml_node list"
  | ItemElement muc_item
  | StatusElement muc_status

fun tree_name :: "element \<Rightarrow> string" where
  "tree_name (Element n ns as cs) = n"
| "tree_name (ItemElement i) = ''item''"
| "tree_name (StatusElement s) = ''status''"

fun tree_ns :: "element \<Rightarrow> string" where
  "tree_ns (Element n ns as cs) = ns"
| "tree_ns _ = ns_muc_user"

fun tree_attrs :: "element \<Rightarrow> (string \<times> string) list" where
  "tree_attrs (Element n ns as cs) = as"
| "tree_attrs _ = []"

fun tree_nodes :: "element \<Rightarrow> element xml_node list" where
  "tree_nodes (Element n ns as cs) = cs"
| "tree_nodes _ = []"

definition tree_build :: "string \<Rightarrow> string \<Rightarrow> (string \<times> string option) list \<Rightarrow> element xml_node list \<Rightarrow> element" where
  "tree_build n ns attrs cs =
     Element n ns (List.map_filter (\<lambda>(k, v). map_option (Pair k) v) attrs) cs"

lemma map_of_present:
  "distinct (map fst attrs) \<Longrightarrow>
     map_of (List.map_filter (\<lambda>(k, v). map_option (Pair k) v) attrs) a = Option.bind (map_of attrs a) (\<lambda>v. v)"
proof (induction attrs)
  case (Cons p attrs)
  obtain k v where p: "p = (k, v)" by fastforce
  have "map_of (List.map_filter (\<lambda>(k, v). map_option (Pair k) v) attrs) k = None"
    using Cons.prems p by (force simp: map_of_eq_None_iff set_map_filter)
  with Cons p show ?case by (cases v) (auto simp: List.map_filter_simps)
qed (simp add: List.map_filter_simps)

definition read_jid :: "string \<Rightarrow> string + jid" where
  "read_jid s = (if s = ''a@b'' then Inr (JBare (BareJid (Some ''a'') ''b'')) else Inl s)"

definition tree_xml :: "element xml" where
  "tree_xml =
     \<lparr>el_name = tree_name, el_ns = tree_ns, el_attr = (\<lambda>e. map_of (tree_attrs e)),
      el_children = (\<lambda>e. child_elements (tree_nodes e)), el_text = (\<lambda>e. text_content (tree_nodes e)),
      el_show = tree_name, el_build = tree_build, x_jid = read_jid,
      x_bare_jid = (\<lambda>s. map_err id (bind_res (read_jid s) (\<lambda>j. Inr (jid_into_bare j)))),
      x_lowercase = make_ascii_lowercase,
      x_affiliation = (\<lambda>s. if s = ''owner'' then Inr AffOwner else if s = ''admin'' then Inr AffAdmin
        else if s = ''member'' then Inr AffMember else if s = ''outcast'' then Inr AffOutcast
        else if s = ''none'' then Inr AffNone else Inl s),
      x_role = (\<lambda>s. if s = ''moderator'' then Inr Moderator else if s = ''participant'' then Inr Participant
        else if s = ''visitor'' then Inr Visitor else if s = ''none'' then Inr RoleNone else Inl s),
      x_item = (\<lambda>e. case e of ItemElement i \<Rightarrow> Inr i | _ \<Rightarrow> Inl (tree_name e)), x_build_item = ItemElement,
      x_status = (\<lambda>e. case e of StatusElement s \<Rightarrow> Inr s | _ \<Rightarrow> Inl (tree_name e)), x_build_status = StatusElement,
      x_reactions = (\<lambda>e. case map_of (tree_attrs e) ''id'' of
        Some i \<Rightarrow> Inr (i, map (\<lambda>c. text_content (tree_nodes c)) (child_elements (tree_nodes e))) | None \<Rightarrow> Inl (tree_name e)),
      x_build_reactions = (\<lambda>(i, es). Element ''reactions'' ns_reactions [(''id'', i)]
        (map (\<lambda>e. Child (Element ''reaction'' ns_reactions [] [Text e])) es)),
      x_delay = Inl \<circ> tree_name, x_stanza_error = Inl \<circ> tree_name,
      x_replace = (\<lambda>e. Inr (text_content (tree_nodes e))),
      x_occupant_id = Inl \<circ> tree_name, x_omemo = Inl \<circ> tree_name, x_chat_state = Inl \<circ> tree_name,
      x_nick = Inl \<circ> tree_name, x_caps = Inl \<circ> tree_name, x_vcard_photo = Inl \<circ> tree_name,
      x_hash = (\<lambda>e. Inr (text_content (tree_nodes e))),
      x_build_hash = (\<lambda>h. tree_build ''hash'' ''urn:xmpp:hashes:2'' [] [Text h]),
      x_best_text = map_option snd \<circ> (\<lambda>ts. find (\<lambda>_. True) ts)\<rparr>"

lemma tree_xml_ok: "xml_ok tree_xml"
  by (simp add: xml_ok_def tree_xml_def tree_build_def map_of_present)


lemma tree_xml_reads:
  "enums_read tree_xml" "muc_children_read tree_xml" "hashes_read tree_xml" "x_lowercase tree_xml ''true'' = ''true''"
  "jid_reads tree_xml (JBare (BareJid (Some ''a'') ''b''))" "bare_reads tree_xml (BareJid (Some ''a'') ''b'')"
proof -
  have "x_affiliation tree_xml (show_xmpp_affiliation a) = Inr a" "x_role tree_xml (show_role r) = Inr r" for a r
    by (cases a; simp add: tree_xml_def) (cases r; simp add: tree_xml_def)
  then show "enums_read tree_xml" by (simp add: enums_read_def)
qed (simp_all add: tree_xml_def muc_children_read_def hashes_read_def jid_reads_def bare_reads_def
      el_is_def read_jid_def make_ascii_lowercase_def ascii_lower_char_def tree_build_def)

definition ex_file :: media_file where
  "ex_file = \<lparr>mf_media_type = ''image/png'', mf_name = Some ''a.png'', mf_size = 17, mf_desc = Some [],
     mf_duration = Some 3, mf_hashes = [''h''],
     mf_thumbnails = [\<lparr>xt_uri = ''cid:1'', xt_media_type = None, xt_width = Some 64, xt_height = None\<rparr>]\<rparr>"

theorem media_share_roundtrip_witness:
  "media_share_try_from tree_xml (media_share_element tree_xml \<lparr>sh_file = ex_file, sh_sources = [data_reference ''https://a.b'']\<rparr>) =
     Inr \<lparr>sh_file = ex_file\<lparr>mf_desc := None\<rparr>, sh_sources = [data_reference ''https://a.b'']\<rparr>"
proof -
  have "file_bounded ex_file" "reference_bounded (data_reference ''https://a.b'')"
    by (simp_all add: file_bounded_def ex_file_def thumbnail_bounded_def reference_bounded_def data_reference_def)
  with media_share_roundtrip [OF tree_xml_ok tree_xml_reads(3),
      of "\<lparr>sh_file = ex_file, sh_sources = [data_reference ''https://a.b'']\<rparr>"]
  show ?thesis by (simp add: ex_file_def)
qed

theorem message_payloads_roundtrip_witness:
  "fallback_try_from tree_xml (fallback_element tree_xml
     \<lparr>fb_for = Some ns_reply, fb_subjects = [], fb_bodies = [\<lparr>fr_start = Some 0, fr_end = Some 12\<rparr>]\<rparr>) =
   Inr \<lparr>fb_for = Some ns_reply, fb_subjects = [], fb_bodies = [\<lparr>fr_start = Some 0, fr_end = Some 12\<rparr>]\<rparr>"
  using message_payloads_roundtrip [OF tree_xml_ok tree_xml_reads(1) tree_xml_reads(4),
      of "\<lparr>si_id = ''1'', si_by = JBare (BareJid (Some ''a'') ''b'')\<rparr>" "\<lparr>rp_id = ''1'', rp_to = None\<rparr>"
        "\<lparr>mmu_jid = None, mmu_affiliation = AffOwner, mmu_role = Visitor\<rparr>"
        "\<lparr>fb_for = Some ns_reply, fb_subjects = [], fb_bodies = [\<lparr>fr_start = Some 0, fr_end = Some 12\<rparr>]\<rparr>"]
  by (simp add: tree_xml_reads range_bounded_def)

theorem muc_elements_roundtrip_witness:
  "direct_invite_try_from tree_xml (direct_invite_element tree_xml
     \<lparr>di_jid = BareJid (Some ''a'') ''b'', di_password = None, di_reason = None, di_continue = Some False, di_thread = None\<rparr>) =
   Inr \<lparr>di_jid = BareJid (Some ''a'') ''b'', di_password = None, di_reason = None, di_continue = None, di_thread = None\<rparr>"
proof -
  let ?d = "\<lparr>di_jid = BareJid (Some ''a'') ''b'', di_password = None, di_reason = None, di_continue = Some False, di_thread = None\<rparr>"
  show ?thesis
    using muc_elements_roundtrip [OF tree_xml_ok tree_xml_reads(1,2),
        of "\<lparr>inv_jid = BareJid (Some ''a'') ''b'', inv_affiliation = AffMember, inv_reason = None\<rparr>" ?d
          "\<lparr>md_invites = [\<lparr>iv_from = None, iv_to = None, iv_reason = None\<rparr>], md_password = None\<rparr>" muc_user_new]
    by (simp add: tree_xml_reads invite_reads_def muc_user_new_def)
qed

end
