(* ===== verification/MessageParser.thy ===== *)
theory MessageParser
  imports EventParser Texts StanzaRoundtrips
begin

text \<open>
  From message stanzas to messages (\<^verbatim>\<open>domain/messaging/models/message_parser.rs\<close>) and back:
  attachments, mentions, replies and encrypted payloads
  (\<^verbatim>\<open>infra/xmpp/util/message_ext.rs\<close>, \<^verbatim>\<open>media_share_ext.rs\<close>, \<^verbatim>\<open>file_ext.rs\<close>,
  \<^verbatim>\<open>infra/xmpp/type_conversions\<close>).

  URLs and media types are kept in the form their libraries print; the libraries, the hash of a URL and
  the rendering of Markdown are fields of the record \<open>media_env\<close>.
\<close>

section \<open>Encrypted payloads\<close>

record encryption_key =
  ek_device_id :: device_id
  ek_is_pre_key :: bool
  ek_data :: "nat list"

record encrypted_payload =
  ep_device_id :: device_id
  ep_iv :: "nat list"
  ep_keys :: "encryption_key list"
  ep_payload :: "nat list"

record key_transport_payload =
  kt_device_id :: device_id
  kt_iv :: "nat list"
  kt_keys :: "encryption_key list"

datatype encrypted_message = EncryptedMessage encrypted_payload | KeyTransport key_transport_payload

definition payload_get_key :: "device_id \<Rightarrow> encrypted_payload \<Rightarrow> encryption_key option" where
  "payload_get_key d p = find (\<lambda>k. ek_device_id k = d) (ep_keys p)"

definition transport_get_key :: "device_id \<Rightarrow> key_transport_payload \<Rightarrow> encryption_key option" where
  "transport_get_key d p = find (\<lambda>k. ek_device_id k = d) (kt_keys p)"

definition omemo_key_from :: "encryption_key \<Rightarrow> omemo_key" where
  "omemo_key_from k = \<lparr>ok_rid = ek_device_id k, ok_prekey = ek_is_pre_key k, ok_data = ek_data k\<rparr>"

definition encryption_key_from :: "omemo_key \<Rightarrow> encryption_key" where
  "encryption_key_from k = \<lparr>ek_device_id = ok_rid k, ek_is_pre_key = ok_prekey k, ek_data = ok_data k\<rparr>"

definition omemo_from_payload :: "encrypted_payload \<Rightarrow> omemo_encrypted" where
  "omemo_from_payload p =
     \<lparr>oe_sid = ep_device_id p, oe_keys = map omemo_key_from (ep_keys p), oe_iv = ep_iv p,
      oe_payload = Some (ep_payload p)\<rparr>"

definition omemo_from_key_transport :: "key_transport_payload \<Rightarrow> omemo_encrypted" where
  "omemo_from_key_transport p =
     \<lparr>oe_sid = kt_device_id p, oe_keys = map omemo_key_from (kt_keys p), oe_iv = kt_iv p, oe_payload = None\<rparr>"

definition encrypted_message_from :: "omemo_encrypted \<Rightarrow> encrypted_message" where
  "encrypted_message_from e =
     (let keys = map encryption_key_from (oe_keys e) in
      case oe_payload e of
        Some p \<Rightarrow> EncryptedMessage \<lparr>ep_device_id = oe_sid e, ep_iv = oe_iv e, ep_keys = keys, ep_payload = p\<rparr>
      | None \<Rightarrow> KeyTransport \<lparr>kt_device_id = oe_sid e, kt_iv = oe_iv e, kt_keys = keys\<rparr>)"

section \<open>Errors\<close>

fun show_condition :: "defined_condition \<Rightarrow> string" where
  "show_condition BadRequest = ''Bad Request''"
| "show_condition Conflict = ''Conflict''"
| "show_condition FeatureNotImplemented = ''Feature Not Implemented''"
| "show_condition Forbidden = ''Forbidden''"
| "show_condition Gone = ''Gone''"
| "show_condition InternalServerError = ''Internal Server Error''"
| "show_condition ItemNotFound = ''Item Not Found''"
| "show_condition JidMalformed = ''Jid Malformed''"
| "show_condition NotAcceptable = ''Not Acceptable''"
| "show_condition NotAllowed = ''Not Allowed''"
| "show_condition NotAuthorized = ''Not Authorized''"
| "show_condition PolicyViolation = ''Policy Violation''"
| "show_condition RecipientUnavailable = ''Recipient Unavailable''"
| "show_condition Redirect = ''Redirect''"
| "show_condition RegistrationRequired = ''Registration Required''"
| "show_condition RemoteServerNotFound = ''Remote Server Not Found''"
| "show_condition RemoteServerTimeout = ''Remote Server Timeout''"
| "show_condition ResourceConstraint = ''Resource Constraint''"
| "show_condition ServiceUnavailable = ''Service Unavailable''"
| "show_condition SubscriptionRequired = ''Subscription Required''"
| "show_condition UndefinedCondition = ''Undefined Condition''"
| "show_condition UnexpectedRequest = ''Unexpected Request''"

text \<open>The texts of an error are a map ordered by language.\<close>

definition show_stanza_error :: "stanza_failure \<Rightarrow> string" where
  "show_stanza_error f =
     (case map_of (sf_texts f) ''en'' of
        Some t \<Rightarrow> t
      | None \<Rightarrow> (case sf_texts f of (_, t) # _ \<Rightarrow> t | [] \<Rightarrow> show_condition (sf_condition f)))"

datatype stanza_parse_error = MissingAttribute string | MissingChildNode string | StanzaParse string

fun show_stanza_parse_error :: "stanza_parse_error \<Rightarrow> string" where
  "show_stanza_parse_error (MissingAttribute a) = ''Missing attribute: '' @ a"
| "show_stanza_parse_error (MissingChildNode n) = ''Missing child node: '' @ n"
| "show_stanza_parse_error (StanzaParse e) = ''Parse error: '' @ e"

section \<open>Attachments\<close>

record media_env =
  url_parse :: "string \<Rightarrow> string option"
  url_scheme :: "string \<Rightarrow> string"
  url_path :: "string \<Rightarrow> string"
  mime_parse :: "string \<Rightarrow> string option"
  mime_type :: "string \<Rightarrow> string"
  mime_subtype :: "string \<Rightarrow> string"
  guess_mime :: "string \<Rightarrow> string option"
  sha1_hex :: "string \<Rightarrow> string"
  markdown_to_html :: "string \<Rightarrow> html"
  round_to_second :: "timestamp \<Rightarrow> timestamp"

text \<open>
  \<^verbatim>\<open>Path::file_name\<close> and \<^verbatim>\<open>Path::extension\<close>: the last component of a path, and what follows
  its last dot unless the dot is its first character.
\<close>

definition path_components :: "string \<Rightarrow> string list" where
  "path_components p = filter (\<lambda>c. c \<noteq> [] \<and> c \<noteq> ''.'') (split_on (\<lambda>c. c = CHR ''/'') p)"

definition path_file_name :: "string \<Rightarrow> string option" where
  "path_file_name p =
     (let cs = path_components p in if cs = [] \<or> last cs = ''..'' then None else Some (last cs))"

definition path_extension :: "string \<Rightarrow> string option" where
  "path_extension p =
     Option.bind (path_file_name p) (\<lambda>f.
       (case rposition (\<lambda>c. c = CHR ''.'') f of
          None \<Rightarrow> None
        | Some i \<Rightarrow> if i = 0 then None else Some (drop (Suc i) f)))"

definition octet_stream :: string where
  "octet_stream = ''application/octet-stream''"

definition path_media_type :: "media_env \<Rightarrow> string \<Rightarrow> string" where
  "path_media_type me p =
     (let mt = (case guess_mime me p of Some mt \<Rightarrow> mt | None \<Rightarrow> octet_stream) in
      if mime_type me mt = ''audio'' \<and> mime_subtype me mt = ''m4a'' then ''audio/mp4'' else mt)"

definition file_name_or_hash :: "media_env \<Rightarrow> string \<Rightarrow> string" where
  "file_name_or_hash me url =
     (let path = url_path me url;
          name = (case path_file_name path of Some f \<Rightarrow> f | None \<Rightarrow> sha1_hex me url)
      in if path_extension path = None then name @ ''.bin'' else name)"

definition attachment_from_url :: "media_env \<Rightarrow> string \<Rightarrow> attachment" where
  "attachment_from_url me url =
     (let mt = path_media_type me (url_path me url) in
      \<lparr>att_type =
         (if mime_type me mt = ''image'' then Image None
          else if mime_type me mt = ''audio'' then Audio None
          else if mime_type me mt = ''video'' then Video None None
          else File),
       att_url = url, att_media_type = mt, att_file_name = file_name_or_hash me url, att_file_size = None\<rparr>)"

definition attachment_from_oob :: "media_env \<Rightarrow> oob \<Rightarrow> attachment option" where
  "attachment_from_oob me v = map_option (attachment_from_url me) (url_parse me (oob_url v))"

definition oob_from_attachment :: "attachment \<Rightarrow> oob" where
  "oob_from_attachment a = \<lparr>oob_url = att_url a, oob_desc = None\<rparr>"

definition thumbnail_from_xmpp :: "media_env \<Rightarrow> xmpp_thumbnail \<Rightarrow> thumbnail option" where
  "thumbnail_from_xmpp me t =
     Option.bind (url_parse me (xt_uri t)) (\<lambda>url.
     Option.bind (case xt_media_type t of None \<Rightarrow> Some octet_stream | Some mt \<Rightarrow> mime_parse me mt) (\<lambda>mt.
     Some \<lparr>thumb_url = url, thumb_media_type = mt, thumb_width = xt_width t, thumb_height = xt_height t\<rparr>))"

definition xmpp_thumbnail_from :: "thumbnail \<Rightarrow> xmpp_thumbnail" where
  "xmpp_thumbnail_from t =
     \<lparr>xt_uri = thumb_url t, xt_media_type = Some (thumb_media_type t), xt_width = thumb_width t, xt_height = thumb_height t\<rparr>"

fun find_map :: "('a \<Rightarrow> 'b option) \<Rightarrow> 'a list \<Rightarrow> 'b option" where
  "find_map f [] = None"
| "find_map f (x # xs) = (case f x of Some y \<Rightarrow> Some y | None \<Rightarrow> find_map f xs)"

definition best_thumbnail_representation :: "media_env \<Rightarrow> media_file \<Rightarrow> thumbnail option" where
  "best_thumbnail_representation me f = find_map (thumbnail_from_xmpp me) (mf_thumbnails f)"

definition http_source :: "media_env \<Rightarrow> reference \<Rightarrow> string option" where
  "http_source me r =
     (if rf_type r \<noteq> DataReference then None
      else
        (case url_parse me (rf_uri r) of
           None \<Rightarrow> None
         | Some url \<Rightarrow> if url_scheme me url = ''https'' \<or> url_scheme me url = ''http'' then Some url else None))"

definition first_http_source_url :: "media_env \<Rightarrow> media_share \<Rightarrow> string option" where
  "first_http_source_url me s = find_map (http_source me) (sh_sources s)"

definition attachment_from_share :: "media_env \<Rightarrow> media_share \<Rightarrow> attachment option" where
  "attachment_from_share me s =
     Option.bind (first_http_source_url me s) (\<lambda>url.
     Option.bind (mime_parse me (mf_media_type (sh_file s))) (\<lambda>mt.
     Some
       \<lparr>att_type =
          (if mime_type me mt = ''image'' then Image (best_thumbnail_representation me (sh_file s))
           else if mime_type me mt = ''audio'' then Audio (mf_duration (sh_file s))
           else if mime_type me mt = ''video'' then Video (mf_duration (sh_file s)) (best_thumbnail_representation me (sh_file s))
           else File),
        att_url = url, att_media_type = mt,
        att_file_name = (case mf_name (sh_file s) of Some n \<Rightarrow> n | None \<Rightarrow> file_name_or_hash me url),
        att_file_size = Some (mf_size (sh_file s))\<rparr>))"

definition thumbnails_of :: "thumbnail option \<Rightarrow> xmpp_thumbnail list" where
  "thumbnails_of t = (case t of None \<Rightarrow> [] | Some t \<Rightarrow> [xmpp_thumbnail_from t])"

definition share_from_attachment :: "attachment \<Rightarrow> media_share" where
  "share_from_attachment a =
     \<lparr>sh_file =
        \<lparr>mf_media_type = att_media_type a, mf_name = Some (att_file_name a),
         mf_size = (case att_file_size a of Some n \<Rightarrow> n | None \<Rightarrow> 0), mf_desc = None,
         mf_duration = (case att_type a of Audio d \<Rightarrow> d | Video d _ \<Rightarrow> d | _ \<Rightarrow> None),
         mf_hashes = [],
         mf_thumbnails = (case att_type a of Image t \<Rightarrow> thumbnails_of t | Video _ t \<Rightarrow> thumbnails_of t | _ \<Rightarrow> [])\<rparr>,
      sh_sources = [data_reference (att_url a)]\<rparr>"

definition push_attachment_if_needed :: "attachment \<Rightarrow> attachment list \<Rightarrow> attachment list" where
  "push_attachment_if_needed a as = (if list_ex (\<lambda>b. att_url b = att_url a) as then as else as @ [a])"

definition attachments :: "'e xml \<Rightarrow> media_env \<Rightarrow> 'e message_stanza \<Rightarrow> attachment list" where
  "attachments x me m =
     fold push_attachment_if_needed
       (List.map_filter (attachment_from_share me) (media_shares_of x m) @
        List.map_filter (attachment_from_oob me) (oob_attachments_of x m)) []"

definition append_attachments :: "'e xml \<Rightarrow> attachment list \<Rightarrow> 'e message_stanza \<Rightarrow> 'e message_stanza" where
  "append_attachments x as m =
     fold (\<lambda>a m.
       push_payload (oob_element x (oob_from_attachment a))
         (push_payload
           (el_build x ''reference'' ns_reference [(''type'', Some ''data'')]
              [Child (media_share_element x (share_from_attachment a))]) m)) as m"

section \<open>Mentions\<close>

definition reference_from_mention :: "mention \<Rightarrow> reference" where
  "reference_from_mention v =
     (mention_reference (user_jid (mention_user v)))
       \<lparr>rf_begin := map_option fst (mention_range v), rf_end := map_option snd (mention_range v)\<rparr>"

definition mention_from_reference :: "(string \<Rightarrow> jid option) \<Rightarrow> reference \<Rightarrow> string + mention" where
  "mention_from_reference parse r =
     (if rf_type r \<noteq> MentionReference then Inl ''Invalid reference type''
      else
        bind_res (map_err (\<lambda>_. ''invalid IRI'') (user_id_from_iri parse (rf_uri r))) (\<lambda>user.
        Inr \<lparr>mention_user = user,
             mention_range = Option.bind (rf_begin r) (\<lambda>b. map_option (\<lambda>e. (b, e)) (rf_end r))\<rparr>))"

section \<open>Reading messages\<close>

definition is_groupchat_message :: "'e xml \<Rightarrow> 'e message_stanza \<Rightarrow> bool" where
  "is_groupchat_message x m \<longleftrightarrow>
     ms_type m = Groupchat \<or> find (\<lambda>p. el_is x p ''x'' ns_muc_user) (ms_payloads m) \<noteq> None"

fun try_into_full :: "jid \<Rightarrow> full_jid option" where
  "try_into_full (JFull f) = Some f"
| "try_into_full (JBare _) = None"

definition sender :: "'e xml \<Rightarrow> 'e message_stanza \<Rightarrow> ('s, user_endpoint_id option) program" where
  "sender x m =
     (case ms_from m of
        None \<Rightarrow> return None
      | Some from \<Rightarrow>
          if is_groupchat_message x m then
            return (map_option (\<lambda>f. EOccupant (OccupantId f)) (try_into_full from))
          else
            (case from of
               JFull f \<Rightarrow> bindM (require_resource f) (\<lambda>r. return (Some (EResource r)))
             | JBare b \<Rightarrow> bindM (require_user b) (\<lambda>u. return (Some (EUser u)))))"

definition message_room_id :: "'e xml \<Rightarrow> 'e message_stanza \<Rightarrow> ('s, room_id option) program" where
  "message_room_id x m =
     (case ms_to m of
        None \<Rightarrow> return None
      | Some to \<Rightarrow>
          if is_groupchat_message x m then return (Some (RMuc (MucId (jid_into_bare to))))
          else bindM (require_user (jid_into_bare to)) (\<lambda>u. return (Some (RUser u))))"

definition server_id_of :: "'e xml \<Rightarrow> 'e message_stanza \<Rightarrow> string option" where
  "server_id_of x m = map_option si_id (stanza_id_of x m)"

definition reply_fallback_range :: "'e xml \<Rightarrow> 'e message_stanza \<Rightarrow> (nat \<times> nat) option" where
  "reply_fallback_range x m =
     Option.bind (fallback_for x (Some ns_reply) m) (\<lambda>f.
       (case fb_bodies f of
          [] \<Rightarrow> None
        | r # _ \<Rightarrow> Option.bind (fr_start r) (\<lambda>s. map_option (\<lambda>e. (s, e)) (fr_end r))))"

text \<open>The range of bytes of the fallback, where it lies within the body.\<close>

definition fallback_utf8_range :: "'e xml \<Rightarrow> 'e message_stanza \<Rightarrow> string \<Rightarrow> (nat \<times> nat) option" where
  "fallback_utf8_range x m body =
     Option.bind (reply_fallback_range x m) (\<lambda>r. ok_of (scalar_to_utf8_range r (scalars body)))"

definition message_reply_to :: "'e xml \<Rightarrow> 'e message_stanza \<Rightarrow> string \<Rightarrow> ('s, reply_to option) program" where
  "message_reply_to x m body =
     (case reply_of x m of
        None \<Rightarrow> return None
      | Some reply \<Rightarrow>
          bindM
            (if is_groupchat_message x m then
               return (ServerId (rp_id reply), map_option (\<lambda>f. POccupant (OccupantId f)) (Option.bind (rp_to reply) try_into_full))
             else
               (case rp_to reply of
                  None \<Rightarrow> return (RemoteId (rp_id reply), None)
                | Some j \<Rightarrow> bindM (require_user (jid_into_bare j)) (\<lambda>u. return (RemoteId (rp_id reply), Some (PUser u)))))
            (\<lambda>(i, to).
             return (Some
               \<lparr>reply_id = i, reply_to_participant = to,
                reply_quote =
                  Option.bind (fallback_utf8_range x m body) (\<lambda>(s, e).
                    map_option trimmed_quote (safe_slice (SliceIncluded s) (SliceExcluded e) body))\<rparr>)))"

section \<open>Writing messages\<close>

text \<open>\<^verbatim>\<open>send_message_request.rs\<close>.\<close>

datatype send_payload = SendUnencrypted string string | SendEncrypted encrypted_payload

record send_body =
  sb_payload :: send_payload
  sb_mentions :: "mention list"

record send_message_request =
  sr_id :: message_id
  sr_body :: "send_body option"
  sr_attachments :: "attachment list"

text \<open>How \<^verbatim>\<open>xmpp_parsers\<close> writes the payloads it has types for.\<close>

record 'e payload_writer =
  pw_encrypted :: "omemo_encrypted \<Rightarrow> 'e"
  pw_explicit_encryption :: "string \<Rightarrow> string option \<Rightarrow> 'e"
  pw_chat_state :: "chat_state \<Rightarrow> 'e"
  pw_replace :: "string \<Rightarrow> 'e"
  pw_delay :: "jid option \<Rightarrow> timestamp \<Rightarrow> 'e"

definition set_omemo_payload :: "'e payload_writer \<Rightarrow> omemo_encrypted \<Rightarrow> 'e message_stanza \<Rightarrow> 'e message_stanza" where
  "set_omemo_payload pw p m =
     push_payload (pw_explicit_encryption pw ns_legacy_omemo (Some ''OMEMO'')) (push_payload (pw_encrypted pw p) m)"

definition set_message_body :: "'e xml \<Rightarrow> 'e payload_writer \<Rightarrow> send_body option \<Rightarrow> 'e message_stanza \<Rightarrow> 'e message_stanza" where
  "set_message_body x pw body m =
     (case body of
        None \<Rightarrow> m
      | Some b \<Rightarrow>
          let m' = add_references x (map reference_from_mention (sb_mentions b)) m in
          (case sb_payload b of
             SendUnencrypted markdown fallback \<Rightarrow> set_body fallback (add_content x ''text/markdown'' markdown m')
           | SendEncrypted p \<Rightarrow> set_body ''[This message is OMEMO encrypted]'' (set_omemo_payload pw (omemo_from_payload p) m')))"

section \<open>The parser\<close>

record message_parser =
  mp_message_id :: message_id
  mp_room :: "room option"
  mp_timestamp :: timestamp
  mp_decryption_context :: "decryption_context option"

definition message_parser_new :: "media_env \<Rightarrow> message_id \<Rightarrow> room option \<Rightarrow> timestamp \<Rightarrow> decryption_context option \<Rightarrow>
    message_parser" where
  "message_parser_new me i room now ctx =
     \<lparr>mp_message_id = i, mp_room = room, mp_timestamp = round_to_second me now, mp_decryption_context = ctx\<rparr>"

text \<open>The encryption service, awaited by the parser.\<close>

record 's encryption_services =
  es_decrypt_message :: "user_id \<Rightarrow> room_id \<Rightarrow> message_id option \<Rightarrow> encrypted_payload \<Rightarrow> decryption_context option \<Rightarrow>
    ('s, string) program"
  es_handle_key_transport :: "user_id \<Rightarrow> key_transport_payload \<Rightarrow> decryption_context option \<Rightarrow> ('s, unit) program"

definition stanza_failed :: "stanza_parse_error \<Rightarrow> ('s, 'a) program" where
  "stanza_failed e = fail (show_stanza_parse_error e)"

definition no_payload :: "('s, 'a) program" where
  "no_payload = fail ''No payload in message''"

definition parse_sender :: "'e xml \<Rightarrow> message_parser \<Rightarrow> 'e message_stanza \<Rightarrow> ('s, participant_id \<times> user_id option) program" where
  "parse_sender x mp m =
     (case ms_from m of
        None \<Rightarrow> stanza_failed (MissingAttribute ''from'')
      | Some from \<Rightarrow>
          if is_groupchat_message x m then
            bindM
              (case Option.bind (message_muc_user_of x m) mmu_jid of
                 Some j \<Rightarrow> bindM (require_user (jid_into_bare j)) (\<lambda>u. return (Some u))
               | None \<Rightarrow>
                   return (Option.bind (mp_room mp) (\<lambda>room.
                     Option.bind (anon_occupant_id_of x m) (\<lambda>a.
                       pl_get_user_id (rd_participants (r_details room)) (AnonOccupantId a)))))
              (\<lambda>user_id.
               case try_into_full from of
                 None \<Rightarrow>
                   stanza_failed (StanzaParse
                     (''Expected `from` attribute to contain FullJid for groupchat message''))
               | Some full \<Rightarrow> return (POccupant (OccupantId full), user_id))
          else bindM (require_user (jid_into_bare from)) (\<lambda>u. return (PUser u, Some u)))"

datatype parsed_body = PlaintextBody "string option" string | EncryptedBody string encryption_info | EmptyBody

definition parse_message_body :: "'e xml \<Rightarrow> 's encryption_services \<Rightarrow> message_parser \<Rightarrow> user_id option \<Rightarrow> room_id \<Rightarrow>
    'e message_stanza \<Rightarrow> ('s, parsed_body option) program" where
  "parse_message_body x es mp sender_id room_id m =
     (case (sender_id, omemo_element_of x m) of
        (Some sender_id, Some omemo) \<Rightarrow>
          (case encrypted_message_from omemo of
             EncryptedMessage p \<Rightarrow>
               bindM (attempt (es_decrypt_message es sender_id room_id (Some (mp_message_id mp)) p (mp_decryption_context mp)))
               (\<lambda>result.
                return (Some
                  (case result of
                     Inr body \<Rightarrow> EncryptedBody body \<lparr>enc_sender = oe_sid omemo\<rparr>
                   | Inl _ \<Rightarrow>
                       EncryptedBody
                         (case body_of x m of
                            Some b \<Rightarrow> b
                          | None \<Rightarrow> ''Message failed to decrypt and did not contain a fallback text.'')
                         \<lparr>enc_sender = oe_sid omemo\<rparr>)))
           | KeyTransport p \<Rightarrow>
               bindM (attempt (es_handle_key_transport es sender_id p (mp_decryption_context mp))) (\<lambda>_.
               return (Some EmptyBody)))
      | _ \<Rightarrow>
          return (map_option (\<lambda>body.
            PlaintextBody (map_option cn_content (content_with_type x ''text/markdown'' m)) body) (body_of x m)))"

text \<open>The target of a reaction or a receipt.\<close>

definition target_of :: "bool \<Rightarrow> string \<Rightarrow> message_target_id" where
  "target_of groupchat i = (if groupchat then ServerId i else RemoteId i)"

text \<open>The raw text, the HTML and the reply of a body.\<close>

definition body_parts :: "'e xml \<Rightarrow> media_env \<Rightarrow> 'e message_stanza \<Rightarrow> string option \<Rightarrow> string \<Rightarrow>
    ('s, string \<times> html \<times> reply_to option) program" where
  "body_parts x me m body fallback =
     (case body of
        Some markdown \<Rightarrow> return (markdown, markdown_to_html me markdown, None)
      | None \<Rightarrow>
          bindM (message_reply_to x m fallback) (\<lambda>reply.
          let text = (case fallback_utf8_range x m fallback of
              Some (_, e) \<Rightarrow> (case safe_slice (SliceIncluded e) SliceUnbounded fallback of Some t \<Rightarrow> t | None \<Rightarrow> fallback)
            | None \<Rightarrow> fallback)
          in return (text, styled_into_html text, reply)))"

definition parse_content :: "'e xml \<Rightarrow> media_env \<Rightarrow> (string \<Rightarrow> jid option) \<Rightarrow> 'e message_stanza \<Rightarrow> parsed_body \<Rightarrow>
    ('s, payload) program" where
  "parse_content x me parse m body =
     (case (case body of
              PlaintextBody b f \<Rightarrow> Some (b, f, None)
            | EncryptedBody f info \<Rightarrow> Some (None, f, Some info)
            | EmptyBody \<Rightarrow> None) of
        None \<Rightarrow> no_payload
      | Some (b, f, info) \<Rightarrow>
          bindM (body_parts x me m b f) (\<lambda>(raw, html, reply).
          let mentions = List.map_filter (\<lambda>r. ok_of (mention_from_reference parse r)) (mentions_of x m);
              lb = \<lparr>lb_raw = raw, lb_html = html, lb_mentions = mentions\<rparr>
          in return
               (case replace_of x m of
                  Some i \<Rightarrow> Correction (RemoteId i) lb (attachments x me m) info
                | None \<Rightarrow>
                    PMessage lb (attachments x me m) info (is_groupchat_message x m \<and> ms_type m = Chat) reply (ms_thread m))))"

definition parse_message_payload :: "'e xml \<Rightarrow> media_env \<Rightarrow> (string \<Rightarrow> jid option) \<Rightarrow> 's encryption_services \<Rightarrow> message_parser \<Rightarrow>
    user_id option \<Rightarrow> room_id \<Rightarrow> 'e message_stanza \<Rightarrow> ('s, payload) program" where
  "parse_message_payload x me parse es mp sender_id room_id m =
     (let groupchat = is_groupchat_message x m in
      case error_of x m of
        Some e \<Rightarrow> return (PError (show_stanza_error e))
      | None \<Rightarrow>
      case reactions_of x m of
        Some (i, emojis) \<Rightarrow> return (PReaction (target_of groupchat i) emojis)
      | None \<Rightarrow>
      case (case fastening_of x m of Some f \<Rightarrow> if is_retraction x f then Some (at_id f) else None | None \<Rightarrow> None) of
        Some i \<Rightarrow> return (Retraction (RemoteId i))
      | None \<Rightarrow>
      case received_marker_of x m of
        Some i \<Rightarrow> return (DeliveryReceipt (target_of groupchat i))
      | None \<Rightarrow>
      case displayed_marker_of x m of
        Some i \<Rightarrow> return (ReadReceipt (target_of groupchat i))
      | None \<Rightarrow>
          bindM (parse_message_body x es mp sender_id room_id m) (\<lambda>body.
          case (case body of
                  Some b \<Rightarrow> Some b
                | None \<Rightarrow> if attachments x me m \<noteq> [] then Some (PlaintextBody None []) else None) of
            Some b \<Rightarrow> parse_content x me parse m b
          | None \<Rightarrow> no_payload))"

definition parse_message_like :: "'e xml \<Rightarrow> media_env \<Rightarrow> (string \<Rightarrow> jid option) \<Rightarrow> 's encryption_services \<Rightarrow> message_parser \<Rightarrow>
    'e message_stanza \<Rightarrow> ('s, message_like) program" where
  "parse_message_like x me parse es mp m =
     bindM (parse_sender x mp m) (\<lambda>(participant, user).
     let room = (case mp_room mp of Some r \<Rightarrow> ri_room_id (r_info r) | None \<Rightarrow> p_to_room_id participant) in
     bindM (parse_message_payload x me parse es mp user room m) (\<lambda>payload.
     return
       \<lparr>ml_id = mp_message_id mp, ml_remote_id = ms_id m, ml_server_id = server_id_of x m,
        ml_to = map_option jid_into_bare (ms_to m),
        ml_from = (case user of Some u \<Rightarrow> PUser u | None \<Rightarrow> participant),
        ml_timestamp = (case delay_of x m of Some t \<Rightarrow> t | None \<Rightarrow> mp_timestamp mp),
        ml_payload = payload\<rparr>))"

definition parse_forwarded_message :: "'e xml \<Rightarrow> media_env \<Rightarrow> (string \<Rightarrow> jid option) \<Rightarrow> 's encryption_services \<Rightarrow> message_parser \<Rightarrow>
    'e forwarded \<Rightarrow> ('s, message_like) program" where
  "parse_forwarded_message x me parse es mp f =
     (case fw_stanza f of
        None \<Rightarrow> stanza_failed (MissingChildNode ''message'')
      | Some m \<Rightarrow>
          bindM (parse_message_like x me parse es mp m) (\<lambda>ml.
          return (case fw_delay f of Some t \<Rightarrow> ml\<lparr>ml_timestamp := t\<rparr> | None \<Rightarrow> ml)))"

fun carbon_forwarded :: "'e carbon \<Rightarrow> 'e forwarded" where
  "carbon_forwarded (CarbonReceived f) = f"
| "carbon_forwarded (CarbonSent f) = f"

definition parse_carbon :: "'e xml \<Rightarrow> media_env \<Rightarrow> (string \<Rightarrow> jid option) \<Rightarrow> 's encryption_services \<Rightarrow> message_parser \<Rightarrow>
    'e carbon \<Rightarrow> ('s, message_like) program" where
  "parse_carbon x me parse es mp c = parse_forwarded_message x me parse es mp (carbon_forwarded c)"

definition parse_mam_message :: "'e xml \<Rightarrow> media_env \<Rightarrow> (string \<Rightarrow> jid option) \<Rightarrow> 's encryption_services \<Rightarrow> message_parser \<Rightarrow>
    'e archived_message \<Rightarrow> ('s, message_like) program" where
  "parse_mam_message x me parse es mp a =
     bindM (parse_forwarded_message x me parse es mp (am_forwarded a)) (\<lambda>ml.
     return (ml\<lparr>ml_server_id := Some (am_id a)\<rparr>))"

section \<open>Attachments and mentions read back\<close>

lemma attachment_lists:
  "List.map_filter f (xs @ ys) = List.map_filter f xs @ List.map_filter f ys"
  by (simp add: List.map_filter_def)

text \<open>What attachments are read back as: of several with the same URL the first, and one without a size with the size 0.\<close>

fun first_per_url :: "attachment list \<Rightarrow> attachment list" where
  "first_per_url [] = []"
| "first_per_url (a # as) = a # filter (\<lambda>b. att_url b \<noteq> att_url a) (first_per_url as)"

definition sized :: "attachment \<Rightarrow> attachment" where
  "sized a = a\<lparr>att_file_size := Some (case att_file_size a of Some n \<Rightarrow> n | None \<Rightarrow> 0)\<rparr>"

lemma att_url_sized [simp]: "att_url (sized a) = att_url a" by (simp add: sized_def)

lemma urls_first_per_url: "att_url ` set (first_per_url as) = att_url ` set as"
proof (induction as)
  case (Cons a as)
  have "att_url ` set (filter (\<lambda>b. att_url b \<noteq> att_url a) (first_per_url as)) = att_url ` set (first_per_url as) - {att_url a}" by auto
  with Cons show ?case by auto
qed simp

lemma first_per_url_distinct: "distinct (map att_url as) \<Longrightarrow> first_per_url as = as"
proof (induction as)
  case (Cons a as)
  then have "filter (\<lambda>b. att_url b \<noteq> att_url a) as = as" by (intro filter_True) (force simp: image_iff)
  with Cons show ?case by simp
qed simp

lemma fold_push_first:
  "fold push_attachment_if_needed bs as = as @ filter (\<lambda>b. att_url b \<notin> att_url ` set as) (first_per_url bs)"
proof (induction bs arbitrary: as)
  case (Cons b bs)
  show ?case
  proof (cases "att_url b \<in> att_url ` set as")
    case True
    then have "push_attachment_if_needed b as = as" by (auto simp: push_attachment_if_needed_def list_ex_iff)
    moreover have "filter (\<lambda>c. att_url c \<notin> att_url ` set as) (first_per_url bs) =
        filter (\<lambda>c. att_url c \<notin> att_url ` set as) (filter (\<lambda>c. att_url c \<noteq> att_url b) (first_per_url bs))"
      using True by (auto simp: filter_filter intro!: filter_cong)
    ultimately show ?thesis using True Cons.IH [of as] by simp
  next
    case False
    then have "push_attachment_if_needed b as = as @ [b]"
      by (auto simp: push_attachment_if_needed_def list_ex_iff) (metis image_eqI)
    with False Cons.IH [of "as @ [b]"] show ?thesis by (auto simp: filter_filter intro!: filter_cong)
  qed
qed simp

lemma fold_push_known:
  "att_url ` set bs \<subseteq> att_url ` set as \<Longrightarrow> fold push_attachment_if_needed bs as = as"
  by (induction bs) (auto simp: push_attachment_if_needed_def list_ex_iff)

text \<open>The attachments of a message have different URLs.\<close>

lemma attachments_distinct: "distinct (map att_url (attachments x me m))"
proof -
  have "distinct (map att_url as) \<Longrightarrow> distinct (map att_url (fold push_attachment_if_needed bs as))" for as bs
  proof (induction bs arbitrary: as)
    case (Cons b bs)
    have "distinct (map att_url (push_attachment_if_needed b as))"
      using Cons.prems by (auto simp: push_attachment_if_needed_def list_ex_iff)
    from Cons.IH [OF this] show ?case by simp
  qed simp
  then show ?thesis by (simp add: attachments_def)
qed

definition thumbnail_readable :: "media_env \<Rightarrow> thumbnail \<Rightarrow> bool" where
  "thumbnail_readable me t \<longleftrightarrow> url_parse me (thumb_url t) = Some (thumb_url t) \<and>
     mime_parse me (thumb_media_type t) = Some (thumb_media_type t) \<and>
     thumbnail_bounded (xmpp_thumbnail_from t)"

definition attachment_readable :: "media_env \<Rightarrow> attachment \<Rightarrow> bool" where
  "attachment_readable me a \<longleftrightarrow>
     url_parse me (att_url a) = Some (att_url a) \<and> url_scheme me (att_url a) \<in> {''http'', ''https''} \<and>
     mime_parse me (att_media_type a) = Some (att_media_type a) \<and>
     pred_option (\<lambda>n. n < 2 ^ 64) (att_file_size a) \<and>
     (case att_type a of
        Image t \<Rightarrow> mime_type me (att_media_type a) = ''image'' \<and> pred_option (thumbnail_readable me) t
      | Audio d \<Rightarrow> mime_type me (att_media_type a) = ''audio'' \<and> pred_option (\<lambda>n. n < 2 ^ 64) d
      | Video d t \<Rightarrow> mime_type me (att_media_type a) = ''video'' \<and> pred_option (\<lambda>n. n < 2 ^ 64) d \<and>
          pred_option (thumbnail_readable me) t
      | File \<Rightarrow> mime_type me (att_media_type a) \<notin> {''image'', ''audio'', ''video''})"

lemma thumbnail_from_xmpp_back: "thumbnail_readable me t \<Longrightarrow> thumbnail_from_xmpp me (xmpp_thumbnail_from t) = Some t"
  by (simp add: thumbnail_readable_def thumbnail_from_xmpp_def xmpp_thumbnail_from_def)

lemma thumbnails_of_back:
  "pred_option (thumbnail_readable me) t \<Longrightarrow> find_map (thumbnail_from_xmpp me) (thumbnails_of t) = t"
  by (cases t) (simp_all add: thumbnails_of_def thumbnail_from_xmpp_back)

lemma share_attachment_back:
  "attachment_readable me a \<Longrightarrow> attachment_from_share me (share_from_attachment a) = Some (sized a)"
  by (cases "att_type a"; cases "att_file_size a")
    (auto simp: sized_def attachment_readable_def attachment_from_share_def share_from_attachment_def first_http_source_url_def
      http_source_def data_reference_def best_thumbnail_representation_def thumbnails_of_back)

lemma share_element_back:
  assumes "xml_ok x" "hashes_read x" "attachment_readable me a"
  shows "media_share_try_from x (media_share_element x (share_from_attachment a)) = Inr (share_from_attachment a)"
proof -
  have "file_bounded (sh_file (share_from_attachment a))"
    using assms(3)
    by (cases "att_type a")
      (auto simp: attachment_readable_def share_from_attachment_def file_bounded_def thumbnails_of_def thumbnail_readable_def
        split: option.splits)
  then have "media_share_try_from x (media_share_element x (share_from_attachment a)) =
      Inr (share_from_attachment a
        \<lparr>sh_file := (sh_file (share_from_attachment a))
          \<lparr>mf_desc := if mf_desc (sh_file (share_from_attachment a)) = Some [] then None
             else mf_desc (sh_file (share_from_attachment a))\<rparr>\<rparr>)"
    using assms(1,2)
    by (intro media_share_back) (simp_all add: share_from_attachment_def data_reference_def reference_bounded_def)
  then show ?thesis by (simp add: share_from_attachment_def)
qed

text \<open>The two payloads an attachment is written as.\<close>

definition attachment_reference :: "'e xml \<Rightarrow> attachment \<Rightarrow> 'e" where
  "attachment_reference x a =
     el_build x ''reference'' ns_reference [(''type'', Some ''data'')] [Child (media_share_element x (share_from_attachment a))]"

lemma append_attachments_payloads:
  "append_attachments x as m =
     m\<lparr>ms_payloads := ms_payloads m @ concat (map (\<lambda>a. [attachment_reference x a, oob_element x (oob_from_attachment a)]) as)\<rparr>"
  unfolding append_attachments_def
  by (induction as arbitrary: m) (simp_all add: push_payload_def attachment_reference_def)

lemma attachment_payload_heads:
  assumes "xml_ok x"
  shows "el_is x (attachment_reference x a) n ns \<longleftrightarrow> n = ''reference'' \<and> ns = ns_reference"
    "el_is x (oob_element x v) n ns \<longleftrightarrow> n = ''x'' \<and> ns = ns_out_of_band_data"
    "el_attr x (attachment_reference x a) ''type'' = Some ''data''"
    "el_is x (media_share_element x s) n ns \<longleftrightarrow> n = ''media-sharing'' \<and> ns = ns_sims"
    "el_is x (reference_element x r) n ns \<longleftrightarrow> n = ''reference'' \<and> ns = ns_reference"
    "el_attr x (reference_element x r) ''type'' = Some (show_reference_type (rf_type r))"
    "el_children x (attachment_reference x a) = [media_share_element x (share_from_attachment a)]"
    "el_children x (reference_element x r) = []"
  using assms
  by (auto simp: el_is_def attachment_reference_def oob_element_def media_share_element_def reference_element_def xml_build)

lemma attachments_appended:
  assumes "xml_ok x" "hashes_read x" "\<forall>a \<in> set as. attachment_readable me a"
  shows "media_shares_of x (append_attachments x as m) = media_shares_of x m @ map share_from_attachment as"
    "oob_attachments_of x (append_attachments x as m) = oob_attachments_of x m @ map oob_from_attachment as"
proof -
  have ns: "ns_reference \<noteq> ns_out_of_band_data" by (simp add: ns_reference_def ns_out_of_band_data_def)
  have share: "media_share_of x (attachment_reference x a) = Some (share_from_attachment a)" if "a \<in> set as" for a
    using share_element_back [OF assms(1,2), of me a] that assms(1,3)
    by (simp add: media_share_of_def attachment_payload_heads)
  have other: "media_share_of x (oob_element x v) = None" for v
    using assms(1) by (simp add: media_share_of_def attachment_payload_heads)
  show "media_shares_of x (append_attachments x as m) = media_shares_of x m @ map share_from_attachment as"
    using share unfolding append_attachments_payloads media_shares_of_def
    by (induction as arbitrary: m) (simp_all add: attachment_lists List.map_filter_simps other)
  show "oob_attachments_of x (append_attachments x as m) = oob_attachments_of x m @ map oob_from_attachment as"
    unfolding append_attachments_payloads oob_attachments_of_def typed_payload_vec_def
    by (induction as arbitrary: m)
      (simp_all add: attachment_lists List.map_filter_simps attachment_payload_heads [OF assms(1)] oob_back [OF assms(1)] ns)
qed

lemma attachments_back:
  assumes "xml_ok x" "hashes_read x" "\<forall>a \<in> set as. attachment_readable me a"
    "media_shares_of x m = []" "oob_attachments_of x m = []"
  shows "attachments x me (append_attachments x as m) = first_per_url (map sized as)"
proof -
  have "List.map_filter (attachment_from_share me) (map share_from_attachment as) = map sized as"
    using assms(3) by (induction as) (simp_all add: List.map_filter_simps share_attachment_back)
  moreover have "List.map_filter (attachment_from_oob me) (map oob_from_attachment as) = map (\<lambda>a. attachment_from_url me (att_url a)) as"
    using assms(3)
    by (induction as) (simp_all add: List.map_filter_simps attachment_from_oob_def oob_from_attachment_def attachment_readable_def)
  moreover have "att_url (attachment_from_url me u) = u" for u
    by (simp add: attachment_from_url_def Let_def)
  ultimately show ?thesis
    using assms(4,5) attachments_appended [OF assms(1-3), of m]
    by (simp add: attachments_def fold_push_first [of _ "[]"] fold_push_known urls_first_per_url image_image)
qed

text \<open>
  A mention is read back, where the library reads the JID it displays and the JID does not look like
  an invitation to a room.
\<close>

definition mention_readable :: "(string \<Rightarrow> jid option) \<Rightarrow> mention \<Rightarrow> bool" where
  "mention_readable parse v \<longleftrightarrow>
     parse (show_bare (user_jid (mention_user v))) = Some (JBare (user_jid (mention_user v))) \<and>
     rfind ''?join'' (show_bare (user_jid (mention_user v))) = None \<and>
     pred_option (\<lambda>(b, e). b < 2 ^ 64 \<and> e < 2 ^ 64) (mention_range v)"

lemma mention_back: "mention_readable parse v \<Longrightarrow> mention_from_reference parse (reference_from_mention v) = Inr v"
  using strip_prefix_append [of "''xmpp:''"]
  by (cases "mention_range v")
    (auto simp: mention_readable_def mention_from_reference_def reference_from_mention_def mention_reference_def
      user_id_from_iri_def jid_from_iri_def map_err_def)

lemma mention_reference_bounded: "mention_readable parse v \<Longrightarrow> reference_bounded (reference_from_mention v)"
  by (cases "mention_range v")
    (auto simp: mention_readable_def reference_from_mention_def mention_reference_def reference_bounded_def)

section \<open>Replies\<close>

lemma fallback_range_utf8:
  assumes "list_all is_scalar cs" "reply_fallback_range x m = Some (a, b)"
  shows "fallback_utf8_range x m (utf8 cs) =
    (if a \<le> length cs \<and> b \<le> length cs then Some (length (utf8 (take a cs)), length (utf8 (take b cs))) else None)"
  using assms(2) by (auto simp: fallback_utf8_range_def scalars_utf8 [OF assms(1)] scalar_to_utf8_range_def utf8_offset)

text \<open>The participant a reply names can be read unless it is a user without a node.\<close>

definition reply_readable :: "'e xml \<Rightarrow> 'e message_stanza \<Rightarrow> reply \<Rightarrow> bool" where
  "reply_readable x m r \<longleftrightarrow> is_groupchat_message x m \<or>
     (case rp_to r of None \<Rightarrow> True | Some j \<Rightarrow> user_id_from (jid_into_bare j) \<noteq> None)"

lemma message_reply_to_reads:
  assumes "reply_of x m = Some r" "reply_readable x m r"
  shows "\<exists>rt. message_reply_to x m body w = (Ok (Some rt), w) \<and>
    reply_id rt = target_of (is_groupchat_message x m) (rp_id r) \<and>
    reply_quote rt = Option.bind (fallback_utf8_range x m body) (\<lambda>(s, e).
      map_option trimmed_quote (safe_slice (SliceIncluded s) (SliceExcluded e) body))"
  using assms
  by (cases "is_groupchat_message x m"; cases "rp_to r")
    (auto simp: message_reply_to_def reply_readable_def target_of_def require_user_def prog_defs)

text \<open>
  A reply is taken apart at the characters its fallback names: if the range of the fallback lies
  within the body, the quote is the text of exactly the characters in the range and the message is the
  text after it, whatever number of bytes the characters have; if it does not, there is no quote and
  the message is the whole body. The text before the range is in neither.
\<close>

theorem reply_split_at_characters:
  assumes "list_all is_scalar cs" "reply_of x m = Some r" "reply_readable x m r"
    "reply_fallback_range x m = Some (a, b)" "a \<le> b"
  shows "\<exists>rt. (if b \<le> length cs
    then body_parts x me m None (utf8 cs) w =
        (Ok (utf8 (drop b cs), styled_into_html (utf8 (drop b cs)), Some rt), w) \<and>
      reply_quote rt = Some (trimmed_quote (utf8 (take (b - a) (drop a cs))))
    else body_parts x me m None (utf8 cs) w = (Ok (utf8 cs, styled_into_html (utf8 cs), Some rt), w) \<and>
      reply_quote rt = None)"
proof -
  note range = fallback_range_utf8 [OF assms(1,4)]
  obtain rt where rt: "message_reply_to x m (utf8 cs) w = (Ok (Some rt), w)"
    "reply_quote rt = Option.bind (fallback_utf8_range x m (utf8 cs)) (\<lambda>(s, e).
      map_option trimmed_quote (safe_slice (SliceIncluded s) (SliceExcluded e) (utf8 cs)))"
    using message_reply_to_reads [OF assms(2,3), of "utf8 cs" w] by (elim exE conjE) (rule that)
  show ?thesis
  proof (cases "b \<le> length cs")
    case True
    then have "a \<le> length cs" using assms(5) by simp
    with True have range': "fallback_utf8_range x m (utf8 cs) = Some (length (utf8 (take a cs)), length (utf8 (take b cs)))"
      by (simp add: range)
    have "reply_quote rt = Some (trimmed_quote (utf8 (take (b - a) (drop a cs))))"
      using rt(2) slice_scalars [OF assms(1,5) True] by (simp add: range')
    moreover have "body_parts x me m None (utf8 cs) w =
        (Ok (utf8 (drop b cs), styled_into_html (utf8 (drop b cs)), Some rt), w)"
      by (simp add: body_parts_def rt(1) range' slice_from_scalar [OF assms(1) True] bindM_def return_def Let_def)
    ultimately show ?thesis using True by auto
  next
    case False
    then have "fallback_utf8_range x m (utf8 cs) = None" by (simp add: range)
    with rt False show ?thesis by (auto simp: body_parts_def bindM_def return_def Let_def)
  qed
qed

definition sample_media :: media_env where
  "sample_media =
     \<lparr>url_parse = Some, url_scheme = (\<lambda>_. ''https''), url_path = (\<lambda>u. u), mime_parse = Some,
      mime_type = takeWhile (\<lambda>c. c \<noteq> CHR ''/''), mime_subtype = (\<lambda>m. tl (dropWhile (\<lambda>c. c \<noteq> CHR ''/'') m)),
      guess_mime = (\<lambda>_. None), sha1_hex = (\<lambda>u. u), markdown_to_html = (\<lambda>t. t), round_to_second = (\<lambda>t. t)\<rparr>"

definition sample_reply_stanza :: "element message_stanza" where
  "sample_reply_stanza =
     \<lparr>ms_from = Some (JBare (BareJid (Some ''a'') ''b'')), ms_to = None, ms_id = None, ms_type = Chat, ms_bodies = [],
      ms_subjects = [], ms_thread = None,
      ms_payloads =
        [reply_element tree_xml \<lparr>rp_id = ''m1'', rp_to = None\<rparr>,
         fallback_element tree_xml \<lparr>fb_for = Some ns_reply, fb_subjects = [], fb_bodies = [\<lparr>fr_start = Some 0, fr_end = Some 5\<rparr>]\<rparr>]\<rparr>"

text \<open>The body is a quote of two characters, one of them of three bytes, and an answer.\<close>

definition sample_reply_body :: "scalar list" where
  "sample_reply_body = [62, 32, 104, 8364, 10, 111, 107]"

lemma sample_reply_stanza_reads:
  "reply_of tree_xml sample_reply_stanza = Some \<lparr>rp_id = ''m1'', rp_to = None\<rparr>"
  "reply_fallback_range tree_xml sample_reply_stanza = Some (0, 5)"
  "reply_readable tree_xml sample_reply_stanza \<lparr>rp_id = ''m1'', rp_to = None\<rparr>"
proof -
  have heads: "el_is tree_xml (reply_element tree_xml r) n ns \<longleftrightarrow> n = ''reply'' \<and> ns = ns_reply"
    "el_is tree_xml (fallback_element tree_xml f) n ns \<longleftrightarrow> n = ''fallback'' \<and> ns = ns_fallback"
    "el_attr tree_xml (fallback_element tree_xml f) ''for'' = fb_for f" for r f n ns
    by (auto simp: el_is_def reply_element_def fallback_element_def xml_build [OF tree_xml_ok])
  show "reply_of tree_xml sample_reply_stanza = Some \<lparr>rp_id = ''m1'', rp_to = None\<rparr>"
    by (simp add: reply_of_def typed_payload_def typed_payload_with_predicate_def sample_reply_stanza_def heads
        reply_back [OF tree_xml_ok])
  have "fallback_try_from tree_xml (fallback_element tree_xml
      \<lparr>fb_for = Some ns_reply, fb_subjects = [], fb_bodies = [\<lparr>fr_start = Some 0, fr_end = Some 5\<rparr>]\<rparr>) =
      Inr \<lparr>fb_for = Some ns_reply, fb_subjects = [], fb_bodies = [\<lparr>fr_start = Some 0, fr_end = Some 5\<rparr>]\<rparr>"
    by (rule fallback_back [OF tree_xml_ok]) (simp add: range_bounded_def)
  then show "reply_fallback_range tree_xml sample_reply_stanza = Some (0, 5)"
    by (simp add: reply_fallback_range_def fallback_for_def typed_payload_with_predicate_def sample_reply_stanza_def heads
        ns_reply_def ns_fallback_def)
  show "reply_readable tree_xml sample_reply_stanza \<lparr>rp_id = ''m1'', rp_to = None\<rparr>"
    by (simp add: reply_readable_def)
qed

theorem reply_split_at_characters_witness:
  "\<exists>rt. body_parts tree_xml sample_media sample_reply_stanza None (utf8 sample_reply_body) () =
      (Ok (''ok'', styled_into_html ''ok'', Some rt), ()) \<and>
    reply_quote rt = Some (trimmed_quote (utf8 [62, 32, 104, 8364, 10]))"
proof -
  have "list_all is_scalar sample_reply_body" by (simp add: sample_reply_body_def is_scalar_def)
  moreover have "utf8 (drop 5 sample_reply_body) = ''ok''"
    by (simp add: sample_reply_body_def utf8_char_def char_of_eq_iff)
  moreover have "take 5 sample_reply_body = [62, 32, 104, 8364, 10]" "length sample_reply_body = 7"
    by (simp_all add: sample_reply_body_def)
  ultimately show ?thesis
    using reply_split_at_characters [OF _ sample_reply_stanza_reads(1,3,2), of sample_reply_body sample_media "()"]
    by simp
qed

text \<open>Plain texts become HTML as they are: markup in the text of a message is not escaped.\<close>

lemma plain_text_unescaped:
  assumes "content_with_type x ''text/markdown'' m = None" "reply_of x m = None" "fallback_for x (Some ns_reply) m = None"
    "body \<noteq> []" "CHR 0x0A \<notin> set body"
  shows "body_parts x me m None body w = (Ok (body, ''<p>'' @ body @ ''</p>'', None), w)"
  using assms lines_single [of body]
  by (simp add: body_parts_def message_reply_to_def fallback_utf8_range_def reply_fallback_range_def prog_defs
      styled_into_html_def Let_def)

end
