(* ===== verification/Chat.thy ===== *)
theory Chat
  imports MessageParser
begin

text \<open>
  Sending and receiving messages: the chat module of the XMPP layer
  (\<^verbatim>\<open>crates/prose-xmpp/src/mods/chat.rs\<close>), the context of its modules
  (\<^verbatim>\<open>client/module_context.rs\<close>) and the messaging service of the client
  (\<^verbatim>\<open>infra/messaging/messaging_service.rs\<close>).
\<close>

section \<open>The context of modules\<close>

datatype 'e chat_event =
    ChatMessage "'e message_stanza"
  | ChatCarbon "'e carbon"
  | ChatSent "'e message_stanza"
  | ChatStateChanged jid chat_state message_type

datatype 'e module_effect =
    Scheduled "'e chat_event"
  | SentMessage "'e message_stanza"
  | SentCarbonsIq string bool

text \<open>
  The connection accepts a stanza or reports an error; ids come from a provider that is asked for one
  after another.
\<close>

record 'e module_context =
  mc_jid :: "full_jid option"
  mc_connection :: "('e module_effect \<Rightarrow> string option) option"
  mc_new_id :: "nat \<Rightarrow> string"
  mc_ids :: nat
  mc_log :: "'e module_effect list"

type_synonym ('e, 'a) module_prog = "('e module_context, 'a) program"

definition placeholder_jid :: full_jid where
  "placeholder_jid = FullJid (BareJid (Some ''placeholder'') ''prose.org'') ''lib''"

definition module_full_jid :: "'e module_context \<Rightarrow> full_jid" where
  "module_full_jid mc = (case mc_jid mc of Some j \<Rightarrow> j | None \<Rightarrow> placeholder_jid)"

definition module_bare_jid :: "'e module_context \<Rightarrow> bare_jid" where
  "module_bare_jid mc = to_bare (module_full_jid mc)"

definition module_server_jid :: "'e module_context \<Rightarrow> bare_jid" where
  "module_server_jid mc = BareJid None (domain (module_bare_jid mc))"

definition generate_id :: "('e, string) module_prog" where
  "generate_id mc = (Ok (mc_new_id mc (mc_ids mc)), mc\<lparr>mc_ids := Suc (mc_ids mc)\<rparr>)"

definition schedule_event :: "'e chat_event \<Rightarrow> ('e, unit) module_prog" where
  "schedule_event ev = modify_world (\<lambda>mc. mc\<lparr>mc_log := mc_log mc @ [Scheduled ev]\<rparr>)"

definition send_stanza :: "'e module_effect \<Rightarrow> ('e, unit) module_prog" where
  "send_stanza st mc =
     (case mc_connection mc of
        None \<Rightarrow> (Err (RequestErr RDisconnected), mc)
      | Some conn \<Rightarrow>
          (case conn st of
             Some msg \<Rightarrow> (Err (RequestErr (RGeneric msg)), mc)
           | None \<Rightarrow> (Ok (), mc\<lparr>mc_log := mc_log mc @ [st]\<rparr>)))"

section \<open>Building messages\<close>

text \<open>\<^verbatim>\<open>stanza/message/builder.rs\<close>.\<close>

definition ns_hints :: string where "ns_hints = ''urn:xmpp:hints''"
definition ns_carbons :: string where "ns_carbons = ''urn:xmpp:carbons:2''"
definition ns_mam :: string where "ns_mam = ''urn:xmpp:mam:2''"

definition set_to :: "jid \<Rightarrow> 'e message_stanza \<Rightarrow> 'e message_stanza" where
  "set_to j m = m\<lparr>ms_to := Some j\<rparr>"

definition set_from :: "jid \<Rightarrow> 'e message_stanza \<Rightarrow> 'e message_stanza" where
  "set_from j m = m\<lparr>ms_from := Some j\<rparr>"

definition set_id :: "string \<Rightarrow> 'e message_stanza \<Rightarrow> 'e message_stanza" where
  "set_id i m = m\<lparr>ms_id := Some i\<rparr>"

definition set_type :: "message_type \<Rightarrow> 'e message_stanza \<Rightarrow> 'e message_stanza" where
  "set_type t m = m\<lparr>ms_type := t\<rparr>"

definition set_thread :: "string \<Rightarrow> 'e message_stanza \<Rightarrow> 'e message_stanza" where
  "set_thread t m = m\<lparr>ms_thread := Some t\<rparr>"

definition set_subject :: "string \<Rightarrow> 'e message_stanza \<Rightarrow> 'e message_stanza" where
  "set_subject t m = m\<lparr>ms_subjects := AList.update [] t (ms_subjects m)\<rparr>"

definition set_delay :: "'e payload_writer \<Rightarrow> jid option \<Rightarrow> timestamp \<Rightarrow> 'e message_stanza \<Rightarrow> 'e message_stanza" where
  "set_delay pw from stamp = push_payload (pw_delay pw from stamp)"

definition set_chat_state :: "'e payload_writer \<Rightarrow> chat_state option \<Rightarrow> 'e message_stanza \<Rightarrow> 'e message_stanza" where
  "set_chat_state pw st m = (case st of Some s \<Rightarrow> push_payload (pw_chat_state pw s) m | None \<Rightarrow> m)"

definition set_replace :: "'e payload_writer \<Rightarrow> string \<Rightarrow> 'e message_stanza \<Rightarrow> 'e message_stanza" where
  "set_replace pw i = push_payload (pw_replace pw i)"

definition set_message_reactions :: "'e xml \<Rightarrow> string \<times> string list \<Rightarrow> 'e message_stanza \<Rightarrow> 'e message_stanza" where
  "set_message_reactions x r = push_payload (reactions_element x r)"

definition set_fastening :: "'e xml \<Rightarrow> 'e apply_to \<Rightarrow> 'e message_stanza \<Rightarrow> 'e message_stanza" where
  "set_fastening x a = push_payload (apply_to_element x a)"

definition set_fallback :: "'e xml \<Rightarrow> fallback \<Rightarrow> 'e message_stanza \<Rightarrow> 'e message_stanza" where
  "set_fallback x f = push_payload (fallback_element x f)"

definition set_markable :: "'e xml \<Rightarrow> 'e message_stanza \<Rightarrow> 'e message_stanza" where
  "set_markable x = push_payload (chat_marker_element x Markable)"

definition set_received_marker :: "'e xml \<Rightarrow> string \<Rightarrow> 'e message_stanza \<Rightarrow> 'e message_stanza" where
  "set_received_marker x i = push_payload (chat_marker_element x (Received i))"

definition set_displayed_marker :: "'e xml \<Rightarrow> string \<Rightarrow> 'e message_stanza \<Rightarrow> 'e message_stanza" where
  "set_displayed_marker x i = push_payload (chat_marker_element x (Displayed i))"

definition set_acknowledged_marker :: "'e xml \<Rightarrow> string \<Rightarrow> 'e message_stanza \<Rightarrow> 'e message_stanza" where
  "set_acknowledged_marker x i = push_payload (chat_marker_element x (Acknowledged i))"

definition set_store :: "'e xml \<Rightarrow> bool \<Rightarrow> 'e message_stanza \<Rightarrow> 'e message_stanza" where
  "set_store x store = push_payload (el_build x (if store then ''store'' else ''no-store'') ns_hints [] [])"

section \<open>The chat module\<close>

text \<open>How the carbons of a message are read.\<close>

record 'e carbon_reader =
  cr_received :: "'e \<Rightarrow> string + 'e forwarded"
  cr_sent :: "'e \<Rightarrow> string + 'e forwarded"

definition received_carbon_of :: "'e xml \<Rightarrow> 'e carbon_reader \<Rightarrow> 'e message_stanza \<Rightarrow> 'e forwarded option" where
  "received_carbon_of x cr = typed_payload x (cr_received cr) ''received'' ns_carbons"

definition sent_carbon_of :: "'e xml \<Rightarrow> 'e carbon_reader \<Rightarrow> 'e message_stanza \<Rightarrow> 'e forwarded option" where
  "sent_carbon_of x cr = typed_payload x (cr_sent cr) ''sent'' ns_carbons"

definition is_mam_message :: "'e xml \<Rightarrow> 'e message_stanza \<Rightarrow> bool" where
  "is_mam_message x m \<longleftrightarrow> find (\<lambda>p. el_is x p ''result'' ns_mam) (ms_payloads m) \<noteq> None"

definition schedule_if_own :: "'e message_stanza \<Rightarrow> 'e chat_event \<Rightarrow> ('e, unit) module_prog" where
  "schedule_if_own m ev =
     bindM (gets module_bare_jid) (\<lambda>own.
     if ms_from m = Some (JBare own) then schedule_event ev else return ())"

definition handle_message_stanza :: "'e xml \<Rightarrow> 'e carbon_reader \<Rightarrow> 'e message_stanza \<Rightarrow> ('e, unit) module_prog" where
  "handle_message_stanza x cr m =
     (if is_mam_message x m then return ()
      else
        thenM
          (case (ms_from m, chat_state_of x m) of
             (Some from, Some st) \<Rightarrow> schedule_event (ChatStateChanged from st (ms_type m))
           | _ \<Rightarrow> return ())
          (if ms_payloads m = [] \<and> ms_bodies m = [] \<and> ms_subjects m = [] then return ()
           else
             (case received_carbon_of x cr m of
                Some f \<Rightarrow> schedule_if_own m (ChatCarbon (CarbonReceived f))
              | None \<Rightarrow>
             (case sent_carbon_of x cr m of
                Some f \<Rightarrow> schedule_if_own m (ChatCarbon (CarbonSent f))
              | None \<Rightarrow> schedule_event (ChatMessage m)))))"

definition send_raw_message :: "'e message_stanza \<Rightarrow> bool \<Rightarrow> ('e, unit) module_prog" where
  "send_raw_message m scheduled =
     thenM (if scheduled then schedule_event (ChatSent m) else return ()) (send_stanza (SentMessage m))"

definition chat_send_message :: "'e xml \<Rightarrow> 'e payload_writer \<Rightarrow> jid \<Rightarrow> string \<Rightarrow> message_type \<Rightarrow> chat_state option \<Rightarrow>
    ('e, unit) module_prog" where
  "chat_send_message x pw to body t st =
     bindM generate_id (\<lambda>i.
     bindM (gets module_full_jid) (\<lambda>own.
     send_raw_message
       (set_markable x (set_chat_state pw st (set_body body (set_to to (set_from (JFull own) (set_id i (set_type t message_new)))))))
       True))"

definition chat_update_message :: "'e payload_writer \<Rightarrow> string \<Rightarrow> jid \<Rightarrow> string \<Rightarrow> message_type \<Rightarrow> ('e, unit) module_prog" where
  "chat_update_message pw target to body t =
     bindM generate_id (\<lambda>i.
     bindM (gets module_full_jid) (\<lambda>own.
     send_raw_message
       (set_replace pw target (set_body body (set_to to (set_from (JFull own) (set_id i (set_type t message_new)))))) True))"

definition send_chat_state :: "'e payload_writer \<Rightarrow> jid \<Rightarrow> chat_state \<Rightarrow> message_type \<Rightarrow> ('e, unit) module_prog" where
  "send_chat_state pw to st t =
     bindM (gets module_full_jid) (\<lambda>own.
     send_stanza (SentMessage (set_chat_state pw (Some st) (set_to to (set_from (JFull own) (set_type t message_new))))))"

definition react_to_message :: "'e xml \<Rightarrow> string \<Rightarrow> jid \<Rightarrow> string list \<Rightarrow> message_type \<Rightarrow> ('e, unit) module_prog" where
  "react_to_message x target to emojis t =
     bindM generate_id (\<lambda>i.
     bindM (gets module_full_jid) (\<lambda>own.
     send_raw_message
       (set_store x True (set_message_reactions x (target, emojis)
         (set_to to (set_from (JFull own) (set_id i (set_type t message_new)))))) True))"

definition chat_retract_message :: "'e xml \<Rightarrow> string \<Rightarrow> jid \<Rightarrow> message_type \<Rightarrow> ('e, unit) module_prog" where
  "chat_retract_message x target to t =
     bindM generate_id (\<lambda>i.
     bindM (gets module_full_jid) (\<lambda>own.
     send_raw_message
       (set_fallback x fallback_new
         (set_fastening x ((apply_to_new target)\<lparr>at_payloads := [retract_element x]\<rparr>)
           (set_body (''This person attempted to retract a previous message, but it'' @ [CHR 0x27] @
                      ''s unsupported by your client.'')
             (set_to to (set_from (JFull own) (set_id i (set_type t message_new))))))) True))"

definition set_message_carbons_enabled :: "bool \<Rightarrow> ('e, unit) module_prog" where
  "set_message_carbons_enabled enabled =
     bindM generate_id (\<lambda>i. send_stanza (SentCarbonsIq i enabled))"

definition mark_message_received :: "'e xml \<Rightarrow> string \<Rightarrow> jid \<Rightarrow> message_type \<Rightarrow> ('e, unit) module_prog" where
  "mark_message_received x target to t =
     bindM generate_id (\<lambda>i.
     bindM (gets module_full_jid) (\<lambda>own.
     send_raw_message
       (set_received_marker x target (set_to to (set_from (JFull own) (set_id i (set_type t message_new))))) True))"

section \<open>The messaging service\<close>

fun room_message_type :: "room_id \<Rightarrow> message_type" where
  "room_message_type (RUser _) = Chat"
| "room_message_type (RMuc _) = Groupchat"

definition connected_jid :: "('e, full_jid) module_prog" where
  "connected_jid =
     bindM (gets mc_jid) (\<lambda>j.
     case j of
       Some j \<Rightarrow> return j
     | None \<Rightarrow> fail (''Failed to read the user'' @ [CHR 0x27] @ ''s JID since the client is not connected.''))"

text \<open>The stanzas of a message, of a message in a thread and of a correction.\<close>

definition message_for_room :: "'e xml \<Rightarrow> 'e payload_writer \<Rightarrow> full_jid \<Rightarrow> room_id \<Rightarrow> send_message_request \<Rightarrow> 'e message_stanza" where
  "message_for_room x pw own room req =
     append_attachments x (sr_attachments req)
       (set_store x True (set_markable x (set_chat_state pw (Some CSActive)
         (set_message_body x pw (sr_body req)
           (set_to (JBare (into_bare room)) (set_from (JFull own) (set_thread (sr_id req)
             (set_id (sr_id req) (set_type (room_message_type room) message_new)))))))))"

definition send_message :: "'e xml \<Rightarrow> 'e payload_writer \<Rightarrow> room_id \<Rightarrow> send_message_request \<Rightarrow> ('e, unit) module_prog" where
  "send_message x pw room req =
     bindM connected_jid (\<lambda>own. send_raw_message (message_for_room x pw own room req) False)"

definition message_for_thread :: "'e xml \<Rightarrow> 'e payload_writer \<Rightarrow> full_jid \<Rightarrow> room_id \<Rightarrow> string \<Rightarrow> send_message_request \<Rightarrow>
    'e message_stanza" where
  "message_for_thread x pw own room thread req =
     append_attachments x (sr_attachments req)
       (set_store x True (set_markable x (set_chat_state pw (Some CSActive)
         (set_thread thread (set_message_body x pw (sr_body req)
           (set_to (JBare (into_bare room)) (set_from (JFull own)
             (set_id (sr_id req) (set_type (room_message_type room) message_new)))))))))"

definition send_message_to_thread :: "'e xml \<Rightarrow> 'e payload_writer \<Rightarrow> room_id \<Rightarrow> string \<Rightarrow> send_message_request \<Rightarrow>
    ('e, unit) module_prog" where
  "send_message_to_thread x pw room thread req =
     bindM connected_jid (\<lambda>own. send_raw_message (message_for_thread x pw own room thread req) False)"

definition send_key_transport_message :: "'e xml \<Rightarrow> 'e payload_writer \<Rightarrow> user_id \<Rightarrow> key_transport_payload \<Rightarrow> ('e, unit) module_prog" where
  "send_key_transport_message x pw user p =
     bindM connected_jid (\<lambda>own.
     send_raw_message
       (set_store x True (set_omemo_payload pw (omemo_from_key_transport p)
         (set_to (JBare (user_jid user)) (set_from (JFull own) (set_type Chat message_new))))) False)"

definition correction_for_room :: "'e xml \<Rightarrow> 'e payload_writer \<Rightarrow> full_jid \<Rightarrow> room_id \<Rightarrow> string \<Rightarrow> send_message_request \<Rightarrow>
    'e message_stanza" where
  "correction_for_room x pw own room target req =
     append_attachments x (sr_attachments req)
       (set_store x True (set_replace pw target
         (set_message_body x pw (sr_body req)
           (set_to (JBare (into_bare room)) (set_from (JFull own)
             (set_id (sr_id req) (set_type (room_message_type room) message_new)))))))"

definition update_message :: "'e xml \<Rightarrow> 'e payload_writer \<Rightarrow> room_id \<Rightarrow> string \<Rightarrow> send_message_request \<Rightarrow> ('e, unit) module_prog" where
  "update_message x pw room target req =
     bindM connected_jid (\<lambda>own. send_raw_message (correction_for_room x pw own room target req) False)"

definition retract_message :: "'e xml \<Rightarrow> room_id \<Rightarrow> string \<Rightarrow> ('e, unit) module_prog" where
  "retract_message x room target = chat_retract_message x target (JBare (into_bare room)) (room_message_type room)"

definition react_to_chat_message :: "'e xml \<Rightarrow> user_id \<Rightarrow> string \<Rightarrow> string list \<Rightarrow> ('e, unit) module_prog" where
  "react_to_chat_message x user target emojis = react_to_message x target (JBare (user_jid user)) emojis Chat"

definition react_to_muc_message :: "'e xml \<Rightarrow> muc_id \<Rightarrow> string \<Rightarrow> string list \<Rightarrow> ('e, unit) module_prog" where
  "react_to_muc_message x room target emojis = react_to_message x target (JBare (muc_jid room)) emojis Groupchat"

definition set_user_is_composing :: "'e payload_writer \<Rightarrow> room_id \<Rightarrow> bool \<Rightarrow> ('e, unit) module_prog" where
  "set_user_is_composing pw room composing =
     send_chat_state pw (JBare (into_bare room)) (if composing then CSComposing else CSPaused) (room_message_type room)"

definition send_read_receipt :: "'e xml \<Rightarrow> room_id \<Rightarrow> string \<Rightarrow> ('e, unit) module_prog" where
  "send_read_receipt x room target =
     mark_message_received x target (JBare (into_bare room)) (room_message_type room)"

definition relay_archived_message_to_room :: "'e payload_writer \<Rightarrow> room_id \<Rightarrow> 'e archived_message \<Rightarrow> ('e, unit) module_prog" where
  "relay_archived_message_to_room pw room a =
     (case fw_delay (am_forwarded a) of
        None \<Rightarrow> stanza_failed (MissingChildNode ''delay'')
      | Some stamp \<Rightarrow>
     (case fw_stanza (am_forwarded a) of
        None \<Rightarrow> stanza_failed (MissingChildNode ''message'')
      | Some m \<Rightarrow>
     (case ms_from m of
        None \<Rightarrow> stanza_failed (MissingAttribute ''from'')
      | Some from \<Rightarrow>
          send_raw_message
            (set_delay pw (Some from) stamp
              (set_type (room_message_type room) (set_to (JBare (into_bare room)) (m\<lparr>ms_from := None\<rparr>)))) False)))"

section \<open>Payloads of messages\<close>

lemmas ns_defs = ns_muc_user_def ns_sid_def ns_chat_markers_def ns_retract_def ns_fasten_def ns_fallback_def ns_reply_def
  ns_content_def ns_reactions_def ns_occupant_id_def ns_delay_def ns_out_of_band_data_def ns_reference_def ns_sims_def
  ns_chatstates_def ns_message_correct_def ns_default_def ns_legacy_omemo_def ns_hints_def ns_carbons_def ns_mam_def

text \<open>What is relied on of the writer: what it writes has the name and namespace of its type and is read back.\<close>

definition writer_ok :: "'e xml \<Rightarrow> 'e payload_writer \<Rightarrow> bool" where
  "writer_ok x pw \<longleftrightarrow>
     (\<forall>s. el_ns x (pw_chat_state pw s) = ns_chatstates) \<and>
     (\<forall>i. el_is x (pw_replace pw i) ''replace'' ns_message_correct \<and> x_replace x (pw_replace pw i) = Inr i) \<and>
     (\<forall>r. el_is x (x_build_reactions x r) ''reactions'' ns_reactions \<and> x_reactions x (x_build_reactions x r) = Inr r)"

lemma built_head: "xml_ok x \<Longrightarrow> el_is x (el_build x n' ns' [] cs) n ns \<longleftrightarrow> n = n' \<and> ns = ns'"
  by (auto simp: el_is_def xml_build)

lemma payload_heads:
  assumes "xml_ok x"
  shows "el_is x (content_element x c) n ns \<longleftrightarrow> n = ''content'' \<and> ns = ns_content"
    "el_is x (chat_marker_element x Markable) n ns \<longleftrightarrow> n = ''markable'' \<and> ns = ns_chat_markers"
    "el_is x (chat_marker_element x (Received i)) n ns \<longleftrightarrow> n = ''received'' \<and> ns = ns_chat_markers"
    "el_is x (el_build x ''store'' ns_hints [] []) n ns \<longleftrightarrow> n = ''store'' \<and> ns = ns_hints"
    "el_is x (apply_to_element x a) n ns \<longleftrightarrow> n = ''apply-to'' \<and> ns = ns_fasten"
    "el_is x (fallback_element x f) n ns \<longleftrightarrow> n = ''fallback'' \<and> ns = ns_fallback"
    "el_attr x (content_element x c) ''type'' = Some (cn_type c)"
  using assms
  by (auto simp: el_is_def content_element_def chat_marker_element.simps apply_to_element_def fallback_element_def xml_build)

lemma writer_heads:
  assumes "writer_ok x pw"
  shows "el_is x (pw_chat_state pw s) n ns \<Longrightarrow> ns = ns_chatstates"
    "el_is x (pw_replace pw i) n ns \<longleftrightarrow> n = ''replace'' \<and> ns = ns_message_correct"
    "el_is x (x_build_reactions x r) n ns \<longleftrightarrow> n = ''reactions'' \<and> ns = ns_reactions"
  using assms by (cases r; auto simp: writer_ok_def el_is_def)+

lemma typed_payload_none: "list_all (\<lambda>e. \<not> el_is x e n ns) (ms_payloads m) \<Longrightarrow> typed_payload x f n ns m = None"
  by (auto simp: typed_payload_def typed_payload_with_predicate_def find_None_iff list_all_iff split: option.split
      dest!: find_SomeD)

lemma find_none: "list_all (\<lambda>e. \<not> P e) es \<Longrightarrow> find P es = None"
  by (auto simp: find_None_iff list_all_iff)

lemma find_append_none: "list_all (\<lambda>e. \<not> P e) es \<Longrightarrow> find P (es @ fs) = find P fs"
  by (induction es) auto

lemmas lookup_defs = error_of_def reactions_of_def fastening_of_def received_marker_of_def displayed_marker_of_def
  omemo_element_of_def replace_of_def reply_of_def

lemmas builder_defs = set_to_def set_from_def set_id_def set_type_def set_thread_def set_delay_def set_chat_state_def
  set_replace_def set_message_reactions_def set_fastening_def set_fallback_def set_markable_def
  set_received_marker_def set_store_def push_payload_def set_body_def add_content_def add_references_def message_new_def

definition sent_payloads :: "'e xml \<Rightarrow> mention list \<Rightarrow> string \<Rightarrow> 'e list \<Rightarrow> attachment list \<Rightarrow> 'e list" where
  "sent_payloads x vs markdown es as =
     map (\<lambda>v. reference_element x (reference_from_mention v)) vs @
     [content_element x \<lparr>cn_type = ''text/markdown'', cn_content = markdown\<rparr>] @ es @
     concat (map (\<lambda>a. [attachment_reference x a, oob_element x (oob_from_attachment a)]) as)"

lemma sent_payloads_lack:
  assumes "xml_ok x" "(n, ns) \<notin> {(''reference'', ns_reference), (''content'', ns_content), (''x'', ns_out_of_band_data)}"
    "list_all (\<lambda>e. \<not> el_is x e n ns) es"
  shows "list_all (\<lambda>e. \<not> el_is x e n ns) (sent_payloads x vs markdown es as)"
  using assms
  by (auto simp: sent_payloads_def list_all_iff payload_heads attachment_payload_heads)

text \<open>What a message of the client is read as, piece by piece.\<close>

definition request_readable :: "media_env \<Rightarrow> (string \<Rightarrow> jid option) \<Rightarrow> mention list \<Rightarrow> attachment list \<Rightarrow> bool" where
  "request_readable me parse vs as \<longleftrightarrow> (\<forall>v \<in> set vs. mention_readable parse v) \<and>
     (\<forall>a \<in> set as. attachment_readable me a)"

lemma sent_mentions:
  assumes "xml_ok x" "request_readable me parse vs as" "list_all (\<lambda>e. \<not> el_is x e ''reference'' ns_reference) es"
    "ms_payloads m = sent_payloads x vs markdown es as"
  shows "List.map_filter (\<lambda>r. ok_of (mention_from_reference parse r)) (mentions_of x m) = vs"
proof -
  let ?read = "\<lambda>e. if el_is x e ''reference'' ns_reference \<and> el_attr x e ''type'' = Some ''mention''
    then ok_of (reference_try_from x e) else None"
  have type: "rf_type (reference_from_mention v) = MentionReference" for v
    by (simp add: reference_from_mention_def mention_reference_def)
  have "ok_of (reference_try_from x (reference_element x (reference_from_mention v))) = Some (reference_from_mention v)"
    if "v \<in> set vs" for v
    using that assms(2) reference_back [OF assms(1) mention_reference_bounded [of parse v]] by (simp add: request_readable_def)
  then have "List.map_filter ?read (map (\<lambda>v. reference_element x (reference_from_mention v)) vs) = map reference_from_mention vs"
    by (induction vs) (simp_all add: List.map_filter_simps attachment_payload_heads [OF assms(1)] type)
  moreover have "List.map_filter ?read es = []"
    using assms(3) by (induction es) (auto simp: List.map_filter_simps)
  moreover have "List.map_filter ?read
      (concat (map (\<lambda>a. [attachment_reference x a, oob_element x (oob_from_attachment a)]) as)) = []"
    by (induction as) (simp_all add: List.map_filter_simps attachment_payload_heads [OF assms(1)])
  moreover have "?read (content_element x c) = None" for c
    by (simp add: payload_heads [OF assms(1)])
  ultimately have "mentions_of x m = map reference_from_mention vs"
    by (simp add: mentions_of_def assms(4) sent_payloads_def attachment_lists List.map_filter_simps)
  moreover have "List.map_filter (\<lambda>r. ok_of (mention_from_reference parse r)) (map reference_from_mention vs) = vs"
    using assms(2) by (induction vs) (auto simp: List.map_filter_simps request_readable_def mention_back)
  ultimately show ?thesis by simp
qed

text \<open>Payloads that do not say anything about the content of a message.\<close>

definition plain_payloads :: "'e xml \<Rightarrow> 'e list \<Rightarrow> bool" where
  "plain_payloads x es \<longleftrightarrow>
     list_all (\<lambda>e. list_all (\<lambda>(n, ns). \<not> el_is x e n ns)
       [(''error'', ns_default), (''reactions'', ns_reactions), (''apply-to'', ns_fasten), (''received'', ns_chat_markers),
        (''displayed'', ns_chat_markers), (''encrypted'', ns_legacy_omemo), (''x'', ns_muc_user),
        (''reference'', ns_reference), (''content'', ns_content), (''x'', ns_out_of_band_data)]) es"

lemma plain_payloadsD:
  assumes "plain_payloads x es"
  shows "list_all (\<lambda>e. \<not> el_is x e ''error'' ns_default) es" "list_all (\<lambda>e. \<not> el_is x e ''reactions'' ns_reactions) es"
    "list_all (\<lambda>e. \<not> el_is x e ''apply-to'' ns_fasten) es" "list_all (\<lambda>e. \<not> el_is x e ''received'' ns_chat_markers) es"
    "list_all (\<lambda>e. \<not> el_is x e ''displayed'' ns_chat_markers) es"
    "list_all (\<lambda>e. \<not> el_is x e ''encrypted'' ns_legacy_omemo) es" "list_all (\<lambda>e. \<not> el_is x e ''x'' ns_muc_user) es"
    "list_all (\<lambda>e. \<not> el_is x e ''reference'' ns_reference) es" "list_all (\<lambda>e. \<not> el_is x e ''content'' ns_content) es"
    "list_all (\<lambda>e. \<not> el_is x e ''x'' ns_out_of_band_data) es"
  using assms by (auto simp: plain_payloads_def list_all_iff)

lemma sent_lookups:
  assumes "xml_ok x" "plain_payloads x es" "ms_payloads m = sent_payloads x vs markdown es as"
  shows "error_of x m = None" "reactions_of x m = None" "fastening_of x m = None" "received_marker_of x m = None"
    "displayed_marker_of x m = None" "omemo_element_of x m = None"
    "is_groupchat_message x m \<longleftrightarrow> ms_type m = Groupchat"
  using plain_payloadsD [OF assms(2)]
  by (simp_all add: lookup_defs is_groupchat_message_def typed_payload_none find_none assms(3)
      sent_payloads_lack [OF assms(1)] ns_out_of_band_data_def ns_muc_user_def)

lemma sent_content:
  assumes "xml_ok x"
  shows "ms_payloads m = sent_payloads x vs markdown es as \<Longrightarrow>
    content_with_type x ''text/markdown'' m = Some \<lparr>cn_type = ''text/markdown'', cn_content = markdown\<rparr>"
  by (simp add: content_with_type_def typed_payload_with_predicate_def sent_payloads_def find_append_none list_all_iff
      payload_heads [OF assms] attachment_payload_heads [OF assms] content_back [OF assms])

lemma sent_attachments:
  assumes "xml_ok x" "hashes_read x" "plain_payloads x es" "request_readable me parse vs as"
    "ms_payloads m = sent_payloads x vs markdown es as"
  shows "attachments x me m = first_per_url (map sized as)"
proof -
  let ?m = "m\<lparr>ms_payloads := sent_payloads x vs markdown es []\<rparr>"
  have m: "m = append_attachments x as ?m"
    using assms(5) by (simp add: append_attachments_payloads sent_payloads_def)
  have "media_share_of x e = None" if "\<not> el_is x e ''reference'' ns_reference \<or> el_attr x e ''type'' \<noteq> Some ''data''" for e
    using that by (auto simp: media_share_of_def)
  then have "media_share_of x e = None" if "e \<in> set (sent_payloads x vs markdown es [])" for e
    using that plain_payloadsD(8) [OF assms(3)]
    by (auto simp: sent_payloads_def payload_heads [OF assms(1)] attachment_payload_heads [OF assms(1)] list_all_iff
        reference_from_mention_def mention_reference_def)
  then have "media_shares_of x ?m = []" by (auto simp: media_shares_of_def List.map_filter_def filter_empty_conv)
  moreover have "oob_attachments_of x ?m = []"
    using plain_payloadsD(10) [OF assms(3)]
    by (auto simp: oob_attachments_of_def typed_payload_vec_def List.map_filter_def filter_empty_conv sent_payloads_def
        payload_heads [OF assms(1)] attachment_payload_heads [OF assms(1)] list_all_iff split: if_splits)
  ultimately show ?thesis
    using attachments_back [OF assms(1,2), of as me ?m] assms(4) m by (simp add: request_readable_def)
qed

lemma sent_payload_read:
  assumes "xml_ok x" "hashes_read x" "plain_payloads x es" "request_readable me parse vs as"
    "ms_payloads m = sent_payloads x vs markdown es as" "body_of x m = Some fallback"
  shows "parse_message_payload x me parse enc mp sender_id room m w =
    (Ok (let body = \<lparr>lb_raw = markdown, lb_html = markdown_to_html me markdown, lb_mentions = vs\<rparr> in
         case replace_of x m of
           Some i \<Rightarrow> Correction (RemoteId i) body (first_per_url (map sized as)) None
         | None \<Rightarrow> PMessage body (first_per_url (map sized as)) None False None (ms_thread m)), w)"
proof -
  have "\<not> (is_groupchat_message x m \<and> ms_type m = Chat)" using sent_lookups(7) [OF assms(1,3,5)] by simp
  then show ?thesis
    by (simp add: parse_message_payload_def sent_lookups(1-6) [OF assms(1,3,5)] parse_message_body_def assms(6)
        sent_content [OF assms(1,5)] parse_content_def body_parts_def bindM_def return_def
        sent_mentions [OF assms(1,4) plain_payloadsD(8) [OF assms(3)] assms(5)] sent_attachments [OF assms(1-5)]
        Let_def split: option.split)
qed

section \<open>Properties\<close>

lemma payloads_of_message:
  assumes "sr_body req = Some \<lparr>sb_payload = SendUnencrypted markdown fallback, sb_mentions = vs\<rparr>"
  shows "ms_payloads (message_for_room x pw own room req) =
      sent_payloads x vs markdown
        [pw_chat_state pw CSActive, chat_marker_element x Markable, el_build x ''store'' ns_hints [] []] (sr_attachments req)"
    "ms_payloads (correction_for_room x pw own room target req) =
      sent_payloads x vs markdown [pw_replace pw target, el_build x ''store'' ns_hints [] []] (sr_attachments req)"
    "ms_bodies (message_for_room x pw own room req) = [([], fallback)]"
    "ms_bodies (correction_for_room x pw own room target req) = [([], fallback)]"
    "ms_thread (message_for_room x pw own room req) = Some (sr_id req)"
  using assms
  by (simp_all add: message_for_room_def correction_for_room_def append_attachments_payloads set_message_body_def
      builder_defs sent_payloads_def Let_def)

lemma plain_message_payloads:
  assumes "xml_ok x" "writer_ok x pw"
  shows "plain_payloads x [pw_chat_state pw CSActive, chat_marker_element x Markable, el_build x ''store'' ns_hints [] []]"
    "plain_payloads x [pw_replace pw target, el_build x ''store'' ns_hints [] []]"
  using writer_heads(1) [OF assms(2)]
  by (auto simp: plain_payloads_def built_head [OF assms(1)] writer_heads(2) [OF assms(2)] ns_defs)

lemma sent_replace:
  assumes "xml_ok x" "writer_ok x pw" "sr_body req = Some \<lparr>sb_payload = SendUnencrypted markdown fallback, sb_mentions = vs\<rparr>"
  shows "replace_of x (message_for_room x pw own room req) = None"
    "replace_of x (correction_for_room x pw own room target req) = Some target"
proof -
  have "list_all (\<lambda>e. \<not> el_is x e ''replace'' ns_message_correct)
      [pw_chat_state pw CSActive, chat_marker_element x Markable, el_build x ''store'' ns_hints [] []]"
    using writer_heads(1) [OF assms(2), of CSActive "''replace''" ns_message_correct]
    by (auto simp: built_head [OF assms(1)] ns_chatstates_def ns_message_correct_def)
  then show "replace_of x (message_for_room x pw own room req) = None"
    using sent_payloads_lack [OF assms(1), of "''replace''" ns_message_correct]
    by (simp add: replace_of_def typed_payload_none payloads_of_message(1) [OF assms(3)])
  show "replace_of x (correction_for_room x pw own room target req) = Some target"
    using assms(2)
    by (simp add: replace_of_def typed_payload_def typed_payload_with_predicate_def payloads_of_message(2) [OF assms(3)]
        sent_payloads_def find_append_none list_all_iff attachment_payload_heads [OF assms(1)] payload_heads [OF assms(1)]
        writer_ok_def)
qed

text \<open>
  C23. A message with an unencrypted text that the client sends is read back: the stanza that reaches the
  connection is read as a message, or as a correction of the given message, with the same text and mentions,
  the thread of the message and the attachments, whatever the room; of several attachments with the same URL only
  the first is read, and one without a size with the size 0. The hypotheses are that elements are read as they
  were built, that the JIDs of the mentions are read back and hold no ''?join'', and that an
  attachment has an HTTP URL, a media type for its kind and a size below 2 ^ 64.
\<close>

theorem sent_message_read_back:
  assumes "xml_ok x" "hashes_read x" "writer_ok x pw" "\<And>b. x_best_text x [([], b)] = Some b"
    "request_readable me parse vs (sr_attachments req)"
    "sr_body req = Some \<lparr>sb_payload = SendUnencrypted markdown fallback, sb_mentions = vs\<rparr>"
    "mc_jid mc = Some own" "mc_connection mc = Some conn" "\<And>st. conn st = None"
  shows "\<exists>m c. send_message x pw room req mc = (Ok (), mc\<lparr>mc_log := mc_log mc @ [SentMessage m]\<rparr>) \<and>
      update_message x pw room target req mc = (Ok (), mc\<lparr>mc_log := mc_log mc @ [SentMessage c]\<rparr>) \<and>
      (let body = \<lparr>lb_raw = markdown, lb_html = markdown_to_html me markdown, lb_mentions = vs\<rparr> in
       parse_message_payload x me parse enc mp sender_id room' m w =
         (Ok (PMessage body (first_per_url (map sized (sr_attachments req))) None False None (Some (sr_id req))), w) \<and>
       parse_message_payload x me parse enc mp sender_id room' c w =
         (Ok (Correction (RemoteId target) body (first_per_url (map sized (sr_attachments req))) None), w))"
proof -
  let ?m = "message_for_room x pw own room req" and ?c = "correction_for_room x pw own room target req"
  have bodies: "body_of x ?m = Some fallback" "body_of x ?c = Some fallback"
    by (simp_all add: body_of_def payloads_of_message(3,4) [OF assms(6)] assms(4))
  show ?thesis
    using sent_payload_read [OF assms(1,2) plain_message_payloads(1) [OF assms(1,3)] assms(5)
        payloads_of_message(1) [OF assms(6)] bodies(1), where w = w and enc = enc and mp = mp and sender_id = sender_id and room = room']
      sent_payload_read [OF assms(1,2) plain_message_payloads(2) [OF assms(1,3)] assms(5)
        payloads_of_message(2) [OF assms(6)] bodies(2), where w = w and enc = enc and mp = mp and sender_id = sender_id and room = room']
      sent_replace [OF assms(1,3,6)] payloads_of_message(5) [OF assms(6)] assms(7-9)
    by (intro exI [of _ ?m] exI [of _ ?c])
      (simp add: send_message_def update_message_def connected_jid_def send_raw_message_def send_stanza_def prog_defs)
qed

subsection \<open>A sample message\<close>

definition sample_writer :: "element payload_writer" where
  "sample_writer =
     \<lparr>pw_encrypted = (\<lambda>_. Element ''encrypted'' ns_legacy_omemo [] []),
      pw_explicit_encryption = (\<lambda>_ _. Element ''encryption'' ''urn:xmpp:eme:0'' [] []),
      pw_chat_state = (\<lambda>_. Element ''active'' ns_chatstates [] []),
      pw_replace = (\<lambda>i. Element ''replace'' ns_message_correct [] [Text i]),
      pw_delay = (\<lambda>_ _. Element ''delay'' ns_delay [] [])\<rparr>"

lemma sample_writer_ok: "writer_ok tree_xml sample_writer"
  by (simp add: writer_ok_def sample_writer_def tree_xml_def el_is_def comp_def)

definition sample_request :: send_message_request where
  "sample_request =
     \<lparr>sr_id = ''m1'', sr_body = Some \<lparr>sb_payload = SendUnencrypted ''*hi*'' ''hi'', sb_mentions = []\<rparr>,
      sr_attachments = [\<lparr>att_type = Image None, att_url = ''https://a.b/c.png'', att_media_type = ''image/png'',
        att_file_name = ''c.png'', att_file_size = Some 17\<rparr>]\<rparr>"

definition sample_context :: "element module_context" where
  "sample_context =
     \<lparr>mc_jid = Some (FullJid (BareJid (Some ''a'') ''b'') ''c''), mc_connection = Some (\<lambda>_. None),
      mc_new_id = show_nat, mc_ids = 0, mc_log = []\<rparr>"

definition sample_parser :: message_parser where
  "sample_parser = \<lparr>mp_message_id = ''i'', mp_room = None, mp_timestamp = 0, mp_decryption_context = None\<rparr>"

definition sample_encryption :: "unit encryption_services" where
  "sample_encryption = \<lparr>es_decrypt_message = (\<lambda>_ _ _ _ _. return []), es_handle_key_transport = (\<lambda>_ _ _. return ())\<rparr>"

definition sample_muc :: room_id where "sample_muc = RMuc (MucId (BareJid (Some ''r'') ''b''))"

theorem sent_message_read_back_witness:
  "\<exists>m. send_message tree_xml sample_writer sample_muc sample_request sample_context =
      (Ok (), sample_context\<lparr>mc_log := [SentMessage m]\<rparr>) \<and>
     parse_message_payload tree_xml sample_media (\<lambda>_. None) sample_encryption sample_parser None sample_muc m () =
       (Ok (PMessage \<lparr>lb_raw = ''*hi*'', lb_html = ''*hi*'', lb_mentions = []\<rparr> (sr_attachments sample_request) None False None
         (Some ''m1'')), ())"
proof -
  have "request_readable sample_media (\<lambda>_. None) [] (sr_attachments sample_request)"
    by (simp add: request_readable_def sample_request_def attachment_readable_def sample_media_def)
  moreover have "x_best_text tree_xml [([], b)] = Some b" for b by (simp add: tree_xml_def)
  moreover have "sr_body sample_request = Some \<lparr>sb_payload = SendUnencrypted ''*hi*'' ''hi'', sb_mentions = []\<rparr>"
    "mc_jid sample_context = Some (the (mc_jid sample_context))" "mc_connection sample_context = Some (\<lambda>_. None)"
    by (simp_all add: sample_request_def sample_context_def)
  ultimately obtain m where
    "send_message tree_xml sample_writer sample_muc sample_request sample_context =
      (Ok (), sample_context\<lparr>mc_log := mc_log sample_context @ [SentMessage m]\<rparr>)"
    "parse_message_payload tree_xml sample_media (\<lambda>_. None) sample_encryption sample_parser None sample_muc m () =
      (Ok (PMessage \<lparr>lb_raw = ''*hi*'', lb_html = markdown_to_html sample_media ''*hi*'', lb_mentions = []\<rparr>
        (first_per_url (map sized (sr_attachments sample_request))) None False None (Some (sr_id sample_request))), ())"
    using sent_message_read_back [OF tree_xml_ok tree_xml_reads(3) sample_writer_ok, of sample_media "\<lambda>_. None" "[]" sample_request
        "''*hi*''" "''hi''" sample_context "the (mc_jid sample_context)" "\<lambda>_. None" sample_muc _ sample_encryption sample_parser None sample_muc "()"]
    unfolding Let_def by blast
  moreover have "first_per_url (map sized (sr_attachments sample_request)) = sr_attachments sample_request"
    "mc_log sample_context = []" "markdown_to_html sample_media ''*hi*'' = ''*hi*''" "sr_id sample_request = ''m1''"
    by (simp_all add: sample_request_def sized_def sample_context_def sample_media_def)
  ultimately show ?thesis by (intro exI [of _ m]) simp
qed

text \<open>
  C24. Carbons come from the own account only: whatever is received, a copy of a message is handed on
  only if the stanza comes from the bare JID of the user, nothing is sent, and a copy from anyone
  else is dropped rather than handed on as a message.
\<close>

theorem carbons_from_own_account:
  "\<exists>evs. handle_message_stanza x cr m mc = (Ok (), mc\<lparr>mc_log := mc_log mc @ map Scheduled evs\<rparr>) \<and>
     ((\<exists>c. ChatCarbon c \<in> set evs) \<longleftrightarrow>
        \<not> is_mam_message x m \<and> \<not> (received_carbon_of x cr m = None \<and> sent_carbon_of x cr m = None) \<and>
        ms_from m = Some (JBare (module_bare_jid mc))) \<and>
     \<not> (ChatMessage m \<in> set evs \<and> \<not> (received_carbon_of x cr m = None \<and> sent_carbon_of x cr m = None))"
proof (cases "is_mam_message x m")
  case True
  then show ?thesis by (intro exI [of _ "[]"]) (simp add: handle_message_stanza_def return_def)
next
  case False
  let ?state = "case (ms_from m, chat_state_of x m) of
    (Some from, Some st) \<Rightarrow> [ChatStateChanged from st (ms_type m)] | _ \<Rightarrow> []"
  let ?rest = "if ms_payloads m = [] \<and> ms_bodies m = [] \<and> ms_subjects m = [] then []
    else case received_carbon_of x cr m of
        Some f \<Rightarrow> if ms_from m = Some (JBare (module_bare_jid mc)) then [ChatCarbon (CarbonReceived f)] else []
      | None \<Rightarrow> (case sent_carbon_of x cr m of
            Some f \<Rightarrow> if ms_from m = Some (JBare (module_bare_jid mc)) then [ChatCarbon (CarbonSent f)] else []
          | None \<Rightarrow> [ChatMessage m])"
  have jid: "module_bare_jid (mc\<lparr>mc_log := l\<rparr>) = module_bare_jid mc" for l
    by (simp add: module_bare_jid_def module_full_jid_def)
  have "handle_message_stanza x cr m mc = (Ok (), mc\<lparr>mc_log := mc_log mc @ map Scheduled (?state @ ?rest)\<rparr>)"
    using False
    by (simp add: handle_message_stanza_def schedule_if_own_def schedule_event_def prog_defs jid split: option.split)
  moreover have "received_carbon_of x cr m = None" "sent_carbon_of x cr m = None" if "ms_payloads m = []"
    using that by (simp_all add: received_carbon_of_def sent_carbon_of_def typed_payload_none)
  ultimately show ?thesis
    using False by (intro exI [of _ "?state @ ?rest"]) (auto split: option.splits)
qed

text \<open>What the module sends in a context that accepts it.\<close>

lemma send_with_event:
  assumes "mc_jid mc = Some own" "mc_connection mc = Some conn" "\<And>st. conn st = None"
  shows "bindM generate_id (\<lambda>i. bindM (gets module_full_jid) (\<lambda>j. send_raw_message (f i j) True)) mc =
    (let m = f (mc_new_id mc (mc_ids mc)) own in
     (Ok (), mc\<lparr>mc_ids := Suc (mc_ids mc), mc_log := mc_log mc @ [Scheduled (ChatSent m), SentMessage m]\<rparr>))"
  using assms
  by (simp add: generate_id_def module_full_jid_def send_raw_message_def schedule_event_def send_stanza_def prog_defs Let_def)

definition sends :: "('e, unit) module_prog \<Rightarrow> 'e module_context \<Rightarrow> 'e message_stanza \<Rightarrow> bool" where
  "sends p mc m \<longleftrightarrow>
     (\<exists>mc'. p mc = (Ok (), mc') \<and> mc_log mc' = mc_log mc @ [Scheduled (ChatSent m), SentMessage m])"

lemma sends_with_event:
  assumes "mc_jid mc = Some own" "mc_connection mc = Some conn" "\<And>st. conn st = None"
  shows "sends (bindM generate_id (\<lambda>i. bindM (gets module_full_jid) (\<lambda>j. send_raw_message (f i j) True))) mc
    (f (mc_new_id mc (mc_ids mc)) own)"
  using send_with_event [OF assms, of f] by (simp add: sends_def Let_def)

lemma reaction_read:
  assumes "xml_ok x" "writer_ok x pw" "ms_payloads m = [x_build_reactions x (i, es), el_build x ''store'' ns_hints [] []]"
  shows "parse_message_payload x me parse enc mp sender_id room m w =
    (Ok (PReaction (target_of (ms_type m = Groupchat) i) es), w)"
proof -
  have "error_of x m = None" "is_groupchat_message x m \<longleftrightarrow> ms_type m = Groupchat"
    by (simp_all add: error_of_def is_groupchat_message_def typed_payload_none assms(3) writer_heads [OF assms(2)]
        built_head [OF assms(1)])
  moreover have "reactions_of x m = Some (i, es)"
    using assms(2)
    by (simp add: reactions_of_def typed_payload_def typed_payload_with_predicate_def assms(3) reactions_try_from_def
        map_err_def writer_ok_def)
  ultimately show ?thesis by (simp add: parse_message_payload_def return_def)
qed

lemma retraction_read:
  assumes "xml_ok x" "x_lowercase x ''true'' = ''true''"
    "ms_payloads m = [apply_to_element x ((apply_to_new i)\<lparr>at_payloads := [retract_element x]\<rparr>), fallback_element x fallback_new]"
  shows "parse_message_payload x me parse enc mp sender_id room m w = (Ok (Retraction (RemoteId i)), w)"
proof -
  have "error_of x m = None" "reactions_of x m = None"
    by (simp_all add: error_of_def reactions_of_def typed_payload_none assms(3) payload_heads [OF assms(1)])
  moreover have "fastening_of x m = Some ((apply_to_new i)\<lparr>at_payloads := [retract_element x]\<rparr>)"
    by (simp add: fastening_of_def typed_payload_def typed_payload_with_predicate_def assms(3) payload_heads [OF assms(1)]
        apply_to_back [OF assms(1,2)])
  ultimately show ?thesis
    by (simp add: parse_message_payload_def is_retraction_def retract_element_def built_head [OF assms(1)] apply_to_new_def
        return_def Let_def)
qed

lemma receipt_read:
  assumes "xml_ok x" "ms_payloads m = [chat_marker_element x (Received i)]"
  shows "parse_message_payload x me parse enc mp sender_id room m w =
    (Ok (DeliveryReceipt (target_of (ms_type m = Groupchat) i)), w)"
proof -
  have "error_of x m = None" "reactions_of x m = None" "fastening_of x m = None"
    "is_groupchat_message x m \<longleftrightarrow> ms_type m = Groupchat"
    by (simp_all add: lookup_defs is_groupchat_message_def typed_payload_none assms(2) payload_heads [OF assms(1)]
        del: chat_marker_element.simps)
  moreover have "received_marker_of x m = Some i"
    using chat_marker_back(2) [OF assms(1), of i]
    by (simp add: received_marker_of_def typed_payload_def typed_payload_with_predicate_def assms(2) payload_heads [OF assms(1)]
        received_try_from_def bind_res_def del: chat_marker_element.simps split: sum.splits)
  ultimately show ?thesis by (simp add: parse_message_payload_def return_def Let_def)
qed

text \<open>
  Changes to messages are read as what they are: a reaction is read as the reaction to the given
  message, by its server id in a room and its remote id otherwise; a retraction as that of the given
  message. What is sent as a read receipt is read as a delivery receipt.
\<close>

theorem changes_read_back:
  assumes "xml_ok x" "writer_ok x pw" "x_lowercase x ''true'' = ''true''"
    "mc_jid mc = Some own" "mc_connection mc = Some conn" "\<And>st. conn st = None"
  shows "(\<exists>m. sends (react_to_chat_message x user i es) mc m \<and>
      parse_message_payload x me parse enc mp sender_id room' m w = (Ok (PReaction (RemoteId i) es), w)) \<and>
    (\<exists>m. sends (react_to_muc_message x muc i es) mc m \<and>
      parse_message_payload x me parse enc mp sender_id room' m w = (Ok (PReaction (ServerId i) es), w)) \<and>
    (\<exists>m. sends (retract_message x room i) mc m \<and>
      parse_message_payload x me parse enc mp sender_id room' m w = (Ok (Retraction (RemoteId i)), w)) \<and>
    (\<exists>m. sends (send_read_receipt x room i) mc m \<and>
      parse_message_payload x me parse enc mp sender_id room' m w =
        (Ok (DeliveryReceipt (target_of (is_muc_room room) i)), w))"
proof -
  note sent = sends_with_event [OF assms(4-6)]
  have type: "room_message_type room = Groupchat \<longleftrightarrow> is_muc_room room" by (cases room) simp_all
  have reaction: "\<exists>m. sends (react_to_message x i to es t) mc m \<and>
      parse_message_payload x me parse enc mp sender_id room' m w = (Ok (PReaction (target_of (t = Groupchat) i) es), w)" for to t
    unfolding react_to_message_def
    by (rule exI, rule conjI, rule sent, subst reaction_read [OF assms(1,2)]) (simp_all add: builder_defs reactions_element_def)
  have "\<exists>m. sends (retract_message x room i) mc m \<and>
      parse_message_payload x me parse enc mp sender_id room' m w = (Ok (Retraction (RemoteId i)), w)"
    unfolding retract_message_def chat_retract_message_def
    by (rule exI, rule conjI, rule sent, subst retraction_read [OF assms(1,3)]) (simp_all add: builder_defs)
  moreover have "\<exists>m. sends (send_read_receipt x room i) mc m \<and>
      parse_message_payload x me parse enc mp sender_id room' m w = (Ok (DeliveryReceipt (target_of (is_muc_room room) i)), w)"
    unfolding send_read_receipt_def mark_message_received_def
    by (rule exI, rule conjI, rule sent, subst receipt_read [OF assms(1)]) (simp_all add: builder_defs type)
  ultimately show ?thesis
    using reaction [of "JBare (user_jid user)" Chat] reaction [of "JBare (muc_jid muc)" Groupchat]
    by (simp add: react_to_chat_message_def react_to_muc_message_def target_of_def)
qed

theorem changes_read_back_witness:
  "\<exists>m. sends (send_read_receipt tree_xml sample_muc ''m1'') sample_context m \<and>
     parse_message_payload tree_xml sample_media (\<lambda>_. None) sample_encryption sample_parser None sample_muc m () =
       (Ok (DeliveryReceipt (ServerId ''m1'')), ())"
  using changes_read_back [OF tree_xml_ok sample_writer_ok tree_xml_reads(4), where mc = sample_context and
      own = "FullJid (BareJid (Some ''a'') ''b'') ''c''" and conn = "\<lambda>_. None" and room = sample_muc and i = "''m1''" and
      me = sample_media and parse = "\<lambda>_. None" and enc = sample_encryption and mp = sample_parser and sender_id = None and
      room' = sample_muc and w = "()"]
  by (simp add: sample_context_def sample_muc_def target_of_def)

end
