(* ===== verification/Store.thy ===== *)
theory Store
  imports SortBy "HOL-Library.Option_ord"
begin

text \<open>
  The storage layer \<^verbatim>\<open>crates/prose-store\<close>: keys, queries and collections of entities
  (\<^verbatim>\<open>lib.rs\<close>, \<^verbatim>\<open>repository.rs\<close>, \<^verbatim>\<open>store.rs\<close>) as the two drivers carry them
  out (\<^verbatim>\<open>driver/sqlite.rs\<close>, \<^verbatim>\<open>driver/indexed_db.rs\<close>).

  An entity is serialised to JSON by \<^verbatim>\<open>serde\<close> and its columns are read back by
  \<^verbatim>\<open>json_extract\<close>, so an entity type is described by its id and the values of its columns.
  A table is the list of its rows in the order of their row ids. A statement without an order returns
  rows that agree on all columns of the index in the order of their row ids, as the index holds them.
  Keys of type \<^verbatim>\<open>f64\<close> are left out, as no entity has them. Texts compare by their bytes.
\<close>

section \<open>Keys and queries\<close>

datatype raw_key = KInteger int | KText string

instantiation raw_key :: linorder
begin

fun less_eq_raw_key :: "raw_key \<Rightarrow> raw_key \<Rightarrow> bool" where
  "KInteger a \<le> KInteger b \<longleftrightarrow> a \<le> b"
| "KInteger _ \<le> KText _ \<longleftrightarrow> True"
| "KText _ \<le> KInteger _ \<longleftrightarrow> False"
| "KText s \<le> KText t \<longleftrightarrow> s \<le> t"

definition less_raw_key :: "raw_key \<Rightarrow> raw_key \<Rightarrow> bool" where
  "(a :: raw_key) < b \<longleftrightarrow> a \<le> b \<and> \<not> b \<le> a"

instance
proof
  fix a b c :: raw_key
  show "a < b \<longleftrightarrow> a \<le> b \<and> \<not> b \<le> a" by (simp add: less_raw_key_def)
  show "a \<le> a" by (cases a) simp_all
  show "a \<le> b \<Longrightarrow> b \<le> c \<Longrightarrow> a \<le> c" by (cases a; cases b; cases c) auto
  show "a \<le> b \<Longrightarrow> b \<le> a \<Longrightarrow> a = b" by (cases a; cases b) auto
  show "a \<le> b \<or> b \<le> a" by (cases a; cases b) auto
qed

end

text \<open>A key tuple is the list of its raw keys.\<close>

type_synonym key_tuple = "raw_key list"

datatype 'k bound = Included 'k | Excluded 'k | Unbounded

datatype 'k query = All | Range "'k bound" "'k bound" | Only 'k

datatype query_direction = Forward | Backward

record datetime =
  dt_year :: int
  dt_month :: nat
  dt_day :: nat
  dt_hour :: nat
  dt_minute :: nat
  dt_second :: nat

definition show_int :: "int \<Rightarrow> string" where
  "show_int i = (if i < 0 then ''-'' @ show_nat (nat (- i)) else show_nat (nat i))"

text \<open>\<^verbatim>\<open>{:0w}\<close>: zeros follow the sign.\<close>

definition zero_padded :: "nat \<Rightarrow> int \<Rightarrow> string" where
  "zero_padded w i =
     (let sign = (if i < 0 then ''-'' else []); digits = show_nat (nat \<bar>i\<bar>)
      in sign @ replicate (w - length sign - length digits) (CHR ''0'') @ digits)"

definition datetime_to_raw_key :: "datetime \<Rightarrow> raw_key" where
  "datetime_to_raw_key t =
     KText (zero_padded 4 (dt_year t) @ ''-'' @ zero_padded 2 (int (dt_month t)) @ ''-'' @ zero_padded 2 (int (dt_day t)) @
       ''T'' @ zero_padded 2 (int (dt_hour t)) @ '':'' @ zero_padded 2 (int (dt_minute t)) @ '':'' @
       zero_padded 2 (int (dt_second t)) @ ''Z'')"

section \<open>Entities\<close>

datatype store_error =
    UnknownCollection string
  | UnknownIndex string string
  | InvalidIndex string string
  | NotMemberOfTransaction string
  | ConstraintViolation
  | InvalidColumnType
  | StorePanic string

record index_spec =
  ix_keys :: "string list"
  ix_unique :: bool

text \<open>\<open>en_column\<close> is the value of a column in the serialised entity, \<open>None\<close> for \<^verbatim>\<open>NULL\<close>.\<close>

record 'a entity =
  en_id :: "'a \<Rightarrow> string"
  en_collection :: string
  en_indexes :: "index_spec list"
  en_column :: "string \<Rightarrow> 'a \<Rightarrow> raw_key option"

type_synonym 'a rows = "(string \<times> 'a) list"

text \<open>A collection is read by its key or through an index.\<close>

datatype access = ByKey | ByIndex "string list"

definition index_name :: "string list \<Rightarrow> string" where
  "index_name columns = join_with ''_'' columns"

definition open_index :: "'a entity \<Rightarrow> string list \<Rightarrow> store_error + access" where
  "open_index en columns =
     (if index_name columns \<in> (index_name \<circ> ix_keys) ` set (en_indexes en) then Inr (ByIndex columns)
      else Inl (UnknownIndex (en_collection en) (index_name columns)))"

fun key_columns :: "access \<Rightarrow> string list" where
  "key_columns ByKey = [''key'']"
| "key_columns (ByIndex columns) = columns"

fun row_values :: "'a entity \<Rightarrow> access \<Rightarrow> string \<times> 'a \<Rightarrow> raw_key option list" where
  "row_values en ByKey (k, v) = [Some (KText k)]"
| "row_values en (ByIndex columns) (k, v) = map (\<lambda>c. en_column en c v) columns"

section \<open>Queries as SQL\<close>

datatype comparison = CmpEq | CmpNe | CmpGe | CmpGt | CmpLe | CmpLt

fun show_comparison :: "comparison \<Rightarrow> string" where
  "show_comparison CmpEq = ''=''"
| "show_comparison CmpNe = ''!=''"
| "show_comparison CmpGe = ''>=''"
| "show_comparison CmpGt = ''>''"
| "show_comparison CmpLe = ''<=''"
| "show_comparison CmpLt = ''<''"

text \<open>The conditions on one column, each with its parameter.\<close>

type_synonym conditions = "(comparison \<times> raw_key) list"

fun into_where_clause :: "raw_key query \<Rightarrow> conditions" where
  "into_where_clause All = []"
| "into_where_clause (Range (Included a) (Included b)) = [(CmpGe, a), (CmpLe, b)]"
| "into_where_clause (Range (Included a) (Excluded b)) =
     (if a = b then [(CmpEq, a)] else [(CmpGe, a), (CmpLt, b)])"
| "into_where_clause (Range (Included a) Unbounded) = [(CmpGe, a)]"
| "into_where_clause (Range (Excluded a) (Included b)) =
     (if a = b then [(CmpEq, a)] else [(CmpGt, a), (CmpLe, b)])"
| "into_where_clause (Range (Excluded a) (Excluded b)) =
     (if a = b then [(CmpNe, a)] else [(CmpGt, a), (CmpLt, b)])"
| "into_where_clause (Range (Excluded a) Unbounded) = [(CmpGt, a)]"
| "into_where_clause (Range Unbounded (Included b)) = [(CmpLe, b)]"
| "into_where_clause (Range Unbounded (Excluded b)) = [(CmpLt, b)]"
| "into_where_clause (Range Unbounded Unbounded) = []"
| "into_where_clause (Only a) = [(CmpEq, a)]"

definition condition_sql :: "string \<Rightarrow> comparison \<times> raw_key \<Rightarrow> string" where
  "condition_sql column c = column @ '' '' @ show_comparison (fst c) @ '' ?''"

fun where_sql :: "string \<Rightarrow> conditions \<Rightarrow> string" where
  "where_sql column [] = []"
| "where_sql column [c] = condition_sql column c"
| "where_sql column cs = ''('' @ join_with '' AND '' (map (condition_sql column) cs) @ '')''"

text \<open>The bounds of a range, column by column.\<close>

fun column_bounds :: "nat \<Rightarrow> key_tuple bound \<Rightarrow> raw_key bound list" where
  "column_bounds n (Included ks) = map Included ks"
| "column_bounds n (Excluded ks) = map Excluded ks"
| "column_bounds n Unbounded = replicate n Unbounded"

fun bound_width :: "key_tuple bound \<Rightarrow> nat" where
  "bound_width (Included ks) = length ks"
| "bound_width (Excluded ks) = length ks"
| "bound_width Unbounded = 0"

text \<open>
  The conditions of a query on \<open>n\<close> columns. Keys beyond the columns, and columns beyond the
  keys, are left out for \<^verbatim>\<open>Query::Only\<close>; the lengths of ranges are asserted.
\<close>

fun column_conditions :: "nat \<Rightarrow> key_tuple query \<Rightarrow> store_error + conditions list" where
  "column_conditions n All = Inr []"
| "column_conditions n (Range lo hi) =
     (let start = column_bounds (bound_width hi) lo; end = column_bounds (bound_width lo) hi in
      if length start \<noteq> length end
      then Inl (StorePanic ''Both bounds should have the same number of tuple fields.'')
      else if start \<noteq> [] \<and> length start \<noteq> n
      then Inl (StorePanic ''The number of tuple fields should match the number of columns in the index'')
      else Inr (map (\<lambda>(a, b). into_where_clause (Range a b)) (zip start end)))"
| "column_conditions n (Only ks) = Inr (map (\<lambda>k. into_where_clause (Only k)) (take n ks))"

definition into_sql_predicate :: "string list \<Rightarrow> key_tuple query \<Rightarrow> store_error + (string \<times> raw_key list) option" where
  "into_sql_predicate columns q =
     bind_res (column_conditions (length columns) q) (\<lambda>css.
     let clauses = filter (\<lambda>(c, cs). cs \<noteq> []) (zip columns css) in
     Inr (if clauses = [] then None
          else Some (join_with '' AND '' (map (\<lambda>(c, cs). where_sql c cs) clauses), map snd (concat (map snd clauses)))))"

fun show_direction :: "query_direction \<Rightarrow> string" where
  "show_direction Forward = ''ASC''"
| "show_direction Backward = ''DESC''"

definition into_sql :: "string \<Rightarrow> string list \<Rightarrow> key_tuple query \<Rightarrow> query_direction \<Rightarrow> nat option \<Rightarrow>
    store_error + string \<times> raw_key list" where
  "into_sql table columns q dir limit =
     bind_res (into_sql_predicate columns q) (\<lambda>pred.
     let quote = [CHR 0x22];
         sql = ''SELECT '' @ quote @ ''key'' @ quote @ '', '' @ quote @ ''data'' @ quote @ '' FROM '' @ quote @ table @ quote;
         filtered = (case pred of Some (p, _) \<Rightarrow> sql @ '' WHERE '' @ p | None \<Rightarrow> sql);
         ordered = filtered @ '' ORDER BY '' @ join_with '', '' (map (\<lambda>c. c @ '' '' @ show_direction dir) columns);
         limited = (case limit of Some n \<Rightarrow> ordered @ '' LIMIT '' @ show_nat n | None \<Rightarrow> ordered)
     in Inr (limited, (case pred of Some (_, ps) \<Rightarrow> ps | None \<Rightarrow> [])))"

text \<open>What SQLite makes of the conditions: a comparison with \<^verbatim>\<open>NULL\<close> selects nothing.\<close>

fun holds_sql :: "raw_key option \<Rightarrow> comparison \<times> raw_key \<Rightarrow> bool" where
  "holds_sql None c = False"
| "holds_sql (Some v) (CmpEq, k) = (v = k)"
| "holds_sql (Some v) (CmpNe, k) = (v \<noteq> k)"
| "holds_sql (Some v) (CmpGe, k) = (k \<le> v)"
| "holds_sql (Some v) (CmpGt, k) = (k < v)"
| "holds_sql (Some v) (CmpLe, k) = (v \<le> k)"
| "holds_sql (Some v) (CmpLt, k) = (v < k)"

definition selected :: "conditions list \<Rightarrow> raw_key option list \<Rightarrow> bool" where
  "selected css vs \<longleftrightarrow> list_all (\<lambda>(cs, v). list_all (holds_sql v) cs) (zip css vs)"

section \<open>The SQLite driver\<close>

definition width_panic :: store_error where
  "width_panic = StorePanic ''The number of tuple fields should match the number of columns in the index''"

definition coll_get :: "'a entity \<Rightarrow> access \<Rightarrow> key_tuple \<Rightarrow> 'a rows \<Rightarrow> store_error + 'a option" where
  "coll_get en acc key rows =
     (if length key \<noteq> length (key_columns acc) then Inl width_panic
      else Inr (map_option snd (find (\<lambda>row. row_values en acc row = map Some key) rows)))"

definition coll_contains_key :: "'a entity \<Rightarrow> access \<Rightarrow> key_tuple \<Rightarrow> 'a rows \<Rightarrow> store_error + bool" where
  "coll_contains_key en acc key rows =
     (if length key \<noteq> length (key_columns acc) then Inl width_panic
      else Inr (list_ex (\<lambda>row. row_values en acc row = map Some key) rows))"

fun text_values :: "raw_key option list \<Rightarrow> store_error + string list" where
  "text_values [] = Inr []"
| "text_values (Some (KText s) # vs) = bind_res (text_values vs) (\<lambda>ts. Inr (s # ts))"
| "text_values (_ # vs) = Inl InvalidColumnType"

definition coll_all_keys :: "'a entity \<Rightarrow> access \<Rightarrow> 'a rows \<Rightarrow> store_error + string list" where
  "coll_all_keys en acc rows =
     (if length (key_columns acc) \<noteq> 1 then Inl (StorePanic ''all_keys is not supported for multi-column indexes.'')
      else text_values (concat (map (row_values en acc) rows)))"

text \<open>The rows of a query; descending order reads the index backwards.\<close>

definition in_order :: "'a entity \<Rightarrow> access \<Rightarrow> query_direction \<Rightarrow> 'a rows \<Rightarrow> 'a rows" where
  "in_order en acc dir rows =
     (let sorted_rows = sort_by (\<lambda>a b. cmp_of (row_values en acc a) (row_values en acc b)) rows
      in (case dir of Forward \<Rightarrow> sorted_rows | Backward \<Rightarrow> rev sorted_rows))"

definition query_rows :: "'a entity \<Rightarrow> access \<Rightarrow> key_tuple query \<Rightarrow> query_direction \<Rightarrow> nat option \<Rightarrow> 'a rows \<Rightarrow>
    store_error + 'a rows" where
  "query_rows en acc q dir limit rows =
     bind_res (column_conditions (length (key_columns acc)) q) (\<lambda>css.
     let found = in_order en acc dir (filter (\<lambda>row. selected css (row_values en acc row)) rows)
     in Inr (case limit of Some n \<Rightarrow> take n found | None \<Rightarrow> found))"

fun fold_rows :: "('t \<Rightarrow> string \<times> 'a \<Rightarrow> 't \<times> bool) \<Rightarrow> 'a rows \<Rightarrow> 't \<Rightarrow> 't" where
  "fold_rows f [] t = t"
| "fold_rows f (row # rows) t = (case f t row of (t', stop) \<Rightarrow> if stop then t' else fold_rows f rows t')"

definition fold_into_vec :: "'a entity \<Rightarrow> access \<Rightarrow> key_tuple query \<Rightarrow> (string \<Rightarrow> 'a \<Rightarrow> 't option) \<Rightarrow> query_direction \<Rightarrow>
    nat option \<Rightarrow> bool \<Rightarrow> 'a rows \<Rightarrow> store_error + 't list" where
  "fold_into_vec en acc q keep dir limit limit_query rows =
     (if limit = Some 0 then Inr []
      else
        bind_res (query_rows en acc q dir (if limit_query then limit else None) rows) (\<lambda>found.
        Inr (fold_rows (\<lambda>result (k, v).
          let result' = (case keep k v of Some t \<Rightarrow> result @ [t] | None \<Rightarrow> result)
          in (result', limit = Some (length result'))) found [])))"

definition coll_get_all :: "'a entity \<Rightarrow> access \<Rightarrow> key_tuple query \<Rightarrow> query_direction \<Rightarrow> nat option \<Rightarrow> 'a rows \<Rightarrow>
    store_error + 'a rows" where
  "coll_get_all en acc q dir limit rows = fold_into_vec en acc q (\<lambda>k v. Some (k, v)) dir limit True rows"

definition coll_get_all_filtered :: "'a entity \<Rightarrow> access \<Rightarrow> key_tuple query \<Rightarrow> query_direction \<Rightarrow> nat option \<Rightarrow>
    (string \<Rightarrow> 'a \<Rightarrow> 't option) \<Rightarrow> 'a rows \<Rightarrow> store_error + 't list" where
  "coll_get_all_filtered en acc q dir limit keep rows = fold_into_vec en acc q keep dir limit False rows"

definition coll_get_all_values :: "'a entity \<Rightarrow> access \<Rightarrow> key_tuple query \<Rightarrow> query_direction \<Rightarrow> nat option \<Rightarrow>
    'a rows \<Rightarrow> store_error + 'a list" where
  "coll_get_all_values en acc q dir limit rows = coll_get_all_filtered en acc q dir limit (\<lambda>_ v. Some v) rows"

definition coll_fold :: "'a entity \<Rightarrow> access \<Rightarrow> key_tuple query \<Rightarrow> 't \<Rightarrow> ('t \<Rightarrow> string \<times> 'a \<Rightarrow> 't) \<Rightarrow> 'a rows \<Rightarrow>
    store_error + 't" where
  "coll_fold en acc q init f rows =
     bind_res (query_rows en acc q Forward None rows) (\<lambda>found. Inr (fold_rows (\<lambda>t row. (f t row, False)) found init))"

text \<open>Two rows conflict on the primary key or on a unique index; \<^verbatim>\<open>NULL\<close>s never conflict.\<close>

definition conflicts :: "'a entity \<Rightarrow> string \<times> 'a \<Rightarrow> string \<times> 'a \<Rightarrow> bool" where
  "conflicts en row row' \<longleftrightarrow> fst row = fst row' \<or>
     list_ex (\<lambda>ix. ix_unique ix \<and> None \<notin> set (row_values en (ByIndex (ix_keys ix)) row) \<and>
       row_values en (ByIndex (ix_keys ix)) row = row_values en (ByIndex (ix_keys ix)) row') (en_indexes en)"

definition coll_set :: "'a entity \<Rightarrow> string \<Rightarrow> 'a \<Rightarrow> 'a rows \<Rightarrow> store_error + 'a rows" where
  "coll_set en key v rows =
     (if list_ex (conflicts en (key, v)) rows then Inl ConstraintViolation else Inr (rows @ [(key, v)]))"

definition coll_put :: "'a entity \<Rightarrow> string \<Rightarrow> 'a \<Rightarrow> 'a rows \<Rightarrow> 'a rows" where
  "coll_put en key v rows = filter (\<lambda>row. \<not> conflicts en (key, v) row) rows @ [(key, v)]"

definition put_entity :: "'a entity \<Rightarrow> 'a \<Rightarrow> 'a rows \<Rightarrow> 'a rows" where
  "put_entity en v rows = coll_put en (en_id en v) v rows"

definition coll_delete :: "'a entity \<Rightarrow> access \<Rightarrow> key_tuple \<Rightarrow> 'a rows \<Rightarrow> store_error + 'a rows" where
  "coll_delete en acc key rows =
     (if length key \<noteq> length (key_columns acc) then Inl width_panic
      else Inr (filter (\<lambda>row. row_values en acc row \<noteq> map Some key) rows))"

definition delete_all_in_index :: "'a entity \<Rightarrow> string list \<Rightarrow> key_tuple query \<Rightarrow> 'a rows \<Rightarrow> store_error + 'a rows" where
  "delete_all_in_index en columns q rows =
     bind_res (column_conditions (length columns) q) (\<lambda>css.
     Inr (filter (\<lambda>row. \<not> selected css (row_values en (ByIndex columns) row)) rows))"

definition coll_truncate :: "'a rows \<Rightarrow> 'a rows" where
  "coll_truncate rows = []"

definition quoted :: "char \<Rightarrow> string \<Rightarrow> string" where
  "quoted q s = [q] @ s @ [q]"

fun qualified_columns :: "access \<Rightarrow> string list" where
  "qualified_columns ByKey = [quoted (CHR 0x22) ''key'']"
| "qualified_columns (ByIndex columns) =
     map (\<lambda>c. ''json_extract('' @ quoted (CHR 0x22) ''data'' @ '', '' @ quoted (CHR 0x27) (''$.'' @ c) @ '')'') columns"

text \<open>
  The tables and indexes of the database. The name of an index in the schema contains the name of
  its table, and is taken apart again when the database is opened.
\<close>

definition schema_index_name :: "string \<Rightarrow> string list \<Rightarrow> string" where
  "schema_index_name table keys = ''prose_'' @ table @ ''_'' @ index_name keys @ ''_idx''"

definition described_index :: "string \<Rightarrow> string \<Rightarrow> store_error + string option" where
  "described_index table name =
     (case strip_prefix ''prose_'' name of
        None \<Rightarrow> Inr None
      | Some rest \<Rightarrow>
          (case strip_prefix (table @ ''_'') rest of
             None \<Rightarrow> Inl (InvalidIndex table name)
           | Some idx \<Rightarrow>
               if length idx < 4 then Inl (StorePanic ''begin <= end'') else Inr (Some (take (length idx - 4) idx))))"

type_synonym description = "(string \<times> string list) list"

definition contains_table :: "description \<Rightarrow> string \<Rightarrow> bool" where
  "contains_table d table \<longleftrightarrow> map_of d table \<noteq> None"

definition table_contains_index :: "description \<Rightarrow> string \<Rightarrow> string \<Rightarrow> bool" where
  "table_contains_index d table idx =
     (case map_of d table of None \<Rightarrow> False | Some indexes \<Rightarrow> idx \<in> set indexes)"

definition add_table :: "string \<Rightarrow> description \<Rightarrow> description" where
  "add_table table d = (if contains_table d table then d else AList.update table [] d)"

definition remove_table :: "string \<Rightarrow> description \<Rightarrow> description" where
  "remove_table table d = AList.delete table d"

definition describe_index :: "string \<Rightarrow> string \<Rightarrow> description \<Rightarrow> description" where
  "describe_index table idx d =
     AList.update table (case map_of d table of None \<Rightarrow> [idx] | Some is \<Rightarrow> List.insert idx is) d"

definition transaction_for :: "description \<Rightarrow> string list \<Rightarrow> store_error + string list" where
  "transaction_for d collections =
     (case find (\<lambda>c. \<not> contains_table d c) collections of
        Some c \<Rightarrow> Inl (UnknownCollection c)
      | None \<Rightarrow> Inr collections)"

definition transaction_collection :: "string list \<Rightarrow> string \<Rightarrow> store_error + string" where
  "transaction_collection members name =
     (if name \<in> set members then Inr name else Inl (NotMemberOfTransaction name))"

section \<open>Repositories\<close>

text \<open>
  \<^verbatim>\<open>Entry::and_update\<close>. A transaction that is dropped without a commit is committed by the
  driver, so an error leaves what was written before it.
\<close>

definition entry_and_update :: "'a entity \<Rightarrow> string \<Rightarrow> (string \<Rightarrow> 'a) option \<Rightarrow> ('a \<Rightarrow> 'a) \<Rightarrow> 'a rows \<Rightarrow>
    store_error + 'a rows" where
  "entry_and_update en key new f rows =
     bind_res (coll_get en ByKey [KText key] rows) (\<lambda>found.
     case (case found of Some v \<Rightarrow> Some v | None \<Rightarrow> map_option (\<lambda>mk. mk key) new) of
       None \<Rightarrow> Inr rows
     | Some v \<Rightarrow>
         if en_id en (f v) \<noteq> key
         then Inl (StorePanic ''Attempted to change the key of an entity in an update.'')
         else Inr (coll_put en key (f v) rows))"

text \<open>The macro \<^verbatim>\<open>upsert!\<close>.\<close>

definition upsert :: "'a entity \<Rightarrow> string \<Rightarrow> 'a \<Rightarrow> ('a \<Rightarrow> 'a) \<Rightarrow> 'a rows \<Rightarrow> store_error + 'a rows" where
  "upsert en key new f rows =
     bind_res (coll_get en ByKey [KText key] rows) (\<lambda>found.
     Inr (put_entity en (f (case found of Some v \<Rightarrow> v | None \<Rightarrow> new)) rows))"

section \<open>The IndexedDB driver\<close>

text \<open>
  Keys compare as in IndexedDB: an array by its elements in order. A range whose lower bound is not
  below its upper bound is refused, unless both are equal and included.
\<close>

definition idb_bound :: "key_tuple \<Rightarrow> key_tuple \<Rightarrow> bool \<Rightarrow> bool \<Rightarrow> string + (key_tuple \<Rightarrow> bool)" where
  "idb_bound lower upper lower_open upper_open =
     (if upper < lower \<or> lower = upper \<and> (lower_open \<or> upper_open) then Inl ''Failed to build IdbKeyRange::bound''
      else Inr (\<lambda>k. (if lower_open then lower < k else lower \<le> k) \<and> (if upper_open then k < upper else k \<le> upper)))"

fun idb_key_range :: "key_tuple query \<Rightarrow> string + (key_tuple \<Rightarrow> bool) option" where
  "idb_key_range All = Inr None"
| "idb_key_range (Range (Included a) (Included b)) = bind_res (idb_bound a b False False) (\<lambda>r. Inr (Some r))"
| "idb_key_range (Range (Included a) (Excluded b)) = bind_res (idb_bound a b False True) (\<lambda>r. Inr (Some r))"
| "idb_key_range (Range (Included a) Unbounded) = Inr (Some (\<lambda>k. a \<le> k))"
| "idb_key_range (Range (Excluded a) (Included b)) = bind_res (idb_bound a b True False) (\<lambda>r. Inr (Some r))"
| "idb_key_range (Range (Excluded a) (Excluded b)) = bind_res (idb_bound a b True True) (\<lambda>r. Inr (Some r))"
| "idb_key_range (Range (Excluded a) Unbounded) = Inr (Some (\<lambda>k. a < k))"
| "idb_key_range (Range Unbounded (Included b)) = Inr (Some (\<lambda>k. k \<le> b))"
| "idb_key_range (Range Unbounded (Excluded b)) = Inr (Some (\<lambda>k. k < b))"
| "idb_key_range (Range Unbounded Unbounded) = Inr None"
| "idb_key_range (Only k) = Inr (Some (\<lambda>k'. k' = k))"

definition in_range :: "(key_tuple \<Rightarrow> bool) option \<Rightarrow> key_tuple \<Rightarrow> bool" where
  "in_range r k = (case r of None \<Rightarrow> True | Some p \<Rightarrow> p k)"

text \<open>\<^verbatim>\<open>set\<close> refuses a key that is taken, as SQLite does.\<close>

definition idb_set :: "string \<Rightarrow> 'a \<Rightarrow> 'a rows \<Rightarrow> store_error + 'a rows" where
  "idb_set key v rows =
     (if list_ex (\<lambda>row. fst row = key) rows then Inl ConstraintViolation else Inr (rows @ [(key, v)]))"

section \<open>Facts about rows\<close>

lemma selected_simps [simp]:
  "selected [] vs" "selected css []"
  "selected (cs # css) (v # vs) \<longleftrightarrow> list_all (holds_sql v) cs \<and> selected css vs"
  by (simp_all add: selected_def)

lemma conflicts_sym: "conflicts en a b \<longleftrightarrow> conflicts en b a"
  unfolding conflicts_def list_ex_iff by metis

definition rows_ok :: "'a entity \<Rightarrow> 'a rows \<Rightarrow> bool" where
  "rows_ok en rows \<longleftrightarrow> sorted_wrt (\<lambda>a b. \<not> conflicts en a b) rows"

lemma rows_ok_put: "rows_ok en rows \<Longrightarrow> rows_ok en (coll_put en key v rows)"
  by (auto simp: rows_ok_def coll_put_def sorted_wrt_append sorted_wrt_filter conflicts_sym)

lemma rows_ok_set: "rows_ok en rows \<Longrightarrow> coll_set en key v rows = Inr rows' \<Longrightarrow> rows_ok en rows'"
  by (auto simp: rows_ok_def coll_set_def sorted_wrt_append list_ex_iff conflicts_sym split: if_splits)

lemma rows_ok_filter: "rows_ok en rows \<Longrightarrow> rows_ok en (filter P rows)"
  by (simp add: rows_ok_def sorted_wrt_filter)

text \<open>
  Entities whose ids and unique indexes tell the same ones apart, on a set of entities: for them
  \<^verbatim>\<open>INSERT OR REPLACE\<close> replaces exactly the entity with the same id.
\<close>

locale keyed_entity =
  fixes en :: "'a entity" and A :: "'a set"
  assumes same_id: "v \<in> A \<Longrightarrow> w \<in> A \<Longrightarrow> ix \<in> set (en_indexes en) \<Longrightarrow> ix_unique ix \<Longrightarrow>
    map (\<lambda>c. en_column en c v) (ix_keys ix) = map (\<lambda>c. en_column en c w) (ix_keys ix) \<Longrightarrow> en_id en v = en_id en w"
begin

definition keyed :: "'a rows \<Rightarrow> bool" where
  "keyed rows \<longleftrightarrow> distinct (map fst rows) \<and> (\<forall>(k, v) \<in> set rows. k = en_id en v \<and> v \<in> A)"

lemma put_filter:
  assumes "keyed rows" "v \<in> A"
  shows "put_entity en v rows = filter (\<lambda>row. fst row \<noteq> en_id en v) rows @ [(en_id en v, v)]"
proof -
  have "conflicts en (en_id en v, v) row \<longleftrightarrow> fst row = en_id en v" if "row \<in> set rows" for row
  proof -
    obtain k w where row: "row = (k, w)" by force
    then have w: "k = en_id en w" "w \<in> A" using that assms(1) by (auto simp: keyed_def)
    have "en_id en v = en_id en w"
      if "ix \<in> set (en_indexes en)" "ix_unique ix"
        "row_values en (ByIndex (ix_keys ix)) (en_id en v, v) = row_values en (ByIndex (ix_keys ix)) (k, w)" for ix
      using same_id [OF assms(2) w(2) that(1,2)] that(3) by simp
    then show ?thesis using row w(1) by (auto simp: conflicts_def list_ex_iff)
  qed
  then show ?thesis by (auto simp: put_entity_def coll_put_def intro!: filter_cong)
qed

lemma keyed_filter: "keyed rows \<Longrightarrow> keyed (filter P rows)"
  by (auto simp: keyed_def distinct_map_filter)

lemma keyed_put: "keyed rows \<Longrightarrow> v \<in> A \<Longrightarrow> keyed (put_entity en v rows)"
  using keyed_filter [of rows "\<lambda>row. fst row \<noteq> en_id en v"] by (auto simp: put_filter keyed_def)

lemma keyed_Nil: "keyed []"
  by (simp add: keyed_def)

lemma map_of_put:
  assumes "keyed rows" "v \<in> A"
  shows "map_of (put_entity en v rows) = (map_of rows)(en_id en v \<mapsto> v)"
proof -
  have "map_of (filter (\<lambda>row. fst row \<noteq> en_id en v) rows) k =
      (if k = en_id en v then None else map_of rows k)" for k
    by (induction rows) auto
  then show ?thesis by (auto simp: put_filter [OF assms] map_add_def fun_eq_iff split: option.split)
qed

lemma row_iff: "keyed rows \<Longrightarrow> (k, v) \<in> set rows \<longleftrightarrow> map_of rows k = Some v"
  by (auto simp: keyed_def)

text \<open>Reading by key gives the entity last put under it.\<close>

lemma get_map: "coll_get en ByKey [KText k] rows = Inr (map_of rows k)"
proof -
  have "map_option snd (find (\<lambda>row. fst row = k) rows) = map_of rows k" by (induction rows) auto
  moreover have "(\<lambda>row. row_values en ByKey row = [Some (KText k)]) = (\<lambda>row. fst row = k)" by force
  ultimately show ?thesis by (simp add: coll_get_def)
qed

lemma get_after_put:
  "keyed rows \<Longrightarrow> v \<in> A \<Longrightarrow>
    coll_get en ByKey [KText k] (put_entity en v rows) = Inr (if k = en_id en v then Some v else map_of rows k)"
  by (simp add: get_map map_of_put)

text \<open>What is read through an index is a row that is stored and has the key.\<close>

lemma get_index:
  assumes "length key = length columns"
  shows "\<exists>found. coll_get en (ByIndex columns) key rows = Inr found \<and>
    (case found of
       None \<Rightarrow> \<forall>row \<in> set rows. map (\<lambda>c. en_column en c (snd row)) columns \<noteq> map Some key
     | Some v \<Rightarrow> v \<in> snd ` set rows \<and> map (\<lambda>c. en_column en c v) columns = map Some key)"
  using assms
  by (auto simp: coll_get_def find_None_iff split: option.split dest!: find_SomeD intro: rev_image_eqI)

end

section \<open>Limits\<close>

lemma fold_rows_limit:
  assumes "length acc < n"
  shows "fold_rows (\<lambda>result (k, v).
      let result' = (case keep k v of Some t \<Rightarrow> result @ [t] | None \<Rightarrow> result) in (result', Some n = Some (length result')))
      rows acc = acc @ take (n - length acc) (List.map_filter (\<lambda>(k, v). keep k v) rows)"
  using assms
proof (induction rows arbitrary: acc)
  case (Cons row rows)
  obtain k v where row: "row = (k, v)" by force
  show ?case
  proof (cases "keep k v")
    case None
    with Cons row show ?thesis by (simp add: List.map_filter_simps)
  next
    case (Some t)
    show ?thesis
    proof (cases "Suc (length acc) = n")
      case True
      with Some row show ?thesis by (auto simp: List.map_filter_simps Let_def)
    next
      case False
      then have "Suc (length acc) < n" using Cons.prems by simp
      moreover from this have "n - length acc = Suc (n - Suc (length acc))" by simp
      ultimately show ?thesis
        using Some row False Cons.IH [of "acc @ [t]"] by (simp add: List.map_filter_simps Let_def)
    qed
  qed
qed (simp add: List.map_filter_simps)

lemma fold_rows_unlimited:
  "fold_rows (\<lambda>result (k, v).
      let result' = (case keep k v of Some t \<Rightarrow> result @ [t] | None \<Rightarrow> result) in (result', None = Some (length result')))
      rows acc = acc @ List.map_filter (\<lambda>(k, v). keep k v) rows"
proof (induction rows arbitrary: acc)
  case (Cons row rows)
  obtain k v where row: "row = (k, v)" by force
  show ?case
    by (cases "keep k v") (simp_all add: row Cons [simplified Let_def, simplified] List.map_filter_simps Let_def)
qed (simp add: List.map_filter_simps)

lemma map_filter_values_only: "List.map_filter (\<lambda>(k, v). Some v) rows = map snd rows"
  by (induction rows) (auto simp: List.map_filter_simps)

lemma fold_rows_fold: "fold_rows (\<lambda>t row. (f t row, False)) rows t = fold (\<lambda>row t. f t row) rows t"
  by (induction rows arbitrary: t) simp_all

text \<open>A query with a filter returns the first matches of the filter among the rows of the query.\<close>

lemma filtered_exact:
  "coll_get_all_filtered en acc q dir limit keep rows =
     (if limit = Some 0 then Inr []
      else bind_res (query_rows en acc q dir None rows) (\<lambda>found.
        let matches = List.map_filter (\<lambda>(k, v). keep k v) found
        in Inr (case limit of None \<Rightarrow> matches | Some n \<Rightarrow> take n matches)))"
proof (cases limit)
  case None
  then show ?thesis
    by (simp add: coll_get_all_filtered_def fold_into_vec_def fold_rows_unlimited [where acc = "[]", simplified] Let_def)
next
  case (Some n)
  then show ?thesis
    by (auto simp: coll_get_all_filtered_def fold_into_vec_def Let_def
        fold_rows_limit [where acc = "[]", simplified Let_def, simplified])
qed

section \<open>Queries for one key\<close>

lemma sort_by_all_equal: "(\<And>x y. x \<in> set xs \<Longrightarrow> y \<in> set xs \<Longrightarrow> cmp x y = Equal) \<Longrightarrow> sort_by cmp xs = xs"
proof (induction xs)
  case (Cons x xs)
  then show ?case by (cases xs) simp_all
qed simp

lemma selected_only:
  "length vs = length ks \<Longrightarrow> selected (map (\<lambda>k. [(CmpEq, k)]) ks) vs \<longleftrightarrow> vs = map Some ks"
proof (induction ks arbitrary: vs)
  case (Cons k ks)
  then obtain v vs' where vs: "vs = v # vs'" "length vs' = length ks" by (auto simp: length_Suc_conv)
  have "holds_sql v (CmpEq, k) \<longleftrightarrow> v = Some k" by (cases v) simp_all
  with Cons.IH [of vs'] vs show ?case by auto
qed simp

lemma query_only:
  assumes "length key = length columns"
  shows "query_rows en (ByIndex columns) (Only key) Forward None rows =
    Inr (filter (\<lambda>row. row_values en (ByIndex columns) row = map Some key) rows)"
proof -
  have width: "length (row_values en (ByIndex columns) row) = length key" for row
    using assms by (cases row) simp
  let ?found = "filter (\<lambda>row. row_values en (ByIndex columns) row = map Some key) rows"
  have "sort_by (\<lambda>a b. cmp_of (row_values en (ByIndex columns) a) (row_values en (ByIndex columns) b)) ?found = ?found"
    by (intro sort_by_all_equal) (simp add: cmp_of_def)
  then show ?thesis
    using assms width by (simp add: query_rows_def in_order_def selected_only Let_def)
qed

lemma only_values:
  "length key = length columns \<Longrightarrow>
     coll_get_all_values en (ByIndex columns) (Only key) Forward None rows =
       Inr (map snd (filter (\<lambda>row. row_values en (ByIndex columns) row = map Some key) rows))"
  by (simp add: coll_get_all_values_def filtered_exact query_only map_filter_values_only)

section \<open>Properties\<close>

text \<open>The name of an index is read back from the schema.\<close>

lemma schema_index_roundtrip: "described_index table (schema_index_name table keys) = Inr (Some (index_name keys))"
proof -
  have "strip_prefix (table @ ''_'') (table @ ''_'' @ index_name keys @ ''_idx'') = Some (index_name keys @ ''_idx'')"
    using strip_prefix_append [of "table @ ''_''"] by simp
  then show ?thesis
    by (simp add: described_index_def schema_index_name_def strip_prefix_append [of "''prose_''", simplified])
qed

lemma same_prefix_conditions:
  "column_conditions (Suc (length p)) (Range (Included (p @ [a])) (Included (p @ [b]))) =
     Inr (map (\<lambda>k. [(CmpGe, k), (CmpLe, k)]) p @ [[(CmpGe, a), (CmpLe, b)]])"
  by (simp add: zip_append Let_def) (induction p; simp)

lemma same_prefix_selected:
  "length vs = Suc (length p) \<Longrightarrow>
     selected (map (\<lambda>k. [(CmpGe, k), (CmpLe, k)]) p @ [[(CmpGe, a), (CmpLe, b)]]) (map Some vs) \<longleftrightarrow>
     (\<exists>x. vs = p @ [x] \<and> a \<le> x \<and> x \<le> b)"
proof (induction p arbitrary: vs)
  case Nil
  then show ?case by (auto simp: length_Suc_conv)
next
  case (Cons k p)
  then obtain v vs' where "vs = v # vs'" "length vs' = Suc (length p)" by (auto simp: length_Suc_conv)
  with Cons.IH [of vs'] show ?case by auto
qed

lemma same_prefix_between:
  fixes p vs :: key_tuple
  shows "length vs = Suc (length p) \<Longrightarrow> p @ [a] \<le> vs \<and> vs \<le> p @ [b] \<longleftrightarrow> (\<exists>x. vs = p @ [x] \<and> a \<le> x \<and> x \<le> b)"
proof (induction p arbitrary: vs)
  case Nil
  then show ?case by (auto simp: length_Suc_conv)
next
  case (Cons k p)
  then obtain v vs' where "vs = v # vs'" "length vs' = Suc (length p)" by (auto simp: length_Suc_conv)
  with Cons.IH [of vs'] show ?case by auto
qed

text \<open>
  C21. The two drivers agree on the queries the client makes: on a query for one key, and on a range
  with both ends included whose ends differ in the last column only, SQLite selects exactly the rows
  that lie in the range of IndexedDB, and neither driver refuses the query.
\<close>

theorem drivers_agree:
  assumes "a \<le> b" "length vs = Suc (length p)"
    and "q = Range (Included (p @ [a])) (Included (p @ [b])) \<or> q = Only (p @ [a])"
  shows "\<exists>css r. column_conditions (Suc (length p)) q = Inr css \<and> idb_key_range q = Inr r \<and>
      (selected css (map Some vs) \<longleftrightarrow> in_range r vs)"
  using assms(3)
proof
  assume q: "q = Range (Included (p @ [a])) (Included (p @ [b]))"
  have "\<not> p @ [b] < p @ [a]" using assms(1) by (induction p) auto
  then show ?thesis
    unfolding q same_prefix_conditions
    by (simp add: idb_bound_def in_range_def same_prefix_selected [OF assms(2)] same_prefix_between [OF assms(2)])
next
  assume "q = Only (p @ [a])"
  then show ?thesis
    using selected_only [of "map Some vs" "p @ [a]"] assms(2) inj_map_eq_map [of Some vs "p @ [a]"]
    by (simp add: in_range_def)
qed

theorem drivers_agree_witness:
  "\<exists>css r. column_conditions 2 (Range (Included [KText ''room'', KInteger 3]) (Included [KText ''room'', KInteger 9])) = Inr css \<and>
     idb_key_range (Range (Included [KText ''room'', KInteger 3]) (Included [KText ''room'', KInteger 9])) = Inr r \<and>
     (selected css [Some (KText ''room''), Some (KInteger 5)] \<longleftrightarrow> in_range r [KText ''room'', KInteger 5])"
  using drivers_agree [of "KInteger 3" "KInteger 9" "[KText ''room'', KInteger 5]" "[KText ''room'']"
      "Range (Included [KText ''room'', KInteger 3]) (Included [KText ''room'', KInteger 9])"]
  by (simp add: numeral_2_eq_2)

lemma excluded_prefix_conditions:
  "a \<noteq> b \<Longrightarrow> column_conditions (Suc (length p)) (Range (Excluded (p @ [a])) (Excluded (p @ [b]))) =
     Inr (map (\<lambda>k. [(CmpNe, k)]) p @ [[(CmpGt, a), (CmpLt, b)]])"
  by (simp add: zip_append Let_def) (induction p; simp)

text \<open>
  The drivers differ on ranges with both ends excluded: as soon as the ends share their first
  columns, SQLite selects none of the rows that do so too, as it asks for rows that differ from the
  shared columns. IndexedDB selects the rows between the ends.
\<close>

theorem excluded_range_skips_prefix:
  assumes "p \<noteq> []" "a < x" "x < b"
  shows "\<exists>css r. column_conditions (Suc (length p)) (Range (Excluded (p @ [a])) (Excluded (p @ [b]))) = Inr css \<and>
      idb_key_range (Range (Excluded (p @ [a])) (Excluded (p @ [b]))) = Inr r \<and>
      \<not> selected css (map Some (p @ [x])) \<and> in_range r (p @ [x])"
proof -
  have less: "p @ [c] < p @ [d] \<longleftrightarrow> c < d" for c d :: raw_key by (induction p) auto
  have "\<not> selected (map (\<lambda>k. [(CmpNe, k)]) p @ [[(CmpGt, a), (CmpLt, b)]]) (map Some (p @ [x]))"
    using assms(1) by (cases p) simp_all
  moreover have "a \<noteq> b" "\<not> b < a" using assms by auto
  ultimately show ?thesis
    using assms less excluded_prefix_conditions [of a b p]
    by (simp add: idb_bound_def in_range_def del: column_conditions.simps)
qed

theorem excluded_range_skips_prefix_witness:
  "\<exists>css r. column_conditions 2 (Range (Excluded [KText ''a@prose.org'', KInteger 2]) (Excluded [KText ''a@prose.org'', KInteger 4])) = Inr css \<and>
     idb_key_range (Range (Excluded [KText ''a@prose.org'', KInteger 2]) (Excluded [KText ''a@prose.org'', KInteger 4])) = Inr r \<and>
     \<not> selected css [Some (KText ''a@prose.org''), Some (KInteger 3)] \<and> in_range r [KText ''a@prose.org'', KInteger 3]"
  using excluded_range_skips_prefix [of "[KText ''a@prose.org'']" "KInteger 2" "KInteger 3" "KInteger 4"]
  by (simp add: less_raw_key_def numeral_2_eq_2)

end
