(* ===== verification/MessageRepo.thy ===== *)
theory MessageRepo
  imports Store Rooms
begin

text \<open>
  The repositories of messages and drafts (\<^verbatim>\<open>infra/messaging/caching_message_repository.rs\<close>,
  \<^verbatim>\<open>message_record.rs\<close>, \<^verbatim>\<open>drafts_repository.rs\<close>) and of local room settings
  (\<^verbatim>\<open>infra/settings/local_room_settings_repository.rs\<close>) over collections of the storage layer.

  A time is stored as \<^verbatim>\<open>chrono\<close> serialises it and queried by the key of
  \<^verbatim>\<open>prose-store\<close>; \<open>clock\<close> holds what is used of \<^verbatim>\<open>chrono\<close>.
\<close>

section \<open>Records\<close>

record clock =
  ck_json :: "timestamp \<Rightarrow> string"
  ck_civil :: "timestamp \<Rightarrow> datetime"
  ck_min :: timestamp
  ck_max :: timestamp

record message_record =
  mr_id :: string
  mr_account :: account_id
  mr_room_id :: room_id
  mr_message_id :: message_id
  mr_remote_id :: "string option"
  mr_remote_id_target :: "string option"
  mr_server_id :: "string option"
  mr_server_id_target :: "string option"
  mr_to :: "bare_jid option"
  mr_from :: participant_id
  mr_timestamp :: timestamp
  mr_payload :: payload

definition show_account :: "account_id \<Rightarrow> string" where
  "show_account a = show_bare (user_jid (account_user_id a))"

definition account_key :: "account_id \<Rightarrow> raw_key" where
  "account_key a = KText (show_account a)"

definition room_raw_key :: "room_id \<Rightarrow> raw_key" where
  "room_raw_key r = KText (room_raw_key_string r)"

definition record_from_message :: "account_id \<Rightarrow> room_id \<Rightarrow> message_like \<Rightarrow> message_record" where
  "record_from_message account room m =
     \<lparr>mr_id = show_account account @ ''-'' @ room_raw_key_string room @ ''-'' @ ml_id m,
      mr_account = account, mr_room_id = room, mr_message_id = ml_id m, mr_remote_id = ml_remote_id m,
      mr_remote_id_target = (case target_id (ml_payload m) of Some (RemoteId i) \<Rightarrow> Some i | _ \<Rightarrow> None),
      mr_server_id = ml_server_id m,
      mr_server_id_target = (case target_id (ml_payload m) of Some (ServerId i) \<Rightarrow> Some i | _ \<Rightarrow> None),
      mr_to = ml_to m, mr_from = ml_from m, mr_timestamp = ml_timestamp m, mr_payload = ml_payload m\<rparr>"

definition message_like_from :: "message_record \<Rightarrow> message_like" where
  "message_like_from r =
     \<lparr>ml_id = mr_message_id r, ml_remote_id = mr_remote_id r, ml_server_id = mr_server_id r, ml_to = mr_to r,
      ml_from = mr_from r, ml_timestamp = mr_timestamp r, ml_payload = mr_payload r\<rparr>"

definition account_idx :: "string list" where "account_idx = [''account'']"
definition room_idx :: "string list" where "room_idx = [''account'', ''room_id'']"
definition message_id_idx :: "string list" where "message_id_idx = [''account'', ''room_id'', ''message_id'']"
definition server_id_idx :: "string list" where "server_id_idx = [''account'', ''room_id'', ''server_id'']"
definition server_id_target_idx :: "string list" where
  "server_id_target_idx = [''account'', ''room_id'', ''server_id_target'']"
definition remote_id_idx :: "string list" where "remote_id_idx = [''account'', ''room_id'', ''remote_id'']"
definition remote_id_target_idx :: "string list" where
  "remote_id_target_idx = [''account'', ''room_id'', ''remote_id_target'']"
definition timestamp_idx :: "string list" where "timestamp_idx = [''account'', ''room_id'', ''timestamp'']"

lemmas idx_defs = account_idx_def room_idx_def message_id_idx_def server_id_idx_def server_id_target_idx_def
  remote_id_idx_def remote_id_target_idx_def timestamp_idx_def

definition message_column :: "clock \<Rightarrow> string \<Rightarrow> message_record \<Rightarrow> raw_key option" where
  "message_column ck c r =
     (if c = ''account'' then Some (account_key (mr_account r))
      else if c = ''room_id'' then Some (room_raw_key (mr_room_id r))
      else if c = ''message_id'' then Some (KText (mr_message_id r))
      else if c = ''server_id'' then map_option KText (mr_server_id r)
      else if c = ''server_id_target'' then map_option KText (mr_server_id_target r)
      else if c = ''remote_id'' then map_option KText (mr_remote_id r)
      else if c = ''remote_id_target'' then map_option KText (mr_remote_id_target r)
      else if c = ''timestamp'' then Some (KText (ck_json ck (mr_timestamp r)))
      else None)"

definition message_entity :: "clock \<Rightarrow> message_record entity" where
  "message_entity ck =
     \<lparr>en_id = mr_id, en_collection = ''messages'',
      en_indexes =
        [\<lparr>ix_keys = account_idx, ix_unique = False\<rparr>, \<lparr>ix_keys = room_idx, ix_unique = False\<rparr>,
         \<lparr>ix_keys = message_id_idx, ix_unique = True\<rparr>, \<lparr>ix_keys = server_id_idx, ix_unique = False\<rparr>,
         \<lparr>ix_keys = server_id_target_idx, ix_unique = False\<rparr>, \<lparr>ix_keys = remote_id_idx, ix_unique = False\<rparr>,
         \<lparr>ix_keys = remote_id_target_idx, ix_unique = False\<rparr>, \<lparr>ix_keys = timestamp_idx, ix_unique = False\<rparr>],
      en_column = message_column ck\<rparr>"

type_synonym message_rows = "message_record rows"

section \<open>The repository of messages\<close>

definition index_get :: "clock \<Rightarrow> string list \<Rightarrow> account_id \<Rightarrow> room_id \<Rightarrow> string \<Rightarrow> message_rows \<Rightarrow>
    store_error + message_record option" where
  "index_get ck columns account room i rows =
     bind_res (open_index (message_entity ck) columns) (\<lambda>acc.
     coll_get (message_entity ck) acc [account_key account, room_raw_key room, KText i] rows)"

definition index_values :: "clock \<Rightarrow> string list \<Rightarrow> account_id \<Rightarrow> room_id \<Rightarrow> string \<Rightarrow> message_rows \<Rightarrow>
    store_error + message_record list" where
  "index_values ck columns account room i rows =
     bind_res (open_index (message_entity ck) columns) (\<lambda>acc.
     coll_get_all_values (message_entity ck) acc (Only [account_key account, room_raw_key room, KText i]) Forward None rows)"

definition sort_by_timestamp :: "message_like list \<Rightarrow> message_like list" where
  "sort_by_timestamp = sort_by (\<lambda>a b. cmp_of (ml_timestamp a) (ml_timestamp b))"

text \<open>The parts of one message: the changes to it, by its ids, and the message itself.\<close>

definition message_parts :: "clock \<Rightarrow> account_id \<Rightarrow> room_id \<Rightarrow> message_rows \<Rightarrow> message_id \<Rightarrow> message_like list \<Rightarrow>
    store_error + message_like list" where
  "message_parts ck account room rows i messages =
     bind_res (index_get ck message_id_idx account room i rows) (\<lambda>found.
     bind_res (case Option.bind found mr_remote_id of
         Some remote_id \<Rightarrow> index_values ck remote_id_target_idx account room remote_id rows
       | None \<Rightarrow> Inr []) (\<lambda>by_remote_id.
     bind_res (case Option.bind found mr_server_id of
         Some server_id \<Rightarrow> index_values ck server_id_target_idx account room server_id rows
       | None \<Rightarrow> Inr []) (\<lambda>by_server_id.
     Inr (messages @ map message_like_from (by_remote_id @ by_server_id @ (case found of Some r \<Rightarrow> [r] | None \<Rightarrow> []))))))"

definition messages_get_all :: "clock \<Rightarrow> account_id \<Rightarrow> room_id \<Rightarrow> message_id list \<Rightarrow> message_rows \<Rightarrow>
    store_error + message_like list" where
  "messages_get_all ck account room ids rows =
     bind_res (fold_res (message_parts ck account room rows) ids []) (\<lambda>messages. Inr (sort_by_timestamp messages))"

definition messages_get :: "clock \<Rightarrow> account_id \<Rightarrow> room_id \<Rightarrow> message_id \<Rightarrow> message_rows \<Rightarrow>
    store_error + message_like list" where
  "messages_get ck account room i rows = messages_get_all ck account room [i] rows"

definition targeting :: "clock \<Rightarrow> account_id \<Rightarrow> room_id \<Rightarrow> timestamp \<Rightarrow> message_rows \<Rightarrow> message_target_id \<Rightarrow>
    message_like list \<Rightarrow> store_error + message_like list" where
  "targeting ck account room newer_than rows i messages =
     bind_res (case i of
         RemoteId r \<Rightarrow> index_values ck remote_id_target_idx account room r rows
       | ServerId s \<Rightarrow> index_values ck server_id_target_idx account room s rows) (\<lambda>found.
     Inr (messages @ map message_like_from (filter (\<lambda>m. newer_than < mr_timestamp m) found)))"

definition get_messages_targeting :: "clock \<Rightarrow> account_id \<Rightarrow> room_id \<Rightarrow> message_target_id list \<Rightarrow> timestamp \<Rightarrow>
    message_rows \<Rightarrow> store_error + message_like list" where
  "get_messages_targeting ck account room ids newer_than rows =
     bind_res (fold_res (targeting ck account room newer_than rows) ids []) (\<lambda>messages. Inr (sort_by_timestamp messages))"

definition messages_contains :: "clock \<Rightarrow> account_id \<Rightarrow> room_id \<Rightarrow> string \<Rightarrow> message_rows \<Rightarrow> store_error + bool" where
  "messages_contains ck account room i rows =
     bind_res (open_index (message_entity ck) server_id_idx) (\<lambda>acc.
     coll_contains_key (message_entity ck) acc [account_key account, room_raw_key room, KText i] rows)"

definition messages_append :: "clock \<Rightarrow> account_id \<Rightarrow> room_id \<Rightarrow> message_like list \<Rightarrow> message_rows \<Rightarrow> message_rows" where
  "messages_append ck account room messages rows =
     fold (\<lambda>m. put_entity (message_entity ck) (record_from_message account room m)) messages rows"

definition messages_clear_cache :: "clock \<Rightarrow> account_id \<Rightarrow> message_rows \<Rightarrow> store_error + message_rows" where
  "messages_clear_cache ck account rows =
     delete_all_in_index (message_entity ck) account_idx (Only [account_key account]) rows"

record id_triple =
  tr_id :: message_id
  tr_remote_id :: "string option"
  tr_server_id :: "string option"

definition triple_of :: "message_record \<Rightarrow> id_triple" where
  "triple_of r = \<lparr>tr_id = mr_message_id r, tr_remote_id = mr_remote_id r, tr_server_id = mr_server_id r\<rparr>"

definition resolve_server_id :: "clock \<Rightarrow> account_id \<Rightarrow> room_id \<Rightarrow> string \<Rightarrow> message_rows \<Rightarrow>
    store_error + id_triple option" where
  "resolve_server_id ck account room i rows =
     bind_res (index_get ck server_id_idx account room i rows) (\<lambda>found. Inr (map_option triple_of found))"

definition resolve_remote_id :: "clock \<Rightarrow> account_id \<Rightarrow> room_id \<Rightarrow> string \<Rightarrow> message_rows \<Rightarrow>
    store_error + id_triple option" where
  "resolve_remote_id ck account room i rows =
     bind_res (index_get ck remote_id_idx account room i rows) (\<lambda>found. Inr (map_option triple_of found))"

definition resolve_message_id :: "clock \<Rightarrow> account_id \<Rightarrow> room_id \<Rightarrow> message_id \<Rightarrow> message_rows \<Rightarrow>
    store_error + id_triple option" where
  "resolve_message_id ck account room i rows =
     bind_res (index_get ck message_id_idx account room i rows) (\<lambda>found. Inr (map_option triple_of found))"

definition later_received :: "timestamp \<Rightarrow> archived_message_ref \<times> bool \<Rightarrow> string \<times> message_record \<Rightarrow> archived_message_ref \<times> bool" where
  "later_received before res row =
     (let m = snd row in
      if before \<le> mr_timestamp m \<or> mr_timestamp m < am_timestamp (fst res) then res
      else (case mr_server_id m of
              None \<Rightarrow> res
            | Some s \<Rightarrow> (\<lparr>am_stanza_id = s, am_timestamp = mr_timestamp m\<rparr>, False)))"

definition get_last_received_message :: "clock \<Rightarrow> account_id \<Rightarrow> room_id \<Rightarrow> timestamp option \<Rightarrow> message_rows \<Rightarrow>
    store_error + archived_message_ref option" where
  "get_last_received_message ck account room before rows =
     bind_res (open_index (message_entity ck) room_idx) (\<lambda>acc.
     bind_res (coll_fold (message_entity ck) acc (Only [account_key account, room_raw_key room])
       (\<lparr>am_stanza_id = [], am_timestamp = ck_min ck\<rparr>, True)
       (later_received (case before of Some t \<Rightarrow> t | None \<Rightarrow> ck_max ck)) rows) (\<lambda>(ref, is_placeholder).
     Inr (if is_placeholder then None else Some ref)))"

definition get_messages_after :: "clock \<Rightarrow> account_id \<Rightarrow> room_id \<Rightarrow> timestamp \<Rightarrow> message_rows \<Rightarrow>
    store_error + message_like list" where
  "get_messages_after ck account room after rows =
     bind_res (open_index (message_entity ck) timestamp_idx) (\<lambda>acc.
     coll_get_all_filtered (message_entity ck) acc
       (Range (Included [account_key account, room_raw_key room, datetime_to_raw_key (ck_civil ck after)])
              (Included [account_key account, room_raw_key room, datetime_to_raw_key (ck_civil ck (ck_max ck))]))
       Forward None
       (\<lambda>_ m. if after < mr_timestamp m then Some (message_like_from m) else None) rows)"

section \<open>Drafts\<close>

record drafts_record =
  dr_id :: string
  dr_account :: account_id
  dr_room_id :: room_id
  dr_text :: string

definition drafts_record_new :: "account_id \<Rightarrow> room_id \<Rightarrow> string \<Rightarrow> drafts_record" where
  "drafts_record_new account room text =
     \<lparr>dr_id = show_account account @ ''.'' @ show_room_id room, dr_account = account, dr_room_id = room, dr_text = text\<rparr>"

definition drafts_entity :: "drafts_record entity" where
  "drafts_entity =
     \<lparr>en_id = dr_id, en_collection = ''drafts'',
      en_indexes = [\<lparr>ix_keys = account_idx, ix_unique = False\<rparr>, \<lparr>ix_keys = room_idx, ix_unique = True\<rparr>],
      en_column = (\<lambda>c r.
        if c = ''account'' then Some (account_key (dr_account r))
        else if c = ''room_id'' then Some (room_raw_key (dr_room_id r)) else None)\<rparr>"

definition drafts_get :: "account_id \<Rightarrow> room_id \<Rightarrow> drafts_record rows \<Rightarrow> store_error + string option" where
  "drafts_get account room rows =
     bind_res (open_index drafts_entity room_idx) (\<lambda>acc.
     bind_res (coll_get drafts_entity acc [account_key account, room_raw_key room] rows) (\<lambda>found.
     Inr (Option.bind found (\<lambda>r. if dr_text r \<noteq> [] then Some (dr_text r) else None))))"

definition drafts_set :: "account_id \<Rightarrow> room_id \<Rightarrow> string option \<Rightarrow> drafts_record rows \<Rightarrow> store_error + drafts_record rows" where
  "drafts_set account room draft rows =
     (case draft of
        Some text \<Rightarrow>
          if text \<noteq> [] then Inr (put_entity drafts_entity (drafts_record_new account room text) rows)
          else bind_res (open_index drafts_entity room_idx) (\<lambda>acc.
            coll_delete drafts_entity acc [account_key account, room_raw_key room] rows)
      | None \<Rightarrow> bind_res (open_index drafts_entity room_idx) (\<lambda>acc.
          coll_delete drafts_entity acc [account_key account, room_raw_key room] rows))"

definition drafts_clear_cache :: "account_id \<Rightarrow> drafts_record rows \<Rightarrow> store_error + drafts_record rows" where
  "drafts_clear_cache account rows = delete_all_in_index drafts_entity account_idx (Only [account_key account]) rows"

section \<open>Local room settings\<close>

record local_room_settings =
  lr_last_catchup_time :: "timestamp option"

record local_room_settings_record =
  ls_id :: string
  ls_account :: account_id
  ls_room_id :: room_id
  ls_payload :: local_room_settings

definition local_settings_entity :: "local_room_settings_record entity" where
  "local_settings_entity =
     \<lparr>en_id = ls_id, en_collection = ''room_settings_local'',
      en_indexes = [\<lparr>ix_keys = account_idx, ix_unique = False\<rparr>, \<lparr>ix_keys = room_idx, ix_unique = True\<rparr>],
      en_column = (\<lambda>c r.
        if c = ''account'' then Some (account_key (ls_account r))
        else if c = ''room_id'' then Some (room_raw_key (ls_room_id r)) else None)\<rparr>"

definition local_settings_get :: "account_id \<Rightarrow> room_id \<Rightarrow> local_room_settings_record rows \<Rightarrow>
    store_error + local_room_settings" where
  "local_settings_get account room rows =
     bind_res (open_index local_settings_entity room_idx) (\<lambda>acc.
     bind_res (coll_get local_settings_entity acc [account_key account, room_raw_key room] rows) (\<lambda>found.
     Inr (case found of Some r \<Rightarrow> ls_payload r | None \<Rightarrow> \<lparr>lr_last_catchup_time = None\<rparr>)))"

definition local_settings_update :: "account_id \<Rightarrow> room_id \<Rightarrow> (local_room_settings \<Rightarrow> local_room_settings) \<Rightarrow>
    local_room_settings_record rows \<Rightarrow> store_error + local_room_settings_record rows" where
  "local_settings_update account room block rows =
     bind_res (local_settings_get account room rows) (\<lambda>settings.
     Inr (put_entity local_settings_entity
       \<lparr>ls_id = show_account account @ ''-'' @ room_raw_key_string room, ls_account = account, ls_room_id = room,
        ls_payload = block settings\<rparr> rows))"

definition local_settings_clear_cache :: "account_id \<Rightarrow> local_room_settings_record rows \<Rightarrow>
    store_error + local_room_settings_record rows" where
  "local_settings_clear_cache account rows =
     delete_all_in_index local_settings_entity account_idx (Only [account_key account]) rows"

section \<open>Stored messages\<close>

text \<open>The records that come from messages.\<close>

definition stored_records :: "message_record set" where
  "stored_records = {record_from_message account room m |account room m. True}"

lemma record_stored [simp]: "record_from_message account room m \<in> stored_records"
  unfolding stored_records_def by blast

interpretation messages: keyed_entity "message_entity ck" stored_records for ck
proof
  fix v w and ix :: index_spec
  assume "v \<in> stored_records" "w \<in> stored_records" "ix \<in> set (en_indexes (message_entity ck))" "ix_unique ix"
    "map (\<lambda>c. en_column (message_entity ck) c v) (ix_keys ix) = map (\<lambda>c. en_column (message_entity ck) c w) (ix_keys ix)"
  then show "en_id (message_entity ck) v = en_id (message_entity ck) w"
    by (auto simp: stored_records_def message_entity_def message_column_def message_id_idx_def record_from_message_def
        account_key_def room_raw_key_def)
qed

lemma record_roundtrip [simp]: "message_like_from (record_from_message account room m) = m"
  by (simp add: message_like_from_def record_from_message_def)

lemma record_from_simps [simp]:
  "mr_account (record_from_message account room m) = account" "mr_room_id (record_from_message account room m) = room"
  "mr_message_id (record_from_message account room m) = ml_id m"
  "mr_remote_id (record_from_message account room m) = ml_remote_id m"
  "mr_server_id (record_from_message account room m) = ml_server_id m"
  "mr_timestamp (record_from_message account room m) = ml_timestamp m"
  by (simp_all add: record_from_message_def)

text \<open>Whether a record is in a room, up to the keys of its columns.\<close>

definition in_room :: "account_id \<Rightarrow> room_id \<Rightarrow> message_record \<Rightarrow> bool" where
  "in_room account room r \<longleftrightarrow> account_key (mr_account r) = account_key account \<and>
     room_raw_key (mr_room_id r) = room_raw_key room"

lemma message_entity_id [simp]: "en_id (message_entity ck) = mr_id"
  by (simp add: message_entity_def)

lemma open_message_index [simp]:
  "open_index (message_entity ck) message_id_idx = Inr (ByIndex message_id_idx)"
  "open_index (message_entity ck) server_id_idx = Inr (ByIndex server_id_idx)"
  "open_index (message_entity ck) server_id_target_idx = Inr (ByIndex server_id_target_idx)"
  "open_index (message_entity ck) remote_id_idx = Inr (ByIndex remote_id_idx)"
  "open_index (message_entity ck) remote_id_target_idx = Inr (ByIndex remote_id_target_idx)"
  "open_index (message_entity ck) timestamp_idx = Inr (ByIndex timestamp_idx)"
  "open_index (message_entity ck) room_idx = Inr (ByIndex room_idx)"
  by (simp_all add: open_index_def message_entity_def)

lemma message_values:
  "row_values (message_entity ck) (ByIndex message_id_idx) (k, r) =
     [Some (account_key (mr_account r)), Some (room_raw_key (mr_room_id r)), Some (KText (mr_message_id r))]"
  "row_values (message_entity ck) (ByIndex server_id_idx) (k, r) =
     [Some (account_key (mr_account r)), Some (room_raw_key (mr_room_id r)), map_option KText (mr_server_id r)]"
  "row_values (message_entity ck) (ByIndex remote_id_idx) (k, r) =
     [Some (account_key (mr_account r)), Some (room_raw_key (mr_room_id r)), map_option KText (mr_remote_id r)]"
  "row_values (message_entity ck) (ByIndex server_id_target_idx) (k, r) =
     [Some (account_key (mr_account r)), Some (room_raw_key (mr_room_id r)), map_option KText (mr_server_id_target r)]"
  "row_values (message_entity ck) (ByIndex remote_id_target_idx) (k, r) =
     [Some (account_key (mr_account r)), Some (room_raw_key (mr_room_id r)), map_option KText (mr_remote_id_target r)]"
  "row_values (message_entity ck) (ByIndex timestamp_idx) (k, r) =
     [Some (account_key (mr_account r)), Some (room_raw_key (mr_room_id r)), Some (KText (ck_json ck (mr_timestamp r)))]"
  "row_values (message_entity ck) (ByIndex room_idx) (k, r) =
     [Some (account_key (mr_account r)), Some (room_raw_key (mr_room_id r))]"
  by (simp_all add: message_entity_def message_column_def idx_defs)

lemma row_matches:
  "row_values (message_entity ck) (ByIndex message_id_idx) row =
     [Some (account_key account), Some (room_raw_key room), Some (KText i)] \<longleftrightarrow>
     in_room account room (snd row) \<and> mr_message_id (snd row) = i"
  "row_values (message_entity ck) (ByIndex server_id_idx) row =
     [Some (account_key account), Some (room_raw_key room), Some (KText i)] \<longleftrightarrow>
     in_room account room (snd row) \<and> mr_server_id (snd row) = Some i"
  "row_values (message_entity ck) (ByIndex remote_id_idx) row =
     [Some (account_key account), Some (room_raw_key room), Some (KText i)] \<longleftrightarrow>
     in_room account room (snd row) \<and> mr_remote_id (snd row) = Some i"
  "row_values (message_entity ck) (ByIndex server_id_target_idx) row =
     [Some (account_key account), Some (room_raw_key room), Some (KText i)] \<longleftrightarrow>
     in_room account room (snd row) \<and> mr_server_id_target (snd row) = Some i"
  "row_values (message_entity ck) (ByIndex remote_id_target_idx) row =
     [Some (account_key account), Some (room_raw_key room), Some (KText i)] \<longleftrightarrow>
     in_room account room (snd row) \<and> mr_remote_id_target (snd row) = Some i"
  "row_values (message_entity ck) (ByIndex room_idx) row = [Some (account_key account), Some (room_raw_key room)] \<longleftrightarrow>
     in_room account room (snd row)"
  using message_values [of ck "fst row" "snd row"] by (simp_all add: in_room_def conj_assoc del: row_values.simps)

lemma idx_lengths [simp]:
  "length message_id_idx = 3" "length server_id_idx = 3" "length remote_id_idx = 3"
  "length server_id_target_idx = 3" "length remote_id_target_idx = 3" "length timestamp_idx = 3" "length room_idx = 2"
  by (simp_all add: idx_defs)

lemma index_get_exact:
  "index_get ck message_id_idx account room i rows =
     Inr (map_option snd (find (\<lambda>row. in_room account room (snd row) \<and> mr_message_id (snd row) = i) rows))"
  "index_get ck server_id_idx account room i rows =
     Inr (map_option snd (find (\<lambda>row. in_room account room (snd row) \<and> mr_server_id (snd row) = Some i) rows))"
  "index_get ck remote_id_idx account room i rows =
     Inr (map_option snd (find (\<lambda>row. in_room account room (snd row) \<and> mr_remote_id (snd row) = Some i) rows))"
  by (simp_all add: index_get_def coll_get_def row_matches del: row_values.simps)

lemma index_values_exact:
  "index_values ck remote_id_target_idx account room i rows =
     Inr (map snd (filter (\<lambda>row. in_room account room (snd row) \<and> mr_remote_id_target (snd row) = Some i) rows))"
  "index_values ck server_id_target_idx account room i rows =
     Inr (map snd (filter (\<lambda>row. in_room account room (snd row) \<and> mr_server_id_target (snd row) = Some i) rows))"
  by (simp_all add: index_values_def only_values row_matches del: row_values.simps)

lemma contains_exact:
  "messages_contains ck account room i rows =
     Inr (list_ex (\<lambda>row. in_room account room (snd row) \<and> mr_server_id (snd row) = Some i) rows)"
  by (simp add: messages_contains_def coll_contains_key_def row_matches del: row_values.simps)

text \<open>A message stored in a room is the only one with its id.\<close>

lemma stored_unique:
  assumes "messages.keyed ck rows" "(k, r) \<in> set rows" "(k', r') \<in> set rows"
    "in_room account room r" "in_room account room r'" "mr_message_id r = mr_message_id r'"
  shows "(k, r) = (k', r')"
proof -
  have "k = mr_id r" "k' = mr_id r'" "r \<in> stored_records" "r' \<in> stored_records"
    using assms(1-3) by (auto simp: messages.keyed_def)
  moreover have "mr_id r = mr_id r'"
    using calculation assms(4-6) by (auto simp: stored_records_def record_from_message_def in_room_def account_key_def room_raw_key_def)
  ultimately show ?thesis
    using assms(1-3) by (auto simp: messages.keyed_def dest: eq_key_imp_eq_value)
qed

text \<open>The changes to a message: those that target one of its ids.\<close>

definition changes :: "message_record \<Rightarrow> message_record \<Rightarrow> bool" where
  "changes r r' \<longleftrightarrow> (\<exists>i. target_id (mr_payload r) = Some (RemoteId i) \<and> mr_remote_id r' = Some i \<or>
     target_id (mr_payload r) = Some (ServerId i) \<and> mr_server_id r' = Some i)"

lemma stored_targets:
  "r \<in> stored_records \<Longrightarrow> mr_remote_id_target r = Some i \<longleftrightarrow> target_id (mr_payload r) = Some (RemoteId i)"
  "r \<in> stored_records \<Longrightarrow> mr_server_id_target r = Some i \<longleftrightarrow> target_id (mr_payload r) = Some (ServerId i)"
  by (auto simp: stored_records_def record_from_message_def split: option.splits message_target_id.splits)

lemma comparator_timestamp: "comparator UNIV (\<lambda>a b. cmp_of (ml_timestamp a) (ml_timestamp b))"
  by unfold_locales (auto simp: cmp_of_def split: if_splits)

lemma sort_by_timestamp_exact:
  "set (sort_by_timestamp ms) = set ms" "sorted_wrt (\<lambda>a b. ml_timestamp a \<le> ml_timestamp b) (sort_by_timestamp ms)"
proof -
  show "set (sort_by_timestamp ms) = set ms"
    by (simp add: sort_by_timestamp_def comparator.set_sort_by [OF comparator_timestamp])
  have "sorted_wrt (\<lambda>a b. cmp_of (ml_timestamp a) (ml_timestamp b) \<noteq> Greater) (sort_by_timestamp ms)"
    unfolding sort_by_timestamp_def by (rule comparator.sorted_sort_by [OF comparator_timestamp]) simp
  then show "sorted_wrt (\<lambda>a b. ml_timestamp a \<le> ml_timestamp b) (sort_by_timestamp ms)"
    by (rule sorted_wrt_mono_rel [rotated]) (auto simp: cmp_of_def split: if_splits)
qed

section \<open>Properties\<close>

text \<open>
  C22. All parts of a message are found: reading a stored message gives it and exactly the stored
  corrections, receipts, reactions and retractions of the room that target its remote or server id, in
  chronological order.
\<close>

theorem message_parts_complete:
  assumes "messages.keyed ck rows" "r \<in> snd ` set rows" "in_room account room r"
  shows "\<exists>ms. messages_get ck account room (mr_message_id r) rows = Inr ms \<and>
    sorted_wrt (\<lambda>a b. ml_timestamp a \<le> ml_timestamp b) ms \<and>
    set ms = message_like_from ` ({r} \<union> {r' \<in> snd ` set rows. in_room account room r' \<and> changes r' r})"
proof -
  have stored: "r' \<in> stored_records" if "r' \<in> snd ` set rows" for r'
    using that assms(1) by (auto simp: messages.keyed_def)
  obtain k where k: "(k, r) \<in> set rows" using assms(2) by force
  have "find (\<lambda>row. in_room account room (snd row) \<and> mr_message_id (snd row) = mr_message_id r) rows = Some (k, r)"
  proof (cases "find (\<lambda>row. in_room account room (snd row) \<and> mr_message_id (snd row) = mr_message_id r) rows")
    case None
    then show ?thesis using k assms(3) by (force simp: find_None_iff)
  next
    case (Some row)
    obtain k' r' where row: "row = (k', r')" by force
    have "(k, r) = (k', r')"
      using find_SomeD [OF Some] stored_unique [OF assms(1) k _ assms(3), of k' r'] by (simp add: row)
    with Some row show ?thesis by simp
  qed
  then have found: "index_get ck message_id_idx account room (mr_message_id r) rows = Inr (Some r)"
    by (simp add: index_get_exact)
  let ?by_remote = "case mr_remote_id r of
    Some i \<Rightarrow> map snd (filter (\<lambda>row. in_room account room (snd row) \<and> mr_remote_id_target (snd row) = Some i) rows) | None \<Rightarrow> []"
  let ?by_server = "case mr_server_id r of
    Some i \<Rightarrow> map snd (filter (\<lambda>row. in_room account room (snd row) \<and> mr_server_id_target (snd row) = Some i) rows) | None \<Rightarrow> []"
  have get: "messages_get ck account room (mr_message_id r) rows =
      Inr (sort_by_timestamp (map message_like_from (?by_remote @ ?by_server @ [r])))"
    by (simp add: messages_get_def messages_get_all_def message_parts_def found index_values_exact split: option.split)
  have by_remote: "set ?by_remote = {r' \<in> snd ` set rows. in_room account room r' \<and>
      (\<exists>i. mr_remote_id_target r' = Some i \<and> mr_remote_id r = Some i)}"
    by (cases "mr_remote_id r") (auto simp: image_iff)
  have by_server: "set ?by_server = {r' \<in> snd ` set rows. in_room account room r' \<and>
      (\<exists>i. mr_server_id_target r' = Some i \<and> mr_server_id r = Some i)}"
    by (cases "mr_server_id r") (auto simp: image_iff)
  have target: "changes r' r \<longleftrightarrow> (\<exists>i. mr_remote_id_target r' = Some i \<and> mr_remote_id r = Some i) \<or>
      (\<exists>i. mr_server_id_target r' = Some i \<and> mr_server_id r = Some i)" if "r' \<in> snd ` set rows" for r'
    using stored_targets [OF stored [OF that]] by (auto simp: changes_def)
  have "set ?by_remote \<union> set ?by_server = {r' \<in> snd ` set rows. in_room account room r' \<and> changes r' r}"
    unfolding by_remote by_server using target by (intro set_eqI) (simp, blast)
  note changed = this
  have with_message: "set xs \<union> set ys = S \<Longrightarrow> set (xs @ ys @ [r]) = {r} \<union> S" for xs ys S by auto
  have "set (?by_remote @ ?by_server @ [r]) = {r} \<union> {r' \<in> snd ` set rows. in_room account room r' \<and> changes r' r}"
    by (rule with_message [OF changed])
  then show ?thesis
    unfolding get by (intro exI conjI) (rule refl, rule sort_by_timestamp_exact, simp only: sort_by_timestamp_exact set_map)
qed

text \<open>Appending messages keeps the rows apart, and puts each of them under its id.\<close>

lemma append_keeps_rows: "messages.keyed ck rows \<Longrightarrow> messages.keyed ck (messages_append ck account room ms rows)"
  unfolding messages_append_def
  by (induction ms arbitrary: rows) (simp_all add: messages.keyed_put)

lemma put_message_set:
  "messages.keyed ck rows \<Longrightarrow> set (put_entity (message_entity ck) (record_from_message account room m) rows) =
     {row \<in> set rows. fst row \<noteq> mr_id (record_from_message account room m)} \<union>
     {(mr_id (record_from_message account room m), record_from_message account room m)}"
  by (subst messages.put_filter) auto

subsection \<open>A sample room\<close>

definition sample_account :: account_id where "sample_account = AccountId (UserId (BareJid (Some ''bob'') ''prose.org''))"
definition sample_room :: room_id where "sample_room = RMuc (MucId (BareJid (Some ''org'') ''conf.prose.org''))"

definition sample_like :: "message_id \<Rightarrow> timestamp \<Rightarrow> payload \<Rightarrow> message_like" where
  "sample_like i t p = \<lparr>ml_id = i, ml_remote_id = None, ml_server_id = Some (''s-'' @ i), ml_to = None,
     ml_from = PUser (UserId (BareJid (Some ''alice'') ''prose.org'')), ml_timestamp = t, ml_payload = p\<rparr>"

definition sample_text :: payload where
  "sample_text = PMessage \<lparr>lb_raw = ''hi'', lb_html = ''hi'', lb_mentions = []\<rparr> [] None False None None"

definition sample_record :: "message_id \<Rightarrow> timestamp \<Rightarrow> payload \<Rightarrow> message_record" where
  "sample_record i t p = record_from_message sample_account sample_room (sample_like i t p)"

definition sample_rows :: message_rows where
  "sample_rows = map (\<lambda>r. (mr_id r, r))
     [sample_record ''a'' 1 sample_text, sample_record ''b'' 2 (PReaction (ServerId ''s-a'') [''heart'']),
      sample_record ''c'' 3 sample_text]"

definition sample_clock :: clock where
  "sample_clock = \<lparr>ck_json = (\<lambda>t. ''2024-05-01T10:00:00.'' @ show_int t @ ''Z''),
     ck_civil = (\<lambda>t. \<lparr>dt_year = 2024, dt_month = 5, dt_day = 1, dt_hour = 10, dt_minute = 0, dt_second = 0\<rparr>),
     ck_min = 0, ck_max = 10\<rparr>"

lemmas sample_defs = sample_rows_def sample_record_def sample_like_def sample_text_def record_from_message_def

lemma sample_keyed: "messages.keyed ck sample_rows"
proof -
  have "distinct (map (\<lambda>r. mr_id r) [sample_record ''a'' 1 sample_text,
      sample_record ''b'' 2 (PReaction (ServerId ''s-a'') [''heart'']), sample_record ''c'' 3 sample_text])"
    by (simp add: sample_record_def record_from_message_def sample_like_def)
  then show ?thesis
    by (auto simp: messages.keyed_def sample_rows_def) (simp_all add: sample_record_def)
qed

lemma sample_in_room: "r \<in> snd ` set sample_rows \<Longrightarrow> in_room sample_account sample_room r"
  by (auto simp: in_room_def sample_rows_def sample_record_def)

lemma sample_changes: "changes (sample_record i t p) (sample_record j u q) \<longleftrightarrow> target_id p = Some (ServerId (''s-'' @ j))"
  by (auto simp: changes_def sample_record_def record_from_message_def sample_like_def)

lemma Collect_mem_insert: "{x \<in> insert a A. P x} = (if P a then insert a {x \<in> A. P x} else {x \<in> A. P x})"
  by auto

theorem message_parts_complete_witness:
  "\<exists>ms. messages_get sample_clock sample_account sample_room ''a'' sample_rows = Inr ms \<and>
     set ms = {sample_like ''a'' 1 sample_text, sample_like ''b'' 2 (PReaction (ServerId ''s-a'') [''heart''])}"
proof -
  let ?r = "sample_record ''a'' 1 sample_text"
  have "?r \<in> snd ` set sample_rows" by (simp add: sample_rows_def)
  from message_parts_complete [OF sample_keyed this sample_in_room [OF this]]
  obtain ms where ms: "messages_get sample_clock sample_account sample_room (mr_message_id ?r) sample_rows = Inr ms"
    "set ms = message_like_from ` ({?r} \<union> {r' \<in> snd ` set sample_rows. in_room sample_account sample_room r' \<and> changes r' ?r})"
    by blast
  have "{r' \<in> snd ` set sample_rows. in_room sample_account sample_room r' \<and> changes r' ?r} =
      {r' \<in> snd ` set sample_rows. changes r' ?r}"
    using sample_in_room by blast
  also have "\<dots> = {sample_record ''b'' 2 (PReaction (ServerId ''s-a'') [''heart''])}"
    unfolding sample_rows_def list.map snd_conv list.set image_insert image_empty Collect_mem_insert sample_changes
    by (simp add: sample_text_def)
  finally have "{r' \<in> snd ` set sample_rows. in_room sample_account sample_room r' \<and> changes r' ?r} = \<dots>" .
  with ms show ?thesis by (auto simp: sample_record_def) (simp_all add: sample_like_def)
qed

section \<open>The last message received\<close>

text \<open>The messages of a room the server has archived, before a time.\<close>

definition received_before :: "timestamp \<Rightarrow> message_rows \<Rightarrow> (string \<times> timestamp) set" where
  "received_before before rows =
     {(s, mr_timestamp r) |s r. r \<in> snd ` set rows \<and> mr_server_id r = Some s \<and> mr_timestamp r < before}"

lemma received_before_Nil: "received_before before [] = {}"
  by (simp add: received_before_def)

lemma received_before_Cons:
  "received_before before (row # rows) =
     (case mr_server_id (snd row) of
        Some s \<Rightarrow> if mr_timestamp (snd row) < before then {(s, mr_timestamp (snd row))} else {} | None \<Rightarrow> {}) \<union>
     received_before before rows"
  by (auto simp: received_before_def split: option.split)

lemma received_before_snoc:
  "received_before before (rows @ [row]) = received_before before rows \<union>
     (case mr_server_id (snd row) of
        Some s \<Rightarrow> if mr_timestamp (snd row) < before then {(s, mr_timestamp (snd row))} else {} | None \<Rightarrow> {})"
  by (auto simp: received_before_def split: option.split)

text \<open>A reference is the latest one of the messages received so far.\<close>

definition latest_of :: "(string \<times> timestamp) set \<Rightarrow> timestamp \<Rightarrow> archived_message_ref \<times> bool \<Rightarrow> bool" where
  "latest_of known lo res \<longleftrightarrow>
     (if snd res then am_timestamp (fst res) = lo \<and> known = {}
      else (am_stanza_id (fst res), am_timestamp (fst res)) \<in> known \<and> (\<forall>(s, t) \<in> known. t \<le> am_timestamp (fst res)))"

lemma later_received_step:
  assumes "latest_of (received_before before rows) lo res" "lo \<le> mr_timestamp (snd row)"
  shows "latest_of (received_before before (rows @ [row])) lo (later_received before res row)"
proof (cases "mr_server_id (snd row)")
  case None
  with assms show ?thesis by (simp add: later_received_def received_before_snoc Let_def)
next
  case (Some s)
  with assms show ?thesis
    by (cases "snd res")
      (force simp: latest_of_def later_received_def received_before_snoc Let_def)+
qed

lemma later_received_fold:
  assumes "\<forall>r \<in> snd ` set rows. lo \<le> mr_timestamp r"
  shows "latest_of (received_before before rows) lo
    (fold (\<lambda>row t. later_received before t row) rows (\<lparr>am_stanza_id = [], am_timestamp = lo\<rparr>, True))"
  using assms
proof (induction rows rule: rev_induct)
  case Nil
  show ?case by (simp add: received_before_def latest_of_def)
qed (simp add: later_received_step)

text \<open>
  Catching up starts from the right message: the last message received in a room is a message of
  the room with a server id from before the given time, and none of these is later; if there is none,
  the room has no such message.
\<close>

theorem last_received_exact:
  assumes "\<forall>r \<in> snd ` set rows. ck_min ck \<le> mr_timestamp r \<and> mr_timestamp r < ck_max ck"
  shows "\<exists>found. get_last_received_message ck account room before rows = Inr found \<and>
    (let known = received_before (case before of Some t \<Rightarrow> t | None \<Rightarrow> ck_max ck)
       (filter (\<lambda>row. in_room account room (snd row)) rows)
     in case found of
          None \<Rightarrow> known = {}
        | Some ref \<Rightarrow> (am_stanza_id ref, am_timestamp ref) \<in> known \<and> (\<forall>(s, t) \<in> known. t \<le> am_timestamp ref))"
proof -
  let ?b = "case before of Some t \<Rightarrow> t | None \<Rightarrow> ck_max ck"
  let ?rows = "filter (\<lambda>row. in_room account room (snd row)) rows"
  let ?res = "fold (\<lambda>row t. later_received ?b t row) ?rows (\<lparr>am_stanza_id = [], am_timestamp = ck_min ck\<rparr>, True)"
  have "get_last_received_message ck account room before rows =
      Inr (case ?res of (ref, placeholder) \<Rightarrow> if placeholder then None else Some ref)"
    by (simp add: get_last_received_message_def coll_fold_def query_only fold_rows_fold row_matches split_def
        del: row_values.simps)
  moreover have "\<forall>r \<in> snd ` set ?rows. ck_min ck \<le> mr_timestamp r" using assms by auto
  from later_received_fold [OF this, of ?b] have "latest_of (received_before ?b ?rows) (ck_min ck) ?res" .
  ultimately show ?thesis by (cases ?res) (auto simp: latest_of_def Let_def split: if_splits)
qed

theorem last_received_exact_witness:
  "\<exists>s. get_last_received_message sample_clock sample_account sample_room (Some 3) sample_rows =
     Inr (Some \<lparr>am_stanza_id = s, am_timestamp = 2\<rparr>)"
proof -
  have "\<forall>r \<in> snd ` set sample_rows. ck_min sample_clock \<le> mr_timestamp r \<and> mr_timestamp r < ck_max sample_clock"
    by (auto simp: sample_clock_def sample_rows_def sample_record_def sample_like_def)
  from last_received_exact [OF this, of sample_account sample_room "Some 3"] obtain found where
    found: "get_last_received_message sample_clock sample_account sample_room (Some 3) sample_rows = Inr found"
    "let known = received_before 3 (filter (\<lambda>row. in_room sample_account sample_room (snd row)) sample_rows)
     in case found of
          None \<Rightarrow> known = {}
        | Some ref \<Rightarrow> (am_stanza_id ref, am_timestamp ref) \<in> known \<and> (\<forall>(s, t) \<in> known. t \<le> am_timestamp ref)"
    by (auto simp: Let_def)
  have "received_before 3 (filter (\<lambda>row. in_room sample_account sample_room (snd row)) sample_rows) =
      {(''s-a'', 1), (''s-b'', 2)}"
    by (simp add: received_before_Nil received_before_Cons sample_rows_def sample_record_def sample_like_def in_room_def
        insert_commute)
  with found show ?thesis
    by (auto simp: Let_def split: option.splits) (metis archived_message_ref.surjective old.unit.exhaust)
qed

section \<open>Messages after a time\<close>

lemma after_selected:
  "selected [[(CmpGe, a), (CmpLe, a)], [(CmpGe, b), (CmpLe, b)], [(CmpGe, KText lo), (CmpLe, KText hi)]]
     (row_values (message_entity ck) (ByIndex timestamp_idx) row) \<longleftrightarrow>
     account_key (mr_account (snd row)) = a \<and> room_raw_key (mr_room_id (snd row)) = b \<and>
     lo \<le> ck_json ck (mr_timestamp (snd row)) \<and> ck_json ck (mr_timestamp (snd row)) \<le> hi"
  using message_values(6) [of ck "fst row" "snd row"] by (auto simp del: row_values.simps)

lemma text_between_keys:
  "query_rows (message_entity ck) (ByIndex timestamp_idx)
      (Range (Included [account_key account, room_raw_key room, KText lo])
             (Included [account_key account, room_raw_key room, KText hi])) Forward None rows =
     Inr (in_order (message_entity ck) (ByIndex timestamp_idx) Forward (filter (\<lambda>row. in_room account room (snd row) \<and>
       lo \<le> ck_json ck (mr_timestamp (snd row)) \<and> ck_json ck (mr_timestamp (snd row)) \<le> hi) rows))"
  by (simp add: query_rows_def after_selected in_room_def conj_assoc del: row_values.simps)

lemma comparator_rows: "comparator UNIV (\<lambda>a b. cmp_of (row_values en acc a) (row_values en acc b))"
  by unfold_locales (auto simp: cmp_of_def split: if_splits)

lemma set_in_order: "set (in_order en acc dir rows) = set rows"
  by (simp add: in_order_def comparator.set_sort_by [OF comparator_rows] Let_def split: query_direction.split)

text \<open>
  Messages of the same second are missed: where the time of a message is stored with a fraction
  of a second, the key of an earlier time of the same second, which has no fraction and ends with a Z, is
  above it, so the message is not among those after that time although it is later.
\<close>

theorem messages_after_skip_same_second:
  assumes "datetime_to_raw_key (ck_civil ck after) = KText (s @ ''Z'')"
    "ck_json ck (mr_timestamp r) = s @ ''.'' @ fraction" "(k, r) \<in> set rows" "in_room account room r"
    "after < mr_timestamp r"
  shows "\<exists>ms. get_messages_after ck account room after rows = Inr ms \<and> message_like_from r \<notin> set ms"
proof -
  obtain hi where hi: "datetime_to_raw_key (ck_civil ck (ck_max ck)) = KText hi"
    by (simp add: datetime_to_raw_key_def)
  have key: "\<not> s @ ''Z'' \<le> ck_json ck (mr_timestamp r)"
    unfolding assms(2) by (induction s) (simp_all add: less_char_def)
  show ?thesis
    using key
    by (auto simp: get_messages_after_def assms(1) hi filtered_exact text_between_keys set_in_order
        List.map_filter_def message_like_from_def Let_def split: if_splits)
qed

theorem messages_after_skip_same_second_witness:
  "\<exists>ms. get_messages_after sample_clock sample_account sample_room 2 sample_rows = Inr ms \<and>
     sample_like ''c'' 3 sample_text \<notin> set ms"
proof -
  have key: "datetime_to_raw_key (ck_civil sample_clock 2) = KText (''2024-05-01T10:00:00'' @ ''Z'')"
    by (simp add: datetime_to_raw_key_def sample_clock_def zero_padded_def show_nat.simps char_of_eq_iff)
  have json: "ck_json sample_clock (mr_timestamp (sample_record ''c'' 3 sample_text)) =
      ''2024-05-01T10:00:00'' @ ''.'' @ ''3Z''"
    by (simp add: sample_clock_def sample_record_def sample_like_def show_int_def show_nat.simps char_of_eq_iff)
  have row: "(mr_id (sample_record ''c'' 3 sample_text), sample_record ''c'' 3 sample_text) \<in> set sample_rows"
    by (simp add: sample_rows_def)
  have room: "in_room sample_account sample_room (sample_record ''c'' 3 sample_text)"
    by (rule sample_in_room) (simp add: sample_rows_def)
  have "2 < mr_timestamp (sample_record ''c'' 3 sample_text)"
    by (simp add: sample_record_def sample_like_def)
  from messages_after_skip_same_second [OF key json row room this] show ?thesis
    by (simp add: sample_record_def)
qed

section \<open>Drafts and settings\<close>

lemma get_unique_after_put:
  assumes "ix \<in> set (en_indexes en)" "ix_unique ix" "map (\<lambda>c. en_column en c v) (ix_keys ix) = map Some key"
  shows "coll_get en (ByIndex (ix_keys ix)) key (put_entity en v rows) = Inr (Some v)"
proof -
  let ?P = "\<lambda>row. row_values en (ByIndex (ix_keys ix)) row = map Some key"
  have new: "row_values en (ByIndex (ix_keys ix)) (en_id en v, v) = map Some key"
    using assms(3) by simp
  have "None \<notin> set (map Some key)" by auto
  then have "conflicts en (en_id en v, v) row" if "?P row" for row
    using that new assms(1,2) by (auto simp: conflicts_def list_ex_iff simp del: row_values.simps)
  then have "find ?P (filter (\<lambda>row. \<not> conflicts en (en_id en v, v) row) rows) = None"
    by (auto simp: find_None_iff)
  moreover have "find ?P (xs @ [(en_id en v, v)]) = (case find ?P xs of None \<Rightarrow> Some (en_id en v, v) | found \<Rightarrow> found)" for xs
    using new by (induction xs) auto
  moreover have "length key = length (ix_keys ix)" using arg_cong [OF assms(3), of length] by simp
  ultimately show ?thesis
    by (simp add: coll_get_def put_entity_def coll_put_def del: row_values.simps)
qed

lemma get_other_after_put:
  assumes "map (\<lambda>c. en_column en c v) columns \<noteq> map Some key"
    "\<And>row. row \<in> set rows \<Longrightarrow> row_values en (ByIndex columns) row = map Some key \<Longrightarrow> \<not> conflicts en (en_id en v, v) row"
  shows "coll_get en (ByIndex columns) key (put_entity en v rows) = coll_get en (ByIndex columns) key rows"
proof -
  let ?P = "\<lambda>row. row_values en (ByIndex columns) row = map Some key"
  have "find ?P (filter (\<lambda>row. \<not> conflicts en (en_id en v, v) row) rows @ [(en_id en v, v)]) = find ?P rows"
    using assms by (induction rows) auto
  then show ?thesis by (simp add: coll_get_def put_entity_def coll_put_def del: row_values.simps)
qed

lemma drafts_index:
  "open_index drafts_entity room_idx = Inr (ByIndex room_idx)"
  "map (\<lambda>c. en_column drafts_entity c r) room_idx = [Some (account_key (dr_account r)), Some (room_raw_key (dr_room_id r))]"
  by (simp_all add: open_index_def drafts_entity_def room_idx_def)

lemma raw_key_room: "room_raw_key r = room_raw_key r' \<Longrightarrow> show_room_id r = show_room_id r'"
  by (cases r; cases r') (simp_all add: room_raw_key_def show_room_id_def)

definition drafts_stored :: "drafts_record rows \<Rightarrow> bool" where
  "drafts_stored rows \<longleftrightarrow>
     (\<forall>(k, r) \<in> set rows. k = show_account (dr_account r) @ ''.'' @ show_room_id (dr_room_id r))"

lemma drafts_no_conflict:
  assumes "drafts_stored rows" "row \<in> set rows" "show_room_id other \<noteq> show_room_id room"
    "row_values drafts_entity (ByIndex room_idx) row = map Some [account_key account, room_raw_key other]"
  shows "\<not> conflicts drafts_entity (en_id drafts_entity (drafts_record_new account room text), drafts_record_new account room text) row"
proof -
  obtain k r where row: "row = (k, r)" by force
  have r: "k = show_account (dr_account r) @ ''.'' @ show_room_id (dr_room_id r)"
    using assms(1,2) by (auto simp: drafts_stored_def row)
  have keys: "account_key (dr_account r) = account_key account" "room_raw_key (dr_room_id r) = room_raw_key other"
    using assms(4) by (simp_all add: row drafts_index)
  then have "show_account (dr_account r) = show_account account" "show_room_id (dr_room_id r) = show_room_id other"
    using raw_key_room [of "dr_room_id r" other] by (simp_all add: account_key_def)
  with r assms(3) have "k \<noteq> dr_id (drafts_record_new account room text)" by (simp add: drafts_record_new_def)
  moreover have "room_raw_key other \<noteq> room_raw_key room" using assms(3) raw_key_room by blast
  ultimately show ?thesis
    using keys by (auto simp: conflicts_def row drafts_entity_def room_idx_def account_idx_def drafts_record_new_def)
qed

text \<open>
  Drafts are kept per room: a draft that is set is read back, setting no draft or an empty one
  leaves none, and the drafts of rooms with another JID stay as they are.
\<close>

theorem drafts_roundtrip:
  assumes "drafts_stored rows" "show_room_id other \<noteq> show_room_id room"
  shows "\<exists>rows'. drafts_set account room draft rows = Inr rows' \<and> drafts_stored rows' \<and>
     drafts_get account room rows' = Inr (if draft = Some [] then None else draft) \<and>
     drafts_get account other rows' = drafts_get account other rows"
proof -
  have room: "room_raw_key other \<noteq> room_raw_key room" using assms(2) raw_key_room by blast
  consider (some) t where "draft = Some t" "t \<noteq> []" | (none) "draft = None \<or> draft = Some []"
    by (cases draft) blast+
  then show ?thesis
  proof cases
    case some
    let ?v = "drafts_record_new account room t"
    have "coll_get drafts_entity (ByIndex room_idx) [account_key account, room_raw_key room] (put_entity drafts_entity ?v rows) =
        Inr (Some ?v)"
      using get_unique_after_put [of "\<lparr>ix_keys = room_idx, ix_unique = True\<rparr>" drafts_entity ?v
          "[account_key account, room_raw_key room]" rows] drafts_index(2) [of ?v]
      by (simp add: drafts_record_new_def) (simp add: drafts_entity_def)
    moreover have "coll_get drafts_entity (ByIndex room_idx) [account_key account, room_raw_key other] (put_entity drafts_entity ?v rows) =
        coll_get drafts_entity (ByIndex room_idx) [account_key account, room_raw_key other] rows"
      using room drafts_no_conflict [OF assms(1) _ assms(2)] drafts_index(2) [of ?v]
      by (intro get_other_after_put) (auto simp: drafts_record_new_def)
    moreover have "drafts_stored (put_entity drafts_entity ?v rows)"
      using assms(1) by (auto simp: drafts_stored_def put_entity_def coll_put_def drafts_entity_def drafts_record_new_def)
    ultimately show ?thesis
      using some by (simp add: drafts_set_def drafts_get_def drafts_index drafts_record_new_def)
  next
    case none
    let ?P = "\<lambda>room row. row_values drafts_entity (ByIndex room_idx) row = [Some (account_key account), Some (room_raw_key room)]"
    have "find (?P room) (filter (\<lambda>row. \<not> ?P room row) rows) = None" by (auto simp: find_None_iff simp del: row_values.simps)
    moreover have "find (?P other) (filter (\<lambda>row. \<not> ?P room row) rows) = find (?P other) rows"
      using room by (induction rows) (auto simp del: row_values.simps)
    moreover have "drafts_stored (filter (\<lambda>row. \<not> ?P room row) rows)"
      using assms(1) by (auto simp: drafts_stored_def)
    ultimately show ?thesis
      using none by (auto simp: drafts_set_def drafts_get_def drafts_index coll_delete_def coll_get_def
          simp del: row_values.simps)
  qed
qed

definition sample_draft :: drafts_record where
  "sample_draft = drafts_record_new sample_account sample_room ''hi''"

theorem drafts_roundtrip_witness:
  "\<exists>rows'. drafts_set sample_account (RUser (UserId (BareJid (Some ''alice'') ''prose.org''))) (Some ''hello'')
       [(dr_id sample_draft, sample_draft)] = Inr rows' \<and>
     drafts_get sample_account (RUser (UserId (BareJid (Some ''alice'') ''prose.org''))) rows' = Inr (Some ''hello'')"
proof -
  have "drafts_stored [(dr_id sample_draft, sample_draft)]"
    by (simp add: drafts_stored_def sample_draft_def drafts_record_new_def)
  moreover have "show_room_id sample_room \<noteq> show_room_id (RUser (UserId (BareJid (Some ''alice'') ''prose.org'')))"
    by (simp add: show_room_id_def sample_room_def)
  ultimately show ?thesis
    using drafts_roundtrip [of "[(dr_id sample_draft, sample_draft)]" sample_room
        "RUser (UserId (BareJid (Some ''alice'') ''prose.org''))" sample_account "Some ''hello''"]
    by auto
qed

text \<open>What is appended is known afterwards, under its server id, and read back by it.\<close>

lemma appended_is_known:
  assumes "messages.keyed ck rows" "m \<in> set ms" "distinct (map ml_id ms)" "ml_server_id m = Some s"
  shows "messages_contains ck account room s (messages_append ck account room ms rows) = Inr True"
proof -
  have "record_from_message account room m \<in> snd ` set (messages_append ck account room ms rows)"
    using assms(1-3)
  proof (induction ms rule: rev_induct)
    case (snoc n ms)
    have keyed: "messages.keyed ck (messages_append ck account room ms rows)"
      using snoc.prems(1) by (rule append_keeps_rows)
    have eq: "messages_append ck account room (ms @ [n]) rows =
        put_entity (message_entity ck) (record_from_message account room n) (messages_append ck account room ms rows)"
      by (simp add: messages_append_def)
    show ?case
    proof (cases "m = n")
      case True
      then show ?thesis by (force simp: eq put_message_set [OF keyed])
    next
      case False
      with snoc have "record_from_message account room m \<in> snd ` set (messages_append ck account room ms rows)"
        by auto
      moreover have "ml_id m \<noteq> ml_id n"
        using False snoc.prems(2,3) by (force simp: image_iff)
      then have "mr_id (record_from_message account room m) \<noteq> mr_id (record_from_message account room n)"
        by (simp add: record_from_message_def)
      moreover have "fst row = mr_id (snd row)" if "row \<in> set (messages_append ck account room ms rows)" for row
        using keyed that by (auto simp: messages.keyed_def)
      ultimately show ?thesis
        unfolding eq put_message_set [OF keyed] by (auto simp: image_iff)
    qed
  qed simp
  then show ?thesis
    using assms(4) by (force simp: contains_exact list_ex_iff in_room_def)
qed

end
