(* ===== verification/RoomsDomain.thy ===== *)
theory RoomsDomain
  imports World UserInfo
begin

text \<open>
  The service that creates, joins, reconnects and reconfigures rooms
  (\<^verbatim>\<open>domain/rooms/services/impls/rooms_domain_service.rs\<close> and
  \<^verbatim>\<open>room_utils.rs\<close>).
\<close>

section \<open>Requests\<close>

datatype create_room_type = CreateGroup "user_id list" | CreatePrivateChannel string | CreatePublicChannel string

datatype create_room_behavior = CFollowIfGone | CFailIfGone | CCreateUniqueIfGone | CFollowThenCreateUnique

datatype join_redirect = FollowIfGone | FailIfGone

datatype join_failure = RemoveOnError | RetainOnError

record join_room_behavior =
  jb_on_redirect :: join_redirect
  jb_on_failure :: join_failure

definition user_initiated :: join_room_behavior where
  "user_initiated = \<lparr>jb_on_redirect = FollowIfGone, jb_on_failure = RemoveOnError\<rparr>"

definition system_initiated :: join_room_behavior where
  "system_initiated = \<lparr>jb_on_redirect = FollowIfGone, jb_on_failure = RetainOnError\<rparr>"

datatype room_request =
    Create bare_jid create_room_type create_room_behavior "decryption_context option"
  | Join muc_id "string option" join_room_behavior "decryption_context option"
  | JoinDirectMessage user_id "decryption_context option"

datatype room_status = IsNew room_ref | Exists room_ref

fun status_room :: "room_status \<Rightarrow> room_ref" where
  "status_room (IsNew r) = r"
| "status_room (Exists r) = r"

fun is_new :: "room_status \<Rightarrow> bool" where
  "is_new (IsNew _) = True"
| "is_new (Exists _) = False"

datatype room_info_status = InfoIsNew room_session_info | InfoExists room_session_info

fun info_of :: "room_info_status \<Rightarrow> room_session_info" where
  "info_of (InfoIsNew i) = i"
| "info_of (InfoExists i) = i"

record public_room_info =
  pub_id :: muc_id
  pub_name :: "string option"

section \<open>Services\<close>

text \<open>
  The traits the service calls, and the pure functions of other crates: the Unicode case mappings,
  the validation of JID parts, the JID parser, the display of errors, SHA-1. The capabilities of
  the client are constant and left out of the arguments.
\<close>

record services =
  sv_uppercase :: "string \<Rightarrow> string"
  sv_lowercase :: "string \<Rightarrow> string"
  sv_resource :: "string \<Rightarrow> string option"
  sv_node :: "string \<Rightarrow> string option"
  sv_parse_jid :: "string \<Rightarrow> jid option"
  sv_show_error :: "room_error \<Rightarrow> string"
  sv_sha1 :: "string \<Rightarrow> string"
  sv_new_id :: "world \<Rightarrow> string \<times> world"
  sv_user_info :: "user_id \<Rightarrow> world \<Rightarrow> (string + user_info option) \<times> world"
  sv_availability :: "account_id \<Rightarrow> world \<Rightarrow> (string + availability) \<times> world"
  sv_load_settings :: "room_id \<Rightarrow> world \<Rightarrow> (string + synced_room_settings option) \<times> world"
  sv_join_room :: "occupant_id \<Rightarrow> string option \<Rightarrow> string \<Rightarrow> availability \<Rightarrow> world \<Rightarrow>
    (room_error + room_session_info) \<times> world"
  sv_create_or_join_room :: "occupant_id \<Rightarrow> string \<Rightarrow> string \<Rightarrow> room_spec \<Rightarrow> availability \<Rightarrow> world \<Rightarrow>
    (room_error + room_session_info) \<times> world"
  sv_load_public_rooms :: "bare_jid \<Rightarrow> world \<Rightarrow> (room_error + public_room_info list) \<times> world"
  sv_reconfigure_room :: "muc_id \<Rightarrow> room_spec \<Rightarrow> string \<Rightarrow> world \<Rightarrow> (room_error + unit) \<times> world"
  sv_load_room_config :: "muc_id \<Rightarrow> world \<Rightarrow> (room_error + room_config) \<times> world"
  sv_exit_room :: "occupant_id \<Rightarrow> world \<Rightarrow> (room_error + unit) \<times> world"
  sv_set_room_owners :: "muc_id \<Rightarrow> user_id list \<Rightarrow> world \<Rightarrow> (room_error + unit) \<times> world"
  sv_send_self_ping :: "occupant_id \<Rightarrow> world \<Rightarrow> (request_error + unit) \<times> world"
  sv_destroy_room :: "muc_id \<Rightarrow> muc_id option \<Rightarrow> world \<Rightarrow> (room_error + unit) \<times> world"
  sv_invite_users :: "muc_id \<Rightarrow> user_id list \<Rightarrow> world \<Rightarrow> (room_error + unit) \<times> world"
  sv_grant_membership :: "muc_id \<Rightarrow> user_id \<Rightarrow> world \<Rightarrow> (room_error + unit) \<times> world"
  sv_set_name :: "muc_id \<Rightarrow> string \<Rightarrow> world \<Rightarrow> (string + unit) \<times> world"
  sv_copy_messages :: "room_id \<Rightarrow> room_id \<Rightarrow> world \<Rightarrow> (string + unit) \<times> world"
  sv_catchup_room :: "room_ref \<Rightarrow> decryption_context \<Rightarrow> world \<Rightarrow> (string + bool) \<times> world"
  sv_finalize_decryption :: "decryption_context \<Rightarrow> world \<Rightarrow> unit \<times> world"
  sv_load_bookmarks :: "world \<Rightarrow> (string + bookmark list) \<times> world"
  sv_save_bookmark :: "bookmark \<Rightarrow> world \<Rightarrow> (string + unit) \<times> world"
  sv_delete_bookmark :: "bare_jid \<Rightarrow> world \<Rightarrow> (string + unit) \<times> world"

text \<open>A request: it is logged, then sent and awaited.\<close>

definition request :: "effect \<Rightarrow> (world \<Rightarrow> (room_error + 'a) \<times> world) \<Rightarrow> 'a prog" where
  "request e f = thenM (tell e) (bindM (call f) lift_res)"

definition request_any :: "effect \<Rightarrow> (world \<Rightarrow> (string + 'a) \<times> world) \<Rightarrow> 'a prog" where
  "request_any e f = thenM (tell e) (bindM (call f) lift_any)"

section \<open>Utilities\<close>

definition build_nickname :: "services \<Rightarrow> string option \<Rightarrow> user_id \<Rightarrow> string" where
  "build_nickname sv display_name u =
     (case Option.bind
             (Option.bind display_name (\<lambda>n. if trim n \<noteq> [] then Some (trim n) else None))
             (sv_resource sv) of
        Some res \<Rightarrow> res
      | None \<Rightarrow> formatted_username (sv_uppercase sv) u)"

definition group_name_hash :: "services \<Rightarrow> user_id list \<Rightarrow> string" where
  "group_name_hash sv us =
     ''org.prose.group'' @ ''.'' @ sv_sha1 sv (join_with '','' (sort (map (\<lambda>u. show_bare (user_jid u)) us)))"

text \<open>The name shown for our own account, whose lookup may fail.\<close>

definition own_display_name :: "services \<Rightarrow> account_id \<Rightarrow> string prog" where
  "own_display_name sv account =
     bindM (call (sv_user_info sv (account_user_id account))) (\<lambda>r.
     bindM (lift_any r) (\<lambda>i.
     return (unwrap_or_username (sv_uppercase sv) (user_opt_display_name i) (account_user_id account))))"

text \<open>The info of another user, where a failed lookup counts as no info
  (\<^verbatim>\<open>unwrap_or_default\<close>).\<close>

definition lookup_user :: "services \<Rightarrow> user_id \<Rightarrow> user_info option prog" where
  "lookup_user sv u =
     bindM (call (sv_user_info sv u)) (\<lambda>r. return (case r of Inl _ \<Rightarrow> None | Inr i \<Rightarrow> i))"

fun try_until_nickname_unique :: "nat \<Rightarrow> string \<Rightarrow> (string \<Rightarrow> 'a prog) \<Rightarrow> nat \<Rightarrow> nat \<Rightarrow> 'a prog" where
  "try_until_nickname_unique 0 preferred join_handler max_attempts attempt_no = (\<lambda>w. (NoFuel, w))"
| "try_until_nickname_unique (Suc fuel) preferred join_handler max_attempts attempt_no =
     bindM
       (attempt (join_handler
         (if attempt_no = 0 then preferred else preferred @ ''#'' @ show_nat attempt_no)))
       (\<lambda>r. case r of
          Inr a \<Rightarrow> return a
        | Inl e \<Rightarrow>
            (case e of
               RequestErr error \<Rightarrow>
                 (if defined_condition_of error = Some Conflict then
                    (if max_attempts > 0 \<and> attempt_no + 1 \<ge> max_attempts then throw (RequestErr error)
                     else try_until_nickname_unique fuel preferred join_handler max_attempts (attempt_no + 1))
                  else throw e)
             | _ \<Rightarrow> throw e))"

text \<open>The function returns an \<^verbatim>\<open>anyhow\<close> result, so a room error loses its kind.\<close>

definition is_public_channel_name_unique :: "services \<Rightarrow> string \<Rightarrow> bool prog" where
  "is_public_channel_name_unique sv channel_name =
     bindM (gets (\<lambda>w. muc_service (w_ctx w))) (\<lambda>r.
     bindM (lift_any r) (\<lambda>service.
     bindM (call (sv_load_public_rooms sv service)) (\<lambda>r.
     bindM (lift_any (map_sum (sv_show_error sv) id r)) (\<lambda>rooms.
     return (\<not> (\<exists>room \<in> set rooms. \<exists>n. pub_name room = Some n \<and>
               make_ascii_lowercase n = sv_lowercase sv channel_name))))))"

definition insert_connecting_room :: "muc_id \<Rightarrow> string \<Rightarrow> room_sidebar_state \<Rightarrow> room_status prog" where
  "insert_connecting_room m nick sb =
     (let insert_new =
        bindM (new_room (room_connecting (RMuc m) nick sb)) (\<lambda>r.
        bindM (insert_room r) (\<lambda>inserted.
        if inserted then return (IsNew r) else throw (RoomIsAlreadyConnected (RMuc m))))
      in
        bindM (get_room (muc_jid m)) (\<lambda>found.
        case found of
          None \<Rightarrow> insert_new
        | Some r \<Rightarrow>
            bindM (read_room r) (\<lambda>room.
            if is_pending room \<or> is_disconnected (rd_state (r_details room))
            then thenM (set_state r Connecting) (return (Exists r))
            else insert_new)))"

definition finalize_pending_room :: "services \<Rightarrow> room_info_status \<Rightarrow> room_status prog" where
  "finalize_pending_room sv st =
     (let info = info_of st
      in
        bindM connected_user (\<lambda>current_user.
        bindM (mapM (\<lambda>member.
                 bindM (lookup_user sv (sm_id member)) (\<lambda>i.
                 return \<lparr>rm_user_id = sm_id member, rm_affiliation = sm_affiliation member,
                         rm_name = cnb_build (user_opt_display_name i),
                         rm_is_self = (sm_id member = current_user)\<rparr>)) (si_members info)) (\<lambda>members.
        bindM (gets (\<lambda>w. if is_muc_room_on_connected_server (w_ctx w) (si_room_id info)
                         then (case server_features_of (w_ctx w) of
                                 Inr f \<Rightarrow> sf_server_time_offset f | Inl _ \<Rightarrow> 0)
                         else 0)) (\<lambda>offset.
        bindM (call (sv_load_settings sv (RMuc (si_room_id info)))) (\<lambda>loaded.
        let room_info =
              \<lparr>ri_room_id = RMuc (si_room_id info), ri_user_nickname = si_user_nickname info,
               ri_type = rc_room_type (si_config info),
               ri_features = \<lparr>rf_mam_version = rc_mam_version (si_config info),
                              rf_server_time_offset = offset,
                              rf_self_ping_optimization =
                                rc_supports_self_ping_optimization (si_config info)\<rparr>\<rparr>;
            settings = (case loaded of Inl _ \<Rightarrow> None | Inr s \<Rightarrow> s)
        in
          bindM (update_room (muc_jid (si_room_id info)) (\<lambda>r h.
                   if \<not> is_connecting (h ! r) then (r, h)
                   else room_alloc
                          (by_resolving_with_info (rc_room_name (si_config info))
                             (rc_room_description (si_config info)) (si_topic info) room_info
                             members (si_participants info)
                             (case settings of Some s \<Rightarrow> s | None \<Rightarrow> rd_settings (r_details (h ! r)))
                             (h ! r)) h)) (\<lambda>updated.
          case updated of
            None \<Rightarrow> throw RoomWasModified
          | Some r \<Rightarrow> return (case st of InfoIsNew _ \<Rightarrow> IsNew r | InfoExists _ \<Rightarrow> Exists r)))))))"

section \<open>Joining\<close>

text \<open>
  The closure \<^verbatim>\<open>remove_or_retain_room_on_error\<close>. It captures the id the function was called
  with, not the variable of the same name that follows redirects.
\<close>

definition remove_or_retain_room_on_error :: "services \<Rightarrow> join_room_behavior \<Rightarrow> muc_id \<Rightarrow> room_ref \<Rightarrow> room_error \<Rightarrow> unit prog" where
  "remove_or_retain_room_on_error sv behavior room_id r error =
     (case jb_on_failure behavior of
        RemoveOnError \<Rightarrow> bindM (delete_room (muc_jid room_id)) (\<lambda>_. return ())
      | RetainOnError \<Rightarrow> set_state r (Disconnected (Some (sv_show_error sv error)) True))"

text \<open>The handler of one attempt, with the occupant id of the nickname or a JID error.\<close>

definition join_handler :: "services \<Rightarrow> muc_id \<Rightarrow> string option \<Rightarrow> string \<Rightarrow> availability \<Rightarrow> string \<Rightarrow>
    room_session_info prog" where
  "join_handler sv room_id password display_name av nick =
     (case occupant_id_with_nickname (sv_resource sv) room_id nick of
        None \<Rightarrow> throw (JidErr nick)
      | Some oc \<Rightarrow> request (JoinRoom oc password) (sv_join_room sv oc password display_name av))"

fun join_room_loop :: "nat \<Rightarrow> services \<Rightarrow> muc_id \<Rightarrow> string option \<Rightarrow> room_sidebar_state \<Rightarrow> join_room_behavior \<Rightarrow>
    string \<Rightarrow> string \<Rightarrow> availability \<Rightarrow> muc_id \<Rightarrow> room_info_status prog" where
  "join_room_loop 0 sv original password sb behavior display_name nick av room_id = (\<lambda>w. (NoFuel, w))"
| "join_room_loop (Suc fuel) sv original password sb behavior display_name nick av room_id =
     bindM (insert_connecting_room room_id nick sb) (\<lambda>room.
     bindM (attempt (try_until_nickname_unique 10 nick
              (join_handler sv room_id password display_name av) 10 0)) (\<lambda>result.
     case result of
       Inr info \<Rightarrow> return (if is_new room then InfoIsNew info else InfoExists info)
     | Inl error \<Rightarrow>
         (case gone_err (sv_parse_jid sv) error of
            None \<Rightarrow>
              thenM (remove_or_retain_room_on_error sv behavior original (status_room room) error)
                (throw error)
          | Some new_location \<Rightarrow>
              (case (jb_on_redirect behavior, new_location) of
                 (FollowIfGone, Some location) \<Rightarrow>
                   bindM (delete_room (muc_jid room_id)) (\<lambda>_.
                   join_room_loop fuel sv original password sb behavior display_name nick av location)
               | _ \<Rightarrow>
                   thenM (remove_or_retain_room_on_error sv behavior original (status_room room) error)
                     (throw error)))))"

text \<open>\<open>fuel\<close> bounds the number of redirects followed.\<close>

definition join_room :: "nat \<Rightarrow> services \<Rightarrow> account_id \<Rightarrow> muc_id \<Rightarrow> string option \<Rightarrow> room_sidebar_state \<Rightarrow>
    join_room_behavior \<Rightarrow> room_status prog" where
  "join_room fuel sv account room_id password sb behavior =
     bindM (own_display_name sv account) (\<lambda>display_name.
     bindM (call (sv_availability sv account)) (\<lambda>r.
     bindM (lift_any r) (\<lambda>av.
     bindM (join_room_loop fuel sv room_id password sb behavior display_name
              (build_nickname sv (Some display_name) (account_user_id account)) av room_id) (\<lambda>info.
     finalize_pending_room sv info))))"

definition join_direct_message :: "services \<Rightarrow> user_id \<Rightarrow> room_sidebar_state \<Rightarrow> room_status prog" where
  "join_direct_message sv u sb =
     (let create = (\<lambda>room_is_new existing_room.
        bindM (lookup_user sv u) (\<lambda>i.
        let user_info = (case i of Some x \<Rightarrow> x | None \<Rightarrow> default_user_info);
            contact_name = unwrap_or_username (sv_uppercase sv) (user_display_name user_info) u
        in
          bindM (call (sv_load_settings sv (RUser u))) (\<lambda>loaded.
          bindM (case existing_room of
                   Some r \<Rightarrow> bindM (read_room r) (\<lambda>x. return (Some (rd_settings (r_details x))))
                 | None \<Rightarrow> return None) (\<lambda>existing_settings.
          bindM (gets (\<lambda>w. server_features_of (w_ctx w))) (\<lambda>f.
          bindM (lift_any f) (\<lambda>features.
          bindM (new_room
                   (room_for_direct_message u contact_name
                      \<lparr>pr_availability = ui_availability user_info, pr_avatar = ui_avatar user_info,
                       pr_caps = ui_caps user_info, pr_client = ui_client user_info,
                       pr_nickname = None, pr_priority = 0, pr_status = None\<rparr>
                      sb
                      \<lparr>rf_mam_version = sf_mam_version features,
                       rf_server_time_offset = sf_server_time_offset features,
                       rf_self_ping_optimization = False\<rparr>
                      (case loaded of
                         Inr (Some s) \<Rightarrow> s
                       | _ \<Rightarrow> (case existing_settings of
                                 Some s \<Rightarrow> s | None \<Rightarrow> synced_settings_new (RUser u))))) (\<lambda>r.
          bindM (replace_room r) (\<lambda>_.
          return (if room_is_new then IsNew r else Exists r)))))))))
      in
        bindM (get_room (user_jid u)) (\<lambda>found.
        case found of
          None \<Rightarrow> create True None
        | Some r \<Rightarrow>
            bindM (read_room r) (\<lambda>room.
            if is_pending room \<or> is_disconnected (rd_state (r_details room))
            then create False (Some r)
            else return (Exists r))))"

section \<open>Creating\<close>

definition create_handler :: "services \<Rightarrow> muc_id \<Rightarrow> string \<Rightarrow> string \<Rightarrow> room_spec \<Rightarrow> availability \<Rightarrow> string \<Rightarrow>
    room_session_info prog" where
  "create_handler sv room_id room_name display_name spec av nick =
     (case occupant_id_with_nickname (sv_resource sv) room_id nick of
        None \<Rightarrow> throw (JidErr nick)
      | Some oc \<Rightarrow>
          request (CreateOrJoinRoom oc room_name spec)
            (sv_create_or_join_room sv oc room_name display_name spec av))"

text \<open>
  The loop that tries ids until the room is created or joined. \<open>config\<close> is the additional
  configuration: it changes the session info, then runs. A followed redirect becomes the node of
  the next JID as a whole, as in the code.
\<close>

fun create_loop :: "nat \<Rightarrow> services \<Rightarrow> bare_jid \<Rightarrow> string \<Rightarrow> string \<Rightarrow> room_spec \<Rightarrow> room_sidebar_state \<Rightarrow>
    create_room_behavior \<Rightarrow> availability \<Rightarrow> (muc_id \<Rightarrow> room_session_info \<Rightarrow> room_session_info \<times> unit prog) \<Rightarrow>
    string \<Rightarrow> string \<Rightarrow> nat \<Rightarrow> string \<Rightarrow> room_info_status prog" where
  "create_loop 0 sv service room_id room_name spec sb behavior av config display_name nick attempt_no unique_id =
     (\<lambda>w. (NoFuel, w))"
| "create_loop (Suc fuel) sv service room_id room_name spec sb behavior av config display_name nick attempt_no unique_id =
     (case sv_node sv unique_id of
        None \<Rightarrow> throw (JidErr unique_id)
      | Some n \<Rightarrow>
          let room_jid = MucId (BareJid (Some n) (domain service))
          in
            bindM (insert_connecting_room room_jid nick sb) (\<lambda>room.
            bindM (attempt (try_until_nickname_unique 10 nick
                     (create_handler sv room_jid room_name display_name spec av) 10 0)) (\<lambda>result.
            case result of
              Inl error \<Rightarrow>
                bindM (delete_room (muc_jid room_jid)) (\<lambda>_.
                case gone_err (sv_parse_jid sv) error of
                  None \<Rightarrow> throw error
                | Some new_location \<Rightarrow>
                    let retry = create_loop fuel sv service room_id room_name spec sb behavior av config
                                  display_name nick (attempt_no + 1) (room_id @ ''#'' @ show_nat attempt_no);
                        follow = (\<lambda>location. create_loop fuel sv service room_id room_name spec sb behavior av
                                  config display_name nick attempt_no (show_bare (muc_jid location)))
                    in
                      (case (behavior, new_location) of
                         (CCreateUniqueIfGone, _) \<Rightarrow> retry
                       | (CFollowThenCreateUnique, None) \<Rightarrow> retry
                       | (CFollowIfGone, Some location) \<Rightarrow> follow location
                       | (CFollowThenCreateUnique, Some location) \<Rightarrow> follow location
                       | (CFailIfGone, _) \<Rightarrow> throw error
                       | (CFollowIfGone, None) \<Rightarrow> throw error))
            | Inr info \<Rightarrow>
                (case config room_jid info of
                   (info', action) \<Rightarrow>
                     bindM (attempt action) (\<lambda>configured.
                     case configured of
                       Inr _ \<Rightarrow> return (if is_new room then InfoIsNew info' else InfoExists info')
                     | Inl error \<Rightarrow>
                         bindM (delete_room (muc_jid room_jid)) (\<lambda>_.
                         thenM
                           (if si_room_has_been_created info' then
                              bindM (attempt (request (DestroyRoom room_jid None) (sv_destroy_room sv room_jid None)))
                                (\<lambda>_. return ())
                            else return ())
                           (throw error)))))))"

definition create_or_join_room_with_spec :: "nat \<Rightarrow> services \<Rightarrow> account_id \<Rightarrow> bare_jid \<Rightarrow> string \<Rightarrow> string \<Rightarrow>
    room_spec \<Rightarrow> room_sidebar_state \<Rightarrow> create_room_behavior \<Rightarrow> availability \<Rightarrow>
    (muc_id \<Rightarrow> room_session_info \<Rightarrow> room_session_info \<times> unit prog) \<Rightarrow> room_info_status prog" where
  "create_or_join_room_with_spec fuel sv account service room_id room_name spec sb behavior av config =
     bindM (own_display_name sv account) (\<lambda>display_name.
     create_loop fuel sv service room_id room_name spec sb behavior av config display_name
       (build_nickname sv (Some display_name) (account_user_id account)) 0 room_id)"

text \<open>Adding the invited participants as owners of a group.\<close>

definition add_owner :: "user_id \<Rightarrow> room_session_member list \<Rightarrow> room_session_member list" where
  "add_owner u ms =
     (if \<exists>m \<in> set ms. sm_id m = u then ms else ms @ [\<lparr>sm_id = u, sm_affiliation = Owner\<rparr>])"

definition group_config :: "services \<Rightarrow> user_id list \<Rightarrow> user_id list \<Rightarrow> muc_id \<Rightarrow> room_session_info \<Rightarrow>
    room_session_info \<times> unit prog" where
  "group_config sv participants including_self room_id info =
     (info\<lparr>si_members := fold add_owner participants (si_members info)\<rparr>,
      if si_room_has_been_created info then
        bindM (attempt (request (SetRoomOwners room_id including_self) (sv_set_room_owners sv room_id including_self)))
          (\<lambda>r. case r of
             Inr _ \<Rightarrow> return ()
           | Inl _ \<Rightarrow> throw (Anyhow (''Failed to update user affiliations of created group to type '' @ [CHR 0x27] @ ''owner'' @ [CHR 0x27])))
      else return ())"

definition create_or_join_group :: "nat \<Rightarrow> services \<Rightarrow> account_id \<Rightarrow> bare_jid \<Rightarrow> user_id list \<Rightarrow>
    room_sidebar_state \<Rightarrow> create_room_behavior \<Rightarrow> availability \<Rightarrow> room_info_status prog" where
  "create_or_join_group fuel sv account service participants sb behavior av =
     (if length participants < 2 then throw InvalidNumberOfParticipants
      else
        let including_self = participants @ [account_user_id account]
        in
          bindM (mapM (\<lambda>u. bindM (lookup_user sv u) (\<lambda>i.
                   return (unwrap_or_username (sv_uppercase sv) (user_opt_display_name i) u))) including_self) (\<lambda>names.
          bindM (create_or_join_room_with_spec fuel sv account service (group_name_hash sv including_self)
                   (join_with '', '' (sort names)) SGroup sb behavior av
                   (group_config sv participants including_self)) (\<lambda>info.
          if si_room_has_been_created (info_of info) then
            thenM (request (InviteUsers (si_room_id (info_of info)) participants)
                     (sv_invite_users sv (si_room_id (info_of info)) participants))
              (return info)
          else return info)))"

definition channel_id :: "string \<Rightarrow> string" where
  "channel_id i = ''org.prose.channel'' @ ''.'' @ i"

definition no_config :: "muc_id \<Rightarrow> room_session_info \<Rightarrow> room_session_info \<times> unit prog" where
  "no_config _ info = (info, return ())"

definition create_room :: "nat \<Rightarrow> services \<Rightarrow> account_id \<Rightarrow> bare_jid \<Rightarrow> create_room_type \<Rightarrow> room_sidebar_state \<Rightarrow>
    create_room_behavior \<Rightarrow> room_status prog" where
  "create_room fuel sv account service rq sb behavior =
     bindM (call (sv_availability sv account)) (\<lambda>r.
     bindM (lift_any r) (\<lambda>av.
     bindM
       (case rq of
          CreateGroup participants \<Rightarrow>
            attempt (create_or_join_group fuel sv account service participants sb behavior av)
        | CreatePrivateChannel name \<Rightarrow>
            bindM (call (sv_new_id sv)) (\<lambda>i.
            attempt (create_or_join_room_with_spec fuel sv account service (channel_id i) name
                       SPrivateChannel sb behavior av no_config))
        | CreatePublicChannel name \<Rightarrow>
            bindM (is_public_channel_name_unique sv name) (\<lambda>unique.
            if \<not> unique then throw PublicChannelNameConflict
            else
              bindM (call (sv_new_id sv)) (\<lambda>i.
              attempt (create_or_join_room_with_spec fuel sv account service (channel_id i) name
                         SPublicChannel sb behavior av no_config))))
       (\<lambda>result.
          case result of
            Inr info \<Rightarrow> finalize_pending_room sv info
          | Inl error \<Rightarrow>
              (case error of
                 RoomIsAlreadyConnected room_jid \<Rightarrow>
                   bindM (get_room (into_bare room_jid)) (\<lambda>found.
                   case found of
                     Some r \<Rightarrow> return (Exists r)
                   | None \<Rightarrow> throw (RoomIsAlreadyConnected room_jid))
               | _ \<Rightarrow> throw error))))"

section \<open>The operations of the service\<close>

text \<open>A fresh decryption context is \<open>0\<close>.\<close>

definition create_or_join_room :: "nat \<Rightarrow> services \<Rightarrow> room_request \<Rightarrow> room_sidebar_state \<Rightarrow> room_ref prog" where
  "create_or_join_room fuel sv rq sb =
     bindM connected_account (\<lambda>account.
     bindM
       (case rq of
          Create service room_type behavior context \<Rightarrow>
            bindM (create_room fuel sv account service room_type sb behavior) (\<lambda>r. return (r, context))
        | Join room_id password behavior context \<Rightarrow>
            bindM (join_room fuel sv account room_id password sb behavior) (\<lambda>r. return (r, context))
        | JoinDirectMessage participant context \<Rightarrow>
            bindM (join_direct_message sv participant sb) (\<lambda>r. return (r, context)))
       (\<lambda>(room, context).
          let ctx = (case context of Some c \<Rightarrow> c | None \<Rightarrow> 0)
          in
            thenM (tell (CatchupRoom (status_room room)))
            (bindM (call (sv_catchup_room sv (status_room room) ctx)) (\<lambda>caught_up.
            thenM
              (case caught_up of
                 Inr new_messages_found \<Rightarrow>
                   if \<not> is_new room \<and> new_messages_found
                   then dispatch_room (status_room room) MessagesNeedReload else return ()
               | Inl _ \<Rightarrow> return ())
            (thenM
              (if context = None
               then thenM (tell FinalizeDecryption) (call (sv_finalize_decryption sv ctx))
               else return ())
            (return (status_room room)))))))"

definition reconnect_room :: "nat \<Rightarrow> services \<Rightarrow> muc_id \<Rightarrow> room_ref \<Rightarrow> unit prog" where
  "reconnect_room fuel sv room_id r =
     thenM (set_state r Pending)
     (thenM (dispatch SidebarChanged)
     (bindM (read_room r) (\<lambda>room.
     bindM (create_or_join_room fuel sv
              (Join room_id None \<lparr>jb_on_redirect = FollowIfGone, jb_on_failure = RetainOnError\<rparr> None)
              (rd_sidebar_state (r_details room))) (\<lambda>_.
     return ()))))"

text \<open>What a failed self-ping means for the connection.\<close>

datatype ping_verdict = StillConnected | Unreachable | NotJoined

definition classify_ping :: "request_error \<Rightarrow> ping_verdict" where
  "classify_ping err =
     (case err of
        RDisconnected \<Rightarrow> Unreachable
      | RTimedOut \<Rightarrow> Unreachable
      | RXmpp _ \<Rightarrow>
          (if defined_condition_of err = Some RemoteServerNotFound \<or>
              defined_condition_of err = Some RemoteServerTimeout then Unreachable
           else if defined_condition_of err = Some ServiceUnavailable \<or>
              defined_condition_of err = Some FeatureNotImplemented then StillConnected
           else if defined_condition_of err = Some ItemNotFound then StillConnected
           else NotJoined)
      | _ \<Rightarrow> NotJoined)"

definition reconnect_room_if_needed :: "nat \<Rightarrow> services \<Rightarrow> muc_id \<Rightarrow> unit prog" where
  "reconnect_room_if_needed fuel sv room_id =
     bindM connected_account (\<lambda>account.
     bindM (get_room (muc_jid room_id)) (\<lambda>found.
     case found of
       None \<Rightarrow> throw RoomNotFound
     | Some r \<Rightarrow>
         bindM (read_room r) (\<lambda>room.
         bindM (lift_panic ''The provided JID and user_nickname were invalid''
                  (info_occupant_id (sv_resource sv) (r_info room))) (\<lambda>oc.
         bindM (lift_panic ''A MUC room must have an OccupantId'' oc) (\<lambda>occupant_id.
         case rd_state (r_details room) of
           Pending \<Rightarrow> return ()
         | Connecting \<Rightarrow> return ()
         | Disconnected _ can_retry \<Rightarrow>
             if can_retry then reconnect_room fuel sv room_id r else return ()
         | Connected \<Rightarrow>
             thenM (tell (SelfPing occupant_id))
             (bindM (call (sv_send_self_ping sv occupant_id)) (\<lambda>reply.
             case reply of
               Inr _ \<Rightarrow> return ()
             | Inl err \<Rightarrow>
                 (case classify_ping err of
                    Unreachable \<Rightarrow> set_state r (Disconnected None True)
                  | StillConnected \<Rightarrow> return ()
                  | NotJoined \<Rightarrow> reconnect_room fuel sv room_id r))))))))"

definition rename_room :: "services \<Rightarrow> muc_id \<Rightarrow> string \<Rightarrow> unit prog" where
  "rename_room sv room_id name =
     bindM connected_account (\<lambda>_.
     bindM (get_room (muc_jid room_id)) (\<lambda>found.
     case found of
       None \<Rightarrow> throw RoomNotFound
     | Some r \<Rightarrow>
         bindM (read_room r) (\<lambda>room.
         thenM
           (case ri_type (r_info room) of
              UnknownRoom \<Rightarrow> panic ''Unsupported action''
            | DirectMessage \<Rightarrow> panic ''Unsupported action''
            | Group \<Rightarrow> panic ''Unsupported action''
            | PublicChannel \<Rightarrow>
                bindM (is_public_channel_name_unique sv name) (\<lambda>unique.
                if \<not> unique then throw PublicChannelNameConflict else return ())
            | PrivateChannel \<Rightarrow> return ()
            | Generic \<Rightarrow> return ())
         (thenM (request_any (SetRoomName room_id name) (sv_set_name sv room_id name))
         (thenM (set_name r (Some name))
         (dispatch_room r AttributesChanged))))))"

text \<open>The members whose access moves to the new channel.\<close>

definition member_ids :: "participant_list \<Rightarrow> user_id list" where
  "member_ids pl =
     List.map_filter (\<lambda>(i, p). if p_affiliation p \<ge> Member then p_real_id p else None) (participants_map pl)"

definition ignore_errors :: "'a prog \<Rightarrow> unit prog" where
  "ignore_errors m = bindM (attempt m) (\<lambda>_. return ())"

definition group_to_private_channel :: "nat \<Rightarrow> services \<Rightarrow> account_id \<Rightarrow> muc_id \<Rightarrow> room_ref \<Rightarrow> string \<Rightarrow> room_ref prog" where
  "group_to_private_channel fuel sv account room_id r new_name =
     bindM (delete_room (muc_jid room_id)) (\<lambda>_.
     bindM (read_room r) (\<lambda>room.
     bindM (attempt (create_room fuel sv account (BareJid None (domain (muc_jid room_id)))
                       (CreatePrivateChannel new_name) (rd_sidebar_state (r_details room)) CFailIfGone)) (\<lambda>created.
     case created of
       Inl err \<Rightarrow> thenM (insert_room r) (throw err)
     | Inr status \<Rightarrow>
         let new_ref = status_room status
         in
           bindM (read_room new_ref) (\<lambda>new_room.
           case room_muc_id (ri_room_id (r_info new_room)) of
             None \<Rightarrow> throw (Anyhow ''Expected new room to be a MUC room.'')
           | Some new_id \<Rightarrow>
               bindM (attempt (request_any
                        (CopyMessages (ri_room_id (r_info room)) (ri_room_id (r_info new_room)))
                        (sv_copy_messages sv (ri_room_id (r_info room)) (ri_room_id (r_info new_room))))) (\<lambda>copied.
               case copied of
                 Inl err \<Rightarrow>
                   thenM (insert_room r)
                   (thenM (ignore_errors (request (DestroyRoom new_id None) (sv_destroy_room sv new_id None)))
                   (throw err))
               | Inr _ \<Rightarrow>
                   bindM connected_user (\<lambda>current_user.
                   bindM (read_room r) (\<lambda>room.
                   thenM (for_each (\<lambda>member. if member = current_user then return ()
                            else ignore_errors (request (GrantMembership new_id member)
                                   (sv_grant_membership sv new_id member)))
                          (member_ids (rd_participants (r_details room))))
                   (thenM (ignore_errors (request (DestroyRoom room_id (Some new_id))
                             (sv_destroy_room sv room_id (Some new_id))))
                   (return new_ref)))))))))"

text \<open>Reconfiguring in place: the server first, then the type of the connected room.\<close>

definition change_room_type :: "services \<Rightarrow> muc_id \<Rightarrow> room_spec \<Rightarrow> string \<Rightarrow> room_type \<Rightarrow> room_ref prog" where
  "change_room_type sv room_id spec new_name t =
     thenM (request (ReconfigureRoom room_id spec new_name) (sv_reconfigure_room sv room_id spec new_name))
     (bindM (update_room (muc_jid room_id) (\<lambda>r h. room_alloc (by_changing_type t (h ! r)) h)) (\<lambda>updated.
     case updated of
       None \<Rightarrow> throw (RequestErr (RGeneric ''Room was modified during reconfiguration''))
     | Some r \<Rightarrow> return r))"

definition reconfigure_room_with_spec :: "nat \<Rightarrow> services \<Rightarrow> muc_id \<Rightarrow> room_spec \<Rightarrow> string \<Rightarrow> room_ref prog" where
  "reconfigure_room_with_spec fuel sv room_id spec new_name =
     bindM connected_account (\<lambda>account.
     bindM (get_room (muc_jid room_id)) (\<lambda>found.
     case found of
       None \<Rightarrow> throw RoomNotFound
     | Some r \<Rightarrow>
         bindM (read_room r) (\<lambda>room.
         case (ri_type (r_info room), spec_room_type spec) of
           (Group, PrivateChannel) \<Rightarrow> group_to_private_channel fuel sv account room_id r new_name
         | (PrivateChannel, PublicChannel) \<Rightarrow>
             bindM (is_public_channel_name_unique sv new_name) (\<lambda>unique.
             if \<not> unique then throw PublicChannelNameConflict
             else change_room_type sv room_id spec new_name PublicChannel)
         | (PublicChannel, PrivateChannel) \<Rightarrow> change_room_type sv room_id spec new_name PrivateChannel
         | _ \<Rightarrow> panic ''Cannot convert room'')))"

definition reevaluate_room_spec :: "services \<Rightarrow> muc_id \<Rightarrow> room_ref prog" where
  "reevaluate_room_spec sv room_id =
     bindM connected_account (\<lambda>account.
     bindM (get_room (muc_jid room_id)) (\<lambda>found.
     case found of
       None \<Rightarrow> throw RoomNotFound
     | Some r \<Rightarrow>
         bindM (request (LoadRoomConfig room_id) (sv_load_room_config sv room_id)) (\<lambda>config.
         thenM (set_name r (rc_room_name config))
         (thenM (set_description r (rc_room_description config))
         (bindM (read_room r) (\<lambda>room.
         if ri_type (r_info room) = rc_room_type config then return r
         else
           bindM (update_room (muc_jid room_id)
                    (\<lambda>r h. room_alloc (by_changing_type (rc_room_type config) (h ! r)) h)) (\<lambda>updated.
           case updated of None \<Rightarrow> throw RoomWasModified | Some r' \<Rightarrow> return r')))))))"

section \<open>The services keep the rooms in order\<close>

text \<open>
  What the operations assume of the services: whatever other tasks do while a call is awaited, they
  keep the repository in order, free no room and change no room's info.
\<close>

definition services_keep :: "services \<Rightarrow> bool" where
  "services_keep sv \<longleftrightarrow>
     call_keeps (sv_new_id sv) \<and> (\<forall>u. call_keeps (sv_user_info sv u)) \<and>
     (\<forall>a. call_keeps (sv_availability sv a)) \<and> (\<forall>r. call_keeps (sv_load_settings sv r)) \<and>
     (\<forall>oc p n a. call_keeps (sv_join_room sv oc p n a)) \<and>
     (\<forall>oc rn n sp a. call_keeps (sv_create_or_join_room sv oc rn n sp a)) \<and>
     (\<forall>j. call_keeps (sv_load_public_rooms sv j)) \<and>
     (\<forall>m sp n. call_keeps (sv_reconfigure_room sv m sp n)) \<and>
     (\<forall>m. call_keeps (sv_load_room_config sv m)) \<and> (\<forall>oc. call_keeps (sv_exit_room sv oc)) \<and>
     (\<forall>m us. call_keeps (sv_set_room_owners sv m us)) \<and> (\<forall>oc. call_keeps (sv_send_self_ping sv oc)) \<and>
     (\<forall>m a. call_keeps (sv_destroy_room sv m a)) \<and> (\<forall>m us. call_keeps (sv_invite_users sv m us)) \<and>
     (\<forall>m u. call_keeps (sv_grant_membership sv m u)) \<and> (\<forall>m n. call_keeps (sv_set_name sv m n)) \<and>
     (\<forall>a b. call_keeps (sv_copy_messages sv a b)) \<and> (\<forall>r c. call_keeps (sv_catchup_room sv r c)) \<and>
     (\<forall>c. call_keeps (sv_finalize_decryption sv c)) \<and> call_keeps (sv_load_bookmarks sv) \<and>
     (\<forall>b. call_keeps (sv_save_bookmark sv b)) \<and> (\<forall>j. call_keeps (sv_delete_bookmark sv j))"

lemma services_keepD:
  assumes "services_keep sv"
  shows "call_keeps (sv_new_id sv)" "call_keeps (sv_user_info sv u)"
    "call_keeps (sv_availability sv ac)" "call_keeps (sv_load_settings sv r)"
    "call_keeps (sv_join_room sv oc p n a)" "call_keeps (sv_create_or_join_room sv oc rn n sp a)"
    "call_keeps (sv_load_public_rooms sv j)" "call_keeps (sv_reconfigure_room sv m sp n)"
    "call_keeps (sv_load_room_config sv m)" "call_keeps (sv_exit_room sv oc)"
    "call_keeps (sv_set_room_owners sv m us)" "call_keeps (sv_send_self_ping sv oc)"
    "call_keeps (sv_destroy_room sv m al)" "call_keeps (sv_invite_users sv m us)"
    "call_keeps (sv_grant_membership sv m u)" "call_keeps (sv_set_name sv m n)"
    "call_keeps (sv_copy_messages sv x y)" "call_keeps (sv_catchup_room sv ref c)"
    "call_keeps (sv_finalize_decryption sv c)" "call_keeps (sv_load_bookmarks sv)"
    "call_keeps (sv_save_bookmark sv b)" "call_keeps (sv_delete_bookmark sv j)"
  using assms unfolding services_keep_def by simp_all

lemma keeps_bind0: "keeps R m (\<lambda>_. {}) \<Longrightarrow> (\<And>a. keeps R (f a) Q) \<Longrightarrow> keeps R (bindM m f) Q"
  by (rule keeps_bind [where Q = "\<lambda>_. {}"]) simp_all

lemma keeps_bind_ref:
  "keeps R m (\<lambda>r. {r}) \<Longrightarrow> (\<And>r. keeps (insert r R) (f r) Q) \<Longrightarrow> keeps R (bindM m f) Q"
  by (rule keeps_bind [where Q = "\<lambda>r. {r}"]) simp_all

lemma keeps_bind_found:
  "keeps R m set_option \<Longrightarrow> keeps R (f None) Q \<Longrightarrow> (\<And>r. keeps (insert r R) (f (Some r)) Q) \<Longrightarrow>
     keeps R (bindM m f) Q"
proof (rule keeps_bind [where Q = set_option])
  fix a
  assume "keeps R (f None) Q" "\<And>r. keeps (insert r R) (f (Some r)) Q"
  then show "keeps (R \<union> set_option a) (f a) Q" by (cases a) simp_all
qed

lemma keeps_bind_attempt:
  assumes "keeps R m Q'" "\<And>e. keeps R (f (Inl e)) Q" "\<And>a. keeps (R \<union> Q' a) (f (Inr a)) Q"
  shows "keeps R (bindM (attempt m) f) Q"
proof (rule keeps_bind [OF keeps_attempt [OF assms(1)]])
  fix x
  show "keeps (R \<union> case_sum (\<lambda>_. {}) Q' x) (f x) Q" using assms(2,3) by (cases x) simp_all
qed

lemma keeps_gets0: "keeps R (gets f) (\<lambda>_. {})"
  by (rule keeps_gets) simp

lemma keeps_lift_any0: "keeps R (lift_any x) (\<lambda>_. {})"
  by (rule keeps_lift_any) simp

lemma keeps_lift_res0: "keeps R (lift_res x) (\<lambda>_. {})"
  by (rule keeps_lift_res) simp

lemma keeps_lift_panic0: "keeps R (lift_panic msg x) (\<lambda>_. {})"
  by (rule keeps_lift_panic) simp

lemma keeps_return0: "keeps R (return a) (\<lambda>_. {})"
  by (rule keeps_return) simp

lemma keeps_no_fuel: "keeps R (\<lambda>w. (NoFuel, w)) Q"
  by (simp add: keeps_def)

lemma keeps_request: "call_keeps f \<Longrightarrow> keeps R (request e f) (\<lambda>_. {})"
  unfolding request_def by (intro keeps_then keeps_tell keeps_bind0 keeps_call keeps_lift_res0)

lemma keeps_request_any: "call_keeps f \<Longrightarrow> keeps R (request_any e f) (\<lambda>_. {})"
  unfolding request_any_def by (intro keeps_then keeps_tell keeps_bind0 keeps_call keeps_lift_any0)

lemma keeps_ignore_errors: "keeps R m (\<lambda>_. {}) \<Longrightarrow> keeps R (ignore_errors m) (\<lambda>_. {})"
  unfolding ignore_errors_def by (erule keeps_bind_attempt) (simp_all add: keeps_return0)

lemmas keeps_simple = keeps_then keeps_tell keeps_call keeps_lift_any0 keeps_lift_res0 keeps_lift_panic0
  keeps_gets0 keeps_return0 keeps_throw keeps_panic keeps_read_room keeps_setters keeps_dispatch
  keeps_dispatch_room keeps_connected_account keeps_connected_user keeps_request keeps_request_any
  keeps_no_fuel services_keepD

lemma keeps_own_display_name: "services_keep sv \<Longrightarrow> keeps R (own_display_name sv a) (\<lambda>_. {})"
  unfolding own_display_name_def by (intro keeps_bind0 keeps_simple)

lemma keeps_lookup_user: "services_keep sv \<Longrightarrow> keeps R (lookup_user sv u) (\<lambda>_. {})"
  unfolding lookup_user_def by (intro keeps_bind0 keeps_simple)

lemma keeps_is_unique: "services_keep sv \<Longrightarrow> keeps R (is_public_channel_name_unique sv n) (\<lambda>_. {})"
  unfolding is_public_channel_name_unique_def by (intro keeps_bind0 keeps_simple)

lemma keeps_try_until:
  assumes "\<And>n. keeps R (h n) (\<lambda>_. {})"
  shows "keeps R (try_until_nickname_unique fuel p h mx k) (\<lambda>_. {})"
proof (induction fuel arbitrary: k)
  case (Suc fuel)
  show ?case
    unfolding try_until_nickname_unique.simps
    by (rule keeps_bind_attempt [OF assms])
      (simp_all add: Suc keeps_throw keeps_return0 split: room_error.split)
qed (simp add: keeps_no_fuel)

lemma keeps_insert_connecting: "keeps R (insert_connecting_room m n sb) (\<lambda>st. {status_room st})"
proof -
  have new: "keeps R' (bindM (new_room (room_connecting (RMuc m) n sb)) (\<lambda>r.
      bindM (insert_room r) (\<lambda>inserted.
      if inserted then return (IsNew r) else throw (RoomIsAlreadyConnected (RMuc m)))))
      (\<lambda>st. {status_room st})" for R'
    by (intro keeps_bind_ref keeps_new_room keeps_bind0 keeps_insert_room)
      (auto intro: keeps_return keeps_throw)
  show ?thesis
    unfolding insert_connecting_room_def Let_def
    by (rule keeps_bind_found [OF keeps_get_room])
      (auto intro!: keeps_bind0 keeps_simple new keeps_return)
qed

lemma keeps_finalize: "services_keep sv \<Longrightarrow> keeps R (finalize_pending_room sv st) (\<lambda>st. {status_room st})"
  unfolding finalize_pending_room_def Let_def
  by (intro keeps_bind0 keeps_bind_found keeps_simple keeps_mapM keeps_lookup_user keeps_update_room)
    (auto simp: room_key_def room_alloc_def by_resolving_with_info_def intro: keeps_return keeps_throw
      split: room_info_status.split)

lemma keeps_remove_or_retain: "keeps R (remove_or_retain_room_on_error sv b m r e) (\<lambda>_. {})"
  unfolding remove_or_retain_room_on_error_def
  by (cases "jb_on_failure b")
    (auto intro: keeps_bind_found keeps_delete_room keeps_return0 keeps_setters)

lemma keeps_join_handler: "services_keep sv \<Longrightarrow> keeps R (join_handler sv m p d av n) (\<lambda>_. {})"
  unfolding join_handler_def by (auto intro: keeps_simple split: option.split)

lemma keeps_create_handler: "services_keep sv \<Longrightarrow> keeps R (create_handler sv m rn d sp av n) (\<lambda>_. {})"
  unfolding create_handler_def by (auto intro: keeps_simple split: option.split)

lemma keeps_delete_then: "(\<And>x. keeps R (f x) Q) \<Longrightarrow> keeps R (bindM (delete_room j) f) Q"
  by (rule keeps_bind0 [OF keeps_no_result [OF keeps_delete_room]])

lemma keeps_join_loop:
  assumes "services_keep sv"
  shows "keeps R (join_room_loop fuel sv orig p sb b d n av m) (\<lambda>_. {})"
proof (induction fuel arbitrary: m)
  case (Suc fuel)
  show ?case
    unfolding join_room_loop.simps
    by (rule keeps_bind0 [OF keeps_no_result [OF keeps_insert_connecting]],
        rule keeps_bind_attempt [OF keeps_try_until [OF keeps_join_handler [OF assms]]])
      (auto split: option.split join_redirect.split
        intro: Suc keeps_then keeps_throw keeps_return0 keeps_remove_or_retain keeps_delete_then)
qed (simp add: keeps_no_fuel)

lemma keeps_join_room:
  "services_keep sv \<Longrightarrow> keeps R (join_room fuel sv a m p sb b) (\<lambda>st. {status_room st})"
  unfolding join_room_def
  by (intro keeps_bind0 keeps_own_display_name keeps_simple keeps_join_loop keeps_finalize)

lemma keeps_join_direct_message:
  assumes "services_keep sv"
  shows "keeps R (join_direct_message sv u sb) (\<lambda>st. {status_room st})"
proof -
  have opt: "keeps R' (case ex of Some r \<Rightarrow> bindM (read_room r) (\<lambda>x. return (Some (rd_settings (r_details x))))
      | None \<Rightarrow> return None) (\<lambda>_. {})" for R' ex
    by (cases ex) (auto intro: keeps_bind0 keeps_simple)
  show ?thesis
    unfolding join_direct_message_def Let_def
    by (rule keeps_bind_found [OF keeps_get_room])
      (auto intro!: keeps_bind0 keeps_bind_ref keeps_new_room keeps_replace_room keeps_no_result [OF keeps_replace_room]
        keeps_simple keeps_lookup_user keeps_return opt assms)
qed

lemma keeps_create_loop:
  assumes "services_keep sv" and config: "\<And>R m i. keeps R (snd (config m i)) (\<lambda>_. {})"
  shows "keeps R (create_loop fuel sv service rid rn sp sb b av config d n k u) (\<lambda>_. {})"
proof (induction fuel arbitrary: k u b)
  case (Suc fuel)
  have "keeps R (case config m info of (info', action) \<Rightarrow>
      bindM (attempt action) (\<lambda>configured.
        case configured of
          Inr _ \<Rightarrow> return (if x then InfoIsNew info' else InfoExists info')
        | Inl error \<Rightarrow>
            bindM (delete_room j) (\<lambda>_.
              thenM (if si_room_has_been_created info' then
                  bindM (attempt (request (DestroyRoom m None) (sv_destroy_room sv m None))) (\<lambda>_. return ())
                else return ()) (throw error)))) (\<lambda>_. {})" for m info x R j
  proof (cases "config m info")
    case (Pair info' action)
    then have "keeps R action (\<lambda>_. {})" using config [of R m info] by simp
    then show ?thesis
      unfolding Pair prod.case
      by (rule keeps_bind_attempt)
        (auto intro!: keeps_delete_then keeps_bind_attempt keeps_simple keeps_request assms)
  qed
  then show ?case
    unfolding create_loop.simps Let_def
    by (cases "sv_node sv u")
      (auto intro!: keeps_throw keeps_bind0 [OF keeps_no_result [OF keeps_insert_connecting]]
        keeps_bind_attempt [OF keeps_try_until [OF keeps_create_handler [OF assms(1)]]]
        keeps_delete_then Suc split: option.split create_room_behavior.split)
qed (simp add: keeps_no_fuel)

lemma keeps_create_with_spec:
  "services_keep sv \<Longrightarrow> (\<And>R m i. keeps R (snd (config m i)) (\<lambda>_. {})) \<Longrightarrow>
     keeps R (create_or_join_room_with_spec fuel sv a service rid rn sp sb b av config) (\<lambda>_. {})"
  unfolding create_or_join_room_with_spec_def
  by (intro keeps_bind0 keeps_own_display_name keeps_create_loop) auto

lemma keeps_group_config: "services_keep sv \<Longrightarrow> keeps R (snd (group_config sv ps us m i)) (\<lambda>_. {})"
  unfolding group_config_def
  by (auto intro!: keeps_bind_attempt keeps_request keeps_simple)

lemma keeps_create_or_join_group:
  assumes "services_keep sv"
  shows "keeps R (create_or_join_group fuel sv a service ps sb b av) (\<lambda>_. {})"
  unfolding create_or_join_group_def Let_def
  by (auto intro!: keeps_throw keeps_bind0 keeps_mapM keeps_lookup_user keeps_create_with_spec
      keeps_group_config keeps_simple assms)

lemma keeps_no_config: "keeps R (snd (no_config m i)) (\<lambda>_. {})"
  by (simp add: no_config_def keeps_return0)

lemma keeps_attempt0: "keeps R m (\<lambda>_. {}) \<Longrightarrow> keeps R (attempt m) (\<lambda>_. {})"
  by (rule keeps_no_result [OF keeps_attempt])

lemma keeps_create_room:
  assumes "services_keep sv"
  shows "keeps R (create_room fuel sv a service rq sb b) (\<lambda>st. {status_room st})"
proof -
  have "keeps R' (case rq of
          CreateGroup participants \<Rightarrow>
            attempt (create_or_join_group fuel sv a service participants sb b av)
        | CreatePrivateChannel name \<Rightarrow>
            bindM (call (sv_new_id sv)) (\<lambda>i.
            attempt (create_or_join_room_with_spec fuel sv a service (channel_id i) name
                       SPrivateChannel sb b av no_config))
        | CreatePublicChannel name \<Rightarrow>
            bindM (is_public_channel_name_unique sv name) (\<lambda>unique.
            if \<not> unique then throw PublicChannelNameConflict
            else
              bindM (call (sv_new_id sv)) (\<lambda>i.
              attempt (create_or_join_room_with_spec fuel sv a service (channel_id i) name
                         SPublicChannel sb b av no_config)))) (\<lambda>_. {})" for R' av
    by (cases rq) (auto intro!: keeps_attempt0 keeps_bind0 keeps_create_or_join_group keeps_create_with_spec
        keeps_no_config keeps_is_unique keeps_simple assms)
  then show ?thesis
    unfolding create_room_def
    by (intro keeps_bind0 keeps_simple assms)
      (auto intro!: keeps_finalize keeps_bind_found keeps_get_room keeps_throw keeps_return assms
        split: sum.split room_error.split)
qed

lemma keeps_create_or_join_room:
  assumes "services_keep sv"
  shows "keeps R (create_or_join_room fuel sv rq sb) (\<lambda>r. {r})"
proof -
  have "keeps R' (case rq of
          Create service room_type behavior context \<Rightarrow>
            bindM (create_room fuel sv account service room_type sb behavior) (\<lambda>r. return (r, context))
        | Join room_id password behavior context \<Rightarrow>
            bindM (join_room fuel sv account room_id password sb behavior) (\<lambda>r. return (r, context))
        | JoinDirectMessage participant context \<Rightarrow>
            bindM (join_direct_message sv participant sb) (\<lambda>r. return (r, context)))
      (\<lambda>x. {status_room (fst x)})" for R' account
    by (cases rq)
      (auto intro!: keeps_bind [OF keeps_create_room] keeps_bind [OF keeps_join_room]
        keeps_bind [OF keeps_join_direct_message] keeps_return assms)
  then show ?thesis
    unfolding create_or_join_room_def Let_def
    by (intro keeps_bind0 keeps_simple keeps_bind [where Q = "\<lambda>x. {status_room (fst x)}"])
      (auto intro!: keeps_then keeps_bind0 keeps_simple keeps_return assms split: sum.split)
qed

lemma keeps_reconnect_room: "services_keep sv \<Longrightarrow> keeps R (reconnect_room fuel sv m r) (\<lambda>_. {})"
  unfolding reconnect_room_def
  by (intro keeps_then keeps_bind0 keeps_simple keeps_no_result [OF keeps_create_or_join_room])

lemma keeps_reconnect_if_needed:
  "services_keep sv \<Longrightarrow> keeps R (reconnect_room_if_needed fuel sv m) (\<lambda>_. {})"
  unfolding reconnect_room_if_needed_def
  by (intro keeps_bind0 keeps_bind_found keeps_get_room keeps_simple)
    (auto intro!: keeps_bind0 keeps_simple keeps_reconnect_room split: room_state.split sum.split ping_verdict.split)

lemma keeps_rename_room: "services_keep sv \<Longrightarrow> keeps R (rename_room sv m n) (\<lambda>_. {})"
  unfolding rename_room_def
  by (intro keeps_bind0 keeps_bind_found keeps_get_room keeps_simple)
    (auto intro!: keeps_bind0 keeps_simple keeps_is_unique split: room_type.split)

lemma keeps_change_type_block:
  "keeps R (update_room j (\<lambda>r h. room_alloc (by_changing_type t (h ! r)) h)) set_option"
  by (rule keeps_update_room) (auto simp: room_alloc_def by_changing_type_def room_key_def)

lemma keeps_change_room_type:
  "services_keep sv \<Longrightarrow> keeps R (change_room_type sv m sp n t) (\<lambda>r. {r})"
  unfolding change_room_type_def
  by (intro keeps_then keeps_request keeps_bind_found keeps_change_type_block)
    (auto intro: keeps_throw keeps_return services_keepD)

lemma keeps_group_to_private:
  assumes "services_keep sv" "r \<in> R"
  shows "keeps R (group_to_private_channel fuel sv a m r n) (\<lambda>r. {r})"
  unfolding group_to_private_channel_def Let_def
  by (rule keeps_delete_then, rule keeps_bind0 [OF keeps_read_room],
      rule keeps_bind_attempt [OF keeps_create_room [OF assms(1)]])
    (auto intro!: keeps_then keeps_no_result [OF keeps_insert_room] keeps_bind0 [OF keeps_read_room]
      keeps_bind0 [OF keeps_connected_user] keeps_bind_attempt [OF keeps_request_any]
      keeps_request keeps_throw keeps_ignore_errors keeps_for_each keeps_return services_keepD
      assms split: option.split)

lemma keeps_reconfigure:
  assumes "services_keep sv"
  shows "keeps R (reconfigure_room_with_spec fuel sv m sp n) (\<lambda>r. {r})"
  unfolding reconfigure_room_with_spec_def
  by (intro keeps_bind0 keeps_bind_found keeps_get_room keeps_simple)
    (auto intro!: keeps_bind0 keeps_simple keeps_is_unique keeps_group_to_private
      keeps_change_room_type assms split: room_type.split)

lemma keeps_reevaluate:
  assumes "services_keep sv"
  shows "keeps R (reevaluate_room_spec sv m) (\<lambda>r. {r})"
  unfolding reevaluate_room_spec_def
  by (rule keeps_bind0 [OF keeps_connected_account], rule keeps_bind_found [OF keeps_get_room])
    (auto intro!: keeps_bind0 [OF keeps_request [OF services_keepD(9) [OF assms]]]
      keeps_bind0 [OF keeps_read_room] keeps_bind_found [OF keeps_change_type_block]
      keeps_then keeps_setters keeps_throw keeps_return)

section \<open>Properties\<close>

text \<open>
  C15. Every operation of the service keeps the repository in order, on every path and whatever
  other tasks do meanwhile, as long as they do too: afterwards there is at most one room per JID,
  each stored under its own JID, every room that existed still exists with the same info, and a
  room that is returned exists.
\<close>

theorem rooms_service_keeps_repository:
  assumes "services_keep sv" "world_ok w"
  shows "world_ok (snd (create_or_join_room fuel sv rq sb w)) \<and>
    extends w (snd (create_or_join_room fuel sv rq sb w)) \<and>
    (\<forall>r. fst (create_or_join_room fuel sv rq sb w) = Ok r \<longrightarrow> valid r (snd (create_or_join_room fuel sv rq sb w))) \<and>
    world_ok (snd (reconnect_room_if_needed fuel sv m w)) \<and>
    world_ok (snd (rename_room sv m n w)) \<and>
    world_ok (snd (reconfigure_room_with_spec fuel sv m sp n w)) \<and>
    extends w (snd (reconfigure_room_with_spec fuel sv m sp n w)) \<and>
    (\<forall>r. fst (reconfigure_room_with_spec fuel sv m sp n w) = Ok r \<longrightarrow>
      valid r (snd (reconfigure_room_with_spec fuel sv m sp n w))) \<and>
    world_ok (snd (reevaluate_room_spec sv m w))"
proof -
  have none: "\<forall>r \<in> {}. valid r w" by simp
  note k = keepsD [OF keeps_create_or_join_room [OF assms(1)] assms(2) none]
    keepsD [OF keeps_reconfigure [OF assms(1)] assms(2) none]
    keepsD [OF keeps_reconnect_if_needed [OF assms(1)] assms(2) none]
    keepsD [OF keeps_rename_room [OF assms(1)] assms(2) none]
    keepsD [OF keeps_reevaluate [OF assms(1)] assms(2) none]
  show ?thesis by (intro conjI allI impI) (use k in \<open>auto dest!: k(3) k(6)\<close>)
qed

subsection \<open>Connecting rooms\<close>

lemma insert_new_connecting:
  assumes "repo_get (w_rooms w) (muc_jid m) = None"
  shows "\<exists>w'. insert_connecting_room m n sb w = (Ok (IsNew (length (w_heap w))), w') \<and>
    w_heap w' = w_heap w @ [room_connecting (RMuc m) n sb] \<and>
    repo_get (w_rooms w') = (repo_get (w_rooms w))(muc_jid m \<mapsto> length (w_heap w)) \<and>
    w_log w' = w_log w \<and> w_ctx w' = w_ctx w"
proof -
  let ?h = "w_heap w @ [room_connecting (RMuc m) n sb]"
  have key: "room_key ?h (length (w_heap w)) = muc_jid m"
    by (simp add: room_key_def room_connecting_def)
  then have "repo_set ?h (length (w_heap w)) (w_rooms w) \<noteq> None"
    using assms repo.set_None [of ?h "length (w_heap w)" "w_rooms w"] by simp
  then obtain m' where m': "repo_set ?h (length (w_heap w)) (w_rooms w) = Some m'" by blast
  with repo.set_Some [OF m'] key assms show ?thesis
    by (simp add: insert_connecting_room_def Let_def prog_defs get_room_def new_room_def room_alloc_def
        insert_room_def)
qed

text \<open>
  C16. There is one attempt to connect a room at a time. Without a room for the JID a new one is
  stored, connecting; a room that is pending or was disconnected is reused and switched to
  connecting, no other room changes; a room that is connecting or connected makes the attempt fail
  with \<^verbatim>\<open>RoomIsAlreadyConnected\<close>, and neither the repository nor any existing room changes.
\<close>

theorem connecting_room_exclusive:
  assumes "world_ok w"
  shows "case repo_get (w_rooms w) (muc_jid m) of
      None \<Rightarrow>
        (\<exists>w'. insert_connecting_room m n sb w = (Ok (IsNew (length (w_heap w))), w') \<and>
           repo_get (w_rooms w') = (repo_get (w_rooms w))(muc_jid m \<mapsto> length (w_heap w)) \<and>
           rd_state (r_details (w_heap w' ! length (w_heap w))) = Connecting)
    | Some r \<Rightarrow>
        (if rd_state (r_details (w_heap w ! r)) = Pending \<or> is_disconnected (rd_state (r_details (w_heap w ! r)))
         then insert_connecting_room m n sb w =
           (Ok (Exists r), w\<lparr>w_heap := write_details r (\<lambda>d. d\<lparr>rd_state := Connecting\<rparr>) (w_heap w)\<rparr>)
         else (\<exists>x. insert_connecting_room m n sb w =
           (Err (RoomIsAlreadyConnected (RMuc m)), w\<lparr>w_heap := w_heap w @ [x]\<rparr>)))"
proof (cases "repo_get (w_rooms w) (muc_jid m)")
  case None
  from insert_new_connecting [OF this, of n sb] None show ?thesis
    by (auto simp: room_connecting_def)
next
  case (Some r)
  let ?h = "w_heap w @ [room_connecting (RMuc m) n sb]"
  have "room_key ?h (length (w_heap w)) = muc_jid m"
    by (simp add: room_key_def room_connecting_def)
  then have "repo_set ?h (length (w_heap w)) (w_rooms w) = None"
    using Some repo.set_None [of ?h "length (w_heap w)" "w_rooms w"] by simp
  with Some show ?thesis
    by (auto simp: insert_connecting_room_def Let_def prog_defs get_room_def read_room_def set_state_def
        write_room_def new_room_def room_alloc_def insert_room_def is_pending_def)
qed

subsection \<open>Nicknames\<close>

definition nickname_at :: "string \<Rightarrow> nat \<Rightarrow> string" where
  "nickname_at p k = (if k = 0 then p else p @ ''#'' @ show_nat k)"

lemma nickname_at_inj: "nickname_at p i = nickname_at p j \<longleftrightarrow> i = j"
  by (auto simp: nickname_at_def show_nat_inj)

definition is_conflict :: "room_error \<Rightarrow> bool" where
  "is_conflict e \<longleftrightarrow> (\<exists>err. e = RequestErr err \<and> defined_condition_of err = Some Conflict)"

text \<open>The first \<open>k\<close> nicknames are taken: from \<open>w\<close> the attempts lead to \<open>w'\<close>.\<close>

inductive taken :: "(string \<Rightarrow> 'a prog) \<Rightarrow> string \<Rightarrow> nat \<Rightarrow> world \<Rightarrow> world \<Rightarrow> bool" for h p where
  taken_none: "taken h p 0 w w"
| taken_next: "taken h p k w w' \<Longrightarrow> h (nickname_at p k) w' = (Err e, w'') \<Longrightarrow> is_conflict e \<Longrightarrow>
    taken h p (Suc k) w w''"

lemma try_until_step:
  "try_until_nickname_unique (Suc fuel) p h mx k w =
     (case h (nickname_at p k) w of
        (Err e, w') \<Rightarrow>
          if is_conflict e \<and> \<not> (mx > 0 \<and> k + 1 \<ge> mx)
          then try_until_nickname_unique fuel p h mx (k + 1) w' else (Err e, w')
      | res \<Rightarrow> res)"
  by (auto simp: prog_defs nickname_at_def is_conflict_def split: outcome.split room_error.split prod.split)

declare try_until_nickname_unique.simps(2) [simp del]

lemma try_until_taken:
  assumes "taken h p k w w'" "k < 10"
  shows "try_until_nickname_unique 10 p h 10 0 w = try_until_nickname_unique (10 - k) p h 10 k w'"
  using assms
proof (induction rule: taken.induct)
  case (taken_next k w w' e w'')
  then have "10 - k = Suc (10 - Suc k)" by simp
  with taken_next show ?case by (simp add: try_until_step)
qed simp

lemma try_until_fuel:
  assumes "\<And>n w. fst (h n w) \<noteq> NoFuel" "mx \<le> fuel + k" "k < mx"
  shows "fst (try_until_nickname_unique fuel p h mx k w) \<noteq> NoFuel"
  using assms(2,3)
proof (induction fuel arbitrary: k w)
  case (Suc fuel)
  have "fst (h (nickname_at p k) w) \<noteq> NoFuel" by (rule assms(1))
  with Suc show ?case by (auto simp: try_until_step split: prod.split outcome.split)
qed simp

text \<open>
  C17. Joining under a free nickname: the preferred nickname is tried first, then the same with
  suffix \<^verbatim>\<open>#1\<close>, \<^verbatim>\<open>#2\<close> and so on, all different. The result is that of the first attempt
  that is no nickname conflict, or of the tenth attempt, and the search always ends.
\<close>

theorem nickname_search:
  assumes "taken h p k w w'" "k < 10" "h (nickname_at p k) w' = (res, w'')"
    and "k = 9 \<or> (\<nexists>e. res = Err e \<and> is_conflict e)"
  shows "try_until_nickname_unique 10 p h 10 0 w = (res, w'') \<and>
    inj (nickname_at p) \<and>
    ((\<forall>n v. fst (h n v) \<noteq> NoFuel) \<longrightarrow> (\<forall>v. fst (try_until_nickname_unique 10 p h 10 0 v) \<noteq> NoFuel))"
proof (intro conjI impI allI)
  have "10 - k = Suc (9 - k)" using assms(2) by simp
  with assms try_until_taken [OF assms(1,2)]
  show "try_until_nickname_unique 10 p h 10 0 w = (res, w'')"
    by (auto simp: try_until_step split: outcome.split)
  show "inj (nickname_at p)" by (simp add: inj_def nickname_at_inj)
  show "fst (try_until_nickname_unique 10 p h 10 0 v) \<noteq> NoFuel" if "\<forall>n v. fst (h n v) \<noteq> NoFuel" for v
    using that by (intro try_until_fuel) auto
qed

subsection \<open>Failed joins\<close>

lemma try_until_first:
  assumes "h p w = (res, w')" "\<nexists>e. res = Err e \<and> is_conflict e"
  shows "try_until_nickname_unique 10 p h 10 0 w = (res, w')"
  using try_until_step [of 9 p h 10 0 w] assms
  by (auto simp: nickname_at_def split: outcome.split)

lemma gone_not_conflict: "gone_err parse e = Some l \<Longrightarrow> \<not> is_conflict e"
  by (auto simp: gone_err_def is_conflict_def defined_condition_of_def
      split: room_error.splits request_error.splits if_splits)

declare join_room_loop.simps [simp del] create_loop.simps [simp del]

text \<open>
  A failed join that was not redirected cleans up as its behavior demands and reports the
  error: with \<^verbatim>\<open>RemoveOnError\<close> the room is no longer in the repository and all others are,
  with \<^verbatim>\<open>RetainOnError\<close> the repository is unchanged and the room is disconnected with the
  message of the error, ready to be retried.
\<close>

theorem failed_join_cleans_up:
  assumes "insert_connecting_room m nick sb w = (Ok st, w1)"
    and "try_until_nickname_unique 10 nick (join_handler sv m p d av) 10 0 w1 = (Err e, w2)"
    and "gone_err (sv_parse_jid sv) e = None \<or> gone_err (sv_parse_jid sv) e = Some None \<or>
      jb_on_redirect b = FailIfGone"
    and "valid (status_room st) w2"
  shows "\<exists>w'. join_room_loop (Suc fuel) sv m p sb b d nick av m w = (Err e, w') \<and>
    (jb_on_failure b = RemoveOnError \<longrightarrow>
       w_heap w' = w_heap w2 \<and> repo_get (w_rooms w') = (repo_get (w_rooms w2))(muc_jid m := None)) \<and>
    (jb_on_failure b = RetainOnError \<longrightarrow>
       w_rooms w' = w_rooms w2 \<and>
       rd_state (r_details (w_heap w' ! status_room st)) = Disconnected (Some (sv_show_error sv e)) True)"
proof -
  have loop: "join_room_loop (Suc fuel) sv m p sb b d nick av m w =
      thenM (remove_or_retain_room_on_error sv b m (status_room st) e) (throw e) w2"
    using assms(1-3)
    by (auto simp: join_room_loop.simps bindM_def attempt_def split: option.split join_redirect.split)
  show ?thesis
  proof (cases "jb_on_failure b")
    case RemoveOnError
    then show ?thesis
      using repo.delete_get [of "muc_jid m" "w_rooms w2"]
      by (auto simp: loop remove_or_retain_room_on_error_def prog_defs delete_room_def split: prod.split)
  next
    case RetainOnError
    then show ?thesis
      using assms(4)
      by (auto simp: loop remove_or_retain_room_on_error_def prog_defs set_state_def write_room_def
          nth_write_details valid_def)
  qed
qed

text \<open>
  A redirected join that fails does not clean up: when the room is gone, the redirect to its
  new location is followed and joining that one fails, the code removes the room of the original
  id, which is no longer there. The room of the new location stays in the repository, connecting
  forever, and every later attempt to join it fails as already connected.
\<close>

theorem redirected_join_leaves_connecting_room:
  assumes "\<And>oc p d a v. sv_join_room sv oc p d a v = (reply oc, v)"
    and "sv_resource sv nick = Some res"
    and "reply (OccupantId (FullJid (muc_jid m) res)) = Inl e"
      "gone_err (sv_parse_jid sv) e = Some (Some new)"
    and "reply (OccupantId (FullJid (muc_jid new) res)) = Inl e'"
      "gone_err (sv_parse_jid sv) e' = None" "\<not> is_conflict e'"
    and "new \<noteq> m" "repo_get (w_rooms w) (muc_jid m) = None" "repo_get (w_rooms w) (muc_jid new) = None"
  shows "\<exists>w' r. join_room_loop 2 sv m p sb user_initiated d nick av m w = (Err e', w') \<and>
    repo_get (w_rooms w') (muc_jid new) = Some r \<and>
    rd_state (r_details (w_heap w' ! r)) = Connecting \<and>
    fst (insert_connecting_room new n sb' w') = Err (RoomIsAlreadyConnected (RMuc new))"
proof -
  have jids: "muc_jid new \<noteq> muc_jid m" using assms(8) by (cases new; cases m) simp
  have handler: "join_handler sv x p d av nick v = (case reply (OccupantId (FullJid (muc_jid x) res)) of
      Inl err \<Rightarrow> Err err | Inr i \<Rightarrow> Ok i, v\<lparr>w_log := w_log v @ [JoinRoom (OccupantId (FullJid (muc_jid x) res)) p]\<rparr>)" for x v
    by (simp add: join_handler_def occupant_id_with_nickname_def assms(1,2) request_def prog_defs split: sum.split)
  obtain w1 where w1: "insert_connecting_room m nick sb w = (Ok (IsNew (length (w_heap w))), w1)"
    "repo_get (w_rooms w1) = (repo_get (w_rooms w))(muc_jid m \<mapsto> length (w_heap w))"
    using insert_new_connecting [OF assms(9), of nick sb] by blast
  let ?w2 = "w1\<lparr>w_log := w_log w1 @ [JoinRoom (OccupantId (FullJid (muc_jid m) res)) p]\<rparr>"
  have t1: "try_until_nickname_unique 10 nick (join_handler sv m p d av) 10 0 w1 = (Err e, ?w2)"
    by (rule try_until_first) (use gone_not_conflict [OF assms(4)] in \<open>simp_all add: handler assms(3)\<close>)
  let ?w3 = "?w2\<lparr>w_rooms := snd (repo_delete (muc_jid m) (w_rooms w1))\<rparr>"
  have del: "delete_room (muc_jid m) ?w2 = (Ok (fst (repo_delete (muc_jid m) (w_rooms w1))), ?w3)"
    by (simp add: delete_room_def split: prod.split)
  have "repo_get (w_rooms ?w3) (muc_jid new) = None"
    using jids by (simp add: repo.delete_get w1 assms(10))
  from insert_new_connecting [OF this, of nick sb] obtain w4 where
    w4: "insert_connecting_room new nick sb ?w3 = (Ok (IsNew (length (w_heap ?w3))), w4)"
    "w_heap w4 = w_heap ?w3 @ [room_connecting (RMuc new) nick sb]"
    "repo_get (w_rooms w4) = (repo_get (w_rooms ?w3))(muc_jid new \<mapsto> length (w_heap ?w3))"
    by blast
  let ?w5 = "w4\<lparr>w_log := w_log w4 @ [JoinRoom (OccupantId (FullJid (muc_jid new) res)) p]\<rparr>"
  have t2: "try_until_nickname_unique 10 nick (join_handler sv new p d av) 10 0 w4 = (Err e', ?w5)"
    by (rule try_until_first) (auto simp: handler assms(5,7))
  let ?w6 = "?w5\<lparr>w_rooms := snd (repo_delete (muc_jid m) (w_rooms w4))\<rparr>"
  have "join_room_loop 2 sv m p sb user_initiated d nick av m w = (Err e', ?w6)"
    using w1(1) t1 del w4(1) t2 assms(4,6)
    by (simp add: numeral_2_eq_2 join_room_loop.simps bindM_def thenM_def attempt_def user_initiated_def
        remove_or_retain_room_on_error_def throw_def return_def delete_room_def split: prod.split)
  moreover have stored: "repo_get (w_rooms ?w6) (muc_jid new) = Some (length (w_heap ?w3))"
    using jids by (simp add: repo.delete_get w4(3))
  moreover have state: "rd_state (r_details (w_heap ?w6 ! length (w_heap ?w3))) = Connecting"
    by (simp add: w4(2) room_connecting_def)
  moreover have "fst (insert_connecting_room new n sb' ?w6) = Err (RoomIsAlreadyConnected (RMuc new))"
  proof -
    let ?h = "w_heap ?w6 @ [room_connecting (RMuc new) n sb']"
    have "room_key ?h (length (w_heap ?w6)) = muc_jid new"
      by (simp add: room_key_def room_connecting_def)
    then have "repo_set ?h (length (w_heap ?w6)) (w_rooms ?w6) = None"
      using stored repo.set_None [of ?h "length (w_heap ?w6)" "w_rooms ?w6"] by simp
    with stored state show ?thesis
      by (simp add: insert_connecting_room_def Let_def prog_defs get_room_def read_room_def new_room_def
          room_alloc_def insert_room_def is_pending_def)
  qed
  ultimately show ?thesis by blast
qed

subsection \<open>Joined rooms\<close>

lemma mapM_quiet:
  "(\<And>x v. \<exists>y. f x v = (Ok y, v)) \<Longrightarrow> \<exists>ys. mapM f xs v = (Ok ys, v)"
proof (induction xs)
  case (Cons x xs)
  then obtain y ys where "f x v = (Ok y, v)" "mapM f xs v = (Ok ys, v)" by metis
  then show ?case by (simp add: prog_defs)
qed (simp add: return_def)

text \<open>The call of \<^verbatim>\<open>update\<close> that turns the connecting room into a connected one.\<close>

lemma update_connecting:
  assumes "repo_get (w_rooms w) j = Some r"
  shows "\<exists>w'. update_room j (\<lambda>r h. if \<not> is_connecting (h ! r) then (r, h) else room_alloc (f (h ! r)) h) w =
      (Ok (Some (if is_connecting (w_heap w ! r) then length (w_heap w) else r)), w') \<and>
    w_heap w' = (if is_connecting (w_heap w ! r) then w_heap w @ [f (w_heap w ! r)] else w_heap w) \<and>
    repo_get (w_rooms w') =
      (repo_get (w_rooms w))(j \<mapsto> if is_connecting (w_heap w ! r) then length (w_heap w) else r) \<and>
    w_log w' = w_log w \<and> w_ctx w' = w_ctx w"
  using repo.update_get [OF assms,
      of "\<lambda>r h. if \<not> is_connecting (h ! r) then (r, h) else room_alloc (f (h ! r)) h" "w_heap w"]
  by (cases "is_connecting (w_heap w ! r)") (fastforce simp: update_room_def room_alloc_def)+

text \<open>
  Finishing a join, when no other task interferes. If the room is gone from the repository the
  join fails with \<^verbatim>\<open>RoomWasModified\<close> and changes nothing; if the room is no longer connecting
  it is returned as it is; otherwise the repository holds in its place a connected room with the
  JID, type, name, nickname and topic of the session, the sidebar state of the connecting room, and
  a new identity: tasks that kept the connecting room see it unchanged. No other JID is touched.
\<close>

theorem finalized_room:
  assumes "\<And>u v. snd (sv_user_info sv u v) = v" "\<And>r v. snd (sv_load_settings sv r v) = v"
    and "connected_id (w_ctx w) = Inr cid"
  shows "case repo_get (w_rooms w) (muc_jid (si_room_id (info_of st))) of
      None \<Rightarrow> fst (finalize_pending_room sv st w) = Err RoomWasModified \<and>
        w_heap (snd (finalize_pending_room sv st w)) = w_heap w \<and>
        w_rooms (snd (finalize_pending_room sv st w)) = w_rooms w
    | Some r \<Rightarrow>
        (\<exists>st' w'. finalize_pending_room sv st w = (Ok st', w') \<and>
           is_new st' = (case st of InfoIsNew _ \<Rightarrow> True | InfoExists _ \<Rightarrow> False) \<and>
           repo_get (w_rooms w') =
             (repo_get (w_rooms w))(muc_jid (si_room_id (info_of st)) \<mapsto> status_room st') \<and>
           (if is_connecting (w_heap w ! r)
            then status_room st' = length (w_heap w) \<and>
              (\<exists>x. w_heap w' = w_heap w @ [x] \<and> rd_state (r_details x) = Connected \<and>
                 ri_room_id (r_info x) = RMuc (si_room_id (info_of st)) \<and>
                 ri_type (r_info x) = rc_room_type (si_config (info_of st)) \<and>
                 ri_user_nickname (r_info x) = si_user_nickname (info_of st) \<and>
                 rd_name (r_details x) = rc_room_name (si_config (info_of st)) \<and>
                 rd_topic (r_details x) = si_topic (info_of st) \<and>
                 rd_sidebar_state (r_details x) = rd_sidebar_state (r_details (w_heap w ! r)))
            else status_room st' = r \<and> w_heap w' = w_heap w))"
proof -
  have lookup: "\<exists>y. lookup_user sv u v = (Ok y, v)" for u v
    using assms(1) [of u v] by (auto simp: lookup_user_def prog_defs split: prod.split)
  let ?f = "\<lambda>member. bindM (lookup_user sv (sm_id member)) (\<lambda>i.
      return \<lparr>rm_user_id = sm_id member, rm_affiliation = sm_affiliation member,
              rm_name = cnb_build (user_opt_display_name i),
              rm_is_self = (sm_id member = res_to_user_id cid)\<rparr>)"
  have "\<exists>ms. mapM ?f (si_members (info_of st)) w = (Ok ms, w)"
  proof (rule mapM_quiet)
    fix x v
    obtain y where "lookup_user sv (sm_id x) v = (Ok y, v)" using lookup by blast
    then show "\<exists>y. ?f x v = (Ok y, v)" by (simp add: bindM_def return_def)
  qed
  then obtain ms where ms: "mapM ?f (si_members (info_of st)) w = (Ok ms, w)" ..
  obtain ld where ld: "sv_load_settings sv (RMuc (si_room_id (info_of st))) w = (ld, w)"
    using assms(2) by (metis prod.collapse)
  have user: "connected_user w = (Ok (res_to_user_id cid), w)"
    by (simp add: connected_user_def prog_defs assms(3))
  let ?j = "muc_jid (si_room_id (info_of st))"
  show ?thesis
  proof (cases "repo_get (w_rooms w) ?j")
    case None
    with ms ld user show ?thesis
      using repo.update_None [OF None]
      by (simp add: finalize_pending_room_def Let_def bindM_def gets_def call_def update_room_def throw_def)
  next
    case (Some r)
    let ?offset = "if is_muc_room_on_connected_server (w_ctx w) (si_room_id (info_of st))
        then (case server_features_of (w_ctx w) of Inr f \<Rightarrow> sf_server_time_offset f | Inl _ \<Rightarrow> 0) else 0"
    let ?info = "\<lparr>ri_room_id = RMuc (si_room_id (info_of st)), ri_user_nickname = si_user_nickname (info_of st),
        ri_type = rc_room_type (si_config (info_of st)),
        ri_features = \<lparr>rf_mam_version = rc_mam_version (si_config (info_of st)), rf_server_time_offset = ?offset,
          rf_self_ping_optimization = rc_supports_self_ping_optimization (si_config (info_of st))\<rparr>\<rparr>"
    let ?resolve = "\<lambda>x. by_resolving_with_info (rc_room_name (si_config (info_of st)))
        (rc_room_description (si_config (info_of st))) (si_topic (info_of st)) ?info ms
        (si_participants (info_of st))
        (case (case ld of Inl _ \<Rightarrow> None | Inr s \<Rightarrow> s) of Some s \<Rightarrow> s | None \<Rightarrow> rd_settings (r_details x)) x"
    from update_connecting [OF Some, of ?resolve] obtain w' where
      u: "update_room ?j (\<lambda>r h. if \<not> is_connecting (h ! r) then (r, h) else room_alloc (?resolve (h ! r)) h) w =
        (Ok (Some (if is_connecting (w_heap w ! r) then length (w_heap w) else r)), w')"
      "w_heap w' = (if is_connecting (w_heap w ! r) then w_heap w @ [?resolve (w_heap w ! r)] else w_heap w)"
      "repo_get (w_rooms w') =
        (repo_get (w_rooms w))(?j \<mapsto> if is_connecting (w_heap w ! r) then length (w_heap w) else r)"
      by blast
    have "finalize_pending_room sv st w =
        (Ok (case st of InfoIsNew _ \<Rightarrow> IsNew (if is_connecting (w_heap w ! r) then length (w_heap w) else r)
             | InfoExists _ \<Rightarrow> Exists (if is_connecting (w_heap w ! r) then length (w_heap w) else r)), w')"
      using ms ld user u(1)
      by (simp add: finalize_pending_room_def Let_def bindM_def gets_def call_def return_def)
    then show ?thesis
      using u(2,3) Some
      by (cases st) (simp_all add: by_resolving_with_info_def)
  qed
qed

subsection \<open>Verifying connections\<close>

text \<open>
  The periodic check of a room's connection: a room that is still connecting, or disconnected
  for good, is left alone without a ping; a connected room is pinged, stays as it is when the
  reply, or the kind of its error, shows that we are still joined, becomes disconnected and
  retryable when the server cannot be reached, and is joined again on every other error; a
  disconnected, retryable room is joined again at once.
\<close>

theorem connection_check:
  assumes "connected_account w = (Ok account, w)" "repo_get (w_rooms w) (muc_jid m) = Some r" "valid r w"
    and "info_occupant_id (sv_resource sv) (r_info (w_heap w ! r)) = Some (Some oc)"
    and "\<And>v. sv_send_self_ping sv oc v = (reply, v)"
  shows "let res = reconnect_room_if_needed fuel sv m w;
             pinged = w\<lparr>w_log := w_log w @ [SelfPing oc]\<rparr>
         in (case rd_state (r_details (w_heap w ! r)) of
               Pending \<Rightarrow> res = (Ok (), w)
             | Connecting \<Rightarrow> res = (Ok (), w)
             | Disconnected _ can_retry \<Rightarrow>
                 res = (if can_retry then reconnect_room fuel sv m r w else (Ok (), w))
             | Connected \<Rightarrow>
                 (case reply of
                    Inr _ \<Rightarrow> res = (Ok (), pinged)
                  | Inl err \<Rightarrow>
                      (case classify_ping err of
                         StillConnected \<Rightarrow> res = (Ok (), pinged)
                       | Unreachable \<Rightarrow> fst res = Ok () \<and> w_rooms (snd res) = w_rooms w \<and>
                           rd_state (r_details (w_heap (snd res) ! r)) = Disconnected None True
                       | NotJoined \<Rightarrow> res = reconnect_room fuel sv m r pinged)))"
  using assms
  by (auto simp: reconnect_room_if_needed_def Let_def prog_defs get_room_def read_room_def set_state_def
      write_room_def nth_write_details valid_def
      split: room_state.split sum.split ping_verdict.split)

subsection \<open>Names of public channels\<close>

lemma is_unique_quiet:
  assumes "muc_service (w_ctx w) = Inr service" "sv_load_public_rooms sv service w = (Inr rooms, w)"
  shows "is_public_channel_name_unique sv name w =
    (Ok (\<not> (\<exists>room \<in> set rooms. \<exists>n. pub_name room = Some n \<and>
       make_ascii_lowercase n = sv_lowercase sv name)), w)"
  by (simp add: is_public_channel_name_unique_def prog_defs assms)

text \<open>
  The check for a unique channel name lowercases the new name by the Unicode mapping and the
  existing names by the ASCII mapping. Where the two agree on all names involved, it finds exactly
  the names that are equal up to case. For a name on which they differ, such as one with a capital
  umlaut, it misses even a channel of exactly the same name.
\<close>

theorem unique_name_check:
  assumes "muc_service (w_ctx w) = Inr service" "sv_load_public_rooms sv service w = (Inr rooms, w)"
  shows "((\<forall>n. sv_lowercase sv n = make_ascii_lowercase n) \<longrightarrow>
      fst (is_public_channel_name_unique sv name w) =
        Ok (\<forall>room \<in> set rooms. \<forall>n. pub_name room = Some n \<longrightarrow> sv_lowercase sv n \<noteq> sv_lowercase sv name)) \<and>
    (sv_lowercase sv name \<noteq> make_ascii_lowercase name \<and> rooms = [\<lparr>pub_id = m, pub_name = Some name\<rparr>] \<longrightarrow>
      fst (is_public_channel_name_unique sv name w) = Ok True)"
  using is_unique_quiet [OF assms, of name] by auto

section \<open>Instances\<close>

text \<open>Services that answer without anything else happening.\<close>

definition quiet_services :: services where
  "quiet_services =
     \<lparr>sv_uppercase = id, sv_lowercase = make_ascii_lowercase, sv_resource = Some, sv_node = Some,
      sv_parse_jid = (\<lambda>s. Some (JBare (BareJid (Some s) ''conf.org''))), sv_show_error = (\<lambda>_. ''error''),
      sv_sha1 = id,
      sv_new_id = (\<lambda>w. (''id'', w)), sv_user_info = (\<lambda>_ w. (Inr None, w)),
      sv_availability = (\<lambda>_ w. (Inr Available, w)), sv_load_settings = (\<lambda>_ w. (Inr None, w)),
      sv_join_room = (\<lambda>_ _ _ _ w. (Inl (RequestErr RTimedOut), w)),
      sv_create_or_join_room = (\<lambda>_ _ _ _ _ w. (Inl (RequestErr RTimedOut), w)),
      sv_load_public_rooms = (\<lambda>_ w. (Inr [], w)), sv_reconfigure_room = (\<lambda>_ _ _ w. (Inr (), w)),
      sv_load_room_config = (\<lambda>_ w. (Inl RoomNotFound, w)), sv_exit_room = (\<lambda>_ w. (Inr (), w)),
      sv_set_room_owners = (\<lambda>_ _ w. (Inr (), w)), sv_send_self_ping = (\<lambda>_ w. (Inr (), w)),
      sv_destroy_room = (\<lambda>_ _ w. (Inr (), w)), sv_invite_users = (\<lambda>_ _ w. (Inr (), w)),
      sv_grant_membership = (\<lambda>_ _ w. (Inr (), w)), sv_set_name = (\<lambda>_ _ w. (Inr (), w)),
      sv_copy_messages = (\<lambda>_ _ w. (Inr (), w)), sv_catchup_room = (\<lambda>_ _ w. (Inr False, w)),
      sv_finalize_decryption = (\<lambda>_ w. ((), w)), sv_load_bookmarks = (\<lambda>w. (Inr [], w)),
      sv_save_bookmark = (\<lambda>_ w. (Inr (), w)), sv_delete_bookmark = (\<lambda>_ w. (Inr (), w))\<rparr>"

lemma call_keeps_quiet: "call_keeps (\<lambda>w. (x, w))"
  by (simp add: call_keeps_def)

lemma services_keep_quiet: "services_keep quiet_services"
  by (simp add: services_keep_def quiet_services_def call_keeps_quiet)

definition ex_muc :: muc_id where "ex_muc = MucId (BareJid (Some ''room'') ''conf.org'')"
definition ex_muc' :: muc_id where "ex_muc' = MucId (BareJid (Some ''other'') ''conf.org'')"

definition empty_world :: world where
  "empty_world = \<lparr>w_ctx = ex_context, w_heap = [], w_rooms = [], w_log = []\<rparr>"

definition room_world :: "room_state \<Rightarrow> world" where
  "room_world st =
     \<lparr>w_ctx = ex_context,
      w_heap = [(room_connecting (RMuc ex_muc) ''alice'' InSidebar)
        \<lparr>r_details := (r_details (room_connecting (RMuc ex_muc) ''alice'' InSidebar))\<lparr>rd_state := st\<rparr>\<rparr>],
      w_rooms = [(muc_jid ex_muc, 0)], w_log = []\<rparr>"

lemma empty_world_ok: "world_ok empty_world"
  by (simp add: world_ok_def empty_world_def repo_ok_def)

lemma room_world_ok: "world_ok (room_world st)"
  by (simp add: world_ok_def room_world_def repo_ok_def room_key_def room_connecting_def)

lemma repo_get_room_world [simp]: "repo_get (w_rooms (room_world st)) (muc_jid ex_muc) = Some 0"
  by (simp add: repo_get_def room_world_def)

lemma room_world_state [simp]: "rd_state (r_details (w_heap (room_world st) ! 0)) = st"
  by (simp add: room_world_def)

theorem rooms_service_keeps_repository_witness:
  "world_ok (snd (create_or_join_room 3 quiet_services (Join ex_muc None user_initiated None) InSidebar empty_world))"
  using rooms_service_keeps_repository [OF services_keep_quiet empty_world_ok] by blast

theorem connecting_room_exclusive_witness:
  "insert_connecting_room ex_muc ''alice'' InSidebar (room_world Pending) =
     (Ok (Exists 0), (room_world Pending)
        \<lparr>w_heap := write_details 0 (\<lambda>d. d\<lparr>rd_state := Connecting\<rparr>) (w_heap (room_world Pending))\<rparr>)"
  using connecting_room_exclusive [OF room_world_ok [of Pending], of ex_muc "''alice''" InSidebar] by simp

theorem nickname_search_witness:
  "try_until_nickname_unique 10 ''nick''
     (\<lambda>n. if n = ''nick'' then throw (RequestErr (RXmpp \<lparr>se_condition = Conflict, se_alternate_address = None\<rparr>))
          else return n) 10 0 empty_world = (Ok (nickname_at ''nick'' 1), empty_world)"
proof -
  let ?h = "\<lambda>n. if n = ''nick''
    then throw (RequestErr (RXmpp \<lparr>se_condition = Conflict, se_alternate_address = None\<rparr>)) else return n"
  have "taken ?h ''nick'' (Suc 0) empty_world empty_world"
    by (rule taken_next [OF taken_none])
      (auto simp: nickname_at_def throw_def is_conflict_def defined_condition_of_def)
  moreover have "?h (nickname_at ''nick'' (Suc 0)) empty_world = (Ok (nickname_at ''nick'' (Suc 0)), empty_world)"
    by (simp add: nickname_at_def return_def)
  ultimately show ?thesis
    using nickname_search [of ?h "''nick''" "Suc 0" empty_world empty_world] by simp
qed

theorem failed_join_cleans_up_witness:
  "\<exists>w'. join_room_loop 1 quiet_services ex_muc None InSidebar system_initiated ''Alice'' ''alice'' Available ex_muc
      (room_world Pending) = (Err (RequestErr RTimedOut), w') \<and>
    rd_state (r_details (w_heap w' ! 0)) = Disconnected (Some ''error'') True"
proof -
  let ?w1 = "(room_world Pending)\<lparr>w_heap := write_details 0 (\<lambda>d. d\<lparr>rd_state := Connecting\<rparr>)
      (w_heap (room_world Pending))\<rparr>"
  let ?w2 = "?w1\<lparr>w_log := [JoinRoom (OccupantId (FullJid (muc_jid ex_muc) ''alice'')) None]\<rparr>"
  have ins: "insert_connecting_room ex_muc ''alice'' InSidebar (room_world Pending) = (Ok (Exists 0), ?w1)"
    by (simp add: insert_connecting_room_def Let_def prog_defs get_room_def read_room_def set_state_def
        write_room_def is_pending_def)
  have "join_handler quiet_services ex_muc None ''Alice'' Available ''alice'' ?w1 =
      (Err (RequestErr RTimedOut), ?w2)"
    by (simp add: join_handler_def occupant_id_with_nickname_def quiet_services_def request_def prog_defs
        room_world_def)
  then have attempt1: "try_until_nickname_unique 10 ''alice''
      (join_handler quiet_services ex_muc None ''Alice'' Available) 10 0 ?w1 = (Err (RequestErr RTimedOut), ?w2)"
    by (rule try_until_first) (simp add: is_conflict_def defined_condition_of_def)
  have "gone_err (sv_parse_jid quiet_services) (RequestErr RTimedOut) = None" by (simp add: gone_err_def)
  moreover have "valid (status_room (Exists 0)) ?w2" by (simp add: valid_def room_world_def)
  ultimately show ?thesis
    using failed_join_cleans_up [OF ins attempt1, of system_initiated 0]
    by (auto simp: system_initiated_def quiet_services_def)
qed

definition gone_reply :: "occupant_id \<Rightarrow> room_error + room_session_info" where
  "gone_reply oc =
     (if occ_muc_id oc = ex_muc
      then Inl (RequestErr (RXmpp \<lparr>se_condition = Gone, se_alternate_address = Some ''xmpp:other?join''\<rparr>))
      else Inl (RequestErr RTimedOut))"

theorem redirected_join_leaves_connecting_room_witness:
  "\<exists>w' r. join_room_loop 2 (quiet_services\<lparr>sv_join_room := \<lambda>oc _ _ _ w. (gone_reply oc, w)\<rparr>) ex_muc None
      InSidebar user_initiated ''Alice'' ''alice'' Available ex_muc empty_world = (Err (RequestErr RTimedOut), w') \<and>
    repo_get (w_rooms w') (muc_jid ex_muc') = Some r \<and>
    rd_state (r_details (w_heap w' ! r)) = Connecting \<and>
    fst (insert_connecting_room ex_muc' ''alice'' InSidebar w') = Err (RoomIsAlreadyConnected (RMuc ex_muc'))"
proof (rule redirected_join_leaves_connecting_room [where reply = gone_reply and res = "''alice''"])
  let ?sv = "quiet_services\<lparr>sv_join_room := \<lambda>oc _ _ _ w. (gone_reply oc, w)\<rparr>"
  show "sv_join_room ?sv oc p d a v = (gone_reply oc, v)" for oc p d a v by simp
  show "sv_resource ?sv ''alice'' = Some ''alice''" by (simp add: quiet_services_def)
  show "gone_reply (OccupantId (FullJid (muc_jid ex_muc) ''alice'')) =
      Inl (RequestErr (RXmpp \<lparr>se_condition = Gone, se_alternate_address = Some ''xmpp:other?join''\<rparr>))"
    by (simp add: gone_reply_def occ_muc_id_def)
  show "gone_reply (OccupantId (FullJid (muc_jid ex_muc') ''alice'')) = Inl (RequestErr RTimedOut)"
    by (simp add: gone_reply_def occ_muc_id_def ex_muc_def ex_muc'_def)
  show "gone_err (sv_parse_jid ?sv)
      (RequestErr (RXmpp \<lparr>se_condition = Gone, se_alternate_address = Some ''xmpp:other?join''\<rparr>)) = Some (Some ex_muc')"
    by (simp add: gone_err_def muc_id_from_iri_def jid_from_iri_def quiet_services_def ex_muc'_def
        strip_prefix_def)
  show "gone_err (sv_parse_jid ?sv) (RequestErr RTimedOut) = None" by (simp add: gone_err_def)
  show "\<not> is_conflict (RequestErr RTimedOut)" by (simp add: is_conflict_def defined_condition_of_def)
  show "ex_muc' \<noteq> ex_muc" by (simp add: ex_muc_def ex_muc'_def)
qed (simp_all add: empty_world_def repo_get_def)

definition ex_session_info :: room_session_info where
  "ex_session_info =
     \<lparr>si_room_id = ex_muc,
      si_config = \<lparr>rc_room_name = Some ''Room'', rc_room_description = None, rc_room_type = PublicChannel,
        rc_mam_version = None, rc_supports_self_ping_optimization = False\<rparr>,
      si_topic = None, si_user_nickname = ''alice'', si_members = [], si_participants = [],
      si_room_has_been_created = False\<rparr>"

theorem finalized_room_witness:
  "\<exists>st' w'. finalize_pending_room quiet_services (InfoIsNew ex_session_info) (room_world Connecting) = (Ok st', w') \<and>
     status_room st' = 1 \<and> rd_state (r_details (w_heap w' ! 1)) = Connected"
proof -
  have "\<And>u v. snd (sv_user_info quiet_services u v) = v" "\<And>r v. snd (sv_load_settings quiet_services r v) = v"
    by (simp_all add: quiet_services_def)
  moreover have "connected_id (w_ctx (room_world Connecting)) = Inr ex_user"
    by (simp add: connected_id_def room_world_def ex_context_def)
  moreover have "is_connecting (w_heap (room_world Connecting) ! 0)" "length (w_heap (room_world Connecting)) = 1"
    by (simp_all add: is_connecting_def) (simp add: room_world_def)
  ultimately show ?thesis
    using finalized_room [of quiet_services "room_world Connecting" ex_user "InfoIsNew ex_session_info"]
    by (auto simp: ex_session_info_def nth_append)
qed

theorem connection_check_witness:
  "fst (reconnect_room_if_needed 0 (quiet_services\<lparr>sv_send_self_ping := \<lambda>_ w. (Inl RTimedOut, w)\<rparr>) ex_muc
      (room_world Connected)) = Ok () \<and>
   rd_state (r_details (w_heap (snd (reconnect_room_if_needed 0
      (quiet_services\<lparr>sv_send_self_ping := \<lambda>_ w. (Inl RTimedOut, w)\<rparr>) ex_muc (room_world Connected))) ! 0)) =
     Disconnected None True"
proof -
  let ?sv = "quiet_services\<lparr>sv_send_self_ping := \<lambda>_ w. (Inl RTimedOut, w)\<rparr>"
  have "connected_account (room_world Connected) =
      (Ok (AccountId (UserId (BareJid (Some ''alice'') ''prose.org''))), room_world Connected)"
    by (simp add: connected_account_def prog_defs connected_id_def room_world_def ex_context_def ex_user_def
        res_to_user_id_def account_id_from_def user_id_from_def)
  moreover have "valid 0 (room_world Connected)" by (simp add: valid_def room_world_def)
  moreover have "info_occupant_id (sv_resource ?sv) (r_info (w_heap (room_world Connected) ! 0)) =
      Some (Some (OccupantId (FullJid (muc_jid ex_muc) ''alice'')))"
    by (simp add: info_occupant_id_def room_world_def room_connecting_def quiet_services_def
        occupant_id_with_nickname_def)
  ultimately show ?thesis
    using connection_check [of "room_world Connected" _ ex_muc 0 ?sv _ "Inl RTimedOut" 0]
    by (simp add: Let_def classify_ping_def)
qed

theorem unique_name_check_witness:
  "fst (is_public_channel_name_unique
     (quiet_services\<lparr>sv_lowercase := \<lambda>_. [CHR 0xC3, CHR 0xA9],
        sv_load_public_rooms := \<lambda>_ w. (Inr [\<lparr>pub_id = ex_muc, pub_name = Some [CHR 0xC3, CHR 0x89]\<rparr>], w)\<rparr>)
     [CHR 0xC3, CHR 0x89] empty_world) = Ok True"
proof -
  let ?sv = "quiet_services\<lparr>sv_lowercase := \<lambda>_. [CHR 0xC3, CHR 0xA9],
        sv_load_public_rooms := \<lambda>_ w. (Inr [\<lparr>pub_id = ex_muc, pub_name = Some [CHR 0xC3, CHR 0x89]\<rparr>], w)\<rparr>"
  have "muc_service (w_ctx empty_world) = Inr (BareJid None ''conf.org'')"
    by (simp add: muc_service_def server_features_of_def empty_world_def ex_context_def)
  from unique_name_check [OF this, of ?sv "[\<lparr>pub_id = ex_muc, pub_name = Some [CHR 0xC3, CHR 0x89]\<rparr>]"
      "[CHR 0xC3, CHR 0x89]" ex_muc]
  show ?thesis by (simp add: make_ascii_lowercase_def ascii_lower_char_def)
qed

end
