(* ===== verification/Sidebar.thy ===== *)
theory Sidebar
  imports RoomsDomain
begin

text \<open>
  The sidebar (\<^verbatim>\<open>domain/sidebar/services/impls/sidebar_domain_service.rs\<close>): which rooms are
  shown, connected and bookmarked.

  The handlers return \<^verbatim>\<open>anyhow\<close> results, into which a \<^verbatim>\<open>RoomError\<close> is wrapped unchanged.
  Futures that run in parallel run one after another here. Between two steps of one of them the
  others may act, as any other task may: this is in what the services do to the state.
\<close>

section \<open>Bookmarks\<close>

definition bookmark_try_from :: "room \<Rightarrow> bookmark option" where
  "bookmark_try_from room =
     map_option
       (\<lambda>t. \<lparr>bm_name = (case rd_name (r_details room) of
                          Some n \<Rightarrow> n | None \<Rightarrow> show_room_id (ri_room_id (r_info room))),
             bm_jid = ri_room_id (r_info room), bm_type = t,
             bm_sidebar_state = rd_sidebar_state (r_details room)\<rparr>)
       (case ri_type (r_info room) of
          UnknownRoom \<Rightarrow> None
        | DirectMessage \<Rightarrow> Some BDirectMessage
        | Group \<Rightarrow> Some BGroup
        | PrivateChannel \<Rightarrow> Some BPrivateChannel
        | PublicChannel \<Rightarrow> Some BPublicChannel
        | Generic \<Rightarrow> Some BGeneric)"

definition save_bookmark_for_room :: "services \<Rightarrow> room_ref \<Rightarrow> unit prog" where
  "save_bookmark_for_room sv r =
     bindM (read_room r) (\<lambda>room.
     case bookmark_try_from room of
       None \<Rightarrow> return ()
     | Some b \<Rightarrow>
         thenM (tell (SaveBookmark b)) (bindM (call (sv_save_bookmark sv b)) (\<lambda>_. return ())))"

definition delete_bookmark :: "services \<Rightarrow> bare_jid \<Rightarrow> unit prog" where
  "delete_bookmark sv j =
     thenM (tell (DeleteBookmark j)) (bindM (call (sv_delete_bookmark sv j)) (\<lambda>_. return ()))"

definition try_get_room :: "bare_jid \<Rightarrow> room_ref prog" where
  "try_get_room j =
     bindM connected_account (\<lambda>_.
     bindM (get_room j) (\<lambda>found.
     case found of
       None \<Rightarrow> throw (Anyhow (''No room with id '' @ [CHR 0x27] @ show_bare j @ [CHR 0x27]))
     | Some r \<Rightarrow> return r))"

text \<open>\<^verbatim>\<open>anyhow\<close>'s context: what the error says of itself is the context.\<close>

definition with_context :: "string \<Rightarrow> 'a prog \<Rightarrow> 'a prog" where
  "with_context msg m =
     bindM (attempt m) (\<lambda>result. case result of Inl _ \<Rightarrow> throw (Anyhow msg) | Inr a \<Rightarrow> return a)"

section \<open>Leaving and joining rooms\<close>

definition room_occupant_id :: "services \<Rightarrow> room \<Rightarrow> occupant_id option prog" where
  "room_occupant_id sv room =
     lift_panic ''The provided JID and user_nickname were invalid''
       (info_occupant_id (sv_resource sv) (r_info room))"

text \<open>Deletes the room from the repository if we are connected, as
  \<^verbatim>\<open>if let Some(account) = self.ctx.connected_account().ok()\<close> does.\<close>

definition delete_if_connected :: "bare_jid \<Rightarrow> unit prog" where
  "delete_if_connected j =
     bindM (attempt connected_account) (\<lambda>a.
     case a of
       Inl _ \<Rightarrow> return ()
     | Inr _ \<Rightarrow> bindM (delete_room j) (\<lambda>_. return ()))"

definition disconnect_and_delete_room :: "services \<Rightarrow> room_ref \<Rightarrow> unit prog" where
  "disconnect_and_delete_room sv r =
     bindM (read_room r) (\<lambda>room.
     let leave =
       thenM (delete_if_connected (into_bare (ri_room_id (r_info room))))
       (bindM (room_occupant_id sv room) (\<lambda>oc.
        case oc of
          Some occupant_id \<Rightarrow> ignore_errors (request (ExitRoom occupant_id) (sv_exit_room sv occupant_id))
        | None \<Rightarrow> return ()))
     in
       case ri_type (r_info room) of
         DirectMessage \<Rightarrow> delete_if_connected (into_bare (ri_room_id (r_info room)))
       | Group \<Rightarrow> set_sidebar_state r NotInSidebar
       | PrivateChannel \<Rightarrow> leave
       | PublicChannel \<Rightarrow> leave
       | Generic \<Rightarrow> leave
       | UnknownRoom \<Rightarrow> return ())"

definition join_room_identified_by_bookmark_if_needed :: "nat \<Rightarrow> services \<Rightarrow> bookmark \<Rightarrow> join_room_behavior \<Rightarrow>
    decryption_context \<Rightarrow> room_ref option prog" where
  "join_room_identified_by_bookmark_if_needed fuel sv b behavior context =
     (if bm_type b \<noteq> BGroup \<and> \<not> is_in_sidebar (bm_sidebar_state b) then return None
      else if bm_type b = BDirectMessage then
        bindM (lift_panic ''UserId without node'' (user_id_from (into_bare (bm_jid b)))) (\<lambda>u.
        bindM (create_or_join_room fuel sv (JoinDirectMessage u (Some context)) (bm_sidebar_state b)) (\<lambda>r.
        return (Some r)))
      else
        (case bm_jid b of
           RMuc muc_id \<Rightarrow>
             bindM (create_or_join_room fuel sv (Join muc_id None behavior (Some context)) (bm_sidebar_state b)) (\<lambda>r.
             return (Some r))
         | RUser _ \<Rightarrow> return None))"

section \<open>Following the bookmarks\<close>

text \<open>The room of a bookmark among the rooms that were there when the bookmarks arrived.\<close>

definition find_connected :: "world \<Rightarrow> room_ref list \<Rightarrow> bookmark \<Rightarrow> room_ref option" where
  "find_connected w rooms b =
     find (\<lambda>r. ri_room_id (r_info (w_heap w ! r)) = bm_jid b \<and>
               \<not> is_disconnected (rd_state (r_details (w_heap w ! r)))) rooms"

text \<open>The first loop: pending rooms to draw the sidebar with. It tells whether rooms changed.\<close>

fun insert_pending_rooms :: "string \<Rightarrow> room_ref list \<Rightarrow> bookmark list \<Rightarrow> bool \<Rightarrow> bool prog" where
  "insert_pending_rooms nick rooms [] changed = return changed"
| "insert_pending_rooms nick rooms (b # bs) changed =
     bindM (gets (\<lambda>w. find_connected w rooms b)) (\<lambda>found.
     if found \<noteq> None then insert_pending_rooms nick rooms bs changed
     else if bm_type b \<noteq> BGroup \<and> bm_sidebar_state b = NotInSidebar
     then insert_pending_rooms nick rooms bs True
     else
       bindM (lift_panic ''UserId without node'' (room_pending b nick)) (\<lambda>room.
       bindM (new_room room) (\<lambda>r.
       bindM (insert_room r) (\<lambda>_.
       insert_pending_rooms nick rooms bs True))))"

text \<open>The second loop: the sidebar states of the rooms that are there, and the bookmarks of the
  rooms still to be joined.\<close>

fun update_sidebar_states :: "room_ref list \<Rightarrow> bookmark list \<Rightarrow> bool \<Rightarrow> bookmark list \<Rightarrow> (bool \<times> bookmark list) prog" where
  "update_sidebar_states rooms [] changed to_join = return (changed, to_join)"
| "update_sidebar_states rooms (b # bs) changed to_join =
     bindM (gets (\<lambda>w. find_connected w rooms b)) (\<lambda>found.
     case found of
       None \<Rightarrow> update_sidebar_states rooms bs changed (to_join @ [b])
     | Some r \<Rightarrow>
         bindM (read_room r) (\<lambda>room.
         if rd_sidebar_state (r_details room) \<noteq> bm_sidebar_state b then
           thenM (set_sidebar_state r (bm_sidebar_state b)) (update_sidebar_states rooms bs True to_join)
         else update_sidebar_states rooms bs changed to_join))"

definition join_bookmarked_room :: "nat \<Rightarrow> services \<Rightarrow> decryption_context \<Rightarrow> bookmark \<Rightarrow>
    (bookmark \<times> (room_error + room_ref option)) prog" where
  "join_bookmarked_room fuel sv context b =
     bindM (attempt (join_room_identified_by_bookmark_if_needed fuel sv b system_initiated context)) (\<lambda>result.
     thenM
       (case result of
          Inr (Some _) \<Rightarrow> if is_in_sidebar (bm_sidebar_state b) then dispatch SidebarChanged else return ()
        | Inr None \<Rightarrow> return ()
        | Inl _ \<Rightarrow> if is_in_sidebar (bm_sidebar_state b) then dispatch SidebarChanged else return ())
       (return (b, result)))"

text \<open>What a result means for the bookmark: the futures that run once all results are known.\<close>

datatype bookmark_update =
    KeepBookmark
  | ResaveBookmark room_ref
  | MoveBookmark room_ref bare_jid
  | DropBookmark bare_jid

definition bookmark_update_for :: "services \<Rightarrow> bookmark \<times> (room_error + room_ref option) \<Rightarrow> bookmark_update prog" where
  "bookmark_update_for sv br =
     (let b = fst br
      in case snd br of
        Inr (Some r) \<Rightarrow>
          bindM (read_room r) (\<lambda>room.
          if ri_room_id (r_info room) \<noteq> bm_jid b then return (MoveBookmark r (into_bare (bm_jid b)))
          else
            bindM (lift_panic ''Cannot build a bookmark from an unknown room type.''
                     (bookmark_type_from (ri_type (r_info room)))) (\<lambda>t.
            if bm_type b \<noteq> t \<or> Some (bm_name b) \<noteq> rd_name (r_details room)
            then return (ResaveBookmark r) else return KeepBookmark))
      | Inr None \<Rightarrow> return KeepBookmark
      | Inl error \<Rightarrow>
          if (is_gone_err (sv_parse_jid sv) error \<or> is_registration_required_err error) \<and>
             \<not> is_in_sidebar (bm_sidebar_state b)
          then return (DropBookmark (into_bare (bm_jid b)))
          else return KeepBookmark)"

fun run_bookmark_update :: "services \<Rightarrow> bookmark_update \<Rightarrow> unit prog" where
  "run_bookmark_update sv KeepBookmark = return ()"
| "run_bookmark_update sv (ResaveBookmark r) = save_bookmark_for_room sv r"
| "run_bookmark_update sv (MoveBookmark r j) = thenM (save_bookmark_for_room sv r) (delete_bookmark sv j)"
| "run_bookmark_update sv (DropBookmark j) = bindM (delete_room j) (\<lambda>_. delete_bookmark sv j)"

definition extend_items_from_bookmarks :: "nat \<Rightarrow> services \<Rightarrow> bookmark list \<Rightarrow> decryption_context \<Rightarrow> unit prog" where
  "extend_items_from_bookmarks fuel sv bookmarks context =
     bindM connected_account (\<lambda>account.
     bindM connected_user (\<lambda>user.
     bindM (gets (\<lambda>w. repo_get_all (w_rooms w))) (\<lambda>rooms.
     bindM (insert_pending_rooms (build_nickname sv None user) rooms bookmarks False) (\<lambda>rooms_changed.
     thenM (if rooms_changed then dispatch SidebarChanged else return ())
     (bindM (update_sidebar_states rooms bookmarks False []) (\<lambda>(rooms_changed, to_join).
     thenM (if rooms_changed then dispatch SidebarChanged else return ())
     (bindM (mapM (join_bookmarked_room fuel sv context) to_join) (\<lambda>results.
     bindM (mapM (bookmark_update_for sv) results) (\<lambda>updates.
     for_each (run_bookmark_update sv) updates)))))))))"

definition populate_sidebar :: "nat \<Rightarrow> services \<Rightarrow> decryption_context \<Rightarrow> unit prog" where
  "populate_sidebar fuel sv context =
     bindM (call (sv_load_bookmarks sv)) (\<lambda>r.
     bindM (lift_any r) (\<lambda>bookmarks.
     extend_items_from_bookmarks fuel sv bookmarks context))"

section \<open>Actions of the user\<close>

definition insert_item_by_creating_or_joining_room :: "nat \<Rightarrow> services \<Rightarrow> room_request \<Rightarrow> room_id prog" where
  "insert_item_by_creating_or_joining_room fuel sv rq =
     (let finish = (\<lambda>r.
        bindM (read_room r) (\<lambda>room.
        thenM (if \<not> is_in_sidebar (rd_sidebar_state (r_details room)) then set_sidebar_state r InSidebar
               else return ())
        (thenM (save_bookmark_for_room sv r)
        (thenM (dispatch SidebarChanged)
        (return (ri_room_id (r_info room)))))))
      in
        bindM (attempt (create_or_join_room fuel sv rq InSidebar)) (\<lambda>result.
        case result of
          Inr r \<Rightarrow> finish r
        | Inl error \<Rightarrow>
            (case error of
               RoomIsAlreadyConnected room_id \<Rightarrow>
                 bindM connected_account (\<lambda>_.
                 bindM (get_room (into_bare room_id)) (\<lambda>found.
                 case found of
                   None \<Rightarrow> throw (Anyhow ''Failed to join room. Please try again.'')
                 | Some r \<Rightarrow>
                     bindM (read_room r) (\<lambda>room.
                     if is_in_sidebar (rd_sidebar_state (r_details room)) then return room_id
                     else thenM (set_sidebar_state r InSidebar) (finish r))))
             | _ \<Rightarrow> throw error)))"

definition destroy_room :: "services \<Rightarrow> muc_id \<Rightarrow> unit prog" where
  "destroy_room sv room_id =
     bindM connected_account (\<lambda>_.
     bindM (get_room (muc_jid room_id)) (\<lambda>found.
     if found = None then return ()
     else
       bindM (attempt (request (DestroyRoom room_id None) (sv_destroy_room sv room_id None))) (\<lambda>result.
       thenM
         (case result of
            Inr _ \<Rightarrow> return ()
          | Inl err \<Rightarrow> if is_gone_err (sv_parse_jid sv) err then return () else throw err)
       (bindM (delete_room (muc_jid room_id)) (\<lambda>_.
       thenM (delete_bookmark sv (muc_jid room_id))
       (dispatch SidebarChanged))))))"

definition rename_item :: "services \<Rightarrow> muc_id \<Rightarrow> string \<Rightarrow> unit prog" where
  "rename_item sv room_id name =
     bindM (with_context ''Cannot rename room.'' (try_get_room (muc_jid room_id))) (\<lambda>r.
     bindM (read_room r) (\<lambda>room.
     let current_name = rd_name (r_details room)
     in
       if sv_lowercase sv (case current_name of Some n \<Rightarrow> n | None \<Rightarrow> []) = sv_lowercase sv name then return ()
       else
         thenM (set_name r (Some name))
         (bindM (attempt (rename_room sv room_id name)) (\<lambda>result.
         case result of
           Inl err \<Rightarrow> thenM (set_name r current_name) (throw err)
         | Inr _ \<Rightarrow> thenM (save_bookmark_for_room sv r) (dispatch SidebarChanged)))))"

definition toggle_item_is_favorite :: "services \<Rightarrow> room_id \<Rightarrow> unit prog" where
  "toggle_item_is_favorite sv room_id =
     bindM (with_context (''Cannot toggle favorite status of room '' @ [CHR 0x27] @ show_room_id room_id @ [CHR 0x27])
              (try_get_room (into_bare room_id))) (\<lambda>r.
     bindM (read_room r) (\<lambda>room.
     let toggle = (\<lambda>st. thenM (set_sidebar_state r st)
                          (thenM (save_bookmark_for_room sv r) (dispatch SidebarChanged)))
     in
       case rd_sidebar_state (r_details room) of
         NotInSidebar \<Rightarrow> return ()
       | InSidebar \<Rightarrow> toggle Favorite
       | Favorite \<Rightarrow> toggle InSidebar))"

definition reconfigure_item_with_spec :: "nat \<Rightarrow> services \<Rightarrow> muc_id \<Rightarrow> room_spec \<Rightarrow> string \<Rightarrow> unit prog" where
  "reconfigure_item_with_spec fuel sv room_id spec new_name =
     bindM (reconfigure_room_with_spec fuel sv room_id spec new_name) (\<lambda>r.
     bindM (read_room r) (\<lambda>room.
     thenM (dispatch SidebarChanged)
     (thenM (if Some room_id \<noteq> room_muc_id (ri_room_id (r_info room))
             then delete_bookmark sv (muc_jid room_id) else return ())
     (save_bookmark_for_room sv r))))"

text \<open>The loop of \<^verbatim>\<open>remove_items\<close>; \<open>False\<close> is its early return.\<close>

fun remove_items_loop :: "services \<Rightarrow> room_id list \<Rightarrow> bool prog" where
  "remove_items_loop sv [] = return True"
| "remove_items_loop sv (room_id # ids) =
     bindM (get_room (into_bare room_id)) (\<lambda>found.
     case found of
       None \<Rightarrow> return False
     | Some r \<Rightarrow>
         thenM (disconnect_and_delete_room sv r)
         (bindM (read_room r) (\<lambda>room.
         thenM
           (if ri_type (r_info room) = Group \<or> ri_type (r_info room) = PrivateChannel then
              thenM (set_sidebar_state r NotInSidebar) (save_bookmark_for_room sv r)
            else if ri_type (r_info room) = UnknownRoom then return ()
            else delete_bookmark sv (into_bare room_id))
         (remove_items_loop sv ids))))"

definition remove_items :: "services \<Rightarrow> room_id list \<Rightarrow> unit prog" where
  "remove_items sv room_ids =
     bindM connected_account (\<lambda>_.
     bindM (remove_items_loop sv room_ids) (\<lambda>completed.
     if completed then dispatch SidebarChanged else return ()))"

section \<open>Events from the server\<close>

definition handle_received_message :: "nat \<Rightarrow> services \<Rightarrow> room_id \<Rightarrow> message_like \<Rightarrow> unit prog" where
  "handle_received_message fuel sv room_id message =
     bindM connected_account (\<lambda>account.
     bindM
       (case ml_from message of
          POccupant _ \<Rightarrow> try_get_room (into_bare room_id)
        | PUser _ \<Rightarrow>
            bindM (get_room (into_bare room_id)) (\<lambda>found.
            case found of
              Some r \<Rightarrow> return r
            | None \<Rightarrow>
                bindM (lift_panic ''UserId without node'' (user_id_from (into_bare room_id))) (\<lambda>u.
                create_or_join_room fuel sv (JoinDirectMessage u None) NotInSidebar))) (\<lambda>r.
     thenM (set_needs_update_statistics r)
     (bindM (read_room r) (\<lambda>room.
     if ri_type (r_info room) \<noteq> DirectMessage \<and> ri_type (r_info room) \<noteq> Group then dispatch SidebarChanged
     else
       thenM (if \<not> is_in_sidebar (rd_sidebar_state (r_details room))
              then thenM (set_sidebar_state r InSidebar) (save_bookmark_for_room sv r) else return ())
       (dispatch SidebarChanged)))))"

definition handle_removed_items :: "services \<Rightarrow> bare_jid list \<Rightarrow> unit prog" where
  "handle_removed_items sv room_ids =
     bindM connected_account (\<lambda>_.
     thenM (for_each (\<lambda>i.
        bindM (get_room i) (\<lambda>found.
        case found of None \<Rightarrow> return () | Some r \<Rightarrow> disconnect_and_delete_room sv r)) room_ids)
     (dispatch SidebarChanged))"

definition handle_remote_purge :: "services \<Rightarrow> unit prog" where
  "handle_remote_purge sv =
     bindM connected_account (\<lambda>_.
     bindM delete_all_rooms (\<lambda>rooms.
     thenM (for_each (\<lambda>r.
        bindM (read_room r) (\<lambda>room.
        bindM (room_occupant_id sv room) (\<lambda>oc.
        case oc of
          Some occupant_id \<Rightarrow> request (ExitRoom occupant_id) (sv_exit_room sv occupant_id)
        | None \<Rightarrow> return ()))) rooms)
     (dispatch SidebarChanged)))"

text \<open>What follows a destroyed room: the bookmark of the old room goes, the alternate is joined.\<close>

definition join_alternate_room :: "nat \<Rightarrow> services \<Rightarrow> muc_id \<Rightarrow> muc_id \<Rightarrow> room_ref \<Rightarrow> unit prog" where
  "join_alternate_room fuel sv room_id alternate old =
     thenM (delete_bookmark sv (muc_jid room_id))
     (bindM (read_room old) (\<lambda>room.
     bindM (attempt (create_or_join_room fuel sv (Join alternate None system_initiated None)
              (rd_sidebar_state (r_details room)))) (\<lambda>result.
     thenM (case result of Inr r \<Rightarrow> save_bookmark_for_room sv r | Inl _ \<Rightarrow> return ())
     (dispatch SidebarChanged))))"

definition handle_destroyed_room :: "nat \<Rightarrow> services \<Rightarrow> muc_id \<Rightarrow> muc_id option \<Rightarrow> unit prog" where
  "handle_destroyed_room fuel sv room_id alternate_room =
     bindM connected_account (\<lambda>_.
     case alternate_room of
       None \<Rightarrow>
         bindM (get_room (muc_jid room_id)) (\<lambda>found.
         case found of
           None \<Rightarrow> return ()
         | Some r \<Rightarrow>
             thenM (set_state r (Disconnected (Some ''This room has been destroyed.'') False))
             (dispatch SidebarChanged))
     | Some alternate \<Rightarrow>
         bindM (delete_room (muc_jid room_id)) (\<lambda>deleted.
         case deleted of
           None \<Rightarrow> return ()
         | Some old \<Rightarrow>
             bindM (get_room (muc_jid alternate)) (\<lambda>found.
             if found \<noteq> None then delete_bookmark sv (muc_jid alternate)
             else
               bindM (read_room old) (\<lambda>room.
               bindM (lift_panic ''Cannot build a bookmark from an unknown room type.''
                        (bookmark_type_from (ri_type (r_info room)))) (\<lambda>t.
               bindM connected_user (\<lambda>user.
               bindM (lift_panic ''UserId without node''
                        (room_pending
                           \<lparr>bm_name = (case rd_name (r_details room) of
                                         Some n \<Rightarrow> n | None \<Rightarrow> show_room_id (ri_room_id (r_info room))),
                            bm_jid = RMuc alternate, bm_type = t,
                            bm_sidebar_state = rd_sidebar_state (r_details room)\<rparr>
                           (build_nickname sv None user))) (\<lambda>pending.
               bindM (new_room pending) (\<lambda>p.
               bindM (insert_room p) (\<lambda>_.
               thenM (dispatch SidebarChanged)
               (join_alternate_room fuel sv room_id alternate old))))))))))"

definition handle_removal_from_room :: "muc_id \<Rightarrow> bool \<Rightarrow> unit prog" where
  "handle_removal_from_room room_id is_permanent =
     bindM connected_account (\<lambda>_.
     bindM (get_room (muc_jid room_id)) (\<lambda>found.
     case found of
       None \<Rightarrow> return ()
     | Some r \<Rightarrow>
         thenM (set_state r (Disconnected
                  (Some (''You've been '' @ (if is_permanent then ''permanently'' else ''temporarily'') @
                         '' removed from this room.''))
                  (\<not> is_permanent)))
         (dispatch SidebarChanged)))"

definition handle_changed_room_config :: "services \<Rightarrow> muc_id \<Rightarrow> unit prog" where
  "handle_changed_room_config sv room_id =
     bindM connected_account (\<lambda>_.
     bindM (get_room (muc_jid room_id)) (\<lambda>found.
     case found of
       None \<Rightarrow> return ()
     | Some r \<Rightarrow>
         bindM (read_room r) (\<lambda>former.
         if is_connecting former then return ()
         else
           bindM (reevaluate_room_spec sv room_id) (\<lambda>r'.
           bindM (read_room r') (\<lambda>room.
           if rd_name (r_details room) = rd_name (r_details former) \<and>
              ri_type (r_info room) = ri_type (r_info former)
           then return ()
           else thenM (save_bookmark_for_room sv r') (dispatch SidebarChanged))))))"

definition handle_ping_timer_event :: "nat \<Rightarrow> services \<Rightarrow> unit prog" where
  "handle_ping_timer_event fuel sv =
     bindM connected_account (\<lambda>_.
     bindM (gets (\<lambda>w. repo_get_all (w_rooms w))) (\<lambda>rooms.
     for_each (\<lambda>r.
       bindM (read_room r) (\<lambda>before.
       case ri_room_id (r_info before) of
         RUser _ \<Rightarrow> return ()
       | RMuc room_id \<Rightarrow>
           thenM (ignore_errors (reconnect_room_if_needed fuel sv room_id))
           (bindM (read_room r) (\<lambda>after.
           if rd_state (r_details after) \<noteq> rd_state (r_details before)
           then dispatch SidebarChanged else return ())))) rooms))"

definition handle_disconnect :: "unit prog" where
  "handle_disconnect =
     bindM (attempt connected_account) (\<lambda>a.
     case a of
       Inl _ \<Rightarrow> return ()
     | Inr _ \<Rightarrow>
         bindM (gets (\<lambda>w. repo_get_all (w_rooms w))) (\<lambda>rooms.
         for_each (\<lambda>r. set_state r (Disconnected None True)) rooms))"

definition clear_cache :: "unit prog" where
  "clear_cache = bindM connected_account (\<lambda>_. bindM delete_all_rooms (\<lambda>_. return ()))"

section \<open>The sidebar keeps the rooms in order\<close>

lemma keeps_save_bookmark: "services_keep sv \<Longrightarrow> keeps R (save_bookmark_for_room sv r) (\<lambda>_. {})"
  unfolding save_bookmark_for_room_def
  by (rule keeps_bind0) (auto intro!: keeps_bind0 keeps_simple split: option.split)

lemma keeps_delete_bookmark: "services_keep sv \<Longrightarrow> keeps R (delete_bookmark sv j) (\<lambda>_. {})"
  unfolding delete_bookmark_def by (intro keeps_bind0 keeps_simple)

lemma keeps_try_get_room: "keeps R (try_get_room j) (\<lambda>r. {r})"
  unfolding try_get_room_def
  by (intro keeps_bind0 keeps_simple keeps_bind_found keeps_get_room) (auto intro: keeps_throw keeps_return)

lemma keeps_with_context: "keeps R m Q \<Longrightarrow> keeps R (with_context msg m) Q"
  unfolding with_context_def by (erule keeps_bind_attempt) (auto intro: keeps_throw keeps_return)

lemma keeps_delete_if_connected: "keeps R (delete_if_connected j) (\<lambda>_. {})"
  unfolding delete_if_connected_def
  by (rule keeps_bind_attempt [OF keeps_connected_account]) (auto intro!: keeps_delete_then keeps_simple)

lemma keeps_room_occupant_id: "keeps R (room_occupant_id sv room) (\<lambda>_. {})"
  unfolding room_occupant_id_def by (rule keeps_lift_panic0)

lemmas keeps_sidebar = keeps_simple keeps_save_bookmark keeps_delete_bookmark keeps_delete_if_connected
  keeps_room_occupant_id keeps_ignore_errors

lemma keeps_disconnect_and_delete:
  "services_keep sv \<Longrightarrow> keeps R (disconnect_and_delete_room sv r) (\<lambda>_. {})"
  unfolding disconnect_and_delete_room_def Let_def
  by (rule keeps_bind0 [OF keeps_read_room])
    (auto intro!: keeps_sidebar keeps_bind0 split: room_type.split option.split)

lemma keeps_join_bookmark:
  assumes "services_keep sv"
  shows "keeps R (join_room_identified_by_bookmark_if_needed fuel sv b behavior c) (\<lambda>_. {})"
  unfolding join_room_identified_by_bookmark_if_needed_def
  by (auto intro!: keeps_bind0 keeps_no_result [OF keeps_create_or_join_room] keeps_sidebar assms
      split: room_id.split)

lemma keeps_new_insert:
  assumes "\<And>R x. keeps R (f x) Q"
  shows "keeps R (bindM (new_room room) (\<lambda>r. bindM (insert_room r) f)) Q"
  by (intro keeps_bind_ref keeps_new_room keeps_bind0 [OF keeps_insert_room] assms) simp

lemma keeps_insert_pending: "keeps R (insert_pending_rooms nick rooms bs ch) (\<lambda>_. {})"
proof (induction bs arbitrary: ch R)
  case (Cons b bs)
  then show ?case
    by (auto intro!: keeps_bind0 [OF keeps_gets0] keeps_bind0 [OF keeps_lift_panic0] keeps_new_insert)
qed (simp add: keeps_return0)

lemma keeps_update_states: "keeps R (update_sidebar_states rooms bs ch js) (\<lambda>_. {})"
  by (induction bs arbitrary: ch js)
    (auto intro!: keeps_bind0 keeps_sidebar split: option.split)

lemma keeps_join_bookmarked: "services_keep sv \<Longrightarrow> keeps R (join_bookmarked_room fuel sv c b) (\<lambda>_. {})"
  unfolding join_bookmarked_room_def
  by (rule keeps_bind_attempt [OF keeps_join_bookmark]) (auto intro!: keeps_sidebar split: option.split)

lemma keeps_bookmark_update: "keeps R (bookmark_update_for sv br) (\<lambda>_. {})"
  unfolding bookmark_update_for_def Let_def
  by (auto intro!: keeps_bind0 keeps_sidebar split: sum.split option.split)

lemma keeps_run_update: "services_keep sv \<Longrightarrow> keeps R (run_bookmark_update sv u) (\<lambda>_. {})"
  by (cases u) (auto intro!: keeps_delete_then keeps_sidebar)

lemma keeps_extend:
  assumes "services_keep sv"
  shows "keeps R (extend_items_from_bookmarks fuel sv bs c) (\<lambda>_. {})"
  unfolding extend_items_from_bookmarks_def
  by (auto intro!: keeps_bind0 keeps_sidebar keeps_insert_pending keeps_update_states keeps_mapM
      keeps_join_bookmarked keeps_bookmark_update keeps_for_each keeps_run_update assms)

lemma keeps_populate: "services_keep sv \<Longrightarrow> keeps R (populate_sidebar fuel sv c) (\<lambda>_. {})"
  unfolding populate_sidebar_def by (intro keeps_bind0 keeps_sidebar keeps_extend)

lemma keeps_insert_item:
  assumes "services_keep sv"
  shows "keeps R (insert_item_by_creating_or_joining_room fuel sv rq) (\<lambda>_. {})"
  unfolding insert_item_by_creating_or_joining_room_def Let_def
  by (rule keeps_bind_attempt [OF keeps_create_or_join_room [OF assms]])
    (auto intro!: keeps_bind0 [OF keeps_read_room] keeps_bind0 [OF keeps_connected_account]
      keeps_bind_found [OF keeps_get_room] keeps_sidebar assms split: room_error.split)

lemma keeps_destroy_room:
  assumes "services_keep sv"
  shows "keeps R (destroy_room sv m) (\<lambda>_. {})"
  unfolding destroy_room_def
  by (auto intro!: keeps_bind0 [OF keeps_connected_account] keeps_bind_found [OF keeps_get_room]
      keeps_bind_attempt [OF keeps_request] keeps_delete_then keeps_sidebar assms)

lemma keeps_rename_item:
  assumes "services_keep sv"
  shows "keeps R (rename_item sv m n) (\<lambda>_. {})"
  unfolding rename_item_def Let_def
  by (auto intro!: keeps_bind_ref [OF keeps_with_context [OF keeps_try_get_room]] keeps_bind0 [OF keeps_read_room]
      keeps_bind_attempt [OF keeps_rename_room] keeps_sidebar assms)

lemma keeps_toggle:
  assumes "services_keep sv"
  shows "keeps R (toggle_item_is_favorite sv i) (\<lambda>_. {})"
  unfolding toggle_item_is_favorite_def Let_def
  by (auto intro!: keeps_bind_ref [OF keeps_with_context [OF keeps_try_get_room]] keeps_bind0 [OF keeps_read_room]
      keeps_sidebar assms split: room_sidebar_state.split)

lemma keeps_reconfigure_item:
  assumes "services_keep sv"
  shows "keeps R (reconfigure_item_with_spec fuel sv m sp n) (\<lambda>_. {})"
  unfolding reconfigure_item_with_spec_def
  by (auto intro!: keeps_bind0 [OF keeps_no_result [OF keeps_reconfigure]] keeps_bind0 [OF keeps_read_room]
      keeps_sidebar assms)

lemma keeps_remove_items_loop:
  assumes "services_keep sv"
  shows "keeps R (remove_items_loop sv ids) (\<lambda>_. {})"
proof (induction ids arbitrary: R)
  case (Cons i ids)
  show ?case
    by (auto intro!: Cons keeps_bind_found [OF keeps_get_room] keeps_bind0 [OF keeps_read_room]
        keeps_disconnect_and_delete keeps_sidebar assms)
qed (simp add: keeps_return0)

lemma keeps_remove_items: "services_keep sv \<Longrightarrow> keeps R (remove_items sv ids) (\<lambda>_. {})"
  unfolding remove_items_def
  by (intro keeps_bind0 keeps_connected_account keeps_remove_items_loop) (auto intro: keeps_sidebar)

lemma keeps_received_message:
  assumes "services_keep sv"
  shows "keeps R (handle_received_message fuel sv i msg) (\<lambda>_. {})"
proof -
  have "keeps R (case ml_from msg of
          POccupant _ \<Rightarrow> try_get_room (into_bare i)
        | PUser _ \<Rightarrow>
            bindM (get_room (into_bare i)) (\<lambda>found.
            case found of
              Some r \<Rightarrow> return r
            | None \<Rightarrow>
                bindM (lift_panic ''UserId without node'' (user_id_from (into_bare i))) (\<lambda>u.
                create_or_join_room fuel sv (JoinDirectMessage u None) NotInSidebar))) (\<lambda>r. {r})"
    by (cases "ml_from msg")
      (auto intro!: keeps_try_get_room keeps_bind_found [OF keeps_get_room] keeps_return
        keeps_bind0 [OF keeps_lift_panic0] keeps_create_or_join_room assms)
  note keeps_no_result [OF this]
  then show ?thesis
    unfolding handle_received_message_def
    by (auto intro!: keeps_bind0 [OF keeps_connected_account] keeps_bind0 [OF keeps_read_room]
        keeps_sidebar assms elim!: keeps_bind0)
qed

lemma keeps_removed_items: "services_keep sv \<Longrightarrow> keeps R (handle_removed_items sv js) (\<lambda>_. {})"
  unfolding handle_removed_items_def
  by (auto intro!: keeps_bind0 [OF keeps_connected_account] keeps_for_each keeps_bind_found [OF keeps_get_room]
      keeps_disconnect_and_delete keeps_sidebar)

lemma keeps_delete_all_then: "(\<And>x. keeps R (f x) Q) \<Longrightarrow> keeps R (bindM delete_all_rooms f) Q"
  by (rule keeps_bind0 [OF keeps_no_result [OF keeps_delete_all_rooms]])

lemma keeps_remote_purge: "services_keep sv \<Longrightarrow> keeps R (handle_remote_purge sv) (\<lambda>_. {})"
  unfolding handle_remote_purge_def
  by (auto intro!: keeps_bind0 [OF keeps_connected_account] keeps_bind0 [OF keeps_read_room]
      keeps_bind0 [OF keeps_room_occupant_id] keeps_delete_all_then keeps_for_each keeps_sidebar
      split: option.split)

lemma keeps_join_alternate: "services_keep sv \<Longrightarrow> keeps R (join_alternate_room fuel sv m a r) (\<lambda>_. {})"
  unfolding join_alternate_room_def
  by (auto intro!: keeps_bind0 [OF keeps_read_room] keeps_bind_attempt [OF keeps_create_or_join_room] keeps_sidebar)

lemma keeps_destroyed_room: "services_keep sv \<Longrightarrow> keeps R (handle_destroyed_room fuel sv m alt) (\<lambda>_. {})"
  unfolding handle_destroyed_room_def
  by (auto intro!: keeps_bind0 [OF keeps_connected_account] keeps_bind_found [OF keeps_get_room]
      keeps_bind_found [OF keeps_delete_room] keeps_bind0 [OF keeps_read_room] keeps_bind0 [OF keeps_lift_panic0]
      keeps_bind0 [OF keeps_connected_user] keeps_new_insert keeps_join_alternate keeps_sidebar
      split: option.split)

lemma keeps_removal: "keeps R (handle_removal_from_room m perm) (\<lambda>_. {})"
  unfolding handle_removal_from_room_def
  by (auto intro!: keeps_bind0 [OF keeps_connected_account] keeps_bind_found [OF keeps_get_room] keeps_sidebar)

lemma keeps_changed_config: "services_keep sv \<Longrightarrow> keeps R (handle_changed_room_config sv m) (\<lambda>_. {})"
  unfolding handle_changed_room_config_def
  by (auto intro!: keeps_bind0 [OF keeps_connected_account] keeps_bind_found [OF keeps_get_room]
      keeps_bind0 [OF keeps_read_room] keeps_bind0 [OF keeps_no_result [OF keeps_reevaluate]] keeps_sidebar)

lemma keeps_ping_timer: "services_keep sv \<Longrightarrow> keeps R (handle_ping_timer_event fuel sv) (\<lambda>_. {})"
  unfolding handle_ping_timer_event_def
  by (auto intro!: keeps_bind0 [OF keeps_connected_account] keeps_bind0 [OF keeps_gets0] keeps_for_each
      keeps_bind0 [OF keeps_read_room] keeps_reconnect_if_needed keeps_sidebar split: room_id.split)

lemma keeps_disconnect: "keeps R handle_disconnect (\<lambda>_. {})"
  unfolding handle_disconnect_def
  by (auto intro!: keeps_bind_attempt [OF keeps_connected_account] keeps_bind0 [OF keeps_gets0] keeps_for_each
      keeps_sidebar)

lemma keeps_clear_cache: "keeps R clear_cache (\<lambda>_. {})"
  unfolding clear_cache_def
  by (auto intro!: keeps_bind0 [OF keeps_connected_account] keeps_delete_all_then keeps_sidebar)

section \<open>Sessions\<close>

text \<open>The operations of the sidebar with their arguments.\<close>

datatype sidebar_op =
    PopulateSidebar decryption_context
  | ExtendItems "bookmark list" decryption_context
  | InsertItem room_request
  | DestroyItem muc_id
  | RenameItem muc_id string
  | ToggleFavorite room_id
  | ReconfigureItem muc_id room_spec string
  | RemoveItems "room_id list"
  | ReceivedMessage room_id message_like
  | RemovedItems "bare_jid list"
  | RemotePurge
  | DestroyedRoom muc_id "muc_id option"
  | RemovalFromRoom muc_id bool
  | ChangedRoomConfig muc_id
  | PingTimer
  | Disconnect
  | ClearCache

fun run_sidebar_op :: "nat \<Rightarrow> services \<Rightarrow> sidebar_op \<Rightarrow> unit prog" where
  "run_sidebar_op fuel sv (PopulateSidebar c) = populate_sidebar fuel sv c"
| "run_sidebar_op fuel sv (ExtendItems bs c) = extend_items_from_bookmarks fuel sv bs c"
| "run_sidebar_op fuel sv (InsertItem rq) =
     bindM (insert_item_by_creating_or_joining_room fuel sv rq) (\<lambda>_. return ())"
| "run_sidebar_op fuel sv (DestroyItem m) = destroy_room sv m"
| "run_sidebar_op fuel sv (RenameItem m n) = rename_item sv m n"
| "run_sidebar_op fuel sv (ToggleFavorite i) = toggle_item_is_favorite sv i"
| "run_sidebar_op fuel sv (ReconfigureItem m sp n) = reconfigure_item_with_spec fuel sv m sp n"
| "run_sidebar_op fuel sv (RemoveItems ids) = remove_items sv ids"
| "run_sidebar_op fuel sv (ReceivedMessage i msg) = handle_received_message fuel sv i msg"
| "run_sidebar_op fuel sv (RemovedItems js) = handle_removed_items sv js"
| "run_sidebar_op fuel sv RemotePurge = handle_remote_purge sv"
| "run_sidebar_op fuel sv (DestroyedRoom m alt) = handle_destroyed_room fuel sv m alt"
| "run_sidebar_op fuel sv (RemovalFromRoom m perm) = handle_removal_from_room m perm"
| "run_sidebar_op fuel sv (ChangedRoomConfig m) = handle_changed_room_config sv m"
| "run_sidebar_op fuel sv PingTimer = handle_ping_timer_event fuel sv"
| "run_sidebar_op fuel sv Disconnect = handle_disconnect"
| "run_sidebar_op fuel sv ClearCache = clear_cache"

lemma keeps_sidebar_op: "services_keep sv \<Longrightarrow> keeps R (run_sidebar_op fuel sv operation) (\<lambda>_. {})"
  by (cases operation)
    (simp_all add: keeps_populate keeps_extend keeps_bind0 keeps_insert_item keeps_return0 keeps_destroy_room
      keeps_rename_item keeps_toggle keeps_reconfigure_item keeps_remove_items keeps_received_message
      keeps_removed_items keeps_remote_purge keeps_destroyed_room keeps_removal keeps_changed_config
      keeps_ping_timer keeps_disconnect keeps_clear_cache)

section \<open>Properties\<close>

text \<open>What a sequence of operations that keeps the world in order means for the rooms.\<close>

lemma rooms_found:
  assumes ok: "world_ok w'" and ext: "extends w w'"
  shows "(\<forall>j r. repo_get (w_rooms w') j = Some r \<longrightarrow>
            valid r w' \<and> into_bare (ri_room_id (r_info (w_heap w' ! r))) = j) \<and>
    (\<forall>j j' r. repo_get (w_rooms w') j = Some r \<and> repo_get (w_rooms w') j' = Some r \<longrightarrow> j = j') \<and>
    (\<forall>r. valid r w \<longrightarrow> valid r w' \<and> r_info (w_heap w' ! r) = r_info (w_heap w ! r))"
proof -
  have stored: "valid r w' \<and> into_bare (ri_room_id (r_info (w_heap w' ! r))) = j"
    if "repo_get (w_rooms w') j = Some r" for j r
    using repo.get_stored [OF _ that] ok by (auto simp: world_ok_def valid_def room_key_def)
  then have "j = j'" if "repo_get (w_rooms w') j = Some r" "repo_get (w_rooms w') j' = Some r" for j j' r
    using that by metis
  moreover have "valid r w' \<and> r_info (w_heap w' ! r) = r_info (w_heap w ! r)" if "valid r w" for r
    using ext that by (simp add: extends_def valid_def)
  ultimately show ?thesis using stored by blast
qed

text \<open>
  The bookmark of a room describes it: a room whose type is known has a bookmark, and the
  pending room made from that bookmark has the same id, type, name and sidebar state, and the same
  bookmark again. A room that is still connecting for the first time has none.
\<close>

theorem bookmark_roundtrip:
  "(bookmark_try_from room = None \<longleftrightarrow> ri_type (r_info room) = UnknownRoom) \<and>
   (\<forall>b p nick. bookmark_try_from room = Some b \<and> room_pending b nick = Some p \<longrightarrow>
      bookmark_try_from p = Some b \<and>
      ri_room_id (r_info p) = ri_room_id (r_info room) \<and> ri_type (r_info p) = ri_type (r_info room) \<and>
      rd_sidebar_state (r_details p) = rd_sidebar_state (r_details room) \<and>
      (\<forall>n. rd_name (r_details room) = Some n \<longrightarrow> rd_name (r_details p) = Some n) \<and>
      is_pending p)"
  by (cases "ri_type (r_info room)") (auto simp: bookmark_try_from_def room_pending_def is_pending_def)

definition group_room :: room where
  "group_room =
     (room_connecting (RMuc ex_muc) ''alice'' Favorite)
       \<lparr>r_info := (r_info (room_connecting (RMuc ex_muc) ''alice'' Favorite))\<lparr>ri_type := Group\<rparr>\<rparr>"

theorem bookmark_roundtrip_witness:
  "\<exists>b p. bookmark_try_from group_room = Some b \<and> room_pending b ''bob'' = Some p \<and>
     bookmark_try_from p = Some b \<and> ri_type (r_info p) = Group"
proof -
  obtain b where b: "bookmark_try_from group_room = Some b"
    by (simp add: bookmark_try_from_def group_room_def)
  then have "bm_jid b = RMuc ex_muc"
    by (auto simp: bookmark_try_from_def group_room_def room_connecting_def)
  then obtain p where p: "room_pending b ''bob'' = Some p" by (simp add: room_pending_def)
  have "ri_type (r_info group_room) = Group" by (simp add: group_room_def)
  with b p bookmark_roundtrip [of group_room] show ?thesis by metis
qed

subsection \<open>Operations on one room\<close>

lemma connected_account_state: "connected_account w = (Ok a, w') \<Longrightarrow> w' = w"
  by (auto simp: connected_account_def prog_defs split: outcome.splits sum.splits option.splits)

lemma connected_account_cong:
  "connected_account w = (Ok a, w) \<Longrightarrow> w_ctx w' = w_ctx w \<Longrightarrow> connected_account w' = (Ok a, w')"
  by (auto simp: connected_account_def prog_defs split: outcome.splits sum.splits option.splits)

text \<open>A room with another sidebar state.\<close>

definition with_sidebar_state :: "room_sidebar_state \<Rightarrow> room \<Rightarrow> room" where
  "with_sidebar_state st room = room\<lparr>r_details := (r_details room)\<lparr>rd_sidebar_state := st\<rparr>\<rparr>"

lemma bookmark_with_sidebar_state:
  "bookmark_try_from room = Some b \<Longrightarrow>
     bookmark_try_from (with_sidebar_state st room) = Some (b\<lparr>bm_sidebar_state := st\<rparr>)"
  by (cases "ri_type (r_info room)") (auto simp: bookmark_try_from_def with_sidebar_state_def split: option.split)

lemma with_sidebar_state_twice [simp]:
  "with_sidebar_state st (with_sidebar_state st' room) = with_sidebar_state st room"
  "rd_sidebar_state (r_details (with_sidebar_state st room)) = st"
  by (simp_all add: with_sidebar_state_def)

definition flipped :: "room_sidebar_state \<Rightarrow> room_sidebar_state" where
  "flipped st = (if st = InSidebar then Favorite else InSidebar)"

lemma toggle_once:
  assumes "connected_account w = (Ok account, w)" "repo_get (w_rooms w) (into_bare i) = Some r"
    "valid r w" "\<And>b v. sv_save_bookmark sv b v = (reply b, v)"
    "bookmark_try_from (w_heap w ! r) = Some bm" "is_in_sidebar (rd_sidebar_state (r_details (w_heap w ! r)))"
  shows "toggle_item_is_favorite sv i w =
    (let st = flipped (rd_sidebar_state (r_details (w_heap w ! r)))
     in (Ok (), w\<lparr>w_heap := (w_heap w)[r := with_sidebar_state st (w_heap w ! r)],
           w_log := w_log w @ [SaveBookmark (bm\<lparr>bm_sidebar_state := st\<rparr>), Dispatched SidebarChanged]\<rparr>))"
proof -
  have "save_bookmark_for_room sv r (w\<lparr>w_heap := (w_heap w)[r := with_sidebar_state st (w_heap w ! r)]\<rparr>) =
    (Ok (), w\<lparr>w_heap := (w_heap w)[r := with_sidebar_state st (w_heap w ! r)],
       w_log := w_log w @ [SaveBookmark (bm\<lparr>bm_sidebar_state := st\<rparr>)]\<rparr>)" for st
    using assms(3) bookmark_with_sidebar_state [OF assms(5)]
    by (simp add: save_bookmark_for_room_def prog_defs read_room_def valid_def assms(4))
  then show ?thesis
    using assms(1-3,6)
    by (cases "rd_sidebar_state (r_details (w_heap w ! r))")
      (auto simp: toggle_item_is_favorite_def with_context_def try_get_room_def get_room_def read_room_def prog_defs
        set_sidebar_state_def write_room_def write_details_def with_sidebar_state_def dispatch_def flipped_def
        Let_def)
qed

lemma toggle_hidden:
  assumes "connected_account w = (Ok account, w)" "repo_get (w_rooms w) (into_bare i) = Some r"
    "rd_sidebar_state (r_details (w_heap w ! r)) = NotInSidebar"
  shows "toggle_item_is_favorite sv i w = (Ok (), w)"
  using assms
  by (simp add: toggle_item_is_favorite_def with_context_def try_get_room_def get_room_def read_room_def prog_defs)

text \<open>
  Toggling the favourite flag of a room in the sidebar flips it, saves the bookmark of the
  changed room and announces the change once; nothing else changes, and toggling twice gives the
  rooms back as they were. A room that is not in the sidebar is left alone, with no event.
\<close>

theorem toggle_favorite:
  assumes "connected_account w = (Ok account, w)" "repo_get (w_rooms w) (into_bare i) = Some r"
    "valid r w" "\<And>b v. sv_save_bookmark sv b v = (reply b, v)"
    "bookmark_try_from (w_heap w ! r) = Some bm"
  shows
    "case rd_sidebar_state (r_details (w_heap w ! r)) of
       NotInSidebar \<Rightarrow> toggle_item_is_favorite sv i w = (Ok (), w)
     | st \<Rightarrow> (let st' = (if st = InSidebar then Favorite else InSidebar);
               w' = w\<lparr>w_heap := (w_heap w)[r := with_sidebar_state st' (w_heap w ! r)],
                      w_log := w_log w @ [SaveBookmark (bm\<lparr>bm_sidebar_state := st'\<rparr>), Dispatched SidebarChanged]\<rparr>
           in toggle_item_is_favorite sv i w = (Ok (), w') \<and>
              w_heap (snd (toggle_item_is_favorite sv i w')) = w_heap w)"
proof -
  let ?room = "w_heap w ! r"
  let ?w = "\<lambda>st. w\<lparr>w_heap := (w_heap w)[r := with_sidebar_state st ?room],
     w_log := w_log w @ [SaveBookmark (bm\<lparr>bm_sidebar_state := st\<rparr>), Dispatched SidebarChanged]\<rparr>"
  have at: "w_heap (?w st) ! r = with_sidebar_state st ?room" for st using assms(3) by (simp add: valid_def)
  have again: "w_heap (snd (toggle_item_is_favorite sv i (?w st))) =
      (w_heap w)[r := with_sidebar_state (flipped st) ?room]" if "is_in_sidebar st" for st
  proof -
    have "connected_account (?w st) = (Ok account, ?w st)" by (rule connected_account_cong [OF assms(1)]) simp
    moreover have "bookmark_try_from (w_heap (?w st) ! r) = Some (bm\<lparr>bm_sidebar_state := st\<rparr>)"
      unfolding at by (rule bookmark_with_sidebar_state [OF assms(5)])
    moreover have "repo_get (w_rooms (?w st)) (into_bare i) = Some r" "valid r (?w st)"
      using assms(2,3) by (simp_all add: valid_def)
    ultimately have "toggle_item_is_favorite sv i (?w st) =
      (let s = flipped (rd_sidebar_state (r_details (w_heap (?w st) ! r)))
       in (Ok (), (?w st)\<lparr>w_heap := (w_heap (?w st))[r := with_sidebar_state s (w_heap (?w st) ! r)],
             w_log := w_log (?w st) @ [SaveBookmark (bm\<lparr>bm_sidebar_state := st, bm_sidebar_state := s\<rparr>),
               Dispatched SidebarChanged]\<rparr>))"
      by (intro toggle_once [where reply = reply]) (use that assms(3) in \<open>simp_all add: assms(4) valid_def\<close>)
    then show ?thesis unfolding at by (simp add: Let_def)
  qed
  have same: "(w_heap w)[r := with_sidebar_state (rd_sidebar_state (r_details ?room)) ?room] = w_heap w"
    by (simp add: with_sidebar_state_def)
  show ?thesis
  proof (cases "rd_sidebar_state (r_details ?room)")
    case NotInSidebar
    then show ?thesis by (simp add: toggle_hidden [OF assms(1,2)])
  next
    case InSidebar
    with toggle_once [where reply = reply, OF assms] again [of Favorite] same show ?thesis
      by (simp add: flipped_def)
  next
    case Favorite
    with toggle_once [where reply = reply, OF assms] again [of InSidebar] same show ?thesis
      by (simp add: flipped_def)
  qed
qed

definition group_world :: world where
  "group_world =
     \<lparr>w_ctx = ex_context, w_heap = [group_room], w_rooms = [(muc_jid ex_muc, 0)], w_log = []\<rparr>"

lemma group_world_ok: "world_ok group_world"
  by (simp add: world_ok_def group_world_def repo_ok_def room_key_def room_connecting_def group_room_def)

lemma group_world_connected:
  "connected_account group_world = (Ok (AccountId (UserId (BareJid (Some ''alice'') ''prose.org''))), group_world)"
  by (simp add: connected_account_def prog_defs connected_id_def group_world_def ex_context_def ex_user_def
      res_to_user_id_def account_id_from_def user_id_from_def)

lemma group_world_room [simp]:
  "repo_get (w_rooms group_world) (muc_jid ex_muc) = Some 0" "w_heap group_world ! 0 = group_room"
  "valid 0 group_world" "w_log group_world = []"
  by (simp_all add: group_world_def repo_get_def valid_def)

definition group_bookmark :: bookmark where
  "group_bookmark = \<lparr>bm_name = show_bare (muc_jid ex_muc), bm_jid = RMuc ex_muc, bm_type = BGroup,
     bm_sidebar_state = Favorite\<rparr>"

lemma group_room_facts [simp]:
  "bookmark_try_from group_room = Some group_bookmark" "ri_type (r_info group_room) = Group"
  "rd_sidebar_state (r_details group_room) = Favorite" "rd_name (r_details group_room) = None"
  "ri_room_id (r_info group_room) = RMuc ex_muc"
  by (simp_all add: bookmark_try_from_def group_room_def group_bookmark_def room_connecting_def show_room_id_def)

theorem toggle_favorite_witness:
  "w_log (snd (toggle_item_is_favorite quiet_services (RMuc ex_muc) group_world)) =
     [SaveBookmark (group_bookmark\<lparr>bm_sidebar_state := InSidebar\<rparr>), Dispatched SidebarChanged]"
proof -
  have "sv_save_bookmark quiet_services b v = (Inr (), v)" for b v by (simp add: quiet_services_def)
  then show ?thesis
    using toggle_favorite [OF group_world_connected, of "RMuc ex_muc" 0 quiet_services "\<lambda>_. Inr ()" group_bookmark]
    by (simp add: Let_def)
qed

subsection \<open>Removing items\<close>

definition exit_request :: "occupant_id option \<Rightarrow> effect list" where
  "exit_request oc = (case oc of Some x \<Rightarrow> [ExitRoom x] | None \<Rightarrow> [])"

lemma delete_if_connected_run:
  assumes "connected_account w = (Ok account, w)"
  shows "delete_if_connected j w = (Ok (), w\<lparr>w_rooms := snd (repo_delete j (w_rooms w))\<rparr>)"
  by (simp add: delete_if_connected_def delete_room_def prog_defs assms split: prod.split)

lemma disconnect_run:
  assumes "connected_account w = (Ok account, w)" "\<And>x v. sv_exit_room sv x v = (reply x, v)"
    "info_occupant_id (sv_resource sv) (r_info (w_heap w ! r)) = Some oc"
  shows "disconnect_and_delete_room sv r w =
    (let t = ri_type (r_info (w_heap w ! r));
         w' = w\<lparr>w_rooms := snd (repo_delete (room_key (w_heap w) r) (w_rooms w))\<rparr>
     in (Ok (), if t = UnknownRoom then w
           else if t = Group then w\<lparr>w_heap := (w_heap w)[r := with_sidebar_state NotInSidebar (w_heap w ! r)]\<rparr>
           else if t = DirectMessage then w'
           else w'\<lparr>w_log := w_log w @ exit_request oc\<rparr>))"
proof -
  have "ignore_errors (request (ExitRoom x) (sv_exit_room sv x)) v = (Ok (), v\<lparr>w_log := w_log v @ [ExitRoom x]\<rparr>)" for x v
    by (cases "reply x") (simp_all add: ignore_errors_def request_def prog_defs assms(2))
  then show ?thesis
    by (cases "ri_type (r_info (w_heap w ! r))")
      (auto simp: disconnect_and_delete_room_def Let_def prog_defs read_room_def room_key_def
        delete_if_connected_run [OF assms(1)] room_occupant_id_def assms(3) set_sidebar_state_def write_room_def
        write_details_def with_sidebar_state_def exit_request_def split: option.split)
qed

lemma save_bookmark_run:
  assumes "\<And>b v. sv_save_bookmark sv b v = (reply b, v)"
  shows "save_bookmark_for_room sv r w =
    (Ok (), w\<lparr>w_log := w_log w @ map SaveBookmark (case bookmark_try_from (w_heap w ! r) of None \<Rightarrow> [] | Some b \<Rightarrow> [b])\<rparr>)"
  by (simp add: save_bookmark_for_room_def prog_defs read_room_def assms split: option.split)

lemma delete_bookmark_run:
  "(\<And>j v. sv_delete_bookmark sv j v = (reply j, v)) \<Longrightarrow>
     delete_bookmark sv j w = (Ok (), w\<lparr>w_log := w_log w @ [DeleteBookmark j]\<rparr>)"
  by (simp add: delete_bookmark_def prog_defs)

text \<open>
  C18. Removing an item does what its type asks for. A group stays connected and its bookmark is
  saved as hidden, a private channel is left but its bookmark is kept as hidden, and a public or
  generic channel is left and its bookmark deleted; the bookmark of a direct message is deleted and
  nobody is told. In each case the change is announced once, after all this.
\<close>

theorem removed_item:
  assumes "world_ok w" "connected_account w = (Ok account, w)" "repo_get (w_rooms w) (into_bare i) = Some r"
    and "bookmark_try_from (w_heap w ! r) = Some bm"
    and "info_occupant_id (sv_resource sv) (r_info (w_heap w ! r)) = Some oc"
    and "\<And>x v. sv_exit_room sv x v = (exited x, v)" "\<And>b v. sv_save_bookmark sv b v = (saved b, v)"
    "\<And>j v. sv_delete_bookmark sv j v = (deleted j, v)"
  shows "\<exists>w'. remove_items sv [i] w = (Ok (), w') \<and>
    (let t = ri_type (r_info (w_heap w ! r))
     in repo_get (w_rooms w') =
          (if t = Group then repo_get (w_rooms w) else (repo_get (w_rooms w))(into_bare i := None)) \<and>
        w_heap w' =
          (if t \<in> {Group, PrivateChannel} then (w_heap w)[r := with_sidebar_state NotInSidebar (w_heap w ! r)]
           else w_heap w) \<and>
        w_log w' = w_log w @ (if t \<in> {Group, DirectMessage} then [] else exit_request oc) @
          [if t \<in> {Group, PrivateChannel} then SaveBookmark (bm\<lparr>bm_sidebar_state := NotInSidebar\<rparr>)
           else DeleteBookmark (into_bare i),
           Dispatched SidebarChanged])"
proof -
  have r: "r < length (w_heap w)" and key: "room_key (w_heap w) r = into_bare i"
    using repo.get_stored [OF _ assms(3)] assms(1) by (auto simp: world_ok_def)
  note run = disconnect_run [OF assms(2,6,5)] save_bookmark_run [OF assms(7)] delete_bookmark_run [OF assms(8)]
  have bm: "bookmark_try_from (with_sidebar_state NotInSidebar (w_heap w ! r)) =
      Some (bm\<lparr>bm_sidebar_state := NotInSidebar\<rparr>)"
    by (rule bookmark_with_sidebar_state [OF assms(4)])
  have set_state: "set_sidebar_state r NotInSidebar v =
      (Ok (), v\<lparr>w_heap := (w_heap v)[r := with_sidebar_state NotInSidebar (w_heap v ! r)]\<rparr>)" for v
    by (simp add: set_sidebar_state_def write_room_def write_details_def with_sidebar_state_def modify_world_def)
  have info: "r_info (with_sidebar_state st x) = r_info x" for st x by (simp add: with_sidebar_state_def)
  have "ri_type (r_info (w_heap w ! r)) \<noteq> UnknownRoom" using assms(4) by (auto simp: bookmark_try_from_def)
  then show ?thesis
    using r key bm
    by (cases "ri_type (r_info (w_heap w ! r))")
      (simp_all add: remove_items_def prog_defs assms(2,3) get_room_def read_room_def run set_state info Let_def
        repo.delete_get dispatch_def)
qed

theorem removed_item_witness:
  "\<exists>w'. remove_items quiet_services [RMuc ex_muc] group_world = (Ok (), w') \<and>
     repo_get (w_rooms w') (muc_jid ex_muc) = Some 0 \<and>
     w_log w' = [SaveBookmark (group_bookmark\<lparr>bm_sidebar_state := NotInSidebar\<rparr>), Dispatched SidebarChanged]"
proof -
  have "info_occupant_id (sv_resource quiet_services) (r_info (w_heap group_world ! 0)) =
      Some (Some (OccupantId (FullJid (muc_jid ex_muc) (ri_user_nickname (r_info group_room)))))"
    by (simp add: info_occupant_id_def quiet_services_def occupant_id_with_nickname_def)
  moreover have "sv_exit_room quiet_services x v = (Inr (), v)" "sv_save_bookmark quiet_services b v = (Inr (), v)"
    "sv_delete_bookmark quiet_services j v = (Inr (), v)" for x b j v
    by (simp_all add: quiet_services_def)
  ultimately show ?thesis
    using removed_item [OF group_world_ok group_world_connected, of "RMuc ex_muc" 0 group_bookmark quiet_services _
        "\<lambda>_. Inr ()" "\<lambda>_. Inr ()" "\<lambda>_. Inr ()"]
    by (auto simp: Let_def)
qed

text \<open>
  A list of items to remove is processed only up to the first item that is not connected: that
  item, the items after it and the announcement are silently skipped and the call succeeds. When
  the server reports removed bookmarks, in contrast, such an item alone is skipped.
\<close>

theorem missing_item_stops_removal:
  assumes "connected_account w = (Ok account, w)" "repo_get (w_rooms w) (into_bare i) = None"
  shows "remove_items sv (i # is) w = (Ok (), w) \<and>
    handle_removed_items sv (into_bare i # js) w = handle_removed_items sv js w"
  using assms by (simp add: remove_items_def handle_removed_items_def for_each_def prog_defs get_room_def)

theorem missing_item_stops_removal_witness:
  "remove_items quiet_services [RMuc ex_muc', RMuc ex_muc] group_world = (Ok (), group_world)"
proof -
  have "repo_get (w_rooms group_world) (into_bare (RMuc ex_muc')) = None"
    by (simp add: group_world_def repo_get_def ex_muc_def ex_muc'_def)
  then show ?thesis using missing_item_stops_removal [OF group_world_connected] by blast
qed

subsection \<open>Losing the connection\<close>

definition with_state :: "room_state \<Rightarrow> room \<Rightarrow> room" where
  "with_state st room = room\<lparr>r_details := (r_details room)\<lparr>rd_state := st\<rparr>\<rparr>"

lemma for_each_set_state:
  "for_each (\<lambda>r. set_state r st) rs w =
     (Ok (), w\<lparr>w_heap := map (\<lambda>x. if x \<in> set rs then with_state st (w_heap w ! x) else w_heap w ! x)
        [0..<length (w_heap w)]\<rparr>)"
proof (induction rs arbitrary: w)
  case Nil
  then show ?case by (simp add: for_each_def return_def map_nth)
next
  case (Cons r rs)
  let ?w = "w\<lparr>w_heap := write_details r (\<lambda>d. d\<lparr>rd_state := st\<rparr>) (w_heap w)\<rparr>"
  have "for_each (\<lambda>r. set_state r st) (r # rs) w = for_each (\<lambda>r. set_state r st) rs ?w"
    by (simp add: for_each_def prog_defs set_state_def write_room_def)
  also have "\<dots> = (Ok (), w\<lparr>w_heap := map (\<lambda>x. if x \<in> set rs then with_state st (w_heap ?w ! x) else w_heap ?w ! x)
        [0..<length (w_heap w)]\<rparr>)"
    by (simp add: Cons)
  also have "map (\<lambda>x. if x \<in> set rs then with_state st (w_heap ?w ! x) else w_heap ?w ! x) [0..<length (w_heap w)] =
      map (\<lambda>x. if x \<in> set (r # rs) then with_state st (w_heap w ! x) else w_heap w ! x) [0..<length (w_heap w)]"
    by (cases "r < length (w_heap w)")
      (auto simp: with_state_def write_details_def nth_list_update list_update_beyond)
  finally show ?case .
qed

text \<open>
  Losing the connection marks exactly the rooms of the repository as disconnected and ready to
  be joined again, without an error; nothing else about them changes, no room is removed and
  nothing is announced. After a deliberate disconnect, when the client has no connected account,
  nothing happens.
\<close>

theorem disconnect_marks_rooms:
  assumes "world_ok w"
  shows "(\<forall>account. connected_account w = (Ok account, w) \<longrightarrow>
      handle_disconnect w =
        (Ok (), w\<lparr>w_heap := map (\<lambda>r. if \<exists>j. repo_get (w_rooms w) j = Some r
             then with_state (Disconnected None True) (w_heap w ! r) else w_heap w ! r) [0..<length (w_heap w)]\<rparr>)) \<and>
    (\<forall>e. connected_account w = (Err e, w) \<longrightarrow> handle_disconnect w = (Ok (), w))"
proof -
  have "r \<in> set (repo_get_all (w_rooms w)) \<longleftrightarrow> (\<exists>j. repo_get (w_rooms w) j = Some r)" for r
    using repo.get_all_stored assms by (auto simp: world_ok_def)
  then show ?thesis
    by (auto simp: handle_disconnect_def prog_defs for_each_set_state)
qed

theorem disconnect_marks_rooms_witness:
  "w_heap (snd (handle_disconnect group_world)) ! 0 = with_state (Disconnected None True) group_room"
proof -
  have "length (w_heap group_world) = 1" by (simp add: group_world_def)
  moreover have "\<exists>j. repo_get (w_rooms group_world) j = Some 0" using group_world_room(1) by (rule exI)
  ultimately show ?thesis using disconnect_marks_rooms [OF group_world_ok] group_world_connected by simp
qed

text \<open>
  When a room is destroyed with no successor, or the user is removed from it, the room stays in
  the sidebar as disconnected with the matching message. It can be joined again only after a
  temporary removal. For a room that is not connected nothing happens.
\<close>

theorem removal_marks_room:
  assumes "connected_account w = (Ok account, w)"
  shows "case repo_get (w_rooms w) (muc_jid m) of
      None \<Rightarrow> handle_removal_from_room m permanent w = (Ok (), w) \<and> handle_destroyed_room fuel sv m None w = (Ok (), w)
    | Some r \<Rightarrow>
        (let marked = (\<lambda>msg retry. (Ok (), w\<lparr>
               w_heap := (w_heap w)[r := with_state (Disconnected (Some msg) retry) (w_heap w ! r)],
               w_log := w_log w @ [Dispatched SidebarChanged]\<rparr>))
         in handle_removal_from_room m True w =
              marked ''You've been permanently removed from this room.'' False \<and>
            handle_removal_from_room m False w =
              marked ''You've been temporarily removed from this room.'' True \<and>
            handle_destroyed_room fuel sv m None w = marked ''This room has been destroyed.'' False)"
  by (simp add: handle_removal_from_room_def handle_destroyed_room_def prog_defs assms get_room_def set_state_def
      write_room_def write_details_def with_state_def dispatch_def split: option.split)

theorem removal_marks_room_witness:
  "fst (handle_removal_from_room ex_muc True group_world) = Ok () \<and>
   w_log (snd (handle_removal_from_room ex_muc True group_world)) = [Dispatched SidebarChanged]"
  using removal_marks_room [OF group_world_connected, of ex_muc] by (simp add: Let_def)

text \<open>
  When a room is replaced by one that is already connected, the destroyed room is dropped, but
  the bookmark deleted is that of the room that stays: the outdated bookmark of the destroyed room
  is kept, and the sidebar is not told that the room is gone.
\<close>

theorem destroyed_room_with_connected_alternate:
  assumes "connected_account w = (Ok account, w)" "repo_get (w_rooms w) (muc_jid m) = Some r"
    "repo_get (w_rooms w) (muc_jid alternate) = Some r'" "m \<noteq> alternate"
    "\<And>j v. sv_delete_bookmark sv j v = (reply j, v)"
  shows "\<exists>rooms'. handle_destroyed_room fuel sv m (Some alternate) w =
      (Ok (), w\<lparr>w_rooms := rooms', w_log := w_log w @ [DeleteBookmark (muc_jid alternate)]\<rparr>) \<and>
    repo_get rooms' = (repo_get (w_rooms w))(muc_jid m := None)"
proof -
  have ne: "muc_jid alternate \<noteq> muc_jid m" using assms(4) by (metis muc_id.collapse)
  obtain old rooms' where del: "repo_delete (muc_jid m) (w_rooms w) = (old, rooms')" by fastforce
  with repo.delete_old [of "muc_jid m" "w_rooms w"] repo.delete_get [of "muc_jid m" "w_rooms w"] assms(2)
  have "old = Some r" "repo_get rooms' = (repo_get (w_rooms w))(muc_jid m := None)" by simp_all
  with del assms(3) ne show ?thesis
    by (intro exI [of _ rooms']) (simp add: handle_destroyed_room_def prog_defs assms(1) delete_room_def
        get_room_def delete_bookmark_run [OF assms(5)])
qed

definition two_rooms_world :: world where
  "two_rooms_world = group_world\<lparr>w_heap := [group_room, room_connecting (RMuc ex_muc') ''alice'' InSidebar],
     w_rooms := [(muc_jid ex_muc, 0), (muc_jid ex_muc', 1)]\<rparr>"

theorem destroyed_room_with_connected_alternate_witness:
  "w_log (snd (handle_destroyed_room 1 quiet_services ex_muc (Some ex_muc') two_rooms_world)) =
     [DeleteBookmark (muc_jid ex_muc')]"
proof -
  have "connected_account two_rooms_world = (Ok (AccountId (UserId (BareJid (Some ''alice'') ''prose.org''))), two_rooms_world)"
    by (rule connected_account_cong [OF group_world_connected]) (simp add: two_rooms_world_def)
  moreover have "repo_get (w_rooms two_rooms_world) (muc_jid ex_muc) = Some 0"
    "repo_get (w_rooms two_rooms_world) (muc_jid ex_muc') = Some 1"
    by (simp_all add: two_rooms_world_def repo_get_def ex_muc_def ex_muc'_def)
  moreover have "ex_muc \<noteq> ex_muc'" by (simp add: ex_muc_def ex_muc'_def)
  moreover have "sv_delete_bookmark quiet_services j v = (Inr (), v)" for j v by (simp add: quiet_services_def)
  ultimately obtain rooms' where "handle_destroyed_room 1 quiet_services ex_muc (Some ex_muc') two_rooms_world =
      (Ok (), two_rooms_world\<lparr>w_rooms := rooms', w_log := w_log two_rooms_world @ [DeleteBookmark (muc_jid ex_muc')]\<rparr>)"
    using destroyed_room_with_connected_alternate [where reply = "\<lambda>_. Inr ()"] by blast
  then show ?thesis by (simp add: two_rooms_world_def)
qed

end
