(* ===== verification/RoomEvents.thy ===== *)
theory RoomEvents
  imports EventParser StanzaRoundtrips Sidebar
begin

text \<open>
  The handlers of server events about rooms, occupants, users, bookmarks, settings and the connection
  (\<^verbatim>\<open>app/event_handlers/rooms_event_handler.rs\<close>, \<^verbatim>\<open>user_info_event_handler.rs\<close>,
  \<^verbatim>\<open>bookmarks_event_handler.rs\<close>, \<^verbatim>\<open>synced_room_settings_event_handler.rs\<close>,
  \<^verbatim>\<open>connection_event_handler.rs\<close>) and the queue that offers an event to the handlers in turn
  (\<^verbatim>\<open>event_handler_queue.rs\<close>).

  The user info service is called through the fields of \<open>event_services\<close>, with the world as its
  state.
\<close>

section \<open>Services\<close>

record event_services =
  ev_rooms :: services
  ev_now :: "world \<Rightarrow> timestamp"
  ev_user_presence_changed :: "user_or_resource_id \<Rightarrow> presence \<Rightarrow> world \<Rightarrow> (string + unit) \<times> world"
  ev_avatar_changed :: "user_id \<Rightarrow> avatar option \<Rightarrow> world \<Rightarrow> (string + unit) \<times> world"
  ev_profile_changed :: "user_id \<Rightarrow> user_profile option \<Rightarrow> world \<Rightarrow> (string + unit) \<times> world"
  ev_status_changed :: "user_id \<Rightarrow> user_status option \<Rightarrow> world \<Rightarrow> (string + unit) \<times> world"
  ev_nickname_changed :: "user_id \<Rightarrow> string option \<Rightarrow> world \<Rightarrow> (string + unit) \<times> world"
  ev_new_decryption_context :: "world \<Rightarrow> decryption_context \<times> world"

definition with_participants_mut :: "room_ref \<Rightarrow> (participant_list \<Rightarrow> participant_list) \<Rightarrow> unit prog" where
  "with_participants_mut r f = write_room r (\<lambda>d. d\<lparr>rd_participants := f (rd_participants d)\<rparr>)"

definition participants_of :: "room \<Rightarrow> participant_list" where
  "participants_of room = rd_participants (r_details room)"

section \<open>Events about rooms\<close>

definition find_room :: "room_id \<Rightarrow> room_ref prog" where
  "find_room room_id =
     bindM connected_account (\<lambda>_.
     bindM (get_room (into_bare room_id)) (\<lambda>found.
     case found of
       None \<Rightarrow> throw (Anyhow (''Could not find room with id '' @ show_room_id room_id))
     | Some r \<Rightarrow> return r))"

text \<open>The name of a user, where a failed lookup is an error.\<close>

definition lookup_name :: "services \<Rightarrow> user_id \<Rightarrow> string option prog" where
  "lookup_name sv u =
     bindM (call (sv_user_info sv u)) (\<lambda>res.
     bindM (lift_any res) (\<lambda>i. return (cnb_build (user_opt_display_name i))))"

text \<open>Whether the participants changed.\<close>

definition handle_affiliation_changed :: "services \<Rightarrow> room_ref \<Rightarrow> occupant_event \<Rightarrow> room_affiliation \<Rightarrow> bool prog" where
  "handle_affiliation_changed sv r ev aff =
     (let pid = POccupant (oe_occupant_id ev) in
      bindM (read_room r) (\<lambda>before.
      let changed = map_option p_affiliation (pl_get (participants_of before) pid) \<noteq> Some aff in
      thenM (if changed then with_participants_mut r (set_affiliation pid (oe_is_self ev) aff) else return ())
      (bindM (read_room r) (\<lambda>after.
      case (oe_real_id ev, pl_get (participants_of after) pid) of
        (Some real_id, Some p) \<Rightarrow>
          (if p_real_id p \<noteq> None then return changed
           else
             bindM (lookup_name sv real_id) (\<lambda>name.
             thenM (with_participants_mut r (set_ids_and_name pid (Some real_id) (oe_anon_occupant_id ev) name))
             (return True)))
      | _ \<Rightarrow> return changed))))"

definition handle_disconnected_by_server :: "room_ref \<Rightarrow> occupant_event \<Rightarrow> bool prog" where
  "handle_disconnected_by_server r ev =
     thenM (with_participants_mut r (set_availability (POccupant (oe_occupant_id ev)) (oe_is_self ev) Unavailable))
     (thenM (if oe_is_self ev then handle_removal_from_room (occ_muc_id (oe_occupant_id ev)) False else return ())
     (return True))"

definition handle_permanently_removed :: "room_ref \<Rightarrow> occupant_event \<Rightarrow> bool prog" where
  "handle_permanently_removed r ev =
     thenM (with_participants_mut r (pl_remove (POccupant (oe_occupant_id ev))))
     (if oe_is_self ev
      then thenM (handle_removal_from_room (occ_muc_id (oe_occupant_id ev)) True) (return False)
      else return True)"

definition handle_occupant_event :: "services \<Rightarrow> occupant_event \<Rightarrow> unit prog" where
  "handle_occupant_event sv ev =
     bindM (find_room (RMuc (occ_muc_id (oe_occupant_id ev)))) (\<lambda>r.
     bindM
       (case oe_type ev of
          AffiliationChanged aff \<Rightarrow> handle_affiliation_changed sv r ev aff
        | DisconnectedByServer \<Rightarrow> handle_disconnected_by_server r ev
        | PermanentlyRemoved \<Rightarrow> handle_permanently_removed r ev)
       (\<lambda>changed. if changed then dispatch_room r ParticipantsChanged else return ()))"

definition handle_room_event :: "nat \<Rightarrow> services \<Rightarrow> room_event \<Rightarrow> unit prog" where
  "handle_room_event fuel sv ev =
     (case rme_type ev of
        Destroyed replacement \<Rightarrow> handle_destroyed_room fuel sv (rme_room_id ev) replacement
      | RoomConfigChanged \<Rightarrow> handle_changed_room_config sv (rme_room_id ev)
      | RoomTopicChanged new_topic \<Rightarrow>
          bindM (find_room (RMuc (rme_room_id ev))) (\<lambda>r.
          bindM (read_room r) (\<lambda>room.
          if rd_topic (r_details room) \<noteq> new_topic
          then thenM (set_topic r new_topic) (dispatch_room r AttributesChanged) else return ()))
      | ReceivedInvitation sender password \<Rightarrow>
          bindM (insert_item_by_creating_or_joining_room fuel sv
            (Join (rme_room_id ev) password \<lparr>jb_on_redirect = FollowIfGone, jb_on_failure = RetainOnError\<rparr> None)) (\<lambda>_. return ())
      | UserAdded user aff reason \<Rightarrow>
          bindM (find_room (RMuc (rme_room_id ev))) (\<lambda>r.
          bindM (lookup_name sv user) (\<lambda>name.
          thenM (with_participants_mut r (add_user user False aff name)) (dispatch_room r ParticipantsChanged))))"

text \<open>Whether an event is about us: the participant says so, or else the account.\<close>

definition is_self_event :: "account_id \<Rightarrow> user_endpoint_id \<Rightarrow> room option \<Rightarrow> bool" where
  "is_self_event account user room =
     (case Option.bind room (\<lambda>x. pl_get (participants_of x) (e_to_participant_id user)) of
        Some p \<Rightarrow> p_is_self p
      | None \<Rightarrow> e_to_user_id user = Some (account_user_id account))"

definition handle_presence_changed :: "event_services \<Rightarrow> user_endpoint_id \<Rightarrow> bool \<Rightarrow> room_ref option \<Rightarrow> presence \<Rightarrow> unit prog" where
  "handle_presence_changed ev user is_self found p =
     bindM
       (case found of
          None \<Rightarrow> return False
        | Some r \<Rightarrow>
            thenM (with_participants_mut r (set_presence (e_to_participant_id user) is_self p))
            (bindM (read_room r) (\<lambda>room.
            if is_in_sidebar (rd_sidebar_state (r_details room))
            then thenM (if is_occupant_id user then dispatch_room r ParticipantsChanged else return ()) (return True)
            else return False)))
       (\<lambda>room_changed.
       case e_to_user_or_resource_id user of
         None \<Rightarrow> return ()
       | Some i \<Rightarrow>
           bindM (call (ev_user_presence_changed ev i p)) (\<lambda>res.
           bindM (lift_any res) (\<lambda>_.
           if is_self then return ()
           else if room_changed then dispatch SidebarChanged else return ())))"

definition handle_compose_state_changed :: "event_services \<Rightarrow> user_endpoint_id \<Rightarrow> bool \<Rightarrow> room_ref option \<Rightarrow> compose_state \<Rightarrow> unit prog" where
  "handle_compose_state_changed ev user is_self found st =
     (case found of
        None \<Rightarrow> return ()
      | Some r \<Rightarrow>
          bindM (gets (ev_now ev)) (\<lambda>now.
          thenM (with_participants_mut r (set_compose_state (e_to_participant_id user) now st))
          (if is_self then return () else dispatch_room r ComposingUsersChanged)))"

definition handle_user_status_event :: "event_services \<Rightarrow> user_status_event \<Rightarrow> unit prog" where
  "handle_user_status_event ev e =
     bindM connected_account (\<lambda>account.
     bindM (get_room (into_bare (e_to_room_id (use_user_id e)))) (\<lambda>found.
     bindM (case found of None \<Rightarrow> return None | Some r \<Rightarrow> bindM (read_room r) (\<lambda>room. return (Some room))) (\<lambda>room.
     let is_self = is_self_event account (use_user_id e) room in
     case use_type e of
       PresenceChanged p \<Rightarrow> handle_presence_changed ev (use_user_id e) is_self found p
     | ComposeStateChanged st \<Rightarrow> handle_compose_state_changed ev (use_user_id e) is_self found st)))"

text \<open>A handler returns the event if it leaves it to the handlers after it.\<close>

type_synonym 'e handler = "'e server_event \<Rightarrow> 'e server_event option prog"

definition rooms_event_handler :: "nat \<Rightarrow> event_services \<Rightarrow> 'e handler" where
  "rooms_event_handler fuel ev event =
     (case event of
        OccupantEv e \<Rightarrow> thenM (handle_occupant_event (ev_rooms ev) e) (return None)
      | RoomEv e \<Rightarrow> thenM (handle_room_event fuel (ev_rooms ev) e) (return None)
      | UserStatusEv e \<Rightarrow> thenM (handle_user_status_event ev e) (return None)
      | ConnectionEv SPingTimer \<Rightarrow>
          thenM (handle_ping_timer_event fuel (ev_rooms ev)) (return (Some (ConnectionEv SPingTimer)))
      | _ \<Rightarrow> return (Some event))"

section \<open>Other events\<close>

definition call_any :: "(world \<Rightarrow> (string + 'a) \<times> world) \<Rightarrow> 'a prog" where
  "call_any f = bindM (call f) lift_any"

definition handle_user_info_event :: "event_services \<Rightarrow> user_info_event \<Rightarrow> unit prog" where
  "handle_user_info_event ev e =
     (case uie_type e of
        UserAvatarChanged md \<Rightarrow>
          (let avatar = avatar_from_metadata (uie_user_id e) md in
           thenM (call_any (ev_avatar_changed ev (uie_user_id e) (Some avatar)))
           (bindM connected_account (\<lambda>_.
           bindM (get_room (user_jid (uie_user_id e))) (\<lambda>found.
           case found of
             None \<Rightarrow> return ()
           | Some r \<Rightarrow>
               thenM (with_participants_mut r (set_avatar (PUser (uie_user_id e)) (Some avatar)))
               (dispatch SidebarChanged)))))
      | ProfileChanged profile \<Rightarrow> call_any (ev_profile_changed ev (uie_user_id e) (Some profile))
      | StatusChanged status \<Rightarrow> call_any (ev_status_changed ev (uie_user_id e) status)
      | NicknameChanged name \<Rightarrow> call_any (ev_nickname_changed ev (uie_user_id e) name))"

definition user_info_event_handler :: "event_services \<Rightarrow> 'e handler" where
  "user_info_event_handler ev event =
     (case event of
        UserInfoEv e \<Rightarrow> thenM (handle_user_info_event ev e) (return None)
      | _ \<Rightarrow> return (Some event))"

definition handle_bookmark_event :: "nat \<Rightarrow> event_services \<Rightarrow> (bare_jid, bookmark) pub_sub_event \<Rightarrow> unit prog" where
  "handle_bookmark_event fuel ev e =
     (case pse_type e of
        AddedOrUpdated bookmarks \<Rightarrow>
          bindM (call (ev_new_decryption_context ev)) (\<lambda>context.
          thenM (extend_items_from_bookmarks fuel (ev_rooms ev) bookmarks context)
          (thenM (tell FinalizeDecryption)
          (bindM (call (sv_finalize_decryption (ev_rooms ev) context)) (\<lambda>_. return ()))))
      | Deleted ids \<Rightarrow> handle_removed_items (ev_rooms ev) ids
      | Purged \<Rightarrow> handle_remote_purge (ev_rooms ev))"

definition bookmarks_event_handler :: "nat \<Rightarrow> event_services \<Rightarrow> 'e handler" where
  "bookmarks_event_handler fuel ev event =
     (case event of
        SidebarBookmarkEv e \<Rightarrow> thenM (handle_bookmark_event fuel ev e) (return None)
      | _ \<Rightarrow> return (Some event))"

definition apply_room_settings :: "synced_room_settings \<Rightarrow> unit prog" where
  "apply_room_settings setting =
     bindM connected_account (\<lambda>_.
     bindM (get_room (into_bare (ss_room_id setting))) (\<lambda>found.
     case found of
       None \<Rightarrow> return ()
     | Some r \<Rightarrow>
         thenM (write_room r (\<lambda>d. d\<lparr>rd_settings := setting\<rparr>)) (set_needs_update_statistics r)))"

definition handle_synced_room_settings_event :: "(room_id, synced_room_settings) pub_sub_event \<Rightarrow> unit prog" where
  "handle_synced_room_settings_event e =
     (case pse_type e of
        AddedOrUpdated settings \<Rightarrow> thenM (for_each apply_room_settings settings) (dispatch SidebarChanged)
      | Deleted _ \<Rightarrow> return ()
      | Purged \<Rightarrow> return ())"

definition synced_room_settings_event_handler :: "'e handler" where
  "synced_room_settings_event_handler event =
     (case event of
        SyncedRoomSettingsEv e \<Rightarrow> thenM (handle_synced_room_settings_event e) (return None)
      | _ \<Rightarrow> return (Some event))"

definition connection_event_handler :: "'e handler" where
  "connection_event_handler event =
     (case event of
        ConnectionEv e \<Rightarrow>
          (case e of
             SConnected \<Rightarrow> return None
           | SDisconnected err \<Rightarrow>
               thenM (modify_world (\<lambda>w. w\<lparr>w_ctx := set_connection_state CDisconnected (w_ctx w)\<rparr>))
               (thenM handle_disconnect
               (thenM (dispatch (ConnectionStatusChanged (connection_event.Disconnect err))) (return None)))
           | SPingTimer \<Rightarrow> return (Some (ConnectionEv SPingTimer)))
      | _ \<Rightarrow> return (Some event))"

section \<open>The queue\<close>

text \<open>An error ends the handling of an event; it is logged.\<close>

fun handle_server_event :: "'e handler list \<Rightarrow> 'e server_event \<Rightarrow> unit prog" where
  "handle_server_event [] event = return ()"
| "handle_server_event (h # hs) event =
     bindM (attempt (h event)) (\<lambda>res.
     case res of
       Inl _ \<Rightarrow> return ()
     | Inr None \<Rightarrow> return ()
     | Inr (Some e) \<Rightarrow> handle_server_event hs e)"

definition handle_event :: "'e xml \<Rightarrow> 'e parser_config \<Rightarrow> 'e handler list \<Rightarrow> 'e xmpp_event \<Rightarrow> unit prog" where
  "handle_event x pc handlers event =
     (case parse_xmpp_event x pc event of
        Ok evs \<Rightarrow> for_each (handle_server_event handlers) evs
      | Err _ \<Rightarrow> return ()
      | Panic msg \<Rightarrow> panic msg
      | NoFuel \<Rightarrow> return ())"


text \<open>The handlers that change rooms, in the order of \<^verbatim>\<open>client_builder.rs\<close>.\<close>

definition room_handlers :: "nat \<Rightarrow> event_services \<Rightarrow> 'e handler list" where
  "room_handlers fuel ev =
     [connection_event_handler, user_info_event_handler ev, rooms_event_handler fuel ev,
      bookmarks_event_handler fuel ev, synced_room_settings_event_handler]"

section \<open>Handling events keeps the rooms in order\<close>

definition event_services_keep :: "event_services \<Rightarrow> bool" where
  "event_services_keep ev \<longleftrightarrow> services_keep (ev_rooms ev) \<and>
     (\<forall>i p. call_keeps (ev_user_presence_changed ev i p)) \<and> (\<forall>u a. call_keeps (ev_avatar_changed ev u a)) \<and>
     (\<forall>u p. call_keeps (ev_profile_changed ev u p)) \<and> (\<forall>u s. call_keeps (ev_status_changed ev u s)) \<and>
     (\<forall>u n. call_keeps (ev_nickname_changed ev u n)) \<and> call_keeps (ev_new_decryption_context ev)"

lemma event_services_keepD:
  assumes "event_services_keep ev"
  shows "services_keep (ev_rooms ev)" "call_keeps (ev_user_presence_changed ev i p)"
    "call_keeps (ev_avatar_changed ev u a)" "call_keeps (ev_profile_changed ev u pr)"
    "call_keeps (ev_status_changed ev u s)" "call_keeps (ev_nickname_changed ev u n)"
    "call_keeps (ev_new_decryption_context ev)"
  using assms by (simp_all add: event_services_keep_def)

lemma keeps_participants: "keeps R (with_participants_mut r f) (\<lambda>_. {})"
  unfolding with_participants_mut_def by (rule keeps_write_room)

lemma keeps_set_topic: "keeps R (set_topic r t) (\<lambda>_. {})"
  unfolding set_topic_def by (rule keeps_write_room)

lemma keeps_find_room: "keeps R (find_room i) (\<lambda>r. {r})"
  unfolding find_room_def
  by (auto intro!: keeps_bind0 [OF keeps_connected_account] keeps_bind_found [OF keeps_get_room] keeps_sidebar)

lemma keeps_lookup_name: "services_keep sv \<Longrightarrow> keeps R (lookup_name sv u) (\<lambda>_. {})"
  unfolding lookup_name_def by (intro keeps_bind0 keeps_simple)

lemma keeps_call_any: "call_keeps f \<Longrightarrow> keeps R (call_any f) (\<lambda>_. {})"
  unfolding call_any_def by (intro keeps_bind0 keeps_simple)

lemmas keeps_events = keeps_sidebar keeps_participants keeps_set_topic keeps_lookup_name keeps_call_any
  keeps_removal keeps_destroyed_room keeps_changed_config keeps_ping_timer keeps_extend keeps_removed_items
  keeps_remote_purge keeps_disconnect event_services_keepD

lemma keeps_occupant_event:
  assumes "services_keep sv"
  shows "keeps R (handle_occupant_event sv ev) (\<lambda>_. {})"
proof -
  have "keeps R' (handle_affiliation_changed sv r ev aff) (\<lambda>_. {})" for R' r aff
    unfolding handle_affiliation_changed_def Let_def
    by (auto intro!: keeps_bind0 [OF keeps_read_room] keeps_bind0 [OF keeps_lookup_name [OF assms]] keeps_events
        split: option.split)
  moreover have "keeps R' (handle_disconnected_by_server r ev) (\<lambda>_. {})"
    "keeps R' (handle_permanently_removed r ev) (\<lambda>_. {})" for R' r
    unfolding handle_disconnected_by_server_def handle_permanently_removed_def by (auto intro!: keeps_events)
  ultimately show ?thesis
    unfolding handle_occupant_event_def
    by (auto intro!: keeps_bind_ref [OF keeps_find_room] keeps_bind0 keeps_sidebar split: occupant_event_type.split)
qed

lemma keeps_room_event:
  assumes "services_keep sv"
  shows "keeps R (handle_room_event fuel sv ev) (\<lambda>_. {})"
  unfolding handle_room_event_def using assms
  by (auto intro!: keeps_bind_ref [OF keeps_find_room] keeps_bind0 [OF keeps_read_room]
      keeps_bind0 [OF keeps_lookup_name] keeps_bind0 [OF keeps_insert_item] keeps_events
      split: server_room_event_type.split)

lemma keeps_presence_changed:
  "event_services_keep ev \<Longrightarrow> keeps R (handle_presence_changed ev u self found p) (\<lambda>_. {})"
  unfolding handle_presence_changed_def
  by (auto intro!: keeps_bind0 keeps_events split: option.split)

lemma keeps_compose_state_changed: "keeps R (handle_compose_state_changed ev u self found st) (\<lambda>_. {})"
  unfolding handle_compose_state_changed_def
  by (auto intro!: keeps_bind0 [OF keeps_gets0] keeps_events split: option.split)

lemma keeps_user_status_event:
  "event_services_keep ev \<Longrightarrow> keeps R (handle_user_status_event ev e) (\<lambda>_. {})"
  unfolding handle_user_status_event_def Let_def
  by (auto intro!: keeps_bind0 [OF keeps_connected_account] keeps_bind0 [OF keeps_no_result [OF keeps_get_room]]
      keeps_bind0 keeps_presence_changed keeps_compose_state_changed keeps_events
      split: user_status_event_type.split option.split)

lemma keeps_user_info_event:
  "event_services_keep ev \<Longrightarrow> keeps R (handle_user_info_event ev e) (\<lambda>_. {})"
  unfolding handle_user_info_event_def Let_def
  by (auto intro!: keeps_bind0 [OF keeps_connected_account] keeps_bind_found [OF keeps_get_room] keeps_events
      split: user_info_event_type.split)

lemma keeps_bookmark_event:
  "event_services_keep ev \<Longrightarrow> keeps R (handle_bookmark_event fuel ev e) (\<lambda>_. {})"
  unfolding handle_bookmark_event_def
  by (auto intro!: keeps_bind0 keeps_events split: pub_sub_event_type.split)

lemma keeps_settings_event: "keeps R (handle_synced_room_settings_event e) (\<lambda>_. {})"
proof -
  have "keeps R (apply_room_settings s) (\<lambda>_. {})" for s
    unfolding apply_room_settings_def
    by (auto intro!: keeps_bind0 [OF keeps_connected_account] keeps_bind_found [OF keeps_get_room] keeps_sidebar
        keeps_write_room)
  then show ?thesis
    unfolding handle_synced_room_settings_event_def
    by (auto intro!: keeps_for_each keeps_sidebar split: pub_sub_event_type.split)
qed

lemma keeps_set_context: "keeps R (modify_world (\<lambda>w. w\<lparr>w_ctx := f (w_ctx w)\<rparr>)) (\<lambda>_. {})"
  by (simp add: keeps_def modify_world_def world_ok_def extends_def)

text \<open>The handlers that change rooms.\<close>

lemma keeps_handlers:
  assumes "event_services_keep ev"
  shows "keeps R (rooms_event_handler fuel ev e) (\<lambda>_. {})" "keeps R (user_info_event_handler ev e) (\<lambda>_. {})"
    "keeps R (bookmarks_event_handler fuel ev e) (\<lambda>_. {})" "keeps R (synced_room_settings_event_handler e) (\<lambda>_. {})"
    "keeps R (connection_event_handler e) (\<lambda>_. {})"
proof -
  note facts = assms event_services_keepD(1) [OF assms]
  show "keeps R (rooms_event_handler fuel ev e) (\<lambda>_. {})"
    unfolding rooms_event_handler_def using facts
    by (auto intro!: keeps_occupant_event keeps_room_event keeps_user_status_event keeps_events
        split: server_event.split server_connection_event.split)
  show "keeps R (user_info_event_handler ev e) (\<lambda>_. {})"
    unfolding user_info_event_handler_def using facts
    by (auto intro!: keeps_user_info_event keeps_events split: server_event.split)
  show "keeps R (bookmarks_event_handler fuel ev e) (\<lambda>_. {})"
    unfolding bookmarks_event_handler_def using facts
    by (auto intro!: keeps_bookmark_event keeps_events split: server_event.split)
  show "keeps R (synced_room_settings_event_handler e) (\<lambda>_. {})"
    unfolding synced_room_settings_event_handler_def
    by (auto intro!: keeps_settings_event keeps_events split: server_event.split)
  show "keeps R (connection_event_handler e) (\<lambda>_. {})"
    unfolding connection_event_handler_def
    by (auto intro!: keeps_set_context keeps_events split: server_event.split server_connection_event.split)
qed

lemma keeps_queue:
  "(\<And>h e. h \<in> set hs \<Longrightarrow> keeps R (h e) (\<lambda>_. {})) \<Longrightarrow> keeps R (handle_server_event hs e) (\<lambda>_. {})"
proof (induction hs arbitrary: e)
  case (Cons h hs)
  then show ?case
    by (auto intro!: keeps_bind_attempt keeps_sidebar split: option.split)
qed (simp add: keeps_return0)

lemma keeps_handle_event:
  "(\<And>h e. h \<in> set hs \<Longrightarrow> keeps R (h e) (\<lambda>_. {})) \<Longrightarrow> keeps R (handle_event x pc hs e) (\<lambda>_. {})"
  unfolding handle_event_def by (auto intro!: keeps_for_each keeps_queue keeps_sidebar split: outcome.split)


section \<open>Properties\<close>

text \<open>
  A presence makes the client panic exactly if a user it names has no node: the sender of a
  presence that is not about a room (such as that of a server or a gateway, whose JID is a domain),
  or the real JID of an occupant. All other presences give events or an error.
\<close>

theorem presence_panics_exact:
  "(\<exists>msg. parse_xmpp_event x pc (XPresence p) = Panic msg) \<longleftrightarrow>
   (\<exists>from. ps_from p = Some from \<and>
      (case presence_muc_user x p of
         None \<Rightarrow> node (jid_into_bare from) = None
       | Some u \<Rightarrow> \<exists>f item items j. from = JFull f \<and> mu_items u = item # items \<and> mu_destroy u = None \<and>
           mi_jid item = Some j \<and> node (to_bare j) = None))"
proof (cases "ps_from p")
  case None
  then show ?thesis by (simp add: parse_xmpp_event_def parse_presence_def missing_attribute_def fail_def throw_def)
next
  case (Some sender)
  show ?thesis
  proof (cases "presence_muc_user x p")
    case None
    with Some show ?thesis
      by (cases sender)
        (auto simp: parse_xmpp_event_def parse_presence_def prog_defs require_user_def require_resource_def
          user_id_from_def user_resource_id_from_def push_event_def split: option.splits)
  next
    case muc: (Some u)
    show ?thesis
    proof (cases sender)
      case (JFull f)
      with Some muc show ?thesis
        by (cases "mu_items u"; cases "mu_destroy u"; cases "mi_jid (hd (mu_items u))")
          (auto simp: parse_xmpp_event_def parse_presence_def parse_muc_presence_def prog_defs require_user_def
            require_full_def user_id_from_def push_event_def missing_element_def fail_def Let_def
            split: option.splits)
    qed (use Some muc in \<open>simp add: parse_xmpp_event_def parse_presence_def parse_muc_presence_def require_full_def
        prog_defs fail_def\<close>)
  qed
qed

lemma set_participants_run:
  "with_participants_mut r f w =
     (Ok (), w\<lparr>w_heap := write_details r (\<lambda>d. d\<lparr>rd_participants := f (rd_participants d)\<rparr>) (w_heap w)\<rparr>)"
  by (simp add: with_participants_mut_def write_room_def modify_world_def)


definition map_participants :: "(participant_list \<Rightarrow> participant_list) \<Rightarrow> room \<Rightarrow> room" where
  "map_participants f room =
     room\<lparr>r_details := (r_details room)\<lparr>rd_participants := f (rd_participants (r_details room))\<rparr>\<rparr>"

lemma write_participants:
  "write_details r (\<lambda>d. d\<lparr>rd_participants := f (rd_participants d)\<rparr>) h = h[r := map_participants f (h ! r)]"
  by (simp add: write_details_def map_participants_def)

lemma map_participants_simps [simp]:
  "rd_sidebar_state (r_details (map_participants f room)) = rd_sidebar_state (r_details room)"
  "rd_state (r_details (map_participants f room)) = rd_state (r_details room)"
  "participants_of (map_participants f room) = f (participants_of room)"
  "r_info (map_participants f room) = r_info room"
  by (simp_all add: map_participants_def participants_of_def)

lemma map_participants_twice: "map_participants f (map_participants g room) = map_participants (f \<circ> g) room"
  by (simp add: map_participants_def)

text \<open>The presence of an occupant changes their entry in the room, and nothing else.\<close>

definition presence_announcement :: "room_ref \<Rightarrow> room \<Rightarrow> effect list" where
  "presence_announcement r room =
     (if is_in_sidebar (rd_sidebar_state (r_details room)) then [DispatchedRoom r ParticipantsChanged] else [])"

lemma occupant_presence_run:
  assumes "connected_account w = (Ok account, w)" "repo_get (w_rooms w) (to_bare f) = Some r" "r < length (w_heap w)"
  shows "\<exists>self. handle_user_status_event ev \<lparr>use_user_id = EOccupant (OccupantId f), use_type = PresenceChanged p\<rparr> w =
    (Ok (), w\<lparr>w_heap := (w_heap w)[r := map_participants (set_presence (POccupant (OccupantId f)) self p) (w_heap w ! r)],
              w_log := w_log w @ presence_announcement r (w_heap w ! r)\<rparr>)"
proof -
  show ?thesis
    using assms
    by (intro exI [of _ "is_self_event account (EOccupant (OccupantId f)) (Some (w_heap w ! r))"])
      (simp add: handle_user_status_event_def bindM_def [of connected_account] occ_muc_id_def get_room_def read_room_def
        prog_defs handle_presence_changed_def set_participants_run write_participants presence_announcement_def
        dispatch_room_def Let_def)
qed

lemma removal_run:
  assumes "connected_account w = (Ok account, w)" "repo_get (w_rooms w) (to_bare f) = Some r" "r < length (w_heap w)"
    "oe_type e = PermanentlyRemoved" "oe_occupant_id e = OccupantId f"
  shows "handle_occupant_event sv e w =
    (Ok (), w\<lparr>w_heap := (w_heap w)[r :=
        (if oe_is_self e
         then with_state (Disconnected (Some ''You've been permanently removed from this room.'') False) else id)
          (map_participants (pl_remove (POccupant (OccupantId f))) (w_heap w ! r))],
      w_log := w_log w @ [if oe_is_self e then Dispatched SidebarChanged else DispatchedRoom r ParticipantsChanged]\<rparr>)"
proof -
  have room: "into_bare (RMuc (occ_muc_id (OccupantId f))) = to_bare f" "muc_jid (occ_muc_id (OccupantId f)) = to_bare f"
    by (simp_all add: occ_muc_id_def)
  have account: "connected_account (w\<lparr>w_heap := h\<rparr>) = (Ok account, w\<lparr>w_heap := h\<rparr>)" for h
    using connected_account_cong [OF assms(1)] by simp
  show ?thesis
    using assms
    by (simp add: handle_occupant_event_def find_room_def bindM_def [of connected_account] room get_room_def
        prog_defs handle_permanently_removed_def set_participants_run write_participants
        handle_removal_from_room_def account set_state_def write_room_def write_details_def with_state_def
        dispatch_def dispatch_room_def)
qed


lemma queue_reaches_rooms:
  "handle_server_event (room_handlers fuel ev) (OccupantEv e) w =
     bindM (attempt (handle_occupant_event (ev_rooms ev) e)) (\<lambda>_. return ()) w"
  "handle_server_event (room_handlers fuel ev) (UserStatusEv us) w =
     bindM (attempt (handle_user_status_event ev us)) (\<lambda>_. return ()) w"
  by (auto simp: room_handlers_def connection_event_handler_def user_info_event_handler_def rooms_event_handler_def
      prog_defs split: prod.split outcome.split)

lemma parse_removal:
  assumes "ps_from p = Some (JFull f)" "presence_muc_user x p = Some u" "mu_items u = item # items" "mu_destroy u = None"
    "presence_availability p = Unavailable" "\<exists>s \<in> set (mu_status u). is_permanent_removal s"
    "pred_option (\<lambda>j. node (to_bare j) \<noteq> None) (mi_jid item)"
  shows "\<exists>pr e. parse_xmpp_event x pc (XPresence p) =
     Ok [UserStatusEv \<lparr>use_user_id = EOccupant (OccupantId f), use_type = PresenceChanged pr\<rparr>, OccupantEv e] \<and>
     oe_type e = PermanentlyRemoved \<and> oe_occupant_id e = OccupantId f \<and>
     (oe_is_self e \<longleftrightarrow> SelfPresence \<in> set (mu_status u))"
proof -
  have "find is_permanent_removal (mu_status u) \<noteq> None" using assms(6) by (auto simp: find_None_iff)
  then have "occupant_event_for (presence_availability p) u item = Some PermanentlyRemoved"
    using assms(5) by (simp add: occupant_event_for_def)
  with assms show ?thesis
    by (cases "mi_jid item")
      (auto simp: parse_xmpp_event_def parse_presence_def parse_muc_presence_def require_full_def require_user_def
        user_id_from_def push_event_def prog_defs Let_def)
qed

text \<open>
  C19. When the server reports that an occupant other than the user was kicked, banned or otherwise removed from
  a room for good, their entry is removed from the participants of the room, all other entries stay, the room is
  otherwise as before and the participants are announced.
\<close>

theorem kicked_occupant_removed:
  assumes "ps_from p = Some (JFull f)" "presence_muc_user x p = Some u" "mu_items u = item # items" "mu_destroy u = None"
    "presence_availability p = Unavailable" "\<exists>s \<in> set (mu_status u). is_permanent_removal s"
    "pred_option (\<lambda>j. node (to_bare j) \<noteq> None) (mi_jid item)" "SelfPresence \<notin> set (mu_status u)"
    and w: "connected_account w = (Ok account, w)" "repo_get (w_rooms w) (to_bare f) = Some r" "world_ok w"
  shows "\<exists>pl. handle_event x pc (room_handlers fuel ev) (XPresence p) w =
      (Ok (), w\<lparr>w_heap := (w_heap w)[r := map_participants (\<lambda>_. pl) (w_heap w ! r)],
        w_log := w_log w @ presence_announcement r (w_heap w ! r) @ [DispatchedRoom r ParticipantsChanged]\<rparr>) \<and>
    pl_get pl = (pl_get (participants_of (w_heap w ! r)))(POccupant (OccupantId f) := None)"
proof -
  obtain pr e where parsed: "parse_xmpp_event x pc (XPresence p) =
     Ok [UserStatusEv \<lparr>use_user_id = EOccupant (OccupantId f), use_type = PresenceChanged pr\<rparr>, OccupantEv e]"
    and e: "oe_type e = PermanentlyRemoved" "oe_occupant_id e = OccupantId f" "\<not> oe_is_self e"
    using parse_removal [OF assms(1-7)] assms(8) by blast
  have r: "r < length (w_heap w)" using repo.get_stored [OF _ w(2)] w(3) by (auto simp: world_ok_def)
  obtain me where first: "handle_user_status_event ev
      \<lparr>use_user_id = EOccupant (OccupantId f), use_type = PresenceChanged pr\<rparr> w = (Ok (), w\<lparr>
        w_heap := (w_heap w)[r := map_participants (set_presence (POccupant (OccupantId f)) me pr) (w_heap w ! r)],
        w_log := w_log w @ presence_announcement r (w_heap w ! r)\<rparr>)" (is "_ = (_, ?w1)")
    using occupant_presence_run [OF w(1,2) r] by blast
  let ?f = "pl_remove (POccupant (OccupantId f)) \<circ> set_presence (POccupant (OccupantId f)) me pr"
  have "connected_account ?w1 = (Ok account, ?w1)" by (rule connected_account_cong [OF w(1)]) simp
  from removal_run [OF this _ _ e(1,2)] w(2) r e(3)
  have "handle_occupant_event (ev_rooms ev) e ?w1 =
    (Ok (), w\<lparr>w_heap := (w_heap w)[r := map_participants ?f (w_heap w ! r)],
      w_log := w_log w @ presence_announcement r (w_heap w ! r) @ [DispatchedRoom r ParticipantsChanged]\<rparr>)"
    by (simp add: map_participants_twice)
  with first have "handle_event x pc (room_handlers fuel ev) (XPresence p) w =
      (Ok (), w\<lparr>w_heap := (w_heap w)[r := map_participants ?f (w_heap w ! r)],
        w_log := w_log w @ presence_announcement r (w_heap w ! r) @ [DispatchedRoom r ParticipantsChanged]\<rparr>)"
    by (simp add: handle_event_def parsed for_each_def queue_reaches_rooms prog_defs)
  moreover have "map_participants ?f (w_heap w ! r) = map_participants (\<lambda>_. ?f (participants_of (w_heap w ! r))) (w_heap w ! r)"
    by (simp add: map_participants_def participants_of_def)
  moreover have "pl_get (?f (participants_of (w_heap w ! r))) =
      (pl_get (participants_of (w_heap w ! r)))(POccupant (OccupantId f) := None)"
    by (simp add: set_presence_def set_availability_def)
  ultimately show ?thesis by metis
qed

lemma bare_presence_run:
  assumes "connected_account w = (Ok account, w)" "repo_get (w_rooms w) b = Some r" "r < length (w_heap w)"
    "\<And>i q v. ev_user_presence_changed ev i q v = (Inr (), v)"
  shows "\<exists>self w'. handle_user_status_event ev \<lparr>use_user_id = EUser (UserId b), use_type = PresenceChanged p\<rparr> w = (Ok (), w') \<and>
    w_heap w' = (w_heap w)[r := map_participants (set_presence (PUser (UserId b)) self p) (w_heap w ! r)]"
  using assms
  by (intro exI [of _ "is_self_event account (EUser (UserId b)) (Some (w_heap w ! r))"])
    (simp add: handle_user_status_event_def bindM_def [of connected_account] get_room_def read_room_def
      prog_defs handle_presence_changed_def set_participants_run write_participants dispatch_def Let_def)

text \<open>
  A presence that a room sends about itself, such as the one that announces its avatar, is taken
  for that of a user: a participant with the JID of the room and no real id is added to the room.
\<close>

theorem room_presence_adds_ghost:
  assumes "ps_from p = Some (JBare b)" "presence_muc_user x p = None" "node b \<noteq> None"
    "connected_account w = (Ok account, w)" "repo_get (w_rooms w) b = Some r" "world_ok w"
    "pl_get (participants_of (w_heap w ! r)) (PUser (UserId b)) = None"
    "\<And>i q v. ev_user_presence_changed ev i q v = (Inr (), v)"
  shows "\<exists>w' q. handle_event x pc (room_handlers fuel ev) (XPresence p) w = (Ok (), w') \<and>
    pl_get (participants_of (w_heap w' ! r)) (PUser (UserId b)) = Some q \<and> p_real_id q = None \<and>
    p_availability q = presence_availability p"
proof -
  let ?pr = "to_domain_presence x (pc_client pc) p (PUser (UserId b)) None"
  have parsed: "parse_xmpp_event x pc (XPresence p) =
      Ok [UserStatusEv \<lparr>use_user_id = EUser (UserId b), use_type = PresenceChanged ?pr\<rparr>]"
    using assms(1-3)
    by (auto simp: parse_xmpp_event_def parse_presence_def require_user_def user_id_from_def push_event_def prog_defs)
  have r: "r < length (w_heap w)" using repo.get_stored [OF _ assms(5)] assms(6) by (auto simp: world_ok_def)
  obtain self w' where run: "handle_user_status_event ev
      \<lparr>use_user_id = EUser (UserId b), use_type = PresenceChanged ?pr\<rparr> w = (Ok (), w')"
    and heap: "w_heap w' = (w_heap w)[r := map_participants (set_presence (PUser (UserId b)) self ?pr) (w_heap w ! r)]"
    using bare_presence_run [OF assms(4,5) r assms(8)] by blast
  let ?pl = "participants_of (w_heap w' ! r)"
  have pl: "?pl = set_presence (PUser (UserId b)) self ?pr (participants_of (w_heap w ! r))" using heap r by simp
  then obtain q where "pl_get ?pl (PUser (UserId b)) = Some q" "p_real_id q = None"
      "p_availability q = presence_availability p"
    using assms(7)
    by (simp add: set_presence_def set_availability_def Let_def to_domain_presence_def
        default_participant_def pl_get_def [symmetric] split: if_splits)
  then show ?thesis
    using run by (auto simp: handle_event_def parsed for_each_def queue_reaches_rooms prog_defs)
qed


section \<open>Participant lists\<close>

definition lists_ok :: "world \<Rightarrow> bool" where
  "lists_ok w \<longleftrightarrow>
     (\<forall>r m. r < length (w_heap w) \<and> ri_room_id (r_info (w_heap w ! r)) = RMuc m \<longrightarrow>
        muc_list (participants_of (w_heap w ! r)))"

lemma lists_ok_cong: "w_heap w' = w_heap w \<Longrightarrow> lists_ok w' = lists_ok w"
  by (simp add: lists_ok_def)

lemma lists_ok_update:
  assumes "lists_ok w" "r_info room' = r_info (w_heap w ! r)"
    "muc_list (participants_of (w_heap w ! r)) \<Longrightarrow> muc_list (participants_of room')"
  shows "lists_ok (w\<lparr>w_heap := (w_heap w)[r := room']\<rparr>)"
  unfolding lists_ok_def
proof (intro allI impI)
  fix i m
  let ?h = "w_heap (w\<lparr>w_heap := (w_heap w)[r := room']\<rparr>)"
  assume "i < length ?h \<and> ri_room_id (r_info (?h ! i)) = RMuc m"
  with assms show "muc_list (participants_of (?h ! i))" by (cases "i = r") (auto simp: lists_ok_def)
qed

lemma lists_participants:
  "(\<And>pl. muc_list pl \<Longrightarrow> muc_list (f pl)) \<Longrightarrow> preserves lists_ok (with_participants_mut r f)"
  by (auto simp: preserves_def set_participants_run write_participants intro!: lists_ok_update)

lemma lists_write:
  "(\<And>d. rd_participants (f d) = rd_participants d) \<Longrightarrow> preserves lists_ok (write_room r f)"
  by (auto simp: preserves_def write_room_def modify_world_def write_details_def participants_of_def
      intro!: lists_ok_update)

lemma lists_setters:
  "preserves lists_ok (set_state r st)" "preserves lists_ok (set_topic r t)"
  by (simp_all add: set_state_def set_topic_def lists_write)

lemma lists_dispatch: "preserves lists_ok (dispatch e)" "preserves lists_ok (dispatch_room r re)"
  by (simp_all add: preserves_def dispatch_def dispatch_room_def tell_def modify_world_def lists_ok_def)

lemma lists_access:
  "preserves I connected_account" "preserves I (get_room j)" "preserves I (read_room r)" "preserves I (find_room i)"
proof -
  show account: "preserves I connected_account" for I
    unfolding connected_account_def by (intro preserves_bind preserves_pure)
  show room: "preserves I (get_room j)" "preserves I (read_room r)" for I j r
    by (simp_all add: get_room_def read_room_def preserves_pure)
  show "preserves I (find_room i)"
    unfolding find_room_def
    by (intro preserves_bind account room) (simp split: option.split, simp add: preserves_pure)
qed

lemmas lists_intros = preserves_bind preserves_then preserves_pure lists_setters lists_dispatch lists_access

lemma lists_lookup_name:
  "(\<And>w. lists_ok w \<Longrightarrow> lists_ok (snd (sv_user_info sv u w))) \<Longrightarrow> preserves lists_ok (lookup_name sv u)"
  unfolding lookup_name_def by (intro lists_intros preserves_call)

lemma lists_removal: "preserves lists_ok (handle_removal_from_room m permanent)"
  unfolding handle_removal_from_room_def by (auto intro!: lists_intros split: option.split)

lemma lists_occupant_event:
  assumes "\<And>u w. lists_ok w \<Longrightarrow> lists_ok (snd (sv_user_info sv u w))"
  shows "preserves lists_ok (handle_occupant_event sv e)"
  unfolding handle_occupant_event_def handle_affiliation_changed_def handle_disconnected_by_server_def
    handle_permanently_removed_def Let_def using assms
  by (auto intro!: lists_intros lists_participants lists_removal lists_lookup_name muc_affiliation muc_ids
      muc_availability muc_remove split: occupant_event_type.split option.split)

text \<open>The events about the occupants of rooms and about users added to a room.\<close>

fun about_occupants :: "'e server_event \<Rightarrow> bool" where
  "about_occupants (OccupantEv _) = True"
| "about_occupants (UserStatusEv e) = is_occupant_id (use_user_id e)"
| "about_occupants (RoomEv e) = (case rme_type e of RoomTopicChanged _ \<Rightarrow> True | UserAdded _ _ _ \<Rightarrow> True | _ \<Rightarrow> False)"
| "about_occupants _ = False"

text \<open>
  Events about occupants keep the participants of every multi-user room in order: whatever event
  about an occupant, a topic or an added user is handled, whichever way it ends, the lists stay such
  as entering a room and changing occupants make them, so no member is listed twice and anonymous ids
  lead to their carrier.
\<close>

theorem occupant_events_keep_lists:
  assumes "\<And>u w. lists_ok w \<Longrightarrow> lists_ok (snd (sv_user_info (ev_rooms ev) u w))" "about_occupants e" "lists_ok w"
  shows "lists_ok (snd (rooms_event_handler fuel ev e w))"
proof -
  have "preserves lists_ok (handle_user_status_event ev us)" if occ: "is_occupant_id (use_user_id us)" for us
  proof -
    obtain oc where "use_user_id us = EOccupant oc" using occ by (cases "use_user_id us") simp_all
    then show ?thesis
      unfolding handle_user_status_event_def handle_presence_changed_def handle_compose_state_changed_def Let_def
      by (auto intro!: lists_intros lists_participants muc_presence muc_compose
          split: option.split user_status_event_type.split)
  qed
  moreover have "preserves lists_ok (handle_room_event fuel (ev_rooms ev) re)"
    if "about_occupants (RoomEv re)" for re
    using that assms(1) unfolding handle_room_event_def
    by (auto intro!: lists_intros lists_participants lists_lookup_name muc_add_user
        split: server_room_event_type.splits)
  ultimately have "preserves lists_ok (rooms_event_handler fuel ev e)"
    using assms(2) lists_occupant_event [OF assms(1)] unfolding rooms_event_handler_def
    by (cases e) (auto intro!: lists_intros)
  then show ?thesis using assms(3) by (rule preservesD)
qed

section \<open>Instances\<close>

definition quiet_event_services :: event_services where
  "quiet_event_services =
     \<lparr>ev_rooms = quiet_services, ev_now = (\<lambda>_. 0), ev_user_presence_changed = (\<lambda>_ _ w. (Inr (), w)),
      ev_avatar_changed = (\<lambda>_ _ w. (Inr (), w)), ev_profile_changed = (\<lambda>_ _ w. (Inr (), w)),
      ev_status_changed = (\<lambda>_ _ w. (Inr (), w)), ev_nickname_changed = (\<lambda>_ _ w. (Inr (), w)),
      ev_new_decryption_context = (\<lambda>w. (0, w))\<rparr>"

definition ex_parser :: "element parser_config" where
  "ex_parser = \<lparr>pc_client = (\<lambda>_. None), pc_time = Inl, pc_show_muc_user = (\<lambda>_. ''muc user''),
     pc_show_presence = (\<lambda>_. ''presence''), pc_show_message = (\<lambda>_. ''message'')\<rparr>"

definition ex_kick :: muc_user where
  "ex_kick = \<lparr>mu_status = [Kicked],
     mu_items = [\<lparr>mi_affiliation = AffNone, mi_jid = None, mi_role = RoleNone\<rparr>], mu_destroy = None\<rparr>"

definition ex_presence_stanza :: "jid \<Rightarrow> presence_type \<Rightarrow> element list \<Rightarrow> element presence_stanza" where
  "ex_presence_stanza j t es = \<lparr>ps_from = Some j, ps_type = t, ps_show = None, ps_priority = 0, ps_statuses = [], ps_payloads = es\<rparr>"

lemma ex_kick_read:
  "presence_muc_user tree_xml (ex_presence_stanza j t [muc_user_element tree_xml ex_kick]) = Some ex_kick"
  by (simp add: presence_muc_user_def presence_payload_def ex_presence_stanza_def muc_user_element_def tree_xml_def
      tree_build_def el_is_def ex_kick_def muc_user_try_from_def expect_is_def muc_user_new_def add_muc_child_def
      item_child_def)

theorem kicked_occupant_removed_witness:
  "pl_get (participants_of (w_heap (snd (handle_event tree_xml ex_parser (room_handlers 0 quiet_event_services)
      (XPresence (ex_presence_stanza (JFull (FullJid (muc_jid ex_muc) ''alice'')) PUnavailable [muc_user_element tree_xml ex_kick]))
      group_world)) ! 0)) (POccupant (OccupantId (FullJid (muc_jid ex_muc) ''alice''))) = None"
proof -
  let ?p = "ex_presence_stanza (JFull (FullJid (muc_jid ex_muc) ''alice'')) PUnavailable [muc_user_element tree_xml ex_kick]"
  have p: "ps_from ?p = Some (JFull (FullJid (muc_jid ex_muc) ''alice''))" "presence_availability ?p = Unavailable"
    by (simp_all add: ex_presence_stanza_def presence_availability_def)
  have items: "mu_items ex_kick = \<lparr>mi_affiliation = AffNone, mi_jid = None, mi_role = RoleNone\<rparr> # []" "mu_destroy ex_kick = None"
    "\<exists>s \<in> set (mu_status ex_kick). is_permanent_removal s" "SelfPresence \<notin> set (mu_status ex_kick)"
    by (simp_all add: ex_kick_def is_permanent_removal_def)
  have room: "repo_get (w_rooms group_world) (to_bare (FullJid (muc_jid ex_muc) ''alice'')) = Some 0" by simp
  have heap: "0 < length (w_heap group_world)" by (simp add: group_world_def)
  show ?thesis
    using kicked_occupant_removed [OF p(1) ex_kick_read items(1,2) p(2) items(3) _ items(4) group_world_connected room group_world_ok,
        of ex_parser 0 quiet_event_services] heap
    by auto
qed

theorem room_presence_adds_ghost_witness:
  "\<exists>q. pl_get (participants_of (w_heap (snd (handle_event tree_xml ex_parser (room_handlers 0 quiet_event_services)
      (XPresence (ex_presence_stanza (JBare (muc_jid ex_muc)) PNone [])) group_world)) ! 0)) (PUser (UserId (muc_jid ex_muc))) = Some q \<and>
    p_real_id q = None"
proof -
  let ?p = "ex_presence_stanza (JBare (muc_jid ex_muc)) PNone []"
  have p: "ps_from ?p = Some (JBare (muc_jid ex_muc))" "presence_muc_user tree_xml ?p = None" "node (muc_jid ex_muc) \<noteq> None"
    by (simp_all add: ex_presence_stanza_def presence_muc_user_def presence_payload_def ex_muc_def)
  have "participants_of group_room = empty_participant_list"
    by (simp add: participants_of_def group_room_def room_connecting_def)
  then have pl: "pl_get (participants_of (w_heap group_world ! 0)) i = None" for i by simp
  have ev: "ev_user_presence_changed quiet_event_services i q v = (Inr (), v)" for i q v
    by (simp add: quiet_event_services_def)
  show ?thesis
    using room_presence_adds_ghost [OF p group_world_connected group_world_room(1) group_world_ok pl ev, of ex_parser 0] by auto
qed

theorem occupant_events_keep_lists_witness:
  "lists_ok (snd (rooms_event_handler 0 quiet_event_services
     (RoomEv \<lparr>rme_room_id = ex_muc, rme_type = UserAdded (UserId (BareJid (Some ''bob'') ''prose.org'')) Member None\<rparr>) group_world))"
proof (rule occupant_events_keep_lists)
  show "lists_ok (snd (sv_user_info (ev_rooms quiet_event_services) u w))" if "lists_ok w" for u w
    using that by (simp add: quiet_event_services_def quiet_services_def)
  show "lists_ok group_world"
    by (simp add: lists_ok_def group_world_def participants_of_def group_room_def room_connecting_def muc_empty)
qed simp

end
