(* ===== verification/MessageEvents.thy ===== *)
theory MessageEvents
  imports Chat MessageRepo RoomEvents
begin

text \<open>
  Messages that arrive: the handler of message events
  (\<^verbatim>\<open>app/event_handlers/messages_event_handler.rs\<close>), offline messages, catching up with the
  archive of a room and copying a room's messages
  (\<^verbatim>\<open>domain/messaging/services/impls\<close>).

  The state is that of the rooms, the stored messages and settings, and the messages received while
  connecting. Ids of messages come from a provider that never gives the same id twice.
\<close>

section \<open>State\<close>

record 'e client_state =
  cs_world :: world
  cs_messages :: message_rows
  cs_settings :: "local_room_settings_record rows"
  cs_offline :: "'e message_event list"
  cs_ids :: nat

type_synonym ('e, 'a) client_prog = "('e client_state, 'a) program"

definition on_world :: "'a prog \<Rightarrow> ('e, 'a) client_prog" where
  "on_world p s = (case p (cs_world s) of (r, w) \<Rightarrow> (r, s\<lparr>cs_world := w\<rparr>))"

fun show_store_error :: "store_error \<Rightarrow> string" where
  "show_store_error (UnknownCollection c) = ''Collection '' @ c @ '' does not exist''"
| "show_store_error (UnknownIndex c i) = ''Index '' @ i @ '' does not exist on collection '' @ c"
| "show_store_error (InvalidIndex c i) = ''Index '' @ i @ '' on collection '' @ c @ '' is invalid.''"
| "show_store_error (NotMemberOfTransaction c) =
     ''Collection '' @ c @ '' is not a member of the current transaction''"
| "show_store_error ConstraintViolation = ''UNIQUE constraint failed''"
| "show_store_error InvalidColumnType = ''Invalid column type''"
| "show_store_error (StorePanic msg) = msg"

definition lift_store :: "store_error + 'a \<Rightarrow> ('s, 'a) program" where
  "lift_store r =
     (case r of
        Inr a \<Rightarrow> return a
      | Inl (StorePanic msg) \<Rightarrow> panic msg
      | Inl e \<Rightarrow> fail (show_store_error e))"

record 'e message_page =
  pg_messages :: "'e archived_message list"
  pg_is_last :: bool

record 'e message_services =
  mv_xml :: "'e xml"
  mv_media :: media_env
  mv_parse_jid :: "string \<Rightarrow> jid option"
  mv_clock :: clock
  mv_new_id :: "nat \<Rightarrow> message_id"
  mv_now :: "'e client_state \<Rightarrow> timestamp"
  mv_encryption :: "'e client_state encryption_services"
  mv_rooms :: services
  mv_fuel :: nat
  mv_load_messages_since :: "room_id \<Rightarrow> timestamp \<Rightarrow> nat \<Rightarrow> ('e, 'e message_page) client_prog"
  mv_load_messages_after :: "room_id \<Rightarrow> string \<Rightarrow> nat \<Rightarrow> ('e, 'e message_page) client_prog"
  mv_load_messages_before :: "room_id \<Rightarrow> string option \<Rightarrow> nat \<Rightarrow> ('e, 'e message_page) client_prog"
  mv_relay_archived_message :: "room_id \<Rightarrow> 'e archived_message \<Rightarrow> ('e, unit) client_prog"

definition new_message_id :: "'e message_services \<Rightarrow> ('e, message_id) client_prog" where
  "new_message_id mv s = (Ok (mv_new_id mv (cs_ids s)), s\<lparr>cs_ids := Suc (cs_ids s)\<rparr>)"

definition read_messages :: "(message_rows \<Rightarrow> store_error + 'a) \<Rightarrow> ('e, 'a) client_prog" where
  "read_messages f = bindM (gets (\<lambda>s. f (cs_messages s))) lift_store"

definition append_messages :: "'e message_services \<Rightarrow> account_id \<Rightarrow> room_id \<Rightarrow> message_like list \<Rightarrow> ('e, unit) client_prog" where
  "append_messages mv account room ms =
     modify_world (\<lambda>s. s\<lparr>cs_messages := messages_append (mv_clock mv) account room ms (cs_messages s)\<rparr>)"

text \<open>The room under a JID, with its current value.\<close>

definition room_at :: "bare_jid \<Rightarrow> ('e, (room_ref \<times> room) option) client_prog" where
  "room_at j =
     gets (\<lambda>s. map_option (\<lambda>r. (r, w_heap (cs_world s) ! r)) (repo_get (w_rooms (cs_world s)) j))"

section \<open>Message events\<close>

fun event_message :: "'e message_event \<Rightarrow> 'e message_stanza option" where
  "event_message (MessageReceived m) = Some m"
| "event_message (MessageSent m) = Some m"
| "event_message (MessageSync c) = fw_stanza (carbon_forwarded c)"

datatype 'e message_or_carbon = PlainMessage "'e message_stanza" | CarbonCopy "'e forwarded"

fun moc_message :: "'e message_or_carbon \<Rightarrow> 'e message_stanza option" where
  "moc_message (PlainMessage m) = Some m"
| "moc_message (CarbonCopy f) = fw_stanza f"

definition moc_from :: "'e xml \<Rightarrow> 'e message_or_carbon \<Rightarrow> ('s, user_endpoint_id option) program" where
  "moc_from x m = (case moc_message m of None \<Rightarrow> return None | Some m \<Rightarrow> sender x m)"

definition moc_room_id :: "'e xml \<Rightarrow> 'e message_or_carbon \<Rightarrow> ('s, room_id option) program" where
  "moc_room_id x m = (case moc_message m of None \<Rightarrow> return None | Some m \<Rightarrow> message_room_id x m)"

definition moc_remote_id :: "'e message_or_carbon \<Rightarrow> string option" where
  "moc_remote_id m = Option.bind (moc_message m) ms_id"

definition parse_moc :: "'e message_services \<Rightarrow> message_parser \<Rightarrow> 'e message_or_carbon \<Rightarrow> ('e, message_like) client_prog" where
  "parse_moc mv mp m =
     (case m of
        PlainMessage m \<Rightarrow> parse_message_like (mv_xml mv) (mv_media mv) (mv_parse_jid mv) (mv_encryption mv) mp m
      | CarbonCopy f \<Rightarrow> parse_forwarded_message (mv_xml mv) (mv_media mv) (mv_parse_jid mv) (mv_encryption mv) mp f)"

definition resolve_message_target_id :: "'e message_services \<Rightarrow> account_id \<Rightarrow> room_id \<Rightarrow> message_target_id \<Rightarrow>
    ('e, message_id option) client_prog" where
  "resolve_message_target_id mv account room target =
     bindM (attempt (read_messages
       (case target of
          RemoteId i \<Rightarrow> resolve_remote_id (mv_clock mv) account room i
        | ServerId i \<Rightarrow> resolve_server_id (mv_clock mv) account room i))) (\<lambda>result.
     return (case result of Inr (Some t) \<Rightarrow> Some (tr_id t) | _ \<Rightarrow> None))"

fun is_retraction_payload :: "payload \<Rightarrow> bool" where
  "is_retraction_payload (Retraction _) = True"
| "is_retraction_payload _ = False"

definition save_message_and_dispatch_event :: "'e message_services \<Rightarrow> account_id \<Rightarrow> room_ref \<Rightarrow> room_id \<Rightarrow> message_like \<Rightarrow>
    ('e, unit) client_prog" where
  "save_message_and_dispatch_event mv account r room m =
     thenM (append_messages mv account room [m])
     (case target_id (ml_payload m) of
        Some target \<Rightarrow>
          bindM (resolve_message_target_id mv account room target) (\<lambda>found.
          case found of
            None \<Rightarrow> return ()
          | Some i \<Rightarrow>
              on_world (dispatch_room r
                (if is_retraction_payload (ml_payload m) then MessagesDeleted [i] else MessagesUpdated [i])))
      | None \<Rightarrow> on_world (dispatch_room r (MessagesAppended [ml_id m])))"

definition handle_received_message_event :: "'e message_services \<Rightarrow> account_id \<Rightarrow> 'e message_or_carbon \<Rightarrow> ('e, unit) client_prog" where
  "handle_received_message_event mv account m =
     bindM (moc_from (mv_xml mv) m) (\<lambda>from.
     case from of
       None \<Rightarrow> return ()
     | Some from \<Rightarrow>
         let room_id = e_to_room_id from in
         bindM (room_at (into_bare room_id)) (\<lambda>room.
         bindM (gets (\<lambda>s.
           mv_now mv s + (case room of
               Some (_, rm) \<Rightarrow> rf_server_time_offset (ri_features (r_info rm))
             | None \<Rightarrow> (case server_features_of (w_ctx (cs_world s)) of Inr f \<Rightarrow> sf_server_time_offset f | Inl _ \<Rightarrow> 0)))) (\<lambda>server_time.
         bindM (new_message_id mv) (\<lambda>i.
         bindM (gets (\<lambda>s. decryption_context_of (w_ctx (cs_world s)))) (\<lambda>ctx.
         bindM (attempt (parse_moc mv (message_parser_new (mv_media mv) i (map_option snd room) server_time ctx) m)) (\<lambda>parsed.
         case parsed of
           Inl _ \<Rightarrow> return ()
         | Inr ml \<Rightarrow>
             thenM
               (if is_message (ml_payload ml)
                then bindM (attempt (on_world (handle_received_message (mv_fuel mv) (mv_rooms mv) room_id ml))) (\<lambda>_. return ())
                else return ())
               (case room of
                  None \<Rightarrow> append_messages mv account room_id [ml]
                | Some (r, rm) \<Rightarrow> save_message_and_dispatch_event mv account r (ri_room_id (r_info rm)) ml)))))))"

definition handle_sent_message_event :: "'e message_services \<Rightarrow> account_id \<Rightarrow> 'e message_or_carbon \<Rightarrow> ('e, unit) client_prog" where
  "handle_sent_message_event mv account m =
     bindM (moc_room_id (mv_xml mv) m) (\<lambda>room_id.
     case room_id of
       None \<Rightarrow> return ()
     | Some room_id \<Rightarrow>
         bindM (room_at (into_bare room_id)) (\<lambda>room.
         case room of
           None \<Rightarrow> return ()
         | Some (r, rm) \<Rightarrow>
             bindM
               (case moc_remote_id m of
                  Some i \<Rightarrow>
                    bindM (read_messages (resolve_remote_id (mv_clock mv) account room_id i)) (\<lambda>t. return (map_option tr_id t))
                | None \<Rightarrow> return None) (\<lambda>existing.
             bindM (case existing of Some i \<Rightarrow> return i | None \<Rightarrow> new_message_id mv) (\<lambda>i.
             bindM (gets (mv_now mv)) (\<lambda>now.
             bindM (gets (\<lambda>s. decryption_context_of (w_ctx (cs_world s)))) (\<lambda>ctx.
             bindM (parse_moc mv
               (message_parser_new (mv_media mv) i (Some rm) (local_time_to_server_time (ri_features (r_info rm)) now) ctx) m) (\<lambda>ml.
             let ml' = ml\<lparr>ml_from := PUser (account_user_id account)\<rparr> in
             if existing \<noteq> None then append_messages mv account room_id [ml']
             else save_message_and_dispatch_event mv account r (ri_room_id (r_info rm)) ml')))))))"

text \<open>Whether the stored messages already contain the message of an event.\<close>

definition is_known_message :: "'e message_services \<Rightarrow> account_id \<Rightarrow> 'e message_event \<Rightarrow> ('e, bool) client_prog" where
  "is_known_message mv account event =
     (case event_message event of
        None \<Rightarrow> return False
      | Some m \<Rightarrow>
          bindM (message_room_id (mv_xml mv) m) (\<lambda>room_id.
          case (room_id, server_id_of (mv_xml mv) m) of
            (Some room_id, Some server_id) \<Rightarrow> read_messages (messages_contains (mv_clock mv) account room_id server_id)
          | _ \<Rightarrow> return False))"

definition handle_message_event :: "'e message_services \<Rightarrow> 'e message_event \<Rightarrow> ('e, unit) client_prog" where
  "handle_message_event mv event =
     bindM (on_world connected_account) (\<lambda>account.
     bindM (is_known_message mv account event) (\<lambda>known.
     if known then return ()
     else
       (case event of
          MessageReceived m \<Rightarrow>
            if ms_type m = Groupchat then
              (case Option.bind (ms_from m) try_into_full of
                 None \<Rightarrow> return ()
               | Some from \<Rightarrow>
                   let room_id = occ_room_id (OccupantId from) in
                   bindM (room_at (into_bare room_id)) (\<lambda>room.
                   bindM
                     (case room of
                        None \<Rightarrow> return False
                      | Some (_, rm) \<Rightarrow>
                          bindM (lift_panic ''invalid nickname'' (info_occupant_id (sv_resource (mv_rooms mv)) (r_info rm)))
                            (\<lambda>oc. return (Some (OccupantId from) = oc))) (\<lambda>own.
                   if own then
                     handle_sent_message_event mv account
                       (PlainMessage (m\<lparr>ms_from := ms_to m, ms_to := Some (JBare (into_bare room_id))\<rparr>))
                   else handle_received_message_event mv account (PlainMessage m))))
            else handle_received_message_event mv account (PlainMessage m)
        | MessageSync (CarbonReceived f) \<Rightarrow> handle_received_message_event mv account (CarbonCopy f)
        | MessageSync (CarbonSent f) \<Rightarrow> handle_sent_message_event mv account (CarbonCopy f)
        | MessageSent m \<Rightarrow> handle_sent_message_event mv account (PlainMessage m))))"

text \<open>\<^verbatim>\<open>OfflineMessagesRepository\<close>.\<close>

definition offline_push :: "'e message_event \<Rightarrow> ('e, unit) client_prog" where
  "offline_push event = modify_world (\<lambda>s. s\<lparr>cs_offline := cs_offline s @ [event]\<rparr>)"

definition offline_drain :: "('e, 'e message_event list) client_prog" where
  "offline_drain s = (Ok (cs_offline s), s\<lparr>cs_offline := []\<rparr>)"

definition messages_event_handler :: "'e message_services \<Rightarrow> 'e server_event \<Rightarrow> ('e, 'e server_event option) client_prog" where
  "messages_event_handler mv event =
     (case event of
        MessageEv e \<Rightarrow>
          bindM (gets (\<lambda>s. cx_state (w_ctx (cs_world s)))) (\<lambda>st.
          thenM (if st \<noteq> CConnected then offline_push e else handle_message_event mv e) (return None))
      | _ \<Rightarrow> return (Some event))"

section \<open>Catching up with an archive\<close>

definition archived_message_id :: "'e message_services \<Rightarrow> account_id \<Rightarrow> room \<Rightarrow> 'e archived_message \<Rightarrow> ('e, message_id) client_prog" where
  "archived_message_id mv account rm a =
     (let room_id = ri_room_id (r_info rm) in
      bindM
        (case fw_stanza (am_forwarded a) of
           None \<Rightarrow> return False
         | Some m \<Rightarrow>
             bindM (sender (mv_xml mv) m) (\<lambda>s.
             case s of
               None \<Rightarrow> return False
             | Some s \<Rightarrow>
                 lift_panic ''invalid nickname'' (is_current_user (sv_resource (mv_rooms mv)) account rm (e_to_participant_id s))))
        (\<lambda>is_our_message.
      bindM
        (if is_our_message then
           (case Option.bind (fw_stanza (am_forwarded a)) ms_id of
              Some i \<Rightarrow>
                bindM (attempt (read_messages (resolve_remote_id (mv_clock mv) account room_id i))) (\<lambda>r.
                return (case r of Inr t \<Rightarrow> map_option tr_id t | Inl _ \<Rightarrow> None))
            | None \<Rightarrow> return None)
         else
           bindM (attempt (read_messages (resolve_server_id (mv_clock mv) account room_id (am_id a)))) (\<lambda>r.
           return (case r of Inr t \<Rightarrow> map_option tr_id t | Inl _ \<Rightarrow> None)))
        (\<lambda>found. case found of Some i \<Rightarrow> return i | None \<Rightarrow> new_message_id mv)))"

definition parse_archived_message :: "'e message_services \<Rightarrow> account_id \<Rightarrow> room \<Rightarrow> decryption_context \<Rightarrow> 'e archived_message \<Rightarrow>
    ('e, message_like option) client_prog" where
  "parse_archived_message mv account rm ctx a =
     bindM (archived_message_id mv account rm a) (\<lambda>i.
     bindM (attempt (parse_mam_message (mv_xml mv) (mv_media mv) (mv_parse_jid mv) (mv_encryption mv)
       (message_parser_new (mv_media mv) i (Some rm) 0 (Some ctx)) a)) (\<lambda>parsed.
     return (case parsed of
       Inr ml \<Rightarrow> if is_error (ml_payload ml) then None else Some ml
     | Inl _ \<Rightarrow> None)))"

fun parse_message_page :: "'e message_services \<Rightarrow> account_id \<Rightarrow> room \<Rightarrow> decryption_context \<Rightarrow> 'e archived_message list \<Rightarrow>
    ('e, message_like list) client_prog" where
  "parse_message_page mv account rm ctx [] = return []"
| "parse_message_page mv account rm ctx (a # as) =
     bindM (parse_archived_message mv account rm ctx a) (\<lambda>ml.
     bindM (parse_message_page mv account rm ctx as) (\<lambda>mls.
     return (case ml of Some ml \<Rightarrow> ml # mls | None \<Rightarrow> mls)))"

definition last_id :: "'e archived_message list \<Rightarrow> string option" where
  "last_id as = (if as = [] then None else Some (am_id (last as)))"

text \<open>The pages after the first one.\<close>

fun load_pages :: "nat \<Rightarrow> 'e message_services \<Rightarrow> account_id \<Rightarrow> room \<Rightarrow> decryption_context \<Rightarrow> bool \<Rightarrow> string option \<Rightarrow>
    message_like list \<Rightarrow> ('e, message_like list) client_prog" where
  "load_pages 0 mv account rm ctx is_last_page last_message_id ms = (\<lambda>s. (NoFuel, s))"
| "load_pages (Suc fuel) mv account rm ctx is_last_page last_message_id ms =
     (if is_last_page then return ms
      else
        (case last_message_id of
           None \<Rightarrow> return ms
         | Some i \<Rightarrow>
             bindM (mv_load_messages_after mv (ri_room_id (r_info rm)) i 100) (\<lambda>page.
             bindM (parse_message_page mv account rm ctx (pg_messages page)) (\<lambda>mls.
             load_pages fuel mv account rm ctx (pg_is_last page) (last_id (pg_messages page)) (ms @ mls)))))"

definition catchup_since :: "'e message_services \<Rightarrow> timestamp option \<Rightarrow> timestamp option \<Rightarrow> int \<Rightarrow> timestamp \<Rightarrow> timestamp" where
  "catchup_since mv last_catchup last_received max_secs now =
     max (case max last_catchup last_received of Some t \<Rightarrow> t | None \<Rightarrow> ck_min (mv_clock mv)) (now - max_secs)"

definition catchup_room :: "nat \<Rightarrow> 'e message_services \<Rightarrow> room_ref \<Rightarrow> decryption_context \<Rightarrow> ('e, bool) client_prog" where
  "catchup_room fuel mv r ctx =
     bindM (on_world (read_room r)) (\<lambda>rm.
     if \<not> is_mam_supported (ri_features (r_info rm)) then return False
     else
       let room_id = ri_room_id (r_info rm) in
       bindM (on_world connected_account) (\<lambda>account.
       bindM (gets (\<lambda>s. connection_timestamp (w_ctx (cs_world s)))) (\<lambda>t.
       bindM (lift_any t) (\<lambda>connection_time.
       bindM (gets (\<lambda>s. local_settings_get account room_id (cs_settings s))) (\<lambda>settings.
       bindM (lift_store settings) (\<lambda>settings.
       bindM (read_messages (get_last_received_message (mv_clock mv) account room_id (Some connection_time))) (\<lambda>last_received.
       bindM (gets (\<lambda>s. catchup_since mv (lr_last_catchup_time settings) (map_option am_timestamp last_received)
         (cf_max_catchup_duration_secs (cx_config (w_ctx (cs_world s)))) (mv_now mv s))) (\<lambda>since.
       bindM (mv_load_messages_since mv room_id since 100) (\<lambda>page.
       bindM (parse_message_page mv account rm ctx (pg_messages page)) (\<lambda>mls.
       bindM (load_pages fuel mv account rm ctx (pg_is_last page) (last_id (pg_messages page)) mls) (\<lambda>ms.
       thenM (append_messages mv account room_id ms)
       (bindM (gets (mv_now mv)) (\<lambda>now.
       bindM (gets (\<lambda>s. local_settings_update account room_id (\<lambda>st. st\<lparr>lr_last_catchup_time := Some now\<rparr>) (cs_settings s))) (\<lambda>updated.
       bindM (lift_store updated) (\<lambda>rows.
       thenM (modify_world (\<lambda>s. s\<lparr>cs_settings := rows\<rparr>))
       (thenM (on_world (set_needs_update_statistics r))
       (return (ms \<noteq> []))))))))))))))))))"

section \<open>Copying the messages of a room\<close>

fun copy_loop :: "nat \<Rightarrow> 'e message_services \<Rightarrow> room_id \<Rightarrow> room_id \<Rightarrow> string option \<Rightarrow> ('e, unit) client_prog" where
  "copy_loop 0 mv source target first_message_id = (\<lambda>s. (NoFuel, s))"
| "copy_loop (Suc fuel) mv source target first_message_id =
     bindM (mv_load_messages_before mv source first_message_id 100) (\<lambda>page.
     let first = (case pg_messages page of
         [] \<Rightarrow> None
       | a # _ \<Rightarrow> Option.bind (fw_stanza (am_forwarded a)) (\<lambda>m. map_option si_id (stanza_id_of (mv_xml mv) m)))
     in thenM (for_each (mv_relay_archived_message mv target) (pg_messages page))
        (if pg_is_last page then return () else copy_loop fuel mv source target first))"

definition copy_all_messages_from_room :: "nat \<Rightarrow> 'e message_services \<Rightarrow> room_id \<Rightarrow> room_id \<Rightarrow> ('e, unit) client_prog" where
  "copy_all_messages_from_room fuel mv source target = copy_loop fuel mv source target None"


section \<open>Laws of programs\<close>

lemma bindM_assoc: "bindM (bindM m f) g = bindM m (\<lambda>a. bindM (f a) g)"
  by (rule ext) (simp add: bindM_def split: prod.split outcome.split)

lemma bindM_return [simp]: "bindM (return a) f = f a" "bindM m return = m"
  by (rule ext, simp add: bindM_def return_def split: prod.split outcome.split)+

lemma bindM_cong_Ok:
  assumes "\<And>a s'. m s = (Ok a, s') \<Longrightarrow> f a s' = g a s'"
  shows "bindM m f s = bindM m g s"
  using assms by (simp add: bindM_def split: prod.split outcome.split)

lemma bindM_run: "m s = (Ok a, s') \<Longrightarrow> bindM m f s = f a s'"
  by (simp add: bindM_def)

section \<open>Catching up loads the whole archive\<close>

text \<open>
  What the client relies on of an archive: the messages from a time on, or after one of them, are
  given page by page; a page is empty only if there are no more messages, and a last page holds all
  that are left.
\<close>

definition page_at :: "'e archived_message list \<Rightarrow> nat \<Rightarrow> 'e message_page \<Rightarrow> bool" where
  "page_at as k p \<longleftrightarrow> prefix (pg_messages p) (drop k as) \<and> (pg_messages p = [] \<longrightarrow> drop k as = []) \<and>
     (pg_is_last p \<longrightarrow> pg_messages p = drop k as)"

definition honest_archive :: "'e message_services \<Rightarrow> room_id \<Rightarrow> timestamp \<Rightarrow> 'e archived_message list \<Rightarrow> bool" where
  "honest_archive mv room t as \<longleftrightarrow>
     (\<forall>s. \<exists>p. mv_load_messages_since mv room t 100 s = (Ok p, s) \<and> page_at as 0 p) \<and>
     (\<forall>k < length as. \<forall>s. \<exists>p. mv_load_messages_after mv room (am_id (as ! k)) 100 s = (Ok p, s) \<and> page_at as (Suc k) p)"

text \<open>Catching up with all the messages at once.\<close>

definition catchup_reference :: "(room_id \<Rightarrow> timestamp \<Rightarrow> 'e archived_message list) \<Rightarrow> 'e message_services \<Rightarrow> room_ref \<Rightarrow>
    decryption_context \<Rightarrow> ('e, bool) client_prog" where
  "catchup_reference archive mv r ctx =
     bindM (on_world (read_room r)) (\<lambda>rm.
     if \<not> is_mam_supported (ri_features (r_info rm)) then return False
     else
       let room_id = ri_room_id (r_info rm) in
       bindM (on_world connected_account) (\<lambda>account.
       bindM (gets (\<lambda>s. connection_timestamp (w_ctx (cs_world s)))) (\<lambda>t.
       bindM (lift_any t) (\<lambda>connection_time.
       bindM (gets (\<lambda>s. local_settings_get account room_id (cs_settings s))) (\<lambda>settings.
       bindM (lift_store settings) (\<lambda>settings.
       bindM (read_messages (get_last_received_message (mv_clock mv) account room_id (Some connection_time))) (\<lambda>last_received.
       bindM (gets (\<lambda>s. catchup_since mv (lr_last_catchup_time settings) (map_option am_timestamp last_received)
         (cf_max_catchup_duration_secs (cx_config (w_ctx (cs_world s)))) (mv_now mv s))) (\<lambda>since.
       bindM (parse_message_page mv account rm ctx (archive room_id since)) (\<lambda>ms.
       thenM (append_messages mv account room_id ms)
       (bindM (gets (mv_now mv)) (\<lambda>now.
       bindM (gets (\<lambda>s. local_settings_update account room_id (\<lambda>st. st\<lparr>lr_last_catchup_time := Some now\<rparr>) (cs_settings s))) (\<lambda>updated.
       bindM (lift_store updated) (\<lambda>rows.
       thenM (modify_world (\<lambda>s. s\<lparr>cs_settings := rows\<rparr>))
       (thenM (on_world (set_needs_update_statistics r))
       (return (ms \<noteq> []))))))))))))))))"

lemma parse_message_page_append:
  "parse_message_page mv account rm ctx (as @ bs) =
     bindM (parse_message_page mv account rm ctx as) (\<lambda>xs.
     bindM (parse_message_page mv account rm ctx bs) (\<lambda>ys. return (xs @ ys)))"
proof (induction as)
  case Nil
  have "(\<lambda>ys. return ([] @ ys)) = (return :: _ \<Rightarrow> ('a, _) client_prog)" by simp
  then show ?case by simp
next
  case (Cons a as)
  have ret: "(\<lambda>mls. return (case ml of None \<Rightarrow> xs @ mls | Some ml \<Rightarrow> ml # xs @ mls)) =
      (\<lambda>mls. return ((case ml of None \<Rightarrow> xs | Some ml \<Rightarrow> ml # xs) @ mls))" for ml :: "message_like option" and xs
    by (rule ext) (simp split: option.split)
  show ?case by (simp add: Cons bindM_assoc ret)
qed

lemma page_at_last:
  assumes "page_at as k p" "pg_messages p \<noteq> []"
  shows "last_id (pg_messages p) = Some (am_id (as ! (k + length (pg_messages p) - 1)))"
    "k + length (pg_messages p) \<le> length as"
    "drop k as = pg_messages p @ drop (k + length (pg_messages p)) as"
proof -
  obtain zs where zs: "drop k as = pg_messages p @ zs"
    using assms(1) by (auto simp: page_at_def prefix_def)
  then have len: "length as - k = length (pg_messages p) + length zs"
    by (metis length_append length_drop)
  with assms(2) show le: "k + length (pg_messages p) \<le> length as" by (cases "pg_messages p") auto
  have "zs = drop (length (pg_messages p)) (drop k as)" by (simp add: zs)
  then have "zs = drop (k + length (pg_messages p)) as" by (simp only: drop_drop add.commute)
  with zs show "drop k as = pg_messages p @ drop (k + length (pg_messages p)) as"
    by simp
  have "last (pg_messages p) = drop k as ! (length (pg_messages p) - 1)"
    using assms(2) by (simp add: zs last_conv_nth nth_append)
  also have "\<dots> = as ! (k + length (pg_messages p) - 1)"
    using assms(2) le by (cases "length (pg_messages p)") (auto simp: nth_drop)
  finally show "last_id (pg_messages p) = Some (am_id (as ! (k + length (pg_messages p) - 1)))"
    using assms(2) by (simp add: last_id_def)
qed

lemma load_pages_complete:
  assumes "honest_archive mv (ri_room_id (r_info rm)) t as"
  shows "page_at as k p \<Longrightarrow> length as - (k + length (pg_messages p)) + 1 < fuel \<Longrightarrow>
     load_pages fuel mv account rm ctx (pg_is_last p) (last_id (pg_messages p)) ms s =
       bindM (parse_message_page mv account rm ctx (drop (k + length (pg_messages p)) as)) (\<lambda>mls. return (ms @ mls)) s"
proof (induction fuel arbitrary: k p ms s)
  case (Suc fuel)
  show ?case
  proof (cases "pg_is_last p \<or> pg_messages p = []")
    case True
    with Suc.prems(1) have "drop (k + length (pg_messages p)) as = []"
      by (auto simp: page_at_def)
    with True show ?thesis by (auto simp: last_id_def)
  next
    case False
    let ?k = "k + length (pg_messages p)"
    note facts = page_at_last [OF Suc.prems(1)]
    from False have pos: "0 < ?k" by (cases "pg_messages p") auto
    with False facts(2) have "?k - 1 < length as" by linarith
    with assms obtain q where q: "mv_load_messages_after mv (ri_room_id (r_info rm)) (am_id (as ! (?k - 1))) 100 s = (Ok q, s)"
      and at: "page_at as (Suc (?k - 1)) q"
      unfolding honest_archive_def by blast
    from at pos have at: "page_at as ?k q" by simp
    have split: "drop ?k as = pg_messages q @ drop (?k + length (pg_messages q)) as"
      using at page_at_last(3) [OF at] by (cases "pg_messages q = []") auto
    have rest: "load_pages fuel mv account rm ctx (pg_is_last q) (last_id (pg_messages q)) (ms @ mls) s' =
        bindM (parse_message_page mv account rm ctx (drop (?k + length (pg_messages q)) as)) (\<lambda>xs. return ((ms @ mls) @ xs)) s'" for mls s'
    proof (cases "pg_messages q = []")
      case True
      with at have "drop ?k as = []" by (simp add: page_at_def)
      with True Suc.prems(2) show ?thesis by (cases fuel) (auto simp: last_id_def)
    next
      case nonempty: False
      then have "length as - (?k + length (pg_messages q)) + 1 < fuel"
        using Suc.prems(2) page_at_last(2) [OF at] by (cases "pg_messages q") auto
      with at show ?thesis by (rule Suc.IH)
    qed
    have "load_pages (Suc fuel) mv account rm ctx (pg_is_last p) (last_id (pg_messages p)) ms s =
        bindM (parse_message_page mv account rm ctx (pg_messages q)) (\<lambda>mls.
        load_pages fuel mv account rm ctx (pg_is_last q) (last_id (pg_messages q)) (ms @ mls)) s"
      using False facts(1) q by (simp add: bindM_run)
    also have "\<dots> = bindM (parse_message_page mv account rm ctx (pg_messages q)) (\<lambda>mls.
        bindM (parse_message_page mv account rm ctx (drop (?k + length (pg_messages q)) as)) (\<lambda>xs. return ((ms @ mls) @ xs))) s"
      by (rule bindM_cong_Ok) (rule rest)
    also have "\<dots> = bindM (parse_message_page mv account rm ctx (drop ?k as)) (\<lambda>mls. return (ms @ mls)) s"
      by (subst split) (simp add: parse_message_page_append bindM_assoc)
    finally show ?thesis .
  qed
qed simp

lemma pages_complete:
  assumes "honest_archive mv (ri_room_id (r_info rm)) t as" "length as + 1 < fuel"
  shows "bindM (mv_load_messages_since mv (ri_room_id (r_info rm)) t 100) (\<lambda>page.
       bindM (parse_message_page mv account rm ctx (pg_messages page)) (\<lambda>mls.
       bindM (load_pages fuel mv account rm ctx (pg_is_last page) (last_id (pg_messages page)) mls) f)) =
     bindM (parse_message_page mv account rm ctx as) f"
proof
  fix s
  obtain p where p: "mv_load_messages_since mv (ri_room_id (r_info rm)) t 100 s = (Ok p, s)" "page_at as 0 p"
    using assms(1) unfolding honest_archive_def by blast
  have split: "as = pg_messages p @ drop (length (pg_messages p)) as"
    using p(2) by (auto simp: page_at_def prefix_def)
  have "length as - (0 + length (pg_messages p)) + 1 < fuel" using assms(2) by auto
  note load = load_pages_complete [OF assms(1) p(2) this, simplified]
  have "bindM (parse_message_page mv account rm ctx (pg_messages p)) (\<lambda>mls.
       bindM (load_pages fuel mv account rm ctx (pg_is_last p) (last_id (pg_messages p)) mls) f) s =
     bindM (parse_message_page mv account rm ctx (pg_messages p)) (\<lambda>mls.
       bindM (bindM (parse_message_page mv account rm ctx (drop (length (pg_messages p)) as)) (\<lambda>xs. return (mls @ xs))) f) s"
    by (rule bindM_cong_Ok) (simp add: bindM_def load)
  also have "\<dots> = bindM (parse_message_page mv account rm ctx as) f s"
    by (subst (2) split) (simp add: parse_message_page_append bindM_assoc)
  finally show "bindM (mv_load_messages_since mv (ri_room_id (r_info rm)) t 100) (\<lambda>page.
       bindM (parse_message_page mv account rm ctx (pg_messages page)) (\<lambda>mls.
       bindM (load_pages fuel mv account rm ctx (pg_is_last page) (last_id (pg_messages page)) mls) f)) s =
     bindM (parse_message_page mv account rm ctx as) f s"
    by (simp add: bindM_run p(1))
qed

text \<open>
  C25. Catching up with a room stores exactly what the messages of its archive since the last catchup
  parse to, in their order, however the archive splits them into pages, and ends after at most one
  request per message and one more.
\<close>

theorem catchup_complete:
  assumes "\<And>room t. honest_archive mv room t (archive room t)"
    and "\<And>room t. length (archive room t) + 1 < fuel"
  shows "catchup_room fuel mv r ctx s = catchup_reference archive mv r ctx s"
  unfolding catchup_room_def catchup_reference_def Let_def
  by (simp only: pages_complete [OF assms])

section \<open>Copying a room\<close>

lemma for_each_Ok:
  assumes "\<And>a s. fst (f a s) = Ok ()"
  shows "fst (for_each f as s) = Ok ()"
proof (induction as arbitrary: s)
  case (Cons a as)
  have "f a s = (Ok (), snd (f a s))" using assms by (simp add: prod_eq_iff)
  with Cons show ?case by (simp add: for_each_def thenM_def bindM_run)
qed (simp add: for_each_def return_def)

text \<open>
  The next page to copy is looked up by the stanza id within the first message, not by its id in the
  archive. Where the first message has none, the page is loaded and sent to the new room again and
  again, without end.
\<close>

theorem copy_without_stanza_id_never_ends:
  assumes "\<And>s. mv_load_messages_before mv source None 100 s = (Ok page, s)"
    and "\<And>a s. fst (mv_relay_archived_message mv target a s) = Ok ()"
    and "pg_messages page = a # as" "\<not> pg_is_last page"
    and "Option.bind (fw_stanza (am_forwarded a)) (stanza_id_of (mv_xml mv)) = None"
  shows "copy_all_messages_from_room fuel mv source target s =
     (NoFuel, ((\<lambda>s. snd (for_each (mv_relay_archived_message mv target) (pg_messages page) s)) ^^ fuel) s)"
  unfolding copy_all_messages_from_room_def
proof (induction fuel arbitrary: s)
  case (Suc fuel)
  let ?relay = "for_each (mv_relay_archived_message mv target) (pg_messages page)"
  have "?relay s = (Ok (), snd (?relay s))" using for_each_Ok [OF assms(2)] by (simp add: prod_eq_iff)
  moreover have "Option.bind (fw_stanza (am_forwarded a)) (\<lambda>m. map_option si_id (stanza_id_of (mv_xml mv) m)) = None"
    using assms(5) by (cases "fw_stanza (am_forwarded a)") auto
  ultimately have "copy_loop (Suc fuel) mv source target None s = copy_loop fuel mv source target None (snd (?relay s))"
    using assms(3,4) by (simp add: bindM_run assms(1) thenM_def)
  with Suc show ?case by (simp only: funpow_Suc_right o_apply)
qed simp

section \<open>Messages that are known already\<close>

lemma read_contains: "read_messages (messages_contains ck account room i) s =
   (Ok (list_ex (\<lambda>row. in_room account room (snd row) \<and> mr_server_id (snd row) = Some i) (cs_messages s)), s)"
  by (simp add: read_messages_def contains_exact lift_store_def prog_defs)

text \<open>
  A message from a user is looked up among the known messages by the JID it was sent to, which is
  that of the account, not by its sender. A message that is stored in the room of its sender is
  therefore handled as a new one when it arrives again.
\<close>

theorem known_message_handled_again:
  assumes "connected_account (cs_world s) = (Ok account, cs_world s)"
    and "ms_type m \<noteq> Groupchat" "\<not> is_groupchat_message (mv_xml mv) m"
    and "ms_to m = Some to" "jid_into_bare to = user_jid (account_user_id account)"
    and "server_id_of (mv_xml mv) m = Some i"
    and "messages_contains (mv_clock mv) account (RUser (account_user_id account)) i (cs_messages s) = Inr False"
  shows "handle_message_event mv (MessageReceived m) s = handle_received_message_event mv account (PlainMessage m) s"
proof -
  have user: "user_id_from (user_jid (account_user_id account)) = Some (account_user_id account)"
    using assms(1) by (auto simp: connected_account_def account_id_from_def user_id_from_def prog_defs split: sum.splits option.splits if_splits)
  have room: "message_room_id (mv_xml mv) m s = (Ok (Some (RUser (account_user_id account))), s)"
    using assms(3-5) user by (simp add: message_room_id_def require_user_def prog_defs)
  have "is_known_message mv account (MessageReceived m) s = (Ok False, s)"
    using assms(6,7) by (simp add: is_known_message_def bindM_run room read_contains contains_exact)
  with assms(1,2) show ?thesis
    by (simp add: handle_message_event_def on_world_def bindM_run)
qed

section \<open>A sent message that comes back\<close>

lemma parsed_id: "parse_moc mv mp m s = (Ok ml, s') \<Longrightarrow> ml_id ml = mp_message_id mp"
  by (auto simp: parse_moc_def parse_message_like_def parse_forwarded_message_def stanza_failed_def fail_def Let_def prog_defs
      split: message_or_carbon.splits option.splits prod.splits outcome.splits)

text \<open>Parsing changes only what decrypting changes.\<close>

definition encryption_keeps :: "('s \<Rightarrow> bool) \<Rightarrow> 's encryption_services \<Rightarrow> bool" where
  "encryption_keeps I es \<longleftrightarrow> (\<forall>u room i p ctx. preserves I (es_decrypt_message es u room i p ctx)) \<and>
     (\<forall>u p ctx. preserves I (es_handle_key_transport es u p ctx))"

lemmas parse_intros = preserves_bind preserves_pure preserves_attempt

lemma preserves_failures:
  "preserves I (fail msg)" "preserves I (stanza_failed e)" "preserves I no_payload" "preserves I (require_user u)"
  by (simp_all add: fail_def stanza_failed_def no_payload_def require_user_def preserves_pure)

lemma preserves_parse_parts:
  "preserves I (parse_sender x mp m)" "preserves I (message_reply_to x m body)" "preserves I (body_parts x me m b f)"
  "preserves I (parse_content x me parse m pb)"
proof -
  show "preserves I (parse_sender x mp m)"
    by (auto simp: parse_sender_def preserves_failures intro!: parse_intros split: option.split)
  show reply: "preserves I (message_reply_to x m body)" for body
    by (auto simp: message_reply_to_def preserves_failures intro!: parse_intros split: option.split)
  show parts: "preserves I (body_parts x me m b f)" for b f
    by (auto simp: body_parts_def Let_def intro!: parse_intros reply split: option.split)
  show "preserves I (parse_content x me parse m pb)"
    by (auto simp: parse_content_def preserves_failures Let_def intro!: parse_intros parts split: option.split parsed_body.split)
qed

lemma preserves_parse_message:
  assumes "encryption_keeps I es"
  shows "preserves I (parse_message_like x me parse es mp m)"
proof -
  have "preserves I (parse_message_body x es mp u room m)" for u room
    using assms by (auto simp: parse_message_body_def encryption_keeps_def intro!: parse_intros
        split: option.split encrypted_message.split)
  then have "preserves I (parse_message_payload x me parse es mp u room m)" for u room
    by (auto simp: parse_message_payload_def Let_def preserves_failures intro!: parse_intros preserves_parse_parts
        split: option.split)
  then show ?thesis
    by (auto simp: parse_message_like_def Let_def intro!: parse_intros preserves_parse_parts)
qed

lemma preserves_parse_moc: "encryption_keeps I (mv_encryption mv) \<Longrightarrow> preserves I (parse_moc mv mp m)"
  by (auto simp: parse_moc_def parse_forwarded_message_def preserves_failures intro!: parse_intros preserves_parse_message
      split: message_or_carbon.split option.split)

lemma stored_key:
  assumes "messages.keyed ck rows" "resolve_remote_id ck account room i rows = Inr (Some t)" "ml_id ml = tr_id t"
  shows "mr_id (record_from_message account room ml) \<in> fst ` set rows"
proof -
  obtain k r where r: "(k, r) \<in> set rows" "in_room account room r" "tr_id t = mr_message_id r"
    using assms(2) by (fastforce simp: resolve_remote_id_def index_get_exact triple_of_def dest!: find_SomeD)
  then have "k = mr_id r" "r \<in> stored_records"
    using assms(1) by (auto simp: messages.keyed_def)
  with r assms(3) have "mr_id (record_from_message account room ml) = k"
    by (auto simp: stored_records_def record_from_message_def in_room_def account_key_def room_raw_key_def)
  with r(1) show ?thesis by force
qed

text \<open>
  When a message the client has stored before it was sent comes back from the server, its row is
  replaced: no row is added, and nothing is announced.
\<close>

theorem reflected_message_updates:
  assumes "messages.keyed (mv_clock mv) (cs_messages s)"
    and "moc_room_id (mv_xml mv) m s = (Ok (Some room), s)" "moc_remote_id m = Some i"
    and "resolve_remote_id (mv_clock mv) account room i (cs_messages s) = Inr (Some t)"
    and "encryption_keeps (\<lambda>s'. cs_world s' = cs_world s \<and> cs_messages s' = cs_messages s) (mv_encryption mv)"
  shows "cs_world (snd (handle_sent_message_event mv account m s)) = cs_world s \<and>
     fst ` set (cs_messages (snd (handle_sent_message_event mv account m s))) = fst ` set (cs_messages s)"
proof (cases "repo_get (w_rooms (cs_world s)) (into_bare room)")
  case None
  with assms(2) show ?thesis by (simp add: handle_sent_message_event_def room_at_def prog_defs)
next
  case (Some r)
  let ?rm = "w_heap (cs_world s) ! r"
  let ?mp = "message_parser_new (mv_media mv) (tr_id t) (Some ?rm)
    (local_time_to_server_time (ri_features (r_info ?rm)) (mv_now mv s)) (decryption_context_of (w_ctx (cs_world s)))"
  have "handle_sent_message_event mv account m s =
      bindM (parse_moc mv ?mp m) (\<lambda>ml. append_messages mv account room [ml\<lparr>ml_from := PUser (account_user_id account)\<rparr>]) s"
    using assms(2-4) Some
    by (simp add: handle_sent_message_event_def room_at_def read_messages_def lift_store_def Let_def prog_defs)
  moreover obtain res s' where res: "parse_moc mv ?mp m s = (res, s')" by fastforce
  moreover have same: "cs_world s' = cs_world s \<and> cs_messages s' = cs_messages s"
    using preservesD [OF preserves_parse_moc [OF assms(5)], of s ?mp m] res by simp
  moreover have "ml_id ml = tr_id t" if "res = Ok ml" for ml
    using parsed_id [of mv ?mp m s ml s'] res that by (simp add: message_parser_new_def)
  ultimately show ?thesis
    using stored_key [OF assms(1,4)]
    by (cases res) (auto simp: bindM_def append_messages_def modify_world_def messages_append_def put_message_set [OF assms(1)])
qed

section \<open>Samples\<close>

definition sample_services :: "element message_services" where
  "sample_services =
     \<lparr>mv_xml = tree_xml, mv_media = sample_media, mv_parse_jid = (\<lambda>_. None), mv_clock = sample_clock,
      mv_new_id = show_nat, mv_now = (\<lambda>_. 5),
      mv_encryption = \<lparr>es_decrypt_message = (\<lambda>_ _ _ _ _. return []), es_handle_key_transport = (\<lambda>_ _ _. return ())\<rparr>,
      mv_rooms = quiet_services, mv_fuel = 0,
      mv_load_messages_since = (\<lambda>_ _ _. return \<lparr>pg_messages = [], pg_is_last = True\<rparr>),
      mv_load_messages_after = (\<lambda>_ _ _. return \<lparr>pg_messages = [], pg_is_last = True\<rparr>),
      mv_load_messages_before = (\<lambda>_ _ _. return \<lparr>pg_messages = [], pg_is_last = True\<rparr>),
      mv_relay_archived_message = (\<lambda>_ _ s. (Ok (), s\<lparr>cs_ids := Suc (cs_ids s)\<rparr>))\<rparr>"

definition sample_archived :: "string \<Rightarrow> element archived_message" where
  "sample_archived i = \<lparr>am_id = i, am_forwarded = \<lparr>fw_delay = Some 1, fw_stanza = None\<rparr>\<rparr>"

text \<open>An archive of two messages that gives one at a time, and never says that a page is the last one.\<close>

definition slow_archive :: "element message_services" where
  "slow_archive = sample_services
     \<lparr>mv_load_messages_since := (\<lambda>_ _ _. return \<lparr>pg_messages = [sample_archived ''1''], pg_is_last = False\<rparr>),
      mv_load_messages_after := (\<lambda>_ i _. return
        \<lparr>pg_messages = (if i = ''1'' then [sample_archived ''2''] else []), pg_is_last = False\<rparr>)\<rparr>"

lemma slow_archive_honest: "honest_archive slow_archive room t [sample_archived ''1'', sample_archived ''2'']"
  by (auto simp: honest_archive_def slow_archive_def page_at_def return_def sample_archived_def less_Suc_eq)

definition sample_state :: "element client_state" where
  "sample_state = \<lparr>cs_world = empty_world, cs_messages = [], cs_settings = [], cs_offline = [], cs_ids = 0\<rparr>"

theorem catchup_complete_witness:
  "catchup_room 4 slow_archive 0 0 sample_state =
     catchup_reference (\<lambda>_ _. [sample_archived ''1'', sample_archived ''2'']) slow_archive 0 0 sample_state"
  by (rule catchup_complete) (simp_all add: slow_archive_honest)

definition endless_archive :: "element message_services" where
  "endless_archive = sample_services
     \<lparr>mv_load_messages_before := (\<lambda>_ _ _. return \<lparr>pg_messages = [sample_archived ''1''], pg_is_last = False\<rparr>)\<rparr>"

theorem copy_without_stanza_id_never_ends_witness:
  "copy_all_messages_from_room 3 endless_archive sample_room sample_muc sample_state =
     (NoFuel, sample_state\<lparr>cs_ids := 3\<rparr>)"
proof -
  have "copy_all_messages_from_room 3 endless_archive sample_room sample_muc sample_state =
     (NoFuel, ((\<lambda>s. snd (for_each (mv_relay_archived_message endless_archive sample_muc) (pg_messages
        \<lparr>pg_messages = [sample_archived ''1''], pg_is_last = False\<rparr>) s)) ^^ 3) sample_state)"
    by (rule copy_without_stanza_id_never_ends [where a = "sample_archived ''1''" and as = "[]"])
      (simp_all add: endless_archive_def sample_services_def sample_archived_def return_def)
  then show ?thesis
    by (simp add: eval_nat_numeral endless_archive_def sample_services_def for_each_def prog_defs sample_state_def)
qed

definition sample_user :: user_id where "sample_user = UserId (BareJid (Some ''bob'') ''prose.org'')"

definition sample_chat_message :: "element message_stanza" where
  "sample_chat_message =
     \<lparr>ms_from = Some (JFull (FullJid (user_jid sample_user) ''res'')), ms_to = Some (JFull (user_resource_jid ex_user)),
      ms_id = Some ''m1'', ms_type = Chat, ms_bodies = [([], ''hi'')], ms_subjects = [], ms_thread = None,
      ms_payloads = [stanza_id_element tree_xml \<lparr>si_id = ''s1'', si_by = JBare (BareJid (Some ''a'') ''b'')\<rparr>]\<rparr>"

definition own_account :: account_id where "own_account = AccountId (res_to_user_id ex_user)"

definition stored_message :: message_like where
  "stored_message = (sample_like ''1'' 1 sample_text)\<lparr>ml_server_id := Some ''s1'', ml_remote_id := Some ''m1''\<rparr>"

definition stored_state :: "room_id \<Rightarrow> element client_state" where
  "stored_state room = sample_state\<lparr>cs_messages := messages_append sample_clock own_account room [stored_message] []\<rparr>"

lemma sample_server_id: "server_id_of tree_xml sample_chat_message = Some ''s1''"
proof -
  have "el_is tree_xml (stanza_id_element tree_xml i) ''stanza-id'' ns_sid" for i
    by (simp add: el_is_def stanza_id_element_def xml_build [OF tree_xml_ok])
  then show ?thesis
    using stanza_id_back(1) [OF tree_xml_ok, of "\<lparr>si_id = ''s1'', si_by = JBare (BareJid (Some ''a'') ''b'')\<rparr>"]
    by (simp add: server_id_of_def stanza_id_of_def typed_payload_def typed_payload_with_predicate_def
        sample_chat_message_def tree_xml_reads)
qed

lemma stored_state_rows: "cs_messages (stored_state room) =
   [(mr_id (record_from_message own_account room stored_message), record_from_message own_account room stored_message)]"
  using messages.put_filter [OF messages.keyed_Nil, of "record_from_message own_account room stored_message" sample_clock]
  by (simp add: stored_state_def messages_append_def)

theorem known_message_handled_again_witness:
  "messages_contains sample_clock own_account (RUser sample_user) ''s1'' (cs_messages (stored_state (RUser sample_user))) = Inr True \<and>
   handle_message_event sample_services (MessageReceived sample_chat_message) (stored_state (RUser sample_user)) =
     handle_received_message_event sample_services own_account (PlainMessage sample_chat_message) (stored_state (RUser sample_user))"
proof
  let ?s = "stored_state (RUser sample_user)"
  show "messages_contains sample_clock own_account (RUser sample_user) ''s1'' (cs_messages ?s) = Inr True"
    by (simp add: contains_exact stored_state_rows in_room_def record_from_message_def stored_message_def)
  have services: "mv_xml sample_services = tree_xml" "mv_clock sample_services = sample_clock"
    by (simp_all add: sample_services_def)
  show "handle_message_event sample_services (MessageReceived sample_chat_message) ?s =
     handle_received_message_event sample_services own_account (PlainMessage sample_chat_message) ?s"
  proof (rule known_message_handled_again)
    show "connected_account (cs_world ?s) = (Ok own_account, cs_world ?s)"
      by (simp add: connected_account_def prog_defs stored_state_def sample_state_def empty_world_def ex_context_def connected_id_def
          account_id_from_def user_id_from_def own_account_def ex_user_def res_to_user_id_def)
    show "ms_type sample_chat_message \<noteq> Groupchat" by (simp add: sample_chat_message_def)
    show "\<not> is_groupchat_message (mv_xml sample_services) sample_chat_message"
      by (simp add: is_groupchat_message_def sample_chat_message_def services el_is_def stanza_id_element_def xml_build [OF tree_xml_ok])
    show "ms_to sample_chat_message = Some (JFull (user_resource_jid ex_user))" by (simp add: sample_chat_message_def)
    show "jid_into_bare (JFull (user_resource_jid ex_user)) = user_jid (account_user_id own_account)"
      by (simp add: own_account_def res_to_user_id_def)
    show "server_id_of (mv_xml sample_services) sample_chat_message = Some ''s1''" by (simp add: services sample_server_id)
    show "messages_contains (mv_clock sample_services) own_account (RUser (account_user_id own_account)) ''s1'' (cs_messages ?s) = Inr False"
      by (simp add: services contains_exact stored_state_rows in_room_def record_from_message_def stored_message_def
          room_raw_key_def own_account_def sample_user_def ex_user_def res_to_user_id_def)
  qed
qed

theorem reflected_message_updates_witness:
  "fst ` set (cs_messages (snd (handle_sent_message_event sample_services own_account
       (PlainMessage (sample_chat_message\<lparr>ms_to := Some (JBare (user_jid sample_user))\<rparr>)) (stored_state (RUser sample_user))))) =
     fst ` set (cs_messages (stored_state (RUser sample_user)))"
proof -
  let ?s = "stored_state (RUser sample_user)" and ?m = "sample_chat_message\<lparr>ms_to := Some (JBare (user_jid sample_user))\<rparr>"
  have keyed: "messages.keyed (mv_clock sample_services) (cs_messages ?s)"
    by (simp add: sample_services_def stored_state_rows messages.keyed_def)
  have room: "moc_room_id (mv_xml sample_services) (PlainMessage ?m) ?s = (Ok (Some (RUser sample_user)), ?s)"
    by (simp add: moc_room_id_def message_room_id_def is_groupchat_message_def sample_chat_message_def sample_services_def
        el_is_def stanza_id_element_def xml_build [OF tree_xml_ok] require_user_def user_id_from_def sample_user_def prog_defs)
  have found: "resolve_remote_id (mv_clock sample_services) own_account (RUser sample_user) ''m1'' (cs_messages ?s) =
      Inr (Some (triple_of (record_from_message own_account (RUser sample_user) stored_message)))"
    by (simp add: resolve_remote_id_def index_get_exact stored_state_rows in_room_def record_from_message_def stored_message_def)
  have "encryption_keeps I (mv_encryption sample_services)" for I
    by (simp add: encryption_keeps_def sample_services_def preserves_pure)
  from reflected_message_updates [OF keyed room _ found this] show ?thesis
    by (simp add: moc_remote_id_def sample_chat_message_def)
qed

end
