(* ===== verification/RoomStatistics.thy ===== *)
theory RoomStatistics
  imports MessageEvents
begin

text \<open>
  The statistics of a room (\<^verbatim>\<open>update_statistics_if_needed\<close> of \<^verbatim>\<open>domain/rooms/models/room.rs\<close>):
  how many messages of others, and how many that mention the user, the message repository finds after the last one read.

  The code awaits the repository between two writes to the room. What other tasks do meanwhile is the pair of functions
  \<open>others\<close>, before and after the repository reads.
\<close>

section \<open>The update\<close>

definition read_since :: "clock \<Rightarrow> room \<Rightarrow> timestamp" where
  "read_since ck rm =
     (case ss_last_read_message (rd_settings (r_details rm)) of Some ref \<Rightarrow> am_timestamp ref | None \<Rightarrow> ck_min ck)"

definition count_all :: "occupant_id option \<Rightarrow> account_id \<Rightarrow> room_id \<Rightarrow> message_like list \<Rightarrow> room_statistics" where
  "count_all oc account room ms =
     fold (count_message (map_option POccupant oc) (account_user_id account) (is_muc_room room)) ms
       (default_statistics\<lparr>rs_needs_update := False\<rparr>)"

definition update_statistics_if_needed ::
    "(string \<Rightarrow> string option) \<Rightarrow> 'e message_services \<Rightarrow>
     ('e client_state \<Rightarrow> 'e client_state) \<times> ('e client_state \<Rightarrow> 'e client_state) \<Rightarrow> account_id \<Rightarrow> room_ref \<Rightarrow>
     ('e, room_statistics) client_prog" where
  "update_statistics_if_needed mk_resource mv others account r =
     bindM (on_world (read_room r)) (\<lambda>rm.
     if rd_state (r_details rm) \<in> {Pending, Connecting} then return default_statistics
     else if \<not> rs_needs_update (rd_statistics (r_details rm)) then return (rd_statistics (r_details rm))
     else
       let room = ri_room_id (r_info rm) in
       thenM (on_world (write_room r (\<lambda>d. d\<lparr>rd_statistics := default_statistics\<lparr>rs_needs_update := False\<rparr>\<rparr>)))
       (thenM (modify_world (fst others))
       (bindM (read_messages (get_messages_after (mv_clock mv) account room (read_since (mv_clock mv) rm))) (\<lambda>ms.
        thenM (modify_world (snd others))
        (bindM (lift_panic ''Invalid nickname'' (info_occupant_id mk_resource (r_info rm))) (\<lambda>oc.
         let stats = count_all oc account room ms in
         thenM (on_world (write_room r (\<lambda>d. d\<lparr>rd_statistics := stats\<rparr>))) (return stats)))))))"

section \<open>Messages after a time\<close>

text \<open>
  The messages the repository finds after a time: those with a later time whose time as it is stored is not below the
  text of that time.
\<close>

definition found_after :: "clock \<Rightarrow> account_id \<Rightarrow> room_id \<Rightarrow> timestamp \<Rightarrow> message_record \<Rightarrow> bool" where
  "found_after ck account room after m \<longleftrightarrow>
     in_room account room m \<and> after < mr_timestamp m \<and>
     datetime_to_raw_key (ck_civil ck after) \<le> KText (ck_json ck (mr_timestamp m)) \<and>
     KText (ck_json ck (mr_timestamp m)) \<le> datetime_to_raw_key (ck_civil ck (ck_max ck))"

lemma mset_in_order: "mset (in_order en acc dir rows) = mset rows"
  by (simp add: in_order_def comparator.mset_sort_by [OF comparator_rows] Let_def split: query_direction.split)

lemma mset_map_filter_cong: "mset xs = mset ys \<Longrightarrow> mset (List.map_filter f xs) = mset (List.map_filter f ys)"
  by (simp add: List.map_filter_def flip: mset_filter mset_map) (metis mset_filter mset_map)

lemma messages_after_found:
  "\<exists>ms. get_messages_after ck account room after rows = Inr ms \<and>
     mset ms = mset (map (message_like_from \<circ> snd) (filter (\<lambda>row. found_after ck account room after (snd row)) rows))"
proof -
  obtain lo hi where keys: "datetime_to_raw_key (ck_civil ck after) = KText lo"
      "datetime_to_raw_key (ck_civil ck (ck_max ck)) = KText hi"
    by (simp add: datetime_to_raw_key_def)
  let ?keep = "\<lambda>(k, m). if after < mr_timestamp m then Some (message_like_from m) else None"
  let ?sel = "\<lambda>row. in_room account room (snd row) \<and> lo \<le> ck_json ck (mr_timestamp (snd row)) \<and> ck_json ck (mr_timestamp (snd row)) \<le> hi"
  let ?ms = "List.map_filter ?keep (in_order (message_entity ck) (ByIndex timestamp_idx) Forward (filter ?sel rows))"
  have "get_messages_after ck account room after rows = Inr ?ms"
    by (simp add: get_messages_after_def keys filtered_exact text_between_keys)
  moreover have "mset ?ms = mset (List.map_filter ?keep (filter ?sel rows))"
    by (rule mset_map_filter_cong) (simp add: mset_in_order)
  moreover have "List.map_filter ?keep (filter ?sel rows) =
      map (message_like_from \<circ> snd) (filter (\<lambda>row. found_after ck account room after (snd row)) rows)"
    by (induction rows) (auto simp: List.map_filter_simps found_after_def keys)
  ultimately show ?thesis by auto
qed

section \<open>Exactness\<close>

lemma counted:
  "unat (rs_unread_count (count_all oc account room ms)) =
     length (filter (foreign (map_option POccupant oc) (account_user_id account) (is_muc_room room)) ms) mod 2 ^ 32"
  "unat (rs_mentions_count (count_all oc account room ms)) =
     length (filter (\<lambda>m. foreign (map_option POccupant oc) (account_user_id account) (is_muc_room room) m \<and>
       mentions (account_user_id account) (ml_payload m)) ms) mod 2 ^ 32"
  "\<not> rs_needs_update (count_all oc account room ms)"
  by (simp_all add: count_all_def count_messages default_statistics_def unat_of_nat)

lemma length_filter_mset: "mset xs = mset ys \<Longrightarrow> length (filter P xs) = length (filter P ys)"
  by (metis mset_filter size_mset)

text \<open>The stored messages of others after the last one read, as far as the repository finds them.\<close>

definition unread :: "clock \<Rightarrow> account_id \<Rightarrow> room \<Rightarrow> occupant_id option \<Rightarrow> message_rows \<Rightarrow> message_like list" where
  "unread ck account rm oc rows =
     filter (foreign (map_option POccupant oc) (account_user_id account) (is_muc_room (ri_room_id (r_info rm))))
       (map (message_like_from \<circ> snd)
         (filter (\<lambda>row. found_after ck account (ri_room_id (r_info rm)) (read_since ck rm) (snd row)) rows))"

text \<open>
  C14. Updating the statistics of a connected or disconnected room counts exactly the stored messages of others that
  the repository finds after the last one read, and those of them that mention the user, in 32 bits. It reads the messages as
  other tasks have left them when it reads. The room then has these statistics and counts as up to date, also if another
  task has asked for an update meanwhile. The repository finds the later messages whose stored time is not below the text of
  the time of the last one read, so not all of the same second.
\<close>

theorem statistics_exact:
  assumes "rm = w_heap (cs_world s) ! r" "rd_state (r_details rm) = Connected \<or> is_disconnected (rd_state (r_details rm))"
    and "rs_needs_update (rd_statistics (r_details rm))" "info_occupant_id mk_resource (r_info rm) = Some oc"
    and s1: "s1 = before (s\<lparr>cs_world := (cs_world s)\<lparr>w_heap :=
      write_details r (\<lambda>d. d\<lparr>rd_statistics := default_statistics\<lparr>rs_needs_update := False\<rparr>\<rparr>) (w_heap (cs_world s))\<rparr>\<rparr>)"
    and "r < length (w_heap (cs_world (after s1)))"
  shows "\<exists>st s'. update_statistics_if_needed mk_resource mv (before, after) account r s = (Ok st, s') \<and>
    unat (rs_unread_count st) = length (unread (mv_clock mv) account rm oc (cs_messages s1)) mod 2 ^ 32 \<and>
    unat (rs_mentions_count st) =
      length (filter (\<lambda>m. mentions (account_user_id account) (ml_payload m))
        (unread (mv_clock mv) account rm oc (cs_messages s1))) mod 2 ^ 32 \<and>
    rd_statistics (r_details (w_heap (cs_world s') ! r)) = st \<and> \<not> rs_needs_update st"
proof -
  let ?room = "ri_room_id (r_info rm)"
  obtain ms where ms: "get_messages_after (mv_clock mv) account ?room (read_since (mv_clock mv) rm) (cs_messages s1) = Inr ms"
    and found: "mset ms = mset (map (message_like_from \<circ> snd)
        (filter (\<lambda>row. found_after (mv_clock mv) account ?room (read_since (mv_clock mv) rm) (snd row)) (cs_messages s1)))"
    using messages_after_found by blast
  let ?st = "count_all oc account ?room ms"
  let ?w = "cs_world (after s1)"
  let ?s' = "(after s1)\<lparr>cs_world := ?w\<lparr>w_heap := write_details r (\<lambda>d. d\<lparr>rd_statistics := ?st\<rparr>) (w_heap ?w)\<rparr>\<rparr>"
  have "rd_state (r_details rm) \<notin> {Pending, Connecting}" using assms(2) by auto
  then have "update_statistics_if_needed mk_resource mv (before, after) account r s = (Ok ?st, ?s')"
    using assms(1,3,4) ms
    by (simp add: update_statistics_if_needed_def on_world_def read_room_def write_room_def prog_defs read_messages_def lift_store_def
        Let_def flip: s1)
  moreover have "rd_statistics (r_details (w_heap (cs_world ?s') ! r)) = ?st"
    using assms(6) by (simp add: nth_write_details)
  ultimately show ?thesis
    using length_filter_mset [OF found]
    by (intro exI [of _ ?st] exI [of _ ?s']) (simp add: counted unread_def conj_commute)
qed

section \<open>A sample\<close>

definition counted_clock :: clock where
  "counted_clock = sample_clock\<lparr>ck_civil := (\<lambda>t. \<lparr>dt_year = (if t = 0 then 1999 else 2025), dt_month = 1, dt_day = 1,
     dt_hour = 0, dt_minute = 0, dt_second = 0\<rparr>)\<rparr>"

definition counted_peer :: user_id where "counted_peer = UserId (BareJid (Some ''alice'') ''prose.org'')"

definition counted_room :: room where
  "counted_room = room_for_direct_message counted_peer ''a'' default_presence InSidebar default_features
     (synced_settings_new (RUser counted_peer))"

definition counted_record :: message_record where
  "counted_record = record_from_message sample_account (RUser counted_peer) (sample_like ''a'' 1 sample_text)"

definition counted_state :: "element client_state" where
  "counted_state = sample_state\<lparr>cs_world := empty_world\<lparr>w_heap := [counted_room]\<rparr>, cs_messages := [(mr_id counted_record, counted_record)]\<rparr>"

theorem statistics_exact_witness:
  "\<exists>st s'. update_statistics_if_needed Some (sample_services\<lparr>mv_clock := counted_clock\<rparr>)
      (id, \<lambda>s. snd (on_world (set_needs_update_statistics 0) s)) sample_account 0 counted_state = (Ok st, s') \<and>
    unat (rs_unread_count st) = 1 \<and> \<not> rs_needs_update (rd_statistics (r_details (w_heap (cs_world s') ! 0)))"
proof -
  let ?others = "\<lambda>s :: element client_state. snd (on_world (set_needs_update_statistics 0) s)"
  let ?s1 = "id (counted_state\<lparr>cs_world := (cs_world counted_state)\<lparr>w_heap :=
      write_details 0 (\<lambda>d. d\<lparr>rd_statistics := default_statistics\<lparr>rs_needs_update := False\<rparr>\<rparr>) (w_heap (cs_world counted_state))\<rparr>\<rparr>)"
  have room: "rd_state (r_details (w_heap (cs_world counted_state) ! 0)) = Connected \<or>
      is_disconnected (rd_state (r_details (w_heap (cs_world counted_state) ! 0)))"
    "rs_needs_update (rd_statistics (r_details (w_heap (cs_world counted_state) ! 0)))"
    "info_occupant_id Some (r_info (w_heap (cs_world counted_state) ! 0)) = Some None"
    by (simp_all add: counted_state_def counted_room_def room_for_direct_message_def default_statistics_def info_occupant_id_def)
  have kept: "0 < length (w_heap (cs_world (?others ?s1)))"
    by (simp add: counted_state_def on_world_def set_needs_update_statistics_def write_room_def modify_world_def)
  have keys: "datetime_to_raw_key (ck_civil counted_clock 0) = KText ''1999-01-01T00:00:00Z''"
    "datetime_to_raw_key (ck_civil counted_clock 10) = KText ''2025-01-01T00:00:00Z''"
    "ck_json counted_clock 1 = ''2024-05-01T10:00:00.1Z''"
    by (simp_all add: datetime_to_raw_key_def counted_clock_def sample_clock_def zero_padded_def show_nat.simps show_int_def char_of_eq_iff)
  have bounds: "ck_min counted_clock = 0" "ck_max counted_clock = 10" by (simp_all add: counted_clock_def sample_clock_def)
  have "found_after counted_clock sample_account (RUser counted_peer) 0 counted_record"
    using keys by (simp add: found_after_def bounds counted_record_def record_from_message_def sample_like_def in_room_def)
  moreover have "read_since counted_clock counted_room = 0" "ri_room_id (r_info counted_room) = RUser counted_peer"
    by (simp_all add: read_since_def bounds counted_room_def room_for_direct_message_def synced_settings_new_def)
  ultimately have "length (unread counted_clock sample_account counted_room None (cs_messages ?s1)) = 1"
    by (simp add: unread_def counted_state_def)
      (simp add: counted_record_def record_from_message_def message_like_from_def sample_like_def sample_text_def foreign_def sample_account_def)
  moreover have "w_heap (cs_world counted_state) ! 0 = counted_room" by (simp add: counted_state_def)
  ultimately show ?thesis
    using statistics_exact [where s = counted_state and before = id and after = ?others and r = 0 and
        mv = "sample_services\<lparr>mv_clock := counted_clock\<rparr>" and account = sample_account, OF refl room refl kept]
    by auto
qed

end
