(* ===== verification/RoomConfig.thy ===== *)
theory RoomConfig
  imports Rooms Stanzas "HOL-Library.Char_ord" "HOL-Library.List_Lexorder"
begin

text \<open>
  Configuring rooms: forms that are filled out (\<^verbatim>\<open>util/form_config.rs\<close>), the form of each room
  specification and the check of a room against it
  (\<^verbatim>\<open>infra/xmpp/type_conversions/room_spec.rs\<close>), and what a room says about itself
  (\<^verbatim>\<open>infra/xmpp/type_conversions/room_info.rs\<close>).

  A field is kept with the parts the code reads or writes; its label, description and media are
  copied along in the code and left out here.
\<close>

section \<open>Forms\<close>

datatype field_type =
  FBoolean | FFixed | FHidden | FJidMulti | FJidSingle | FListMulti | FListSingle | FTextMulti | FTextPrivate | FTextSingle

record form_field =
  fd_var :: "string option"
  fd_type :: field_type
  fd_required :: bool
  fd_options :: "string list"
  fd_values :: "string list"
  fd_validate :: "string option"

datatype form_value =
    VBoolean bool
  | VJidMulti "jid list"
  | VJidSingle jid
  | VListMulti "string list"
  | VListSingle string
  | VTextMulti "string list"
  | VTextSingle string
  | VNone

record config_value =
  cv_var :: string
  cv_value :: form_value
  cv_required :: bool

definition required_value :: "string \<Rightarrow> form_value \<Rightarrow> config_value" where
  "required_value var v = \<lparr>cv_var = var, cv_value = v, cv_required = True\<rparr>"

definition optional_value :: "string \<Rightarrow> form_value \<Rightarrow> config_value" where
  "optional_value var v = \<lparr>cv_var = var, cv_value = v, cv_required = False\<rparr>"

datatype form_error =
    MissingRequiredFields "string list"
  | MissingRequiredValue string
  | TypeMismatch string string string
  | InvalidValue string string
  | FormPanic string

text \<open>The values by their variable; a later one replaces an earlier one.\<close>

type_synonym form_config = "(string \<times> config_value) list"

definition form_config_new :: "config_value list \<Rightarrow> form_config" where
  "form_config_new vs = fold (\<lambda>v. AList.update (cv_var v) v) vs []"

fun show_form_value :: "form_value \<Rightarrow> string" where
  "show_form_value (VBoolean _) = ''boolean''"
| "show_form_value (VJidMulti _) = ''jid-multi''"
| "show_form_value (VJidSingle _) = ''jid-single''"
| "show_form_value (VListMulti _) = ''list-multi''"
| "show_form_value (VListSingle _) = ''list-single''"
| "show_form_value (VTextMulti _) = ''text-multi''"
| "show_form_value (VTextSingle _) = ''text-single''"
| "show_form_value VNone = ''none''"

definition show_bool :: "bool \<Rightarrow> string" where
  "show_bool b = (if b then ''true'' else ''false'')"

definition options_contains_value :: "form_field \<Rightarrow> string \<Rightarrow> bool" where
  "options_contains_value f v = list_ex (\<lambda>opt. opt = v) (fd_options f)"

text \<open>\<open>type_name\<close> is the attribute value of a field type, where it is written.\<close>

definition apply_to_field :: "(field_type \<Rightarrow> string option) \<Rightarrow> form_value \<Rightarrow> string \<Rightarrow> form_field \<Rightarrow> form_error + form_field" where
  "apply_to_field type_name v var f =
     (case (v, fd_type f) of
        (VNone, _) \<Rightarrow> Inr f
      | (VBoolean b, FBoolean) \<Rightarrow> Inr (f\<lparr>fd_values := [show_bool b]\<rparr>)
      | (VJidMulti js, FJidMulti) \<Rightarrow> Inr (f\<lparr>fd_values := map show_jid js\<rparr>)
      | (VJidSingle j, FJidSingle) \<Rightarrow> Inr (f\<lparr>fd_values := [show_jid j]\<rparr>)
      | (VListMulti vs, FListMulti) \<Rightarrow>
          (case find (\<lambda>s. \<not> options_contains_value f s) vs of
             Some s \<Rightarrow> Inl (InvalidValue var s)
           | None \<Rightarrow> Inr (f\<lparr>fd_values := vs\<rparr>))
      | (VListSingle s, FListSingle) \<Rightarrow>
          if \<not> options_contains_value f s then Inl (InvalidValue var s) else Inr (f\<lparr>fd_values := [s]\<rparr>)
      | (VTextMulti vs, FTextMulti) \<Rightarrow> Inr (f\<lparr>fd_values := vs\<rparr>)
      | (VTextSingle s, FTextPrivate) \<Rightarrow> Inr (f\<lparr>fd_values := [s]\<rparr>)
      | (VTextSingle s, FTextSingle) \<Rightarrow> Inr (f\<lparr>fd_values := [s]\<rparr>)
      | (_, FFixed) \<Rightarrow> Inl (FormPanic ''Unexpected 'fixed' field'')
      | (_, FHidden) \<Rightarrow> Inr f
      | _ \<Rightarrow>
          Inl (TypeMismatch var (show_form_value v)
            (case type_name (fd_type f) of Some n \<Rightarrow> n | None \<Rightarrow> ''<unknown>'')))"

fun populate_loop :: "(field_type \<Rightarrow> string option) \<Rightarrow> form_config \<Rightarrow> form_field list \<Rightarrow> string list \<Rightarrow> form_field list \<Rightarrow>
    form_error + form_field list \<times> string list" where
  "populate_loop type_name cfg [] required out = Inr (out, required)"
| "populate_loop type_name cfg (f # fs) required out =
     (case fd_var f of
        None \<Rightarrow> populate_loop type_name cfg fs required out
      | Some var \<Rightarrow>
          if fd_type f = FFixed then populate_loop type_name cfg fs required out
          else
            (case map_of cfg var of
               None \<Rightarrow>
                 if fd_values f \<noteq> [] \<or> \<not> fd_required f
                 then populate_loop type_name cfg fs required (out @ [f\<lparr>fd_validate := None\<rparr>])
                 else Inl (MissingRequiredValue var)
             | Some v \<Rightarrow>
                 let required' = (if cv_required v then removeAll var required else required) in
                 bind_res (apply_to_field type_name (cv_value v) var f) (\<lambda>f'.
                 populate_loop type_name cfg fs required' (out @ [f'\<lparr>fd_validate := None\<rparr>]))))"

definition required_vars :: "form_config \<Rightarrow> string list" where
  "required_vars cfg = map (\<lambda>(_, v). cv_var v) (filter (\<lambda>(_, v). cv_required v) cfg)"

definition populate_form_fields :: "(field_type \<Rightarrow> string option) \<Rightarrow> form_config \<Rightarrow> form_field list \<Rightarrow>
    form_error + form_field list" where
  "populate_form_fields type_name cfg fs =
     bind_res (populate_loop type_name cfg fs (required_vars cfg) []) (\<lambda>(out, required).
     if required \<noteq> [] then Inl (MissingRequiredFields (sorted_list_of_set (set required))) else Inr out)"

section \<open>Room specifications\<close>

text \<open>\<^verbatim>\<open>stanza/muc/ns.rs\<close>.\<close>

definition cfg_allow_invites :: string where "cfg_allow_invites = ''muc#roomconfig_allowinvites''"
definition cfg_allow_member_invites :: string where
  "cfg_allow_member_invites = ''{http://prosody.im/protocol/muc}roomconfig_allowmemberinvites''"
definition cfg_allow_pm :: string where "cfg_allow_pm = ''muc#roomconfig_allowpm''"
definition cfg_change_subject :: string where "cfg_change_subject = ''muc#roomconfig_changesubject''"
definition cfg_default_history_messages :: string where
  "cfg_default_history_messages = ''muc#roomconfig_defaulthistorymessages''"
definition cfg_enable_logging :: string where "cfg_enable_logging = ''muc#roomconfig_enablelogging''"
definition cfg_get_member_list :: string where "cfg_get_member_list = ''muc#roomconfig_getmemberlist''"
definition cfg_lang :: string where "cfg_lang = ''muc#roomconfig_lang''"
definition cfg_max_history_fetch :: string where "cfg_max_history_fetch = ''muc#maxhistoryfetch''"
definition cfg_max_users :: string where "cfg_max_users = ''muc#roomconfig_maxusers''"
definition cfg_members_only :: string where "cfg_members_only = ''muc#roomconfig_membersonly''"
definition cfg_moderated_room :: string where "cfg_moderated_room = ''muc#roomconfig_moderatedroom''"
definition cfg_password_protected_room :: string where
  "cfg_password_protected_room = ''muc#roomconfig_passwordprotectedroom''"
definition cfg_persistent_room :: string where "cfg_persistent_room = ''muc#roomconfig_persistentroom''"
definition cfg_presence_broadcast :: string where "cfg_presence_broadcast = ''muc#roomconfig_presencebroadcast''"
definition cfg_public_room :: string where "cfg_public_room = ''muc#roomconfig_publicroom''"
definition cfg_pubsub :: string where "cfg_pubsub = ''muc#roomconfig_pubsub''"
definition cfg_room_desc :: string where "cfg_room_desc = ''muc#roomconfig_roomdesc''"
definition cfg_room_name :: string where "cfg_room_name = ''muc#roomconfig_roomname''"
definition cfg_room_owners :: string where "cfg_room_owners = ''muc#roomconfig_roomowners''"
definition cfg_room_secret :: string where "cfg_room_secret = ''muc#roomconfig_roomsecret''"
definition cfg_whois :: string where "cfg_whois = ''muc#roomconfig_whois''"

definition max_participants_per_group :: nat where "max_participants_per_group = 9"

fun spec_allows_invites :: "room_spec \<Rightarrow> bool" where
  "spec_allows_invites SGroup = False"
| "spec_allows_invites SPrivateChannel = True"
| "spec_allows_invites SPublicChannel = True"

fun spec_max_users :: "room_spec \<Rightarrow> nat" where
  "spec_max_users SGroup = max_participants_per_group"
| "spec_max_users SPrivateChannel = 100"
| "spec_max_users SPublicChannel = 100"

fun spec_members_only :: "room_spec \<Rightarrow> bool" where
  "spec_members_only SGroup = True"
| "spec_members_only SPrivateChannel = True"
| "spec_members_only SPublicChannel = False"

definition spec_values :: "room_spec \<Rightarrow> string \<Rightarrow> config_value list" where
  "spec_values spec room_name =
     [optional_value cfg_allow_pm (VTextSingle ''none''),
      optional_value cfg_change_subject (VBoolean True),
      optional_value cfg_default_history_messages (VTextSingle ''0''),
      optional_value cfg_enable_logging (VBoolean False),
      optional_value cfg_get_member_list (VBoolean True),
      optional_value cfg_lang (VTextSingle ''en''),
      optional_value cfg_max_history_fetch (VTextSingle ''0''),
      optional_value cfg_moderated_room (VBoolean False),
      optional_value cfg_password_protected_room (VBoolean False),
      optional_value cfg_persistent_room (VBoolean True),
      optional_value cfg_presence_broadcast (VListMulti [''moderator'', ''participant'', ''visitor'']),
      optional_value cfg_pubsub VNone,
      optional_value cfg_room_desc VNone,
      optional_value cfg_room_owners VNone,
      optional_value cfg_room_secret VNone,
      optional_value cfg_whois (VListSingle ''anyone''),
      optional_value cfg_presence_broadcast (VListMulti [''moderator'', ''participant'', ''visitor'']),
      optional_value cfg_allow_invites (VBoolean (spec_allows_invites spec)),
      optional_value cfg_allow_member_invites (VBoolean (spec_allows_invites spec)),
      optional_value cfg_max_users (VTextSingle (show_nat (spec_max_users spec))),
      optional_value cfg_members_only (VBoolean (spec_members_only spec)),
      optional_value cfg_public_room (VBoolean (\<not> spec_members_only spec)),
      optional_value cfg_room_name (VTextSingle room_name)]"

text \<open>The fields of the form that is submitted.\<close>

definition populate_form :: "(field_type \<Rightarrow> string option) \<Rightarrow> room_spec \<Rightarrow> string \<Rightarrow> form_field list \<Rightarrow> form_error + form_field list" where
  "populate_form type_name spec room_name fs =
     populate_form_fields type_name (form_config_new (spec_values spec room_name)) fs"

section \<open>What a room says about itself\<close>

record muc_features =
  is_hidden :: bool
  is_members_only :: bool
  is_moderated :: bool
  is_nonanonymous :: bool
  is_open :: bool
  is_password_protected :: bool
  is_persistent :: bool
  is_public :: bool
  is_semianonymous :: bool
  is_temporary :: bool
  is_unmoderated :: bool
  is_unsecured :: bool
  is_member_invites_allowed :: bool
  is_invites_allowed :: bool
  supports_occupant_id :: bool
  supports_registering :: bool
  supports_registering_in_band :: bool
  supports_request :: bool
  supports_room_config :: bool
  supports_room_info :: bool
  supports_self_ping_optimization :: bool
  supports_stable_id :: bool
  mam_version_of :: "mam_version option"

record muc_room_info =
  rmi_features :: muc_features
  rmi_name :: "string option"
  rmi_description :: "string option"

definition no_features :: muc_features where
  "no_features =
     \<lparr>is_hidden = False, is_members_only = False, is_moderated = False, is_nonanonymous = False, is_open = False,
      is_password_protected = False, is_persistent = False, is_public = False, is_semianonymous = False,
      is_temporary = False, is_unmoderated = False, is_unsecured = False, is_member_invites_allowed = False,
      is_invites_allowed = False, supports_occupant_id = False, supports_registering = False,
      supports_registering_in_band = False, supports_request = False, supports_room_config = False,
      supports_room_info = False, supports_self_ping_optimization = False, supports_stable_id = False,
      mam_version_of = None\<rparr>"

fun mam_rank :: "mam_version \<Rightarrow> nat" where
  "mam_rank Mam0 = 0"
| "mam_rank Mam1 = 1"
| "mam_rank Mam2 = 2"
| "mam_rank Mam2Extended = 3"

definition raise_mam :: "mam_version \<Rightarrow> muc_features \<Rightarrow> muc_features" where
  "raise_mam v fe =
     fe\<lparr>mam_version_of := Some
       (case mam_version_of fe of None \<Rightarrow> v | Some w \<Rightarrow> if mam_rank w \<le> mam_rank v then v else w)\<rparr>"

definition add_feature :: "string \<Rightarrow> muc_features \<Rightarrow> muc_features" where
  "add_feature var fe =
     (if var = ''muc_hidden'' then fe\<lparr>is_hidden := True\<rparr>
      else if var = ''muc_membersonly'' then fe\<lparr>is_members_only := True\<rparr>
      else if var = ''muc_moderated'' then fe\<lparr>is_moderated := True\<rparr>
      else if var = ''muc_nonanonymous'' then fe\<lparr>is_nonanonymous := True\<rparr>
      else if var = ''urn:xmpp:occupant-id:0'' then fe\<lparr>supports_occupant_id := True\<rparr>
      else if var = ''muc_open'' then fe\<lparr>is_open := True\<rparr>
      else if var = ''muc_passwordprotected'' then fe\<lparr>is_password_protected := True\<rparr>
      else if var = ''muc_persistent'' then fe\<lparr>is_persistent := True\<rparr>
      else if var = ''muc_public'' then fe\<lparr>is_public := True\<rparr>
      else if var = ''http://jabber.org/protocol/muc#register'' then fe\<lparr>supports_registering := True\<rparr>
      else if var = ''jabber:iq:register'' then fe\<lparr>supports_registering_in_band := True\<rparr>
      else if var = ''http://jabber.org/protocol/muc#request'' then fe\<lparr>supports_request := True\<rparr>
      else if var = ''http://jabber.org/protocol/muc#roomconfig'' then fe\<lparr>supports_room_config := True\<rparr>
      else if var = ''http://jabber.org/protocol/muc#roominfo'' then fe\<lparr>supports_room_info := True\<rparr>
      else if var = ''http://jabber.org/protocol/muc#self-ping-optimization'' then fe\<lparr>supports_self_ping_optimization := True\<rparr>
      else if var = ''muc_semianonymous'' then fe\<lparr>is_semianonymous := True\<rparr>
      else if var = ''http://jabber.org/protocol/muc#stable_id'' then fe\<lparr>supports_stable_id := True\<rparr>
      else if var = ''muc_temporary'' then fe\<lparr>is_temporary := True\<rparr>
      else if var = ''muc_unmoderated'' then fe\<lparr>is_unmoderated := True\<rparr>
      else if var = ''muc_unsecured'' then fe\<lparr>is_unsecured := True\<rparr>
      else if var = ''urn:xmpp:mam:0'' then raise_mam Mam0 fe
      else if var = ''urn:xmpp:mam:1'' then raise_mam Mam1 fe
      else if var = ''urn:xmpp:mam:2'' then raise_mam Mam2 fe
      else if var = ''urn:xmpp:mam:2#extended'' then raise_mam Mam2Extended fe
      else fe)"

definition features_from :: "string list \<Rightarrow> muc_features" where
  "features_from vars = fold add_feature vars no_features"

record disco_form =
  df_form_type :: "string option"
  df_fields :: "form_field list"

record disco_info =
  di_features :: "string list"
  di_extensions :: "disco_form list"

definition ns_muc_roominfo :: string where "ns_muc_roominfo = ''http://jabber.org/protocol/muc#roominfo''"

definition first_bool :: "form_field \<Rightarrow> parse_error + bool" where
  "first_bool f =
     (case fd_values f of [] \<Rightarrow> Inr False | v # _ \<Rightarrow> parse_bool v)"

definition read_info_field :: "form_field \<Rightarrow> muc_room_info \<Rightarrow> parse_error + muc_room_info" where
  "read_info_field f info =
     (case fd_var f of
        None \<Rightarrow> Inr info
      | Some var \<Rightarrow>
          if var = ''muc#roominfo_description'' then
            Inr (info\<lparr>rmi_description := (case fd_values f of [] \<Rightarrow> None | v # _ \<Rightarrow> Some v)\<rparr>)
          else if var = cfg_room_name then Inr (info\<lparr>rmi_name := (case fd_values f of [] \<Rightarrow> None | v # _ \<Rightarrow> Some v)\<rparr>)
          else if var = cfg_allow_member_invites then
            bind_res (first_bool f) (\<lambda>b. Inr (info\<lparr>rmi_features := (rmi_features info)\<lparr>is_member_invites_allowed := b\<rparr>\<rparr>))
          else if var = cfg_allow_invites then
            bind_res (first_bool f) (\<lambda>b. Inr (info\<lparr>rmi_features := (rmi_features info)\<lparr>is_invites_allowed := b\<rparr>\<rparr>))
          else Inr info)"

definition room_info_try_from :: "disco_info \<Rightarrow> parse_error + muc_room_info" where
  "room_info_try_from di =
     fold_res (\<lambda>form info.
         if df_form_type form \<noteq> Some ns_muc_roominfo then Inr info
         else fold_res read_info_field (df_fields form) info)
       (di_extensions di)
       \<lparr>rmi_features = features_from (di_features di), rmi_name = None, rmi_description = None\<rparr>"

section \<open>Checking a room\<close>

definition expectations :: "room_spec \<Rightarrow> muc_features \<Rightarrow> (string \<times> bool \<times> bool) list" where
  "expectations spec fe =
     (case spec of
        SGroup \<Rightarrow>
          [(''muc_persistent'', is_persistent fe, True), (''muc_hidden'', is_hidden fe, True),
           (''muc_membersonly'', is_members_only fe, True), (''muc_nonanonymous'', is_nonanonymous fe, True),
           (cfg_allow_invites, is_invites_allowed fe, False),
           (cfg_allow_member_invites, is_member_invites_allowed fe, False)]
      | SPrivateChannel \<Rightarrow>
          [(''muc_persistent'', is_persistent fe, True), (''muc_hidden'', is_hidden fe, True),
           (''muc_membersonly'', is_members_only fe, True), (cfg_allow_invites, is_invites_allowed fe, True),
           (cfg_allow_member_invites, is_member_invites_allowed fe, True)]
      | SPublicChannel \<Rightarrow>
          [(''muc_persistent'', is_persistent fe, True), (''muc_public'', is_public fe, True), (''muc_open'', is_open fe, True)])"

definition validate_against :: "room_spec \<Rightarrow> muc_room_info \<Rightarrow> string list + unit" where
  "validate_against spec info =
     (let failures = map (\<lambda>(feature, _, expected). feature @ '' should be '' @ show_bool expected)
          (filter (\<lambda>(_, actual, expected). actual \<noteq> expected) (expectations spec (rmi_features info)))
      in if failures = [] then Inr () else Inl failures)"

definition is_satisfied_by :: "room_spec \<Rightarrow> muc_room_info \<Rightarrow> bool" where
  "is_satisfied_by spec info \<longleftrightarrow> validate_against spec info = Inr ()"

fun show_spec :: "room_spec \<Rightarrow> string" where
  "show_spec SGroup = ''Group''"
| "show_spec SPrivateChannel = ''Private Channel''"
| "show_spec SPublicChannel = ''Public Channel''"

definition show_validation_error :: "room_spec \<Rightarrow> string list \<Rightarrow> string" where
  "show_validation_error spec failures =
     ''MUC room does not qualify as '' @ show_spec spec @ ''. The following expectations failed:'' @ [CHR 0x0A] @
     join_with [CHR 0x0A] (map (\<lambda>f. ''  - '' @ f) failures)"

text \<open>The type of a room: that of the first specification it satisfies.\<close>

definition room_type_of :: "muc_room_info \<Rightarrow> room_type" where
  "room_type_of info =
     (case find (\<lambda>spec. is_satisfied_by spec info) [SGroup, SPrivateChannel, SPublicChannel] of
        Some spec \<Rightarrow> spec_room_type spec
      | None \<Rightarrow> Generic)"

definition room_config_from :: "muc_room_info \<Rightarrow> room_type \<Rightarrow> room_config" where
  "room_config_from info t =
     \<lparr>rc_room_name = rmi_name info, rc_room_description = rmi_description info, rc_room_type = t,
      rc_mam_version = mam_version_of (rmi_features info),
      rc_supports_self_ping_optimization = supports_self_ping_optimization (rmi_features info)\<rparr>"

section \<open>Filling out a form\<close>

text \<open>The fields that are filled out, and what is put into each of them.\<close>

definition fillable :: "form_field \<Rightarrow> bool" where
  "fillable f \<longleftrightarrow> fd_var f \<noteq> None \<and> fd_type f \<noteq> FFixed"

definition fill_field :: "(field_type \<Rightarrow> string option) \<Rightarrow> form_config \<Rightarrow> form_field \<Rightarrow> form_error + form_field" where
  "fill_field type_name cfg f =
     (case map_of cfg (the (fd_var f)) of
        None \<Rightarrow> if fd_values f \<noteq> [] \<or> \<not> fd_required f then Inr (f\<lparr>fd_validate := None\<rparr>)
                else Inl (MissingRequiredValue (the (fd_var f)))
      | Some v \<Rightarrow> bind_res (apply_to_field type_name (cv_value v) (the (fd_var f)) f) (\<lambda>f'. Inr (f'\<lparr>fd_validate := None\<rparr>)))"

definition form_vars :: "form_field list \<Rightarrow> string set" where
  "form_vars fs = (\<lambda>f. the (fd_var f)) ` {f \<in> set fs. fillable f}"

fun fill_all :: "(field_type \<Rightarrow> string option) \<Rightarrow> form_config \<Rightarrow> form_field list \<Rightarrow> form_error + form_field list" where
  "fill_all type_name cfg [] = Inr []"
| "fill_all type_name cfg (f # fs) =
     (if fillable f then bind_res (fill_field type_name cfg f) (\<lambda>f'. bind_res (fill_all type_name cfg fs) (\<lambda>fs'. Inr (f' # fs')))
      else fill_all type_name cfg fs)"

lemma config_keys: "map_of (form_config_new vs) var = Some v \<Longrightarrow> cv_var v = var \<and> v \<in> set vs"
  unfolding form_config_new_def map_of_fold_update
  by (auto split: option.splits dest!: find_SomeD)

lemma config_distinct: "distinct (map fst (form_config_new vs))"
  unfolding form_config_new_def by (simp add: keys_fold_update)

lemma required_vars_config: "set (required_vars (form_config_new vs)) =
   {var. \<exists>v. map_of (form_config_new vs) var = Some v \<and> cv_required v}"
proof -
  have "cv_var v = k" if "(k, v) \<in> set (form_config_new vs)" for k v
    using that config_keys [of vs k v] map_of_is_SomeI [OF config_distinct that] by simp
  moreover have "(k, v) \<in> set (form_config_new vs) \<longleftrightarrow> map_of (form_config_new vs) k = Some v" for k v
    using config_distinct [of vs] by simp
  ultimately show ?thesis by (force simp: required_vars_def)
qed

lemma populate_loop_exact:
  "populate_loop type_name cfg fs required out =
     bind_res (fill_all type_name cfg fs) (\<lambda>fs'.
       Inr (out @ fs', filter (\<lambda>var. \<not> (var \<in> form_vars fs \<and> (\<exists>v. map_of cfg var = Some v \<and> cv_required v))) required))"
proof (induction fs arbitrary: required out)
  case Nil
  then show ?case by (simp add: form_vars_def)
next
  case (Cons f fs)
  show ?case
  proof (cases "fillable f")
    case False
    then have "form_vars (f # fs) = form_vars fs" by (auto simp: form_vars_def)
    with False Cons show ?thesis by (auto simp: fillable_def split: option.split)
  next
    case True
    then obtain var where var: "fd_var f = Some var" "fd_type f \<noteq> FFixed" by (auto simp: fillable_def)
    with True have vars: "form_vars (f # fs) = insert var (form_vars fs)"
      by (auto simp: form_vars_def intro: rev_image_eqI [of f])
    let ?req = "\<lambda>var. \<exists>v. map_of cfg var = Some v \<and> cv_required v"
    have keep: "filter (\<lambda>v. \<not> (v \<in> form_vars fs \<and> ?req v)) (if ?req var then removeAll var required else required) =
        filter (\<lambda>v. \<not> (v \<in> form_vars (f # fs) \<and> ?req v)) required"
      by (cases "?req var") (auto simp: vars removeAll_filter_not_eq filter_filter intro!: filter_cong)
    show ?thesis
    proof (cases "map_of cfg var")
      case None
      with keep have "filter (\<lambda>v. \<not> (v \<in> form_vars fs \<and> ?req v)) required =
          filter (\<lambda>v. \<not> (v \<in> form_vars (f # fs) \<and> ?req v)) required" by simp
      with True var None show ?thesis
        by (cases "fill_all type_name cfg fs") (simp_all add: Cons fill_field_def)
    next
      case (Some v)
      with keep have "filter (\<lambda>v. \<not> (v \<in> form_vars fs \<and> ?req v)) (if cv_required v then removeAll var required else required) =
          filter (\<lambda>v. \<not> (v \<in> form_vars (f # fs) \<and> ?req v)) required" by simp
      with True var Some show ?thesis
        by (cases "fill_all type_name cfg fs"; cases "apply_to_field type_name (cv_value v) var f")
          (simp_all add: Cons fill_field_def Let_def)
    qed
  qed
qed

lemma form_filled_exactly_aux:
  "populate_form_fields type_name (form_config_new vs) fs =
     bind_res (fill_all type_name (form_config_new vs) fs) (\<lambda>fs'.
       let missing = {var. (\<exists>v. map_of (form_config_new vs) var = Some v \<and> cv_required v)} - form_vars fs in
       if missing = {} then Inr fs' else Inl (MissingRequiredFields (sorted_list_of_set missing)))"
proof -
  let ?cfg = "form_config_new vs"
  let ?rest = "filter (\<lambda>var. \<not> (var \<in> form_vars fs \<and> (\<exists>v. map_of ?cfg var = Some v \<and> cv_required v))) (required_vars ?cfg)"
  have rest: "set ?rest = {var. (\<exists>v. map_of ?cfg var = Some v \<and> cv_required v)} - form_vars fs"
    using required_vars_config [of vs] by auto
  have "?rest = [] \<longleftrightarrow> set ?rest = {}" by (simp only: set_empty)
  with rest have "?rest \<noteq> [] \<longleftrightarrow> {var. (\<exists>v. map_of ?cfg var = Some v \<and> cv_required v)} - form_vars fs \<noteq> {}" by simp
  then show ?thesis
    unfolding populate_form_fields_def populate_loop_exact Let_def rest [symmetric]
    by (cases "fill_all type_name ?cfg fs") simp_all
qed

text \<open>
  What a filled out form is, without regard to how the code fills it out: the value configured for a variable is the
  last one given for it, a value fits the fields of its type, and the texts of a value are those of XEP-0004.
\<close>

definition configured :: "config_value list \<Rightarrow> string \<Rightarrow> config_value option" where
  "configured vs var = find (\<lambda>v. cv_var v = var) (rev vs)"

fun value_types :: "form_value \<Rightarrow> field_type set" where
  "value_types (VBoolean _) = {FBoolean}"
| "value_types (VJidMulti _) = {FJidMulti}"
| "value_types (VJidSingle _) = {FJidSingle}"
| "value_types (VListMulti _) = {FListMulti}"
| "value_types (VListSingle _) = {FListSingle}"
| "value_types (VTextMulti _) = {FTextMulti}"
| "value_types (VTextSingle _) = {FTextSingle, FTextPrivate}"
| "value_types VNone = {}"

fun value_texts :: "form_value \<Rightarrow> string list" where
  "value_texts (VBoolean b) = [if b then ''true'' else ''false'']"
| "value_texts (VJidMulti js) = map show_jid js"
| "value_texts (VJidSingle j) = [show_jid j]"
| "value_texts (VListMulti vs) = vs"
| "value_texts (VListSingle s) = [s]"
| "value_texts (VTextMulti vs) = vs"
| "value_texts (VTextSingle s) = [s]"
| "value_texts VNone = []"

text \<open>A field keeps its own values if nothing, or no value, is configured for it, or if it is hidden.\<close>

definition chosen_value :: "config_value list \<Rightarrow> form_field \<Rightarrow> form_value option" where
  "chosen_value vs f =
     (case configured vs (the (fd_var f)) of
        Some v \<Rightarrow> if cv_value v = VNone \<or> fd_type f = FHidden then None else Some (cv_value v)
      | None \<Rightarrow> None)"

definition filled_out :: "config_value list \<Rightarrow> form_field \<Rightarrow> form_field" where
  "filled_out vs f =
     f\<lparr>fd_values := (case chosen_value vs f of Some v \<Rightarrow> value_texts v | None \<Rightarrow> fd_values f), fd_validate := None\<rparr>"

definition can_fill_out :: "config_value list \<Rightarrow> form_field \<Rightarrow> bool" where
  "can_fill_out vs f \<longleftrightarrow>
     (case chosen_value vs f of
        Some v \<Rightarrow> fd_type f \<in> value_types v \<and>
          (fd_type f \<in> {FListSingle, FListMulti} \<longrightarrow> set (value_texts v) \<subseteq> set (fd_options f))
      | None \<Rightarrow> configured vs (the (fd_var f)) \<noteq> None \<or> fd_values f \<noteq> [] \<or> \<not> fd_required f)"

lemma config_configured: "map_of (form_config_new vs) var = configured vs var"
  unfolding form_config_new_def map_of_fold_update configured_def by (simp split: option.split)

lemma options_contains: "options_contains_value f v \<longleftrightarrow> v \<in> set (fd_options f)"
  by (simp add: options_contains_value_def list_ex_iff)

lemma apply_outcome:
  assumes "fd_type f \<noteq> FFixed"
  shows "apply_to_field type_name v var f = Inr f' \<longleftrightarrow>
    (if v = VNone \<or> fd_type f = FHidden then f' = f
     else fd_type f \<in> value_types v \<and> (fd_type f \<in> {FListSingle, FListMulti} \<longrightarrow> set (value_texts v) \<subseteq> set (fd_options f)) \<and>
       f' = f\<lparr>fd_values := value_texts v\<rparr>)"
    and "apply_to_field type_name v var f \<noteq> Inl (FormPanic msg)"
  using assms
  by (cases v; cases "fd_type f"; auto simp: apply_to_field_def show_bool_def options_contains find_None_iff
      split: option.splits dest!: find_SomeD)+

lemma fill_field_exact:
  assumes "fillable f"
  shows "fill_field type_name (form_config_new vs) f = Inr f' \<longleftrightarrow> can_fill_out vs f \<and> f' = filled_out vs f"
    and "fill_field type_name (form_config_new vs) f \<noteq> Inl (FormPanic msg)"
proof -
  have fixed: "fd_type f \<noteq> FFixed" using assms by (simp add: fillable_def)
  show "fill_field type_name (form_config_new vs) f = Inr f' \<longleftrightarrow> can_fill_out vs f \<and> f' = filled_out vs f"
    by (auto simp: fill_field_def config_configured bind_res_Inr_iff apply_outcome(1) [OF fixed] can_fill_out_def filled_out_def
        chosen_value_def split: option.splits if_splits)
  show "fill_field type_name (form_config_new vs) f \<noteq> Inl (FormPanic msg)"
    using apply_outcome(2) [OF fixed]
    by (auto simp: fill_field_def bind_res_def split: option.splits sum.splits)
qed

lemma fill_all_exact:
  "fill_all type_name (form_config_new vs) fs = Inr out \<longleftrightarrow>
     (\<forall>f \<in> set fs. fillable f \<longrightarrow> can_fill_out vs f) \<and> out = map (filled_out vs) (filter fillable fs)"
  "fill_all type_name (form_config_new vs) fs \<noteq> Inl (FormPanic msg)"
  by (induction fs arbitrary: out)
    (auto simp: bind_res_Inr_iff fill_field_exact, auto simp: bind_res_def fill_field_exact split: sum.splits)

text \<open>
  C30. Filling out a form gives the fields of the form that have a variable and are not fixed, in their
  order, each with the texts of the value configured last for it; a field that is hidden or for which no value
  is configured keeps its values. It succeeds exactly if every value fits the type of its field and, for a list,
  is among its options, if every required field that nothing is configured for has a value of its own, and
  if there is a field for every required value. It never panics.
\<close>

theorem form_filled_exactly:
  "(populate_form_fields type_name (form_config_new vs) fs = Inr out \<longleftrightarrow>
     out = map (filled_out vs) (filter fillable fs) \<and>
     (\<forall>f \<in> set (filter fillable fs). can_fill_out vs f) \<and>
     (\<forall>var v. configured vs var = Some v \<and> cv_required v \<longrightarrow> (\<exists>f \<in> set (filter fillable fs). fd_var f = Some var))) \<and>
   populate_form_fields type_name (form_config_new vs) fs \<noteq> Inl (FormPanic msg)"
proof -
  have "var \<in> form_vars fs \<longleftrightarrow> (\<exists>f \<in> set (filter fillable fs). fd_var f = Some var)" for var
    by (force simp: form_vars_def fillable_def)
  then have missing: "{var. \<exists>v. map_of (form_config_new vs) var = Some v \<and> cv_required v} - form_vars fs = {} \<longleftrightarrow>
      (\<forall>var v. configured vs var = Some v \<and> cv_required v \<longrightarrow> (\<exists>f \<in> set (filter fillable fs). fd_var f = Some var))"
    by (auto simp: config_configured)
  let ?all = "\<forall>f \<in> set fs. fillable f \<longrightarrow> can_fill_out vs f"
  show ?thesis
  proof (cases "fill_all type_name (form_config_new vs) fs")
    case (Inl e)
    with fill_all_exact have "\<not> ?all" "e \<noteq> FormPanic msg" by (metis sum.distinct(1))+
    with Inl show ?thesis unfolding form_filled_exactly_aux by auto
  next
    case (Inr fs')
    with fill_all_exact(1) have "?all" "fs' = map (filled_out vs) (filter fillable fs)" by blast+
    with Inr show ?thesis unfolding form_filled_exactly_aux Let_def missing by auto
  qed
qed

theorem form_filled_exactly_witness:
  "populate_form_fields (\<lambda>_. None) (form_config_new [optional_value cfg_members_only (VBoolean True), required_value cfg_whois (VListSingle ''anyone'')])
     [\<lparr>fd_var = None, fd_type = FFixed, fd_required = False, fd_options = [], fd_values = [''Room''], fd_validate = None\<rparr>,
      \<lparr>fd_var = Some cfg_members_only, fd_type = FBoolean, fd_required = True, fd_options = [], fd_values = [], fd_validate = None\<rparr>,
      \<lparr>fd_var = Some cfg_whois, fd_type = FListSingle, fd_required = False, fd_options = [''moderators'', ''anyone''], fd_values = [],
       fd_validate = Some ''x''\<rparr>] =
   Inr [\<lparr>fd_var = Some cfg_members_only, fd_type = FBoolean, fd_required = True, fd_options = [], fd_values = [''true''], fd_validate = None\<rparr>,
      \<lparr>fd_var = Some cfg_whois, fd_type = FListSingle, fd_required = False, fd_options = [''moderators'', ''anyone''],
       fd_values = [''anyone''], fd_validate = None\<rparr>]"
proof (subst form_filled_exactly [THEN conjunct1], intro conjI allI ballI impI)
  fix var v
  assume "configured [optional_value cfg_members_only (VBoolean True), required_value cfg_whois (VListSingle ''anyone'')] var = Some v \<and> cv_required v"
  then have "var = cfg_whois" by (auto simp: configured_def optional_value_def required_value_def split: if_splits)
  then show "\<exists>f \<in> set (filter fillable
     [\<lparr>fd_var = None, fd_type = FFixed, fd_required = False, fd_options = [], fd_values = [''Room''], fd_validate = None\<rparr>,
      \<lparr>fd_var = Some cfg_members_only, fd_type = FBoolean, fd_required = True, fd_options = [], fd_values = [], fd_validate = None\<rparr>,
      \<lparr>fd_var = Some cfg_whois, fd_type = FListSingle, fd_required = False, fd_options = [''moderators'', ''anyone''], fd_values = [],
       fd_validate = Some ''x''\<rparr>]). fd_var f = Some var"
    by (simp add: fillable_def)
qed (auto simp: fillable_def filled_out_def can_fill_out_def chosen_value_def configured_def optional_value_def required_value_def
    cfg_members_only_def cfg_whois_def)

section \<open>A configured room is recognized\<close>

lemma apply_var: "apply_to_field type_name v var f = Inr f' \<Longrightarrow> fd_var f' = fd_var f"
  by (auto simp: apply_to_field_def split: form_value.splits field_type.splits option.splits if_splits)

lemma fill_var: "fill_field type_name cfg f = Inr f' \<Longrightarrow> fd_var f' = fd_var f"
  by (auto simp: fill_field_def bind_res_Inr_iff split: option.splits if_splits dest: apply_var)

lemma fill_all_set:
  "fill_all type_name cfg fs = Inr out \<Longrightarrow> set out = {f'. \<exists>f \<in> set fs. fillable f \<and> fill_field type_name cfg f = Inr f'}"
  by (induction fs arbitrary: out) (auto simp: bind_res_Inr_iff split: if_splits)

definition submitted :: "form_field list \<Rightarrow> string \<Rightarrow> string list option" where
  "submitted out var = map_option fd_values (find (\<lambda>f. fd_var f = Some var) out)"

lemma submitted_value:
  assumes "fill_all type_name cfg fs = Inr out"
    and "f \<in> set fs" "fd_var f = Some var"
    and "\<And>f. f \<in> set fs \<Longrightarrow> fd_var f = Some var \<Longrightarrow>
      fillable f \<and> (\<exists>f'. fill_field type_name cfg f = Inr f' \<and> fd_values f' = vs)"
  shows "submitted out var = Some vs"
proof -
  note out = fill_all_set [OF assms(1)]
  obtain f' where f': "fill_field type_name cfg f = Inr f'" "fillable f" using assms(2-4) by blast
  then have "f' \<in> set out" "fd_var f' = Some var" using out assms(2,3) fill_var [OF f'(1)] by auto
  then have "find (\<lambda>f. fd_var f = Some var) out \<noteq> None" by (auto simp: find_None_iff)
  then obtain g where g: "find (\<lambda>f. fd_var f = Some var) out = Some g" by blast
  then have "g \<in> set out" "fd_var g = Some var" by (auto dest: find_SomeD)
  then obtain h where h: "h \<in> set fs" "fill_field type_name cfg h = Inr g" "fd_var h = Some var"
    using out fill_var by fastforce
  with assms(4) [of h] have "fd_values g = vs" by auto
  with g show ?thesis by (simp add: submitted_def)
qed

text \<open>The variables of a specification, the last one first.\<close>

definition spec_names :: "string list" where
  "spec_names =
     [cfg_room_name, cfg_public_room, cfg_members_only, cfg_max_users, cfg_allow_member_invites, cfg_allow_invites,
      cfg_presence_broadcast, cfg_whois, cfg_room_secret, cfg_room_owners, cfg_room_desc, cfg_pubsub, cfg_presence_broadcast,
      cfg_persistent_room, cfg_password_protected_room, cfg_moderated_room, cfg_max_history_fetch, cfg_lang,
      cfg_get_member_list, cfg_enable_logging, cfg_default_history_messages, cfg_change_subject, cfg_allow_pm]"

lemma spec_positions:
  "position (\<lambda>k. k = cfg_persistent_room) spec_names = Some 13"
  "position (\<lambda>k. k = cfg_public_room) spec_names = Some 1"
  "position (\<lambda>k. k = cfg_members_only) spec_names = Some 2"
  "position (\<lambda>k. k = cfg_whois) spec_names = Some 7"
  "position (\<lambda>k. k = cfg_allow_invites) spec_names = Some 5"
  "position (\<lambda>k. k = cfg_allow_member_invites) spec_names = Some 4"
  "position (\<lambda>k. k = cfg_max_users) spec_names = Some 3"
  by code_simp+

lemma find_position: "find P xs = map_option (\<lambda>k. xs ! k) (position P xs)"
  by (induction xs) (auto simp: option.map_comp o_def split: option.split)

lemma position_map: "position P (map f xs) = position (\<lambda>x. P (f x)) xs"
  by (induction xs) auto

lemma spec_lookup:
  "map_of (form_config_new (spec_values spec name)) var =
     map_option (\<lambda>k. rev (spec_values spec name) ! k) (position (\<lambda>k. k = var) spec_names)"
proof -
  have names: "spec_names = map cv_var (rev (spec_values spec name))"
    by (simp add: spec_names_def spec_values_def optional_value_def)
  have "position (\<lambda>k. k = var) spec_names = position (\<lambda>v. cv_var v = var) (rev (spec_values spec name))"
    unfolding names by (rule position_map)
  then show ?thesis
    by (simp add: form_config_new_def map_of_fold_update find_position split: option.split)
qed

lemma spec_config:
  "map_of (form_config_new (spec_values spec name)) cfg_persistent_room = Some (optional_value cfg_persistent_room (VBoolean True))"
  "map_of (form_config_new (spec_values spec name)) cfg_public_room =
     Some (optional_value cfg_public_room (VBoolean (\<not> spec_members_only spec)))"
  "map_of (form_config_new (spec_values spec name)) cfg_members_only =
     Some (optional_value cfg_members_only (VBoolean (spec_members_only spec)))"
  "map_of (form_config_new (spec_values spec name)) cfg_whois = Some (optional_value cfg_whois (VListSingle ''anyone''))"
  "map_of (form_config_new (spec_values spec name)) cfg_allow_invites =
     Some (optional_value cfg_allow_invites (VBoolean (spec_allows_invites spec)))"
  "map_of (form_config_new (spec_values spec name)) cfg_allow_member_invites =
     Some (optional_value cfg_allow_member_invites (VBoolean (spec_allows_invites spec)))"
  "map_of (form_config_new (spec_values spec name)) cfg_max_users =
     Some (optional_value cfg_max_users (VTextSingle (show_nat (spec_max_users spec))))"
  by (simp_all add: spec_lookup spec_positions) (simp_all add: spec_values_def)

text \<open>A form that offers what the specifications ask for.\<close>

definition offers_bool :: "form_field list \<Rightarrow> string \<Rightarrow> bool" where
  "offers_bool fs var \<longleftrightarrow> (\<exists>f \<in> set fs. fd_var f = Some var) \<and> (\<forall>f \<in> set fs. fd_var f = Some var \<longrightarrow> fd_type f = FBoolean)"

definition offers_whois :: "form_field list \<Rightarrow> bool" where
  "offers_whois fs \<longleftrightarrow> (\<exists>f \<in> set fs. fd_var f = Some cfg_whois) \<and>
     (\<forall>f \<in> set fs. fd_var f = Some cfg_whois \<longrightarrow> fd_type f = FListSingle \<and> ''anyone'' \<in> set (fd_options f))"

definition offers_spec :: "form_field list \<Rightarrow> bool" where
  "offers_spec fs \<longleftrightarrow> offers_whois fs \<and> list_all (offers_bool fs)
     [cfg_persistent_room, cfg_public_room, cfg_members_only, cfg_allow_invites, cfg_allow_member_invites]"

text \<open>A room that is as it was configured (XEP-0045).\<close>

definition reflects :: "form_field list \<Rightarrow> muc_features \<Rightarrow> bool" where
  "reflects out fe \<longleftrightarrow>
     (submitted out cfg_persistent_room = Some [''true''] \<longrightarrow> is_persistent fe) \<and>
     (submitted out cfg_public_room = Some [''true''] \<longrightarrow> is_public fe \<and> \<not> is_hidden fe) \<and>
     (submitted out cfg_public_room = Some [''false''] \<longrightarrow> is_hidden fe \<and> \<not> is_public fe) \<and>
     (submitted out cfg_members_only = Some [''true''] \<longrightarrow> is_members_only fe \<and> \<not> is_open fe) \<and>
     (submitted out cfg_members_only = Some [''false''] \<longrightarrow> is_open fe \<and> \<not> is_members_only fe) \<and>
     (submitted out cfg_whois = Some [''anyone''] \<longrightarrow> is_nonanonymous fe) \<and>
     (submitted out cfg_allow_invites = Some [show_bool True] \<longrightarrow> is_invites_allowed fe) \<and>
     (submitted out cfg_allow_invites = Some [show_bool False] \<longrightarrow> \<not> is_invites_allowed fe) \<and>
     (submitted out cfg_allow_member_invites = Some [show_bool True] \<longrightarrow> is_member_invites_allowed fe) \<and>
     (submitted out cfg_allow_member_invites = Some [show_bool False] \<longrightarrow> \<not> is_member_invites_allowed fe)"

lemma submitted_bool:
  assumes "fill_all type_name cfg fs = Inr out" "offers_bool fs var" "map_of cfg var = Some (optional_value var (VBoolean b))"
  shows "submitted out var = Some [show_bool b]"
proof -
  obtain f where "f \<in> set fs" "fd_var f = Some var" using assms(2) by (auto simp: offers_bool_def)
  with assms(1) show ?thesis
    by (rule submitted_value)
      (use assms(2,3) in \<open>auto simp: offers_bool_def fillable_def fill_field_def apply_to_field_def optional_value_def\<close>)
qed

lemma submitted_whois:
  assumes "fill_all type_name cfg fs = Inr out" "offers_whois fs"
    "map_of cfg cfg_whois = Some (optional_value cfg_whois (VListSingle ''anyone''))"
  shows "submitted out cfg_whois = Some [''anyone'']"
proof -
  obtain f where "f \<in> set fs" "fd_var f = Some cfg_whois" using assms(2) by (auto simp: offers_whois_def)
  with assms(1) show ?thesis
    by (rule submitted_value)
      (use assms(2,3) in \<open>auto simp: offers_whois_def fillable_def fill_field_def apply_to_field_def optional_value_def
        options_contains_value_def list_ex_iff\<close>)
qed

text \<open>
  C31. A room that was configured for a specification is recognized as a room of this type, whatever
  else the form of the server offers: the checks of a room and the values submitted for it agree.
\<close>

theorem configured_room_recognized:
  assumes "populate_form type_name spec name fs = Inr out" "offers_spec fs" "reflects out (rmi_features info)"
  shows "validate_against spec info = Inr () \<and> room_type_of info = spec_room_type spec"
proof -
  let ?cfg = "form_config_new (spec_values spec name)"
  have out: "fill_all type_name ?cfg fs = Inr out"
    using assms(1) by (auto simp: populate_form_def form_filled_exactly_aux bind_res_Inr_iff Let_def split: if_splits)
  have offers: "offers_bool fs cfg_persistent_room" "offers_bool fs cfg_public_room" "offers_bool fs cfg_members_only"
    "offers_bool fs cfg_allow_invites" "offers_bool fs cfg_allow_member_invites" "offers_whois fs"
    using assms(2) by (simp_all add: offers_spec_def)
  show ?thesis
    using assms(3) submitted_bool [OF out offers(1) spec_config(1)] submitted_bool [OF out offers(2) spec_config(2)]
      submitted_bool [OF out offers(3) spec_config(3)] submitted_whois [OF out offers(6) spec_config(4)]
      submitted_bool [OF out offers(4) spec_config(5)] submitted_bool [OF out offers(5) spec_config(6)]
    by (cases spec) (auto simp: reflects_def show_bool_def validate_against_def expectations_def room_type_of_def
        is_satisfied_by_def Let_def)
qed

text \<open>
  The client sets the maximum number of users as a text. A server that asks for it as a choice from a list, as
  XEP-0045 has it, cannot be used to create or to change a room: the form is never filled out.
\<close>

theorem listed_max_users_rejected:
  assumes "f \<in> set fs" "fd_var f = Some cfg_max_users" "fd_type f = FListSingle"
  shows "\<exists>err. populate_form type_name spec name fs = Inl err"
proof -
  let ?cfg = "form_config_new (spec_values spec name)"
  have bad: "\<exists>err. fill_field type_name ?cfg f = Inl err"
    using assms(2,3) by (simp add: fill_field_def spec_config(7) optional_value_def apply_to_field_def)
  have "\<exists>err. fill_all type_name ?cfg gs = Inl err" if "f \<in> set gs" for gs
    using that
  proof (induction gs)
    case (Cons g gs)
    have "fillable f" using assms(2,3) by (simp add: fillable_def)
    with Cons bad show ?case
      by (cases "fill_field type_name ?cfg g") (auto simp: bind_res_def split: sum.split)
  qed simp
  from this [OF assms(1)] show ?thesis
    by (auto simp: populate_form_def form_filled_exactly_aux)
qed

section \<open>Samples\<close>

definition sample_field :: "string \<Rightarrow> field_type \<Rightarrow> string list \<Rightarrow> form_field" where
  "sample_field var t opts =
     \<lparr>fd_var = Some var, fd_type = t, fd_required = False, fd_options = opts, fd_values = [], fd_validate = None\<rparr>"

definition sample_form :: "form_field list" where
  "sample_form =
     [sample_field cfg_persistent_room FBoolean [], sample_field cfg_public_room FBoolean [],
      sample_field cfg_members_only FBoolean [], sample_field cfg_whois FListSingle [''moderators'', ''anyone''],
      sample_field cfg_allow_invites FBoolean [], sample_field cfg_allow_member_invites FBoolean []]"

definition sample_group :: muc_room_info where
  "sample_group =
     \<lparr>rmi_features = features_from [''muc_persistent'', ''muc_hidden'', ''muc_membersonly'', ''muc_nonanonymous'', ''urn:xmpp:mam:2''],
      rmi_name = None, rmi_description = None\<rparr>"

lemma sample_offers: "offers_spec sample_form"
  by code_simp

lemma sample_filled: "\<exists>out. populate_form (\<lambda>_. None) SGroup ''Team'' sample_form = Inr out \<and> reflects out (rmi_features sample_group)"
proof (intro exI conjI)
  show "populate_form (\<lambda>_. None) SGroup ''Team'' sample_form =
      Inr (map2 (\<lambda>f v. f\<lparr>fd_values := [v]\<rparr>) sample_form [''true'', ''false'', ''true'', ''anyone'', ''false'', ''false''])"
    by code_simp
  show "reflects (map2 (\<lambda>f v. f\<lparr>fd_values := [v]\<rparr>) sample_form [''true'', ''false'', ''true'', ''anyone'', ''false'', ''false''])
      (rmi_features sample_group)"
    by code_simp
qed

theorem configured_room_recognized_witness:
  "validate_against SGroup sample_group = Inr () \<and> room_type_of sample_group = Group"
proof -
  obtain out where "populate_form (\<lambda>_. None) SGroup ''Team'' sample_form = Inr out" "reflects out (rmi_features sample_group)"
    using sample_filled by blast
  from configured_room_recognized [OF this(1) sample_offers this(2)] show ?thesis by simp
qed

theorem listed_max_users_rejected_witness:
  "\<exists>err. populate_form (\<lambda>_. None) SPublicChannel ''News'' (sample_form @ [sample_field cfg_max_users FListSingle [''10'', ''100'']]) = Inl err"
  by (rule listed_max_users_rejected [of "sample_field cfg_max_users FListSingle [''10'', ''100'']"]) (simp_all add: sample_field_def)

end
