(* ===== verification/Requests.thy ===== *)
theory Requests
  imports Chat
begin

text \<open>
  Requests to the server (\<^verbatim>\<open>crates/prose-xmpp\<close>): a request is sent with a future that looks at
  every element received until one of them completes it. The theory holds the stanzas as the client
  reads them, the reducers of the four kinds of requests (\<^verbatim>\<open>util/request_future.rs\<close>,
  \<^verbatim>\<open>mods/mam.rs\<close>, \<^verbatim>\<open>mods/muc/join_room_future.rs\<close>,
  \<^verbatim>\<open>mods/muc/send_muc_message_future.rs\<close>), the pending futures of the context and what
  the client does with elements, timers and disconnects (\<^verbatim>\<open>client/client.rs\<close>).

  Futures are cells of a heap, as the client and the caller share them. Tasks to be woken are numbers;
  times are counted in nanoseconds.
\<close>

section \<open>Elements\<close>

datatype 'e iq_payload = IqGet 'e | IqSet 'e | IqResult "'e option" | IqError stanza_error

record 'e iq =
  iq_from :: "jid option"
  iq_to :: "jid option"
  iq_id :: string
  iq_payload :: "'e iq_payload"

record 'e pubsub_message =
  pm_from :: jid
  pm_events :: "'e list"

datatype 'e xmpp_element =
    PresenceElement "'e presence_stanza"
  | MessageElement "'e message_stanza"
  | IqElement "'e iq"
  | PubSubElement "'e pubsub_message"

text \<open>How the stanzas are read by the XMPP library.\<close>

record 'e stanza_reader =
  rd_iq :: "'e \<Rightarrow> string + 'e iq"
  rd_message :: "'e \<Rightarrow> string + 'e message_stanza"
  rd_presence :: "'e \<Rightarrow> string + 'e presence_stanza"
  rd_pubsub_event :: "'e \<Rightarrow> string + 'e"
  rd_stanza_error :: "'e \<Rightarrow> string + stanza_error"
  rd_archived :: "'e \<Rightarrow> string + string option \<times> 'e archived_message"
  rd_fin :: "'e \<Rightarrow> string + bool"

definition ns_jabber_client :: string where "ns_jabber_client = ''jabber:client''"
definition ns_websocket :: string where "ns_websocket = ''urn:ietf:params:xml:ns:xmpp-framing''"
definition ns_sasl :: string where "ns_sasl = ''urn:ietf:params:xml:ns:xmpp-sasl''"
definition ns_stream :: string where "ns_stream = ''http://etherx.jabber.org/streams''"
definition ns_pubsub_event :: string where "ns_pubsub_event = ''http://jabber.org/protocol/pubsub#event''"

fun collect_results :: "('e + 'a) list \<Rightarrow> 'e + 'a list" where
  "collect_results [] = Inr []"
| "collect_results (r # rs) = bind_res r (\<lambda>a. bind_res (collect_results rs) (\<lambda>as. Inr (a # as)))"

definition pubsub_message_try_from :: "'e xml \<Rightarrow> 'e stanza_reader \<Rightarrow> 'e message_stanza \<Rightarrow> string + 'e pubsub_message" where
  "pubsub_message_try_from x rd m =
     (case ms_from m of
        None \<Rightarrow> Inl ''Missing from in PubSub message''
      | Some from \<Rightarrow>
          bind_res (collect_results (map (rd_pubsub_event rd) (filter (\<lambda>e. el_is x e ''event'' ns_pubsub_event) (ms_payloads m))))
            (\<lambda>evs. Inr \<lparr>pm_from = from, pm_events = evs\<rparr>))"

definition try_from_element :: "'e xml \<Rightarrow> 'e stanza_reader \<Rightarrow> 'e \<Rightarrow> string + 'e xmpp_element option" where
  "try_from_element x rd e =
     (if el_is x e ''iq'' ns_jabber_client then bind_res (rd_iq rd e) (\<lambda>iq. Inr (Some (IqElement iq)))
      else if el_is x e ''message'' ns_jabber_client then
        bind_res (rd_message rd e) (\<lambda>m.
          if ms_type m \<noteq> Headline then Inr (Some (MessageElement m))
          else bind_res (pubsub_message_try_from x rd m) (\<lambda>pm. Inr (Some (PubSubElement pm))))
      else if el_is x e ''presence'' ns_jabber_client then bind_res (rd_presence rd e) (\<lambda>p. Inr (Some (PresenceElement p)))
      else if el_ns x e = ns_websocket \<or> el_ns x e = ns_sasl \<or> el_ns x e = ns_stream then Inr None
      else Inl (''Encountered unknown element: '' @ el_show x e))"

section \<open>Requests\<close>

record 'e iq_request =
  ir_request_id :: string
  ir_element :: "'e option"

record 'e mam_request =
  mq_id :: string
  mq_query_id :: string
  mq_fin :: "bool option"
  mq_messages :: "'e archived_message list"

record 'e join_request =
  jr_room_jid :: full_jid
  jr_presences :: "'e presence_stanza list"
  jr_self_presence :: "'e presence_stanza option"
  jr_subject :: "string option"
  jr_message_history :: "'e message_stanza list"

record 'e muc_message_request =
  mm_room_jid :: bare_jid
  mm_sent_message_id :: string
  mm_received_message :: "'e message_stanza option"

datatype 'e request =
    IqRequest "'e iq_request"
  | MamRequest "'e mam_request"
  | JoinRequest "'e join_request"
  | MucMessageRequest "'e muc_message_request"

datatype 'e response =
    IqResponse "'e option"
  | MamResponse "'e archived_message list" bool
  | JoinResponse "'e presence_stanza" "'e presence_stanza list" "'e message_stanza list" "string option"
  | MucMessageResponse "'e message_stanza"

text \<open>An element that is not used is handed back.\<close>

datatype 'e reducer_poll = PollPending "'e xmpp_element option" | PollReady

type_synonym 'e reduced = "request_error + 'e reducer_poll"

abbreviation not_mine :: "'e xmpp_element \<Rightarrow> 'e reduced" where
  "not_mine e \<equiv> Inr (PollPending (Some e))"

definition new_iq_request :: "string \<Rightarrow> 'e request" where
  "new_iq_request i = IqRequest \<lparr>ir_request_id = i, ir_element = None\<rparr>"

definition reduce_iq :: "'e iq_request \<Rightarrow> 'e xmpp_element \<Rightarrow> 'e reduced \<times> 'e iq_request" where
  "reduce_iq st e =
     (case e of
        IqElement iq \<Rightarrow>
          if iq_id iq \<noteq> ir_request_id st then (not_mine e, st)
          else
            (case iq_payload iq of
               IqResult p \<Rightarrow> (Inr PollReady, st\<lparr>ir_element := p\<rparr>)
             | IqError err \<Rightarrow> (Inl (RXmpp err), st)
             | _ \<Rightarrow> (Inl RUnexpectedResponse, st))
      | _ \<Rightarrow> (not_mine e, st))"

definition new_mam_request :: "string \<Rightarrow> string \<Rightarrow> 'e request" where
  "new_mam_request i query_id =
     MamRequest \<lparr>mq_id = i, mq_query_id = query_id, mq_fin = None, mq_messages = []\<rparr>"

definition archived_message_of :: "'e xml \<Rightarrow> 'e stanza_reader \<Rightarrow> 'e message_stanza \<Rightarrow> (string option \<times> 'e archived_message) option" where
  "archived_message_of x rd = typed_payload x (rd_archived rd) ''result'' ns_mam"

definition reduce_mam :: "'e xml \<Rightarrow> 'e stanza_reader \<Rightarrow> 'e mam_request \<Rightarrow> 'e xmpp_element \<Rightarrow> 'e reduced \<times> 'e mam_request" where
  "reduce_mam x rd st e =
     (case e of
        IqElement iq \<Rightarrow>
          if iq_id iq \<noteq> mq_id st then (not_mine e, st)
          else
            (case iq_payload iq of
               IqError err \<Rightarrow> (Inl (RXmpp err), st)
             | IqResult (Some p) \<Rightarrow>
                 (case rd_fin rd p of
                    Inr fin \<Rightarrow> (Inr PollReady, st\<lparr>mq_fin := Some fin\<rparr>)
                  | Inl _ \<Rightarrow> (Inl RUnexpectedResponse, st))
             | _ \<Rightarrow> (not_mine e, st))
      | MessageElement m \<Rightarrow>
          (case archived_message_of x rd m of
             Some (Some q, a) \<Rightarrow>
               if q \<noteq> mq_query_id st then (not_mine e, st)
               else (Inr (PollPending None), st\<lparr>mq_messages := mq_messages st @ [a]\<rparr>)
           | _ \<Rightarrow> (not_mine e, st))
      | _ \<Rightarrow> (not_mine e, st))"

definition new_join_room_request :: "full_jid \<Rightarrow> 'e request" where
  "new_join_room_request room_jid =
     JoinRequest \<lparr>jr_room_jid = room_jid, jr_presences = [], jr_self_presence = None, jr_subject = None,
       jr_message_history = []\<rparr>"

definition join_error :: "'e xml \<Rightarrow> 'e stanza_reader \<Rightarrow> 'e presence_stanza \<Rightarrow> request_error" where
  "join_error x rd p =
     (case find (\<lambda>e. el_name x e = ''error'') (ps_payloads p) of
        Some e \<Rightarrow> (case rd_stanza_error rd e of Inr err \<Rightarrow> RXmpp err | Inl msg \<Rightarrow> RGeneric msg)
      | None \<Rightarrow> RGeneric ''Encountered presence of type error with a missing `error` stanza.'')"

definition reduce_join :: "'e xml \<Rightarrow> 'e stanza_reader \<Rightarrow> 'e join_request \<Rightarrow> 'e xmpp_element \<Rightarrow> 'e reduced \<times> 'e join_request" where
  "reduce_join x rd st e =
     (case e of
        PresenceElement p \<Rightarrow>
          (case Option.bind (ps_from p) try_into_full of
             None \<Rightarrow> (not_mine e, st)
           | Some from \<Rightarrow>
               if to_bare from \<noteq> to_bare (jr_room_jid st) then (not_mine e, st)
               else
                 let is_self_presence = (resource from = resource (jr_room_jid st)) in
                 if ps_type p = PErrorType \<and> is_self_presence then (Inl (join_error x rd p), st)
                 else
                   (Inr (PollPending None),
                    if is_self_presence then st\<lparr>jr_self_presence := Some p\<rparr>
                    else st\<lparr>jr_presences := jr_presences st @ [p]\<rparr>))
      | MessageElement m \<Rightarrow>
          if map_option jid_into_bare (ms_from m) \<noteq> Some (to_bare (jr_room_jid st)) \<or> is_mam_message x m then (not_mine e, st)
          else
            (case subject_of x m of
               Some subject \<Rightarrow> (Inr PollReady, st\<lparr>jr_subject := (if subject \<noteq> [] then Some subject else None)\<rparr>)
             | None \<Rightarrow> (Inr (PollPending None), st\<lparr>jr_message_history := jr_message_history st @ [m]\<rparr>))
      | _ \<Rightarrow> (not_mine e, st))"

definition new_send_muc_message :: "bare_jid \<Rightarrow> string \<Rightarrow> 'e request" where
  "new_send_muc_message room_jid i =
     MucMessageRequest \<lparr>mm_room_jid = room_jid, mm_sent_message_id = i, mm_received_message = None\<rparr>"

definition reduce_muc_message :: "'e muc_message_request \<Rightarrow> 'e xmpp_element \<Rightarrow> 'e reduced \<times> 'e muc_message_request" where
  "reduce_muc_message st e =
     (case e of
        MessageElement m \<Rightarrow>
          if ms_id m \<noteq> Some (mm_sent_message_id st) \<or> map_option jid_into_bare (ms_from m) \<noteq> Some (mm_room_jid st)
          then (not_mine e, st)
          else (Inr PollReady, st\<lparr>mm_received_message := Some m\<rparr>)
      | _ \<Rightarrow> (not_mine e, st))"

fun reduce :: "'e xml \<Rightarrow> 'e stanza_reader \<Rightarrow> 'e request \<Rightarrow> 'e xmpp_element \<Rightarrow> 'e reduced \<times> 'e request" where
  "reduce x rd (IqRequest st) e = map_prod id IqRequest (reduce_iq st e)"
| "reduce x rd (MamRequest st) e = map_prod id MamRequest (reduce_mam x rd st e)"
| "reduce x rd (JoinRequest st) e = map_prod id JoinRequest (reduce_join x rd st e)"
| "reduce x rd (MucMessageRequest st) e = map_prod id MucMessageRequest (reduce_muc_message st e)"

text \<open>What a completed request returns; \<open>None\<close> is a panic.\<close>

fun transform :: "'e request \<Rightarrow> 'e response option" where
  "transform (IqRequest st) = Some (IqResponse (ir_element st))"
| "transform (MamRequest st) = map_option (MamResponse (mq_messages st)) (mq_fin st)"
| "transform (JoinRequest st) =
     map_option (\<lambda>p. JoinResponse p (jr_presences st) (jr_message_history st) (jr_subject st)) (jr_self_presence st)"
| "transform (MucMessageRequest st) = map_option MucMessageResponse (mm_received_message st)"

section \<open>Futures\<close>

record 'e future_state =
  fu_identifier :: string
  fu_value :: "'e request option"
  fu_result :: "(request_error + unit) option"
  fu_waker :: "nat option"

record future_entry =
  me_id :: nat
  me_state :: nat
  me_timestamp :: int

record 'e requests =
  rq_futures :: "'e future_state list"
  rq_pending :: "future_entry list"
  rq_uuids :: nat
  rq_woken :: "nat list"

type_synonym ('e, 'a) request_prog = "('e requests, 'a) program"

definition future_new :: "string \<Rightarrow> 'e request \<Rightarrow> ('e, nat) request_prog" where
  "future_new identifier req s =
     (Ok (length (rq_futures s)),
      s\<lparr>rq_futures := rq_futures s @ [\<lparr>fu_identifier = identifier, fu_value = Some req, fu_result = None, fu_waker = None\<rparr>]\<rparr>)"

definition future_failed :: "request_error \<Rightarrow> ('e, nat) request_prog" where
  "future_failed err s =
     (Ok (length (rq_futures s)),
      s\<lparr>rq_futures := rq_futures s @ [\<lparr>fu_identifier = [], fu_value = None, fu_result = Some (Inl err), fu_waker = None\<rparr>]\<rparr>)"

definition get_future :: "nat \<Rightarrow> ('e, 'e future_state) request_prog" where
  "get_future r = gets (\<lambda>s. rq_futures s ! r)"

definition put_future :: "nat \<Rightarrow> 'e future_state \<Rightarrow> ('e, unit) request_prog" where
  "put_future r f = modify_world (\<lambda>s. s\<lparr>rq_futures := (rq_futures s)[r := f]\<rparr>)"

definition wake :: "nat option \<Rightarrow> ('e, unit) request_prog" where
  "wake w = (case w of Some t \<Rightarrow> modify_world (\<lambda>s. s\<lparr>rq_woken := rq_woken s @ [t]\<rparr>) | None \<Rightarrow> return ())"

datatype 'e module_future_poll = FuturePending "'e xmpp_element option" | FutureReady "nat option"

definition future_handle_element :: "'e xml \<Rightarrow> 'e stanza_reader \<Rightarrow> nat \<Rightarrow> 'e xmpp_element \<Rightarrow> ('e, 'e module_future_poll) request_prog" where
  "future_handle_element x rd r e =
     bindM (get_future r) (\<lambda>f.
     if fu_result f \<noteq> None then thenM (put_future r (f\<lparr>fu_waker := None\<rparr>)) (return (FutureReady (fu_waker f)))
     else
       (case fu_value f of
          None \<Rightarrow> panic ''Promise has been fulfilled already''
        | Some v \<Rightarrow>
            (case reduce x rd v e of
               (Inl err, v') \<Rightarrow>
                 thenM (put_future r (f\<lparr>fu_value := Some v', fu_result := Some (Inl err), fu_waker := None\<rparr>))
                   (return (FutureReady (fu_waker f)))
             | (Inr PollReady, v') \<Rightarrow>
                 thenM (put_future r (f\<lparr>fu_value := Some v', fu_result := Some (Inr ()), fu_waker := None\<rparr>))
                   (return (FutureReady (fu_waker f)))
             | (Inr (PollPending e'), v') \<Rightarrow>
                 thenM (put_future r (f\<lparr>fu_value := Some v'\<rparr>)) (return (FuturePending e')))))"

definition fail_with :: "request_error \<Rightarrow> nat \<Rightarrow> ('e, nat option) request_prog" where
  "fail_with err r =
     bindM (get_future r) (\<lambda>f.
     thenM (put_future r (f\<lparr>fu_result := Some (Inl err), fu_waker := None\<rparr>)) (return (fu_waker f)))"

text \<open>Polling by the task \<open>t\<close>; \<open>None\<close> if the request is still pending.\<close>

definition future_poll :: "nat \<Rightarrow> nat \<Rightarrow> ('e, 'e response option) request_prog" where
  "future_poll r t =
     bindM (get_future r) (\<lambda>f.
     case fu_result f of
       None \<Rightarrow> thenM (put_future r (f\<lparr>fu_waker := Some t\<rparr>)) (return None)
     | Some (Inl err) \<Rightarrow> thenM (put_future r (f\<lparr>fu_result := None\<rparr>)) (throw (RequestErr err))
     | Some (Inr _) \<Rightarrow>
         (case fu_value f of
            None \<Rightarrow> thenM (put_future r (f\<lparr>fu_result := None\<rparr>)) (panic ''Promise has been fulfilled already'')
          | Some v \<Rightarrow>
              thenM (put_future r (f\<lparr>fu_result := None, fu_value := None\<rparr>))
                (case transform v of
                   Some resp \<Rightarrow> return (Some resp)
                 | None \<Rightarrow> panic ''Internal error. Missing response.'')))"

section \<open>The client\<close>

text \<open>Sending at the time \<open>now\<close>; \<open>sent\<close> is what the connection says, an error or not.\<close>

definition send_stanza_with_future :: "int \<Rightarrow> request_error option \<Rightarrow> nat \<Rightarrow> ('e, nat) request_prog" where
  "send_stanza_with_future now sent r =
     bindM (gets rq_uuids) (\<lambda>uuid.
     thenM (modify_world (\<lambda>s. s\<lparr>rq_uuids := Suc uuid,
       rq_pending := rq_pending s @ [\<lparr>me_id = uuid, me_state = r, me_timestamp = now\<rparr>]\<rparr>))
     (case sent of
        Some err \<Rightarrow>
          thenM (modify_world (\<lambda>s. s\<lparr>rq_pending := filter (\<lambda>p. me_id p \<noteq> uuid) (rq_pending s)\<rparr>)) (future_failed err)
      | None \<Rightarrow> return r))"

definition send_iq :: "int \<Rightarrow> request_error option \<Rightarrow> string \<Rightarrow> ('e, nat) request_prog" where
  "send_iq now sent i = bindM (future_new i (new_iq_request i)) (send_stanza_with_future now sent)"

definition mam_load_messages :: "int \<Rightarrow> request_error option \<Rightarrow> string \<Rightarrow> string \<Rightarrow> ('e, nat) request_prog" where
  "mam_load_messages now sent i query_id =
     bindM (future_new (''MAM '' @ i) (new_mam_request i query_id)) (send_stanza_with_future now sent)"

fun visit_loop :: "'e xml \<Rightarrow> 'e stanza_reader \<Rightarrow> nat \<Rightarrow> future_entry list \<Rightarrow> 'e xmpp_element \<Rightarrow>
    ('e, 'e xmpp_element option) request_prog" where
  "visit_loop x rd idx [] e = return (Some e)"
| "visit_loop x rd idx (p # ps) e =
     bindM (future_handle_element x rd (me_state p) e) (\<lambda>poll.
     case poll of
       FuturePending (Some e') \<Rightarrow> visit_loop x rd (Suc idx) ps e'
     | FuturePending None \<Rightarrow> return None
     | FutureReady w \<Rightarrow>
         thenM (modify_world (\<lambda>s. s\<lparr>rq_pending := vec_remove idx (rq_pending s)\<rparr>)) (thenM (wake w) (return None)))"

definition visit_futures_with_element :: "'e xml \<Rightarrow> 'e stanza_reader \<Rightarrow> 'e xmpp_element \<Rightarrow> ('e, 'e xmpp_element option) request_prog" where
  "visit_futures_with_element x rd e = bindM (gets rq_pending) (\<lambda>ps. visit_loop x rd 0 ps e)"

definition timeout_duration :: int where "timeout_duration = 15 * 10 ^ 9"

fun purge_loop :: "int \<Rightarrow> nat \<Rightarrow> future_entry list \<Rightarrow> ('e, nat list) request_prog" where
  "purge_loop now idx [] = return []"
| "purge_loop now idx (p # ps) =
     (if now < me_timestamp p then panic ''second time provided was later than self''
      else if now - me_timestamp p < timeout_duration then purge_loop now (Suc idx) ps
      else
        bindM (fail_with RTimedOut (me_state p)) (\<lambda>w.
        thenM (modify_world (\<lambda>s. s\<lparr>rq_pending := vec_remove idx (rq_pending s)\<rparr>))
        (bindM (purge_loop now idx ps) (\<lambda>ws. return (case w of Some t \<Rightarrow> t # ws | None \<Rightarrow> ws)))))"

definition purge_expired_futures :: "int \<Rightarrow> ('e, unit) request_prog" where
  "purge_expired_futures now =
     bindM (gets rq_pending) (\<lambda>ps.
     bindM (purge_loop now 0 ps) (\<lambda>wakers.
     modify_world (\<lambda>s. s\<lparr>rq_woken := rq_woken s @ wakers\<rparr>)))"

definition cancel_pending_futures :: "('e, unit) request_prog" where
  "cancel_pending_futures =
     bindM (gets rq_pending) (\<lambda>ps.
     thenM (modify_world (\<lambda>s. s\<lparr>rq_pending := []\<rparr>))
     (for_each (\<lambda>p. bindM (fail_with RDisconnected (me_state p)) wake) ps))"

text \<open>A module is what it does with each kind of element.\<close>

record 'e xmpp_module =
  md_presence :: "'e presence_stanza \<Rightarrow> ('e, unit) request_prog"
  md_message :: "'e message_stanza \<Rightarrow> ('e, unit) request_prog"
  md_iq :: "'e iq \<Rightarrow> ('e, unit) request_prog"
  md_pubsub_event :: "jid \<Rightarrow> 'e \<Rightarrow> ('e, unit) request_prog"

fun module_handle_element :: "'e xmpp_module \<Rightarrow> 'e xmpp_element \<Rightarrow> ('e, unit) request_prog" where
  "module_handle_element md (PresenceElement p) = md_presence md p"
| "module_handle_element md (MessageElement m) = md_message md m"
| "module_handle_element md (IqElement iq) = md_iq md iq"
| "module_handle_element md (PubSubElement pm) = for_each (md_pubsub_event md (pm_from pm)) (pm_events pm)"

definition client_handle_stanza :: "'e xml \<Rightarrow> 'e stanza_reader \<Rightarrow> 'e xmpp_module list \<Rightarrow> 'e \<Rightarrow> ('e, unit) request_prog" where
  "client_handle_stanza x rd mods stanza =
     (case try_from_element x rd stanza of
        Inl _ \<Rightarrow> return ()
      | Inr None \<Rightarrow> return ()
      | Inr (Some e) \<Rightarrow>
          bindM (visit_futures_with_element x rd e) (\<lambda>rest.
          case rest of
            None \<Rightarrow> return ()
          | Some e' \<Rightarrow> for_each (\<lambda>md. bindM (attempt (module_handle_element md e')) (\<lambda>_. return ())) mods))"

section \<open>Pending requests\<close>

text \<open>
  A pending request has neither a result nor lost its value, and no two entries share a future.
\<close>

definition pending_future :: "'e future_state \<Rightarrow> bool" where
  "pending_future f \<longleftrightarrow> fu_result f = None \<and> fu_value f \<noteq> None"

definition pending_refs :: "'e requests \<Rightarrow> nat list" where
  "pending_refs s = map me_state (rq_pending s)"

definition requests_ok :: "'e requests \<Rightarrow> bool" where
  "requests_ok s \<longleftrightarrow> distinct (pending_refs s) \<and>
     (\<forall>r \<in> set (pending_refs s). r < length (rq_futures s) \<and> pending_future (rq_futures s ! r)) \<and>
     (\<forall>p \<in> set (rq_pending s). me_id p < rq_uuids s)"

definition takes :: "'e xml \<Rightarrow> 'e stanza_reader \<Rightarrow> 'e xmpp_element \<Rightarrow> 'e future_state \<Rightarrow> bool" where
  "takes x rd e f \<longleftrightarrow> fst (reduce x rd (the (fu_value f)) e) \<noteq> not_mine e"

text \<open>What becomes of a future that takes an element.\<close>

definition after_element :: "'e xml \<Rightarrow> 'e stanza_reader \<Rightarrow> 'e xmpp_element \<Rightarrow> 'e future_state \<Rightarrow> 'e future_state" where
  "after_element x rd e f =
     (case reduce x rd (the (fu_value f)) e of
        (Inl err, v) \<Rightarrow> f\<lparr>fu_value := Some v, fu_result := Some (Inl err), fu_waker := None\<rparr>
      | (Inr PollReady, v) \<Rightarrow> f\<lparr>fu_value := Some v, fu_result := Some (Inr ()), fu_waker := None\<rparr>
      | (Inr (PollPending _), v) \<Rightarrow> f\<lparr>fu_value := Some v\<rparr>)"

definition waker_list :: "nat option \<Rightarrow> nat list" where
  "waker_list w = (case w of Some t \<Rightarrow> [t] | None \<Rightarrow> [])"

lemma reduce_declines:
  assumes "reduce x rd v e = (Inr (PollPending (Some e')), v')"
  shows "e' = e \<and> v' = v"
proof (cases v)
  case (IqRequest st)
  with assms show ?thesis
    by (auto simp: reduce_iq_def split: xmpp_element.splits if_splits iq_payload.splits)
next
  case (MamRequest st)
  with assms show ?thesis
    by (auto simp: reduce_mam_def split: xmpp_element.splits if_splits iq_payload.splits option.splits sum.splits)
next
  case (JoinRequest st)
  with assms show ?thesis
    by (auto simp: reduce_join_def Let_def split: xmpp_element.splits if_splits option.splits)
next
  case (MucMessageRequest st)
  with assms show ?thesis
    by (auto simp: reduce_muc_message_def split: xmpp_element.splits if_splits)
qed

lemma declined:
  assumes "\<not> takes x rd e f" "fu_value f = Some v"
  shows "reduce x rd v e = (not_mine e, v)"
  using assms reduce_declines [of x rd v e e] by (cases "reduce x rd v e") (auto simp: takes_def)

lemma taken_cases:
  assumes "takes x rd e f" "fu_value f = Some v"
  obtains (error) err v' where "reduce x rd v e = (Inl err, v')"
    | (ready) v' where "reduce x rd v e = (Inr PollReady, v')"
    | (kept) v' where "reduce x rd v e = (Inr (PollPending None), v')"
proof -
  obtain res v' where red: "reduce x rd v e = (res, v')" by fastforce
  show ?thesis
  proof (cases res)
    case (Inl err)
    with red error show ?thesis by blast
  next
    case (Inr poll)
    show ?thesis
    proof (cases poll)
      case (PollPending e')
      with Inr red assms reduce_declines [of x rd v e] have "e' = None" by (cases e') (auto simp: takes_def)
      with Inr red PollPending kept show ?thesis by blast
    next
      case PollReady
      with Inr red ready show ?thesis by blast
    qed
  qed
qed

lemma handle_element_declined:
  assumes "pending_future (rq_futures s ! r)" "\<not> takes x rd e (rq_futures s ! r)"
  shows "future_handle_element x rd r e s = (Ok (FuturePending (Some e)), s)"
proof -
  obtain v where v: "fu_value (rq_futures s ! r) = Some v" using assms(1) by (auto simp: pending_future_def)
  then have "(rq_futures s ! r)\<lparr>fu_value := Some v\<rparr> = rq_futures s ! r" by simp
  then have "(rq_futures s)[r := (rq_futures s ! r)\<lparr>fu_value := Some v\<rparr>] = rq_futures s" by (simp only: list_update_id)
  with v assms declined [OF assms(2) v] show ?thesis
    by (simp add: future_handle_element_def get_future_def put_future_def pending_future_def prog_defs)
qed

definition element_taken :: "'e xml \<Rightarrow> 'e stanza_reader \<Rightarrow> nat \<Rightarrow> nat \<Rightarrow> 'e xmpp_element \<Rightarrow> 'e requests \<Rightarrow> 'e requests" where
  "element_taken x rd k r e s =
     (let f = rq_futures s ! r; f' = after_element x rd e f; s' = s\<lparr>rq_futures := (rq_futures s)[r := f']\<rparr> in
      if fu_result f' = None then s'
      else s'\<lparr>rq_pending := vec_remove k (rq_pending s), rq_woken := rq_woken s @ waker_list (fu_waker f)\<rparr>)"

lemma visit_loop_taken:
  assumes "pending_future (rq_futures s ! me_state p)" "takes x rd e (rq_futures s ! me_state p)"
  shows "visit_loop x rd k (p # ps) e s = (Ok None, element_taken x rd k (me_state p) e s)"
proof -
  let ?f = "rq_futures s ! me_state p"
  obtain v where v: "fu_value ?f = Some v" "fu_result ?f = None" using assms(1) by (auto simp: pending_future_def)
  show ?thesis
    using assms(2) v(1)
  proof (cases rule: taken_cases)
  qed (simp_all add: v future_handle_element_def get_future_def put_future_def element_taken_def after_element_def
      wake_def waker_list_def Let_def prog_defs split: option.split)
qed

lemma visit_loop_exact:
  assumes "\<forall>p \<in> set ps. pending_future (rq_futures s ! me_state p)"
  shows "visit_loop x rd k ps e s =
     (case position (\<lambda>p. takes x rd e (rq_futures s ! me_state p)) ps of
        None \<Rightarrow> (Ok (Some e), s)
      | Some j \<Rightarrow> (Ok None, element_taken x rd (k + j) (me_state (ps ! j)) e s))"
  using assms
proof (induction ps arbitrary: k)
  case (Cons p ps)
  show ?case
  proof (cases "takes x rd e (rq_futures s ! me_state p)")
    case True
    with Cons.prems visit_loop_taken [of s p x rd e k ps] show ?thesis by (simp del: visit_loop.simps)
  next
    case False
    with Cons.prems have "visit_loop x rd k (p # ps) e s = visit_loop x rd (Suc k) ps e s"
      by (simp add: bindM_def handle_element_declined)
    with Cons False show ?thesis by (simp split: option.split)
  qed
qed (simp add: return_def)

text \<open>Futures that are failed from outside.\<close>

definition failed_future :: "request_error \<Rightarrow> 'e future_state \<Rightarrow> 'e future_state" where
  "failed_future err f = f\<lparr>fu_result := Some (Inl err), fu_waker := None\<rparr>"

definition fail_all :: "request_error \<Rightarrow> nat list \<Rightarrow> 'e future_state list \<Rightarrow> 'e future_state list" where
  "fail_all err rs fs = fold (\<lambda>r fs. fs[r := failed_future err (fs ! r)]) rs fs"

definition wakers_of :: "'e future_state list \<Rightarrow> nat list \<Rightarrow> nat list" where
  "wakers_of fs rs = concat (map (\<lambda>r. waker_list (fu_waker (fs ! r))) rs)"

lemma length_fail_all [simp]: "length (fail_all err rs fs) = length fs"
  unfolding fail_all_def by (induction rs arbitrary: fs) simp_all

lemma nth_fail_all:
  "distinct rs \<Longrightarrow> r < length fs \<Longrightarrow> fail_all err rs fs ! r = (if r \<in> set rs then failed_future err (fs ! r) else fs ! r)"
  unfolding fail_all_def by (induction rs arbitrary: fs) (auto simp: nth_list_update, metis nth_list_update_neq)

lemma wakers_of_update: "r \<notin> set rs \<Longrightarrow> wakers_of (fs[r := f]) rs = wakers_of fs rs"
  unfolding wakers_of_def by (intro arg_cong [where f = concat] map_cong) (metis nth_list_update_neq)+

lemma wakers_of_Cons: "wakers_of fs (r # rs) = waker_list (fu_waker (fs ! r)) @ wakers_of fs rs"
  by (simp add: wakers_of_def)

lemma fail_all_Cons: "fail_all err (r # rs) fs = fail_all err rs (fs[r := failed_future err (fs ! r)])"
  by (simp add: fail_all_def)

lemma fail_with_run:
  "fail_with err r s = (Ok (fu_waker (rq_futures s ! r)), s\<lparr>rq_futures := (rq_futures s)[r := failed_future err (rq_futures s ! r)]\<rparr>)"
  by (simp add: fail_with_def get_future_def put_future_def failed_future_def prog_defs)

definition expired :: "int \<Rightarrow> future_entry \<Rightarrow> bool" where
  "expired now p \<longleftrightarrow> timeout_duration \<le> now - me_timestamp p"

abbreviation expired_refs :: "int \<Rightarrow> future_entry list \<Rightarrow> nat list" where
  "expired_refs now ps \<equiv> map me_state (filter (expired now) ps)"

lemma not_expired: "now - me_timestamp p < timeout_duration \<longleftrightarrow> \<not> expired now p"
  by (simp add: expired_def not_le)

lemma vec_remove_middle: "vec_remove (length xs) (xs @ y # ys) = xs @ ys"
  by (simp add: vec_remove_conv)

lemma purge_loop_exact:
  assumes "rq_pending s = xs @ ps" "\<forall>p \<in> set ps. me_timestamp p \<le> now" "distinct (map me_state ps)"
  shows "purge_loop now (length xs) ps s =
     (Ok (wakers_of (rq_futures s) (expired_refs now ps)),
      s\<lparr>rq_futures := fail_all RTimedOut (expired_refs now ps) (rq_futures s),
        rq_pending := xs @ filter (\<lambda>p. \<not> expired now p) ps\<rparr>)"
  using assms
proof (induction ps arbitrary: xs s)
  case Nil
  then show ?case by (simp add: return_def wakers_of_def fail_all_def)
next
  case (Cons p ps)
  show ?case
  proof (cases "expired now p")
    case False
    with Cons.prems Cons.IH [of s "xs @ [p]"] show ?thesis by (simp add: not_expired)
  next
    case True
    let ?fs = "(rq_futures s)[me_state p := failed_future RTimedOut (rq_futures s ! me_state p)]"
    let ?s = "s\<lparr>rq_futures := ?fs, rq_pending := xs @ ps\<rparr>"
    have "me_state p \<notin> set (expired_refs now ps)" using Cons.prems(3) by auto
    note wakers = wakers_of_update [OF this]
    from Cons.prems have "purge_loop now (length xs) ps ?s =
        (Ok (wakers_of ?fs (expired_refs now ps)),
         ?s\<lparr>rq_futures := fail_all RTimedOut (expired_refs now ps) ?fs, rq_pending := xs @ filter (\<lambda>p. \<not> expired now p) ps\<rparr>)"
      using Cons.IH [of ?s xs] by simp
    with True Cons.prems show ?thesis
      by (simp add: not_expired fail_with_run bindM_def thenM_def modify_world_def return_def vec_remove_middle
          wakers wakers_of_Cons fail_all_Cons waker_list_def split: option.split)
  qed
qed

lemma purge_exact:
  assumes "\<forall>p \<in> set (rq_pending s). me_timestamp p \<le> now" "distinct (pending_refs s)"
  shows "purge_expired_futures now s =
     (Ok (), s\<lparr>rq_futures := fail_all RTimedOut (expired_refs now (rq_pending s)) (rq_futures s),
        rq_pending := filter (\<lambda>p. \<not> expired now p) (rq_pending s),
        rq_woken := rq_woken s @ wakers_of (rq_futures s) (expired_refs now (rq_pending s))\<rparr>)"
  using assms purge_loop_exact [of s "[]" "rq_pending s" now]
  by (simp add: purge_expired_futures_def pending_refs_def bindM_def gets_def modify_world_def)

lemma cancel_loop_exact:
  assumes "distinct (map me_state ps)"
  shows "for_each (\<lambda>p. bindM (fail_with err (me_state p)) wake) ps s =
     (Ok (), s\<lparr>rq_futures := fail_all err (map me_state ps) (rq_futures s),
        rq_woken := rq_woken s @ wakers_of (rq_futures s) (map me_state ps)\<rparr>)"
  using assms
proof (induction ps arbitrary: s)
  case Nil
  then show ?case by (simp add: for_each_def return_def wakers_of_def fail_all_def)
next
  case (Cons p ps)
  let ?fs = "(rq_futures s)[me_state p := failed_future err (rq_futures s ! me_state p)]"
  let ?s = "s\<lparr>rq_futures := ?fs, rq_woken := rq_woken s @ waker_list (fu_waker (rq_futures s ! me_state p))\<rparr>"
  have "me_state p \<notin> set (map me_state ps)" using Cons.prems by simp
  note wakers = wakers_of_update [OF this]
  have "bindM (fail_with err (me_state p)) wake s = (Ok (), ?s)"
    by (simp add: bindM_def fail_with_run wake_def waker_list_def modify_world_def return_def split: option.split)
  then have "for_each (\<lambda>p. bindM (fail_with err (me_state p)) wake) (p # ps) s =
      for_each (\<lambda>p. bindM (fail_with err (me_state p)) wake) ps ?s"
    by (simp add: for_each_def thenM_def) (simp add: bindM_def)
  with Cons show ?case by (simp add: fail_all_Cons wakers_of_Cons wakers)
qed

lemma cancel_exact:
  assumes "distinct (pending_refs s)"
  shows "cancel_pending_futures s =
     (Ok (), s\<lparr>rq_futures := fail_all RDisconnected (pending_refs s) (rq_futures s), rq_pending := [],
        rq_woken := rq_woken s @ wakers_of (rq_futures s) (pending_refs s)\<rparr>)"
  using assms cancel_loop_exact [of "rq_pending s" RDisconnected "s\<lparr>rq_pending := []\<rparr>"]
  by (simp add: cancel_pending_futures_def pending_refs_def bindM_def thenM_def gets_def modify_world_def)

lemma visit_exact:
  assumes "requests_ok s"
  shows "visit_futures_with_element x rd e s =
     (case position (\<lambda>p. takes x rd e (rq_futures s ! me_state p)) (rq_pending s) of
        None \<Rightarrow> (Ok (Some e), s)
      | Some k \<Rightarrow> (Ok None, element_taken x rd k (me_state (rq_pending s ! k)) e s))"
  using assms visit_loop_exact [of "rq_pending s" s x rd 0 e, unfolded add_0]
  by (simp add: requests_ok_def pending_refs_def visit_futures_with_element_def bindM_def gets_def)

section \<open>Every request is settled once\<close>

text \<open>
  What can happen to the requests: one is sent, an element arrives, the timer fires (at a time not
  before the requests were sent), the connection is lost, or a task polls.
\<close>

inductive request_step :: "'e xml \<Rightarrow> 'e stanza_reader \<Rightarrow> 'e requests \<Rightarrow> 'e requests \<Rightarrow> bool"
  for x rd where
  send: "request_step x rd s (snd (bindM (future_new identifier req) (send_stanza_with_future now sent) s))"
| element: "request_step x rd s (snd (visit_futures_with_element x rd e s))"
| timer: "\<forall>p \<in> set (rq_pending s). me_timestamp p \<le> now \<Longrightarrow> request_step x rd s (snd (purge_expired_futures now s))"
| disconnect: "request_step x rd s (snd (cancel_pending_futures s))"
| poll: "r < length (rq_futures s) \<Longrightarrow> request_step x rd s (snd (future_poll r t s))"

definition requests_new :: "'e requests" where
  "requests_new = \<lparr>rq_futures = [], rq_pending = [], rq_uuids = 0, rq_woken = []\<rparr>"

inductive request_reachable :: "'e xml \<Rightarrow> 'e stanza_reader \<Rightarrow> 'e requests \<Rightarrow> bool"
  for x rd where
  initial: "request_reachable x rd requests_new"
| step: "request_reachable x rd s \<Longrightarrow> request_step x rd s s' \<Longrightarrow> request_reachable x rd s'"

text \<open>
  A step of the requests in general: futures are added, the pending ones that are left are as before
  or new, those that are no longer pending have a result and their tasks are woken, and a settled
  future at most has its result taken.
\<close>

definition settles :: "'e requests \<Rightarrow> 'e requests \<Rightarrow> bool" where
  "settles s s' \<longleftrightarrow>
     length (rq_futures s) \<le> length (rq_futures s') \<and>
     set (pending_refs s') \<subseteq> set (pending_refs s) \<union> {length (rq_futures s)..<length (rq_futures s')} \<and>
     (\<exists>ws. rq_woken s' = rq_woken s @ ws \<and>
        (\<forall>r \<in> set (pending_refs s) - set (pending_refs s').
           fu_result (rq_futures s' ! r) \<noteq> None \<and> set (waker_list (fu_waker (rq_futures s ! r))) \<subseteq> set ws)) \<and>
     (\<forall>r < length (rq_futures s). r \<notin> set (pending_refs s) \<longrightarrow>
        fu_result (rq_futures s' ! r) = fu_result (rq_futures s ! r) \<or> fu_result (rq_futures s' ! r) = None)"

lemma pending_refs_filter: "set (map me_state (filter P ps)) \<subseteq> set (map me_state ps)"
  by auto

lemma distinct_refs_filter:
  assumes "distinct (map me_state ps)" "p \<in> set ps" "\<not> P p"
  shows "me_state p \<notin> set (map me_state (filter P ps))"
  using assms by (auto simp: distinct_map inj_on_def)

lemma waker_in_wakers: "r \<in> set rs \<Longrightarrow> set (waker_list (fu_waker (fs ! r))) \<subseteq> set (wakers_of fs rs)"
  by (auto simp: wakers_of_def)

lemma purge_ok:
  assumes "requests_ok s" "\<forall>p \<in> set (rq_pending s). me_timestamp p \<le> now"
  shows "requests_ok (snd (purge_expired_futures now s)) \<and> settles s (snd (purge_expired_futures now s))"
proof -
  let ?ps = "rq_pending s" and ?ex = "expired_refs now (rq_pending s)"
  have dist: "distinct (map me_state ?ps)" using assms(1) by (simp add: requests_ok_def pending_refs_def)
  then have ex: "distinct ?ex" by (simp add: distinct_map_filter)
  have split: "set (map me_state ?ps) = set ?ex \<union> set (map me_state (filter (\<lambda>p. \<not> expired now p) ?ps))" by auto
  have disj: "set ?ex \<inter> set (map me_state (filter (\<lambda>p. \<not> expired now p) ?ps)) = {}"
    using dist by (auto simp: distinct_map inj_on_def)
  have woken: "t \<in> set (wakers_of (rq_futures s) ?ex)"
    if "p \<in> set ?ps" "me_state p \<notin> me_state ` {p \<in> set ?ps. \<not> expired now p}"
      "t \<in> set (waker_list (fu_waker (rq_futures s ! me_state p)))" for p t
    using that waker_in_wakers [of "me_state p" ?ex "rq_futures s"] by auto
  note run = purge_exact [OF assms(2), unfolded pending_refs_def, OF dist]
  have "requests_ok (snd (purge_expired_futures now s))"
    using assms(1) disj unfolding run requests_ok_def pending_refs_def
    by (auto simp: distinct_map_filter nth_fail_all [OF ex])
  moreover have "settles s (snd (purge_expired_futures now s))"
    using assms(1) disj unfolding run settles_def requests_ok_def pending_refs_def
    by (auto simp: nth_fail_all [OF ex] failed_future_def intro!: exI [of _ "wakers_of (rq_futures s) ?ex"] woken)
  ultimately show ?thesis ..
qed

lemma cancel_ok:
  assumes "requests_ok s"
  shows "requests_ok (snd (cancel_pending_futures s)) \<and> settles s (snd (cancel_pending_futures s))"
proof -
  have dist: "distinct (pending_refs s)" using assms by (simp add: requests_ok_def)
  note run = cancel_exact [OF dist]
  have "requests_ok (snd (cancel_pending_futures s))"
    by (simp add: run requests_ok_def pending_refs_def)
  moreover have "settles s (snd (cancel_pending_futures s))"
    using assms waker_in_wakers [of _ "pending_refs s" "rq_futures s"] unfolding run settles_def requests_ok_def
    by (auto simp: nth_fail_all [OF dist] failed_future_def pending_refs_def [of "_\<lparr>rq_woken := _\<rparr>"])
  ultimately show ?thesis ..
qed

lemma after_element_value: "fu_value f \<noteq> None \<Longrightarrow> fu_value (after_element x rd e f) \<noteq> None"
  by (auto simp: after_element_def split: prod.split sum.split reducer_poll.split)

lemma visit_ok:
  assumes "requests_ok s"
  shows "requests_ok (snd (visit_futures_with_element x rd e s)) \<and> settles s (snd (visit_futures_with_element x rd e s))"
proof (cases "position (\<lambda>p. takes x rd e (rq_futures s ! me_state p)) (rq_pending s)")
  case None
  with visit_exact [OF assms, of x rd e] assms show ?thesis by (auto simp: settles_def intro!: exI [of _ "[]"])
next
  case (Some k)
  let ?ps = "rq_pending s" and ?p = "rq_pending s ! k"
  let ?r = "me_state ?p"
  let ?f = "rq_futures s ! ?r"
  have k: "k < length ?ps" using Some by (rule position_Some_less)
  then have pos: "?ps = take k ?ps @ ?p # drop (Suc k) ?ps" by (rule id_take_nth_drop)
  have removed: "vec_remove k ?ps = take k ?ps @ drop (Suc k) ?ps" by (rule vec_remove_conv)
  have dist: "distinct (map me_state ?ps)" using assms by (simp add: requests_ok_def pending_refs_def)
  have pend: "?r \<in> set (pending_refs s)" using k by (simp add: pending_refs_def)
  with assms have f: "?r < length (rq_futures s)" "pending_future ?f" by (auto simp: requests_ok_def)
  have run: "visit_futures_with_element x rd e s = (Ok None, element_taken x rd k ?r e s)"
    using visit_exact [OF assms, of x rd e] Some by simp
  have mset: "mset (map me_state ?ps) = add_mset ?r (mset (map me_state (vec_remove k ?ps)))"
    by (subst (1) pos) (simp add: removed)
  then have refs: "distinct (?r # map me_state (vec_remove k ?ps))"
    using dist by (metis mset.simps(2) mset_eq_imp_distinct_iff)
  have set_refs: "set (map me_state ?ps) = insert ?r (set (map me_state (vec_remove k ?ps)))"
    using mset by (metis mset.simps(2) set_mset_mset list.simps(15))
  have other: "me_state q \<noteq> ?r \<and> q \<in> set ?ps" if "q \<in> set (vec_remove k ?ps)" for q
    using that refs set_vec_remove_subset [of k ?ps] by (auto simp: image_iff)
  show ?thesis
  proof (cases "fu_result (after_element x rd e ?f) = None")
    case True
    with assms f after_element_value [of ?f x rd e] show ?thesis
      unfolding run
      by (auto simp: element_taken_def Let_def requests_ok_def settles_def pending_refs_def pending_future_def nth_list_update
          intro!: exI [of _ "[]"])
  next
    case False
    have "requests_ok (element_taken x rd k ?r e s)"
      using assms False refs
      by (auto simp: element_taken_def Let_def requests_ok_def pending_refs_def nth_list_update dest: other)
    moreover have "settles s (element_taken x rd k ?r e s)"
      using False f refs set_refs
      by (auto simp: element_taken_def Let_def settles_def pending_refs_def nth_list_update
          intro!: exI [of _ "waker_list (fu_waker ?f)"])
    ultimately show ?thesis unfolding run by simp
  qed
qed

lemma send_ok:
  assumes "requests_ok s"
  shows "requests_ok (snd (bindM (future_new identifier req) (send_stanza_with_future now sent) s)) \<and>
     settles s (snd (bindM (future_new identifier req) (send_stanza_with_future now sent) s))"
proof -
  have "filter (\<lambda>p. me_id p \<noteq> rq_uuids s) (rq_pending s) = rq_pending s"
    using assms by (auto simp: requests_ok_def intro!: filter_True)
  with assms show ?thesis
    by (cases sent) (auto simp: requests_ok_def settles_def pending_refs_def future_new_def send_stanza_with_future_def
        future_failed_def pending_future_def nth_append less_Suc_eq prog_defs intro!: exI [of _ "[]"])
qed

lemma poll_ok:
  assumes "requests_ok s" "r < length (rq_futures s)"
  shows "requests_ok (snd (future_poll r t s)) \<and> settles s (snd (future_poll r t s))"
proof -
  let ?f = "rq_futures s ! r"
  obtain f' where run: "snd (future_poll r t s) = s\<lparr>rq_futures := (rq_futures s)[r := f']\<rparr>"
    "fu_result f' = fu_result ?f \<or> fu_result f' = None" "pending_future ?f \<longrightarrow> pending_future f'"
    by (cases "fu_result ?f"; cases "fu_value ?f"; cases "the (fu_result ?f)"; cases "transform (the (fu_value ?f))")
      (auto simp: future_poll_def get_future_def put_future_def pending_future_def prog_defs split: option.splits)
  show ?thesis
    using assms run(2,3) unfolding run(1)
    by (auto simp: requests_ok_def settles_def pending_refs_def nth_list_update intro!: exI [of _ "[]"])
qed

lemma step_ok: "request_step x rd s s' \<Longrightarrow> requests_ok s \<Longrightarrow> requests_ok s' \<and> settles s s'"
  by (induction rule: request_step.induct) (auto simp: send_ok visit_ok purge_ok cancel_ok poll_ok)

lemma reachable_ok: "request_reachable x rd s \<Longrightarrow> requests_ok s"
proof (induction rule: request_reachable.induct)
  case initial
  then show ?case by (simp add: requests_ok_def requests_new_def pending_refs_def)
next
  case (step s s')
  then show ?case by (simp add: step_ok)
qed

text \<open>
  C27. Every request is settled exactly once: a future that is no longer pending never becomes pending
  again and its result is never replaced, only taken by the task that polls it, whatever elements
  arrive and whenever requests time out or are cancelled.
\<close>

theorem request_settled_once:
  assumes "request_reachable x rd s" "request_step x rd s s'"
    and "r < length (rq_futures s)" "r \<notin> set (pending_refs s)"
  shows "r \<notin> set (pending_refs s') \<and>
     (fu_result (rq_futures s' ! r) = fu_result (rq_futures s ! r) \<or> fu_result (rq_futures s' ! r) = None)"
  using step_ok [OF assms(2) reachable_ok [OF assms(1)]] assms(3,4) by (auto simp: settles_def)

text \<open>
  C28. No wakeup is lost: when a request stops being pending it has a result, and the task that waits
  for it is woken in the same step.
\<close>

theorem settled_request_woken:
  assumes "request_reachable x rd s" "request_step x rd s s'"
    and "r \<in> set (pending_refs s)" "r \<notin> set (pending_refs s')" "fu_waker (rq_futures s ! r) = Some t"
  shows "fu_result (rq_futures s' ! r) \<noteq> None \<and> (\<exists>ws. rq_woken s' = rq_woken s @ ws \<and> t \<in> set ws)"
proof -
  have "set (waker_list (fu_waker (rq_futures s ! r))) = {t}" using assms(5) by (simp add: waker_list_def)
  moreover have "settles s s'" using step_ok [OF assms(2) reachable_ok [OF assms(1)]] by simp
  ultimately show ?thesis using assms(3,4) by (fastforce simp: settles_def)
qed

lemma element_goes_to_first_taker_aux:
  assumes "request_reachable x rd s"
  shows "visit_futures_with_element x rd e s =
     (case find (\<lambda>p. takes x rd e (rq_futures s ! me_state p)) (rq_pending s) of
        None \<Rightarrow> (Ok (Some e), s)
      | Some p \<Rightarrow>
          let f = rq_futures s ! me_state p; f' = after_element x rd e f;
              s' = s\<lparr>rq_futures := (rq_futures s)[me_state p := f']\<rparr> in
          (Ok None,
           if fu_result f' = None then s'
           else s'\<lparr>rq_pending := remove1 p (rq_pending s), rq_woken := rq_woken s @ waker_list (fu_waker f)\<rparr>))"
proof -
  let ?P = "\<lambda>p. takes x rd e (rq_futures s ! me_state p)"
  have find: "find P ps = map_option (\<lambda>k. ps ! k) (position P ps)" for P and ps :: "future_entry list"
    by (induction ps) (auto simp: option.map_comp o_def split: option.split)
  have remove: "vec_remove k ps = remove1 (ps ! k) ps" if "distinct ps" "k < length ps" for k and ps :: "future_entry list"
    using that by (induction k ps rule: vec_remove.induct) auto
  have "distinct (rq_pending s)"
    using reachable_ok [OF assms] by (auto simp: requests_ok_def pending_refs_def distinct_map)
  then show ?thesis
    using visit_exact [OF reachable_ok [OF assms], of x rd e] position_Some_less [of ?P "rq_pending s"]
    by (auto simp: find element_taken_def Let_def remove split: option.split)
qed

text \<open>
  An element goes to the first pending request that takes it and to no other one: the others stay
  as they are, and an element that no request takes is handed on as it came.
\<close>

theorem element_goes_to_first_taker:
  assumes "request_reachable x rd s"
  shows "visit_futures_with_element x rd e s =
     (case find (\<lambda>p. takes x rd e (rq_futures s ! me_state p)) (rq_pending s) of
        None \<Rightarrow> (Ok (Some e), s)
      | Some p \<Rightarrow>
          let f = rq_futures s ! me_state p; f' = after_element x rd e f;
              s' = s\<lparr>rq_futures := (rq_futures s)[me_state p := f']\<rparr> in
          (Ok None,
           if fu_result f' = None then s'
           else s'\<lparr>rq_pending := remove1 p (rq_pending s), rq_woken := rq_woken s @ waker_list (fu_waker f)\<rparr>))"
  using assms by (rule element_goes_to_first_taker_aux)

section \<open>What requests return\<close>

text \<open>A request that looks at one element after another until it is done.\<close>

fun reduce_all :: "'e xml \<Rightarrow> 'e stanza_reader \<Rightarrow> 'e request \<Rightarrow> 'e xmpp_element list \<Rightarrow> (request_error + unit) option \<times> 'e request" where
  "reduce_all x rd v [] = (None, v)"
| "reduce_all x rd v (e # es) =
     (case reduce x rd v e of
        (Inl err, v') \<Rightarrow> (Some (Inl err), v')
      | (Inr PollReady, v') \<Rightarrow> (Some (Inr ()), v')
      | (Inr (PollPending _), v') \<Rightarrow> reduce_all x rd v' es)"

text \<open>The archived messages an element answers the query with.\<close>

definition archived_for :: "'e xml \<Rightarrow> 'e stanza_reader \<Rightarrow> string \<Rightarrow> 'e xmpp_element \<Rightarrow> 'e archived_message list" where
  "archived_for x rd q e =
     (case e of
        MessageElement m \<Rightarrow> (case archived_message_of x rd m of Some (Some q', a) \<Rightarrow> if q' = q then [a] else [] | _ \<Rightarrow> [])
      | _ \<Rightarrow> [])"

fun iq_with_id :: "string \<Rightarrow> 'e xmpp_element \<Rightarrow> bool" where
  "iq_with_id i (IqElement iq) = (iq_id iq = i)"
| "iq_with_id i _ = False"

lemma mam_collects:
  assumes "\<forall>e \<in> set es. \<not> iq_with_id (mq_id st) e"
  shows "reduce_all x rd (MamRequest st) (es @ es') =
     reduce_all x rd (MamRequest (st\<lparr>mq_messages := mq_messages st @ concat (map (archived_for x rd (mq_query_id st)) es)\<rparr>)) es'"
  using assms
proof (induction es arbitrary: st)
  case (Cons e es)
  let ?a = "archived_for x rd (mq_query_id st) e"
  have "reduce_all x rd (MamRequest st) ((e # es) @ es') =
      reduce_all x rd (MamRequest (st\<lparr>mq_messages := mq_messages st @ ?a\<rparr>)) (es @ es')"
    using Cons.prems
    by (auto simp: reduce_mam_def archived_for_def split: xmpp_element.splits option.splits)
  with Cons show ?case by simp
qed simp

text \<open>
  A query of the archive returns exactly the messages that arrived for it, in their order, with
  what the final answer says about further pages, whatever else arrives in between.
\<close>

theorem archive_query_exact:
  assumes "\<forall>e \<in> set es. \<not> iq_with_id i e"
    and "iq_id iq = i" "iq_payload iq = IqResult (Some p)" "rd_fin rd p = Inr complete"
  shows "\<exists>v. reduce_all x rd (new_mam_request i q) (es @ IqElement iq # es') = (Some (Inr ()), v) \<and>
     transform v = Some (MamResponse (concat (map (archived_for x rd q) es)) complete)"
  using mam_collects [of es "\<lparr>mq_id = i, mq_query_id = q, mq_fin = None, mq_messages = []\<rparr>" x rd "IqElement iq # es'"] assms
  by (simp add: new_mam_request_def reduce_mam_def)

text \<open>Elements that tell nothing about our own presence in the room, nor its subject.\<close>

fun no_entry :: "'e xml \<Rightarrow> full_jid \<Rightarrow> 'e xmpp_element \<Rightarrow> bool" where
  "no_entry x room (PresenceElement p) = (ps_from p \<noteq> Some (JFull room))"
| "no_entry x room (MessageElement m) = (subject_of x m = None)"
| "no_entry x room _ = True"

lemma join_waits:
  assumes "no_entry x (jr_room_jid st) e"
  shows "\<exists>e' st'. reduce_join x rd st e = (Inr (PollPending e'), st') \<and>
     jr_room_jid st' = jr_room_jid st \<and> jr_self_presence st' = jr_self_presence st"
proof (cases e)
  case (PresenceElement p)
  then show ?thesis
  proof (cases "Option.bind (ps_from p) try_into_full")
    case (Some f)
    then have "ps_from p = Some (JFull f)" by (cases "ps_from p"; cases "the (ps_from p)") auto
    with assms PresenceElement have "f \<noteq> jr_room_jid st" by simp
    then have "to_bare f \<noteq> to_bare (jr_room_jid st) \<or> resource f \<noteq> resource (jr_room_jid st)"
      by (cases f; cases "jr_room_jid st") auto
    with Some PresenceElement show ?thesis by (auto simp: reduce_join_def Let_def)
  qed (simp add: reduce_join_def)
qed (use assms in \<open>auto simp: reduce_join_def\<close>)

lemma join_waits_all:
  assumes "\<forall>e \<in> set es. no_entry x (jr_room_jid st) e"
  shows "\<exists>st'. reduce_all x rd (JoinRequest st) (es @ es') = reduce_all x rd (JoinRequest st') es' \<and>
     jr_room_jid st' = jr_room_jid st \<and> jr_self_presence st' = jr_self_presence st"
  using assms
proof (induction es arbitrary: st)
  case (Cons e es)
  obtain e' st' where st': "reduce_join x rd st e = (Inr (PollPending e'), st')" "jr_room_jid st' = jr_room_jid st"
    "jr_self_presence st' = jr_self_presence st"
    using Cons.prems join_waits [of x st e rd] by auto
  with Cons.prems Cons.IH [of st'] show ?case by simp
qed auto

text \<open>
  Joining a room ends with the first message of the room that has a subject, be it from the room
  or from one of its occupants. If our own presence has not arrived by then, the client panics.
\<close>

theorem early_subject_panics:
  assumes "\<forall>e \<in> set es. no_entry x room e"
    and "ms_from m = Some from" "jid_into_bare from = to_bare room" "\<not> is_mam_message x m" "subject_of x m = Some subject"
  shows "\<exists>v. reduce_all x rd (new_join_room_request room) (es @ [MessageElement m]) = (Some (Inr ()), v) \<and> transform v = None"
  using join_waits_all [of es x "\<lparr>jr_room_jid = room, jr_presences = [], jr_self_presence = None, jr_subject = None,
      jr_message_history = []\<rparr>" rd "[MessageElement m]"] assms
  by (auto simp: new_join_room_request_def reduce_join_def)

text \<open>
  The answer to a request is recognized by its id alone: an IQ result with the id of a pending
  request settles it, whoever sent it.
\<close>

theorem iq_answer_from_anyone:
  assumes "request_reachable x rd s" "rq_pending s = [p]"
    and "fu_value (rq_futures s ! me_state p) = Some (new_iq_request i)"
  shows "\<exists>s'. visit_futures_with_element x rd (IqElement \<lparr>iq_from = j, iq_to = k, iq_id = i, iq_payload = IqResult content\<rparr>) s =
       (Ok None, s') \<and>
     fst (future_poll (me_state p) t s') = Ok (Some (IqResponse content))"
proof -
  have "me_state p < length (rq_futures s)"
    using reachable_ok [OF assms(1)] assms(2) by (simp add: requests_ok_def pending_refs_def)
  then show ?thesis
    using assms by (simp add: element_goes_to_first_taker_aux [OF assms(1)] takes_def after_element_def new_iq_request_def
        reduce_iq_def Let_def future_poll_def get_future_def put_future_def prog_defs)
qed

lemma purge_loop_panics:
  "\<exists>p \<in> set ps. now < me_timestamp p \<Longrightarrow> fst (purge_loop now idx ps s) = Panic ''second time provided was later than self''"
proof (induction ps arbitrary: idx s)
  case (Cons p ps)
  show ?case
  proof (cases "now < me_timestamp p")
    case False
    with Cons.prems have "\<exists>p \<in> set ps. now < me_timestamp p" by auto
    note rest = Cons.IH [OF this]
    have "fst (bindM (purge_loop now idx ps) f s) = Panic ''second time provided was later than self''"
      for f :: "nat list \<Rightarrow> ('a, nat list) request_prog" and idx s
      using rest [of idx s] by (cases "purge_loop now idx ps s") (simp add: bindM_def)
    with False rest show ?thesis
      by (simp add: fail_with_run bindM_def [of "fail_with _ _"] thenM_def bindM_def [of "modify_world _"] modify_world_def)
  qed (simp add: panic_def)
qed simp

text \<open>
  C29. When the timer fires, the requests that are fifteen seconds old or older fail with a timeout and
  the others stay pending. If a request is from a later time, as when the clock was set back, the
  client panics.
\<close>

theorem timeouts_exact:
  assumes "request_reachable x rd s"
  shows "if \<exists>p \<in> set (rq_pending s). now < me_timestamp p
      then fst (purge_expired_futures now s) = Panic ''second time provided was later than self''
      else \<exists>s'. purge_expired_futures now s = (Ok (), s') \<and>
        rq_pending s' = filter (\<lambda>p. now - me_timestamp p < 15 * 10 ^ 9) (rq_pending s) \<and>
        (\<forall>r \<in> set (pending_refs s) - set (pending_refs s'). fu_result (rq_futures s' ! r) = Some (Inl RTimedOut))"
proof (cases "\<exists>p \<in> set (rq_pending s). now < me_timestamp p")
  case True
  with purge_loop_panics [of "rq_pending s" now 0 s] show ?thesis
    by (auto simp: purge_expired_futures_def bindM_def gets_def split: prod.split outcome.split)
next
  case False
  let ?ex = "expired_refs now (rq_pending s)"
  have ok: "requests_ok s" using assms by (rule reachable_ok)
  then have dist: "distinct (pending_refs s)" "distinct ?ex"
    by (simp_all add: requests_ok_def pending_refs_def distinct_map_filter)
  have young: "\<not> expired now p \<longleftrightarrow> now - me_timestamp p < 15 * 10 ^ 9" for p
    by (simp add: expired_def timeout_duration_def not_le)
  from False have "\<forall>p \<in> set (rq_pending s). me_timestamp p \<le> now" by auto
  note run = purge_exact [OF this dist(1)]
  have "r \<in> set ?ex" if "r \<in> set (pending_refs s) - me_state ` {p \<in> set (rq_pending s). \<not> expired now p}" for r
    using that by (auto simp: pending_refs_def)
  then have "\<forall>r \<in> set (pending_refs s) - me_state ` {p \<in> set (rq_pending s). \<not> expired now p}.
      fu_result (fail_all RTimedOut ?ex (rq_futures s) ! r) = Some (Inl RTimedOut)"
    using ok by (auto simp: nth_fail_all [OF dist(2)] failed_future_def requests_ok_def)
  with False run show ?thesis by (simp add: young pending_refs_def [of "_\<lparr>rq_woken := _\<rparr>"])
qed

section \<open>Samples\<close>

definition sample_reader :: "element stanza_reader" where
  "sample_reader =
     \<lparr>rd_iq = (\<lambda>_. Inl []), rd_message = (\<lambda>_. Inl []), rd_presence = (\<lambda>_. Inl []), rd_pubsub_event = Inr,
      rd_stanza_error = (\<lambda>_. Inl []), rd_archived = (\<lambda>_. Inl []), rd_fin = (\<lambda>_. Inr True)\<rparr>"

text \<open>A request for which the task \<open>7\<close> waits, and its answer.\<close>

definition waiting :: "element requests" where
  "waiting =
     \<lparr>rq_futures = [\<lparr>fu_identifier = ''1'', fu_value = Some (new_iq_request ''1''), fu_result = None, fu_waker = Some 7\<rparr>],
      rq_pending = [\<lparr>me_id = 0, me_state = 0, me_timestamp = 0\<rparr>], rq_uuids = 1, rq_woken = []\<rparr>"

definition answer :: "element iq" where
  "answer = \<lparr>iq_from = None, iq_to = None, iq_id = ''1'', iq_payload = IqResult None\<rparr>"

definition answered :: "element requests" where
  "answered =
     \<lparr>rq_futures = [\<lparr>fu_identifier = ''1'', fu_value = Some (new_iq_request ''1''), fu_result = Some (Inr ()), fu_waker = None\<rparr>],
      rq_pending = [], rq_uuids = 1, rq_woken = [7]\<rparr>"

lemmas run_defs = future_new_def send_stanza_with_future_def future_poll_def get_future_def put_future_def prog_defs

lemma waiting_reachable: "request_reachable x rd waiting"
proof -
  let ?sent = "snd (bindM (future_new ''1'' (new_iq_request ''1'')) (send_stanza_with_future 0 None) requests_new)"
  have "waiting = snd (future_poll 0 7 ?sent)" and "0 < length (rq_futures ?sent)"
    by (simp_all add: waiting_def requests_new_def run_defs)
  then show ?thesis
    by (metis request_reachable.initial request_reachable.step request_step.send request_step.poll)
qed

lemma answered_step: "request_step x rd waiting answered"
proof -
  have "answered = snd (visit_futures_with_element x rd (IqElement answer) waiting)"
    by (simp add: element_goes_to_first_taker_aux [OF waiting_reachable])
      (simp add: answered_def waiting_def answer_def takes_def after_element_def reduce_iq_def new_iq_request_def
        waker_list_def Let_def)
  then show ?thesis by (metis request_step.element)
qed

lemma answered_reachable: "request_reachable x rd answered"
  using waiting_reachable answered_step by (rule request_reachable.step)

theorem request_settled_once_witness:
  "0 \<notin> set (pending_refs (snd (cancel_pending_futures answered))) \<and>
     (fu_result (rq_futures (snd (cancel_pending_futures answered)) ! 0) = Some (Inr ()) \<or>
      fu_result (rq_futures (snd (cancel_pending_futures answered)) ! 0) = None)"
  using request_settled_once [OF answered_reachable [of tree_xml sample_reader] request_step.disconnect, of 0]
  by (simp add: answered_def pending_refs_def)

theorem settled_request_woken_witness: "\<exists>ws. rq_woken answered = rq_woken waiting @ ws \<and> 7 \<in> set ws"
  using settled_request_woken [OF waiting_reachable [of tree_xml sample_reader] answered_step, of 0 7]
  by (simp add: waiting_def answered_def pending_refs_def)

theorem element_goes_to_first_taker_witness:
  "visit_futures_with_element tree_xml sample_reader (IqElement (answer\<lparr>iq_id := ''2''\<rparr>)) waiting =
     (Ok (Some (IqElement (answer\<lparr>iq_id := ''2''\<rparr>))), waiting)"
  using element_goes_to_first_taker [OF waiting_reachable [of tree_xml sample_reader], of "IqElement (answer\<lparr>iq_id := ''2''\<rparr>)"]
  by (simp add: waiting_def answer_def takes_def reduce_iq_def new_iq_request_def)

theorem iq_answer_from_anyone_witness:
  "\<exists>s'. visit_futures_with_element tree_xml sample_reader (IqElement (answer\<lparr>iq_from := Some (JBare (BareJid (Some ''mallory'') ''evil.org''))\<rparr>))
       waiting = (Ok None, s') \<and> fst (future_poll 0 7 s') = Ok (Some (IqResponse None))"
  using iq_answer_from_anyone [OF waiting_reachable [of tree_xml sample_reader],
    where i = "''1''" and t = 7 and j = "Some (JBare (BareJid (Some ''mallory'') ''evil.org''))" and k = None and content = None]
  by (simp add: waiting_def answer_def)

theorem timeouts_exact_witness:
  "\<exists>s'. purge_expired_futures (16 * 10 ^ 9) waiting = (Ok (), s') \<and> fu_result (rq_futures s' ! 0) = Some (Inl RTimedOut)"
  using timeouts_exact [OF waiting_reachable [of tree_xml sample_reader], of "16 * 10 ^ 9"]
  by (auto simp: waiting_def pending_refs_def)

definition sample_subject :: "element message_stanza" where
  "sample_subject = message_new\<lparr>ms_from := Some (JFull (FullJid (BareJid (Some ''room'') ''conf.org'') ''mallory'')), ms_type := Groupchat,
     ms_subjects := [([], ''hi'')]\<rparr>"

theorem early_subject_panics_witness:
  "\<exists>v. reduce_all tree_xml sample_reader (new_join_room_request (FullJid (BareJid (Some ''room'') ''conf.org'') ''me''))
      [IqElement answer, MessageElement sample_subject] = (Some (Inr ()), v) \<and> transform v = None"
  using early_subject_panics [of "[IqElement answer]" tree_xml "FullJid (BareJid (Some ''room'') ''conf.org'') ''me''" sample_subject
      "JFull (FullJid (BareJid (Some ''room'') ''conf.org'') ''mallory'')" "''hi''" sample_reader]
  by (simp add: sample_subject_def message_new_def is_mam_message_def subject_of_def tree_xml_def)

theorem archive_query_exact_witness:
  "\<exists>v. reduce_all tree_xml sample_reader (new_mam_request ''1'' ''q'')
      [MessageElement sample_subject, IqElement (answer\<lparr>iq_payload := IqResult (Some (Element ''fin'' ns_mam [] []))\<rparr>)] = (Some (Inr ()), v) \<and>
     transform v = Some (MamResponse [] True)"
  using archive_query_exact [of "[MessageElement sample_subject]" "''1''" "answer\<lparr>iq_payload := IqResult (Some (Element ''fin'' ns_mam [] []))\<rparr>"
      "Element ''fin'' ns_mam [] []" sample_reader True tree_xml "''q''" "[]"]
  by (simp add: answer_def archived_for_def archived_message_of_def sample_reader_def typed_payload_none sample_subject_def message_new_def)

end
