(* ===== verification/MucService.thy ===== *)
theory MucService
  imports RoomConfig Requests
begin

text \<open>
  Rooms on the server: the module for multi-user chats (\<^verbatim>\<open>prose-xmpp/src/mods/muc/mod.rs\<close>,
  \<^verbatim>\<open>stanza/muc/query.rs\<close>) and the services the client uses to create, join, configure and leave
  rooms (\<^verbatim>\<open>infra/rooms/room_management_service.rs\<close>, \<^verbatim>\<open>room_participation_service.rs\<close>,
  \<^verbatim>\<open>room_attributes_service.rs\<close>, \<^verbatim>\<open>infra/xmpp/util/room_occupancy_ext.rs\<close>).

  The server is a parameter: what a request or a join comes back with may depend on everything sent
  before. The state is what was sent.
\<close>

section \<open>The server\<close>

record 'e room_presence =
  rp_unavailable :: bool
  rp_to_occupant :: full_jid
  rp_show :: "presence_show option"
  rp_payloads :: "'e list"

datatype 'e sent = SentIq "'e iq" | SentMsg "'e message_stanza" | SentPresence "'e room_presence"

record 'e muc_state =
  mt_log :: "'e sent list"
  mt_ids :: nat

type_synonym ('e, 'a) muc_prog = "('e muc_state, 'a) program"

record data_form =
  dfo_form_type :: "string option"
  dfo_cancel :: bool
  dfo_fields :: "form_field list"

record 'e muc_server =
  sw_iq :: "'e sent list \<Rightarrow> 'e iq \<Rightarrow> request_error + 'e option"
  sw_join :: "'e sent list \<Rightarrow> full_jid \<Rightarrow>
    (request_error + 'e presence_stanza \<times> 'e presence_stanza list \<times> 'e message_stanza list \<times> string option) option"
  sw_send :: "'e sent list \<Rightarrow> 'e sent \<Rightarrow> request_error + unit"
  sw_new_id :: "nat \<Rightarrow> string"
  sw_form_element :: "data_form \<Rightarrow> 'e"
  sw_form :: "'e \<Rightarrow> request_error + data_form"
  sw_type_name :: "field_type \<Rightarrow> string option"
  sw_item :: "affiliation \<Rightarrow> 'e"
  sw_nick :: "string \<Rightarrow> 'e"
  sw_caps :: 'e
  sw_ping :: 'e
  sw_disco_info_query :: 'e
  sw_disco_info :: "'e \<Rightarrow> request_error + disco_info"
  sw_disco_items_query :: 'e
  sw_disco_items :: "'e \<Rightarrow> request_error + (jid \<times> string option) list"
  sw_client :: "string \<Rightarrow> jabber_client option"
  sw_full_jid :: full_jid
  sw_debug_error :: "stanza_error \<Rightarrow> string"

definition muc_new_id :: "'e muc_server \<Rightarrow> ('e, string) muc_prog" where
  "muc_new_id sw s = (Ok (sw_new_id sw (mt_ids s)), s\<lparr>mt_ids := Suc (mt_ids s)\<rparr>)"

definition request_failed :: "request_error \<Rightarrow> ('s, 'a) program" where
  "request_failed e = throw (RequestErr e)"

definition or_unexpected :: "'a option \<Rightarrow> ('s, 'a) program" where
  "or_unexpected a = (case a of Some v \<Rightarrow> return v | None \<Rightarrow> request_failed RUnexpectedResponse)"

text \<open>What a request or the XMPP library comes back with.\<close>

definition lift_request :: "request_error + 'a \<Rightarrow> ('s, 'a) program" where
  "lift_request r = (case r of Inr a \<Rightarrow> return a | Inl e \<Rightarrow> request_failed e)"

text \<open>A request, sent and awaited, and a stanza that is only sent.\<close>

definition muc_send_iq :: "'e muc_server \<Rightarrow> 'e iq \<Rightarrow> ('e, 'e option) muc_prog" where
  "muc_send_iq sw iq s =
     lift_request (sw_iq sw (mt_log s) iq) (s\<lparr>mt_log := mt_log s @ [SentIq iq]\<rparr>)"

definition muc_send :: "'e muc_server \<Rightarrow> 'e sent \<Rightarrow> ('e, unit) muc_prog" where
  "muc_send sw st s = lift_request (sw_send sw (mt_log s) st) (s\<lparr>mt_log := mt_log s @ [st]\<rparr>)"

definition lift_parsed :: "parse_error + 'a \<Rightarrow> ('s, 'a) program" where
  "lift_parsed r = (case r of Inr a \<Rightarrow> return a | Inl e \<Rightarrow> request_failed (RParseError (show_parse_error e)))"

section \<open>Queries\<close>

definition ns_muc :: string where "ns_muc = ''http://jabber.org/protocol/muc''"
definition ns_muc_owner :: string where "ns_muc_owner = ''http://jabber.org/protocol/muc#owner''"
definition ns_muc_admin :: string where "ns_muc_admin = ''http://jabber.org/protocol/muc#admin''"
definition ns_data_forms :: string where "ns_data_forms = ''jabber:x:data''"
definition ns_muc_roomconfig :: string where "ns_muc_roomconfig = ''http://jabber.org/protocol/muc#roomconfig''"

datatype query_role = OwnerQuery | AdminQuery

fun show_query_role :: "query_role \<Rightarrow> string" where
  "show_query_role OwnerQuery = ns_muc_owner"
| "show_query_role AdminQuery = ns_muc_admin"

definition query_role_from_str :: "string \<Rightarrow> request_error + query_role" where
  "query_role_from_str s =
     (if s = ns_muc_owner then Inr OwnerQuery
      else if s = ns_muc_admin then Inr AdminQuery
      else Inl (RGeneric (''Unknown role '' @ s)))"

record 'e muc_query =
  mq_role :: query_role
  mq_payloads :: "'e list"

definition muc_query_element :: "'e xml \<Rightarrow> 'e muc_query \<Rightarrow> 'e" where
  "muc_query_element x q = el_build x ''query'' (show_query_role (mq_role q)) [] (map Child (mq_payloads q))"

definition is_owner_or_admin :: "'e xml \<Rightarrow> 'e \<Rightarrow> string \<Rightarrow> bool" where
  "is_owner_or_admin x e n \<longleftrightarrow> el_is x e n ns_muc_owner \<or> el_is x e n ns_muc_admin"

definition query_child :: "'e xml \<Rightarrow> 'e \<Rightarrow> request_error + 'e" where
  "query_child x e =
     (if is_owner_or_admin x e ''item'' \<or> el_is x e ''x'' ns_data_forms then Inr e
      else Inl (RGeneric (''Encountered unexpected payload '' @ el_name x e @ '' in muc query.'')))"

definition muc_query_try_from :: "'e xml \<Rightarrow> 'e \<Rightarrow> request_error + 'e muc_query" where
  "muc_query_try_from x e =
     (if \<not> is_owner_or_admin x e ''query'' then
        Inl (RParseError (''Expected element with name query. Got '' @ el_name x e @ '' and '' @ el_ns x e @ '' instead.''))
      else
        bind_res (collect_results (map (query_child x) (el_children x e))) (\<lambda>ps.
        bind_res (query_role_from_str (el_ns x e)) (\<lambda>r. Inr \<lparr>mq_role = r, mq_payloads = ps\<rparr>)))"

definition owner_destroy_try_from :: "'e xml \<Rightarrow> 'e \<Rightarrow> parse_error + destroy" where
  "owner_destroy_try_from x e =
     bind_res (expect_is x e ''destroy'' ns_muc_owner) (\<lambda>_.
     bind_res (traverse_opt (parse_bare_attr x) (el_attr x e ''jid'')) (\<lambda>j.
     Inr \<lparr>ds_jid = j, ds_reason = map_option (el_text x) (get_child x e ''reason'' ns_muc_owner)\<rparr>))"

definition owner_destroy_element :: "'e xml \<Rightarrow> destroy \<Rightarrow> 'e" where
  "owner_destroy_element x d =
     el_build x ''destroy'' ns_muc_owner [(''jid'', map_option show_bare (ds_jid d))]
       (case ds_reason d of Some r \<Rightarrow> [Child (el_build x ''reason'' ns_muc_owner [] [Text r])] | None \<Rightarrow> [])"

definition muc_query_new :: "query_role \<Rightarrow> 'e muc_query" where
  "muc_query_new r = \<lparr>mq_role = r, mq_payloads = []\<rparr>"

definition with_query_payload :: "'e \<Rightarrow> 'e muc_query \<Rightarrow> 'e muc_query" where
  "with_query_payload e q = q\<lparr>mq_payloads := mq_payloads q @ [e]\<rparr>"

record muc_query_user =
  qu_jid :: jid
  qu_affiliation :: affiliation
  qu_nick :: "string option"

definition query_user_try_from :: "'e xml \<Rightarrow> 'e \<Rightarrow> parse_error + muc_query_user" where
  "query_user_try_from x e =
     (if \<not> is_owner_or_admin x e ''item'' then
        Inl (GenericParseError (''Expected element with name item. Got '' @ el_name x e @ '' and '' @ el_ns x e @ '' instead.''))
      else
        bind_res (attr_req x e ''jid'') (\<lambda>j.
        bind_res (parse_jid_attr x j) (\<lambda>j.
        bind_res (attr_req x e ''affiliation'') (\<lambda>a.
        bind_res (parse_affiliation x a) (\<lambda>a.
        Inr \<lparr>qu_jid = j, qu_affiliation = a, qu_nick = el_attr x e ''nick''\<rparr>)))))"

section \<open>The module for multi-user chats\<close>

definition iq_get :: "string \<Rightarrow> jid \<Rightarrow> 'e \<Rightarrow> 'e iq" where
  "iq_get i to p = \<lparr>iq_from = None, iq_to = Some to, iq_id = i, iq_payload = IqGet p\<rparr>"

definition iq_set :: "string \<Rightarrow> jid \<Rightarrow> 'e \<Rightarrow> 'e iq" where
  "iq_set i to p = \<lparr>iq_from = None, iq_to = Some to, iq_id = i, iq_payload = IqSet p\<rparr>"

record 'e room_occupancy =
  oc_user :: muc_user
  oc_self_presence :: "'e presence_stanza"
  oc_presences :: "'e presence_stanza list"
  oc_subject :: "string option"
  oc_message_history :: "'e message_stanza list"

definition join_presence :: "'e xml \<Rightarrow> 'e muc_server \<Rightarrow> full_jid \<Rightarrow> string option \<Rightarrow> string option \<Rightarrow> presence_show option \<Rightarrow>
    'e option \<Rightarrow> 'e room_presence" where
  "join_presence x sw room_jid password nick sh caps =
     \<lparr>rp_unavailable = False, rp_to_occupant = room_jid, rp_show = sh,
      rp_payloads =
        [el_build x ''x'' ns_muc []
          ((case password of Some p \<Rightarrow> [Child (el_build x ''password'' ns_muc [] [Text p])] | None \<Rightarrow> []) @
           [Child (el_build x ''history'' ns_muc [(''maxstanzas'', Some ''0'')] [])])] @
        (case caps of Some c \<Rightarrow> [c] | None \<Rightarrow> []) @ (case nick of Some n \<Rightarrow> [sw_nick sw n] | None \<Rightarrow> [])\<rparr>"

text \<open>The presence and what the request for joining makes of the answers; it may panic.\<close>

definition muc_send_join :: "'e muc_server \<Rightarrow> 'e room_presence \<Rightarrow>
    ('e, 'e presence_stanza \<times> 'e presence_stanza list \<times> 'e message_stanza list \<times> string option) muc_prog" where
  "muc_send_join sw p s =
     (case sw_join sw (mt_log s) (rp_to_occupant p) of
        Some r \<Rightarrow> lift_request r
      | None \<Rightarrow> panic (''Internal error. Missing response in JoinRoomState for room '' @ show_full (rp_to_occupant p) @ ''.'')) (s\<lparr>mt_log := mt_log s @ [SentPresence p]\<rparr>)"

definition send_presence_to_room :: "'e xml \<Rightarrow> 'e muc_server \<Rightarrow> full_jid \<Rightarrow> string option \<Rightarrow> string option \<Rightarrow>
    presence_show option \<Rightarrow> 'e option \<Rightarrow> ('e, 'e room_occupancy) muc_prog" where
  "send_presence_to_room x sw room_jid password nick sh caps =
     bindM (muc_send_join sw (join_presence x sw room_jid password nick sh caps))
       (\<lambda>(self_presence, presences, history, subject).
        case rev (ps_payloads self_presence) of
          [] \<Rightarrow> request_failed RUnexpectedResponse
        | p # ps \<Rightarrow>
            bindM (lift_parsed (muc_user_try_from x p)) (\<lambda>user.
            return \<lparr>oc_user = user, oc_self_presence = self_presence\<lparr>ps_payloads := rev ps\<rparr>, oc_presences = presences,
              oc_subject = subject, oc_message_history = history\<rparr>))"

definition muc_exit_room :: "'e muc_server \<Rightarrow> full_jid \<Rightarrow> ('e, unit) muc_prog" where
  "muc_exit_room sw room_jid =
     muc_send sw (SentPresence \<lparr>rp_unavailable = True, rp_to_occupant = room_jid, rp_show = None, rp_payloads = []\<rparr>)"

fun show_form_error :: "form_error \<Rightarrow> string" where
  "show_form_error (MissingRequiredFields vars) = ''Missing required fields: '' @ join_with '', '' vars"
| "show_form_error (MissingRequiredValue var) = ''Missing required value for field '' @ var"
| "show_form_error (TypeMismatch var expected actual) =
     ''Type mismatch in field '' @ var @ ''. Expected type '' @ expected @ '' found type '' @ actual @ ''.''"
| "show_form_error (InvalidValue var v) =
     ''Invalid value for field '' @ var @ ''. Field does not contain option '' @ v @ ''.''"
| "show_form_error (FormPanic msg) = msg"

datatype config_response = SubmitForm data_form | CancelForm

definition cancel_form :: data_form where
  "cancel_form = \<lparr>dfo_form_type = None, dfo_cancel = True, dfo_fields = []\<rparr>"

definition configure_room :: "'e xml \<Rightarrow> 'e muc_server \<Rightarrow> bare_jid \<Rightarrow> (data_form \<Rightarrow> form_error + config_response) \<Rightarrow> ('e, unit) muc_prog" where
  "configure_room x sw room_jid handler =
     bindM (muc_new_id sw) (\<lambda>i.
     bindM (muc_send_iq sw (iq_get i (JBare room_jid) (muc_query_element x \<lparr>mq_role = OwnerQuery, mq_payloads = []\<rparr>))) (\<lambda>response.
     bindM (or_unexpected response) (\<lambda>e.
     bindM (lift_request (muc_query_try_from x e)) (\<lambda>q.
     bindM (or_unexpected (if mq_payloads q = [] then None else Some (last (mq_payloads q)))) (\<lambda>p.
     bindM (lift_request (sw_form sw p)) (\<lambda>form.
     bindM (case handler form of
              Inr r \<Rightarrow> return r
            | Inl (FormPanic msg) \<Rightarrow> panic msg
            | Inl err \<Rightarrow> request_failed (RGeneric (''Handler returned with error '' @ show_form_error err))) (\<lambda>r.
     bindM (muc_new_id sw) (\<lambda>j.
     thenM (muc_send_iq sw (iq_set j (JBare room_jid)
       (muc_query_element x \<lparr>mq_role = OwnerQuery,
         mq_payloads = [sw_form_element sw (case r of SubmitForm f \<Rightarrow> f | CancelForm \<Rightarrow> cancel_form)]\<rparr>)))
     (return ())))))))))"

definition create_reserved_room :: "'e xml \<Rightarrow> 'e muc_server \<Rightarrow> full_jid \<Rightarrow> string option \<Rightarrow> presence_show option \<Rightarrow>
    'e option \<Rightarrow> (data_form \<Rightarrow> form_error + config_response) \<Rightarrow> ('e, 'e room_occupancy) muc_prog" where
  "create_reserved_room x sw room_jid nick sh caps handler =
     bindM (send_presence_to_room x sw room_jid None nick sh caps) (\<lambda>occupancy.
     if RoomHasBeenCreated \<notin> set (mu_status (oc_user occupancy)) then return occupancy
     else thenM (configure_room x sw (to_bare room_jid) handler) (return occupancy))"

definition create_instant_room :: "'e xml \<Rightarrow> 'e muc_server \<Rightarrow> full_jid \<Rightarrow> string option \<Rightarrow> presence_show option \<Rightarrow>
    'e option \<Rightarrow> ('e, 'e room_occupancy) muc_prog" where
  "create_instant_room x sw room_jid nick sh caps =
     bindM (send_presence_to_room x sw room_jid None nick sh caps) (\<lambda>occupancy.
     if RoomHasBeenCreated \<notin> set (mu_status (oc_user occupancy)) then return occupancy
     else
       bindM (muc_new_id sw) (\<lambda>i.
       thenM (muc_send_iq sw (iq_set i (JBare (to_bare room_jid)) (muc_query_element x \<lparr>mq_role = OwnerQuery,
         mq_payloads = [el_build x ''x'' ns_data_forms [(''type'', Some ''submit'')] []]\<rparr>)))
       (return occupancy)))"

definition muc_destroy_room :: "'e xml \<Rightarrow> 'e muc_server \<Rightarrow> bare_jid \<Rightarrow> bare_jid option \<Rightarrow> ('e, unit) muc_prog" where
  "muc_destroy_room x sw room_jid alternate =
     bindM (muc_new_id sw) (\<lambda>i.
     thenM (muc_send_iq sw (iq_set i (JBare room_jid) (muc_query_element x
       (with_query_payload (owner_destroy_element x \<lparr>ds_jid = alternate, ds_reason = None\<rparr>) (muc_query_new OwnerQuery))))) (return ()))"

definition request_users :: "'e xml \<Rightarrow> 'e muc_server \<Rightarrow> bare_jid \<Rightarrow> affiliation \<Rightarrow> ('e, muc_query_user list) muc_prog" where
  "request_users x sw room_jid a =
     bindM (muc_new_id sw) (\<lambda>i.
     bindM (muc_send_iq sw (iq_get i (JBare room_jid)
       (muc_query_element x \<lparr>mq_role = AdminQuery, mq_payloads = [sw_item sw a]\<rparr>))) (\<lambda>response.
     bindM (or_unexpected response) (\<lambda>e.
     bindM (lift_request (muc_query_try_from x e)) (\<lambda>q.
     lift_parsed (collect_results (map (query_user_try_from x) (filter (\<lambda>p. el_is x p ''item'' ns_muc_admin) (mq_payloads q))))))))"

definition affiliation_query :: "'e xml \<Rightarrow> bare_jid \<Rightarrow> affiliation \<Rightarrow> 'e" where
  "affiliation_query x j a =
     muc_query_element x \<lparr>mq_role = AdminQuery,
       mq_payloads = [el_build x ''item'' ns_muc_admin
         [(''jid'', Some (show_bare j)), (''affiliation'', Some (show_xmpp_affiliation a))] []]\<rparr>"

definition update_user_affiliations :: "'e xml \<Rightarrow> 'e muc_server \<Rightarrow> bare_jid \<Rightarrow> (bare_jid \<times> affiliation) list \<Rightarrow> ('e, unit) muc_prog" where
  "update_user_affiliations x sw room_jid users =
     for_each (\<lambda>(j, a).
       bindM (muc_new_id sw) (\<lambda>i.
       thenM (muc_send_iq sw (iq_set i (JBare room_jid) (affiliation_query x j a))) (return ()))) users"

definition send_mediated_invite :: "'e xml \<Rightarrow> 'e muc_server \<Rightarrow> bare_jid \<Rightarrow> mediated_invite \<Rightarrow> ('e, unit) muc_prog" where
  "send_mediated_invite x sw room_jid invite =
     muc_send sw (SentMsg (push_payload (mediated_invite_element x invite) (set_to (JBare room_jid) message_new)))"

definition send_direct_invite :: "'e xml \<Rightarrow> 'e muc_server \<Rightarrow> jid \<Rightarrow> direct_invite \<Rightarrow> ('e, unit) muc_prog" where
  "send_direct_invite x sw to invite =
     muc_send sw (SentMsg (push_payload (direct_invite_element x invite) (set_to to message_new)))"

definition set_room_subject :: "'e muc_server \<Rightarrow> bare_jid \<Rightarrow> string option \<Rightarrow> ('e, unit) muc_prog" where
  "set_room_subject sw room_jid subject =
     bindM (muc_new_id sw) (\<lambda>i.
     muc_send sw (SentMsg (set_subject (case subject of Some s \<Rightarrow> s | None \<Rightarrow> [])
       (set_to (JBare room_jid) (set_type Groupchat (set_id i message_new))))))"

definition muc_load_public_rooms :: "'e muc_server \<Rightarrow> bare_jid \<Rightarrow> ('e, (jid \<times> string option) list) muc_prog" where
  "muc_load_public_rooms sw service =
     bindM (muc_new_id sw) (\<lambda>i.
     bindM (muc_send_iq sw (iq_get i (JBare service) (sw_disco_items_query sw))) (\<lambda>response.
     bindM (or_unexpected response) (\<lambda>e. lift_request (sw_disco_items sw e))))"

definition enter_room :: "'e xml \<Rightarrow> 'e muc_server \<Rightarrow> full_jid \<Rightarrow> string option \<Rightarrow> string option \<Rightarrow> presence_show option \<Rightarrow>
    'e option \<Rightarrow> ('e, 'e room_occupancy) muc_prog" where
  "enter_room x sw room_jid password nick sh caps = send_presence_to_room x sw room_jid password nick sh caps"

text \<open>The queries of \<^verbatim>\<open>mods/caps.rs\<close> and \<^verbatim>\<open>mods/ping.rs\<close> that the services use.\<close>

definition query_disco_info :: "'e muc_server \<Rightarrow> jid \<Rightarrow> ('e, disco_info) muc_prog" where
  "query_disco_info sw to =
     bindM (muc_new_id sw) (\<lambda>i.
     bindM (muc_send_iq sw (iq_get i to (sw_disco_info_query sw))) (\<lambda>response.
     bindM (or_unexpected response) (\<lambda>e. lift_request (sw_disco_info sw e))))"

definition send_ping :: "'e muc_server \<Rightarrow> jid \<Rightarrow> ('e, unit) muc_prog" where
  "send_ping sw to =
     bindM (muc_new_id sw) (\<lambda>i.
     thenM (muc_send_iq sw ((iq_get i to (sw_ping sw))\<lparr>iq_from := Some (JFull (sw_full_jid sw))\<rparr>)) (return ()))"

text \<open>Invitations in received messages; one without invites in it is ignored.\<close>

definition muc_handle_message_stanza :: "'e xml \<Rightarrow> 'e message_stanza \<Rightarrow> 'e xmpp_event list" where
  "muc_handle_message_stanza x m =
     (case ms_from m of
        None \<Rightarrow> []
      | Some from_jid \<Rightarrow>
          if ms_type m \<noteq> Normal then []
          else
            (case direct_invite_of x m of Some i \<Rightarrow> [XDirectInvite from_jid i] | None \<Rightarrow> []) @
            (case mediated_invite_of x m of
               Some i \<Rightarrow> if md_invites i \<noteq> [] then [XMediatedInvite from_jid i] else []
             | None \<Rightarrow> []))"

section \<open>Occupants of a joined room\<close>

definition participant_of :: "'e xml \<Rightarrow> 'e muc_server \<Rightarrow> 'e presence_stanza \<Rightarrow> full_jid \<Rightarrow> muc_user \<Rightarrow> muc_item \<Rightarrow>
    room_session_participant" where
  "participant_of x sw p from_jid user item =
     (let real = map_option (\<lambda>j. UserId (to_bare j)) (mi_jid item)
      in \<lparr>sp_id = OccupantId from_jid, sp_is_self = SelfPresence \<in> set (mu_status user),
          sp_anon_id = presence_anon_occupant_id x p, sp_real_id = real,
          sp_affiliation = room_affiliation_from (mi_affiliation item),
          sp_presence = to_domain_presence x (sw_client sw) p (POccupant (OccupantId from_jid)) real\<rparr>)"

definition session_participant_try_from :: "'e xml \<Rightarrow> 'e muc_server \<Rightarrow> 'e presence_stanza \<Rightarrow> string + room_session_participant" where
  "session_participant_try_from x sw p =
     (case ps_from p of
        Some (JFull from_jid) \<Rightarrow>
          (case presence_payload x ''x'' ns_muc_user p of
             None \<Rightarrow> Inl (''Missing '' @ [CHR 0x27] @ ''x'' @ [CHR 0x27] @ '' element in MUC presence'')
           | Some e \<Rightarrow>
               (case muc_user_try_from x e of
                  Inl err \<Rightarrow> Inl (show_parse_error err)
                | Inr user \<Rightarrow>
                    (case mu_items user of
                       [] \<Rightarrow> Inl (''Missing '' @ [CHR 0x27] @ ''item'' @ [CHR 0x27] @ '' element in MUC presence'')
                     | item # _ \<Rightarrow> Inr (participant_of x sw p from_jid user item))))
      | _ \<Rightarrow> Inl ''Expected FullJid in MUC presence.'')"

definition self_participant :: "'e xml \<Rightarrow> 'e muc_server \<Rightarrow> 'e presence_stanza \<Rightarrow> muc_user \<Rightarrow> string + room_session_participant" where
  "self_participant x sw p user =
     (case ps_from p of
        Some (JFull from_jid) \<Rightarrow>
          (case mu_items user of
             [] \<Rightarrow> Inl (''Missing '' @ [CHR 0x27] @ ''item'' @ [CHR 0x27] @ '' element in MUC user'')
           | item # _ \<Rightarrow> Inr (participant_of x sw p from_jid user item))
      | _ \<Rightarrow> Inl ''Expected FullJid in MUC presence.'')"

text \<open>Who cannot be read is left out.\<close>

definition occupancy_participants :: "'e xml \<Rightarrow> 'e muc_server \<Rightarrow> 'e room_occupancy \<Rightarrow> room_session_participant list" where
  "occupancy_participants x sw oc =
     List.map_filter (\<lambda>p. ok_of (session_participant_try_from x sw p)) (oc_presences oc) @
     List.map_filter ok_of [self_participant x sw (oc_self_presence oc) (oc_user oc)]"

section \<open>The services\<close>

fun show_request_error :: "(stanza_error \<Rightarrow> string) \<Rightarrow> request_error \<Rightarrow> string" where
  "show_request_error dbg RTimedOut = ''Request Timeout''"
| "show_request_error dbg RDisconnected = ''Client is disconnected''"
| "show_request_error dbg RUnexpectedResponse = ''Request Error: Unexpected server response''"
| "show_request_error dbg (RXmpp e) = ''XMPP Error: '' @ dbg e"
| "show_request_error dbg (RGeneric msg) = ''Request error: '' @ msg"
| "show_request_error dbg (RParseError msg) = msg"
| "show_request_error dbg (RFromElementError msg) = msg"

text \<open>A call whose error is an \<^verbatim>\<open>anyhow::Error\<close>: the caller only gets to see its text.\<close>

definition as_anyhow :: "'e muc_server \<Rightarrow> ('e, 'a) muc_prog \<Rightarrow> ('e, 'a) muc_prog" where
  "as_anyhow sw m s =
     (case m s of
        (Err (RequestErr e), s') \<Rightarrow> (Err (Anyhow (show_request_error (sw_debug_error sw) e)), s')
      | r \<Rightarrow> r)"

definition service_load_public_rooms :: "'e muc_server \<Rightarrow> bare_jid \<Rightarrow> ('e, (muc_id \<times> string option) list) muc_prog" where
  "service_load_public_rooms sw service =
     bindM (as_anyhow sw (muc_load_public_rooms sw service)) (\<lambda>rooms.
     return (map (\<lambda>(j, n). (MucId (jid_into_bare j), n)) rooms))"

definition load_room_info :: "'e muc_server \<Rightarrow> muc_id \<Rightarrow> ('e, muc_room_info) muc_prog" where
  "load_room_info sw room =
     bindM (query_disco_info sw (JBare (muc_jid room))) (\<lambda>di.
     case room_info_try_from di of
       Inr info \<Rightarrow> return info
     | Inl err \<Rightarrow> throw (ParseErr (show_parse_error err)))"

definition session_members :: "room_affiliation \<Rightarrow> muc_query_user list \<Rightarrow> room_session_member list" where
  "session_members a users =
     map (\<lambda>u. \<lparr>sm_id = UserId (jid_into_bare (qu_jid u)), sm_affiliation = a\<rparr>)
       (filter (\<lambda>u. node (jid_into_bare (qu_jid u)) \<noteq> None) users)"

text \<open>The members by affiliation; a list the server does not hand out counts as empty.\<close>

definition load_room_members :: "'e xml \<Rightarrow> 'e muc_server \<Rightarrow> muc_id \<Rightarrow> ('e, room_session_member list) muc_prog" where
  "load_room_members x sw room =
     bindM (mapM (\<lambda>(xmpp_affiliation, domain_affiliation).
         bindM (attempt (request_users x sw (muc_jid room) xmpp_affiliation)) (\<lambda>r.
         return (session_members domain_affiliation (case r of Inr users \<Rightarrow> users | Inl _ \<Rightarrow> []))))
       [(AffOwner, Owner), (AffMember, Member), (AffAdmin, Admin)]) (\<lambda>ms.
     return (concat ms))"

definition submit_spec :: "'e muc_server \<Rightarrow> room_spec \<Rightarrow> string \<Rightarrow> data_form \<Rightarrow> form_error + config_response" where
  "submit_spec sw spec name form =
     bind_res (populate_form (sw_type_name sw) spec name (dfo_fields form)) (\<lambda>fs.
     Inr (SubmitForm \<lparr>dfo_form_type = Some ns_muc_roomconfig, dfo_cancel = False, dfo_fields = fs\<rparr>))"

definition service_create_or_join_room :: "'e xml \<Rightarrow> 'e muc_server \<Rightarrow> occupant_id \<Rightarrow> string \<Rightarrow> string \<Rightarrow> room_spec \<Rightarrow> availability \<Rightarrow>
    ('e, room_session_info) muc_prog" where
  "service_create_or_join_room x sw occ name nick spec av =
     bindM (lift_any (presence_show_from av)) (\<lambda>sh.
     bindM (create_reserved_room x sw (occupant_jid occ) (Some nick) (Some sh) (Some (sw_caps sw)) (submit_spec sw spec name)) (\<lambda>occupancy.
     (let room = MucId (to_bare (occupant_jid occ));
          created = RoomHasBeenCreated \<in> set (mu_status (oc_user occupancy))
      in bindM (load_room_info sw room) (\<lambda>info.
         case validate_against spec info of
           Inl failures \<Rightarrow>
             thenM (if created then thenM (attempt (muc_destroy_room x sw (muc_jid room) None)) (return ()) else return ())
               (throw (RoomValidationError (show_validation_error spec failures)))
         | Inr _ \<Rightarrow>
             bindM (load_room_members x sw room) (\<lambda>members.
             return \<lparr>si_room_id = room, si_config = room_config_from info (spec_room_type spec),
               si_topic = oc_subject occupancy, si_user_nickname = resource (occupant_jid occ), si_members = members,
               si_participants = occupancy_participants x sw occupancy, si_room_has_been_created = created\<rparr>)))))"

definition load_room_config :: "'e muc_server \<Rightarrow> muc_id \<Rightarrow> ('e, room_config) muc_prog" where
  "load_room_config sw room =
     bindM (load_room_info sw room) (\<lambda>info. return (room_config_from info (room_type_of info)))"

definition service_join_room :: "'e xml \<Rightarrow> 'e muc_server \<Rightarrow> occupant_id \<Rightarrow> string option \<Rightarrow> string \<Rightarrow> availability \<Rightarrow>
    ('e, room_session_info) muc_prog" where
  "service_join_room x sw occ password nick av =
     bindM (lift_any (presence_show_from av)) (\<lambda>sh.
     bindM (enter_room x sw (occupant_jid occ) password (Some nick) (Some sh) (Some (sw_caps sw))) (\<lambda>occupancy.
     if RoomHasBeenCreated \<in> set (mu_status (oc_user occupancy)) then
       request_failed (RXmpp \<lparr>se_condition = ItemNotFound, se_alternate_address = None\<rparr>)
     else
       (let room = MucId (to_bare (occupant_jid occ))
        in bindM (load_room_config sw room) (\<lambda>config.
           bindM (load_room_members x sw room) (\<lambda>members.
           return \<lparr>si_room_id = room, si_config = config, si_topic = oc_subject occupancy,
             si_user_nickname = resource (occupant_jid occ), si_members = members,
             si_participants = occupancy_participants x sw occupancy, si_room_has_been_created = False\<rparr>)))))"

definition service_reconfigure_room :: "'e xml \<Rightarrow> 'e muc_server \<Rightarrow> muc_id \<Rightarrow> room_spec \<Rightarrow> string \<Rightarrow> ('e, unit) muc_prog" where
  "service_reconfigure_room x sw room spec new_name =
     thenM (configure_room x sw (muc_jid room) (submit_spec sw spec new_name))
     (bindM (load_room_info sw room) (\<lambda>info.
      case validate_against spec info of
        Inl failures \<Rightarrow> throw (RoomValidationError (show_validation_error spec failures))
      | Inr _ \<Rightarrow> return ()))"

definition service_exit_room :: "'e muc_server \<Rightarrow> occupant_id \<Rightarrow> ('e, unit) muc_prog" where
  "service_exit_room sw occ = muc_exit_room sw (occupant_jid occ)"

definition set_room_owners :: "'e xml \<Rightarrow> 'e muc_server \<Rightarrow> muc_id \<Rightarrow> user_id list \<Rightarrow> ('e, unit) muc_prog" where
  "set_room_owners x sw room users =
     as_anyhow sw (update_user_affiliations x sw (muc_jid room) (map (\<lambda>u. (user_jid u, AffOwner)) users))"

definition send_self_ping :: "'e muc_server \<Rightarrow> occupant_id \<Rightarrow> ('e, unit) muc_prog" where
  "send_self_ping sw occ = send_ping sw (JFull (occupant_jid occ))"

definition service_destroy_room :: "'e xml \<Rightarrow> 'e muc_server \<Rightarrow> muc_id \<Rightarrow> muc_id option \<Rightarrow> ('e, unit) muc_prog" where
  "service_destroy_room x sw room alternate = muc_destroy_room x sw (muc_jid room) (map_option muc_jid alternate)"

definition service_invite_users_to_room :: "'e xml \<Rightarrow> 'e muc_server \<Rightarrow> muc_id \<Rightarrow> user_id list \<Rightarrow> ('e, unit) muc_prog" where
  "service_invite_users_to_room x sw room users =
     for_each (\<lambda>u. as_anyhow sw (send_mediated_invite x sw (muc_jid room)
       \<lparr>md_invites = [\<lparr>iv_from = None, iv_to = Some (JBare (user_jid u)), iv_reason = None\<rparr>], md_password = None\<rparr>)) users"

definition service_grant_membership :: "'e xml \<Rightarrow> 'e muc_server \<Rightarrow> muc_id \<Rightarrow> user_id \<Rightarrow> ('e, unit) muc_prog" where
  "service_grant_membership x sw room user =
     as_anyhow sw (update_user_affiliations x sw (muc_jid room) [(user_jid user, AffMember)])"

definition service_set_topic :: "'e muc_server \<Rightarrow> muc_id \<Rightarrow> string option \<Rightarrow> ('e, unit) muc_prog" where
  "service_set_topic sw room subject = as_anyhow sw (set_room_subject sw (muc_jid room) subject)"

definition service_set_name :: "'e xml \<Rightarrow> 'e muc_server \<Rightarrow> muc_id \<Rightarrow> string \<Rightarrow> ('e, unit) muc_prog" where
  "service_set_name x sw room name =
     as_anyhow sw (configure_room x sw (muc_jid room) (\<lambda>form.
       bind_res (populate_form_fields (sw_type_name sw)
           (form_config_new [required_value cfg_room_name (VTextSingle name)]) (dfo_fields form)) (\<lambda>fs.
       Inr (SubmitForm \<lparr>dfo_form_type = Some ns_muc_roomconfig, dfo_cancel = False, dfo_fields = fs\<rparr>))))"

section \<open>What the services send\<close>

text \<open>
  \<open>behaves P Q m\<close>: everything \<open>m\<close> sends satisfies \<open>P\<close> and every error it ends with satisfies \<open>Q\<close>.
\<close>

definition behaves :: "('e sent \<Rightarrow> bool) \<Rightarrow> (room_error \<Rightarrow> bool) \<Rightarrow> ('e, 'a) muc_prog \<Rightarrow> bool" where
  "behaves P Q m \<longleftrightarrow>
     (\<forall>s. (\<exists>zs. mt_log (snd (m s)) = mt_log s @ zs \<and> list_all P zs) \<and> (\<forall>e. fst (m s) = Err e \<longrightarrow> Q e))"

named_theorems sends_intro

lemma behavesD:
  "behaves P Q m \<Longrightarrow> m s = (r, s') \<Longrightarrow> \<exists>zs. mt_log s' = mt_log s @ zs \<and> list_all P zs"
  "behaves P Q m \<Longrightarrow> m s = (Err e, s') \<Longrightarrow> Q e"
  by (metis behaves_def snd_conv, metis behaves_def fst_conv)

lemma behaves_bind [sends_intro]:
  assumes m: "behaves P Q m" and f: "\<And>a. behaves P Q (f a)"
  shows "behaves P Q (bindM m f)"
  unfolding behaves_def
proof
  fix s
  obtain r s1 where run: "m s = (r, s1)" by fastforce
  obtain zs where zs: "mt_log s1 = mt_log s @ zs" "list_all P zs" using behavesD(1) [OF m run] by blast
  show "(\<exists>zs. mt_log (snd (bindM m f s)) = mt_log s @ zs \<and> list_all P zs) \<and> (\<forall>e. fst (bindM m f s) = Err e \<longrightarrow> Q e)"
  proof (cases r)
    case (Ok a)
    obtain ys where "mt_log (snd (f a s1)) = mt_log s1 @ ys" "list_all P ys" and "\<forall>e. fst (f a s1) = Err e \<longrightarrow> Q e"
      using f [of a] unfolding behaves_def by blast
    with zs run Ok show ?thesis by (auto simp: bindM_def)
  next
    case (Err e)
    with zs run behavesD(2) [OF m, of s e s1] show ?thesis by (auto simp: bindM_def)
  qed (use zs run in \<open>auto simp: bindM_def\<close>)
qed

lemma behaves_then [sends_intro]: "behaves P Q m \<Longrightarrow> behaves P Q n \<Longrightarrow> behaves P Q (thenM m n)"
  by (simp add: thenM_def behaves_bind)

lemma behaves_pure [sends_intro]:
  "behaves P Q (return a)" "Q e \<Longrightarrow> behaves P Q (throw e)" "behaves P Q (panic msg)"
  by (simp_all add: behaves_def prog_defs)

lemma behaves_attempt [sends_intro]: "behaves P (\<lambda>_. True) m \<Longrightarrow> behaves P Q (attempt m)"
  unfolding behaves_def
proof
  fix s
  assume m: "\<forall>s. (\<exists>zs. mt_log (snd (m s)) = mt_log s @ zs \<and> list_all P zs) \<and> (\<forall>e. fst (m s) = Err e \<longrightarrow> True)"
  obtain r s' where run: "m s = (r, s')" by fastforce
  have "snd (attempt m s) = s'" and "fst (attempt m s) \<noteq> Err e" for e
    using run by (cases r; simp add: attempt_def)+
  with m [rule_format, of s] run show "(\<exists>zs. mt_log (snd (attempt m s)) = mt_log s @ zs \<and> list_all P zs) \<and>
      (\<forall>e. fst (attempt m s) = Err e \<longrightarrow> Q e)" by simp
qed

lemma behaves_mapM [sends_intro]: "(\<And>y. behaves P Q (f y)) \<Longrightarrow> behaves P Q (mapM f ys)"
  by (induction ys) (auto intro: sends_intro)

lemma behaves_lift [sends_intro]:
  "(\<And>e. Q (RequestErr e)) \<Longrightarrow> behaves P Q (lift_request r)"
  "(\<And>e. Q (RequestErr e)) \<Longrightarrow> behaves P Q (lift_parsed r')"
  "(\<And>e. Q (RequestErr e)) \<Longrightarrow> behaves P Q (or_unexpected a)"
  "(\<And>e. Q (RequestErr e)) \<Longrightarrow> behaves P Q (request_failed err)"
  by (auto simp: behaves_def lift_request_def lift_parsed_def or_unexpected_def request_failed_def prog_defs
      split: sum.split option.split)

lemma behaves_new_id [sends_intro]: "behaves P Q (muc_new_id sw)"
  by (simp add: behaves_def muc_new_id_def)

lemma behaves_send [sends_intro]:
  "P (SentIq iq) \<Longrightarrow> (\<And>e. Q (RequestErr e)) \<Longrightarrow> behaves P Q (muc_send_iq sw iq)"
  "P (SentPresence p) \<Longrightarrow> (\<And>e. Q (RequestErr e)) \<Longrightarrow> behaves P Q (muc_send_join sw p)"
  by (auto simp: behaves_def muc_send_iq_def muc_send_join_def lift_request_def request_failed_def prog_defs
      split: sum.split option.split)

text \<open>The room that a stanza asks the server to destroy.\<close>

definition destroy_target :: "'e xml \<Rightarrow> 'e sent \<Rightarrow> jid option" where
  "destroy_target x st =
     (case st of
        SentIq iq \<Rightarrow>
          (case iq_payload iq of
             IqSet e \<Rightarrow> if get_child x e ''destroy'' ns_muc_owner \<noteq> None then iq_to iq else None
           | _ \<Rightarrow> None)
      | _ \<Rightarrow> None)"

definition not_validation :: "room_error \<Rightarrow> bool" where
  "not_validation e \<longleftrightarrow> (case e of RoomValidationError _ \<Rightarrow> False | _ \<Rightarrow> True)"

abbreviation harmless :: "'e xml \<Rightarrow> ('e, 'a) muc_prog \<Rightarrow> bool" where
  "harmless x \<equiv> behaves (\<lambda>st. destroy_target x st = None) not_validation"

lemma not_validation_simps [simp]: "not_validation (RequestErr e)" "not_validation (ParseErr msg)" "not_validation (Anyhow msg)"
  by (simp_all add: not_validation_def)

lemma destroy_target_simps [simp]:
  "destroy_target x (SentPresence p) = None" "destroy_target x (SentIq (iq_get i to e)) = None"
  by (simp_all add: destroy_target_def iq_get_def)

lemma configure_harmless [sends_intro]:
  assumes "xml_ok x" "\<And>f. el_name x (sw_form_element sw f) = ''x''"
  shows "harmless x (configure_room x sw room_jid handler)"
proof -
  have "el_name x (sw_form_element sw f) \<noteq> ''destroy''" for f using assms(2) by simp
  then have form: "destroy_target x (SentIq (iq_set j to (muc_query_element x \<lparr>mq_role = role, mq_payloads = [sw_form_element sw f]\<rparr>))) = None"
    for j to role f
    by (simp add: destroy_target_def iq_set_def muc_query_element_def get_child_def el_is_def xml_build [OF assms(1)])
  show ?thesis
    unfolding configure_room_def
    by (intro sends_intro; (simp add: form)?) (auto intro!: sends_intro split: sum.split form_error.split)
qed

lemma send_presence_harmless [sends_intro]: "harmless x (send_presence_to_room x sw j password nick sh caps)"
  unfolding send_presence_to_room_def
  by (rule behaves_bind; auto intro!: sends_intro split: list.split)

lemma create_harmless [sends_intro]:
  "xml_ok x \<Longrightarrow> (\<And>f. el_name x (sw_form_element sw f) = ''x'') \<Longrightarrow> harmless x (create_reserved_room x sw j nick sh caps handler)"
  unfolding create_reserved_room_def by (auto intro!: sends_intro)

lemma load_info_harmless [sends_intro]: "harmless x (load_room_info sw room)"
  unfolding load_room_info_def query_disco_info_def by (auto intro!: sends_intro split: sum.split)

lemma members_harmless [sends_intro]: "harmless x (load_room_members x sw room)"
  unfolding load_room_members_def request_users_def by (auto intro!: sends_intro)

text \<open>What the server answered to a join, as the client reads it.\<close>

definition join_created :: "'e xml \<Rightarrow> 'e muc_server \<Rightarrow> 'e sent list \<Rightarrow> full_jid \<Rightarrow> bool" where
  "join_created x sw log j \<longleftrightarrow>
     (case sw_join sw log j of
        Some (Inr (p, _)) \<Rightarrow>
          (case rev (ps_payloads p) of
             [] \<Rightarrow> False
           | e # _ \<Rightarrow> (case muc_user_try_from x e of Inr u \<Rightarrow> RoomHasBeenCreated \<in> set (mu_status u) | Inl _ \<Rightarrow> False))
      | _ \<Rightarrow> False)"

lemma bindM_Ok: "bindM m f s = (Ok b, s'') \<Longrightarrow> \<exists>a s'. m s = (Ok a, s') \<and> f a s' = (Ok b, s'')"
  by (auto simp: bindM_def split: prod.splits outcome.splits)

lemmas join_run_defs = send_presence_to_room_def muc_send_join_def lift_request_def lift_parsed_def request_failed_def
  bindM_def return_def throw_def panic_def

lemma join_presence_to [simp]: "rp_to_occupant (join_presence x sw j password nick sh caps) = j"
  by (simp add: join_presence_def)

lemma presence_created:
  assumes "send_presence_to_room x sw j password nick sh caps s = (Ok oc, s')"
  shows "RoomHasBeenCreated \<in> set (mu_status (oc_user oc)) \<longleftrightarrow> join_created x sw (mt_log s) j"
proof (cases "sw_join sw (mt_log s) j")
  case None
  with assms show ?thesis by (simp add: join_run_defs)
next
  case (Some r)
  note join = this
  show ?thesis
  proof (cases r)
    case (Inl e)
    with assms join show ?thesis by (simp add: join_run_defs)
  next
    case (Inr a)
    obtain p ps h sub where a: "a = (p, ps, h, sub)" by (metis prod_cases4)
    show ?thesis
    proof (cases "rev (ps_payloads p)")
      case Nil
      with assms join Inr a show ?thesis by (simp add: join_run_defs)
    next
      case (Cons e es)
      with assms join Inr a show ?thesis
        by (cases "muc_user_try_from x e") (auto simp: join_run_defs join_created_def)
    qed
  qed
qed

lemma create_created:
  assumes "create_reserved_room x sw j nick sh caps handler s = (Ok oc, s')"
  shows "RoomHasBeenCreated \<in> set (mu_status (oc_user oc)) \<longleftrightarrow> join_created x sw (mt_log s) j"
proof -
  obtain oc' s1 where "send_presence_to_room x sw j None nick sh caps s = (Ok oc', s1)"
    "(if RoomHasBeenCreated \<notin> set (mu_status (oc_user oc')) then return oc'
          else thenM (configure_room x sw (to_bare j) handler) (return oc')) s1 = (Ok oc, s')"
    using bindM_Ok [OF assms [unfolded create_reserved_room_def]] by blast
  moreover from this(2) have "oc = oc'"
    by (auto simp: thenM_def return_def bindM_def split: if_splits prod.splits outcome.splits)
  ultimately show ?thesis using presence_created by metis
qed

lemma destroy_room_sends:
  assumes "xml_ok x"
  shows "\<exists>iq. mt_log (snd (attempt (muc_destroy_room x sw room None) s)) = mt_log s @ [SentIq iq] \<and>
    destroy_target x (SentIq iq) = Some (JBare room)"
  by (auto simp: muc_destroy_room_def muc_new_id_def muc_send_iq_def lift_request_def request_failed_def prog_defs destroy_target_def
      iq_set_def owner_destroy_element_def with_query_payload_def muc_query_new_def muc_query_element_def get_child_def el_is_def xml_build [OF assms] split: sum.split)

lemma destroy_attempt_ok: "\<exists>a. fst (attempt (muc_destroy_room x sw room None) s) = Ok a"
  by (auto simp: muc_destroy_room_def muc_new_id_def muc_send_iq_def lift_request_def request_failed_def prog_defs split: sum.split)

definition destroys :: "'e xml \<Rightarrow> 'e muc_state \<Rightarrow> 'e muc_state \<Rightarrow> jid list" where
  "destroys x s s' = List.map_filter (destroy_target x) (drop (length (mt_log s)) (mt_log s'))"


definition emits :: "'e xml \<Rightarrow> 'e muc_state \<Rightarrow> 'e muc_state \<Rightarrow> jid list \<Rightarrow> bool" where
  "emits x s s' ds \<longleftrightarrow> (\<exists>zs. mt_log s' = mt_log s @ zs \<and> List.map_filter (destroy_target x) zs = ds)"

lemma emits_destroys: "emits x s s' ds \<Longrightarrow> destroys x s s' = ds"
  by (auto simp: emits_def destroys_def)

lemma emits_trans: "emits x s s1 ds \<Longrightarrow> emits x s1 s2 es \<Longrightarrow> emits x s s2 (ds @ es)"
  by (auto simp: emits_def map_filter_append)

lemma emits_harmless: "harmless x m \<Longrightarrow> m s = (r, s') \<Longrightarrow> emits x s s' []"
  by (drule (1) behavesD(1)) (auto simp: emits_def list_all_iff map_filter_def filter_empty_conv)

lemma emits_harmless_not_ok: "harmless x m \<Longrightarrow> m s = (Err e, s') \<Longrightarrow> not_validation e"
  using behavesD(2) by blast

definition is_validation_error :: "'a outcome \<Rightarrow> bool" where
  "is_validation_error r \<longleftrightarrow> (case r of Err (RoomValidationError _) \<Rightarrow> True | _ \<Rightarrow> False)"

lemma not_validation_outcome: "not_validation e \<Longrightarrow> \<not> is_validation_error (Err e)"
  by (cases e) (simp_all add: not_validation_def is_validation_error_def)

lemma return_then: "bindM (return a) f = f a"
  by (simp add: bindM_def return_def fun_eq_iff)

text \<open>A program that does no harm, and then one that may.\<close>

lemma harmless_then_emits:
  assumes m: "harmless x m" and run: "bindM m f s = (r, s')"
    and f: "\<And>a s1 r' s2. m s = (Ok a, s1) \<Longrightarrow> f a s1 = (r', s2) \<Longrightarrow> emits x s1 s2 (if c \<and> is_validation_error r' then ds else [])"
  shows "emits x s s' (if c \<and> is_validation_error r then ds else [])"
proof -
  obtain r1 s1 where m1: "m s = (r1, s1)" by fastforce
  note quiet = emits_harmless [OF m m1]
  show ?thesis
  proof (cases r1)
    case (Ok a)
    with run m1 have "f a s1 = (r, s')" by (simp add: bindM_def)
    with f m1 Ok have "emits x s1 s' (if c \<and> is_validation_error r then ds else [])" by blast
    with emits_trans [OF quiet] show ?thesis by fastforce
  next
    case (Err e)
    with run m1 have "r = Err e" "s' = s1" by (auto simp: bindM_def)
    moreover have "not_validation e" using emits_harmless_not_ok [OF m] m1 Err by simp
    ultimately show ?thesis using quiet not_validation_outcome [of e] by (auto simp: is_validation_error_def)
  qed (use run m1 quiet in \<open>auto simp: bindM_def is_validation_error_def\<close>)
qed

lemma unfit_branch_emits:
  assumes "xml_ok x"
    and "thenM (if created then thenM (attempt (muc_destroy_room x sw room None)) (return ()) else return ())
      (throw (RoomValidationError msg)) s = (r, s')"
  shows "emits x s s' (if created \<and> is_validation_error r then [JBare room] else [])"
proof (cases created)
  case True
  obtain iq where sent: "mt_log (snd (attempt (muc_destroy_room x sw room None) s)) = mt_log s @ [SentIq iq]"
      "destroy_target x (SentIq iq) = Some (JBare room)"
    using destroy_room_sends [OF assms(1)] by blast
  have "\<exists>a. fst (attempt (muc_destroy_room x sw room None) s) = Ok a" by (rule destroy_attempt_ok)
  with assms(2) True have "r = Err (RoomValidationError msg)" "s' = snd (attempt (muc_destroy_room x sw room None) s)"
    by (auto simp: thenM_def bindM_def return_def throw_def split: prod.splits outcome.splits)
  with sent True show ?thesis by (simp add: emits_def is_validation_error_def map_filter_simps)
next
  case False
  with assms(2) show ?thesis by (auto simp: thenM_def bindM_def return_def throw_def emits_def map_filter_simps)
qed

lemma check_emits:
  assumes "xml_ok x"
    and "(case validate_against spec info of
        Inl failures \<Rightarrow>
          thenM (if created then thenM (attempt (muc_destroy_room x sw (muc_jid room) None)) (return ()) else return ())
            (throw (RoomValidationError (show_validation_error spec failures)))
      | Inr _ \<Rightarrow> bindM (load_room_members x sw room) (\<lambda>members. return (g members))) s = (r, s')"
  shows "emits x s s' (if created \<and> is_validation_error r then [JBare (muc_jid room)] else [])"
proof (cases "validate_against spec info")
  case (Inl failures)
  with assms(2) unfit_branch_emits [OF assms(1), of created sw "muc_jid room" "show_validation_error spec failures" s r s']
  show ?thesis by simp
next
  case (Inr u)
  with assms(2) have "bindM (load_room_members x sw room) (\<lambda>members. return (g members)) s = (r, s')" by simp
  then show ?thesis
    by (rule harmless_then_emits [OF members_harmless]) (auto simp: return_def emits_def map_filter_simps is_validation_error_def)
qed

lemma create_then_emits:
  assumes ok: "xml_ok x" "\<And>f. el_name x (sw_form_element sw f) = ''x''"
    and run: "bindM (create_reserved_room x sw j nick sh caps handler) f s = (r, s')"
    and f: "\<And>oc s1 r1 s2. f oc s1 = (r1, s2) \<Longrightarrow>
      emits x s1 s2 (if RoomHasBeenCreated \<in> set (mu_status (oc_user oc)) \<and> is_validation_error r1 then ds else [])"
  shows "emits x s s' (if join_created x sw (mt_log s) j \<and> is_validation_error r then ds else [])"
proof (rule harmless_then_emits [OF create_harmless [OF ok] run])
  fix oc s1 r1 s2
  assume "create_reserved_room x sw j nick sh caps handler s = (Ok oc, s1)" "f oc s1 = (r1, s2)"
  with create_created [OF this(1)] f [OF this(2)]
  show "emits x s1 s2 (if join_created x sw (mt_log s) j \<and> is_validation_error r1 then ds else [])" by simp
qed

text \<open>What a room has to be for each specification, and whether the room the server tells of after the join fails that.\<close>

definition meets_spec :: "room_spec \<Rightarrow> muc_features \<Rightarrow> bool" where
  "meets_spec spec fe \<longleftrightarrow> is_persistent fe \<and>
     (case spec of
        SGroup \<Rightarrow> is_hidden fe \<and> is_members_only fe \<and> is_nonanonymous fe \<and>
          \<not> is_invites_allowed fe \<and> \<not> is_member_invites_allowed fe
      | SPrivateChannel \<Rightarrow> is_hidden fe \<and> is_members_only fe \<and> is_invites_allowed fe \<and> is_member_invites_allowed fe
      | SPublicChannel \<Rightarrow> is_public fe \<and> is_open fe)"

definition found_unfit :: "'e xml \<Rightarrow> 'e muc_server \<Rightarrow> occupant_id \<Rightarrow> string \<Rightarrow> string \<Rightarrow> room_spec \<Rightarrow> availability \<Rightarrow> 'e muc_state \<Rightarrow> bool" where
  "found_unfit x sw occ name nick spec av s \<longleftrightarrow>
     (case presence_show_from av of
        Inl _ \<Rightarrow> False
      | Inr sh \<Rightarrow>
          (case create_reserved_room x sw (occupant_jid occ) (Some nick) (Some sh) (Some (sw_caps sw)) (submit_spec sw spec name) s of
             (Ok _, s1) \<Rightarrow>
               (case load_room_info sw (MucId (to_bare (occupant_jid occ))) s1 of
                  (Ok info, _) \<Rightarrow> \<not> meets_spec spec (rmi_features info)
                | _ \<Rightarrow> False)
           | _ \<Rightarrow> False))"

lemma validate_meets: "validate_against spec info = Inr u \<longleftrightarrow> meets_spec spec (rmi_features info)"
  by (cases spec) (auto simp: validate_against_def expectations_def meets_spec_def Let_def)

lemma validate_fails: "validate_against spec info = Inl failures \<Longrightarrow> \<not> meets_spec spec (rmi_features info)"
  using validate_meets [of spec info "()"] by simp

lemma unfit_branch_error:
  assumes "thenM (if created then thenM (attempt m) (return ()) else return ()) (throw (RoomValidationError msg)) s = (r, s')"
    and "\<exists>a. fst (attempt m s) = Ok a"
  shows "r = Err (RoomValidationError msg)"
  using assms by (auto simp: thenM_def bindM_def return_def throw_def split: prod.splits outcome.splits if_splits)

lemma harmless_then_validation:
  assumes m: "harmless x m" and run: "bindM m f s = (r, s')"
  shows "is_validation_error r \<longleftrightarrow> (case m s of (Ok a, s1) \<Rightarrow> is_validation_error (fst (f a s1)) | _ \<Rightarrow> False)"
  using run not_validation_outcome [OF emits_harmless_not_ok [OF m]]
  by (auto simp: bindM_def is_validation_error_def split: prod.splits outcome.splits)

lemma check_validation:
  assumes "(case validate_against spec info of
        Inl failures \<Rightarrow>
          thenM (if created then thenM (attempt (muc_destroy_room x sw (muc_jid room) None)) (return ()) else return ())
            (throw (RoomValidationError (show_validation_error spec failures)))
      | Inr _ \<Rightarrow> bindM (load_room_members x sw room) (\<lambda>members. return (g members))) s = (r, s')"
  shows "is_validation_error r \<longleftrightarrow> \<not> meets_spec spec (rmi_features info)"
proof (cases "validate_against spec info")
  case (Inl failures)
  with assms have "r = Err (RoomValidationError (show_validation_error spec failures))"
    by (auto intro!: unfit_branch_error destroy_attempt_ok)
  with validate_fails [OF Inl] show ?thesis by (simp add: is_validation_error_def)
next
  case (Inr u)
  with assms have "bindM (load_room_members x sw room) (\<lambda>members. return (g members)) s = (r, s')" by simp
  from harmless_then_validation [OF members_harmless this] Inr validate_meets [of spec info u] show ?thesis
    by (auto simp: return_def is_validation_error_def split: prod.split outcome.split)
qed

lemma validation_error_exact:
  assumes "xml_ok x" "\<And>f. el_name x (sw_form_element sw f) = ''x''"
    and run: "service_create_or_join_room x sw occ name nick spec av s = (r, s')"
  shows "is_validation_error r \<longleftrightarrow> found_unfit x sw occ name nick spec av s"
proof (cases "presence_show_from av")
  case (Inl msg)
  with run show ?thesis
    by (auto simp: service_create_or_join_room_def lift_any_def bindM_def throw_def is_validation_error_def found_unfit_def)
next
  case (Inr sh)
  note run' = run [unfolded service_create_or_join_room_def Inr lift_any_def sum.case return_then Let_def muc_id.sel]
  show ?thesis
    unfolding harmless_then_validation [OF create_harmless [OF assms(1,2)] run'] found_unfit_def Inr sum.case
      harmless_then_validation [OF load_info_harmless surjective_pairing]
      check_validation [where room = "MucId (to_bare (occupant_jid occ))", unfolded muc_id.sel, OF surjective_pairing] ..
qed

lemma new_room_destroys:
  assumes "xml_ok x" "\<And>f. el_name x (sw_form_element sw f) = ''x''"
    and run: "service_create_or_join_room x sw occ name nick spec av s = (r, s')"
  shows "destroys x s s' =
    (if join_created x sw (mt_log s) (occupant_jid occ) \<and> is_validation_error r
     then [JBare (to_bare (occupant_jid occ))] else [])"
proof (cases "presence_show_from av")
  case (Inl msg)
  with run show ?thesis
    by (auto simp: service_create_or_join_room_def lift_any_def bindM_def throw_def is_validation_error_def destroys_def map_filter_simps)
next
  case (Inr sh)
  note run' = run [unfolded service_create_or_join_room_def Inr lift_any_def sum.case return_then Let_def muc_id.sel]
  show ?thesis
    by (rule emits_destroys, rule create_then_emits [OF assms(1,2) run'], erule harmless_then_emits [OF load_info_harmless],
      erule check_emits [OF assms(1), where room = "MucId (to_bare (occupant_jid occ))", unfolded muc_id.sel])
qed

text \<open>
  C32. A room is created or joined, and what the server then tells of it is held against the specification. The server
  is asked to destroy a room exactly if it has just created the room, it accepted the configuration, and what it
  tells of the room does not meet the specification; it is asked once, and for no other room. The caller is told that the room
  is not as specified exactly if what the server tells does not meet the specification, also if the room was there before. A
  new room stays if configuring it fails or nothing can be read of it. The hypotheses are that elements can be read as
  they were built and that the element of a form is named as XEP-0004 says.
\<close>

theorem unfit_new_room_destroyed:
  assumes "xml_ok x" "\<And>f. el_name x (sw_form_element sw f) = ''x''"
    and "service_create_or_join_room x sw occ name nick spec av s = (r, s')"
  shows "destroys x s s' =
      (if join_created x sw (mt_log s) (occupant_jid occ) \<and> found_unfit x sw occ name nick spec av s
       then [JBare (to_bare (occupant_jid occ))] else []) \<and>
    ((\<exists>msg. r = Err (RoomValidationError msg)) \<longleftrightarrow> found_unfit x sw occ name nick spec av s)"
proof -
  have "is_validation_error r \<longleftrightarrow> (\<exists>msg. r = Err (RoomValidationError msg))"
    by (auto simp: is_validation_error_def split: outcome.split room_error.split)
  with new_room_destroys [OF assms] validation_error_exact [OF assms] show ?thesis by simp
qed

section \<open>Joining\<close>

text \<open>What the client takes for its affiliation is the last payload of its presence, whatever it is.\<close>

lemma late_payload_breaks_join:
  assumes "sw_join sw (mt_log s) j = Some (Inr (p, ps, h, sub))" "ps_payloads p = es @ [e]" "\<not> el_is x e ''x'' ns_muc_user"
  shows "\<exists>msg. fst (send_presence_to_room x sw j password nick sh caps s) = Err (RequestErr (RParseError msg))"
  using assms by (auto simp: join_run_defs muc_user_try_from_def expect_is_def)

text \<open>
  If joining a room creates it, the caller is told that the room does not exist, but the presence is all that was
  sent: the client neither leaves the new room nor gives it up, and stays the owner of a room that the rest of the client
  knows nothing of.
\<close>

theorem accidental_room_kept:
  assumes "join_created x sw (mt_log s) (occupant_jid occ)" "presence_show_from av = Inr sh"
  shows "service_join_room x sw occ password nick av s =
    (Err (RequestErr (RXmpp \<lparr>se_condition = ItemNotFound, se_alternate_address = None\<rparr>)),
     s\<lparr>mt_log := mt_log s @ [SentPresence (join_presence x sw (occupant_jid occ) password (Some nick) (Some sh) (Some (sw_caps sw)))]\<rparr>)"
proof -
  obtain p q e es u where "sw_join sw (mt_log s) (occupant_jid occ) = Some (Inr (p, q))"
    "rev (ps_payloads p) = e # es" "muc_user_try_from x e = Inr u" "RoomHasBeenCreated \<in> set (mu_status u)"
    using assms(1) by (auto simp: join_created_def split: option.splits sum.splits list.splits)
  moreover obtain ps h sub where "q = (ps, h, sub)" by (cases q)
  ultimately show ?thesis
    using assms(2) by (simp add: service_join_room_def enter_room_def lift_any_def join_run_defs)
qed

section \<open>Affiliations\<close>

definition affiliation_request :: "'e xml \<Rightarrow> 'e muc_server \<Rightarrow> bare_jid \<Rightarrow> nat \<Rightarrow> bare_jid \<times> affiliation \<Rightarrow> 'e sent" where
  "affiliation_request x sw room n u =
     SentIq (iq_set (sw_new_id sw n) (JBare room) (affiliation_query x (fst u) (snd u)))"

definition affiliation_requests :: "'e xml \<Rightarrow> 'e muc_server \<Rightarrow> bare_jid \<Rightarrow> nat \<Rightarrow> (bare_jid \<times> affiliation) list \<Rightarrow> 'e sent list" where
  "affiliation_requests x sw room n users = map (\<lambda>(i, u). affiliation_request x sw room i u) (enumerate n users)"

definition refusal :: "'e muc_server \<Rightarrow> 'e sent list \<Rightarrow> 'e sent \<Rightarrow> request_error option" where
  "refusal sw log st = (case st of SentIq iq \<Rightarrow> (case sw_iq sw log iq of Inl e \<Rightarrow> Some e | Inr _ \<Rightarrow> None) | _ \<Rightarrow> None)"

text \<open>The reference: the stanzas in order, up to and with the first that is refused.\<close>

fun until_refused :: "'e muc_server \<Rightarrow> 'e sent list \<Rightarrow> 'e sent list \<Rightarrow> 'e sent list \<times> request_error option" where
  "until_refused sw log [] = ([], None)"
| "until_refused sw log (st # sts) =
     (case refusal sw log st of
        Some e \<Rightarrow> ([st], Some e)
      | None \<Rightarrow> map_prod ((#) st) id (until_refused sw (log @ [st]) sts))"

lemma update_affiliations_step:
  "update_user_affiliations x sw room (u # us) s =
     (let st = affiliation_request x sw room (mt_ids s) u;
          s' = s\<lparr>mt_ids := Suc (mt_ids s), mt_log := mt_log s @ [st]\<rparr>
      in case refusal sw (mt_log s) st of
           Some e \<Rightarrow> (Err (RequestErr e), s')
         | None \<Rightarrow> update_user_affiliations x sw room us s')"
  by (cases u) (auto simp: update_user_affiliations_def for_each_def affiliation_request_def refusal_def muc_new_id_def
      muc_send_iq_def lift_request_def request_failed_def prog_defs split: sum.split)

lemma update_affiliations_reference:
  "mt_log (snd (update_user_affiliations x sw room users s)) =
     mt_log s @ fst (until_refused sw (mt_log s) (affiliation_requests x sw room (mt_ids s) users))"
  "fst (update_user_affiliations x sw room users s) =
     (case snd (until_refused sw (mt_log s) (affiliation_requests x sw room (mt_ids s) users)) of
        None \<Rightarrow> Ok () | Some e \<Rightarrow> Err (RequestErr e))"
proof (induction users arbitrary: s)
  case Nil
  {
    case 1
    show ?case by (simp add: update_user_affiliations_def for_each_def return_def affiliation_requests_def)
  next
    case 2
    show ?case by (simp add: update_user_affiliations_def for_each_def return_def affiliation_requests_def)
  }
next
  case (Cons u us)
  {
    case 1
    show ?case using Cons.IH(1)
      by (auto simp: update_affiliations_step Let_def affiliation_requests_def split: option.split)
  next
    case 2
    show ?case using Cons.IH(2)
      by (auto simp: update_affiliations_step Let_def affiliation_requests_def split: option.split)
  }
qed

lemma until_refused_prefix: "\<exists>rest. sts = fst (until_refused sw log sts) @ rest \<and> (snd (until_refused sw log sts) = None \<longrightarrow> rest = [])"
  by (induction sts arbitrary: log) (auto split: option.split)

text \<open>
  Setting the owners of a room asks the server for one user after the other, in the order given and up to the first
  request that the server refuses; the error of that request is all that the caller learns, and the users before it stay
  owners.
\<close>

theorem owners_set_one_by_one:
  "case until_refused sw (mt_log s) (affiliation_requests x sw (muc_jid room) (mt_ids s) (map (\<lambda>u. (user_jid u, AffOwner)) users)) of
     (sent, refused) \<Rightarrow>
       mt_log (snd (set_room_owners x sw room users s)) = mt_log s @ sent \<and>
       fst (set_room_owners x sw room users s) =
         (case refused of None \<Rightarrow> Ok () | Some e \<Rightarrow> Err (Anyhow (show_request_error (sw_debug_error sw) e)))"
proof -
  have anyhow: "snd (as_anyhow sw m s) = snd (m s)"
    "fst (as_anyhow sw m s) = (case fst (m s) of Err (RequestErr e) \<Rightarrow> Err (Anyhow (show_request_error (sw_debug_error sw) e)) | r \<Rightarrow> r)"
    for m :: "('a, unit) muc_prog"
    by (auto simp: as_anyhow_def split: prod.split outcome.split room_error.split)
  show ?thesis
    by (simp add: case_prod_unfold set_room_owners_def anyhow update_affiliations_reference split: option.split)
qed

section \<open>A server\<close>

definition sample_room :: occupant_id where
  "sample_room = OccupantId (FullJid (BareJid (Some ''team'') ''rooms'') ''me'')"

definition sample_presence :: "element presence_stanza" where
  "sample_presence =
     \<lparr>ps_from = Some (JFull (occupant_jid sample_room)), ps_type = PNone, ps_show = None, ps_priority = 0, ps_statuses = [],
      ps_payloads = [muc_user_element tree_xml (muc_user_new\<lparr>mu_status := [RoomHasBeenCreated]\<rparr>)]\<rparr>"

definition sample_server :: "element muc_server" where
  "sample_server =
     \<lparr>sw_iq = (\<lambda>_ _. Inr (Some (muc_query_element tree_xml \<lparr>mq_role = OwnerQuery,
         mq_payloads = [el_build tree_xml ''x'' ns_data_forms [] []]\<rparr>))),
      sw_join = (\<lambda>_ _. Some (Inr (sample_presence, [], [], None))), sw_send = (\<lambda>_ _. Inr ()), sw_new_id = show_nat,
      sw_form_element = (\<lambda>_. el_build tree_xml ''x'' ns_data_forms [] []),
      sw_form = (\<lambda>_. Inr \<lparr>dfo_form_type = None, dfo_cancel = False, dfo_fields = sample_form\<rparr>), sw_type_name = (\<lambda>_. None),
      sw_item = (\<lambda>_. el_build tree_xml ''item'' ns_muc_admin [] []), sw_nick = (\<lambda>_. el_build tree_xml ''nick'' ns_nick [] []),
      sw_caps = el_build tree_xml ''c'' ns_caps [] [], sw_ping = el_build tree_xml ''ping'' [] [] [],
      sw_disco_info_query = el_build tree_xml ''query'' [] [] [],
      sw_disco_info = (\<lambda>_. Inr \<lparr>di_features = [], di_extensions = []\<rparr>),
      sw_disco_items_query = el_build tree_xml ''query'' [] [] [], sw_disco_items = (\<lambda>_. Inr []), sw_client = (\<lambda>_. None),
      sw_full_jid = FullJid (BareJid (Some ''me'') ''home'') ''res'', sw_debug_error = (\<lambda>_. [])\<rparr>"

definition sample_state :: "element muc_state" where
  "sample_state = \<lparr>mt_log = [], mt_ids = 0\<rparr>"

lemma sample_created: "join_created tree_xml sample_server (mt_log sample_state) (occupant_jid sample_room)"
  by code_simp

lemma sample_unfit:
  "found_unfit tree_xml sample_server sample_room ''Team'' ''me'' SGroup Available sample_state"
  by code_simp

theorem unfit_new_room_destroyed_witness:
  "destroys tree_xml sample_state
     (snd (service_create_or_join_room tree_xml sample_server sample_room ''Team'' ''me'' SGroup Available sample_state)) =
   [JBare (BareJid (Some ''team'') ''rooms'')] \<and>
   (\<exists>msg. fst (service_create_or_join_room tree_xml sample_server sample_room ''Team'' ''me'' SGroup Available sample_state) =
     Err (RoomValidationError msg))"
proof -
  have "el_name tree_xml (sw_form_element sample_server f) = ''x''" for f
    by (simp add: sample_server_def xml_build [OF tree_xml_ok])
  from unfit_new_room_destroyed [OF tree_xml_ok this surjective_pairing] sample_created sample_unfit show ?thesis
    by (simp add: sample_room_def)
qed

theorem accidental_room_kept_witness:
  "fst (service_join_room tree_xml sample_server sample_room None ''me'' Available sample_state) =
     Err (RequestErr (RXmpp \<lparr>se_condition = ItemNotFound, se_alternate_address = None\<rparr>)) \<and>
   length (mt_log (snd (service_join_room tree_xml sample_server sample_room None ''me'' Available sample_state))) = 1"
  using accidental_room_kept [OF sample_created, of Available ShowChat None "''me''"] by (simp add: sample_state_def)

end
