(* ===== verification/OmemoRepos.thy ===== *)
theory OmemoRepos
  imports MessageParser MessageRepo
begin

text \<open>
  What the client stores for encrypted messages: the sessions with the devices of users, the lists of
  devices and the keys of its own device (\<^verbatim>\<open>infra/encryption/session_repository.rs\<close>,
  \<^verbatim>\<open>caching_user_device_repository.rs\<close>, \<^verbatim>\<open>encryption_keys_repository.rs\<close>,
  \<^verbatim>\<open>encryption_key_records.rs\<close>) over the collections of theory Store, and the models of
  \<^verbatim>\<open>domain/encryption/models\<close>. Keys are lists of bytes.
\<close>

section \<open>Keys, devices and sessions\<close>

type_synonym bytes = "nat list"

record identity_key_pair =
  ikp_identity_key :: bytes
  ikp_private_key :: bytes

record signed_pre_key =
  spk_id :: nat
  spk_public_key :: bytes
  spk_private_key :: bytes
  spk_signature :: bytes
  spk_timestamp :: nat

record public_signed_pre_key =
  psk_id :: nat
  psk_key :: bytes
  psk_signature :: bytes

record pre_key =
  prk_id :: nat
  prk_public_key :: bytes
  prk_private_key :: bytes

record public_pre_key =
  ppk_id :: nat
  ppk_key :: bytes

definition into_public_pre_key :: "pre_key \<Rightarrow> public_pre_key" where
  "into_public_pre_key k = \<lparr>ppk_id = prk_id k, ppk_key = prk_public_key k\<rparr>"

definition into_public_signed_pre_key :: "signed_pre_key \<Rightarrow> public_signed_pre_key" where
  "into_public_signed_pre_key k = \<lparr>psk_id = spk_id k, psk_key = spk_public_key k, psk_signature = spk_signature k\<rparr>"

text \<open>\<^verbatim>\<open>chunks\<close> of \<^verbatim>\<open>itertools\<close>.\<close>

fun chunks :: "nat \<Rightarrow> 'a list \<Rightarrow> 'a list list" where
  "chunks n [] = []"
| "chunks n (x # xs) = (if n = 0 then [] else take n (x # xs) # chunks n (drop n (x # xs)))"

definition fingerprint :: "bytes \<Rightarrow> string" where
  "fingerprint key = join_with '' '' (map concat (chunks 4 (map hex_byte (drop 1 key))))"

record device_bundle =
  db_device_id :: device_id
  db_signed_pre_key :: public_signed_pre_key
  db_identity_key :: bytes
  db_pre_keys :: "public_pre_key list"

record pre_key_bundle =
  pb_device_id :: device_id
  pb_signed_pre_key :: public_signed_pre_key
  pb_identity_key :: bytes
  pb_pre_key :: public_pre_key

record local_encryption_bundle =
  le_device_id :: device_id
  le_identity_key_pair :: identity_key_pair
  le_signed_pre_key :: signed_pre_key
  le_pre_keys :: "pre_key list"

definition into_device_bundle :: "local_encryption_bundle \<Rightarrow> device_bundle" where
  "into_device_bundle b =
     \<lparr>db_device_id = le_device_id b, db_signed_pre_key = into_public_signed_pre_key (le_signed_pre_key b),
      db_identity_key = ikp_identity_key (le_identity_key_pair b),
      db_pre_keys = map into_public_pre_key (le_pre_keys b)\<rparr>"

record local_device =
  ld_device_id :: device_id
  ld_identity_key_pair :: identity_key_pair

datatype trust = Undecided | Untrusted | Trusted | Verified

record session =
  ss_user_id :: user_id
  ss_device_id :: device_id
  ss_trust :: trust
  ss_is_active :: bool
  ss_identity :: "bytes option"
  ss_data :: "bytes option"

fun is_trusted :: "trust \<Rightarrow> bool" where
  "is_trusted Untrusted = False"
| "is_trusted Undecided = False"
| "is_trusted Trusted = True"
| "is_trusted Verified = True"

definition is_trusted_or_undecided :: "session \<Rightarrow> bool" where
  "is_trusted_or_undecided s \<longleftrightarrow> is_trusted (ss_trust s) \<or> ss_trust s = Undecided"

record device_info =
  dvi_id :: device_id
  dvi_identity :: bytes
  dvi_trust :: trust
  dvi_is_active :: bool
  dvi_is_this_device :: bool

definition show_device :: "device \<Rightarrow> string" where
  "show_device d =
     (case dv_label d of
        Some label \<Rightarrow> show_nat (dv_id d) @ '' ('' @ [CHR 0x22] @ label @ [CHR 0x22] @ '')''
      | None \<Rightarrow> show_nat (dv_id d))"

section \<open>Sessions\<close>

record session_record =
  sr_id :: string
  sr_account :: account_id
  sr_user_id :: user_id
  sr_device_id :: device_id
  sr_trust :: trust
  sr_is_active :: bool
  sr_data :: "bytes option"
  sr_identity :: "bytes option"

definition show_user :: "user_id \<Rightarrow> string" where
  "show_user u = show_bare (user_jid u)"

definition device_record_id :: "account_id \<Rightarrow> user_id \<Rightarrow> device_id \<Rightarrow> string" where
  "device_record_id account user dev = show_account account @ ''.'' @ show_user user @ ''.'' @ show_nat dev"

definition session_record_new :: "account_id \<Rightarrow> session \<Rightarrow> session_record" where
  "session_record_new account s =
     \<lparr>sr_id = device_record_id account (ss_user_id s) (ss_device_id s), sr_account = account,
      sr_user_id = ss_user_id s, sr_device_id = ss_device_id s, sr_trust = ss_trust s, sr_is_active = ss_is_active s,
      sr_data = ss_data s, sr_identity = ss_identity s\<rparr>"

definition session_from :: "session_record \<Rightarrow> session" where
  "session_from r =
     \<lparr>ss_user_id = sr_user_id r, ss_device_id = sr_device_id r, ss_trust = sr_trust r, ss_is_active = sr_is_active r,
      ss_identity = sr_identity r, ss_data = sr_data r\<rparr>"

definition user_key :: "user_id \<Rightarrow> raw_key" where "user_key u = KText (show_user u)"
definition device_key :: "device_id \<Rightarrow> raw_key" where "device_key d = KInteger (int d)"

definition user_idx :: "string list" where "user_idx = [''account'', ''user_id'']"
definition device_idx :: "string list" where "device_idx = [''account'', ''user_id'', ''device_id'']"

definition device_columns :: "('r \<Rightarrow> account_id) \<Rightarrow> ('r \<Rightarrow> user_id) \<Rightarrow> ('r \<Rightarrow> device_id) \<Rightarrow> string \<Rightarrow> 'r \<Rightarrow> raw_key option" where
  "device_columns account user dev c r =
     (if c = ''account'' then Some (account_key (account r))
      else if c = ''user_id'' then Some (user_key (user r))
      else if c = ''device_id'' then Some (device_key (dev r)) else None)"

definition device_indexes :: "index_spec list" where
  "device_indexes =
     [\<lparr>ix_keys = account_idx, ix_unique = False\<rparr>, \<lparr>ix_keys = user_idx, ix_unique = False\<rparr>,
      \<lparr>ix_keys = device_idx, ix_unique = True\<rparr>]"

definition session_entity :: "session_record entity" where
  "session_entity =
     \<lparr>en_id = sr_id, en_collection = ''omemo_session_record'', en_indexes = device_indexes,
      en_column = device_columns sr_account sr_user_id sr_device_id\<rparr>"

definition find_session :: "account_id \<Rightarrow> user_id \<Rightarrow> device_id \<Rightarrow> session_record rows \<Rightarrow> store_error + session_record option" where
  "find_session account user dev rows =
     bind_res (open_index session_entity device_idx) (\<lambda>acc.
     coll_get session_entity acc [account_key account, user_key user, device_key dev] rows)"

definition user_sessions :: "account_id \<Rightarrow> user_id \<Rightarrow> session_record rows \<Rightarrow> store_error + session_record list" where
  "user_sessions account user rows =
     bind_res (open_index session_entity user_idx) (\<lambda>acc.
     coll_get_all_values session_entity acc (Only [account_key account, user_key user]) Forward None rows)"

definition get_session :: "account_id \<Rightarrow> user_id \<Rightarrow> device_id \<Rightarrow> session_record rows \<Rightarrow> store_error + session option" where
  "get_session account user dev rows =
     bind_res (find_session account user dev rows) (\<lambda>r. Inr (map_option session_from r))"

definition get_all_sessions :: "account_id \<Rightarrow> user_id \<Rightarrow> session_record rows \<Rightarrow> store_error + session list" where
  "get_all_sessions account user rows =
     bind_res (user_sessions account user rows) (\<lambda>rs. Inr (map session_from rs))"

text \<open>The result tells whether an existing session was changed.\<close>

definition upsert_session :: "account_id \<Rightarrow> user_id \<Rightarrow> device_id \<Rightarrow> (session_record \<Rightarrow> session_record) \<Rightarrow> session_record rows \<Rightarrow>
    store_error + bool \<times> session_record rows" where
  "upsert_session account user dev handler rows =
     bind_res (find_session account user dev rows) (\<lambda>found.
     Inr (case found of
        Some s \<Rightarrow>
          if handler s \<noteq> s then (True, put_entity session_entity (handler s) rows) else (False, rows)
      | None \<Rightarrow>
          (False, put_entity session_entity (handler (session_record_new account
             \<lparr>ss_user_id = user, ss_device_id = dev, ss_trust = Undecided, ss_is_active = True, ss_identity = None,
              ss_data = None\<rparr>)) rows)))"

definition put_session_data :: "account_id \<Rightarrow> user_id \<Rightarrow> device_id \<Rightarrow> bytes \<Rightarrow> session_record rows \<Rightarrow>
    store_error + session_record rows" where
  "put_session_data account user dev data rows =
     bind_res (upsert_session account user dev (\<lambda>s. s\<lparr>sr_data := Some data\<rparr>) rows) (\<lambda>(_, rows'). Inr rows')"

definition put_identity :: "account_id \<Rightarrow> user_id \<Rightarrow> device_id \<Rightarrow> bytes \<Rightarrow> session_record rows \<Rightarrow>
    store_error + bool \<times> session_record rows" where
  "put_identity account user dev identity rows = upsert_session account user dev (\<lambda>s. s\<lparr>sr_identity := Some identity\<rparr>) rows"

fun mark_active :: "device_id list \<Rightarrow> session_record list \<Rightarrow> session_record rows \<Rightarrow> session_record rows" where
  "mark_active devs [] rows = rows"
| "mark_active devs (r # rs) rows =
     (if sr_is_active r = (sr_device_id r \<in> set devs) then mark_active devs rs rows
      else mark_active devs rs (put_entity session_entity (r\<lparr>sr_is_active := \<not> sr_is_active r\<rparr>) rows))"

definition put_active_devices :: "account_id \<Rightarrow> user_id \<Rightarrow> device_id list \<Rightarrow> session_record rows \<Rightarrow>
    store_error + session_record rows" where
  "put_active_devices account user devs rows =
     bind_res (user_sessions account user rows) (\<lambda>rs. Inr (mark_active devs rs rows))"

definition sessions_clear_cache :: "account_id \<Rightarrow> session_record rows \<Rightarrow> store_error + session_record rows" where
  "sessions_clear_cache account rows = delete_all_in_index session_entity account_idx (Only [account_key account]) rows"

section \<open>Devices\<close>

record user_device_record =
  ud_id :: string
  ud_account :: account_id
  ud_user_id :: user_id
  ud_device_id :: device_id
  ud_label :: "string option"

definition user_device_record_new :: "account_id \<Rightarrow> user_id \<Rightarrow> device_id \<Rightarrow> string option \<Rightarrow> user_device_record" where
  "user_device_record_new account user dev label =
     \<lparr>ud_id = device_record_id account user dev, ud_account = account, ud_user_id = user, ud_device_id = dev,
      ud_label = label\<rparr>"

definition user_device_entity :: "user_device_record entity" where
  "user_device_entity =
     \<lparr>en_id = ud_id, en_collection = ''omemo_user_device'', en_indexes = device_indexes,
      en_column = device_columns ud_account ud_user_id ud_device_id\<rparr>"

definition user_device_records :: "account_id \<Rightarrow> user_id \<Rightarrow> user_device_record rows \<Rightarrow> store_error + user_device_record list" where
  "user_device_records account user rows =
     bind_res (open_index user_device_entity user_idx) (\<lambda>acc.
     coll_get_all_values user_device_entity acc (Only [account_key account, user_key user]) Forward None rows)"

definition fetch_devices :: "account_id \<Rightarrow> user_id \<Rightarrow> user_device_record rows \<Rightarrow> store_error + device list" where
  "fetch_devices account user rows =
     bind_res (user_device_records account user rows) (\<lambda>rs.
     Inr (map (\<lambda>r. \<lparr>dv_id = ud_device_id r, dv_label = ud_label r\<rparr>) rs))"

definition put_new_devices :: "account_id \<Rightarrow> user_id \<Rightarrow> device_id list \<Rightarrow> device list \<Rightarrow> user_device_record rows \<Rightarrow>
    user_device_record rows" where
  "put_new_devices account user current devices rows =
     fold (\<lambda>d rows.
       if dv_id d \<in> set current then rows
       else put_entity user_device_entity (user_device_record_new account user (dv_id d) (dv_label d)) rows) devices rows"

definition delete_devices :: "account_id \<Rightarrow> user_id \<Rightarrow> device_id list \<Rightarrow> user_device_record rows \<Rightarrow>
    store_error + user_device_record rows" where
  "delete_devices account user devs rows =
     bind_res (open_index user_device_entity device_idx) (\<lambda>acc.
     fold_res (\<lambda>d rows. coll_delete user_device_entity acc [account_key account, user_key user, device_key d] rows) devs rows)"

text \<open>The records, and the users whose list was loaded since the last reconnect.\<close>

record device_cache =
  dc_rows :: "user_device_record rows"
  dc_updated :: "user_id list"

definition devices_set_all :: "account_id \<Rightarrow> user_id \<Rightarrow> device list \<Rightarrow> device_cache \<Rightarrow> store_error + device_cache" where
  "devices_set_all account user devices dc =
     bind_res (user_device_records account user (dc_rows dc)) (\<lambda>rs.
     let current = map ud_device_id rs in
     bind_res (delete_devices account user (filter (\<lambda>d. d \<notin> dv_id ` set devices) current)
         (put_new_devices account user current devices (dc_rows dc))) (\<lambda>rows.
     Inr \<lparr>dc_rows = rows, dc_updated = List.insert user (dc_updated dc)\<rparr>))"

definition devices_reset_before_reconnect :: "device_cache \<Rightarrow> device_cache" where
  "devices_reset_before_reconnect dc = dc\<lparr>dc_updated := []\<rparr>"

definition devices_clear_cache :: "account_id \<Rightarrow> device_cache \<Rightarrow> store_error + device_cache" where
  "devices_clear_cache account dc =
     bind_res (delete_all_in_index user_device_entity account_idx (Only [account_key account]) (dc_rows dc)) (\<lambda>rows.
     Inr \<lparr>dc_rows = rows, dc_updated = []\<rparr>)"

section \<open>Keys\<close>

record local_device_record =
  lo_id :: account_id
  lo_device_id :: device_id
  lo_identity_key_pair :: identity_key_pair

definition local_device_entity :: "local_device_record entity" where
  "local_device_entity =
     \<lparr>en_id = (\<lambda>r. show_account (lo_id r)), en_collection = ''omemo_local_device'', en_indexes = [], en_column = (\<lambda>_ _. None)\<rparr>"

definition local_device_from :: "local_device_record \<Rightarrow> local_device" where
  "local_device_from r = \<lparr>ld_device_id = lo_device_id r, ld_identity_key_pair = lo_identity_key_pair r\<rparr>"

text \<open>
  The records of keys under an account: \<^verbatim>\<open>PreKeyRecord\<close>, \<^verbatim>\<open>SignedPreKeyRecord\<close> and
  \<^verbatim>\<open>KyberPreKeyRecord\<close> differ in the key they hold only.
\<close>

record 'k key_record =
  kr_id :: string
  kr_account :: account_id
  kr_pre_key_id :: nat
  kr_key :: 'k

definition key_record_new :: "account_id \<Rightarrow> nat \<Rightarrow> 'k \<Rightarrow> 'k key_record" where
  "key_record_new account i k =
     \<lparr>kr_id = show_account account @ ''.'' @ show_nat i, kr_account = account, kr_pre_key_id = i, kr_key = k\<rparr>"

definition pre_key_idx :: "string list" where "pre_key_idx = [''account'', ''pre_key_id'']"

definition key_entity :: "string \<Rightarrow> 'k key_record entity" where
  "key_entity collection =
     \<lparr>en_id = kr_id, en_collection = collection,
      en_indexes = [\<lparr>ix_keys = account_idx, ix_unique = False\<rparr>, \<lparr>ix_keys = pre_key_idx, ix_unique = True\<rparr>],
      en_column = (\<lambda>c r.
        if c = ''account'' then Some (account_key (kr_account r))
        else if c = ''pre_key_id'' then Some (KInteger (int (kr_pre_key_id r))) else None)\<rparr>"

abbreviation pre_key_entity :: "pre_key key_record entity" where "pre_key_entity \<equiv> key_entity ''omemo_pre_key''"
abbreviation signed_pre_key_entity :: "signed_pre_key key_record entity" where
  "signed_pre_key_entity \<equiv> key_entity ''omemo_signed_pre_key''"
abbreviation kyber_pre_key_entity :: "bytes key_record entity" where "kyber_pre_key_entity \<equiv> key_entity ''omemo_kyber_pre_key''"

record sender_key_record =
  sk_id :: string
  sk_account :: account_id
  sk_user_id :: user_id
  sk_device_id :: device_id
  sk_distribution_id :: string
  sk_key :: bytes

definition sender_key_record_new :: "account_id \<Rightarrow> user_id \<Rightarrow> device_id \<Rightarrow> string \<Rightarrow> bytes \<Rightarrow> sender_key_record" where
  "sender_key_record_new account user dev dist key =
     \<lparr>sk_id = device_record_id account user dev @ ''.'' @ dist, sk_account = account, sk_user_id = user, sk_device_id = dev,
      sk_distribution_id = dist, sk_key = key\<rparr>"

definition distribution_idx :: "string list" where
  "distribution_idx = [''account'', ''user_id'', ''device_id'', ''distribution_id'']"

definition sender_key_entity :: "sender_key_record entity" where
  "sender_key_entity =
     \<lparr>en_id = sk_id, en_collection = ''omemo_sender_key'',
      en_indexes = [\<lparr>ix_keys = account_idx, ix_unique = False\<rparr>, \<lparr>ix_keys = distribution_idx, ix_unique = True\<rparr>],
      en_column = (\<lambda>c r. if c = ''distribution_id'' then Some (KText (sk_distribution_id r))
        else device_columns sk_account sk_user_id sk_device_id c r)\<rparr>"

record key_store =
  ks_local_devices :: "local_device_record rows"
  ks_signed_pre_keys :: "signed_pre_key key_record rows"
  ks_pre_keys :: "pre_key key_record rows"
  ks_kyber_pre_keys :: "bytes key_record rows"
  ks_sender_keys :: "sender_key_record rows"

definition put_pre_keys :: "account_id \<Rightarrow> pre_key list \<Rightarrow> key_store \<Rightarrow> key_store" where
  "put_pre_keys account keys ks =
     ks\<lparr>ks_pre_keys := fold (\<lambda>k. put_entity pre_key_entity (key_record_new account (prk_id k) k)) keys (ks_pre_keys ks)\<rparr>"

definition put_signed_pre_key :: "account_id \<Rightarrow> signed_pre_key \<Rightarrow> key_store \<Rightarrow> key_store" where
  "put_signed_pre_key account k ks =
     ks\<lparr>ks_signed_pre_keys := put_entity signed_pre_key_entity (key_record_new account (spk_id k) k) (ks_signed_pre_keys ks)\<rparr>"

definition put_local_encryption_bundle :: "account_id \<Rightarrow> local_encryption_bundle \<Rightarrow> key_store \<Rightarrow> key_store" where
  "put_local_encryption_bundle account b ks =
     put_pre_keys account (le_pre_keys b) (put_signed_pre_key account (le_signed_pre_key b)
       (ks\<lparr>ks_local_devices := put_entity local_device_entity
          \<lparr>lo_id = account, lo_device_id = le_device_id b, lo_identity_key_pair = le_identity_key_pair b\<rparr> (ks_local_devices ks)\<rparr>))"

definition get_local_device :: "account_id \<Rightarrow> key_store \<Rightarrow> store_error + local_device option" where
  "get_local_device account ks =
     bind_res (coll_get local_device_entity ByKey [account_key account] (ks_local_devices ks)) (\<lambda>r.
     Inr (map_option local_device_from r))"

definition account_keys :: "'k key_record entity \<Rightarrow> account_id \<Rightarrow> query_direction \<Rightarrow> nat option \<Rightarrow> 'k key_record rows \<Rightarrow>
    store_error + 'k list" where
  "account_keys en account dir limit rows =
     bind_res (open_index en account_idx) (\<lambda>acc.
     bind_res (coll_get_all_values en acc (Only [account_key account]) dir limit rows) (\<lambda>rs. Inr (map kr_key rs)))"

definition get_local_device_bundle :: "account_id \<Rightarrow> key_store \<Rightarrow> store_error + device_bundle option" where
  "get_local_device_bundle account ks =
     bind_res (get_local_device account ks) (\<lambda>found.
     case found of
       None \<Rightarrow> Inr None
     | Some dev \<Rightarrow>
         bind_res (account_keys signed_pre_key_entity account Backward (Some 1) (ks_signed_pre_keys ks)) (\<lambda>signed.
         case signed of
           [] \<Rightarrow> Inr None
         | k # _ \<Rightarrow>
             bind_res (account_keys pre_key_entity account Forward None (ks_pre_keys ks)) (\<lambda>keys.
             Inr (Some \<lparr>db_device_id = ld_device_id dev, db_signed_pre_key = into_public_signed_pre_key k,
               db_identity_key = ikp_identity_key (ld_identity_key_pair dev),
               db_pre_keys = map into_public_pre_key keys\<rparr>))))"

text \<open>Reading and deleting one key.\<close>

definition get_key :: "'k key_record entity \<Rightarrow> account_id \<Rightarrow> nat \<Rightarrow> 'k key_record rows \<Rightarrow> store_error + 'k option" where
  "get_key en account i rows =
     bind_res (open_index en pre_key_idx) (\<lambda>acc.
     bind_res (coll_get en acc [account_key account, KInteger (int i)] rows) (\<lambda>r. Inr (map_option kr_key r)))"

definition delete_key :: "'k key_record entity \<Rightarrow> account_id \<Rightarrow> nat \<Rightarrow> 'k key_record rows \<Rightarrow> store_error + 'k key_record rows" where
  "delete_key en account i rows =
     bind_res (open_index en pre_key_idx) (\<lambda>acc. coll_delete en acc [account_key account, KInteger (int i)] rows)"

definition get_kyber_pre_key :: "account_id \<Rightarrow> nat \<Rightarrow> key_store \<Rightarrow> store_error + bytes option" where
  "get_kyber_pre_key account i ks = get_key kyber_pre_key_entity account i (ks_kyber_pre_keys ks)"

definition put_kyber_pre_key :: "account_id \<Rightarrow> nat \<Rightarrow> bytes \<Rightarrow> key_store \<Rightarrow> key_store" where
  "put_kyber_pre_key account i k ks =
     ks\<lparr>ks_kyber_pre_keys := put_entity kyber_pre_key_entity (key_record_new account i k) (ks_kyber_pre_keys ks)\<rparr>"

definition delete_kyber_pre_key :: "account_id \<Rightarrow> nat \<Rightarrow> key_store \<Rightarrow> store_error + key_store" where
  "delete_kyber_pre_key account i ks =
     bind_res (delete_key kyber_pre_key_entity account i (ks_kyber_pre_keys ks)) (\<lambda>rows. Inr (ks\<lparr>ks_kyber_pre_keys := rows\<rparr>))"

definition get_signed_pre_key :: "account_id \<Rightarrow> nat \<Rightarrow> key_store \<Rightarrow> store_error + signed_pre_key option" where
  "get_signed_pre_key account i ks = get_key signed_pre_key_entity account i (ks_signed_pre_keys ks)"

definition delete_signed_pre_key :: "account_id \<Rightarrow> nat \<Rightarrow> key_store \<Rightarrow> store_error + key_store" where
  "delete_signed_pre_key account i ks =
     bind_res (delete_key signed_pre_key_entity account i (ks_signed_pre_keys ks)) (\<lambda>rows. Inr (ks\<lparr>ks_signed_pre_keys := rows\<rparr>))"

definition get_pre_key :: "account_id \<Rightarrow> nat \<Rightarrow> key_store \<Rightarrow> store_error + pre_key option" where
  "get_pre_key account i ks = get_key pre_key_entity account i (ks_pre_keys ks)"

definition put_sender_key :: "account_id \<Rightarrow> user_id \<Rightarrow> device_id \<Rightarrow> string \<Rightarrow> bytes \<Rightarrow> key_store \<Rightarrow> key_store" where
  "put_sender_key account user dev dist k ks =
     ks\<lparr>ks_sender_keys := put_entity sender_key_entity (sender_key_record_new account user dev dist k) (ks_sender_keys ks)\<rparr>"

definition get_sender_key :: "account_id \<Rightarrow> user_id \<Rightarrow> device_id \<Rightarrow> string \<Rightarrow> key_store \<Rightarrow> store_error + bytes option" where
  "get_sender_key account user dev dist ks =
     bind_res (open_index sender_key_entity distribution_idx) (\<lambda>acc.
     bind_res (coll_get sender_key_entity acc [account_key account, user_key user, device_key dev, KText dist] (ks_sender_keys ks))
       (\<lambda>r. Inr (map_option sk_key r)))"

definition keys_clear_cache :: "account_id \<Rightarrow> key_store \<Rightarrow> store_error + key_store" where
  "keys_clear_cache account ks =
     bind_res (coll_delete local_device_entity ByKey [account_key account] (ks_local_devices ks)) (\<lambda>devs.
     bind_res (delete_all_in_index kyber_pre_key_entity account_idx (Only [account_key account]) (ks_kyber_pre_keys ks)) (\<lambda>kyber.
     bind_res (delete_all_in_index pre_key_entity account_idx (Only [account_key account]) (ks_pre_keys ks)) (\<lambda>pre.
     bind_res (delete_all_in_index sender_key_entity account_idx (Only [account_key account]) (ks_sender_keys ks)) (\<lambda>sender_keys.
     bind_res (delete_all_in_index signed_pre_key_entity account_idx (Only [account_key account]) (ks_signed_pre_keys ks)) (\<lambda>signed.
     Inr \<lparr>ks_local_devices = devs, ks_signed_pre_keys = signed, ks_pre_keys = pre, ks_kyber_pre_keys = kyber,
       ks_sender_keys = sender_keys\<rparr>)))))"

section \<open>Records of devices\<close>

text \<open>Sessions and devices are stored under the same keys; \<open>same_device\<close> is up to the form these have in the store.\<close>

definition same_user :: "account_id \<times> user_id \<Rightarrow> account_id \<times> user_id \<Rightarrow> bool" where
  "same_user a b \<longleftrightarrow> show_account (fst a) = show_account (fst b) \<and> show_user (snd a) = show_user (snd b)"

locale device_entity =
  fixes en :: "'r entity" and acct :: "'r \<Rightarrow> account_id" and usr :: "'r \<Rightarrow> user_id" and dev :: "'r \<Rightarrow> device_id"
  assumes columns: "en_column en = device_columns acct usr dev"
    and indexes: "en_indexes en = device_indexes"
begin

definition belongs :: "account_id \<Rightarrow> user_id \<Rightarrow> 'r \<Rightarrow> bool" where
  "belongs account user r \<longleftrightarrow> same_user (acct r, usr r) (account, user)"

definition well_formed :: "'r \<Rightarrow> bool" where
  "well_formed r \<longleftrightarrow> en_id en r = device_record_id (acct r) (usr r) (dev r)"

lemma open_indexes [simp]:
  "open_index en user_idx = Inr (ByIndex user_idx)" "open_index en device_idx = Inr (ByIndex device_idx)"
  by (simp_all add: open_index_def indexes device_indexes_def)

lemma device_values:
  "row_values en (ByIndex device_idx) row = [Some (account_key account), Some (user_key user), Some (device_key d)] \<longleftrightarrow>
     belongs account user (snd row) \<and> dev (snd row) = d"
  "row_values en (ByIndex user_idx) row = [Some (account_key account), Some (user_key user)] \<longleftrightarrow> belongs account user (snd row)"
  by (cases row; auto simp: columns device_columns_def device_idx_def user_idx_def account_key_def user_key_def device_key_def
      belongs_def same_user_def)+

lemma get_exact:
  "coll_get en (ByIndex device_idx) [account_key account, user_key user, device_key d] rows =
     Inr (map_option snd (find (\<lambda>row. belongs account user (snd row) \<and> dev (snd row) = d) rows))"
  by (simp add: coll_get_def device_values device_idx_def [THEN arg_cong, of length] del: row_values.simps)

lemma user_values:
  "coll_get_all_values en (ByIndex user_idx) (Only [account_key account, user_key user]) Forward None rows =
     Inr (map snd (filter (\<lambda>row. belongs account user (snd row)) rows))"
  by (subst only_values) (simp_all add: user_idx_def device_values [unfolded user_idx_def] del: row_values.simps)

lemma delete_exact:
  "coll_delete en (ByIndex device_idx) [account_key account, user_key user, device_key d] rows =
     Inr (filter (\<lambda>row. \<not> (belongs account user (snd row) \<and> dev (snd row) = d)) rows)"
  by (simp add: coll_delete_def device_values device_idx_def [THEN arg_cong, of length] del: row_values.simps)

end

sublocale device_entity \<subseteq> keyed_entity en "{r. well_formed r}"
proof
  fix v w and ix :: index_spec
  assume "v \<in> {r. well_formed r}" "w \<in> {r. well_formed r}" "ix \<in> set (en_indexes en)" "ix_unique ix"
    "map (\<lambda>c. en_column en c v) (ix_keys ix) = map (\<lambda>c. en_column en c w) (ix_keys ix)"
  then show "en_id en v = en_id en w"
    by (auto simp: well_formed_def columns indexes device_indexes_def device_columns_def device_idx_def device_record_id_def
        account_key_def user_key_def device_key_def)
qed

context device_entity
begin

text \<open>At most one record is stored for a device.\<close>

lemma device_id_unique:
  assumes "keyed rows" "(k, r) \<in> set rows" "(k', r') \<in> set rows" "same_user (acct r, usr r) (acct r', usr r')" "dev r = dev r'"
  shows "(k, r) = (k', r')"
proof -
  have "k = en_id en r" "k' = en_id en r'" "well_formed r" "well_formed r'" using assms(1-3) by (auto simp: keyed_def)
  then have "k = k'" using assms(4,5) by (auto simp: well_formed_def device_record_id_def same_user_def)
  with assms(1-3) show ?thesis by (auto simp: keyed_def dest: eq_key_imp_eq_value)
qed

lemma find_device:
  assumes "keyed rows"
  shows "coll_get en (ByIndex device_idx) [account_key account, user_key user, device_key d] rows = Inr (Some r) \<longleftrightarrow>
    map_of rows (en_id en r) = Some r \<and> belongs account user r \<and> dev r = d"
proof
  assume "coll_get en (ByIndex device_idx) [account_key account, user_key user, device_key d] rows = Inr (Some r)"
  then obtain k where "(k, r) \<in> set rows" "belongs account user r" "dev r = d"
    by (auto simp: get_exact dest!: find_SomeD)
  with assms show "map_of rows (en_id en r) = Some r \<and> belongs account user r \<and> dev r = d"
    by (auto simp: keyed_def)
next
  assume r: "map_of rows (en_id en r) = Some r \<and> belongs account user r \<and> dev r = d"
  then have row: "(en_id en r, r) \<in> set rows" by (auto dest: map_of_SomeD)
  show "coll_get en (ByIndex device_idx) [account_key account, user_key user, device_key d] rows = Inr (Some r)"
  proof (cases "find (\<lambda>row. belongs account user (snd row) \<and> dev (snd row) = d) rows")
    case None
    with r row show ?thesis by (auto simp: find_None_iff)
  next
    case (Some row')
    obtain k' r' where row': "row' = (k', r')" by fastforce
    with Some have "(k', r') \<in> set rows" "belongs account user r'" "dev r' = d" by (auto dest!: find_SomeD)
    with device_id_unique [OF assms row this(1)] r have "r' = r" by (auto simp: belongs_def same_user_def)
    with Some row' show ?thesis by (simp add: get_exact)
  qed
qed

end

interpretation sessions: device_entity session_entity sr_account sr_user_id sr_device_id
  by unfold_locales (simp_all add: session_entity_def)

interpretation devices: device_entity user_device_entity ud_account ud_user_id ud_device_id
  by unfold_locales (simp_all add: user_device_entity_def)

lemma session_entity_id [simp]: "en_id session_entity = sr_id"
  by (simp add: session_entity_def)

lemma device_entity_id [simp]: "en_id user_device_entity = ud_id"
  by (simp add: user_device_entity_def)

lemma user_sessions_exact:
  "user_sessions account user rows = Inr (map snd (filter (\<lambda>row. sessions.belongs account user (snd row)) rows))"
  by (simp add: user_sessions_def sessions.user_values)

lemma session_updates_well_formed [simp]:
  "sessions.well_formed (r\<lparr>sr_is_active := b\<rparr>) = sessions.well_formed r"
  "sessions.well_formed (r\<lparr>sr_identity := i\<rparr>) = sessions.well_formed r"
  "sessions.well_formed (r\<lparr>sr_data := d\<rparr>) = sessions.well_formed r"
  "sessions.well_formed (session_record_new account s)"
  by (simp_all add: sessions.well_formed_def session_record_new_def)

section \<open>Active devices\<close>

definition set_active :: "device_id list \<Rightarrow> session_record \<Rightarrow> session_record" where
  "set_active devs r = r\<lparr>sr_is_active := sr_device_id r \<in> set devs\<rparr>"

lemma mark_active_exact:
  assumes "sessions.keyed rows" "\<And>r. r \<in> set rs \<Longrightarrow> map_of rows (sr_id r) = Some r" "distinct (map sr_id rs)"
  shows "sessions.keyed (mark_active devs rs rows) \<and>
    map_of (mark_active devs rs rows) k =
      map_option (\<lambda>r. if k \<in> sr_id ` set rs then set_active devs r else r) (map_of rows k)"
  using assms
proof (induction rs arbitrary: rows)
  case Nil
  then show ?case by (simp add: option.map_ident)
next
  case (Cons r rs)
  let ?r = "r\<lparr>sr_is_active := \<not> sr_is_active r\<rparr>"
  have r: "map_of rows (sr_id r) = Some r" "sr_id r \<notin> sr_id ` set rs" using Cons.prems(2,3) by auto
  show ?case
  proof (cases "sr_is_active r = (sr_device_id r \<in> set devs)")
    case True
    then have "set_active devs r = r" by (simp add: set_active_def)
    with True r Cons.IH [OF Cons.prems(1)] Cons.prems show ?thesis by (cases "k = sr_id r") auto
  next
    case False
    have "sessions.well_formed r" using r(1) Cons.prems(1) by (auto simp: sessions.keyed_def dest: map_of_SomeD)
    then have put: "sessions.keyed (put_entity session_entity ?r rows)"
        "map_of (put_entity session_entity ?r rows) = (map_of rows)(sr_id r \<mapsto> ?r)"
      using sessions.keyed_put [OF Cons.prems(1), of ?r] sessions.map_of_put [OF Cons.prems(1), of ?r] by simp_all
    have "map_of (put_entity session_entity ?r rows) (sr_id s) = Some s" if "s \<in> set rs" for s
      using that r(2) Cons.prems(2) put(2) by (metis fun_upd_apply image_eqI list.set_intros(2))
    from Cons.IH [OF put(1) this] Cons.prems(3) False r put(2) show ?thesis
      by (auto simp: set_active_def)
  qed
qed

text \<open>
  C33. Announcing the devices of a user marks exactly the sessions with these devices as active and the other sessions of
  the user as inactive; nothing else of them changes, and the sessions with other users stay as they are.
\<close>

theorem active_devices_exact:
  assumes "sessions.keyed rows" "put_active_devices account user devs rows = Inr rows'"
  shows "sessions.keyed rows' \<and>
    map_of rows' k =
      map_option (\<lambda>r. if sessions.belongs account user r then r\<lparr>sr_is_active := sr_device_id r \<in> set devs\<rparr> else r) (map_of rows k)"
proof -
  let ?rs = "map snd (filter (\<lambda>row. sessions.belongs account user (snd row)) rows)"
  have key: "fst row = sr_id (snd row)" if "row \<in> set rows" for row
    using that assms(1) by (cases row) (auto simp: sessions.keyed_def)
  have found: "map_of rows (sr_id r) = Some r" if "r \<in> set ?rs" for r
    using that assms(1) by (auto simp: sessions.keyed_def)
  have ids: "map sr_id ?rs = map fst (filter (\<lambda>row. sessions.belongs account user (snd row)) rows)"
    using key by (auto intro!: map_cong)
  have distinct: "distinct (map sr_id ?rs)"
    unfolding ids using assms(1) by (simp add: sessions.keyed_def distinct_map_filter)
  have "(k \<in> sr_id ` set ?rs) = sessions.belongs account user r" if "map_of rows k = Some r" for r
  proof
    assume "k \<in> sr_id ` set ?rs"
    with found that show "sessions.belongs account user r" by force
  next
    assume "sessions.belongs account user r"
    with map_of_SomeD [OF that] key [of "(k, r)"] show "k \<in> sr_id ` set ?rs" by force
  qed
  with mark_active_exact [OF assms(1) found distinct, of devs k] assms(2) show ?thesis
    by (cases "map_of rows k") (auto simp: put_active_devices_def user_sessions_exact set_active_def)
qed

section \<open>Identities\<close>

text \<open>
  When the identity key of a device is replaced by another one the session keeps the trust it had: a device that was
  verified is still verified with a key nobody has seen. The documentation of the repository says that the identity is
  then undecided.
\<close>

theorem replaced_identity_keeps_trust:
  assumes "sessions.keyed rows" "map_of rows (sr_id r) = Some r"
    and "sr_identity r = Some old" "old \<noteq> new"
  shows "\<exists>rows'. put_identity (sr_account r) (sr_user_id r) (sr_device_id r) new rows = Inr (True, rows') \<and>
    get_session (sr_account r) (sr_user_id r) (sr_device_id r) rows' =
      Inr (Some ((session_from r)\<lparr>ss_identity := Some new\<rparr>))"
proof -
  let ?r = "r\<lparr>sr_identity := Some new\<rparr>"
  let ?key = "[account_key (sr_account r), user_key (sr_user_id r), device_key (sr_device_id r)]"
  have self: "sessions.belongs (sr_account r) (sr_user_id r) r" by (simp add: sessions.belongs_def same_user_def)
  have found: "find_session (sr_account r) (sr_user_id r) (sr_device_id r) rows = Inr (Some r)"
    using sessions.find_device [OF assms(1)] assms(2) self by (simp add: find_session_def)
  have "sessions.well_formed ?r" using assms(1,2) by (auto simp: sessions.keyed_def dest: map_of_SomeD)
  then have put: "sessions.keyed (put_entity session_entity ?r rows)"
      "map_of (put_entity session_entity ?r rows) (sr_id ?r) = Some ?r"
    using sessions.keyed_put [OF assms(1), of ?r] sessions.map_of_put [OF assms(1), of ?r] by simp_all
  have "find_session (sr_account r) (sr_user_id r) (sr_device_id r) (put_entity session_entity ?r rows) = Inr (Some ?r)"
    using sessions.find_device [OF put(1), of "sr_account r" "sr_user_id r" "sr_device_id r" ?r] put(2)
    by (simp add: find_session_def sessions.belongs_def same_user_def)
  moreover have "?r \<noteq> r" using assms(3,4) by (metis option.inject session_record.select_convs(8) session_record.surjective session_record.update_convs(8))
  ultimately show ?thesis
    using found by (simp add: put_identity_def upsert_session_def get_session_def session_from_def)
qed

section \<open>The list of devices\<close>

lemma show_nat_no_dot: "CHR ''.'' \<notin> set (show_nat n)"
proof (induction n rule: less_induct)
  case (less n)
  have "char_of (48 + m :: nat) \<noteq> CHR ''.''" if "m < 10" for m
  proof
    assume "char_of (48 + m) = CHR ''.''"
    then have "of_char (char_of (48 + m :: nat)) = (of_char CHR ''.'' :: nat)" by simp
    with that show False by (simp add: take_bit_eq_mod)
  qed
  with less.IH [of "n div 10"] show ?case
    by (cases "n < 10") (auto simp: show_nat_digit show_nat_digits eq_commute [of "CHR ''.''"])
qed

text \<open>Within an account the id of a record tells the devices apart.\<close>

lemma device_record_id_inj:
  assumes "device_record_id a u d = device_record_id a' u' d'" "show_account a = show_account a'"
  shows "show_user u = show_user u' \<and> d = d'"
proof -
  have split: "xs = xs' \<and> n = n'"
    if "xs @ CHR ''.'' # n = xs' @ CHR ''.'' # n'" "CHR ''.'' \<notin> set n" "CHR ''.'' \<notin> set n'" for xs xs' n n' :: string
    using that by (auto simp: append_eq_append_conv2 append_eq_Cons_conv Cons_eq_append_conv)
  show ?thesis
    using split [of "show_user u" "show_nat d" "show_user u'" "show_nat d'"] assms show_nat_no_dot
    by (simp add: device_record_id_def show_nat_inj)
qed

lemma device_record_id_eq:
  "show_account a = show_account a' \<Longrightarrow>
     device_record_id a u d = device_record_id a' u' d' \<longleftrightarrow> show_user u = show_user u' \<and> d = d'"
  using device_record_id_inj [of a u d a' u' d'] by (auto simp: device_record_id_def)

definition stored_devices :: "account_id \<Rightarrow> user_id \<Rightarrow> user_device_record rows \<Rightarrow> user_device_record set" where
  "stored_devices account user rows = {r \<in> snd ` set rows. devices.belongs account user r}"

lemma new_device_record [simp]:
  "devices.well_formed (user_device_record_new account user d l)" "devices.belongs account user (user_device_record_new account user d l)"
  "ud_device_id (user_device_record_new account user d l) = d" "ud_account (user_device_record_new account user d l) = account"
  by (simp_all add: devices.well_formed_def devices.belongs_def same_user_def user_device_record_new_def)

lemma keyed_record:
  assumes "devices.keyed rows" "r \<in> snd ` set rows"
  shows "ud_id r = device_record_id (ud_account r) (ud_user_id r) (ud_device_id r)"
proof -
  have "devices.well_formed r" using assms by (auto simp: devices.keyed_def)
  then show ?thesis by (simp add: devices.well_formed_def)
qed

lemma own_record_id:
  assumes "devices.keyed rows" "r \<in> snd ` set rows" "devices.belongs account user r"
  shows "ud_id r = device_record_id account user d \<longleftrightarrow> ud_device_id r = d"
proof -
  from assms(3) keyed_record [OF assms(1,2)] show ?thesis by (auto simp: device_record_id_eq devices.belongs_def same_user_def)
qed

lemma put_device:
  assumes "devices.keyed rows"
  shows "devices.keyed (put_entity user_device_entity (user_device_record_new account user d l) rows) \<and>
    snd ` set (put_entity user_device_entity (user_device_record_new account user d l) rows) =
      {r \<in> snd ` set rows. ud_id r \<noteq> device_record_id account user d} \<union> {user_device_record_new account user d l}"
proof -
  let ?n = "user_device_record_new account user d l"
  have id: "ud_id ?n = device_record_id account user d" by (simp add: user_device_record_new_def)
  have "fst row = ud_id (snd row)" if "row \<in> set rows" for row
    using that assms(1) by (auto simp: devices.keyed_def)
  then have "filter (\<lambda>row. fst row \<noteq> ud_id ?n) rows = filter (\<lambda>row. ud_id (snd row) \<noteq> device_record_id account user d) rows"
    by (intro filter_cong) (auto simp: id)
  with devices.put_filter [OF assms(1), of ?n, simplified] show ?thesis
    using devices.keyed_put [OF assms(1), of ?n, simplified] by auto
qed

lemma put_new_devices_exact:
  assumes "devices.keyed rows"
  shows "devices.keyed (put_new_devices account user current ds rows) \<and>
    ud_device_id ` stored_devices account user (put_new_devices account user current ds rows) =
      ud_device_id ` stored_devices account user rows \<union> (dv_id ` set ds - set current) \<and>
    (\<forall>r. \<not> devices.belongs account user r \<longrightarrow>
      (r \<in> snd ` set (put_new_devices account user current ds rows) \<longleftrightarrow>
       r \<in> snd ` set rows \<and> ud_id r \<notin> device_record_id account user ` (dv_id ` set ds - set current))) \<and>
    (\<forall>r. devices.belongs account user r \<and> ud_device_id r \<in> set current \<longrightarrow>
      (r \<in> snd ` set (put_new_devices account user current ds rows) \<longleftrightarrow> r \<in> snd ` set rows))"
  using assms
proof (induction ds arbitrary: rows)
  case Nil
  then show ?case by (simp add: put_new_devices_def)
next
  case (Cons d ds)
  show ?case
  proof (cases "dv_id d \<in> set current")
    case True
    with Cons.IH [OF Cons.prems] show ?thesis by (simp add: put_new_devices_def insert_Diff_if)
  next
    case False
    let ?n = "user_device_record_new account user (dv_id d) (dv_label d)"
    let ?rows = "put_entity user_device_entity ?n rows"
    note put = put_device [OF Cons.prems, of account user "dv_id d" "dv_label d"]
    have step: "put_new_devices account user current (d # ds) rows = put_new_devices account user current ds ?rows"
      using False by (simp add: put_new_devices_def)
    have own: "r \<in> snd ` set ?rows \<longleftrightarrow> r = ?n \<or> r \<in> snd ` set rows \<and> ud_device_id r \<noteq> dv_id d" if "devices.belongs account user r" for r
      using that put own_record_id [OF Cons.prems _ that] by auto
    then have "stored_devices account user ?rows = insert ?n {r \<in> stored_devices account user rows. ud_device_id r \<noteq> dv_id d}"
      by (auto simp: stored_devices_def)
    then have ids: "ud_device_id ` stored_devices account user ?rows = insert (dv_id d) (ud_device_id ` stored_devices account user rows)"
      by auto
    have kept: "r \<in> snd ` set ?rows \<longleftrightarrow> r \<in> snd ` set rows" if "devices.belongs account user r \<and> ud_device_id r \<in> set current" for r
      using that own [of r] False by auto
    have others: "r \<in> snd ` set ?rows \<longleftrightarrow> r \<in> snd ` set rows \<and> ud_id r \<noteq> device_record_id account user (dv_id d)"
      if "\<not> devices.belongs account user r" for r
      using that put by auto
    have "devices.keyed ?rows" using put by blast
    note IH = Cons.IH [OF this]
    show ?thesis unfolding step
    proof (intro conjI allI impI)
      show "devices.keyed (put_new_devices account user current ds ?rows)" using IH by blast
      show "ud_device_id ` stored_devices account user (put_new_devices account user current ds ?rows) =
          ud_device_id ` stored_devices account user rows \<union> (dv_id ` set (d # ds) - set current)"
        using IH ids False by auto
    qed (use IH others kept False in \<open>auto simp: insert_Diff_if\<close>)
  qed
qed

lemma delete_devices_exact:
  "delete_devices account user devs rows =
     Inr (filter (\<lambda>row. \<not> (devices.belongs account user (snd row) \<and> ud_device_id (snd row) \<in> set devs)) rows)"
proof -
  have "fold_res (\<lambda>d rows. coll_delete user_device_entity (ByIndex device_idx) [account_key account, user_key user, device_key d] rows) devs rows =
      Inr (filter (\<lambda>row. \<not> (devices.belongs account user (snd row) \<and> ud_device_id (snd row) \<in> set devs)) rows)"
    by (induction devs arbitrary: rows) (auto simp: devices.delete_exact intro!: filter_cong)
  then show ?thesis by (simp add: delete_devices_def)
qed

lemma foreign_id_free:
  assumes "devices.keyed rows" "\<not> devices.belongs account user r" "r \<in> snd ` set rows" "ud_id r = device_record_id account user d"
  shows "d \<notin> ud_device_id ` stored_devices account user rows"
proof
  assume "d \<in> ud_device_id ` stored_devices account user rows"
  then obtain r' where r': "r' \<in> snd ` set rows" "devices.belongs account user r'" "ud_device_id r' = d"
    by (auto simp: stored_devices_def)
  then have "ud_id r' = ud_id r" using own_record_id [OF assms(1)] assms(4) by simp
  moreover obtain k k' where rows: "(k, r) \<in> set rows" "(k', r') \<in> set rows" using assms(3) r'(1) by auto
  moreover have "k = ud_id r" "k' = ud_id r'" "distinct (map fst rows)" using assms(1) rows by (auto simp: devices.keyed_def)
  ultimately have "r' = r" by (metis eq_key_imp_eq_value)
  with assms(2) r'(2) show False by simp
qed

lemma other_user_id:
  assumes "devices.keyed rows" "r \<in> snd ` set rows" "\<not> devices.belongs account user r" "show_account (ud_account r) = show_account account"
  shows "ud_id r \<notin> device_record_id account user ` ds"
proof
  assume "ud_id r \<in> device_record_id account user ` ds"
  with keyed_record [OF assms(1,2)] show False using assms(3,4) by (auto simp: device_record_id_eq devices.belongs_def same_user_def)
qed

text \<open>
  C34. After the list of devices of a user was stored exactly the devices of the list are stored for the user and the
  list counts as loaded. A device that was stored before keeps its record, so that a new label is not taken over. The devices
  of the other users of the account stay. A record of another account stays unless its id is that of a device of the list: the ids join account,
  user and device with dots, which the names may contain themselves. The hypothesis is that the records are stored under their ids.
\<close>

theorem device_list_stored:
  assumes "devices.keyed (dc_rows dc)" "devices_set_all account user ds dc = Inr dc'"
  shows "devices.keyed (dc_rows dc') \<and> user \<in> set (dc_updated dc') \<and>
    ud_device_id ` stored_devices account user (dc_rows dc') = dv_id ` set ds \<and>
    (\<forall>r \<in> stored_devices account user (dc_rows dc). ud_device_id r \<in> dv_id ` set ds \<longrightarrow> r \<in> stored_devices account user (dc_rows dc')) \<and>
    (\<forall>r. \<not> devices.belongs account user r \<longrightarrow>
      (r \<in> snd ` set (dc_rows dc') \<longleftrightarrow> r \<in> snd ` set (dc_rows dc) \<and> ud_id r \<notin> device_record_id account user ` dv_id ` set ds)) \<and>
    (\<forall>r \<in> snd ` set (dc_rows dc). \<not> devices.belongs account user r \<and> show_account (ud_account r) = show_account account \<longrightarrow>
      r \<in> snd ` set (dc_rows dc'))"
proof -
  let ?rs = "map snd (filter (\<lambda>row. devices.belongs account user (snd row)) (dc_rows dc))"
  let ?current = "map ud_device_id ?rs"
  have current: "set ?current = ud_device_id ` stored_devices account user (dc_rows dc)"
    by (auto simp: stored_devices_def)
  let ?new = "put_new_devices account user ?current ds (dc_rows dc)"
  let ?gone = "filter (\<lambda>d. d \<notin> dv_id ` set ds) ?current"
  have dc': "dc' = \<lparr>dc_rows = filter (\<lambda>row. \<not> (devices.belongs account user (snd row) \<and> ud_device_id (snd row) \<in> set ?gone)) ?new,
      dc_updated = List.insert user (dc_updated dc)\<rparr>"
    using assms(2) by (auto simp: devices_set_all_def user_device_records_def devices.user_values delete_devices_exact Let_def image_image)
  note new = put_new_devices_exact [OF assms(1), of account user ?current ds]
  have snd_filter: "snd ` set (dc_rows dc') = {r \<in> snd ` set ?new. \<not> (devices.belongs account user r \<and> ud_device_id r \<in> set ?gone)}"
    using dc' by auto
  then have "stored_devices account user (dc_rows dc') = {r \<in> stored_devices account user ?new. ud_device_id r \<notin> set ?gone}"
    by (auto simp: stored_devices_def)
  then have "ud_device_id ` stored_devices account user (dc_rows dc') = ud_device_id ` stored_devices account user ?new - set ?gone"
    by auto
  also have "\<dots> = dv_id ` set ds" using new current by auto
  finally have ids: "ud_device_id ` stored_devices account user (dc_rows dc') = dv_id ` set ds" .
  have kept: "r \<in> stored_devices account user (dc_rows dc')"
    if "r \<in> stored_devices account user (dc_rows dc)" "ud_device_id r \<in> dv_id ` set ds" for r
    using that new current snd_filter by (auto simp: stored_devices_def)
  have others: "r \<in> snd ` set (dc_rows dc') \<longleftrightarrow> r \<in> snd ` set (dc_rows dc) \<and> ud_id r \<notin> device_record_id account user ` dv_id ` set ds"
    if "\<not> devices.belongs account user r" for r
  proof -
    have "r \<in> snd ` set (dc_rows dc') \<longleftrightarrow> r \<in> snd ` set ?new" using that snd_filter by blast
    also have "\<dots> \<longleftrightarrow> r \<in> snd ` set (dc_rows dc) \<and> ud_id r \<notin> device_record_id account user ` (dv_id ` set ds - set ?current)"
      using that new by blast
    also have "\<dots> \<longleftrightarrow> r \<in> snd ` set (dc_rows dc) \<and> ud_id r \<notin> device_record_id account user ` dv_id ` set ds"
      using foreign_id_free [OF assms(1) that] current by blast
    finally show ?thesis .
  qed
  have "devices.keyed (dc_rows dc')" "user \<in> set (dc_updated dc')" using dc' new devices.keyed_filter by simp_all
  moreover have "r \<in> snd ` set (dc_rows dc')"
    if "r \<in> snd ` set (dc_rows dc)" "\<not> devices.belongs account user r" "show_account (ud_account r) = show_account account" for r
    using that others [OF that(2)] other_user_id [OF assms(1) that] by blast
  ultimately show ?thesis using ids kept others by (intro conjI allI ballI impI) simp_all
qed

section \<open>Fingerprints\<close>

lemma chunks_concat: "0 < n \<Longrightarrow> concat (chunks n xs) = xs"
  by (induction n xs rule: chunks.induct) (auto simp: append_take_drop_id simp flip: append_assoc)

lemma join_with_filter:
  "filter (\<lambda>c. c \<noteq> s) (join_with [s] xss) = filter (\<lambda>c. c \<noteq> s) (concat xss)"
  by (induction xss rule: induct_list012) auto

lemma hex_digit_inj:
  assumes "a < 16" "b < 16" "hex_digit a = hex_digit b"
  shows "a = b"
proof -
  have "of_char (hex_digit a) = (of_char (hex_digit b) :: nat)" using assms(3) by simp
  with assms(1,2) show ?thesis by (auto simp: hex_digit_def take_bit_eq_mod split: if_splits)
qed

lemma hex_digit_no_space: "a < 16 \<Longrightarrow> hex_digit a \<noteq> CHR '' ''"
proof
  assume a: "a < 16" "hex_digit a = CHR '' ''"
  then have "of_char (hex_digit a) = (of_char CHR '' '' :: nat)" by simp
  with a(1) show False by (auto simp: hex_digit_def take_bit_eq_mod split: if_splits)
qed

lemma hex_bytes_inj:
  assumes "list_all (\<lambda>b. b < 256) xs" "list_all (\<lambda>b. b < 256) ys" "concat (map hex_byte xs) = concat (map hex_byte ys)"
  shows "xs = ys"
  using assms
proof (induction xs arbitrary: ys)
  case Nil
  then show ?case by (cases ys) (auto simp: hex_byte_def)
next
  case (Cons x xs)
  then obtain y ys' where ys: "ys = y # ys'" by (cases ys) (auto simp: hex_byte_def)
  with Cons.prems(3) have digits: "hex_digit (x div 16) = hex_digit (y div 16)" "hex_digit (x mod 16) = hex_digit (y mod 16)"
    and rest: "concat (map hex_byte xs) = concat (map hex_byte ys')"
    by (simp_all add: hex_byte_def [of x] hex_byte_def [of y])
  with Cons.prems(1,2) ys have "x div 16 = y div 16" "x mod 16 = y mod 16" by (auto intro: hex_digit_inj)
  then have "x = y" by (metis div_mult_mod_eq)
  with Cons.IH [of ys'] Cons.prems(1,2) rest ys show ?case by simp
qed

lemma fingerprint_digits:
  assumes "list_all (\<lambda>b. b < 256) key"
  shows "filter (\<lambda>c. c \<noteq> CHR '' '') (fingerprint key) = concat (map hex_byte (drop 1 key))"
proof -
  have "CHR '' '' \<notin> set (hex_byte b)" if "b \<in> set (drop 1 key)" for b
  proof -
    have "b < 256" using that assms by (auto simp: list_all_iff dest: in_set_dropD)
    then have "b div 16 < 16" "b mod 16 < 16" by auto
    from hex_digit_no_space [OF this(1)] hex_digit_no_space [OF this(2)] show ?thesis
      by (auto simp: hex_byte_def dest: sym)
  qed
  then have "CHR '' '' \<notin> set (concat (map hex_byte (drop 1 key)))" by auto
  then have "filter (\<lambda>c. c \<noteq> CHR '' '') (concat (map hex_byte (drop 1 key))) = concat (map hex_byte (drop 1 key))"
    by (auto simp: filter_id_conv)
  moreover have "concat (map concat xss) = concat (concat xss)" for xss :: "string list list" by (induction xss) simp_all
  then have "concat (map concat (chunks 4 (map hex_byte (drop 1 key)))) = concat (map hex_byte (drop 1 key))"
    by (simp add: chunks_concat)
  ultimately show ?thesis by (simp add: fingerprint_def join_with_filter )
qed

text \<open>Keys with the same fingerprint are the same, up to the byte for the type of the key.\<close>

lemma fingerprint_inj:
  assumes "list_all (\<lambda>b. b < 256) k" "list_all (\<lambda>b. b < 256) k'" "fingerprint k = fingerprint k'"
  shows "drop 1 k = drop 1 k'"
proof -
  have "concat (map hex_byte (drop 1 k)) = concat (map hex_byte (drop 1 k'))"
    using fingerprint_digits [OF assms(1)] fingerprint_digits [OF assms(2)] assms(3) by simp
  moreover have "list_all (\<lambda>b. b < 256) (drop 1 k)" "list_all (\<lambda>b. b < 256) (drop 1 k')"
    using assms(1,2) by (auto simp: list_all_iff dest: in_set_dropD)
  ultimately show ?thesis using hex_bytes_inj by blast
qed

section \<open>Examples\<close>

definition sample_owner :: account_id where "sample_owner = AccountId (UserId (BareJid (Some ''me'') ''home''))"
definition sample_peer :: user_id where "sample_peer = UserId (BareJid (Some ''a'') ''b'')"

definition sample_session :: "device_id \<Rightarrow> session_record" where
  "sample_session d =
     session_record_new sample_owner \<lparr>ss_user_id = sample_peer, ss_device_id = d, ss_trust = Verified, ss_is_active = True,
       ss_identity = Some [5, d], ss_data = None\<rparr>"

definition sample_sessions :: "session_record rows" where
  "sample_sessions = [(sr_id (sample_session 1), sample_session 1), (sr_id (sample_session 2), sample_session 2)]"

lemma sample_sessions_keyed: "sessions.keyed sample_sessions"
proof -
  have "sr_id (sample_session 1) \<noteq> sr_id (sample_session 2)" by code_simp
  then show ?thesis
    by (simp add: sample_sessions_def sessions.keyed_def) (simp add: sample_session_def)
qed

theorem active_devices_exact_witness:
  "\<exists>rows'. put_active_devices sample_owner sample_peer [2] sample_sessions = Inr rows' \<and>
     map_of rows' (sr_id (sample_session 1)) = Some ((sample_session 1)\<lparr>sr_is_active := False\<rparr>)"
proof -
  obtain rows' where run: "put_active_devices sample_owner sample_peer [2] sample_sessions = Inr rows'"
    by (simp add: put_active_devices_def user_sessions_exact)
  have "sessions.belongs sample_owner sample_peer (sample_session 1)" "sr_device_id (sample_session 1) = 1"
    by (simp_all add: sessions.belongs_def same_user_def sample_session_def session_record_new_def)
  moreover have "map_of sample_sessions (sr_id (sample_session 1)) = Some (sample_session 1)" by (simp add: sample_sessions_def)
  ultimately show ?thesis
    using active_devices_exact [OF sample_sessions_keyed run, of "sr_id (sample_session 1)"] run by simp
qed

theorem replaced_identity_keeps_trust_witness:
  "\<exists>rows'. put_identity sample_owner sample_peer 1 [5, 9] sample_sessions = Inr (True, rows') \<and>
     map_option ss_trust (case get_session sample_owner sample_peer 1 rows' of Inr s \<Rightarrow> s | Inl _ \<Rightarrow> None) = Some Verified"
  using replaced_identity_keeps_trust [OF sample_sessions_keyed, of "sample_session 1" "[5, 1]" "[5, 9]"]
  by (auto simp: sample_sessions_def sample_session_def session_record_new_def session_from_def)

definition sample_device_cache :: device_cache where
  "sample_device_cache =
     \<lparr>dc_rows = [(ud_id r, r). r \<leftarrow> [user_device_record_new sample_owner sample_peer 1 None]], dc_updated = []\<rparr>"

theorem device_list_stored_witness:
  "\<exists>dc'. devices_set_all sample_owner sample_peer [\<lparr>dv_id = 2, dv_label = None\<rparr>] sample_device_cache = Inr dc' \<and>
     ud_device_id ` stored_devices sample_owner sample_peer (dc_rows dc') = {2}"
proof -
  have "devices.keyed (dc_rows sample_device_cache)"
    by (simp add: sample_device_cache_def devices.keyed_def)
  moreover obtain dc' where "devices_set_all sample_owner sample_peer [\<lparr>dv_id = 2, dv_label = None\<rparr>] sample_device_cache = Inr dc'"
    by (simp add: devices_set_all_def user_device_records_def devices.user_values delete_devices_exact Let_def)
  ultimately show ?thesis
    using device_list_stored [of sample_device_cache sample_owner sample_peer "[\<lparr>dv_id = 2, dv_label = None\<rparr>]" dc'] by auto
qed

end
