(* ===== verification/Encryption.thy ===== *)
theory Encryption
  imports OmemoRepos MessageEvents Requests
begin

text \<open>
  Encrypted messages: the domain service of
  \<^verbatim>\<open>domain/encryption/services/impls/encryption_domain_service.rs\<close>, over the repositories of theory
  OmemoRepos and the stored messages.

  The Signal protocol, AES-GCM, the random numbers and the server are parameters. The protocol keeps its
  state in the repositories, so its operations act on the whole state. Futures that are joined run one
  after the other, in the order of the list; all of them run, and the first error counts. Decryption contexts are
  shared, so they are kept in a heap and passed by reference.
\<close>

section \<open>State and services\<close>

record decryption_inner =
  di_message_senders :: "(user_id \<times> device_id) list"
  di_broken_sessions :: "(user_id \<times> device_id) list"
  di_used_pre_keys :: "nat list"

definition empty_inner :: decryption_inner where
  "empty_inner = \<lparr>di_message_senders = [], di_broken_sessions = [], di_used_pre_keys = []\<rparr>"

datatype omemo_request =
    LoadDeviceList user_id
  | PublishDeviceList "device list"
  | DeleteDeviceList
  | LoadDeviceBundle user_id device_id
  | PublishDeviceBundle device_bundle
  | DeleteDeviceBundle device_id
  | SendKeyTransport user_id key_transport_payload

record omemo_state =
  om_sessions :: "session_record rows"
  om_devices :: device_cache
  om_keys :: key_store
  om_messages :: message_rows
  om_contexts :: "decryption_inner list"
  om_unpublish_attempts :: "device_id list"
  om_repair_attempts :: "(user_id \<times> device_id) list"
  om_log :: "omemo_request list"
  om_random :: nat

type_synonym 'a omemo_prog = "(omemo_state, 'a) program"

record omemo_services =
  ov_account :: "string + account_id"
  ov_software_name :: string
  ov_software_os :: "string option"
  ov_clock :: clock
  ov_now :: "omemo_state \<Rightarrow> timestamp"
  ov_new_id :: "nat \<Rightarrow> device_id"
  ov_nonce :: "nat \<Rightarrow> bytes"
  ov_generate_key :: "nat \<Rightarrow> bytes"
  ov_choose :: "nat \<Rightarrow> public_pre_key list \<Rightarrow> public_pre_key"
  ov_aes_encrypt :: "bytes \<Rightarrow> bytes \<Rightarrow> bytes \<Rightarrow> string + bytes"
  ov_aes_decrypt :: "bytes \<Rightarrow> bytes \<Rightarrow> bytes \<Rightarrow> string + bytes"
  ov_from_utf8 :: "bytes \<Rightarrow> string + string"
  ov_device_list :: "omemo_request list \<Rightarrow> user_id \<Rightarrow> string + device list"
  ov_device_bundle :: "omemo_request list \<Rightarrow> user_id \<Rightarrow> device_id \<Rightarrow> string + device_bundle option"
  ov_accepts :: "omemo_request list \<Rightarrow> omemo_request \<Rightarrow> string + unit"
  ov_generate_bundle :: "account_id \<Rightarrow> device_id \<Rightarrow> local_encryption_bundle omemo_prog"
  ov_generate_pre_keys :: "account_id \<Rightarrow> nat list \<Rightarrow> pre_key list omemo_prog"
  ov_process_pre_key_bundle :: "account_id \<Rightarrow> user_id \<Rightarrow> pre_key_bundle \<Rightarrow> unit omemo_prog"
  ov_encrypt_key :: "account_id \<Rightarrow> user_id \<Rightarrow> device_id \<Rightarrow> bytes \<Rightarrow> timestamp \<Rightarrow> encryption_key omemo_prog"
  ov_decrypt_key :: "account_id \<Rightarrow> user_id \<Rightarrow> device_id \<Rightarrow> bytes \<Rightarrow> bool \<Rightarrow> decryption_context \<Rightarrow> bytes omemo_prog"

definition omemo_account :: "omemo_services \<Rightarrow> account_id omemo_prog" where
  "omemo_account ov = lift_any (ov_account ov)"

text \<open>\<^verbatim>\<open>anyhow::Context\<close>: the error is told by what was attempted.\<close>

definition with_context :: "string \<Rightarrow> 'a omemo_prog \<Rightarrow> 'a omemo_prog" where
  "with_context msg m s = (case m s of (Err _, s') \<Rightarrow> (Err (Anyhow msg), s') | r \<Rightarrow> r)"

definition next_random :: "(nat \<Rightarrow> 'a) \<Rightarrow> 'a omemo_prog" where
  "next_random f s = (Ok (f (om_random s)), s\<lparr>om_random := Suc (om_random s)\<rparr>)"

text \<open>\<^verbatim>\<open>join_all\<close> of futures, and the first error among their results.\<close>

definition join_all :: "('a \<Rightarrow> 'b omemo_prog) \<Rightarrow> 'a list \<Rightarrow> 'b list omemo_prog" where
  "join_all f xs = bindM (mapM (\<lambda>x. attempt (f x)) xs) (\<lambda>rs. lift_res (collect_results rs))"

definition ignore_error :: "'a omemo_prog \<Rightarrow> unit omemo_prog" where
  "ignore_error m = thenM (attempt m) (return ())"

text \<open>The device service (\<^verbatim>\<open>infra/encryption/user_device_service.rs\<close>): what is asked of the server is logged.\<close>

definition ask_server :: "omemo_request \<Rightarrow> (omemo_request list \<Rightarrow> string + 'a) \<Rightarrow> 'a omemo_prog" where
  "ask_server req reply_with s = lift_any (reply_with (om_log s)) (s\<lparr>om_log := om_log s @ [req]\<rparr>)"

definition tell_server :: "omemo_services \<Rightarrow> omemo_request \<Rightarrow> unit omemo_prog" where
  "tell_server ov req = ask_server req (\<lambda>log. ov_accepts ov log req)"

definition load_device_bundle :: "omemo_services \<Rightarrow> user_id \<Rightarrow> device_id \<Rightarrow> device_bundle option omemo_prog" where
  "load_device_bundle ov user dev = ask_server (LoadDeviceBundle user dev) (\<lambda>log. ov_device_bundle ov log user dev)"

text \<open>The repositories as parts of the state.\<close>

definition om_all_sessions :: "account_id \<Rightarrow> user_id \<Rightarrow> session list omemo_prog" where
  "om_all_sessions account user = bindM (gets (\<lambda>s. get_all_sessions account user (om_sessions s))) lift_store"

definition om_local_device :: "account_id \<Rightarrow> local_device option omemo_prog" where
  "om_local_device account = bindM (gets (\<lambda>s. get_local_device account (om_keys s))) lift_store"

definition om_local_bundle :: "account_id \<Rightarrow> device_bundle option omemo_prog" where
  "om_local_bundle account = bindM (gets (\<lambda>s. get_local_device_bundle account (om_keys s))) lift_store"

definition om_set_devices :: "account_id \<Rightarrow> user_id \<Rightarrow> device list \<Rightarrow> unit omemo_prog" where
  "om_set_devices account user devices =
     bindM (gets (\<lambda>s. devices_set_all account user devices (om_devices s))) (\<lambda>r.
     bindM (lift_store r) (\<lambda>dc. modify_world (\<lambda>s. s\<lparr>om_devices := dc\<rparr>)))"

definition om_get_devices :: "omemo_services \<Rightarrow> account_id \<Rightarrow> user_id \<Rightarrow> device list omemo_prog" where
  "om_get_devices ov account user =
     bindM (gets (\<lambda>s. user \<in> set (dc_updated (om_devices s)))) (\<lambda>updated.
     if updated then bindM (gets (\<lambda>s. fetch_devices account user (dc_rows (om_devices s)))) lift_store
     else
       bindM (ask_server (LoadDeviceList user) (\<lambda>log. ov_device_list ov log user)) (\<lambda>devices.
       thenM (om_set_devices account user devices) (return devices)))"

text \<open>Decryption contexts.\<close>

definition new_context :: "decryption_context omemo_prog" where
  "new_context s = (Ok (length (om_contexts s)), s\<lparr>om_contexts := om_contexts s @ [empty_inner]\<rparr>)"

definition update_context :: "decryption_context \<Rightarrow> (decryption_inner \<Rightarrow> decryption_inner) \<Rightarrow> unit omemo_prog" where
  "update_context c f = modify_world (\<lambda>s. s\<lparr>om_contexts := (om_contexts s)[c := f (om_contexts s ! c)]\<rparr>)"

definition insert_message_sender :: "decryption_context \<Rightarrow> user_id \<Rightarrow> device_id \<Rightarrow> unit omemo_prog" where
  "insert_message_sender c user dev =
     update_context c (\<lambda>i. i\<lparr>di_message_senders := List.insert (user, dev) (di_message_senders i)\<rparr>)"

definition insert_used_pre_key :: "decryption_context \<Rightarrow> nat \<Rightarrow> unit omemo_prog" where
  "insert_used_pre_key c k = update_context c (\<lambda>i. i\<lparr>di_used_pre_keys := List.insert k (di_used_pre_keys i)\<rparr>)"

definition insert_broken_session :: "decryption_context \<Rightarrow> user_id \<Rightarrow> device_id \<Rightarrow> unit omemo_prog" where
  "insert_broken_session c user dev =
     update_context c (\<lambda>i. i\<lparr>di_broken_sessions := List.insert (user, dev) (di_broken_sessions i)\<rparr>)"

definition context_into_inner :: "decryption_context \<Rightarrow> decryption_inner omemo_prog" where
  "context_into_inner c =
     bindM (gets (\<lambda>s. om_contexts s ! c)) (\<lambda>i. thenM (update_context c (\<lambda>_. empty_inner)) (return i))"

definition context_or_new :: "decryption_context option \<Rightarrow> decryption_context omemo_prog" where
  "context_or_new c = (case c of Some c \<Rightarrow> return c | None \<Rightarrow> new_context)"

section \<open>Sessions\<close>

definition build_local_device_label :: "omemo_services \<Rightarrow> string" where
  "build_local_device_label ov =
     (case ov_software_os ov of
        Some os \<Rightarrow> ov_software_name ov @ '' ('' @ os @ '')''
      | None \<Rightarrow> ov_software_name ov)"

definition own_device :: "omemo_services \<Rightarrow> device_id \<Rightarrow> device" where
  "own_device ov dev = \<lparr>dv_id = dev, dv_label = Some (build_local_device_label ov)\<rparr>"

definition unpublish_device :: "omemo_services \<Rightarrow> account_id \<Rightarrow> device_id \<Rightarrow> unit omemo_prog" where
  "unpublish_device ov account dev =
     bindM (om_get_devices ov account (account_user_id account)) (\<lambda>devices.
     let remaining = filter (\<lambda>d. dv_id d \<noteq> dev) devices in
     if length remaining = length devices then return ()
     else with_context ''Failed to publish our device list'' (tell_server ov (PublishDeviceList remaining)))"

text \<open>One attempt per device of the own account until the next \<^verbatim>\<open>initialize\<close>; errors are ignored.\<close>

definition unpublish_once :: "omemo_services \<Rightarrow> account_id \<Rightarrow> user_id \<Rightarrow> device_id \<Rightarrow> unit omemo_prog" where
  "unpublish_once ov account user dev =
     bindM (gets (\<lambda>s. account_user_id account = user \<and> dev \<notin> set (om_unpublish_attempts s))) (\<lambda>first.
     if first then
       thenM (modify_world (\<lambda>s. s\<lparr>om_unpublish_attempts := List.insert dev (om_unpublish_attempts s)\<rparr>))
         (ignore_error (unpublish_device ov account dev))
     else return ())"

definition start_session_with_device :: "omemo_services \<Rightarrow> account_id \<Rightarrow> user_id \<Rightarrow> device_id \<Rightarrow> unit omemo_prog" where
  "start_session_with_device ov account user dev =
     bindM (with_context (''Failed to load device bundle for '' @ show_user user @ '' ('' @ show_nat dev @ '')'')
        (load_device_bundle ov user dev)) (\<lambda>found.
     case found of
       None \<Rightarrow> unpublish_once ov account user dev
     | Some bundle \<Rightarrow>
         if db_pre_keys bundle = [] then fail ''No pre_keys available.''
         else
           bindM (next_random (\<lambda>n. ov_choose ov n (db_pre_keys bundle))) (\<lambda>k.
           bindM (attempt (with_context (''Failed to process PreKey bundle for '' @ show_user user @ '' ('' @ show_nat dev @ '')'')
             (ov_process_pre_key_bundle ov account user
               \<lparr>pb_device_id = dev, pb_signed_pre_key = db_signed_pre_key bundle, pb_identity_key = db_identity_key bundle,
                pb_pre_key = k\<rparr>))) (\<lambda>r.
           case r of
             Inr _ \<Rightarrow> return ()
           | Inl err \<Rightarrow> thenM (unpublish_once ov account user dev) (throw err))))"

definition start_session_if_needed :: "omemo_services \<Rightarrow> account_id \<Rightarrow> user_id \<Rightarrow> device_id \<Rightarrow> unit omemo_prog" where
  "start_session_if_needed ov account user dev =
     bindM (gets (\<lambda>s. get_session account user dev (om_sessions s))) (\<lambda>r.
     bindM (lift_store r) (\<lambda>found.
     if found \<noteq> None then return ()
     else with_context (''Failed to start session with '' @ show_user user @ '' ('' @ show_nat dev @ '')'')
       (start_session_with_device ov account user dev)))"

definition start_sessions_if_needed :: "omemo_services \<Rightarrow> account_id \<Rightarrow> user_id \<Rightarrow> device list \<Rightarrow> unit omemo_prog" where
  "start_sessions_if_needed ov account user devices =
     bindM (gets (\<lambda>s. put_active_devices account user (map dv_id devices) (om_sessions s))) (\<lambda>r.
     bindM (lift_store r) (\<lambda>rows.
     thenM (modify_world (\<lambda>s. s\<lparr>om_sessions := rows\<rparr>))
     (thenM (join_all (start_session_if_needed ov account user) (map dv_id devices)) (return ()))))"

definition get_active_and_trusted_device_ids :: "account_id \<Rightarrow> user_id \<Rightarrow> device_id list omemo_prog" where
  "get_active_and_trusted_device_ids account user =
     bindM (om_all_sessions account user) (\<lambda>ss.
     return (map ss_device_id (filter (\<lambda>s. ss_is_active s \<and> is_trusted_or_undecided s) ss)))"

definition missing_bundle :: "local_device option \<Rightarrow> local_device omemo_prog" where
  "missing_bundle found =
     (case found of Some dev \<Rightarrow> return dev | None \<Rightarrow> fail ''Missing local encryption bundle'')"

section \<open>Encrypting\<close>

datatype encryption_error = NoDevices user_id | NoTrustedDevices user_id

text \<open>The errors of other kinds are errors of the program.\<close>

definition try_start_sessions :: "omemo_services \<Rightarrow> account_id \<Rightarrow> user_id \<Rightarrow> (device \<Rightarrow> bool) \<Rightarrow> unit omemo_prog" where
  "try_start_sessions ov account user P =
     bindM (om_get_devices ov account user) (\<lambda>devices.
     ignore_error (start_sessions_if_needed ov account user (filter P devices)))"

fun their_active_device_ids :: "account_id \<Rightarrow> user_id list \<Rightarrow> (encryption_error + (user_id \<times> device_id) list) omemo_prog" where
  "their_active_device_ids account [] = return (Inr [])"
| "their_active_device_ids account (u # us) =
     bindM (om_all_sessions account u) (\<lambda>ss.
     let active = filter ss_is_active ss;
         ids = map (\<lambda>s. (u, ss_device_id s)) (filter is_trusted_or_undecided active)
     in if active = [] then return (Inl (NoDevices u))
        else if ids = [] then return (Inl (NoDevices u))
        else bindM (their_active_device_ids account us) (\<lambda>r. return (map_sum id ((@) ids) r)))"

definition key_size :: nat where "key_size = 16"
definition mac_size :: nat where "mac_size = 16"

text \<open>The key and the authentication tag, which is what follows the encrypted text.\<close>

definition dek_and_mac :: "bytes \<Rightarrow> nat \<Rightarrow> bytes \<Rightarrow> bytes omemo_prog" where
  "dek_and_mac dek n payload =
     (if n \<le> length payload \<and> length (drop n payload) = mac_size \<and> length dek = key_size then return (dek @ drop n payload)
      else panic ''source slice length does not match destination slice length'')"

definition string_bytes :: "string \<Rightarrow> bytes" where
  "string_bytes s = map of_char s"

definition encrypt_message :: "omemo_services \<Rightarrow> user_id list \<Rightarrow> string \<Rightarrow> (encryption_error + encrypted_payload) omemo_prog" where
  "encrypt_message ov recipients message =
     bindM (omemo_account ov) (\<lambda>account.
     let me = account_user_id account in
     bindM (om_local_device account) (\<lambda>found.
     bindM (missing_bundle found) (\<lambda>local_dev.
     thenM (try_start_sessions ov account me (\<lambda>d. dv_id d \<noteq> ld_device_id local_dev))
     (thenM (for_each (\<lambda>u. try_start_sessions ov account u (\<lambda>_. True)) recipients)
     (bindM (their_active_device_ids account recipients) (\<lambda>theirs.
     case theirs of
       Inl err \<Rightarrow> return (Inl err)
     | Inr their_ids \<Rightarrow>
         bindM (next_random (ov_nonce ov)) (\<lambda>nonce.
         bindM (next_random (ov_generate_key ov)) (\<lambda>dek.
         bindM (lift_any (ov_aes_encrypt ov dek nonce (string_bytes message))) (\<lambda>payload.
         bindM (dek_and_mac dek (length message) payload) (\<lambda>key.
         bindM (gets (ov_now ov)) (\<lambda>now.
         bindM (get_active_and_trusted_device_ids account me) (\<lambda>our_ids.
         bindM (join_all (\<lambda>(u, d). ov_encrypt_key ov account u d key now)
             (map (Pair me) (filter (\<lambda>d. d \<noteq> ld_device_id local_dev) our_ids) @ their_ids)) (\<lambda>keys.
         return (Inr \<lparr>ep_device_id = ld_device_id local_dev, ep_iv = nonce, ep_keys = keys,
           ep_payload = take (length message) payload\<rparr>))))))))))))))"

section \<open>Decrypting\<close>

definition decrypt_key :: "omemo_services \<Rightarrow> account_id \<Rightarrow> encryption_key \<Rightarrow> user_id \<Rightarrow> device_id \<Rightarrow> decryption_context \<Rightarrow>
    bytes omemo_prog" where
  "decrypt_key ov account k sender_id sender_dev c =
     bindM (ov_decrypt_key ov account sender_id sender_dev (ek_data k) (ek_is_pre_key k) c) (\<lambda>key.
     if length key \<noteq> mac_size + key_size then fail ''Invalid DEK and MAC size'' else return key)"

text \<open>A nonce of another length than 12 bytes makes \<^verbatim>\<open>Nonce::from_slice\<close> panic.\<close>

definition nonce_from_slice :: "bytes \<Rightarrow> bytes omemo_prog" where
  "nonce_from_slice iv =
     (if length iv = 12 then return iv else panic ''assertion `left == right` failed'')"

definition decrypt_payload :: "omemo_services \<Rightarrow> user_id \<Rightarrow> encrypted_payload \<Rightarrow> decryption_context \<Rightarrow> string omemo_prog" where
  "decrypt_payload ov sender_id p c =
     bindM (omemo_account ov) (\<lambda>account.
     bindM (om_local_device account) (\<lambda>found.
     bindM (missing_bundle found) (\<lambda>local_dev.
     case payload_get_key (ld_device_id local_dev) p of
       None \<Rightarrow> fail ''The message was not encrypted for this device.''
     | Some k \<Rightarrow>
         thenM (if ek_is_pre_key k then insert_message_sender c sender_id (ep_device_id p) else return ())
         (bindM (attempt (decrypt_key ov account k sender_id (ep_device_id p) c)) (\<lambda>r.
          case r of
            Inl err \<Rightarrow> thenM (insert_broken_session c sender_id (ep_device_id p)) (throw err)
          | Inr key \<Rightarrow>
              bindM (nonce_from_slice (ep_iv p)) (\<lambda>nonce.
              bindM (lift_any (ov_aes_decrypt ov (take key_size key) nonce (ep_payload p @ drop key_size key))) (\<lambda>bs.
              lift_any (ov_from_utf8 ov bs))))))))"

definition complete_session :: "omemo_services \<Rightarrow> account_id \<Rightarrow> device_id \<Rightarrow> user_id \<Rightarrow> device_id \<Rightarrow> unit omemo_prog" where
  "complete_session ov account local_dev sender_id sender_dev =
     bindM (next_random (ov_nonce ov)) (\<lambda>nonce.
     bindM (next_random (ov_generate_key ov)) (\<lambda>dek.
     bindM (gets (ov_now ov)) (\<lambda>now.
     bindM (ov_encrypt_key ov account sender_id sender_dev (dek @ replicate mac_size 0) now) (\<lambda>k.
     tell_server ov (SendKeyTransport sender_id \<lparr>kt_device_id = local_dev, kt_iv = nonce, kt_keys = [k]\<rparr>)))))"

definition sort_pre_keys :: "device_bundle \<Rightarrow> device_bundle" where
  "sort_pre_keys b = b\<lparr>db_pre_keys := sort_key ppk_id (db_pre_keys b)\<rparr>"

definition refresh_and_publish_prekeys :: "omemo_services \<Rightarrow> account_id \<Rightarrow> nat list \<Rightarrow> unit omemo_prog" where
  "refresh_and_publish_prekeys ov account used =
     (if used = [] then return ()
      else
        bindM (with_context ''Failed to re-generate deleted PreKeys'' (ov_generate_pre_keys ov account used)) (\<lambda>keys.
        thenM (modify_world (\<lambda>s. s\<lparr>om_keys := put_pre_keys account keys (om_keys s)\<rparr>))
        (bindM (om_local_bundle account) (\<lambda>found.
         case found of
           None \<Rightarrow> fail ''Missing own device bundle''
         | Some b \<Rightarrow>
             with_context ''Failed to publish device bundle with re-generated PreKeys''
               (tell_server ov (PublishDeviceBundle (sort_pre_keys b)))))))"

text \<open>A broken session is replaced once until the next \<^verbatim>\<open>initialize\<close>.\<close>

definition repair_once :: "omemo_services \<Rightarrow> account_id \<Rightarrow> user_id \<times> device_id \<Rightarrow> unit omemo_prog" where
  "repair_once ov account broken =
     bindM (gets (\<lambda>s. broken \<notin> set (om_repair_attempts s))) (\<lambda>first.
     if first then
       thenM (modify_world (\<lambda>s. s\<lparr>om_repair_attempts := List.insert broken (om_repair_attempts s)\<rparr>))
         (ignore_error (start_session_with_device ov account (fst broken) (snd broken)))
     else return ())"

definition finalize_decryption :: "omemo_services \<Rightarrow> decryption_context \<Rightarrow> unit omemo_prog" where
  "finalize_decryption ov c =
     bindM (attempt (omemo_account ov)) (\<lambda>a.
     case a of
       Inl _ \<Rightarrow> return ()
     | Inr account \<Rightarrow>
         bindM (attempt (om_local_device account)) (\<lambda>found.
         case found of
           Inr (Some local_dev) \<Rightarrow>
             bindM (context_into_inner c) (\<lambda>i.
             thenM (ignore_error (refresh_and_publish_prekeys ov account (di_used_pre_keys i)))
             (thenM (for_each (\<lambda>(u, d). ignore_error (complete_session ov account (ld_device_id local_dev) u d)) (di_message_senders i))
             (for_each (repair_once ov account) (di_broken_sessions i))))
         | _ \<Rightarrow> return ()))"

text \<open>A message that cannot be decrypted may have been decrypted and stored before.\<close>

definition decrypt_message :: "omemo_services \<Rightarrow> user_id \<Rightarrow> room_id \<Rightarrow> message_id option \<Rightarrow> encrypted_payload \<Rightarrow>
    decryption_context option \<Rightarrow> string omemo_prog" where
  "decrypt_message ov sender_id room mid p ctx =
     bindM (context_or_new ctx) (\<lambda>c.
     bindM (attempt (decrypt_payload ov sender_id p c)) (\<lambda>r.
     case r of
       Inr message \<Rightarrow> thenM (if ctx = None then finalize_decryption ov c else return ()) (return message)
     | Inl err \<Rightarrow>
         (case mid of
            None \<Rightarrow> throw err
          | Some i \<Rightarrow>
              bindM (omemo_account ov) (\<lambda>account.
              bindM (gets (\<lambda>s. messages_get (ov_clock ov) account room i (om_messages s))) (\<lambda>stored.
              bindM (attempt (lift_store stored)) (\<lambda>stored.
              case stored of
                Inr (m # _) \<Rightarrow> (case ml_payload m of PMessage body _ _ _ _ _ \<Rightarrow> return (lb_raw body) | _ \<Rightarrow> throw err)
              | _ \<Rightarrow> throw err))))))"

definition handle_received_key_transport_message :: "omemo_services \<Rightarrow> user_id \<Rightarrow> key_transport_payload \<Rightarrow>
    decryption_context option \<Rightarrow> unit omemo_prog" where
  "handle_received_key_transport_message ov sender_id p ctx =
     bindM (omemo_account ov) (\<lambda>account.
     bindM (context_or_new ctx) (\<lambda>c.
     bindM (om_local_device account) (\<lambda>found.
     bindM (missing_bundle found) (\<lambda>local_dev.
     case transport_get_key (ld_device_id local_dev) p of
       None \<Rightarrow> fail ''KeyTransportMessage was not encrypted for current device.''
     | Some k \<Rightarrow>
         thenM (if ek_is_pre_key k then insert_message_sender c sender_id (kt_device_id p) else return ())
         (thenM (decrypt_key ov account k sender_id (kt_device_id p) c)
         (if ctx = None then finalize_decryption ov c else return ()))))))"

section \<open>Devices\<close>

definition omemo_initialize :: "omemo_services \<Rightarrow> unit omemo_prog" where
  "omemo_initialize ov =
     bindM (omemo_account ov) (\<lambda>account.
     let user = account_user_id account in
     thenM (modify_world (\<lambda>s. s\<lparr>om_unpublish_attempts := [], om_repair_attempts := []\<rparr>))
     (bindM (with_context ''Failed to load local device bundle.'' (om_local_bundle account)) (\<lambda>found.
      bindM (case found of
          Some b \<Rightarrow> return b
        | None \<Rightarrow>
            bindM (next_random (ov_new_id ov)) (\<lambda>dev.
            bindM (with_context ''Failed to generate local encryption bundle.'' (ov_generate_bundle ov account dev)) (\<lambda>lb.
            thenM (modify_world (\<lambda>s. s\<lparr>om_keys := put_local_encryption_bundle account lb (om_keys s)\<rparr>))
              (return (into_device_bundle lb))))) (\<lambda>bundle.
      bindM (om_get_devices ov account user) (\<lambda>devices.
      thenM (if \<exists>d \<in> set devices. dv_id d = db_device_id bundle then return ()
             else with_context ''Failed to publish our device list''
               (tell_server ov (PublishDeviceList (devices @ [own_device ov (db_device_id bundle)]))))
      (bindM (with_context ''Failed to load our device bundle'' (load_device_bundle ov user (db_device_id bundle))) (\<lambda>published.
       if published = None then with_context ''Failed to publish our device bundle'' (tell_server ov (PublishDeviceBundle bundle))
       else return ())))))))"

definition handle_received_device_list :: "omemo_services \<Rightarrow> user_id \<Rightarrow> device list \<Rightarrow> unit omemo_prog" where
  "handle_received_device_list ov user devices =
     bindM (omemo_account ov) (\<lambda>account.
     thenM (om_set_devices account user devices)
     (if account_user_id account \<noteq> user then return ()
      else
        bindM (om_local_device account) (\<lambda>found.
        case found of
          None \<Rightarrow> return ()
        | Some dev \<Rightarrow>
            if \<exists>d \<in> set devices. dv_id d = ld_device_id dev then return ()
            else with_context ''Failed to publish our updated device list''
              (tell_server ov (PublishDeviceList (devices @ [own_device ov (ld_device_id dev)]))))))"

definition load_device_infos :: "omemo_services \<Rightarrow> user_id \<Rightarrow> device_info list omemo_prog" where
  "load_device_infos ov user =
     bindM (omemo_account ov) (\<lambda>account.
     bindM (if account_user_id account = user then
              bindM (om_local_device account) (\<lambda>found. return (map_option ld_device_id found))
            else return None) (\<lambda>this_dev.
     bindM (om_all_sessions account user) (\<lambda>ss.
     return (List.map_filter (\<lambda>s. map_option (\<lambda>identity.
       \<lparr>dvi_id = ss_device_id s, dvi_identity = identity, dvi_trust = ss_trust s, dvi_is_active = ss_is_active s,
        dvi_is_this_device = (Some (ss_device_id s) = this_dev)\<rparr>) (ss_identity s)) ss))))"

definition delete_device :: "omemo_services \<Rightarrow> device_id \<Rightarrow> unit omemo_prog" where
  "delete_device ov dev =
     bindM (omemo_account ov) (\<lambda>account.
     let user = account_user_id account in
     bindM (om_get_devices ov account user) (\<lambda>devices.
     let remaining = filter (\<lambda>d. dv_id d \<noteq> dev) devices in
     if length remaining = length devices then return ()
     else
       thenM (om_set_devices account user remaining)
       (thenM (tell_server ov (PublishDeviceList remaining)) (tell_server ov (DeleteDeviceBundle dev)))))"

definition disable_omemo :: "omemo_services \<Rightarrow> unit omemo_prog" where
  "disable_omemo ov =
     bindM (omemo_account ov) (\<lambda>account.
     bindM (om_get_devices ov account (account_user_id account)) (\<lambda>devices.
     thenM (tell_server ov DeleteDeviceList)
     (for_each (\<lambda>d. ignore_error (tell_server ov (DeleteDeviceBundle (dv_id d)))) devices)))"

definition clear_device_cache :: "account_id \<Rightarrow> unit omemo_prog" where
  "clear_device_cache account =
     bindM (gets (\<lambda>s. devices_clear_cache account (om_devices s))) (\<lambda>r.
     bindM (lift_store r) (\<lambda>dc. modify_world (\<lambda>s. s\<lparr>om_devices := dc\<rparr>)))"

definition omemo_reset_before_reconnect :: "omemo_services \<Rightarrow> unit omemo_prog" where
  "omemo_reset_before_reconnect ov = bindM (omemo_account ov) clear_device_cache"

definition omemo_clear_cache :: "omemo_services \<Rightarrow> unit omemo_prog" where
  "omemo_clear_cache ov =
     bindM (omemo_account ov) (\<lambda>account.
     thenM (clear_device_cache account)
     (bindM (gets (\<lambda>s. keys_clear_cache account (om_keys s))) (\<lambda>r.
      bindM (lift_store r) (\<lambda>ks.
      thenM (modify_world (\<lambda>s. s\<lparr>om_keys := ks\<rparr>))
      (bindM (gets (\<lambda>s. sessions_clear_cache account (om_sessions s))) (\<lambda>r.
       bindM (lift_store r) (\<lambda>rows. modify_world (\<lambda>s. s\<lparr>om_sessions := rows\<rparr>))))))))"

section \<open>Runs\<close>

lemma run_bind: "bindM m f s = (Ok b, s'') \<longleftrightarrow> (\<exists>a s'. m s = (Ok a, s') \<and> f a s' = (Ok b, s''))"
  by (auto simp: bindM_def split: prod.splits outcome.splits)

lemma run_then: "thenM m n s = (Ok b, s'') \<longleftrightarrow> (\<exists>a s'. m s = (Ok a, s') \<and> n s' = (Ok b, s''))"
  by (simp add: thenM_def run_bind)

lemma run_pure:
  "return a s = (Ok b, s') \<longleftrightarrow> b = a \<and> s' = s"
  "throw e s = (Ok b, s') \<longleftrightarrow> False"
  "panic msg s = (Ok b, s') \<longleftrightarrow> False"
  "gets g s = (Ok c, s') \<longleftrightarrow> c = g s \<and> s' = s"
  "lift_any r s = (Ok b, s') \<longleftrightarrow> r = Inr b \<and> s' = s"
  "lift_res q s = (Ok b, s') \<longleftrightarrow> q = Inr b \<and> s' = s"
  "lift_store x s = (Ok b, s') \<longleftrightarrow> x = Inr b \<and> s' = s"
  by (auto simp: prog_defs lift_store_def fail_def split: sum.splits store_error.splits)

lemma run_random: "next_random h s = (Ok c, s') \<longleftrightarrow> c = h (om_random s) \<and> s' = s\<lparr>om_random := Suc (om_random s)\<rparr>"
  by (auto simp: next_random_def)

lemma run_attempt: "attempt m s = (Ok r, s') \<longleftrightarrow> (case r of Inr a \<Rightarrow> m s = (Ok a, s') | Inl e \<Rightarrow> m s = (Err e, s'))"
  by (auto simp: attempt_def split: prod.splits outcome.splits sum.splits)

lemmas run_simps = run_bind run_then run_pure run_random run_attempt

lemma collect_results_Inr: "collect_results rs = Inr ys \<longleftrightarrow> rs = map Inr ys"
proof (induction rs arbitrary: ys)
  case (Cons r rs)
  show ?case
  proof (cases r)
    case (Inr a)
    have "bind_res (collect_results rs) (\<lambda>as. Inr (a # as)) = Inr ys \<longleftrightarrow> (\<exists>as. collect_results rs = Inr as \<and> ys = a # as)"
      by (cases "collect_results rs") auto
    with Inr Cons.IH show ?thesis by auto
  qed auto
qed auto

lemma mapM_run:
  "mapM f xs s = (Ok ys, s') \<Longrightarrow> list_all2 (\<lambda>x y. \<exists>t t'. f x t = (Ok y, t')) xs ys"
  by (induction xs arbitrary: s ys) (auto simp: run_simps)

lemma join_all_run:
  assumes "join_all f xs s = (Ok ys, s')"
  shows "list_all2 (\<lambda>x y. \<exists>t t'. f x t = (Ok y, t')) xs ys"
proof -
  from assms obtain rs where "mapM (\<lambda>x. attempt (f x)) xs s = (Ok rs, s')" "rs = map Inr ys"
    by (auto simp: join_all_def run_simps collect_results_Inr)
  from mapM_run [OF this(1)] this(2) show ?thesis by (auto simp: list_all2_map2 run_attempt)
qed

lemma mapM_invariant:
  assumes "\<And>x t. I (snd (f x t)) = I t"
  shows "I (snd (mapM f xs s)) = I s"
proof (induction xs arbitrary: s)
  case (Cons x xs)
  obtain r t where run: "f x s = (r, t)" by fastforce
  with assms [of x s] have "I t = I s" by simp
  moreover obtain r' t' where "mapM f xs t = (r', t')" by fastforce
  ultimately show ?case using run Cons.IH [of t] by (cases r; cases r') (auto simp: bindM_def return_def)
qed (simp add: return_def)

lemma join_all_invariant:
  assumes "\<And>x t. I (snd (f x t)) = I t"
  shows "I (snd (join_all f xs s)) = I s"
proof -
  have "I (snd (attempt (f x) t)) = I t" for x t
    using assms [of x t] by (auto simp: attempt_def split: prod.split outcome.split)
  from mapM_invariant [of I "\<lambda>x. attempt (f x)", OF this] show ?thesis
    by (auto simp: join_all_def bindM_def lift_res_def return_def throw_def split: prod.split outcome.split sum.split) (metis snd_conv)+
qed

section \<open>For whom a message is encrypted\<close>

text \<open>A device a message may be encrypted for: there is an active session with it and it is not distrusted.\<close>

definition may_encrypt_for :: "account_id \<Rightarrow> session_record rows \<Rightarrow> user_id \<Rightarrow> device_id \<Rightarrow> bool" where
  "may_encrypt_for account rows user dev \<longleftrightarrow>
     (\<exists>r \<in> snd ` set rows. sessions.belongs account user r \<and> sr_device_id r = dev \<and> sr_is_active r \<and> sr_trust r \<noteq> Untrusted)"

definition stored_sessions :: "account_id \<Rightarrow> user_id \<Rightarrow> session_record rows \<Rightarrow> session list" where
  "stored_sessions account user rows =
     map session_from (map snd (filter (\<lambda>row. sessions.belongs account user (snd row)) rows))"

lemma all_sessions_exact: "om_all_sessions account user s = (Ok (stored_sessions account user (om_sessions s)), s)"
  by (simp add: om_all_sessions_def get_all_sessions_def user_sessions_exact prog_defs lift_store_def stored_sessions_def)

lemma trusted_session: "is_trusted_or_undecided s \<longleftrightarrow> ss_trust s \<noteq> Untrusted"
  by (cases "ss_trust s") (simp_all add: is_trusted_or_undecided_def)

lemma session_ids:
  "(\<exists>x \<in> set (stored_sessions account user rows). ss_is_active x \<and> is_trusted_or_undecided x \<and> ss_device_id x = d) \<longleftrightarrow>
     may_encrypt_for account rows user d"
  by (fastforce simp: may_encrypt_for_def session_from_def trusted_session stored_sessions_def)

lemma our_devices:
  "\<exists>ids. get_active_and_trusted_device_ids account user s = (Ok ids, s) \<and>
     (\<forall>d. d \<in> set ids \<longleftrightarrow> may_encrypt_for account (om_sessions s) user d)"
  by (simp only: session_ids [symmetric]) (auto simp: get_active_and_trusted_device_ids_def all_sessions_exact bindM_def return_def)

lemma their_devices:
  "their_active_device_ids account us s = (Ok (Inr ids), s') \<Longrightarrow>
     s' = s \<and> (\<forall>u d. (u, d) \<in> set ids \<longleftrightarrow> u \<in> set us \<and> may_encrypt_for account (om_sessions s) u d) \<and>
     (\<forall>u \<in> set us. \<exists>d. (u, d) \<in> set ids)"
proof (induction us arbitrary: ids)
  case Nil
  then show ?case by (simp add: return_def)
next
  case (Cons u us)
  let ?ss = "stored_sessions account u (om_sessions s)"
  let ?mine = "map (\<lambda>s. (u, ss_device_id s)) (filter is_trusted_or_undecided (filter ss_is_active ?ss))"
  have nonempty: "?mine \<noteq> []"
    using Cons.prems by (auto simp: all_sessions_exact run_simps Let_def split: if_splits)
  with Cons.prems obtain r where r: "their_active_device_ids account us s = (Ok r, s')" "Inr ids = map_sum id ((@) ?mine) r"
    by (auto simp: all_sessions_exact run_simps Let_def split: if_splits)
  then obtain rest where run: "their_active_device_ids account us s = (Ok (Inr rest), s')"
    and ids: "ids = ?mine @ rest" "?mine \<noteq> []" using nonempty by (cases r) auto
  have mine: "(v, d) \<in> set ?mine \<longleftrightarrow> v = u \<and> may_encrypt_for account (om_sessions s) u d" for v d
    by (simp only: session_ids [symmetric]) auto
  obtain x where "x \<in> set ?mine" using last_in_set [OF ids(2)] by blast
  then obtain d where d: "(u, d) \<in> set ?mine" by auto
  from Cons.IH [OF run] have "s' = s" and rest: "(v, e) \<in> set rest \<longleftrightarrow> v \<in> set us \<and> may_encrypt_for account (om_sessions s) v e"
    and all: "v \<in> set us \<Longrightarrow> \<exists>e. (v, e) \<in> set rest" for v e by blast+
  have "(v, e) \<in> set ids \<longleftrightarrow> v \<in> set (u # us) \<and> may_encrypt_for account (om_sessions s) v e" for v e
    unfolding ids(1) set_append Un_iff mine rest by auto
  moreover have "\<exists>e. (v, e) \<in> set ids" if "v \<in> set (u # us)" for v
    using that d all unfolding ids(1) set_append Un_iff by (metis set_ConsD)
  ultimately show ?case using \<open>s' = s\<close> by blast
qed

text \<open>What a successful encryption did.\<close>

lemma encrypt_message_run:
  assumes "encrypt_message ov recipients message s = (Ok (Inr p), s')"
  obtains account dev s1 their_ids our_ids nonce dek payload s2 now keys where
    "ov_account ov = Inr account"
    "their_active_device_ids account recipients s1 = (Ok (Inr their_ids), s1)"
    "nonce = ov_nonce ov (om_random s1)" "ov_aes_encrypt ov dek nonce (string_bytes message) = Inr payload"
    "length message \<le> length payload" "length (drop (length message) payload) = mac_size" "length dek = key_size"
    "om_sessions s2 = om_sessions s1"
    "get_active_and_trusted_device_ids account (account_user_id account) s2 = (Ok our_ids, s2)"
    "join_all (\<lambda>(u, d). ov_encrypt_key ov account u d (dek @ drop (length message) payload) now)
       (map (Pair (account_user_id account)) (filter (\<lambda>d. d \<noteq> dev) our_ids) @ their_ids) s2 = (Ok keys, s')"
    "p = \<lparr>ep_device_id = dev, ep_iv = nonce, ep_keys = keys, ep_payload = take (length message) payload\<rparr>"
proof -
  obtain account s0 s1 theirs and dev :: local_device where run:
    "ov_account ov = Inr account" "their_active_device_ids account recipients s0 = (Ok theirs, s1)"
    "(case theirs of
       Inl err \<Rightarrow> return (Inl err)
     | Inr their_ids \<Rightarrow>
         bindM (next_random (ov_nonce ov)) (\<lambda>nonce.
         bindM (next_random (ov_generate_key ov)) (\<lambda>dek.
         bindM (lift_any (ov_aes_encrypt ov dek nonce (string_bytes message))) (\<lambda>payload.
         bindM (dek_and_mac dek (length message) payload) (\<lambda>key.
         bindM (gets (ov_now ov)) (\<lambda>now.
         bindM (get_active_and_trusted_device_ids account (account_user_id account)) (\<lambda>our_ids.
         bindM (join_all (\<lambda>(u, d). ov_encrypt_key ov account u d key now)
             (map (Pair (account_user_id account)) (filter (\<lambda>d. d \<noteq> ld_device_id dev) our_ids) @ their_ids)) (\<lambda>keys.
         return (Inr \<lparr>ep_device_id = ld_device_id dev, ep_iv = nonce, ep_keys = keys,
           ep_payload = take (length message) payload\<rparr>))))))))) s1 = (Ok (Inr p), s')"
    using assms unfolding encrypt_message_def omemo_account_def Let_def run_bind run_then run_pure
    by blast
  then obtain their_ids where theirs: "theirs = Inr their_ids" by (cases theirs) (auto simp: run_pure)
  with their_devices run(2) have "s0 = s1" by blast
  let ?s2 = "s1\<lparr>om_random := Suc (Suc (om_random s1))\<rparr>"
  from run(3) theirs obtain payload our_ids keys where enc:
    "ov_aes_encrypt ov (ov_generate_key ov (Suc (om_random s1))) (ov_nonce ov (om_random s1)) (string_bytes message) = Inr payload"
    "length message \<le> length payload" "length (drop (length message) payload) = mac_size"
    "length (ov_generate_key ov (Suc (om_random s1))) = key_size"
    "get_active_and_trusted_device_ids account (account_user_id account) ?s2 = (Ok our_ids, ?s2)"
    "join_all (\<lambda>(u, d). ov_encrypt_key ov account u d
        (ov_generate_key ov (Suc (om_random s1)) @ drop (length message) payload) (ov_now ov ?s2))
       (map (Pair (account_user_id account)) (filter (\<lambda>d. d \<noteq> ld_device_id dev) our_ids) @ their_ids) ?s2 = (Ok keys, s')"
    "p = \<lparr>ep_device_id = ld_device_id dev, ep_iv = ov_nonce ov (om_random s1), ep_keys = keys, ep_payload = take (length message) payload\<rparr>"
    using our_devices [of account "account_user_id account" ?s2]
    by (auto simp: run_simps dek_and_mac_def split: if_splits)
  have "om_sessions ?s2 = om_sessions s1" by simp
  from that [OF run(1) _ refl enc(1-4) this enc(5-7)] run(2) theirs \<open>s0 = s1\<close> show thesis by simp
qed

text \<open>
  What is relied on of the Signal protocol: a key is encrypted for the device it was asked for, and encrypting does not
  change whom the client has active sessions with or trusts.
\<close>

definition keys_for_device :: "omemo_services \<Rightarrow> bool" where
  "keys_for_device ov \<longleftrightarrow>
     (\<forall>a u d m t s k s'. ov_encrypt_key ov a u d m t s = (Ok k, s') \<longrightarrow> ek_device_id k = d) \<and>
     (\<forall>a u d m t s account. may_encrypt_for account (om_sessions (snd (ov_encrypt_key ov a u d m t s))) =
        may_encrypt_for account (om_sessions s))"

lemma encrypted_keys:
  assumes "keys_for_device ov" "join_all (\<lambda>(u, d). ov_encrypt_key ov account u d key now) xs s = (Ok keys, s')"
  shows "map ek_device_id keys = map snd xs" "may_encrypt_for account' (om_sessions s') = may_encrypt_for account' (om_sessions s)"
proof -
  have "ek_device_id k = snd x" if "\<exists>t t'. (\<lambda>(u, d). ov_encrypt_key ov account u d key now) x t = (Ok k, t')" for x k
    using that assms(1) unfolding keys_for_device_def by (cases x) (metis prod.case snd_conv)
  then have "list_all2 (\<lambda>x k. ek_device_id k = snd x) xs keys"
    by (rule list_all2_mono [OF join_all_run [OF assms(2)]])
  then show "map ek_device_id keys = map snd xs" by (induction rule: list_all2_induct) simp_all
  have "may_encrypt_for account' (om_sessions (snd (join_all (\<lambda>(u, d). ov_encrypt_key ov account u d key now) xs s))) =
      may_encrypt_for account' (om_sessions s)"
    by (rule join_all_invariant [where I = "\<lambda>s. may_encrypt_for account' (om_sessions s)"])
      (use assms(1) in \<open>auto simp: keys_for_device_def split: prod.split\<close>)
  with assms(2) show "may_encrypt_for account' (om_sessions s') = may_encrypt_for account' (om_sessions s)" by simp
qed

text \<open>
  C4. A message is encrypted only for devices of the recipients and of the user that the client has an active session
  with and that are not distrusted, and for at least one device of every recipient. The hypothesis is what is relied
  on of the Signal protocol.
\<close>

theorem encrypted_for_trusted_devices:
  assumes "keys_for_device ov" "encrypt_message ov recipients message s = (Ok (Inr p), s')" "ov_account ov = Inr account"
  shows "(\<forall>k \<in> set (ep_keys p). \<exists>u \<in> set (account_user_id account # recipients).
      may_encrypt_for account (om_sessions s') u (ek_device_id k)) \<and>
    (\<forall>u \<in> set recipients. \<exists>k \<in> set (ep_keys p). may_encrypt_for account (om_sessions s') u (ek_device_id k))"
proof -
  let ?me = "account_user_id account"
  obtain account' dev s1 theirs ours nonce dek payload s2 now keys where acc: "ov_account ov = Inr account'"
    and theirs: "their_active_device_ids account' recipients s1 = (Ok (Inr theirs), s1)"
    and "nonce = ov_nonce ov (om_random s1)" "ov_aes_encrypt ov dek nonce (string_bytes message) = Inr payload"
      "length message \<le> length payload" "length (drop (length message) payload) = mac_size" "length dek = key_size"
    and s2: "om_sessions s2 = om_sessions s1"
    and ours: "get_active_and_trusted_device_ids account' (account_user_id account') s2 = (Ok ours, s2)"
    and join: "join_all (\<lambda>(u, d). ov_encrypt_key ov account' u d (dek @ drop (length message) payload) now)
       (map (Pair (account_user_id account')) (filter (\<lambda>d. d \<noteq> dev) ours) @ theirs) s2 = (Ok keys, s')"
    and p: "p = \<lparr>ep_device_id = dev, ep_iv = nonce, ep_keys = keys, ep_payload = take (length message) payload\<rparr>"
    by (rule encrypt_message_run [OF assms(2)])
  have "account' = account" using acc assms(3) by simp
  note theirs = theirs [unfolded this] and ours = ours [unfolded this] and join = join [unfolded this]
  have "map ek_device_id keys = filter (\<lambda>d. d \<noteq> dev) ours @ map snd theirs"
    and policy: "may_encrypt_for account (om_sessions s') = may_encrypt_for account (om_sessions s2)"
    using encrypted_keys [OF assms(1) join] by (simp_all add: comp_def)
  then have keys: "ek_device_id ` set keys = set (filter (\<lambda>d. d \<noteq> dev) ours) \<union> snd ` set theirs"
    by (metis list.set_map set_append)
  have allowed: "may_encrypt_for account (om_sessions s2) ?me d" if "d \<in> set ours" for d
    using that our_devices [of account ?me s2] ours by auto
  have their: "(u, d) \<in> set theirs \<longleftrightarrow> u \<in> set recipients \<and> may_encrypt_for account (om_sessions s2) u d"
    and some: "u \<in> set recipients \<Longrightarrow> \<exists>d. (u, d) \<in> set theirs" for u d
    using their_devices [OF theirs] s2 by auto
  have "\<exists>u \<in> set (?me # recipients). may_encrypt_for account (om_sessions s') u (ek_device_id k)" if "k \<in> set keys" for k
  proof -
    from that keys have "ek_device_id k \<in> set ours \<or> (\<exists>u. (u, ek_device_id k) \<in> set theirs)" by force
    with allowed their show ?thesis unfolding policy by (metis list.set_intros)
  qed
  moreover have "\<exists>k \<in> set keys. may_encrypt_for account (om_sessions s') u (ek_device_id k)" if u: "u \<in> set recipients" for u
  proof -
    obtain d where "(u, d) \<in> set theirs" using some [OF u] by blast
    moreover from this have "d \<in> ek_device_id ` set keys" using keys by force
    ultimately show ?thesis using their unfolding policy by auto
  qed
  ultimately show ?thesis using p by simp
qed

lemma eval_bind: "m s = (Ok a, s') \<Longrightarrow> bindM m f s = f a s'"
  by (simp add: bindM_def)

lemma start_decrypt:
  assumes "ov_account ov = Inr account" "get_local_device account (om_keys t) = Inr (Some dev)"
    "payload_get_key (ld_device_id dev) p = Some k"
  shows "decrypt_payload ov sender_id p c t =
    thenM (if ek_is_pre_key k then insert_message_sender c sender_id (ep_device_id p) else return ())
      (bindM (attempt (decrypt_key ov account k sender_id (ep_device_id p) c)) (\<lambda>r.
       case r of
         Inl err \<Rightarrow> thenM (insert_broken_session c sender_id (ep_device_id p)) (throw err)
       | Inr key \<Rightarrow>
           bindM (nonce_from_slice (ep_iv p)) (\<lambda>nonce.
           bindM (lift_any (ov_aes_decrypt ov (take key_size key) nonce (ep_payload p @ drop key_size key))) (\<lambda>bs.
           lift_any (ov_from_utf8 ov bs))))) t"
proof -
  have "omemo_account ov t = (Ok account, t)" "om_local_device account t = (Ok (Some dev), t)" "missing_bundle (Some dev) t = (Ok dev, t)"
    using assms(1,2) by (simp_all add: omemo_account_def om_local_device_def missing_bundle_def run_simps)
  with assms(3) show ?thesis unfolding decrypt_payload_def by (simp add: eval_bind)
qed

lemma key_encrypted:
  assumes "keys_for_device ov" "join_all (\<lambda>(u, d). ov_encrypt_key ov account u d key now) xs s = (Ok keys, s')" "(u, d) \<in> set xs"
  shows "\<exists>k \<in> set keys. ek_device_id k = d \<and> (\<exists>t t'. ov_encrypt_key ov account u d key now t = (Ok k, t'))"
proof -
  note all = join_all_run [OF assms(2)]
  obtain i where i: "i < length xs" "xs ! i = (u, d)" using assms(3) by (auto simp: in_set_conv_nth)
  with list_all2_nthD [OF all, of i] obtain t t' where run: "ov_encrypt_key ov account u d key now t = (Ok (keys ! i), t')" by auto
  moreover have "ek_device_id (keys ! i) = d" using run assms(1) unfolding keys_for_device_def by blast
  moreover have "keys ! i \<in> set keys" using i list_all2_lengthD [OF all] by simp
  ultimately show ?thesis by blast
qed

lemma find_by_key: "distinct (map f xs) \<Longrightarrow> k \<in> set xs \<Longrightarrow> find (\<lambda>x. f x = f k) xs = Some k"
  by (induction xs) (auto simp: rev_image_eqI)

text \<open>
  C5. A message that was encrypted is decrypted to the same text by every device it is meant for: by every device of a
  recipient, and every other device of the sender, that the sender has an active session with and does not distrust. The
  hypotheses are that AES-GCM decrypts what it encrypted, that the device can decrypt, in its present state, the key of this
  message that the sender encrypted for this user and device, that nonces have 12 bytes, that the text is valid UTF-8, and
  that the ids of the devices of the message are distinct, since a device finds its key by the id alone.
\<close>

theorem encrypted_message_decrypted:
  assumes run: "encrypt_message ov recipients message s = (Ok (Inr p), s')" "ov_account ov = Inr sender_account"
    and keys: "keys_for_device ov" "distinct (map ek_device_id (ep_keys p))"
    and meant: "u \<in> set recipients \<or> u = account_user_id sender_account \<and> ld_device_id dev \<noteq> ep_device_id p"
      "may_encrypt_for sender_account (om_sessions s') u (ld_device_id dev)"
    and receiver: "ov_account ov' = Inr account" "account_user_id account = u" "get_local_device account (om_keys t) = Inr (Some dev)"
    and signal: "\<And>k m now t1 t2. k \<in> set (ep_keys p) \<Longrightarrow> ov_encrypt_key ov sender_account u (ld_device_id dev) m now t1 = (Ok k, t2) \<Longrightarrow>
      \<exists>st'. ov_decrypt_key ov' account (account_user_id sender_account) (ep_device_id p) (ek_data k) (ek_is_pre_key k) c
        (if ek_is_pre_key k then snd (insert_message_sender c (account_user_id sender_account) (ep_device_id p) t) else t) = (Ok m, st')"
    and aes: "\<And>k n m x. ov_aes_encrypt ov k n m = Inr x \<Longrightarrow> ov_aes_decrypt ov' k n x = Inr m"
    and nonce: "\<And>n. length (ov_nonce ov n) = 12"
    and utf8: "ov_from_utf8 ov' (string_bytes message) = Inr message"
  shows "\<exists>t'. decrypt_payload ov' (account_user_id sender_account) p c t = (Ok message, t')"
proof -
  let ?me = "account_user_id sender_account" and ?d = "ld_device_id dev"
  obtain a own s1 theirs ours n dek payload s2 now ks where acc: "ov_account ov = Inr a"
    and theirs: "their_active_device_ids a recipients s1 = (Ok (Inr theirs), s1)"
    and n: "n = ov_nonce ov (om_random s1)"
    and enc: "ov_aes_encrypt ov dek n (string_bytes message) = Inr payload" "length message \<le> length payload"
      "length (drop (length message) payload) = mac_size" "length dek = key_size"
    and s2: "om_sessions s2 = om_sessions s1" and ours: "get_active_and_trusted_device_ids a (account_user_id a) s2 = (Ok ours, s2)"
    and join: "join_all (\<lambda>(u, d). ov_encrypt_key ov a u d (dek @ drop (length message) payload) now)
       (map (Pair (account_user_id a)) (filter (\<lambda>d. d \<noteq> own) ours) @ theirs) s2 = (Ok ks, s')"
    and p: "p = \<lparr>ep_device_id = own, ep_iv = n, ep_keys = ks, ep_payload = take (length message) payload\<rparr>"
    by (rule encrypt_message_run [OF run(1)])
  have "a = sender_account" using acc run(2) by simp
  note theirs = theirs [unfolded this] and ours = ours [unfolded this] and join = join [unfolded this]
  let ?key = "dek @ drop (length message) payload"
  let ?st = "\<lambda>k. if ek_is_pre_key k then snd (insert_message_sender c ?me (ep_device_id p) t) else t"
  have "may_encrypt_for sender_account (om_sessions s2) u ?d" using meant(2) encrypted_keys(2) [OF keys(1) join] by simp
  then have "(u, ?d) \<in> set (map (Pair ?me) (filter (\<lambda>d. d \<noteq> own) ours) @ theirs)"
    using meant(1) their_devices [OF theirs] our_devices [of sender_account ?me s2] ours s2 p by auto
  from key_encrypted [OF keys(1) join this] obtain k t1 t2
    where k: "k \<in> set ks" "ek_device_id k = ?d" "ov_encrypt_key ov sender_account u ?d ?key now t1 = (Ok k, t2)" by blast
  have kp: "k \<in> set (ep_keys p)" using k(1) p by simp
  obtain st' where dec: "ov_decrypt_key ov' account ?me (ep_device_id p) (ek_data k) (ek_is_pre_key k) c (?st k) = (Ok ?key, st')"
    using signal [OF kp k(3)] by blast
  have "length ?key = mac_size + key_size" using enc by simp
  have found: "payload_get_key (ld_device_id dev) p = Some k"
    using find_by_key [OF keys(2) kp] k(2) by (simp add: payload_get_key_def)
  have "decrypt_key ov' account k ?me (ep_device_id p) c (?st k) = (Ok ?key, st')"
    using \<open>length ?key = mac_size + key_size\<close> by (simp add: decrypt_key_def eval_bind dec) (simp add: return_def)
  then have key: "attempt (decrypt_key ov' account k ?me (ep_device_id p) c) (?st k) = (Ok (Inr ?key), st')" by (simp add: attempt_def)
  have pre: "(if ek_is_pre_key k then insert_message_sender c ?me (ep_device_id p) else return ()) t = (Ok (), ?st k)"
    by (simp add: insert_message_sender_def update_context_def modify_world_def return_def)
  have parts: "take key_size ?key = dek" "ep_payload p @ drop key_size ?key = payload" using enc(4) p by simp_all
  have plain: "ov_aes_decrypt ov' dek n payload = Inr (string_bytes message)" using aes enc(1) by blast
  have iv: "ep_iv p = n" "length n = 12" using nonce n p by simp_all
  have "decrypt_payload ov' ?me p c t = (Ok message, st')"
    unfolding start_decrypt [OF receiver(1,3) found] thenM_def
    using parts plain iv utf8 by (simp add: eval_bind pre key nonce_from_slice_def lift_any_def return_def)
  then show ?thesis ..
qed

section \<open>Messages that cannot be decrypted\<close>

lemma context_run: "\<exists>c s'. context_or_new ctx s = (Ok c, s') \<and> om_keys s' = om_keys s"
  by (cases ctx) (simp_all add: context_or_new_def new_context_def return_def)

lemma sender_recorded:
  "\<exists>s'. (if b then insert_message_sender c u d else return ()) s = (Ok (), s') \<and>
     s'\<lparr>om_contexts := om_contexts s\<rparr> = s \<and> length (om_contexts s') = length (om_contexts s)"
  by (simp add: insert_message_sender_def update_context_def modify_world_def return_def)

text \<open>
  C35. A message whose key can be decrypted and whose nonce does not have 12 bytes makes the client panic: whoever has a
  session with the device of the user can stop the client with one message.
\<close>

theorem malformed_nonce_panics:
  assumes "ov_account ov = Inr account" "get_local_device account (om_keys s) = Inr (Some dev)"
    and "payload_get_key (ld_device_id dev) p = Some k" "length (ep_iv p) \<noteq> 12"
    and key: "\<And>c t. \<exists>key t'. decrypt_key ov account k sender_id (ep_device_id p) c t = (Ok key, t')"
  shows "\<exists>msg. fst (decrypt_message ov sender_id room mid p ctx s) = Panic msg"
proof -
  obtain c s1 where c: "context_or_new ctx s = (Ok c, s1)" "om_keys s1 = om_keys s" using context_run by blast
  obtain s2 where pre: "(if ek_is_pre_key k then insert_message_sender c sender_id (ep_device_id p) else return ()) s1 = (Ok (), s2)"
    using sender_recorded by blast
  obtain bs s3 where "decrypt_key ov account k sender_id (ep_device_id p) c s2 = (Ok bs, s3)" using key by blast
  then have dec: "attempt (decrypt_key ov account k sender_id (ep_device_id p) c) s2 = (Ok (Inr bs), s3)" by (simp add: attempt_def)
  have local_dev: "get_local_device account (om_keys s1) = Inr (Some dev)" using assms(2) c(2) by simp
  have "\<exists>msg. decrypt_payload ov sender_id p c s1 = (Panic msg, s3)"
    unfolding start_decrypt [OF assms(1) local_dev assms(3)] thenM_def
    using assms(4) by (simp add: eval_bind pre dec nonce_from_slice_def) (simp add: bindM_def panic_def)
  then obtain msg where "attempt (decrypt_payload ov sender_id p c) s1 = (Panic msg, s3)" by (auto simp: attempt_def)
  then show ?thesis by (simp add: decrypt_message_def eval_bind c(1)) (simp add: bindM_def)
qed

text \<open>
  When a message that arrives while the client is connected cannot be decrypted, the session is recorded as broken
  in a context that nobody looks at: nothing is sent, no repair is attempted, and the session stays broken.
\<close>

theorem broken_session_not_repaired:
  assumes "ov_account ov = Inr account" "get_local_device account (om_keys s) = Inr (Some dev)"
    and "payload_get_key (ld_device_id dev) p = Some k"
    and key: "\<And>c t. \<exists>e. decrypt_key ov account k sender_id (ep_device_id p) c t = (Err e, t)"
    and s': "s' = snd (decrypt_message ov sender_id room mid p None s)"
  shows "om_log s' = om_log s \<and> om_repair_attempts s' = om_repair_attempts s \<and> om_sessions s' = om_sessions s \<and>
    (sender_id, ep_device_id p) \<in> set (di_broken_sessions (om_contexts s' ! length (om_contexts s)))"
proof -
  let ?c = "length (om_contexts s)"
  let ?s1 = "s\<lparr>om_contexts := om_contexts s @ [empty_inner]\<rparr>"
  have new: "context_or_new None s = (Ok ?c, ?s1)" by (simp add: context_or_new_def new_context_def)
  obtain s2 where pre: "(if ek_is_pre_key k then insert_message_sender ?c sender_id (ep_device_id p) else return ()) ?s1 = (Ok (), s2)"
      and s2: "s2\<lparr>om_contexts := om_contexts ?s1\<rparr> = ?s1" "length (om_contexts s2) = length (om_contexts ?s1)"
    using sender_recorded [of "ek_is_pre_key k" ?c sender_id "ep_device_id p" ?s1] by blast
  obtain e where "decrypt_key ov account k sender_id (ep_device_id p) ?c s2 = (Err e, s2)" using key by blast
  then have dec: "attempt (decrypt_key ov account k sender_id (ep_device_id p) ?c) s2 = (Ok (Inl e), s2)" by (simp add: attempt_def)
  let ?inner = "(om_contexts s2 ! ?c)\<lparr>di_broken_sessions := List.insert (sender_id, ep_device_id p) (di_broken_sessions (om_contexts s2 ! ?c))\<rparr>"
  let ?s3 = "s2\<lparr>om_contexts := (om_contexts s2)[?c := ?inner]\<rparr>"
  have broken: "insert_broken_session ?c sender_id (ep_device_id p) s2 = (Ok (), ?s3)"
    by (simp add: insert_broken_session_def update_context_def modify_world_def)
  have local_dev: "get_local_device account (om_keys ?s1) = Inr (Some dev)" using assms(2) by simp
  have "decrypt_payload ov sender_id p ?c ?s1 = (Err e, ?s3)"
    unfolding start_decrypt [OF assms(1) local_dev assms(3)] thenM_def
    by (simp add: eval_bind pre dec broken) (simp add: throw_def)
  then have failed: "attempt (decrypt_payload ov sender_id p ?c) ?s1 = (Ok (Inl e), ?s3)" by (simp add: attempt_def)
  have "s' = ?s3"
    unfolding s' decrypt_message_def
    by (simp add: eval_bind new failed)
      (auto simp: omemo_account_def assms(1) bindM_def gets_def lift_any_def attempt_def lift_store_def throw_def return_def
        panic_def fail_def split: option.split sum.split store_error.split list.split payload.split)
  moreover have "om_log s2 = om_log s" "om_repair_attempts s2 = om_repair_attempts s" "om_sessions s2 = om_sessions s"
    using arg_cong [OF s2(1), of om_log] arg_cong [OF s2(1), of om_repair_attempts] arg_cong [OF s2(1), of om_sessions] by simp_all
  moreover have "?c < length (om_contexts s2)" using s2(2) by simp
  ultimately show ?thesis by simp
qed

section \<open>The own device\<close>

lemma get_local_device_ok: "\<exists>found. get_local_device account ks = Inr found"
  by (simp add: get_local_device_def coll_get_def)

lemma set_devices_ok:
  "\<exists>dc. om_set_devices account user devices s = (Ok (), s\<lparr>om_devices := dc\<rparr>)"
  by (simp add: om_set_devices_def devices_set_all_def user_device_records_def devices.user_values delete_devices_exact Let_def
      prog_defs lift_store_def) blast

text \<open>
  C39. When the list of the own devices arrives without the device of the client it is published again with this device
  added; nothing is published for any other list.
\<close>

theorem own_device_announced:
  assumes "ov_account ov = Inr account"
  shows "\<exists>found. get_local_device account (om_keys s) = Inr found \<and>
    om_log (snd (handle_received_device_list ov user devices s)) = om_log s @
      (case found of
         Some dev \<Rightarrow>
           if account_user_id account = user \<and> ld_device_id dev \<notin> dv_id ` set devices
           then [PublishDeviceList (devices @ [own_device ov (ld_device_id dev)])] else []
       | None \<Rightarrow> [])"
proof -
  obtain found where found: "get_local_device account (om_keys s) = Inr found" using get_local_device_ok by blast
  obtain dc where set: "om_set_devices account user devices s = (Ok (), s\<lparr>om_devices := dc\<rparr>)" using set_devices_ok by blast
  have acc: "omemo_account ov s = (Ok account, s)" by (simp add: omemo_account_def assms run_simps)
  have local_dev: "om_local_device account (s\<lparr>om_devices := dc\<rparr>) = (Ok found, s\<lparr>om_devices := dc\<rparr>)"
    by (simp add: om_local_device_def run_simps found)
  have tell: "om_log (snd (with_context msg (tell_server ov req) t)) = om_log t @ [req]" for msg req t
    by (auto simp: with_context_def tell_server_def ask_server_def lift_any_def return_def throw_def split: sum.split)
  have "om_log (snd (handle_received_device_list ov user devices s)) = om_log s @
      (case found of
         Some dev \<Rightarrow>
           if account_user_id account = user \<and> ld_device_id dev \<notin> dv_id ` set devices
           then [PublishDeviceList (devices @ [own_device ov (ld_device_id dev)])] else []
       | None \<Rightarrow> [])"
    unfolding handle_received_device_list_def thenM_def
    by (simp add: eval_bind acc set local_dev tell image_iff split: option.split) (auto simp: return_def)
  with found show ?thesis by blast
qed

section \<open>An example\<close>

definition sample_local :: local_device_record where
  "sample_local = \<lparr>lo_id = sample_owner, lo_device_id = 7, lo_identity_key_pair = \<lparr>ikp_identity_key = [5], ikp_private_key = [6]\<rparr>\<rparr>"

definition sample_omemo_state :: omemo_state where
  "sample_omemo_state =
     \<lparr>om_sessions = sample_sessions, om_devices = \<lparr>dc_rows = [], dc_updated = []\<rparr>,
      om_keys = \<lparr>ks_local_devices = [(show_account sample_owner, sample_local)], ks_signed_pre_keys = [], ks_pre_keys = [],
        ks_kyber_pre_keys = [], ks_sender_keys = []\<rparr>,
      om_messages = [], om_contexts = [], om_unpublish_attempts = [], om_repair_attempts = [], om_log = [], om_random = 0\<rparr>"

text \<open>A server with one list of devices and a protocol that encrypts nothing.\<close>

definition sample_omemo :: "(bytes \<Rightarrow> bytes omemo_prog) \<Rightarrow> omemo_services" where
  "sample_omemo decrypt =
     \<lparr>ov_account = Inr sample_owner, ov_software_name = ''client'', ov_software_os = None, ov_clock = sample_clock,
      ov_now = (\<lambda>_. 0), ov_new_id = id, ov_nonce = (\<lambda>_. replicate 12 0), ov_generate_key = (\<lambda>_. replicate 16 1),
      ov_choose = (\<lambda>_. hd), ov_aes_encrypt = (\<lambda>_ _ m. Inr (m @ replicate 16 2)),
      ov_aes_decrypt = (\<lambda>_ _ c. Inr (take (length c - 16) c)), ov_from_utf8 = (\<lambda>bs. Inr (map char_of bs)),
      ov_device_list = (\<lambda>_ u. Inr (if u = sample_peer then [\<lparr>dv_id = 1, dv_label = None\<rparr>, \<lparr>dv_id = 2, dv_label = None\<rparr>] else [])),
      ov_device_bundle = (\<lambda>_ _ _. Inr None), ov_accepts = (\<lambda>_ _. Inr ()),
      ov_generate_bundle = (\<lambda>_ _. fail []), ov_generate_pre_keys = (\<lambda>_ _. return []),
      ov_process_pre_key_bundle = (\<lambda>_ _ _. return ()),
      ov_encrypt_key = (\<lambda>_ _ d m _. return \<lparr>ek_device_id = d, ek_is_pre_key = False, ek_data = m\<rparr>),
      ov_decrypt_key = (\<lambda>_ _ _ m _ _. decrypt m)\<rparr>"

abbreviation sample_sender :: omemo_services where "sample_sender \<equiv> sample_omemo return"

definition sample_encryption_run :: "(encryption_error + encrypted_payload) outcome \<times> omemo_state" where
  "sample_encryption_run = encrypt_message sample_sender [sample_peer] ''hi'' sample_omemo_state"

lemma sample_encrypted:
  "\<exists>p s'. encrypt_message sample_sender [sample_peer] ''hi'' sample_omemo_state = (Ok (Inr p), s') \<and>
     ep_device_id p = 7 \<and> map ek_device_id (ep_keys p) = [1, 2]"
proof -
  have "case fst sample_encryption_run of
      Ok (Inr p) \<Rightarrow> ep_device_id p = 7 \<and> map ek_device_id (ep_keys p) = [1, 2] | _ \<Rightarrow> False"
    by code_simp
  then obtain p where "fst sample_encryption_run = Ok (Inr p)" "ep_device_id p = 7" "map ek_device_id (ep_keys p) = [1, 2]"
    by (auto split: outcome.splits sum.splits)
  then show ?thesis unfolding sample_encryption_run_def by (metis prod.collapse)
qed

lemma sample_keys_for_device: "keys_for_device sample_sender"
  by (simp add: keys_for_device_def sample_omemo_def return_def)

theorem encrypted_for_trusted_devices_witness:
  "\<exists>p s'. encrypt_message sample_sender [sample_peer] ''hi'' sample_omemo_state = (Ok (Inr p), s') \<and>
     (\<exists>k \<in> set (ep_keys p). may_encrypt_for sample_owner (om_sessions s') sample_peer (ek_device_id k))"
proof -
  obtain p s' where run: "encrypt_message sample_sender [sample_peer] ''hi'' sample_omemo_state = (Ok (Inr p), s')"
    using sample_encrypted by blast
  have "ov_account sample_sender = Inr sample_owner" by (simp add: sample_omemo_def)
  from encrypted_for_trusted_devices [OF sample_keys_for_device run this] run show ?thesis by auto
qed

lemma sample_sessions_after:
  assumes "encrypt_message sample_sender [sample_peer] ''hi'' sample_omemo_state = (Ok (Inr p), s')"
  shows "may_encrypt_for sample_owner (om_sessions s') sample_peer 2"
proof -
  have "\<exists>r \<in> snd ` set (om_sessions (snd sample_encryption_run)). sr_account r = sample_owner \<and> sr_user_id r = sample_peer \<and>
      sr_device_id r = 2 \<and> sr_is_active r \<and> sr_trust r \<noteq> Untrusted" by code_simp
  then show ?thesis using assms by (simp add: sample_encryption_run_def may_encrypt_for_def sessions.belongs_def same_user_def) (erule bexE; rule bexI; simp)
qed

lemma sample_local_device:
  "get_local_device sample_owner (om_keys sample_omemo_state) = Inr (Some (local_device_from sample_local))"
  by code_simp

definition sample_receiver_state :: omemo_state where
  "sample_receiver_state = sample_omemo_state\<lparr>om_keys := (om_keys sample_omemo_state)\<lparr>ks_local_devices :=
     [(show_account (AccountId sample_peer), sample_local\<lparr>lo_device_id := 2\<rparr>)]\<rparr>\<rparr>"

theorem encrypted_message_decrypted_witness:
  "\<exists>p s' t'. encrypt_message sample_sender [sample_peer] ''hi'' sample_omemo_state = (Ok (Inr p), s') \<and>
     decrypt_payload (sample_sender\<lparr>ov_account := Inr (AccountId sample_peer)\<rparr>) (account_user_id sample_owner) p 0 sample_receiver_state =
       (Ok ''hi'', t')"
proof -
  let ?receiver = "sample_sender\<lparr>ov_account := Inr (AccountId sample_peer)\<rparr>"
  obtain p s' where run: "encrypt_message sample_sender [sample_peer] ''hi'' sample_omemo_state = (Ok (Inr p), s')"
    and keys: "map ek_device_id (ep_keys p) = [1, 2]"
    using sample_encrypted by auto
  let ?dev = "local_device_from (sample_local\<lparr>lo_device_id := 2\<rparr>)"
  have dev: "get_local_device (AccountId sample_peer) (om_keys sample_receiver_state) = Inr (Some ?dev)" by code_simp
  have "may_encrypt_for sample_owner (om_sessions s') sample_peer (ld_device_id ?dev)"
    using sample_sessions_after [OF run] by (simp add: local_device_from_def)
  then have "\<exists>t'. decrypt_payload ?receiver (account_user_id sample_owner) p 0 sample_receiver_state = (Ok ''hi'', t')"
  proof (intro encrypted_message_decrypted [OF run _ sample_keys_for_device, where dev = ?dev and account = "AccountId sample_peer" and u = sample_peer])
    show "ov_from_utf8 ?receiver (string_bytes ''hi'') = Inr ''hi''" by code_simp
    show "distinct (map ek_device_id (ep_keys p))" unfolding keys by simp
  qed (use dev in \<open>auto simp: sample_omemo_def return_def\<close>)
  with run show ?thesis by blast
qed

definition sample_payload :: encrypted_payload where
  "sample_payload = \<lparr>ep_device_id = 1, ep_iv = [], ep_keys = [\<lparr>ek_device_id = 7, ek_is_pre_key = False, ek_data = replicate 32 0\<rparr>], ep_payload = []\<rparr>"

definition sample_key :: encryption_key where
  "sample_key = \<lparr>ek_device_id = 7, ek_is_pre_key = False, ek_data = replicate 32 0\<rparr>"

lemma sample_payload_key: "payload_get_key (ld_device_id (local_device_from sample_local)) sample_payload = Some sample_key"
  by code_simp

theorem malformed_nonce_panics_witness:
  "\<exists>msg. fst (decrypt_message sample_sender sample_peer (RUser sample_peer) None sample_payload None sample_omemo_state) = Panic msg"
proof (rule malformed_nonce_panics [OF _ sample_local_device sample_payload_key])
  show "ov_account sample_sender = Inr sample_owner" "length (ep_iv sample_payload) \<noteq> 12"
    by (simp_all add: sample_omemo_def sample_payload_def)
  show "\<exists>key t'. decrypt_key sample_sender sample_owner sample_key sample_peer (ep_device_id sample_payload) c t = (Ok key, t')" for c t
    by (simp add: decrypt_key_def sample_omemo_def sample_key_def bindM_def return_def mac_size_def key_size_def)
qed

theorem broken_session_not_repaired_witness:
  "let s' = snd (decrypt_message (sample_omemo (\<lambda>_. fail ''broken'')) sample_peer (RUser sample_peer) None sample_payload None sample_omemo_state)
   in om_log s' = [] \<and> (sample_peer, 1) \<in> set (di_broken_sessions (om_contexts s' ! 0))"
proof -
  let ?ov = "sample_omemo (\<lambda>_. fail ''broken'')"
  have "ov_account ?ov = Inr sample_owner" by (simp add: sample_omemo_def)
  moreover have "\<exists>e. decrypt_key ?ov sample_owner sample_key sample_peer (ep_device_id sample_payload) c t = (Err e, t)" for c t
    by (simp add: decrypt_key_def sample_omemo_def bindM_def fail_def throw_def)
  ultimately show ?thesis
    using broken_session_not_repaired [OF _ sample_local_device sample_payload_key _ refl, of ?ov sample_peer "RUser sample_peer" None]
    by (simp add: Let_def sample_omemo_state_def sample_payload_def)
qed

theorem own_device_announced_witness:
  "om_log (snd (handle_received_device_list sample_sender (account_user_id sample_owner) [] sample_omemo_state)) =
     [PublishDeviceList [own_device sample_sender 7]]"
proof -
  have "ov_account sample_sender = Inr sample_owner" by (simp add: sample_omemo_def)
  from own_device_announced [OF this, of sample_omemo_state "account_user_id sample_owner" "[]"] sample_local_device
  show ?thesis by (auto simp: local_device_from_def sample_local_def) (simp add: sample_omemo_state_def)
qed

end
