(* ===== verification/RoomApi.thy ===== *)
theory RoomApi
  imports MessageEvents Encryption
begin

text \<open>
  What the application does with a room (\<^verbatim>\<open>app/services/room.rs\<close>): sending, changing and
  retracting messages, loading pages of the history, drafts, what was read, and the attributes of the
  room.

  The state is that of message events, the drafts, the connection that messages are sent over and the
  state of the encryption service. The parser of Markdown, the service that saves settings and the
  one that sets topics are parameters.
\<close>

section \<open>State\<close>

record 'e api_state =
  as_client :: "'e client_state"
  as_drafts :: "drafts_record rows"
  as_module :: "'e module_context"
  as_omemo :: omemo_state

type_synonym ('e, 'a) api_prog = "('e api_state, 'a) program"

record 'e room_api =
  ra_services :: "'e message_services"
  ra_writer :: "'e payload_writer"
  ra_omemo :: omemo_services
  ra_html :: "string \<Rightarrow> html"
  ra_styling :: "string \<Rightarrow> string"
  ra_mentions :: "string \<Rightarrow> bare_jid list"
  ra_save_settings :: "room_id \<Rightarrow> synced_room_settings \<Rightarrow> world \<Rightarrow> (string + unit) \<times> world"
  ra_set_topic :: "muc_id \<Rightarrow> string option \<Rightarrow> world \<Rightarrow> (string + unit) \<times> world"

definition on_client :: "('e, 'a) client_prog \<Rightarrow> ('e, 'a) api_prog" where
  "on_client p s = (case p (as_client s) of (r, c) \<Rightarrow> (r, s\<lparr>as_client := c\<rparr>))"

definition on_rooms :: "'a prog \<Rightarrow> ('e, 'a) api_prog" where
  "on_rooms p = on_client (on_world p)"

definition on_module :: "('e, 'a) module_prog \<Rightarrow> ('e, 'a) api_prog" where
  "on_module p s = (case p (as_module s) of (r, c) \<Rightarrow> (r, s\<lparr>as_module := c\<rparr>))"

definition on_omemo :: "'a omemo_prog \<Rightarrow> ('e, 'a) api_prog" where
  "on_omemo p s = (case p (as_omemo s) of (r, c) \<Rightarrow> (r, s\<lparr>as_omemo := c\<rparr>))"

abbreviation api_account :: "('e, account_id) api_prog" where
  "api_account \<equiv> on_rooms connected_account"

abbreviation room_data :: "room_ref \<Rightarrow> ('e, room) api_prog" where
  "room_data r \<equiv> on_rooms (read_room r)"

abbreviation ra_clock :: "'e room_api \<Rightarrow> clock" where
  "ra_clock api \<equiv> mv_clock (ra_services api)"

abbreviation ra_rooms :: "'e room_api \<Rightarrow> services" where
  "ra_rooms api \<equiv> mv_rooms (ra_services api)"

definition api_messages :: "(message_rows \<Rightarrow> store_error + 'a) \<Rightarrow> ('e, 'a) api_prog" where
  "api_messages f = on_client (read_messages f)"

text \<open>\<^verbatim>\<open>unwrap_or_default\<close> of the result of a query.\<close>

definition found_or_none :: "('e, 'a option) api_prog \<Rightarrow> ('e, 'a option) api_prog" where
  "found_or_none p = bindM (attempt p) (\<lambda>r. return (case r of Inr v \<Rightarrow> v | Inl _ \<Rightarrow> None))"

section \<open>Data of the application\<close>

record send_request =
  sq_body :: "string option"
  sq_attachments :: "attachment list"

definition send_request_is_empty :: "send_request \<Rightarrow> bool" where
  "send_request_is_empty rq \<longleftrightarrow> (case sq_body rq of Some text \<Rightarrow> text = [] | None \<Rightarrow> True) \<and> sq_attachments rq = []"

record message_sender =
  sn_id :: participant_id
  sn_name :: string
  sn_avatar :: "avatar option"

record reaction_dto =
  rt_emoji :: emoji
  rt_from :: "message_sender list"

record reply_dto =
  rp_id :: "message_id option"
  rp_sender :: message_sender
  rp_timestamp :: "timestamp option"
  rp_body :: "string option"

record message_dto =
  md_id :: message_id
  md_from :: message_sender
  md_body :: body
  md_timestamp :: timestamp
  md_flags :: message_flags
  md_is_last_read :: bool
  md_reactions :: "reaction_dto list"
  md_attachments :: "attachment list"
  md_mentions :: "mention list"
  md_reply_to :: "reply_dto option"

record message_result_set =
  rs_messages :: "message_dto list"
  rs_last_message_id :: "message_id option"

section \<open>Sending messages\<close>

datatype process_message_action = ActSend | ActReplyInThread thread_id | ActUpdate message_id string

fun show_encryption_error :: "encryption_error \<Rightarrow> string" where
  "show_encryption_error (NoDevices _) = ''The recipient does not have any OMEMO-enabled devices.''"
| "show_encryption_error (NoTrustedDevices _) = ''The recipient does not have any trusted OMEMO-enabled devices.''"

text \<open>Sorting users compares each of several with another one, which panics for a user without a node.\<close>

definition sorted_users :: "user_id list \<Rightarrow> user_id list option" where
  "sorted_users us =
     (if 2 \<le> length us \<and> (\<exists>u \<in> set us. username u = None) then None
      else Some (sort_by (\<lambda>a b. case user_id_cmp a b of Some c \<Rightarrow> c | None \<Rightarrow> Equal) us))"

definition recipients_of :: "room \<Rightarrow> user_id list" where
  "recipients_of rm =
     List.map_filter (\<lambda>(_, p). if p_is_self p then None else p_real_id p) (participants_map (rd_participants (r_details rm)))"

definition encrypts :: "room \<Rightarrow> bool" where
  "encrypts rm \<longleftrightarrow> ri_type (r_info rm) \<in> {DirectMessage, Group, PrivateChannel} \<and>
     ss_encryption_enabled (rd_settings (r_details rm))"

definition prepare_payload :: "'e room_api \<Rightarrow> room_ref \<Rightarrow> string \<Rightarrow> ('e, send_payload) api_prog" where
  "prepare_payload api r text =
     bindM (room_data r) (\<lambda>rm.
     if encrypts rm then
       bindM (lift_panic ''Missing node in UserId'' (sorted_users (recipients_of rm))) (\<lambda>users.
       bindM (on_omemo (encrypt_message (ra_omemo api) users (ra_styling api text))) (\<lambda>result.
       case result of
         Inr p \<Rightarrow> return (SendEncrypted p)
       | Inl e \<Rightarrow> fail (show_encryption_error e)))
     else return (SendUnencrypted text (ra_styling api text)))"

definition prepare_body :: "'e room_api \<Rightarrow> room_ref \<Rightarrow> string \<Rightarrow> ('e, like_body \<times> send_body) api_prog" where
  "prepare_body api r text =
     bindM (mapM (\<lambda>j. lift_panic ''Missing node in UserId'' (user_id_from j)) (ra_mentions api text)) (\<lambda>users.
     let mentions = map (\<lambda>u. \<lparr>mention_user = u, mention_range = None\<rparr>) users in
     bindM (prepare_payload api r text) (\<lambda>payload.
     return (\<lparr>lb_raw = text, lb_html = ra_html api text, lb_mentions = mentions\<rparr>,
       \<lparr>sb_payload = payload, sb_mentions = mentions\<rparr>)))"

definition default_body :: like_body where
  "default_body = \<lparr>lb_raw = [], lb_html = [], lb_mentions = []\<rparr>"

fun action_payload :: "process_message_action \<Rightarrow> like_body \<Rightarrow> attachment list \<Rightarrow> payload" where
  "action_payload ActSend body atts = PMessage body atts None False None None"
| "action_payload (ActReplyInThread t) body atts = PMessage body atts None False None (Some t)"
| "action_payload (ActUpdate _ target) body atts = Correction (RemoteId target) body atts None"

fun send_action :: "'e room_api \<Rightarrow> room_id \<Rightarrow> process_message_action \<Rightarrow> send_message_request \<Rightarrow> ('e, unit) module_prog" where
  "send_action api room ActSend rq = send_message (mv_xml (ra_services api)) (ra_writer api) room rq"
| "send_action api room (ActReplyInThread t) rq = send_message_to_thread (mv_xml (ra_services api)) (ra_writer api) room t rq"
| "send_action api room (ActUpdate _ target) rq = update_message (mv_xml (ra_services api)) (ra_writer api) room target rq"

fun action_event :: "message_id \<Rightarrow> process_message_action \<Rightarrow> room_event_type" where
  "action_event i (ActUpdate target _) = MessagesUpdated [target]"
| "action_event i _ = MessagesAppended [i]"

definition process_send_message_request :: "'e room_api \<Rightarrow> room_ref \<Rightarrow> account_id \<Rightarrow> send_request \<Rightarrow> process_message_action \<Rightarrow>
    ('e, unit) api_prog" where
  "process_send_message_request api r account rq action =
     bindM (on_client (new_message_id (ra_services api))) (\<lambda>i.
     bindM
       (case sq_body rq of
          None \<Rightarrow> return (default_body, None)
        | Some text \<Rightarrow> bindM (prepare_body api r text) (\<lambda>(body, send_body). return (body, Some send_body))) (\<lambda>(body, send_body).
     bindM (room_data r) (\<lambda>rm.
     let room = ri_room_id (r_info rm) in
     bindM (on_client (gets (mv_now (ra_services api)))) (\<lambda>now.
     thenM (on_client (append_messages (ra_services api) account room
       [\<lparr>ml_id = i, ml_remote_id = Some i, ml_server_id = None, ml_to = None, ml_from = PUser (account_user_id account),
         ml_timestamp = now, ml_payload = action_payload action body (sq_attachments rq)\<rparr>]))
     (thenM (on_module (send_action api room action
       \<lparr>send_message_request.sr_id = i, sr_body = send_body, sr_attachments = sq_attachments rq\<rparr>))
     (on_rooms (dispatch_room r (action_event i action))))))))"

definition ensure_not_empty :: "send_request \<Rightarrow> ('s, unit) program" where
  "ensure_not_empty rq = (if send_request_is_empty rq then fail ''SendMessageRequest is empty'' else return ())"

section \<open>Settings\<close>

definition update_synced_settings :: "'e room_api \<Rightarrow> room_ref \<Rightarrow> (synced_room_settings \<Rightarrow> synced_room_settings) \<Rightarrow>
    ('e, unit) api_prog" where
  "update_synced_settings api r f =
     bindM (room_data r) (\<lambda>rm.
     let settings = rd_settings (r_details rm); updated = f settings in
     thenM (on_rooms (write_room r (\<lambda>d. d\<lparr>rd_settings := updated\<rparr>)))
     (if updated = settings then return ()
      else thenM (on_rooms (call (ra_save_settings api (ri_room_id (r_info rm)) updated))) (return ())))"

definition set_encryption_enabled :: "'e room_api \<Rightarrow> room_ref \<Rightarrow> bool \<Rightarrow> ('e, unit) api_prog" where
  "set_encryption_enabled api r enabled = update_synced_settings api r (\<lambda>st. st\<lparr>ss_encryption_enabled := enabled\<rparr>)"


definition prose_bot :: participant_id where
  "prose_bot = PUser (UserId (BareJid (Some ''prose-bot'') ''prose.org''))"

definition show_system_message :: "'e room_api \<Rightarrow> room_ref \<Rightarrow> string \<Rightarrow> ('e, unit) api_prog" where
  "show_system_message api r text =
     bindM (on_client (new_message_id (ra_services api))) (\<lambda>i.
     bindM api_account (\<lambda>account.
     bindM (room_data r) (\<lambda>rm.
     bindM (on_client (gets (mv_now (ra_services api)))) (\<lambda>now.
     thenM (on_client (append_messages (ra_services api) account (ri_room_id (r_info rm))
       [\<lparr>ml_id = i, ml_remote_id = Some i, ml_server_id = None, ml_to = None, ml_from = prose_bot, ml_timestamp = now,
         ml_payload = PMessage \<lparr>lb_raw = text, lb_html = text, lb_mentions = []\<rparr> [] None True None None\<rparr>]))
     (on_rooms (dispatch_room r (MessagesAppended [i])))))))"

section \<open>Messages\<close>

definition room_send_message :: "'e room_api \<Rightarrow> room_ref \<Rightarrow> send_request \<Rightarrow> ('e, unit) api_prog" where
  "room_send_message api r rq =
     thenM (ensure_not_empty rq)
     (if sq_body rq = Some ''/omemo enable'' then
        thenM (set_encryption_enabled api r True) (show_system_message api r ''OMEMO is now enabled.'')
      else if sq_body rq = Some ''/omemo disable'' then
        thenM (set_encryption_enabled api r False) (show_system_message api r ''OMEMO is now disabled.'')
      else bindM api_account (\<lambda>account. process_send_message_request api r account rq ActSend))"

definition room_message :: "'e room_api \<Rightarrow> account_id \<Rightarrow> room_ref \<Rightarrow> message_id \<Rightarrow> ('e, message_like list) api_prog" where
  "room_message api account r i =
     bindM (room_data r) (\<lambda>rm. api_messages (messages_get (ra_clock api) account (ri_room_id (r_info rm)) i))"

definition room_reply_to_message :: "'e room_api \<Rightarrow> room_ref \<Rightarrow> message_id \<Rightarrow> send_request \<Rightarrow> ('e, unit) api_prog" where
  "room_reply_to_message api r i rq =
     thenM (ensure_not_empty rq)
     (bindM api_account (\<lambda>account.
      bindM (room_message api account r i) (\<lambda>ms.
      case ms of
        [] \<Rightarrow> fail ''Could not find message to reply to.''
      | m # _ \<Rightarrow>
          (case ml_payload m of
             PMessage _ _ _ _ _ thread \<Rightarrow>
               bindM api_account (\<lambda>account.
               process_send_message_request api r account rq
                 (ActReplyInThread (case thread of Some t \<Rightarrow> t | None \<Rightarrow> ml_id m)))
           | _ \<Rightarrow> fail ''Message is not a regular message and cannot be replied to.''))))"

definition resolve_room_message :: "'e room_api \<Rightarrow> account_id \<Rightarrow> room_ref \<Rightarrow> message_id \<Rightarrow> ('e, id_triple option) api_prog" where
  "resolve_room_message api account r i =
     bindM (room_data r) (\<lambda>rm. api_messages (resolve_message_id (ra_clock api) account (ri_room_id (r_info rm)) i))"

definition quoted_id :: "string \<Rightarrow> string" where
  "quoted_id t = [CHR 0x27] @ t @ [CHR 0x27]"

definition room_update_message :: "'e room_api \<Rightarrow> room_ref \<Rightarrow> message_id \<Rightarrow> send_request \<Rightarrow> ('e, unit) api_prog" where
  "room_update_message api r i rq =
     thenM (ensure_not_empty rq)
     (bindM api_account (\<lambda>account.
      bindM (resolve_room_message api account r i) (\<lambda>t.
      case Option.bind t tr_remote_id of
        None \<Rightarrow> fail (''Failed to resolve message id '' @ quoted_id i @ '' to a server id'')
      | Some target \<Rightarrow> process_send_message_request api r account rq (ActUpdate i target))))"

definition reduce_messages :: "message_like list \<Rightarrow> ('s, message list) program" where
  "reduce_messages ms = (case reducing_messages ms of Inl _ \<Rightarrow> panic ''unreachable'' | Inr xs \<Rightarrow> return xs)"

definition room_toggle_reaction :: "'e room_api \<Rightarrow> room_ref \<Rightarrow> message_id \<Rightarrow> emoji \<Rightarrow> ('e, unit) api_prog" where
  "room_toggle_reaction api r i e =
     bindM api_account (\<lambda>account.
     bindM (room_message api account r i) (\<lambda>ms.
     let user = PUser (account_user_id account) in
     bindM (reduce_messages ms) (\<lambda>xs.
     if xs = [] then fail (''No message with id '' @ i)
     else
       let message = toggle_reaction (last xs) user e; emojis = reactions_from message user; x = mv_xml (ra_services api) in
       bindM (room_data r) (\<lambda>rm.
       case ri_room_id (r_info rm) of
         RUser room \<Rightarrow>
           (case msg_remote_id message of
              None \<Rightarrow> fail ''Cannot react to message for which we do not have a RemoteId.''
            | Some t \<Rightarrow> on_module (react_to_chat_message x room t emojis))
       | RMuc room \<Rightarrow>
           (case msg_server_id message of
              None \<Rightarrow> fail ''Cannot react to MUC message for which we do not have a StanzaId.''
            | Some t \<Rightarrow> on_module (react_to_muc_message x room t emojis))))))"

definition room_retract_message :: "'e room_api \<Rightarrow> room_ref \<Rightarrow> message_id \<Rightarrow> ('e, unit) api_prog" where
  "room_retract_message api r i =
     bindM api_account (\<lambda>account.
     bindM (resolve_room_message api account r i) (\<lambda>t.
     case Option.bind t tr_remote_id of
       None \<Rightarrow> fail (''Failed to resolve message id '' @ quoted_id i @ '' to a remote id'')
     | Some target \<Rightarrow>
         bindM (room_data r) (\<lambda>rm.
         on_module (retract_message (mv_xml (ra_services api)) (ri_room_id (r_info rm)) target))))"


section \<open>Messages as the application sees them\<close>

type_synonym sender_cache = "participant_id \<rightharpoonup> message_sender"

definition resolve_message_sender :: "'e room_api \<Rightarrow> room_ref \<Rightarrow> participant_id \<Rightarrow> ('e, message_sender) api_prog" where
  "resolve_message_sender api r i =
     (let uc = sv_uppercase (ra_rooms api); fallback = unwrap_or_participant_id uc cnb_new i in
      bindM (room_data r) (\<lambda>rm.
      case pl_get (rd_participants (r_details rm)) i of
        Some p \<Rightarrow>
          return \<lparr>sn_id = i, sn_name = unwrap_or_participant_id uc (participant_display_name p) i, sn_avatar = p_avatar p\<rparr>
      | None \<Rightarrow>
          (case p_to_user_id i of
             None \<Rightarrow> return \<lparr>sn_id = i, sn_name = fallback, sn_avatar = None\<rparr>
           | Some u \<Rightarrow>
               bindM (on_rooms (call (sv_user_info (ra_rooms api) u))) (\<lambda>info.
               return (case info of
                 Inr (Some info) \<Rightarrow>
                   \<lparr>sn_id = i, sn_name = unwrap_or_participant_id uc (user_display_name info) i, sn_avatar = ui_avatar info\<rparr>
               | _ \<Rightarrow> \<lparr>sn_id = i, sn_name = fallback, sn_avatar = None\<rparr>)))))"

text \<open>The senders found so far are remembered while a list of messages is converted.\<close>

definition cached_sender :: "'e room_api \<Rightarrow> room_ref \<Rightarrow> participant_id \<Rightarrow> sender_cache \<Rightarrow>
    ('e, message_sender \<times> sender_cache) api_prog" where
  "cached_sender api r i cache =
     (case cache i of
        Some s \<Rightarrow> return (s, cache)
      | None \<Rightarrow> bindM (resolve_message_sender api r i) (\<lambda>s. return (s, cache(i \<mapsto> s))))"

fun cached_senders :: "'e room_api \<Rightarrow> room_ref \<Rightarrow> participant_id list \<Rightarrow> sender_cache \<Rightarrow>
    ('e, message_sender list \<times> sender_cache) api_prog" where
  "cached_senders api r [] cache = return ([], cache)"
| "cached_senders api r (i # is) cache =
     bindM (cached_sender api r i cache) (\<lambda>(s, cache).
     bindM (cached_senders api r is cache) (\<lambda>(ss, cache). return (s # ss, cache)))"

fun reaction_dtos :: "'e room_api \<Rightarrow> room_ref \<Rightarrow> reaction list \<Rightarrow> sender_cache \<Rightarrow>
    ('e, reaction_dto list \<times> sender_cache) api_prog" where
  "reaction_dtos api r [] cache = return ([], cache)"
| "reaction_dtos api r (x # xs) cache =
     bindM (cached_senders api r (re_from x) cache) (\<lambda>(from, cache).
     bindM (reaction_dtos api r xs cache) (\<lambda>(rest, cache).
     return (\<lparr>rt_emoji = re_emoji x, rt_from = from\<rparr> # rest, cache)))"

definition replied_to_message :: "'e room_api \<Rightarrow> account_id \<Rightarrow> room_ref \<Rightarrow> message_id option \<Rightarrow> ('e, message option) api_prog" where
  "replied_to_message api account r i =
     (case i of
        None \<Rightarrow> return None
      | Some i \<Rightarrow>
          bindM (attempt (room_message api account r i)) (\<lambda>ms.
          bindM (reduce_messages (case ms of Inr ms \<Rightarrow> ms | Inl _ \<Rightarrow> [])) (\<lambda>xs.
          return (case xs of [] \<Rightarrow> None | m # _ \<Rightarrow> Some m))))"

definition reply_dto_of :: "'e room_api \<Rightarrow> account_id \<Rightarrow> room_ref \<Rightarrow> reply_to \<Rightarrow> sender_cache \<Rightarrow>
    ('e, reply_dto option \<times> sender_cache) api_prog" where
  "reply_dto_of api account r reply cache =
     bindM (room_data r) (\<lambda>rm.
     let room = ri_room_id (r_info rm) in
     bindM (found_or_none (api_messages
       (case reply_id reply of
          ServerId i \<Rightarrow> resolve_server_id (ra_clock api) account room i
        | RemoteId i \<Rightarrow> resolve_remote_id (ra_clock api) account room i))) (\<lambda>t.
     let message_id = map_option tr_id t in
     bindM (replied_to_message api account r message_id) (\<lambda>m.
     let (from, text, time) =
           (case m of
              Some m \<Rightarrow> (Some (msg_from m), Some (body_raw (msg_body m)), Some (msg_timestamp m))
            | None \<Rightarrow> (reply_to_participant reply, reply_quote reply, None))
     in case from of
          None \<Rightarrow> return (None, cache)
        | Some i \<Rightarrow>
            bindM (cached_sender api r i cache) (\<lambda>(s, cache).
            return (Some \<lparr>rp_id = message_id, rp_sender = s, rp_timestamp = time, rp_body = text\<rparr>, cache)))))"

definition message_to_dto :: "'e room_api \<Rightarrow> account_id \<Rightarrow> room_ref \<Rightarrow> string option \<Rightarrow> message \<Rightarrow> sender_cache \<Rightarrow>
    ('e, message_dto \<times> sender_cache) api_prog" where
  "message_to_dto api account r last_read m cache =
     bindM (cached_sender api r (msg_from m) cache) (\<lambda>(from, cache).
     bindM (reaction_dtos api r (msg_reactions m) cache) (\<lambda>(reactions, cache).
     bindM
       (case msg_reply_to m of
          None \<Rightarrow> return (None, cache)
        | Some reply \<Rightarrow> reply_dto_of api account r reply cache) (\<lambda>(reply, cache).
     return (\<lparr>md_id = msg_id m, md_from = from, md_body = msg_body m, md_timestamp = msg_timestamp m, md_flags = msg_flags m,
       md_is_last_read = (msg_server_id m \<noteq> None \<and> msg_server_id m = last_read), md_reactions = reactions,
       md_attachments = msg_attachments m, md_mentions = msg_mentions m, md_reply_to = reply\<rparr>, cache))))"

fun messages_to_dtos :: "'e room_api \<Rightarrow> account_id \<Rightarrow> room_ref \<Rightarrow> string option \<Rightarrow> message list \<Rightarrow> sender_cache \<Rightarrow>
    ('e, message_dto list) api_prog" where
  "messages_to_dtos api account r last_read [] cache = return []"
| "messages_to_dtos api account r last_read (m # ms) cache =
     bindM (message_to_dto api account r last_read m cache) (\<lambda>(d, cache).
     bindM (messages_to_dtos api account r last_read ms cache) (\<lambda>ds. return (d # ds)))"

definition reduce_messages_and_add_sender :: "'e room_api \<Rightarrow> account_id \<Rightarrow> room_ref \<Rightarrow> message_like list \<Rightarrow>
    ('e, message_dto list) api_prog" where
  "reduce_messages_and_add_sender api account r ms =
     bindM (reduce_messages ms) (\<lambda>xs.
     bindM (room_data r) (\<lambda>rm.
     messages_to_dtos api account r (map_option am_stanza_id (ss_last_read_message (rd_settings (r_details rm)))) xs Map.empty))"

definition load_messages_with_ids :: "'e room_api \<Rightarrow> room_ref \<Rightarrow> message_id list \<Rightarrow> ('e, message_dto list) api_prog" where
  "load_messages_with_ids api r is =
     bindM api_account (\<lambda>account.
     bindM (room_data r) (\<lambda>rm.
     bindM (api_messages (messages_get_all (ra_clock api) account (ri_room_id (r_info rm)) is)) (\<lambda>ms.
     reduce_messages_and_add_sender api account r ms)))"

section \<open>Pages of the history\<close>

text \<open>The variables of the loop; \<open>lm_messages\<close> is in the order from newest to oldest.\<close>

record loaded =
  lm_messages :: "message_like list"
  lm_last_message_id :: "string option"
  lm_last_local_message_id :: "message_id option"
  lm_num_text_messages :: nat
  lm_text_message_ids :: "message_target_id list"

definition target_ids :: "message_like \<Rightarrow> message_target_id list" where
  "target_ids m =
     (case ml_remote_id m of Some i \<Rightarrow> [RemoteId i] | None \<Rightarrow> []) @
     (case ml_server_id m of Some i \<Rightarrow> [ServerId i] | None \<Rightarrow> [])"

definition push_loaded :: "message_like \<Rightarrow> loaded \<Rightarrow> loaded" where
  "push_loaded m acc =
     (let acc1 = (if is_message (ml_payload m)
          then acc\<lparr>lm_num_text_messages := Suc (lm_num_text_messages acc),
                   lm_text_message_ids := lm_text_message_ids acc @ target_ids m\<rparr>
          else acc)
      in acc1\<lparr>lm_messages := lm_messages acc1 @ [m]\<rparr>)"

definition load_archived :: "'e message_services \<Rightarrow> account_id \<Rightarrow> room_ref \<Rightarrow> 'e archived_message \<Rightarrow> loaded \<Rightarrow>
    ('e, loaded) client_prog" where
  "load_archived mv account r a acc =
     bindM (on_world (read_room r)) (\<lambda>rm.
     bindM (archived_message_id mv account rm a) (\<lambda>i.
     let acc1 = (if Some (am_id a) = lm_last_message_id acc then acc\<lparr>lm_last_local_message_id := Some i\<rparr> else acc) in
     bindM (attempt (parse_mam_message (mv_xml mv) (mv_media mv) (mv_parse_jid mv) (mv_encryption mv)
       (message_parser_new (mv_media mv) i (Some rm) 0 None) a)) (\<lambda>parsed.
     return (case parsed of
       Inl _ \<Rightarrow> acc1
     | Inr m \<Rightarrow> if is_error (ml_payload m) then acc1 else push_loaded m acc1))))"

fun load_archived_all :: "'e message_services \<Rightarrow> account_id \<Rightarrow> room_ref \<Rightarrow> 'e archived_message list \<Rightarrow> loaded \<Rightarrow>
    ('e, loaded) client_prog" where
  "load_archived_all mv account r [] acc = return acc"
| "load_archived_all mv account r (a # as) acc =
     bindM (load_archived mv account r a acc) (load_archived_all mv account r as)"

definition first_id :: "'e archived_message list \<Rightarrow> string option" where
  "first_id as = (case as of [] \<Rightarrow> None | a # _ \<Rightarrow> Some (am_id a))"

fun load_message_pages :: "nat \<Rightarrow> 'e message_services \<Rightarrow> account_id \<Rightarrow> room_ref \<Rightarrow> room_id \<Rightarrow> nat \<Rightarrow> loaded \<Rightarrow>
    ('e, loaded) client_prog" where
  "load_message_pages 0 mv account r room page_size acc = return acc"
| "load_message_pages (Suc pages) mv account r room page_size acc =
     (if page_size \<le> lm_num_text_messages acc then return acc
      else
        bindM (mv_load_messages_before mv room (lm_last_message_id acc) page_size) (\<lambda>page.
        bindM (load_archived_all mv account r (rev (pg_messages page))
          (acc\<lparr>lm_last_message_id := first_id (pg_messages page)\<rparr>)) (\<lambda>acc.
        if pg_is_last page then return (acc\<lparr>lm_last_local_message_id := None\<rparr>)
        else load_message_pages pages mv account r room page_size acc)))"

definition start_loading :: "string option \<Rightarrow> loaded" where
  "start_loading before =
     \<lparr>lm_messages = [], lm_last_message_id = before, lm_last_local_message_id = None, lm_num_text_messages = 0,
      lm_text_message_ids = []\<rparr>"

definition later_targeting_earlier_messages :: "'e message_services \<Rightarrow> account_id \<Rightarrow> room_id \<Rightarrow> string option \<Rightarrow> loaded \<Rightarrow>
    ('e, message_like list) client_prog" where
  "later_targeting_earlier_messages mv account room before acc =
     (if before \<noteq> None \<and> lm_text_message_ids acc \<noteq> [] then
        (case lm_messages acc of
           [] \<Rightarrow> return []
         | m # _ \<Rightarrow> read_messages (get_messages_targeting (mv_clock mv) account room (lm_text_message_ids acc) (ml_timestamp m)))
      else return [])"

definition load_messages :: "'e room_api \<Rightarrow> room_ref \<Rightarrow> string option \<Rightarrow> ('e, message_result_set) api_prog" where
  "load_messages api r before =
     (let mv = ra_services api in
      bindM api_account (\<lambda>account.
      bindM (on_client (gets (\<lambda>s. cx_config (w_ctx (cs_world s))))) (\<lambda>config.
      bindM (room_data r) (\<lambda>rm.
      let room = ri_room_id (r_info rm) in
      bindM (on_client (load_message_pages (cf_max_message_pages_to_load config) mv account r room
        (cf_message_page_size config) (start_loading before))) (\<lambda>acc.
      bindM (on_client (later_targeting_earlier_messages mv account room before acc)) (\<lambda>later.
      thenM (on_client (append_messages mv account room (lm_messages acc)))
      (bindM (reduce_messages_and_add_sender api account r (rev (lm_messages acc) @ later)) (\<lambda>ds.
      return \<lparr>rs_messages = ds, rs_last_message_id = lm_last_local_message_id acc\<rparr>)))))))) "

definition load_latest_messages :: "'e room_api \<Rightarrow> room_ref \<Rightarrow> ('e, message_result_set) api_prog" where
  "load_latest_messages api r = load_messages api r None"


definition load_unread_messages :: "'e room_api \<Rightarrow> room_ref \<Rightarrow> ('e, message_result_set) api_prog" where
  "load_unread_messages api r =
     bindM (room_data r) (\<lambda>rm.
     case ss_last_read_message (rd_settings (r_details rm)) of
       None \<Rightarrow> load_latest_messages api r
     | Some last_read \<Rightarrow>
         bindM api_account (\<lambda>account.
         bindM (api_messages (get_messages_after (ra_clock api) account (ri_room_id (r_info rm)) (am_timestamp last_read))) (\<lambda>ms.
         bindM (reduce_messages_and_add_sender api account r ms) (\<lambda>ds.
         return \<lparr>rs_messages = ds, rs_last_message_id = None\<rparr>))))"

section \<open>What was read\<close>

fun resolve_server_ids :: "'e room_api \<Rightarrow> account_id \<Rightarrow> room_id \<Rightarrow> string list \<Rightarrow> ('e, message_id list) api_prog" where
  "resolve_server_ids api account room [] = return []"
| "resolve_server_ids api account room (i # is) =
     bindM (api_messages (resolve_server_id (ra_clock api) account room i)) (\<lambda>t.
     bindM (resolve_server_ids api account room is) (\<lambda>ids.
     return (case t of Some t \<Rightarrow> tr_id t # ids | None \<Rightarrow> ids)))"

definition changed_read_ids :: "archived_message_ref option \<Rightarrow> archived_message_ref option \<Rightarrow> string list" where
  "changed_read_ids former message_ref =
     (if former = message_ref then []
      else (case former of Some f \<Rightarrow> [am_stanza_id f] | None \<Rightarrow> []) @
           (case message_ref of Some m \<Rightarrow> [am_stanza_id m] | None \<Rightarrow> []))"

definition set_last_read_message_ref :: "'e room_api \<Rightarrow> room_ref \<Rightarrow> account_id \<Rightarrow> archived_message_ref option \<Rightarrow> bool \<Rightarrow>
    ('e, unit) api_prog" where
  "set_last_read_message_ref api r account message_ref send_events =
     bindM (room_data r) (\<lambda>rm.
     let ids = changed_read_ids (ss_last_read_message (rd_settings (r_details rm))) message_ref in
     thenM (update_synced_settings api r (\<lambda>st. if ss_last_read_message st = message_ref then st
       else st\<lparr>ss_last_read_message := message_ref\<rparr>))
     (if ids = [] then return ()
      else
        thenM
          (if send_events then
             bindM (resolve_server_ids api account (ri_room_id (r_info rm)) ids) (\<lambda>updated.
             if updated = [] then return () else on_rooms (dispatch_room r (MessagesUpdated updated)))
           else return ())
        (thenM (on_rooms (set_needs_update_statistics r)) (on_rooms (dispatch SidebarChanged)))))"

definition set_last_read_message :: "'e room_api \<Rightarrow> room_ref \<Rightarrow> message_id \<Rightarrow> ('e, unit) api_prog" where
  "set_last_read_message api r i =
     bindM api_account (\<lambda>account.
     bindM (room_message api account r i) (\<lambda>ms.
     case ms of
       [] \<Rightarrow> fail (''No message exists with id '' @ i @ ''.'')
     | m # _ \<Rightarrow>
         (case ml_server_id m of
            Some s \<Rightarrow>
              set_last_read_message_ref api r account (Some \<lparr>am_stanza_id = s, am_timestamp = ml_timestamp m\<rparr>) True
          | None \<Rightarrow>
              bindM (room_data r) (\<lambda>rm.
              bindM (api_messages (get_last_received_message (ra_clock api) account (ri_room_id (r_info rm)) (Some (ml_timestamp m))))
                (\<lambda>last_ref. set_last_read_message_ref api r account last_ref True)))))"

definition mark_as_read :: "'e room_api \<Rightarrow> room_ref \<Rightarrow> ('e, unit) api_prog" where
  "mark_as_read api r =
     bindM api_account (\<lambda>account.
     bindM (room_data r) (\<lambda>rm.
     bindM (api_messages (get_last_received_message (ra_clock api) account (ri_room_id (r_info rm)) None)) (\<lambda>last_ref.
     case last_ref of
       None \<Rightarrow> return ()
     | Some _ \<Rightarrow> set_last_read_message_ref api r account last_ref False)))"

section \<open>Drafts and participants\<close>

definition api_set_user_is_composing :: "'e room_api \<Rightarrow> room_ref \<Rightarrow> bool \<Rightarrow> ('e, unit) api_prog" where
  "api_set_user_is_composing api r composing =
     bindM (room_data r) (\<lambda>rm. on_module (set_user_is_composing (ra_writer api) (ri_room_id (r_info rm)) composing))"

definition load_composing_users :: "'e room_api \<Rightarrow> room_ref \<Rightarrow> ('e, participant_basic_info list) api_prog" where
  "load_composing_users api r =
     bindM (on_client (gets (mv_now (ra_services api)))) (\<lambda>now.
     bindM (room_data r) (\<lambda>rm.
     return (composing_users (sv_uppercase (ra_rooms api)) (now - 30) (rd_participants (r_details rm)))))"

definition room_participants :: "'e room_api \<Rightarrow> room_ref \<Rightarrow> ('e, participant_info list) api_prog" where
  "room_participants api r =
     bindM (room_data r) (\<lambda>rm.
     return (map (\<lambda>(i, p). participant_info_from (sv_uppercase (ra_rooms api)) i p) (participants_map (rd_participants (r_details rm)))))"

definition save_draft :: "room_ref \<Rightarrow> string option \<Rightarrow> ('e, unit) api_prog" where
  "save_draft r text =
     bindM api_account (\<lambda>account.
     bindM (room_data r) (\<lambda>rm.
     bindM (gets (\<lambda>s. drafts_set account (ri_room_id (r_info rm)) text (as_drafts s))) (\<lambda>rows.
     bindM (lift_store rows) (\<lambda>rows.
     thenM (modify_world (\<lambda>s. s\<lparr>as_drafts := rows\<rparr>)) (on_rooms (dispatch SidebarChanged))))))"

definition load_draft :: "room_ref \<Rightarrow> ('e, string option) api_prog" where
  "load_draft r =
     bindM api_account (\<lambda>account.
     bindM (room_data r) (\<lambda>rm.
     bindM (gets (\<lambda>s. drafts_get account (ri_room_id (r_info rm)) (as_drafts s))) lift_store))"

section \<open>Rooms of one kind\<close>

definition room_muc :: "room_ref \<Rightarrow> ('e, muc_id) api_prog" where
  "room_muc r = bindM (room_data r) (\<lambda>rm. lift_panic ''MucRoom must have RoomId::Muc'' (room_muc_id (ri_room_id (r_info rm))))"

definition invite_to_room :: "'e room_api \<Rightarrow> muc_id \<Rightarrow> user_id list \<Rightarrow> ('e, unit) api_prog" where
  "invite_to_room api room users = on_rooms (request (InviteUsers room users) (sv_invite_users (ra_rooms api) room users))"

definition resend_invites_to_members :: "'e room_api \<Rightarrow> room_ref \<Rightarrow> ('e, unit) api_prog" where
  "resend_invites_to_members api r =
     bindM (room_data r) (\<lambda>rm.
     let members = List.map_filter (\<lambda>(_, p). if Member \<le> p_affiliation p then p_real_id p else None)
           (participants_map (rd_participants (r_details rm)))
     in bindM (room_muc r) (\<lambda>room. invite_to_room api room members))"

definition convert_room :: "'e room_api \<Rightarrow> room_ref \<Rightarrow> room_spec \<Rightarrow> string \<Rightarrow> ('e, unit) api_prog" where
  "convert_room api r spec name =
     bindM (room_muc r) (\<lambda>room.
     on_rooms (reconfigure_item_with_spec (mv_fuel (ra_services api)) (ra_rooms api) room spec name))"

definition name_or_empty :: "room \<Rightarrow> string" where
  "name_or_empty rm = (case rd_name (r_details rm) of Some n \<Rightarrow> n | None \<Rightarrow> [])"

definition group_convert_to_private_channel :: "'e room_api \<Rightarrow> room_ref \<Rightarrow> string \<Rightarrow> ('e, unit) api_prog" where
  "group_convert_to_private_channel api r name = convert_room api r SPrivateChannel name"

definition convert_to_public_channel :: "'e room_api \<Rightarrow> room_ref \<Rightarrow> ('e, unit) api_prog" where
  "convert_to_public_channel api r =
     bindM (room_data r) (\<lambda>rm. convert_room api r SPublicChannel (name_or_empty rm))"

definition convert_to_private_channel :: "'e room_api \<Rightarrow> room_ref \<Rightarrow> ('e, unit) api_prog" where
  "convert_to_private_channel api r =
     bindM (room_data r) (\<lambda>rm. convert_room api r SPrivateChannel (name_or_empty rm))"

definition private_invite_users :: "'e room_api \<Rightarrow> room_ref \<Rightarrow> user_id list \<Rightarrow> ('e, unit) api_prog" where
  "private_invite_users api r users = bindM (room_muc r) (\<lambda>room. invite_to_room api room users)"

definition public_invite_users :: "'e room_api \<Rightarrow> room_ref \<Rightarrow> user_id list \<Rightarrow> ('e, unit) api_prog" where
  "public_invite_users api r users =
     thenM (for_each (\<lambda>u. bindM (room_muc r) (\<lambda>room.
       on_rooms (request (GrantMembership room u) (sv_grant_membership (ra_rooms api) room u)))) users)
     (bindM (room_muc r) (\<lambda>room. invite_to_room api room users))"

definition room_set_topic :: "'e room_api \<Rightarrow> room_ref \<Rightarrow> string option \<Rightarrow> ('e, unit) api_prog" where
  "room_set_topic api r topic =
     bindM (room_data r) (\<lambda>rm.
     case room_muc_id (ri_room_id (r_info rm)) of
       None \<Rightarrow> fail ''Cannot set topic on non-MUC room''
     | Some room \<Rightarrow>
         thenM (bindM (on_rooms (call (ra_set_topic api room topic))) lift_any)
         (thenM (on_rooms (set_topic r topic)) (on_rooms (dispatch_room r AttributesChanged))))"

definition room_set_name :: "'e room_api \<Rightarrow> room_ref \<Rightarrow> string \<Rightarrow> ('e, unit) api_prog" where
  "room_set_name api r name = bindM (room_muc r) (\<lambda>room. on_rooms (rename_item (ra_rooms api) room name))"


section \<open>What is sent\<close>

text \<open>Programs that leave a part of the state as it is; a silent one sends no message.\<close>

definition same :: "('s \<Rightarrow> 'b) \<Rightarrow> ('s, 'a) program \<Rightarrow> bool" where
  "same f m \<longleftrightarrow> (\<forall>s. f (snd (m s)) = f s)"

abbreviation silent :: "('e, 'a) api_prog \<Rightarrow> bool" where
  "silent \<equiv> same as_module"

lemma sameD: "same f m \<Longrightarrow> f (snd (m s)) = f s"
  by (simp add: same_def)

lemma same_bind: "same f m \<Longrightarrow> (\<And>a. same f (g a)) \<Longrightarrow> same f (bindM m g)"
  by (auto simp: same_def bindM_def split: prod.split outcome.split) (metis snd_conv)+

lemma same_then: "same f m \<Longrightarrow> same f n \<Longrightarrow> same f (thenM m n)"
  by (simp add: thenM_def same_bind)

lemma same_simple:
  "same f (return a)" "same f (throw e)" "same f (panic msg)" "same f (gets g)" "same f (fail msg)" "same f (lift_panic msg y)"
  "same f (lift_any z)"
  by (auto simp: same_def prog_defs fail_def split: option.split sum.split)

lemma same_parts:
  "silent (on_client p)" "silent (on_rooms q)" "silent (on_omemo om)" "same as_client (on_omemo om)" "same as_client (on_module n)"
  by (auto simp: same_def on_client_def on_rooms_def on_omemo_def on_module_def split: prod.split)

lemma same_room_data: "same f (room_data r)"
  by (simp add: same_def on_rooms_def on_client_def on_world_def read_room_def gets_def)

lemma same_attempt: "same f m \<Longrightarrow> same f (attempt m)"
  by (auto simp: same_def attempt_def split: prod.split outcome.split) (metis snd_conv)+

lemma same_mapM: "(\<And>x. same f (g x)) \<Longrightarrow> same f (mapM g xs)"
  by (induction xs) (auto intro: same_bind same_simple)

lemmas same_intros = same_simple same_parts same_room_data same_bind same_then same_attempt same_mapM

lemma same_prepare_body: "silent (prepare_body api r text)" "same as_client (prepare_body api r text)"
  unfolding prepare_body_def prepare_payload_def Let_def by (auto intro!: same_intros split: sum.split)

lemma prepare_body_client: "prepare_body api r text s = (Ok x, s') \<Longrightarrow> as_client s' = as_client s"
  using sameD [OF same_prepare_body(2), of api r "text" s] by simp

lemma silent_settings: "silent (update_synced_settings api r f)"
  unfolding update_synced_settings_def Let_def by (auto intro!: same_intros)

lemma silent_system_message: "silent (show_system_message api r text)"
  unfolding show_system_message_def by (auto intro!: same_intros)

text \<open>A step that sends nothing, followed by the rest.\<close>

lemma module_bind:
  assumes "silent m" "P (as_module s)" "\<And>a s1. m s = (Ok a, s1) \<Longrightarrow> as_module s1 = as_module s \<Longrightarrow> P (as_module (snd (f a s1)))"
  shows "P (as_module (snd (bindM m f s)))"
proof -
  obtain res s1 where m: "m s = (res, s1)" by fastforce
  with sameD [OF assms(1), of s] have "as_module s1 = as_module s" by simp
  with assms(2,3) m show ?thesis by (cases res) (simp_all add: bindM_def)
qed

lemma module_then:
  assumes "silent m" "P (as_module s)" "\<And>a s1. m s = (Ok a, s1) \<Longrightarrow> as_module s1 = as_module s \<Longrightarrow> P (as_module (snd (n s1)))"
  shows "P (as_module (snd (thenM m n s)))"
  unfolding thenM_def by (rule module_bind [where P = P]) (use assms in blast)+

lemma module_after: "silent n \<Longrightarrow> P (as_module (snd (m s))) \<Longrightarrow> P (as_module (snd (thenM m n s)))"
  by (auto simp: thenM_def bindM_def same_def split: prod.split outcome.split)

text \<open>The stanza of a request.\<close>

fun action_stanza :: "'e room_api \<Rightarrow> full_jid \<Rightarrow> room_id \<Rightarrow> process_message_action \<Rightarrow> send_message_request \<Rightarrow> 'e message_stanza" where
  "action_stanza api own room ActSend rq = message_for_room (mv_xml (ra_services api)) (ra_writer api) own room rq"
| "action_stanza api own room (ActReplyInThread t) rq =
     message_for_thread (mv_xml (ra_services api)) (ra_writer api) own room t rq"
| "action_stanza api own room (ActUpdate _ target) rq =
     correction_for_room (mv_xml (ra_services api)) (ra_writer api) own room target rq"

lemma send_action_log:
  "mc_log (snd (send_action api room action rq mc)) = mc_log mc \<or>
   (\<exists>own. mc_log (snd (send_action api room action rq mc)) = mc_log mc @ [SentMessage (action_stanza api own room action rq)])"
  by (cases action)
    (auto simp: send_message_def send_message_to_thread_def update_message_def connected_jid_def send_raw_message_def
      send_stanza_def prog_defs fail_def split: option.split)


abbreviation room_of :: "'e api_state \<Rightarrow> room_ref \<Rightarrow> room" where
  "room_of s r \<equiv> w_heap (cs_world (as_client s)) ! r"

lemma room_data_run: "room_data r s = (Ok (room_of s r), s)"
  by (simp add: on_rooms_def on_client_def on_world_def read_room_def gets_def)

lemma new_id_run: "on_client (new_message_id mv) s =
    (Ok (mv_new_id mv (cs_ids (as_client s))), s\<lparr>as_client := (as_client s)\<lparr>cs_ids := Suc (cs_ids (as_client s))\<rparr>\<rparr>)"
  by (simp add: on_client_def new_message_id_def)

lemma mapM_panic_run: "mapM (\<lambda>x. lift_panic msg (f x)) xs s = (Ok ys, s') \<Longrightarrow> s' = s"
  by (induction xs arbitrary: ys) (auto simp: run_simps lift_panic_def panic_def split: option.splits)

definition encrypted_for :: "'e room_api \<Rightarrow> room \<Rightarrow> string \<Rightarrow> omemo_state \<Rightarrow> encrypted_payload \<Rightarrow> bool" where
  "encrypted_for api rm text t p \<longleftrightarrow>
     (\<exists>users t'. sorted_users (recipients_of rm) = Some users \<and>
        encrypt_message (ra_omemo api) users (ra_styling api text) t = (Ok (Inr p), t'))"

lemma prepare_body_encrypted:
  assumes "prepare_body api r text s = (Ok (body, sb), s')" "encrypts (room_of s r)"
  shows "\<exists>p. encrypted_for api (room_of s r) text (as_omemo s) p \<and> sb_payload sb = SendEncrypted p"
proof -
  from assms(1) obtain s1 where "prepare_payload api r text s1 = (Ok (sb_payload sb), s')" "s1 = s"
    by (auto simp: prepare_body_def Let_def run_simps dest: mapM_panic_run)
  with assms(2) show ?thesis
    by (auto simp: prepare_payload_def run_simps room_data_run lift_panic_def panic_def return_def fail_def throw_def on_omemo_def
        encrypted_for_def split: option.splits sum.splits prod.splits) (metis sum.exhaust)
qed

definition encrypted_notice :: string where
  "encrypted_notice = ''[This message is OMEMO encrypted]''"

text \<open>What may leave the client for a message with a text: the text only within the encrypted payload.\<close>

definition sends_ciphertext :: "'e room_api \<Rightarrow> room \<Rightarrow> omemo_state \<Rightarrow> send_request \<Rightarrow> 'e module_effect \<Rightarrow> bool" where
  "sends_ciphertext api rm t rq e \<longleftrightarrow>
     (\<exists>m own action i body. e = SentMessage m \<and>
        m = action_stanza api own (ri_room_id (r_info rm)) action
              \<lparr>send_message_request.sr_id = i, sr_body = body, sr_attachments = sq_attachments rq\<rparr> \<and>
        set (ms_bodies m) \<subseteq> {([], encrypted_notice)} \<and>
        (case sq_body rq of
           None \<Rightarrow> body = None
         | Some text \<Rightarrow> (\<exists>b p. body = Some b \<and> sb_payload b = SendEncrypted p \<and> encrypted_for api rm text t p)))"

lemma attachments_bodies [simp]: "ms_bodies (append_attachments x as m) = ms_bodies m"
proof (induction as arbitrary: m)
  case (Cons a as)
  then show ?case by (simp add: append_attachments_def push_payload_def)
qed (simp add: append_attachments_def)

lemma stanza_bodies:
  "ms_bodies (action_stanza api own room action rq) =
     (case sr_body rq of
        None \<Rightarrow> []
      | Some b \<Rightarrow> [([], case sb_payload b of SendUnencrypted _ fallback \<Rightarrow> fallback | SendEncrypted _ \<Rightarrow> encrypted_notice)])"
  by (cases action; cases rq)
    (auto simp: message_for_room_def message_for_thread_def correction_for_room_def set_store_def set_markable_def set_chat_state_def
      set_message_body_def set_replace_def set_thread_def set_to_def set_from_def set_id_def set_type_def push_payload_def
      set_omemo_payload_def set_body_def add_references_def add_content_def message_new_def encrypted_notice_def Let_def
      split: option.split send_payload.split)

lemma module_last: "as_module (snd (thenM (on_module p) (on_rooms q) s)) = snd (p (as_module s))"
  by (auto simp: thenM_def bindM_def on_module_def on_rooms_def on_client_def split: prod.split outcome.split)

lemma append_run: "on_client (append_messages mv account room ms) s = (Ok (), s\<lparr>as_client := (as_client s)\<lparr>cs_messages :=
    messages_append (mv_clock mv) account room ms (cs_messages (as_client s))\<rparr>\<rparr>)"
  by (simp add: on_client_def append_messages_def modify_world_def)

lemma process_sends_ciphertext:
  assumes "encrypts (room_of s r)"
    and "mc' = as_module (snd (process_send_message_request api r account rq action s))"
  shows "mc_log mc' = mc_log (as_module s) \<or>
    (\<exists>e. mc_log mc' = mc_log (as_module s) @ [e] \<and> sends_ciphertext api (room_of s r) (as_omemo s) rq e)"
proof -
  let ?P = "\<lambda>mc. mc_log mc = mc_log (as_module s) \<or>
    (\<exists>e. mc_log mc = mc_log (as_module s) @ [e] \<and> sends_ciphertext api (room_of s r) (as_omemo s) rq e)"
  have "?P (as_module (snd (process_send_message_request api r account rq action s)))"
    unfolding process_send_message_request_def
  proof (rule module_bind [where P = ?P], goal_cases)
    case (3 i s1)
    then have s1: "room_of s1 r = room_of s r" "as_omemo s1 = as_omemo s" by (auto simp: new_id_run)
    show ?case
    proof (rule module_bind [where P = ?P], goal_cases)
      case (3 bodies s2)
      obtain body sb where bodies: "bodies = (body, sb)" by fastforce
      have cipher: "case sq_body rq of
          None \<Rightarrow> sb = None
        | Some text \<Rightarrow> (\<exists>b p. sb = Some b \<and> sb_payload b = SendEncrypted p \<and> encrypted_for api (room_of s r) text (as_omemo s) p)"
        using 3(1) bodies assms(1) s1
        by (auto simp: run_simps split: option.splits prod.splits dest!: prepare_body_encrypted)
      have "room_of s2 r = room_of s r"
        using 3(1) s1 by (auto simp: run_simps split: option.splits prod.splits dest!: prepare_body_client)
      moreover from 3 \<open>as_module s1 = as_module s\<close> have "as_module s2 = as_module s" by simp
      ultimately show ?case
        using send_action_log [of api "ri_room_id (r_info (room_of s r))" action
            "\<lparr>send_message_request.sr_id = i, sr_body = sb, sr_attachments = sq_attachments rq\<rparr>" "as_module s"] cipher
        by (force simp: bodies room_data_run eval_bind Let_def gets_def on_client_def [of "gets _"] bindM_def [of "\<lambda>s. (Ok _, s)"]
            append_run bindM_def thenM_def [of "on_client _"] module_last sends_ciphertext_def stanza_bodies split: option.splits)
    qed (use 3 in \<open>auto intro!: same_intros same_prepare_body split: option.split\<close>)
  qed (simp_all add: same_parts)
  with assms(2) show ?thesis by simp
qed

lemma same_on_client: "same id p \<Longrightarrow> same f (on_client p)"
  by (auto simp: same_def on_client_def split: prod.split) (metis api_state.surjective api_state.update_convs(1) snd_conv)

lemma same_on_world: "same id p \<Longrightarrow> same f (on_world p)"
  by (auto simp: same_def on_world_def split: prod.split) (metis client_state.surjective client_state.update_convs(1) snd_conv)

lemma same_connected_account: "same f connected_account"
  unfolding connected_account_def by (auto intro!: same_intros)

lemma same_lift_store: "same f (lift_store q)"
  by (auto simp: lift_store_def intro!: same_intros split: sum.split store_error.split)

lemma same_queries: "same f api_account" "same f (api_messages q)"
  unfolding on_rooms_def api_messages_def read_messages_def
  by (auto intro!: same_on_client same_on_world same_connected_account same_intros same_lift_store)

lemma same_room_queries: "same f (room_message api account r i)" "same f (resolve_room_message api account r i)"
  unfolding room_message_def resolve_room_message_def by (auto intro!: same_intros same_queries)

lemma same_ensure: "same f (ensure_not_empty rq)"
  by (simp add: ensure_not_empty_def same_simple)

lemma query_bind:
  assumes "same id m" "P (as_module s)" "\<And>a. m s = (Ok a, s) \<Longrightarrow> P (as_module (snd (f a s)))"
  shows "P (as_module (snd (bindM m f s)))"
proof -
  obtain res s1 where m: "m s = (res, s1)" by fastforce
  with sameD [OF assms(1), of s] have "s1 = s" by simp
  with assms(2,3) m show ?thesis by (cases res) (simp_all add: bindM_def)
qed

lemma query_then:
  assumes "same id m" "P (as_module s)" "P (as_module (snd (n s)))"
  shows "P (as_module (snd (thenM m n s)))"
  unfolding thenM_def by (rule query_bind [where P = P]) (use assms in blast)+

text \<open>
  C6. In a room with encryption, whichever way a text is sent (as a new message, as a reply or as a
  correction), the client sends at most one message stanza; its bodies say nothing but that the message
  is encrypted, and it carries the text only within a payload that was encrypted for the participants of
  the room.
\<close>

theorem encrypted_room_sends_ciphertext:
  assumes "encrypts (room_of s r)"
    and "run \<in> {room_send_message api r rq, room_reply_to_message api r i rq, room_update_message api r i rq}"
    and "mc' = as_module (snd (run s))"
  shows "mc_log mc' = mc_log (as_module s) \<or>
    (\<exists>e. mc_log mc' = mc_log (as_module s) @ [e] \<and> sends_ciphertext api (room_of s r) (as_omemo s) rq e)"
proof -
  define P where "P mc \<longleftrightarrow> mc_log mc = mc_log (as_module s) \<or>
    (\<exists>e. mc_log mc = mc_log (as_module s) @ [e] \<and> sends_ciphertext api (room_of s r) (as_omemo s) rq e)" for mc :: "'a module_context"
  have P: "P (as_module s)" by (simp add: P_def)
  have process: "P (as_module (snd (process_send_message_request api r account rq action s)))" for account action
    unfolding P_def by (rule process_sends_ciphertext [OF assms(1) refl])
  have slash: "P (as_module (snd (thenM (set_encryption_enabled api r b) (show_system_message api r msg) s)))" for b msg
    using sameD [OF same_then [OF silent_settings silent_system_message], of api r _ api r msg s]
    by (simp add: set_encryption_enabled_def P)
  have "P (as_module (snd (room_send_message api r rq s)))"
    unfolding room_send_message_def
    by (rule query_then [where P = P])
      (use slash process in \<open>auto intro!: same_ensure query_bind [where P = P] same_queries P\<close>)
  moreover have "P (as_module (snd (room_reply_to_message api r i rq s)))"
    unfolding room_reply_to_message_def
    by (intro query_then [where P = P] query_bind [where P = P] same_ensure same_queries same_room_queries P)
      (auto split: list.split payload.split
        intro!: process query_bind [where P = P] same_queries simp: fail_def throw_def P)
  moreover have "P (as_module (snd (room_update_message api r i rq s)))"
    unfolding room_update_message_def
    by (intro query_then [where P = P] query_bind [where P = P] same_ensure same_queries same_room_queries P)
      (auto split: option.split intro!: process simp: fail_def throw_def P)
  ultimately show ?thesis using assms(2,3) by (auto simp: P_def)
qed


section \<open>Paging\<close>




text \<open>
  What the client relies on of an archive, the messages of which are given from oldest to newest: a page before
  a message, or at the end, holds messages just before that one; only a last page may be empty, and a last page holds all
  that are left. \<open>page n\<close> is the page before the message at the index \<open>n\<close>, and \<open>page_start page n\<close> is where it begins, so
  that the \<open>i\<close>-th page further back ends there.
\<close>

definition at_position :: "'e archived_message list \<Rightarrow> string option \<Rightarrow> nat \<Rightarrow> bool" where
  "at_position as before n \<longleftrightarrow> before = None \<and> n = length as \<or> n < length as \<and> before = Some (am_id (as ! n))"

definition page_before :: "'e archived_message list \<Rightarrow> nat \<Rightarrow> 'e message_page \<Rightarrow> bool" where
  "page_before as n p \<longleftrightarrow> suffix (pg_messages p) (take n as) \<and> (pg_messages p = [] \<longrightarrow> pg_is_last p) \<and>
     (pg_is_last p \<longrightarrow> pg_messages p = take n as)"

definition honest_history :: "'e message_services \<Rightarrow> room_id \<Rightarrow> nat \<Rightarrow> 'e archived_message list \<Rightarrow> (nat \<Rightarrow> 'e message_page) \<Rightarrow> bool" where
  "honest_history mv room page_size as page \<longleftrightarrow>
     (\<forall>before n s. at_position as before n \<longrightarrow>
        mv_load_messages_before mv room before page_size s = (Ok (page n), s) \<and> page_before as n (page n))"

definition page_start :: "(nat \<Rightarrow> 'e message_page) \<Rightarrow> nat \<Rightarrow> nat" where
  "page_start page n = n - length (pg_messages (page n))"

lemma page_before_drop:
  assumes "page_before as n p" "at_position as before n"
  obtains k where "k \<le> n" "pg_messages p = drop k (take n as)" "pg_is_last p \<Longrightarrow> k = 0"
    "\<not> pg_is_last p \<Longrightarrow> k < n \<and> at_position as (first_id (pg_messages p)) k"
proof (cases "pg_is_last p")
  case True
  show ?thesis by (rule that [of 0]) (use assms(1) True in \<open>simp_all add: page_before_def\<close>)
next
  case False
  from assms(1) obtain pre where pre: "take n as = pre @ pg_messages p"
    unfolding page_before_def suffix_def by blast
  have n: "n \<le> length as" using assms(2) by (auto simp: at_position_def)
  with arg_cong [OF pre, of length] have len: "length pre + length (pg_messages p) = n" by simp
  from False assms(1) have "pg_messages p \<noteq> []" by (auto simp: page_before_def)
  then obtain a rest where page: "pg_messages p = a # rest" by (cases "pg_messages p") auto
  with len n have less: "length pre < n" "length pre < length as" by auto
  then have "as ! length pre = a" using pre page by (metis nth_append_length nth_take)
  with page less have "at_position as (first_id (pg_messages p)) (length pre)" by (simp add: at_position_def first_id_def)
  with False less pre show ?thesis by (intro that [of "length pre"]) simp_all
qed

lemma honest_page:
  assumes "honest_history mv room page_size as page" "at_position as before n"
  shows "mv_load_messages_before mv room before page_size s = (Ok (page n), s)"
    "pg_messages (page n) = drop (page_start page n) (take n as)"
    "pg_is_last (page n) \<Longrightarrow> page_start page n = 0"
    "\<not> pg_is_last (page n) \<Longrightarrow> page_start page n < n \<and> at_position as (first_id (pg_messages (page n))) (page_start page n)"
proof -
  have page: "page_before as n (page n)" using assms unfolding honest_history_def by blast
  obtain k where k: "k \<le> n" "pg_messages (page n) = drop k (take n as)" "pg_is_last (page n) \<Longrightarrow> k = 0"
      "\<not> pg_is_last (page n) \<Longrightarrow> k < n \<and> at_position as (first_id (pg_messages (page n))) k"
    using page_before_drop [OF page assms(2)] by blast
  have "n \<le> length as" using assms(2) by (auto simp: at_position_def)
  with k(1) arg_cong [OF k(2), of length] have start: "page_start page n = k" by (simp add: page_start_def)
  show "mv_load_messages_before mv room before page_size s = (Ok (page n), s)"
    using assms unfolding honest_history_def by blast
  from k(2) show "pg_messages (page n) = drop (page_start page n) (take n as)" by (simp only: start)
  from k(3) show "pg_is_last (page n) \<Longrightarrow> page_start page n = 0" by (simp add: start)
  from k(4) show "\<not> pg_is_last (page n) \<Longrightarrow> page_start page n < n \<and> at_position as (first_id (pg_messages (page n))) (page_start page n)"
    by (simp add: start)
qed

lemma pages_back: "(page_start page ^^ i) n \<le> n"
  by (induction i) (auto simp: page_start_def intro: diff_le_self le_trans)

lemma pages_back_Suc: "(page_start page ^^ Suc i) n = (page_start page ^^ i) (page_start page n)"
  by (simp add: funpow_swap1)







section \<open>Pages together\<close>

text \<open>Reading one message of the archive, and what the loop makes of it.\<close>

definition read_archived :: "'e message_services \<Rightarrow> account_id \<Rightarrow> room_ref \<Rightarrow> 'e archived_message \<Rightarrow>
    ('e, string \<times> message_id \<times> message_like option) client_prog" where
  "read_archived mv account r a =
     bindM (on_world (read_room r)) (\<lambda>rm.
     bindM (archived_message_id mv account rm a) (\<lambda>i.
     bindM (attempt (parse_mam_message (mv_xml mv) (mv_media mv) (mv_parse_jid mv) (mv_encryption mv)
       (message_parser_new (mv_media mv) i (Some rm) 0 None) a)) (\<lambda>parsed.
     return (am_id a, i, case parsed of Inl _ \<Rightarrow> None | Inr m \<Rightarrow> if is_error (ml_payload m) then None else Some m))))"

definition add_archived :: "string \<times> message_id \<times> message_like option \<Rightarrow> loaded \<Rightarrow> loaded" where
  "add_archived x acc =
     (case x of (archive_id, i, m) \<Rightarrow>
        let acc1 = (if Some archive_id = lm_last_message_id acc then acc\<lparr>lm_last_local_message_id := Some i\<rparr> else acc)
        in case m of None \<Rightarrow> acc1 | Some m \<Rightarrow> push_loaded m acc1)"

definition shown :: "(string \<times> message_id \<times> message_like option) list \<Rightarrow> message_like list" where
  "shown xs = List.map_filter (\<lambda>(_, _, m). m) xs"

lemma load_archived_read:
  "load_archived mv account r a acc = bindM (read_archived mv account r a) (\<lambda>x. return (add_archived x acc))"
  unfolding load_archived_def read_archived_def bindM_assoc
  by (intro arg_cong [of _ _ "bindM _"] ext) (auto simp: add_archived_def Let_def intro!: bindM_cong_Ok split: sum.split)

lemma load_archived_all_read:
  "load_archived_all mv account r as acc = bindM (mapM (read_archived mv account r) as) (\<lambda>xs. return (fold add_archived xs acc))"
proof (induction as arbitrary: acc)
  case (Cons a as)
  then show ?case by (simp add: load_archived_read bindM_assoc)
qed simp

lemma mapM_append: "mapM f (xs @ ys) = bindM (mapM f xs) (\<lambda>as. bindM (mapM f ys) (\<lambda>bs. return (as @ bs)))"
proof (induction xs)
  case Nil
  have "(\<lambda>bs. return ([] @ bs)) = return" by simp
  then show ?case by simp
next
  case (Cons x xs)
  then show ?case by (simp add: bindM_assoc)
qed

lemma add_archived_all:
  "lm_messages (fold add_archived xs acc) = lm_messages acc @ shown xs"
  "lm_num_text_messages (fold add_archived xs acc) =
     lm_num_text_messages acc + length (filter (\<lambda>m. is_message (ml_payload m)) (shown xs))"
  "lm_last_message_id (fold add_archived xs acc) = lm_last_message_id acc"
  by (induction xs arbitrary: acc)
    (auto simp: shown_def add_archived_def push_loaded_def Let_def map_filter_simps split: option.split)

text \<open>
  Reading the messages of the first pages back from a position as if they had come on one page, and
  whether another page is wanted then: reading has not failed, there are too few messages with text, and the last page
  has not been read.
\<close>

definition read_back :: "'e message_services \<Rightarrow> account_id \<Rightarrow> room_ref \<Rightarrow> 'e archived_message list \<Rightarrow> (nat \<Rightarrow> 'e message_page) \<Rightarrow>
    nat \<Rightarrow> nat \<Rightarrow> ('e, (string \<times> message_id \<times> message_like option) list) client_prog" where
  "read_back mv account r as page n i = mapM (read_archived mv account r) (rev (drop ((page_start page ^^ i) n) (take n as)))"

definition num_texts :: "(string \<times> message_id \<times> message_like option) list \<Rightarrow> nat" where
  "num_texts xs = length (filter (\<lambda>m. is_message (ml_payload m)) (shown xs))"

definition reads_on :: "'e message_services \<Rightarrow> account_id \<Rightarrow> room_ref \<Rightarrow> 'e archived_message list \<Rightarrow> (nat \<Rightarrow> 'e message_page) \<Rightarrow>
    nat \<Rightarrow> nat \<Rightarrow> nat \<Rightarrow> 'e client_state \<Rightarrow> bool" where
  "reads_on mv account r as page wanted n i s \<longleftrightarrow>
     (case fst (read_back mv account r as page n i s) of Ok xs \<Rightarrow> num_texts xs < wanted | _ \<Rightarrow> False) \<and>
     \<not> (0 < i \<and> pg_is_last (page ((page_start page ^^ (i - 1)) n)))"

text \<open>That loading gives the messages with content of those that were read, after others, and fails where reading does.\<close>

definition loads_as :: "message_like list \<Rightarrow> (string \<times> message_id \<times> message_like option) list outcome \<times> 's \<Rightarrow> loaded outcome \<times> 's \<Rightarrow> bool" where
  "loads_as ms reading loading \<longleftrightarrow>
     (case reading of
        (Ok xs, s) \<Rightarrow> (\<exists>acc. loading = (Ok acc, s) \<and> lm_messages acc = ms @ shown xs)
      | (Err e, s) \<Rightarrow> loading = (Err e, s)
      | (Panic e, s) \<Rightarrow> loading = (Panic e, s)
      | (NoFuel, s) \<Rightarrow> loading = (NoFuel, s))"

lemma read_back_0 [simp]: "n \<le> length as \<Longrightarrow> read_back mv account r as page n 0 s = (Ok [], s)"
  by (simp add: read_back_def return_def)

lemma num_texts_simps [simp]: "num_texts [] = 0" "num_texts (xs @ ys) = num_texts xs + num_texts ys"
  by (simp_all add: num_texts_def shown_def map_filter_simps map_filter_append)

lemma read_back_Suc:
  assumes "read_back mv account r as page n 1 s = (Ok xs, s1)"
  shows "read_back mv account r as page n (Suc i) s =
    bindM (read_back mv account r as page (page_start page n) i) (\<lambda>ys. return (xs @ ys)) s1"
proof -
  let ?k = "page_start page n" and ?l = "(page_start page ^^ i) (page_start page n)"
  have "?l \<le> ?k" "?k \<le> n" by (rule pages_back, simp add: page_start_def)
  then have "rev (drop ?l (take n as)) = rev (drop ?k (take n as)) @ rev (drop ?l (take ?k as))"
    using take_add [of "?k - ?l" "n - ?k" "drop ?l as"] by (simp add: drop_take flip: rev_append)
  with assms show ?thesis
    unfolding read_back_def pages_back_Suc by (simp add: mapM_append) (simp add: bindM_def)
qed

lemma reads_on_Suc:
  assumes "read_back mv account r as page n 1 s = (Ok xs, s1)" "\<not> pg_is_last (page n)"
  shows "reads_on mv account r as page wanted n (Suc i) s \<longleftrightarrow>
    reads_on mv account r as page (wanted - num_texts xs) (page_start page n) i s1"
proof -
  have "(page_start page ^^ i) n = (page_start page ^^ (i - 1)) (page_start page n)" if "0 < i"
    using that pages_back_Suc [of "i - 1" page n] by simp
  then show ?thesis
    using assms(2) unfolding reads_on_def read_back_Suc [OF assms(1)]
    by (cases i) (auto simp: bindM_def return_def less_diff_conv add.commute simp del: funpow.simps split: prod.splits outcome.splits)
qed

lemma load_page_read:
  assumes "honest_history mv room page_size as page" "at_position as (lm_last_message_id acc) n" "lm_num_text_messages acc < page_size"
  shows "load_message_pages (Suc pages) mv account r room page_size acc s =
    bindM (read_back mv account r as page n 1) (\<lambda>xs.
      let acc' = fold add_archived xs (acc\<lparr>lm_last_message_id := first_id (pg_messages (page n))\<rparr>)
      in if pg_is_last (page n) then return (acc'\<lparr>lm_last_local_message_id := None\<rparr>)
         else load_message_pages pages mv account r room page_size acc') s"
  using assms(3) honest_page(1,2) [OF assms(1,2)]
  by (simp add: load_archived_all_read read_back_def bindM_def return_def Let_def split: prod.split outcome.split)

lemma load_pages_exact:
  assumes archive: "honest_history mv room page_size as page" and "at_position as (lm_last_message_id acc) n"
  shows "\<exists>m \<le> pages.
    (\<forall>i<m. reads_on mv account r as page (page_size - lm_num_text_messages acc) n i s) \<and>
    \<not> (m < pages \<and> reads_on mv account r as page (page_size - lm_num_text_messages acc) n m s) \<and>
    loads_as (lm_messages acc) (read_back mv account r as page n m s) (load_message_pages pages mv account r room page_size acc s)"
  using assms(2)
proof (induction pages arbitrary: acc n s)
  case 0
  then have "n \<le> length as" by (auto simp: at_position_def)
  then show ?case by (simp add: loads_as_def return_def shown_def map_filter_simps)
next
  case (Suc pages)
  from Suc.prems have n: "n \<le> length as" by (auto simp: at_position_def)
  let ?wanted = "page_size - lm_num_text_messages acc"
  show ?case
  proof (cases "page_size \<le> lm_num_text_messages acc")
    case True
    with n show ?thesis by (intro exI [of _ 0]) (simp add: loads_as_def reads_on_def return_def shown_def map_filter_simps)
  next
    case False
    with n have first: "reads_on mv account r as page ?wanted n 0 s" by (simp add: reads_on_def)
    have loop: "load_message_pages (Suc pages) mv account r room page_size acc s =
      bindM (read_back mv account r as page n 1) (\<lambda>xs.
        let acc' = fold add_archived xs (acc\<lparr>lm_last_message_id := first_id (pg_messages (page n))\<rparr>)
        in if pg_is_last (page n) then return (acc'\<lparr>lm_last_local_message_id := None\<rparr>)
           else load_message_pages pages mv account r room page_size acc') s"
      using load_page_read [OF archive Suc.prems] False by simp
    obtain res s1 where read: "read_back mv account r as page n 1 s = (res, s1)" by fastforce
    show ?thesis
    proof (cases "\<exists>xs. res = Ok xs \<and> \<not> pg_is_last (page n)")
      case False
      then have "\<not> reads_on mv account r as page ?wanted n 1 s"
        using read by (auto simp: reads_on_def split: outcome.split)
      with first have "1 \<le> Suc pages" "\<forall>i<1. reads_on mv account r as page ?wanted n i s"
        "\<not> (1 < Suc pages \<and> reads_on mv account r as page ?wanted n 1 s)" by simp_all
      moreover have "loads_as (lm_messages acc) (read_back mv account r as page n 1 s) (load_message_pages (Suc pages) mv account r room page_size acc s)"
        using False unfolding loop bindM_def read by (cases res) (simp_all add: loads_as_def return_def add_archived_all)
      ultimately show ?thesis by blast
    next
      case True
      then obtain xs where xs: "res = Ok xs" and more: "\<not> pg_is_last (page n)" by blast
      let ?acc = "fold add_archived xs (acc\<lparr>lm_last_message_id := first_id (pg_messages (page n))\<rparr>)"
      have pos: "at_position as (lm_last_message_id ?acc) (page_start page n)"
        using honest_page(4) [OF archive Suc.prems more] by (simp add: add_archived_all)
      have wanted: "page_size - lm_num_text_messages ?acc = ?wanted - num_texts xs"
        by (simp add: add_archived_all num_texts_def)
      note read = read [unfolded xs]
      obtain m where m: "m \<le> pages" "\<forall>i<m. reads_on mv account r as page (page_size - lm_num_text_messages ?acc) (page_start page n) i s1"
        "\<not> (m < pages \<and> reads_on mv account r as page (page_size - lm_num_text_messages ?acc) (page_start page n) m s1)" and
        rest: "loads_as (lm_messages ?acc) (read_back mv account r as page (page_start page n) m s1)
          (load_message_pages pages mv account r room page_size ?acc s1)"
        using Suc.IH [OF pos, where s = s1] by (elim exE conjE) (rule that)
      have load: "load_message_pages (Suc pages) mv account r room page_size acc s = load_message_pages pages mv account r room page_size ?acc s1"
        unfolding loop using read more by (simp add: bindM_def)
      have "Suc m \<le> Suc pages" "\<forall>i<Suc m. reads_on mv account r as page ?wanted n i s"
        "\<not> (Suc m < Suc pages \<and> reads_on mv account r as page ?wanted n (Suc m) s)"
        using m first unfolding wanted by (auto simp: less_Suc_eq_0_disj reads_on_Suc [OF read more])
      moreover have "loads_as (lm_messages acc) (read_back mv account r as page n (Suc m) s) (load_message_pages (Suc pages) mv account r room page_size acc s)"
        using rest unfolding load read_back_Suc [OF read]
        by (auto simp: loads_as_def bindM_def return_def add_archived_all shown_def map_filter_append split: prod.splits outcome.splits)
      ultimately show ?thesis by blast
    qed
  qed
qed

lemma start_loading_parts:
  "lm_messages (start_loading before) = []" "n - lm_num_text_messages (start_loading before) = n"
  "lm_last_message_id (start_loading before) = before"
  by (simp_all add: start_loading_def)

text \<open>
  C26. Loading the messages before a point of the history reads one page after the other back from
  there, and goes on exactly as long as fewer pages have been read than may be loaded, fewer messages with text have been
  found than wanted, and the last page has not been read. It gives the messages with content of the pages it has read, from newest to
  oldest, without a gap and without reading any twice, as if all of them had come on one page; it
  fails only if reading one of these messages does, and with that error. The hypothesis is that the archive pages honestly.
\<close>

theorem loaded_history_exact:
  assumes "honest_history mv room page_size as page" "at_position as before n"
  shows "\<exists>m \<le> pages.
    (\<forall>i<m. reads_on mv account r as page page_size n i s) \<and> \<not> (m < pages \<and> reads_on mv account r as page page_size n m s) \<and>
    loads_as [] (read_back mv account r as page n m s) (load_message_pages pages mv account r room page_size (start_loading before) s)"
  using load_pages_exact [where acc = "start_loading before" and n = n and account = account and r = r and s = s and pages = pages,
      OF assms(1), unfolded start_loading_parts, OF assms(2)]
  by simp

section \<open>Failures\<close>








section \<open>Samples\<close>

definition sample_api :: "element message_services \<Rightarrow> element room_api" where
  "sample_api mv =
     \<lparr>ra_services = mv, ra_writer = sample_writer, ra_omemo = sample_sender, ra_html = id, ra_styling = id,
      ra_mentions = (\<lambda>_. []), ra_save_settings = (\<lambda>_ _ w. (Inr (), w)), ra_set_topic = (\<lambda>_ _ w. (Inr (), w))\<rparr>"

definition sample_chat :: room where
  "sample_chat = room_for_direct_message sample_peer ''a'' default_presence InSidebar default_features
     ((synced_settings_new (RUser sample_peer))\<lparr>ss_encryption_enabled := True\<rparr>)"

definition sample_api_state :: "room \<Rightarrow> element api_state" where
  "sample_api_state rm =
     \<lparr>as_client = sample_state\<lparr>cs_world := empty_world\<lparr>w_heap := [rm]\<rparr>\<rparr>, as_drafts = [], as_module = sample_context,
      as_omemo = sample_omemo_state\<rparr>"

definition sample_send_request :: send_request where
  "sample_send_request = \<lparr>sq_body = Some ''hi'', sq_attachments = []\<rparr>"

definition sample_log :: "element module_effect list" where
  "sample_log = mc_log (as_module (snd (room_send_message (sample_api sample_services) 0 sample_send_request (sample_api_state sample_chat))))"

lemma sample_log_length: "length sample_log = 1"
  by code_simp

theorem encrypted_room_sends_ciphertext_witness:
  "\<exists>e. sample_log = [e] \<and> sends_ciphertext (sample_api sample_services) sample_chat sample_omemo_state sample_send_request e"
proof -
  have "encrypts (room_of (sample_api_state sample_chat) 0)"
    by (simp add: sample_api_state_def sample_state_def encrypts_def sample_chat_def room_for_direct_message_def synced_settings_new_def)
  from encrypted_room_sends_ciphertext [where api = "sample_api sample_services" and rq = sample_send_request, OF this insertI1 refl]
  show ?thesis
    using sample_log_length
    by (simp add: sample_log_def) (auto simp: sample_api_state_def sample_state_def sample_context_def)
qed










text \<open>An archive of two messages, read from the end, one message per page.\<close>

definition backward_archive :: "element message_services" where
  "backward_archive = sample_services
     \<lparr>mv_load_messages_before := (\<lambda>_ i _. return
        (if i = None then \<lparr>pg_messages = [sample_archived ''2''], pg_is_last = False\<rparr>
         else if i = Some ''2'' then \<lparr>pg_messages = [sample_archived ''1''], pg_is_last = True\<rparr>
         else \<lparr>pg_messages = [], pg_is_last = True\<rparr>))\<rparr>"

definition backward_page :: "nat \<Rightarrow> element message_page" where
  "backward_page n = \<lparr>pg_messages = (if n = 2 then [sample_archived ''2''] else if n = 1 then [sample_archived ''1''] else []), pg_is_last = n < 2\<rparr>"

lemma backward_archive_honest: "honest_history backward_archive room page_size [sample_archived ''1'', sample_archived ''2''] backward_page"
  by (auto simp: honest_history_def at_position_def page_before_def backward_archive_def backward_page_def return_def sample_archived_def
      less_Suc_eq suffix_def)

theorem loaded_history_exact_witness:
  "\<exists>m \<le> 5. \<not> (m < 5 \<and> reads_on backward_archive own_account 0 [sample_archived ''1'', sample_archived ''2''] backward_page 100 2 m sample_state) \<and>
    loads_as [] (read_back backward_archive own_account 0 [sample_archived ''1'', sample_archived ''2''] backward_page 2 m sample_state)
      (load_message_pages 5 backward_archive own_account 0 sample_room 100 (start_loading None) sample_state)"
proof -
  have "at_position [sample_archived ''1'', sample_archived ''2''] None 2" by (simp add: at_position_def)
  from loaded_history_exact [where account = own_account and r = 0 and s = sample_state and pages = 5 and room = sample_room and page_size = 100,
      OF backward_archive_honest this]
  show ?thesis by blast
qed





end
