(* ===== verification/Spec2Isabelle.thy ===== *)
theory Spec2Isabelle
  imports Messages StringIndex SortBy Events UserInfoService MessageEvents RoomStatistics MucService Encryption RoomApi
begin

text \<open>
  A verification development for the Prose core client, the library behind the Prose XMPP apps.

  \<^bold>\<open>The program.\<close> The client keeps the rooms a user is in (direct messages, groups and channels),
  their participants, bookmarks and messages, and the users they know. The connection delivers
  stanzas; a parser turns them into server events, a queue of handlers applies these to the state
  through domain services, and the client is told of changes by client events that are coalesced and
  throttled on their way. The application calls the same services through the sidebar, the rooms and
  the contacts.

  \<^bold>\<open>Theories.\<close> Paths are relative to \<^verbatim>\<open>src/crates/prose-core-client/src\<close> unless they
  name another crate.

  \<^item> \<open>Prelude\<close>: results, vectors, insertion-ordered maps, strings as UTF-8 bytes.
  \<^item> \<open>Ids\<close>: the identifiers of \<^verbatim>\<open>domain/shared/models\<close> and display names. JIDs are their
    parts; the parser of the \<^verbatim>\<open>jid\<close> crate is a parameter.
  \<^item> \<open>StringIndex\<close>: UTF-8, UTF-16 and scalar indices (\<^verbatim>\<open>string_index.rs\<close>), with the locale
    \<open>unit_encoding\<close> interpreted for both encodings.
  \<^item> \<open>SortBy\<close>: stable sorting and \<^verbatim>\<open>dedup_by\<close>, with the locales \<open>comparator\<close> and
    \<open>merging\<close>.
  \<^item> \<open>Messages\<close>: the history of a conversation and its reduction to the messages shown
    (\<^verbatim>\<open>domain/messaging/models\<close>).
  \<^item> \<open>Presences\<close>, \<open>UserInfo\<close>, \<open>UserInfoService\<close>: presences, names, avatars and
    profiles of users (\<^verbatim>\<open>infra/user_info\<close>, \<^verbatim>\<open>domain/user_info\<close>).
  \<^item> \<open>Participants\<close>, \<open>RoomTypes\<close>, \<open>Rooms\<close>: the participants of a room, the types
    of rooms, rooms on a heap and their repository (\<^verbatim>\<open>domain/rooms\<close>, \<^verbatim>\<open>infra/rooms\<close>),
    with the locale \<open>rooms_repository\<close>.
  \<^item> \<open>Events\<close>: client events, their coalescing and dispatch.
  \<^item> \<open>World\<close>: the state of the client and the programs that change it; a program returns
    a value, an error, a panic or runs out of fuel.
  \<^item> \<open>RoomsDomain\<close>, \<open>Sidebar\<close>: creating, joining, renaming and leaving rooms, and the
    sidebar (\<^verbatim>\<open>rooms_domain_service.rs\<close>, \<^verbatim>\<open>sidebar_domain_service.rs\<close>).
  \<^item> \<open>Stanzas\<close>, \<open>StanzaRoundtrips\<close>: the payloads of stanzas and their XML
    (\<^verbatim>\<open>crates/prose-xmpp/src/stanza\<close>). The XML library and the parsers of
    \<^verbatim>\<open>xmpp_parsers\<close> are fields of the record \<open>xml\<close>.
  \<^item> \<open>EventParser\<close>, \<open>RoomEvents\<close>: from stanzas to server events
    (\<^verbatim>\<open>infra/xmpp/event_parser\<close>), the handlers of events about rooms and the queue
    (\<^verbatim>\<open>app/event_handlers\<close>).
  \<^item> \<open>Store\<close>: keys, queries and collections of the storage layer
    (\<^verbatim>\<open>crates/prose-store\<close>) in both drivers, with the locale \<open>keyed_entity\<close>.
  \<^item> \<open>MessageRepo\<close>: messages, drafts and settings over these collections
    (\<^verbatim>\<open>infra/messaging\<close>, \<^verbatim>\<open>infra/settings\<close>).
  \<^item> \<open>Texts\<close>, \<open>MessageParser\<close>: from message stanzas to the messages of a history
    (\<^verbatim>\<open>domain/messaging/models/message_parser.rs\<close>). URLs, media types, hashes and the
    rendering of Markdown are parameters.
  \<^item> \<open>Chat\<close>: the chat module (\<^verbatim>\<open>crates/prose-xmpp/src/mods/chat.rs\<close>) and the service that
    sends messages through it (\<^verbatim>\<open>infra/messaging/messaging_service.rs\<close>); what is sent is read
    back by the parser.
  \<^item> \<open>MessageEvents\<close>: messages that arrive, are caught up with or copied
    (\<^verbatim>\<open>messages_event_handler.rs\<close> and the services over the archive).
  \<^item> \<open>RoomStatistics\<close>: how many messages of a room are unread and mention the user
    (\<^verbatim>\<open>update_statistics_if_needed\<close> of \<^verbatim>\<open>domain/rooms/models/room.rs\<close>), read from the
    message repository while other tasks may change the room.
  \<^item> \<open>Requests\<close>: pending requests of the connection, the reducers that wait for several
    stanzas, and timeouts (\<^verbatim>\<open>crates/prose-xmpp/src/client\<close>, \<^verbatim>\<open>util\<close> and the futures of
    the modules).
  \<^item> \<open>RoomConfig\<close>, \<open>MucService\<close>: configuration forms, specifications of rooms, and the
    services that create, join, configure and destroy rooms (\<^verbatim>\<open>util/form_config.rs\<close>,
    \<^verbatim>\<open>infra/rooms\<close>, \<^verbatim>\<open>crates/prose-xmpp/src/mods/muc\<close>). The server is a parameter.
  \<^item> \<open>OmemoRepos\<close>, \<open>Encryption\<close>: sessions, devices and keys, with the locale
    \<open>device_entity\<close>, and the service that encrypts and decrypts messages
    (\<^verbatim>\<open>infra/encryption\<close>, \<^verbatim>\<open>domain/encryption\<close>). The Signal protocol and AES-GCM are
    parameters.
  \<^item> \<open>RoomApi\<close>: what the application does with a room (\<^verbatim>\<open>app/services/room.rs\<close>): sending,
    correcting and retracting messages, loading the history, read markers, drafts, encryption,
    invitations. It runs over the state of all the services above.

  This theory holds what spans components: a run of the client interleaves sidebar operations,
  events and changes of the connection, and keeps the rooms in order.

  \<^bold>\<open>Services.\<close> What the code calls through traits and that is not modelled (the server, the
  clock, stores of other data) is a field of a record of functions on the state, so that other tasks
  may run during each call; hypotheses such as \<open>services_keep\<close> say what such a call must keep.

  \<^bold>\<open>Fuel.\<close> The loops that follow redirects between rooms and the mutual recursion of joining and
  reconnecting take a bound on their depth; running out of it is the outcome \<open>NoFuel\<close>, and the
  theorems about them hold for every bound or state the bound that is enough. The search for a free
  nickname has the bound of the source (ten attempts).

  \<^bold>\<open>Not modelled.\<close> The connectors and the modules of \<^verbatim>\<open>prose-xmpp\<close> for bookmarks, block
  lists, capabilities, profiles, the roster, uploads and OMEMO stanzas; the services of
  \<^verbatim>\<open>app/services\<close> other than that of a room; rendering of Markdown, procedural
  macros, the bindings for other languages and the command line examples: they are input and output,
  code generation or calls into third-party code.
\<close>

section \<open>The client\<close>

text \<open>
  What changes the rooms of a client: the operations of the sidebar that the application calls, the
  events that the connection delivers, and changes of the connection itself, in any order.
\<close>

inductive client_run :: "'e xml \<Rightarrow> 'e parser_config \<Rightarrow> event_services \<Rightarrow> world \<Rightarrow> world \<Rightarrow> bool" for x pc ev where
  client_start: "client_run x pc ev w w"
| client_op: "client_run x pc ev w w' \<Longrightarrow> client_run x pc ev w (snd (run_sidebar_op fuel (ev_rooms ev) operation w'))"
| client_event: "client_run x pc ev w w' \<Longrightarrow> client_run x pc ev w (snd (handle_event x pc (room_handlers fuel ev) event w'))"
| client_connection: "client_run x pc ev w w' \<Longrightarrow> client_run x pc ev w (w'\<lparr>w_ctx := cx\<rparr>)"

lemma keeps_client_event:
  "event_services_keep ev \<Longrightarrow> keeps R (handle_event x pc (room_handlers fuel ev) event) (\<lambda>_. {})"
  by (rule keeps_handle_event) (auto simp: room_handlers_def intro: keeps_handlers)

lemma client_run_keeps:
  assumes "client_run x pc ev w w'" "event_services_keep ev" "world_ok w"
  shows "world_ok w' \<and> extends w w'"
  using assms
proof induction
  case (client_op w w' fuel operation)
  with keepsD(1,2) [OF keeps_sidebar_op [OF event_services_keepD(1), of ev "{}" fuel operation], of w'] show ?case
    by (auto intro: extends_trans)
next
  case (client_event w w' fuel event)
  with keepsD(1,2) [OF keeps_client_event [of ev "{}" x pc fuel event], of w'] show ?case
    by (auto intro: extends_trans)
next
  case (client_connection w w' cx)
  then show ?case by (simp add: world_ok_def extends_def)
qed simp

text \<open>
  C3. Through any run of the client, that is any sequence of sidebar operations with any arguments,
  any events from the connection, any answers of the server and any changes of the connection in
  between, whichever way each step ends, every connected room is found under its own JID and under no
  other, and a room once made keeps its identity.
\<close>

theorem client_keeps_rooms:
  assumes "event_services_keep ev" "world_ok w" "client_run x pc ev w w'"
  shows "(\<forall>j r. repo_get (w_rooms w') j = Some r \<longrightarrow>
            valid r w' \<and> into_bare (ri_room_id (r_info (w_heap w' ! r))) = j) \<and>
    (\<forall>j j' r. repo_get (w_rooms w') j = Some r \<and> repo_get (w_rooms w') j' = Some r \<longrightarrow> j = j') \<and>
    (\<forall>r. valid r w \<longrightarrow> valid r w' \<and> r_info (w_heap w' ! r) = r_info (w_heap w ! r))"
  using client_run_keeps [OF assms(3,1,2)] by (intro rooms_found) simp_all

theorem client_keeps_rooms_witness:
  "valid 0 (snd (handle_event tree_xml ex_parser (room_handlers 1 quiet_event_services)
     (XPresence (ex_presence_stanza (JBare (muc_jid ex_muc)) PNone [])) group_world))"
proof -
  have "event_services_keep quiet_event_services"
    by (simp add: event_services_keep_def quiet_event_services_def services_keep_quiet call_keeps_quiet)
  moreover have "client_run tree_xml ex_parser quiet_event_services group_world
      (snd (handle_event tree_xml ex_parser (room_handlers 1 quiet_event_services)
        (XPresence (ex_presence_stanza (JBare (muc_jid ex_muc)) PNone [])) group_world))"
    by (rule client_event [OF client_start])
  ultimately show ?thesis
    using client_keeps_rooms [OF _ group_world_ok] group_world_room(3) by blast
qed

end
